(* ===== verification/Flua_Prelude.thy ===== *)
theory Flua_Prelude
  imports Main "HOL-Library.Word"
begin

text \<open>
  Prelude of the development: the computation type in which every C function of the
  modules is written, the rules that carry proofs about it, and the list lemmas the
  Lua stack needs.

  A C function that works on a \<^verbatim>\<open>lua_State\<close> is a function from a state to a pair of an
  outcome and the state it leaves. The outcome is \<open>Inr v\<close> for a C function that returns
  \<open>v\<close>, and \<open>Inl e\<close> for one that does not return to its caller (a Lua error is a
  \<^verbatim>\<open>longjmp\<close>, a failed assertion aborts, \<dots>). The state after \<open>Inl e\<close> matters too: it
  shows what was freed, closed or left behind on an error path.
\<close>

section \<open>Computations\<close>

type_synonym ('s, 'e, 'a) comp = "'s \<Rightarrow> ('e + 'a) \<times> 's"

definition ret :: "'a \<Rightarrow> ('s, 'e, 'a) comp" where
  "ret a w = (Inr a, w)"

definition throw :: "'e \<Rightarrow> ('s, 'e, 'a) comp" where
  "throw e w = (Inl e, w)"

definition lbind :: "('s, 'e, 'a) comp \<Rightarrow> ('a \<Rightarrow> ('s, 'e, 'b) comp) \<Rightarrow> ('s, 'e, 'b) comp" where
  "lbind m f w = (case m w of (r, w') \<Rightarrow> (case r of Inl e \<Rightarrow> (Inl e, w') | Inr a \<Rightarrow> f a w'))"

definition seq :: "('s, 'e, 'a) comp \<Rightarrow> ('s, 'e, 'b) comp \<Rightarrow> ('s, 'e, 'b) comp" where
  "seq m k = lbind m (\<lambda>_. k)"

text \<open>The collections that the component theories extend.\<close>

named_theorems lua_run
  \<open>equations that execute one call on a known stack\<close>

named_theorems keeps_rules
  \<open>introduction rules for state predicates that a computation preserves\<close>

lemma ret_run [simp]: "ret a w = (Inr a, w)"
  by (simp add: ret_def)

lemma throw_run [simp]: "throw e w = (Inl e, w)"
  by (simp add: throw_def)

lemma seq_run [lua_run]: "seq m k w = lbind m (\<lambda>_. k) w"
  by (simp add: seq_def)

lemmas lbind_run [lua_run] = lbind_def Let_def

lemma lbind_ret [simp]: "lbind (ret a) f = f a"
  by (rule ext) (simp add: lbind_def)

lemma lbind_throw [simp]: "lbind (throw e) f = throw e"
  by (rule ext) (simp add: lbind_def)

lemma lbind_ret_right [simp]: "lbind m ret = m"
  by (rule ext) (simp add: lbind_def split: prod.splits sum.splits)

lemma lbind_assoc: "lbind (lbind m f) g = lbind m (\<lambda>a. lbind (f a) g)"
  by (rule ext) (simp add: lbind_def split: prod.splits sum.splits)

lemma lbind_value: "fst (m w) = Inr a \<Longrightarrow> lbind m f w = f a (snd (m w))"
  by (simp add: lbind_def split_beta)

lemma lbind_error: "fst (m w) = Inl e \<Longrightarrow> lbind m f w = (Inl e, snd (m w))"
  by (simp add: lbind_def split_beta)

section \<open>Pre- and postconditions\<close>

text \<open>
  \<open>valid P m Q R\<close>: started in a state that satisfies \<open>P\<close>, the computation ends with a
  value and a state related by \<open>Q\<close>, or does not return and then its exception and state
  are related by \<open>R\<close>. Computations are total functions, so this is total correctness.
\<close>

definition valid ::
  "('s \<Rightarrow> bool) \<Rightarrow> ('s, 'e, 'a) comp \<Rightarrow> ('a \<Rightarrow> 's \<Rightarrow> bool) \<Rightarrow> ('e \<Rightarrow> 's \<Rightarrow> bool) \<Rightarrow> bool" where
  "valid P m Q R \<longleftrightarrow>
     (\<forall>w. P w \<longrightarrow> (case m w of (Inr a, w') \<Rightarrow> Q a w' | (Inl e, w') \<Rightarrow> R e w'))"

lemma validI:
  assumes "\<And>w. P w \<Longrightarrow> case m w of (Inr a, w') \<Rightarrow> Q a w' | (Inl e, w') \<Rightarrow> R e w'"
  shows "valid P m Q R"
  using assms by (simp add: valid_def)

lemma valid_Inr: "valid P m Q R \<Longrightarrow> P w \<Longrightarrow> m w = (Inr a, w') \<Longrightarrow> Q a w'"
  by (fastforce simp: valid_def)

lemma valid_Inl: "valid P m Q R \<Longrightarrow> P w \<Longrightarrow> m w = (Inl e, w') \<Longrightarrow> R e w'"
  by (fastforce simp: valid_def)

lemma valid_ret [intro]: "(\<And>w. P w \<Longrightarrow> Q a w) \<Longrightarrow> valid P (ret a) Q R"
  by (simp add: valid_def)

lemma valid_throw [intro]: "(\<And>w. P w \<Longrightarrow> R e w) \<Longrightarrow> valid P (throw e) Q R"
  by (simp add: valid_def)

lemma valid_lbind:
  assumes m: "valid P m A R" and f: "\<And>a. valid (A a) (f a) Q R"
  shows "valid P (lbind m f) Q R"
proof (rule validI)
  fix w assume P: "P w"
  obtain r w' where run: "m w = (r, w')" by (cases "m w")
  show "case lbind m f w of (Inr a, w') \<Rightarrow> Q a w' | (Inl e, w') \<Rightarrow> R e w'"
  proof (cases r)
    case (Inl e)
    with valid_Inl [OF m P] run show ?thesis by (simp add: lbind_def)
  next
    case (Inr a)
    with valid_Inr [OF m P] run have "A a w'" by simp
    with f [of a] Inr run show ?thesis by (simp add: lbind_def valid_def)
  qed
qed

lemma valid_weaken:
  assumes "valid P' m Q' R'" and "\<And>w. P w \<Longrightarrow> P' w"
    and "\<And>a w. Q' a w \<Longrightarrow> Q a w" and "\<And>e w. R' e w \<Longrightarrow> R e w"
  shows "valid P m Q R"
  using assms by (fastforce simp: valid_def split: prod.splits sum.splits)

lemma valid_if:
  assumes "b \<Longrightarrow> valid P m Q R" and "\<not> b \<Longrightarrow> valid P k Q R"
  shows "valid P (if b then m else k) Q R"
  using assms by simp

text \<open>
  \<open>keeps P m\<close>: the computation preserves \<open>P\<close> on every path, its error paths included.
\<close>

definition keeps :: "('s \<Rightarrow> bool) \<Rightarrow> ('s, 'e, 'a) comp \<Rightarrow> bool" where
  "keeps P m \<longleftrightarrow> (\<forall>w. P w \<longrightarrow> P (snd (m w)))"

lemma keepsI: "(\<And>w. P w \<Longrightarrow> P (snd (m w))) \<Longrightarrow> keeps P m"
  by (simp add: keeps_def)

lemma keepsD: "keeps P m \<Longrightarrow> P w \<Longrightarrow> P (snd (m w))"
  by (simp add: keeps_def)

lemma keeps_run: "keeps P m \<Longrightarrow> P w \<Longrightarrow> m w = (r, w') \<Longrightarrow> P w'"
  by (auto dest: keepsD)

lemma keeps_ret [keeps_rules]: "keeps P (ret a)"
  by (rule keepsI) simp

lemma keeps_throw [keeps_rules]: "keeps P (throw e)"
  by (rule keepsI) simp

lemma keeps_lbind [keeps_rules]:
  assumes "keeps P m" and "\<And>a. keeps P (f a)"
  shows "keeps P (lbind m f)"
  using assms by (auto simp: keeps_def lbind_def split: prod.splits sum.splits)

lemma keeps_seq [keeps_rules]: "keeps P m \<Longrightarrow> keeps P k \<Longrightarrow> keeps P (seq m k)"
  by (simp add: seq_def keeps_lbind)

lemma keeps_if [keeps_rules]:
  "(b \<Longrightarrow> keeps P m) \<Longrightarrow> (\<not> b \<Longrightarrow> keeps P k) \<Longrightarrow> keeps P (if b then m else k)"
  by simp

lemma keeps_Let [keeps_rules]: "keeps P (f x) \<Longrightarrow> keeps P (Let x f)"
  by (simp add: Let_def)

lemma keeps_case_option [keeps_rules]:
  "(v = None \<Longrightarrow> keeps P m) \<Longrightarrow> (\<And>x. v = Some x \<Longrightarrow> keeps P (f x)) \<Longrightarrow>
   keeps P (case v of None \<Rightarrow> m | Some x \<Rightarrow> f x)"
  by (cases v) auto

lemma keeps_case_prod [keeps_rules]:
  "(\<And>x y. v = (x, y) \<Longrightarrow> keeps P (f x y)) \<Longrightarrow> keeps P (case v of (x, y) \<Rightarrow> f x y)"
  by (cases v) auto

section \<open>Lists\<close>

lemma nth_append_last [simp]: "(xs @ [x]) ! length xs = x"
  by simp

lemma drop_append_length [simp]: "drop (length xs) (xs @ ys) = ys"
  by simp

lemma take_append_length [simp]: "take (length xs) (xs @ ys) = xs"
  by simp

lemma butlast_eq_take: "butlast xs = take (length xs - 1) xs"
  by (simp add: butlast_conv_take)

section \<open>Integer conversions of C\<close>

text \<open>
  \<^verbatim>\<open>lua_Integer\<close> is a signed 64-bit integer; a model value of it is an \<open>int\<close>. Assigning
  one to a narrower C type keeps the low bits: the conversions are written out below.
\<close>

definition to_int :: "int \<Rightarrow> int" where
  "to_int i = signed_take_bit 31 i"

definition to_uint :: "int \<Rightarrow> int" where
  "to_uint i = take_bit 32 i"

definition to_ushort :: "int \<Rightarrow> int" where
  "to_ushort i = take_bit 16 i"

definition to_short :: "int \<Rightarrow> int" where
  "to_short i = signed_take_bit 15 i"

definition to_size_t :: "int \<Rightarrow> int" where
  "to_size_t i = take_bit 64 i"

definition to_lua_Integer :: "int \<Rightarrow> int" where
  "to_lua_Integer i = signed_take_bit 63 i"

lemma to_int_id: "- (2 ^ 31) \<le> i \<Longrightarrow> i < 2 ^ 31 \<Longrightarrow> to_int i = i"
  by (simp add: to_int_def signed_take_bit_int_eq_self)

lemma to_uint_id: "0 \<le> i \<Longrightarrow> i < 2 ^ 32 \<Longrightarrow> to_uint i = i"
  by (simp add: to_uint_def take_bit_int_eq_self)

lemma to_size_t_id: "0 \<le> i \<Longrightarrow> i < 2 ^ 64 \<Longrightarrow> to_size_t i = i"
  by (simp add: to_size_t_def take_bit_int_eq_self)

lemma to_lua_Integer_id: "- (2 ^ 63) \<le> i \<Longrightarrow> i < 2 ^ 63 \<Longrightarrow> to_lua_Integer i = i"
  by (simp add: to_lua_Integer_def signed_take_bit_int_eq_self)

end
