(* ===== verification/World.thy ===== *)
theory World
  imports Flua_Prelude
begin

text \<open>
  The data the modules work on: Lua values, the objects a Lua value can refer to, the C
  heap objects of the pthread module, the external calls, and the one state record
  \<open>world\<close> that every C function transforms.

  The Lua interpreter is the host language of the modules. Its values and its stack
  discipline follow sections 2.1, 3.4 and 4 of the Lua 5.4 reference manual. What the
  manual leaves open, and everything outside the interpreter (libthr, libc, the kernel),
  is not defined here: it is the argument \<open>env\<close> of the definitions that use it.
\<close>

section \<open>Lua values\<close>

type_synonym lstate = nat \<comment> \<open>a \<^verbatim>\<open>lua_State *\<close>\<close>
type_synonym addr = nat   \<comment> \<open>a C pointer; 0 is \<^verbatim>\<open>NULL\<close>\<close>

text \<open>
  A \<^verbatim>\<open>lua_Number\<close> is an IEEE double: \<open>Fin m e\<close> is the value \<open>m * 2 ^ e\<close>.
\<close>

datatype dbl = Fin int int | PInf | NInf | NaN

definition dbl_trunc :: "dbl \<Rightarrow> int option" where
  "dbl_trunc d = (case d of
      Fin m e \<Rightarrow> Some (if 0 \<le> e then m * 2 ^ nat e else sgn m * (\<bar>m\<bar> div 2 ^ nat (- e)))
    | _ \<Rightarrow> None)"

definition dbl_integral :: "dbl \<Rightarrow> int option" where
  "dbl_integral d = (case d of
      Fin m e \<Rightarrow> (if 0 \<le> e then Some (m * 2 ^ nat e)
                  else if m mod 2 ^ nat (- e) = 0 then Some (m div 2 ^ nat (- e)) else None)
    | _ \<Rightarrow> None)"

datatype lval =
    LNil
  | LBoolean bool
  | LLightuserdata addr
  | LInteger int
  | LNumber dbl
  | LString string
  | LTable nat
  | LFunction nat
  | LUserdata nat
  | LThread lstate

datatype ltype =
    LUA_TNONE | LUA_TNIL | LUA_TBOOLEAN | LUA_TLIGHTUSERDATA | LUA_TNUMBER
  | LUA_TSTRING | LUA_TTABLE | LUA_TFUNCTION | LUA_TUSERDATA | LUA_TTHREAD

text \<open>The type codes of \<^verbatim>\<open>lua.h\<close>; \<^verbatim>\<open>lua_isnoneornil\<close> compares them.\<close>

fun tcode :: "ltype \<Rightarrow> int" where
  "tcode LUA_TNONE = -1"
| "tcode LUA_TNIL = 0"
| "tcode LUA_TBOOLEAN = 1"
| "tcode LUA_TLIGHTUSERDATA = 2"
| "tcode LUA_TNUMBER = 3"
| "tcode LUA_TSTRING = 4"
| "tcode LUA_TTABLE = 5"
| "tcode LUA_TFUNCTION = 6"
| "tcode LUA_TUSERDATA = 7"
| "tcode LUA_TTHREAD = 8"

lemma tcode_inj [simp]: "tcode a = tcode b \<longleftrightarrow> a = b"
  by (cases a; cases b) auto

instantiation ltype :: linorder
begin

definition less_eq_ltype :: "ltype \<Rightarrow> ltype \<Rightarrow> bool" where
  "less_eq_ltype a b \<longleftrightarrow> tcode a \<le> tcode b"

definition less_ltype :: "ltype \<Rightarrow> ltype \<Rightarrow> bool" where
  "less_ltype a b \<longleftrightarrow> tcode a < tcode b"

instance
  by standard (auto simp: less_eq_ltype_def less_ltype_def simp flip: tcode_inj)

end

fun type_of :: "lval \<Rightarrow> ltype" where
  "type_of LNil = LUA_TNIL"
| "type_of (LBoolean _) = LUA_TBOOLEAN"
| "type_of (LLightuserdata _) = LUA_TLIGHTUSERDATA"
| "type_of (LInteger _) = LUA_TNUMBER"
| "type_of (LNumber _) = LUA_TNUMBER"
| "type_of (LString _) = LUA_TSTRING"
| "type_of (LTable _) = LUA_TTABLE"
| "type_of (LFunction _) = LUA_TFUNCTION"
| "type_of (LUserdata _) = LUA_TUSERDATA"
| "type_of (LThread _) = LUA_TTHREAD"

lemma type_of_not_none [simp]: "type_of v \<noteq> LUA_TNONE"
  by (cases v) auto

lemma ltype_le_nil [simp]: "t \<le> LUA_TNIL \<longleftrightarrow> t = LUA_TNONE \<or> t = LUA_TNIL"
  by (cases t) (simp_all add: less_eq_ltype_def)

section \<open>Objects\<close>

text \<open>
  A table: its values at the keys \<open>1, \<dots>, n\<close>, those at other integers, and those at string
  keys. The modules use no other keys.
\<close>

record ltable =
  arr :: "lval list"
  ints :: "int \<Rightarrow> lval"
  strs :: "string \<Rightarrow> lval"

definition empty_table :: ltable where
  "empty_table = \<lparr>arr = [], ints = (\<lambda>_. LNil), strs = (\<lambda>_. LNil)\<rparr>"

text \<open>
  A full userdata: the name of its metatable in the registry, its user values, and what the
  module has written to its block of memory (one integer, for the modules that use the block).
\<close>

record udata =
  meta :: "string option"
  uvs :: "lval list"
  blk :: "int option"

text \<open>
  A closure: a C function or not, what \<^verbatim>\<open>lua_dump\<close> writes for it (its prototype), its
  upvalues with their names.
\<close>

record closure =
  is_c :: bool
  proto :: nat
  upvals :: "(string \<times> lval) list"

text \<open>
  The reference-counted structs of \<^verbatim>\<open>libpthread/lua_pthread.c\<close>. A member that is not
  written yet is \<open>None\<close>. The pthread objects themselves (\<^verbatim>\<open>pthread_mutex_t\<close> and so on) are
  opaque; libthr reaches them by the address of the struct.
\<close>

type_synonym refcount = "64 word" \<comment> \<open>\<^verbatim>\<open>unsigned long\<close>\<close>

datatype rcbody =
    Rcthread "int option"            \<comment> \<open>\<^verbatim>\<open>pthread_t thread\<close>\<close>
  | Rconce
  | Rcmutex
  | Rccond
  | Rcrwlock
  | Rckey "int option"               \<comment> \<open>\<^verbatim>\<open>pthread_key_t key\<close>\<close>
  | Rcbarrier
  | Rcrendezvous "lstate option option" \<comment> \<open>\<^verbatim>\<open>lua_State *waiter\<close>\<close>

datatype rckind =
  KThread | KOnce | KMutex | KCond | KRwlock | KKey | KBarrier | KRendezvous

fun kind_of :: "rcbody \<Rightarrow> rckind" where
  "kind_of (Rcthread _) = KThread"
| "kind_of Rconce = KOnce"
| "kind_of Rcmutex = KMutex"
| "kind_of Rccond = KCond"
| "kind_of Rcrwlock = KRwlock"
| "kind_of (Rckey _) = KKey"
| "kind_of Rcbarrier = KBarrier"
| "kind_of (Rcrendezvous _) = KRendezvous"

record rcobj =
  body :: rcbody
  refs :: "refcount option"

text \<open>
  The requests of \<^verbatim>\<open>aio/lua_aio.c\<close>: \<^verbatim>\<open>struct rcaiocb\<close> with the members of its \<^verbatim>\<open>struct aiocb\<close> that the module
  uses. \<^verbatim>\<open>aio_iov\<close> and \<^verbatim>\<open>aio_iovcnt\<close> are other names of \<^verbatim>\<open>aio_buf\<close> and \<^verbatim>\<open>aio_nbytes\<close> (\<^verbatim>\<open>aio.h\<close>); \<open>aio_iovs\<close> is the
  content of the array of iovecs at \<^verbatim>\<open>aio_buf\<close>, each a base address and a length.
\<close>

datatype aiocb_state = CB_UNINIT | CB_INIT | CB_PENDING | CB_RETURNING

record rcaiocb =
  aio_fildes :: int
  aio_offset :: int
  aio_buf :: int
  aio_nbytes :: int
  aio_iovs :: "(int \<times> int) list"
  aio_lio_opcode :: int
  aio_sigevent :: "(string \<times> int) list"
  aio_flags :: int
  aio_state :: aiocb_state
  cb_refs :: refcount
  cb_state :: aiocb_state

text \<open>
  The block of a userdata of \<^verbatim>\<open>sys/sysctl/lua_sysctl.c\<close>: \<^verbatim>\<open>struct mib\<close>. \<open>mib_oid\<close> is the whole array; the strings are
  \<^verbatim>\<open>NULL\<close>, or the address of a copy and its content.
\<close>

record mib =
  mib_oid :: "int list"
  mib_oidlen :: nat
  mib_prefix :: nat
  mib_kind :: int
  mib_format :: "(int \<times> string) option"
  mib_name :: "(int \<times> string) option"
  mib_description :: "(int \<times> string) option"

section \<open>External calls\<close>

text \<open>
  A call to a C library: the name of the function and the arguments that matter. A reply
  is the return value and the values stored through out-parameters.
\<close>

datatype carg = AInt int | APtr addr | AStr string | ANull

type_synonym ecall = "string \<times> carg list"

record cres =
  rc :: int
  outi :: "nat \<Rightarrow> int"
  outs :: string
  outv :: "nat \<Rightarrow> string" \<comment> \<open>the strings of an array of strings\<close>

section \<open>The world\<close>

record world =
  stacks :: "lstate \<Rightarrow> lval list option" \<comment> \<open>the live Lua states, bottom of the stack first\<close>
  registry :: "lstate \<Rightarrow> lval"           \<comment> \<open>registry entry at the key \<^verbatim>\<open>getcleanupstack\<close>\<close>
  tabs :: "nat \<Rightarrow> ltable option"
  uds :: "nat \<Rightarrow> udata option"           \<comment> \<open>userdata not yet collected\<close>
  clos :: "nat \<Rightarrow> closure option"
  mem :: "addr \<Rightarrow> rcobj option"          \<comment> \<open>live \<^verbatim>\<open>malloc\<close> blocks\<close>
  cbs :: "addr \<Rightarrow> rcaiocb option"        \<comment> \<open>live requests of asynchronous I/O\<close>
  mibs :: "nat \<Rightarrow> mib option"             \<comment> \<open>the blocks of the userdata of \<^verbatim>\<open>sysctl\<close>\<close>
  fresh :: nat                           \<comment> \<open>no object has this or a larger number\<close>
  trace :: "ecall list"                  \<comment> \<open>external calls made so far, newest first\<close>

text \<open>
  How a C function fails to return: the Lua errors of \<^verbatim>\<open>luaL_argerror\<close>, \<^verbatim>\<open>luaL_typeerror\<close>,
  \<^verbatim>\<open>luaL_error\<close> and \<^verbatim>\<open>lua_error\<close>, a failed \<^verbatim>\<open>assert\<close>, undefined behaviour of C (or of an API
  function called outside its contract), \<^verbatim>\<open>pthread_exit\<close> with its argument, and unbounded
  recursion.
\<close>

datatype exc =
    ArgError int string
  | TypeError int string
  | LError string
  | ErrValue lval
  | AssertFailed
  | Undef
  | ThreadExit lstate
  | NoFuel

type_synonym 'a lua = "(world, exc, 'a) comp"

text \<open>
  What the code does not determine, as arguments of the definitions:
  \<^item> \<open>reply\<close>: the reply of an external call, given all calls made before it;
  \<^item> \<open>strerror\<close>: the text of an error number;
  \<^item> \<open>str2number\<close> and \<open>number2str\<close>: the conversions between numbers and strings (section
    3.4.3 of the manual);
  \<^item> \<open>border\<close>: the border that the length operator picks for a table (section 3.4.7 of the
    manual allows any border where there are several);
  \<^item> \<open>bufslot\<close>: whether \<^verbatim>\<open>luaL_buffinit\<close> takes a stack slot (section 5.1 of the manual lets a
    buffer use a variable number of slots; Lua takes one since 5.4.3 and none before);
  \<^item> \<open>globals\<close>: the global environment of a state;
  \<^item> \<open>mtable\<close>: the table that is registered as the metatable of a name (\<^verbatim>\<open>luaL_newmetatable\<close>);
  \<^item> \<open>cdepth\<close>: how deeply \<^verbatim>\<open>copyn\<close> can recurse before the C stack ends;
  \<^item> \<open>const\<close>: the value of a constant of the system headers;
  \<^item> \<open>lcall\<close>: calling a Lua value with arguments: an error object or the results;
  \<^item> \<open>block\<close>: everything other threads do while this one is blocked in the given call.
\<close>

record env =
  reply :: "ecall list \<Rightarrow> ecall \<Rightarrow> cres"
  strerror :: "int \<Rightarrow> string"
  str2number :: "string \<Rightarrow> lval option"
  number2str :: "lval \<Rightarrow> string"
  border :: "lval list \<Rightarrow> nat"
  bufslot :: bool
  globals :: "lstate \<Rightarrow> lval"
  mtable :: "string \<Rightarrow> nat"
  cdepth :: nat
  const :: "string \<Rightarrow> int"
  lcall :: "lval \<Rightarrow> lval list \<Rightarrow> world \<Rightarrow> (lval + lval list) \<times> world"
  block :: "ecall \<Rightarrow> world \<Rightarrow> int \<times> world"

text \<open>The documented contract of the length operator.\<close>

definition is_border :: "lval list \<Rightarrow> nat \<Rightarrow> bool" where
  "is_border xs n \<longleftrightarrow> n \<le> length xs
     \<and> (n = 0 \<or> xs ! (n - 1) \<noteq> LNil) \<and> (n = length xs \<or> xs ! n = LNil)"

definition border_ok :: "env \<Rightarrow> bool" where
  "border_ok E \<longleftrightarrow> (\<forall>xs. is_border xs (border E xs))"

text \<open>A sequence (no nil among its elements) has exactly one border: its length.\<close>

lemma is_border_sequence:
  assumes "LNil \<notin> set xs"
  shows "is_border xs n \<longleftrightarrow> n = length xs"
proof -
  have "n < length xs \<Longrightarrow> xs ! n \<noteq> LNil"
    using assms by (metis nth_mem)
  moreover have "n = length xs \<Longrightarrow> n \<noteq> 0 \<Longrightarrow> xs ! (n - 1) \<noteq> LNil"
    using assms by (metis diff_less length_greater_0_conv less_numeral_extra(1) list.size(3) nth_mem)
  ultimately show ?thesis
    unfolding is_border_def by linarith
qed

lemma border_sequence: "border_ok E \<Longrightarrow> LNil \<notin> set xs \<Longrightarrow> border E xs = length xs"
  by (metis border_ok_def is_border_sequence)

section \<open>A concrete environment\<close>

text \<open>
  An environment in which every library call succeeds, calls of Lua functions return nothing,
  and nobody else runs: the hypotheses on environments can be met.
\<close>

definition reply0 :: "ecall list \<Rightarrow> ecall \<Rightarrow> cres" where
  "reply0 tr c = \<lparr>rc = (if fst c = ''malloc'' \<or> fst c = ''luaL_newstate'' then 1 else 0),
                  outi = (\<lambda>_. 7), outs = [], outv = (\<lambda>_. [])\<rparr>"

text \<open>Strings as numbers, one number for each string.\<close>

primrec string_code :: "string \<Rightarrow> nat" where
  "string_code [] = 0"
| "string_code (c # s) = 256 * string_code s + of_char c + 1"

lemma string_code_eq [simp]: "string_code s = string_code t \<longleftrightarrow> s = t"
proof (induction s arbitrary: t)
  case Nil
  show ?case by (cases t) auto
next
  case (Cons c s)
  show ?case
  proof (cases t)
    case (Cons d r)
    have "string_code s = string_code r \<and> c = d" if "256 * string_code s + of_char c = 256 * string_code r + (of_char d :: nat)"
    proof -
      have "(256 * string_code s + of_char c) mod 256 = (256 * string_code r + of_char d) mod (256 :: nat)"
        and "(256 * string_code s + of_char c) div 256 = (256 * string_code r + of_char d) div (256 :: nat)"
        using that by simp_all
      then show ?thesis by simp
    qed
    with Cons Cons.IH show ?thesis by auto
  qed simp
qed

definition env0 :: env where
  "env0 = \<lparr>reply = reply0, strerror = (\<lambda>_. []), str2number = (\<lambda>_. None), number2str = (\<lambda>_. []),
     border = (\<lambda>xs. length (takeWhile (\<lambda>v. v \<noteq> LNil) xs)), bufslot = True, globals = (\<lambda>_. LNil),
     mtable = string_code, cdepth = 2, const = (\<lambda>_. 1), lcall = (\<lambda>_ _ w. (Inr [], w)), block = (\<lambda>_ w. (0, w))\<rparr>"

lemma env0_sel [simp]:
  "reply env0 = reply0" "bufslot env0" "cdepth env0 = 2" "const env0 name = 1"
  "border env0 xs = length (takeWhile (\<lambda>v. v \<noteq> LNil) xs)"
  "mtable env0 = string_code" "lcall env0 f as w = (Inr [], w)" "block env0 c w = (0, w)" "strerror env0 e = []"
  by (simp_all add: env0_def)

lemma reply0_sel [simp]:
  "rc (reply0 tr c) = (if fst c = ''malloc'' \<or> fst c = ''luaL_newstate'' then 1 else 0)"
  "outi (reply0 tr c) i = 7"
  by (simp_all add: reply0_def)

lemma border_ok_env0: "border_ok env0"
proof -
  have "is_border xs (length (takeWhile (\<lambda>v. v \<noteq> LNil) xs))" for xs
  proof (induction xs)
    case Nil
    show ?case by (simp add: is_border_def)
  next
    case (Cons x xs)
    then show ?case by (cases "takeWhile (\<lambda>v. v \<noteq> LNil) xs") (auto simp: is_border_def nth_Cons')
  qed
  then show ?thesis by (simp add: border_ok_def)
qed

text \<open>A world with the given stacks and nothing else.\<close>

definition world0 :: "(lstate \<Rightarrow> lval list option) \<Rightarrow> world" where
  "world0 st = \<lparr>stacks = st, registry = (\<lambda>_. LNil), tabs = (\<lambda>_. None), uds = (\<lambda>_. None),
     clos = (\<lambda>_. None), mem = (\<lambda>_. None), cbs = (\<lambda>_. None), mibs = (\<lambda>_. None), fresh = 10, trace = []\<rparr>"

lemma world0_sel [simp]:
  "stacks (world0 st) = st" "uds (world0 st) = (\<lambda>_. None)" "mem (world0 st) = (\<lambda>_. None)"
  "fresh (world0 st) = 10" "trace (world0 st) = []" "tabs (world0 st) = (\<lambda>_. None)"
  "clos (world0 st) = (\<lambda>_. None)" "cbs (world0 st) = (\<lambda>_. None)" "mibs (world0 st) = (\<lambda>_. None)" "registry (world0 st) = (\<lambda>_. LNil)"
  by (simp_all add: world0_def)

end
