(* ===== verification/Lua_Api.thy ===== *)
theory Lua_Api
  imports World
begin

text \<open>
  The functions of the Lua C API that the modelled modules call, as section 4 and 5 of the
  Lua 5.4 reference manual document them, and the access to external calls and to the C
  heap. Every function is a computation on the \<open>world\<close>; a call outside the documented
  contract (a dead state, an index that is not acceptable, a pop below the bottom) is
  \<open>Undef\<close>. The room of the stack (\<^verbatim>\<open>lua_checkstack\<close>), metamethods and garbage collection of
  plain Lua objects are not modelled.
\<close>

section \<open>Stack access\<close>

definition askst :: "lstate \<Rightarrow> (lval list \<Rightarrow> 'a) \<Rightarrow> 'a lua" where
  "askst L f w = (case stacks w L of None \<Rightarrow> (Inl Undef, w) | Some s \<Rightarrow> (Inr (f s), w))"

definition setst :: "lstate \<Rightarrow> lval list \<Rightarrow> world \<Rightarrow> world" where
  "setst L s w = w\<lparr>stacks := (stacks w)(L \<mapsto> s)\<rparr>"

definition modst :: "lstate \<Rightarrow> (lval list \<Rightarrow> lval list option) \<Rightarrow> unit lua" where
  "modst L f w = (case stacks w L of
      None \<Rightarrow> (Inl Undef, w)
    | Some s \<Rightarrow> (case f s of None \<Rightarrow> (Inl Undef, w) | Some s' \<Rightarrow> (Inr (), setst L s' w)))"

text \<open>Position (from 0) of an acceptable index, and the value there.\<close>

definition pos :: "lval list \<Rightarrow> int \<Rightarrow> nat option" where
  "pos s i = (if 1 \<le> i \<and> i \<le> int (length s) then Some (nat i - 1)
              else if i \<le> -1 \<and> - i \<le> int (length s) then Some (length s - nat (- i))
              else None)"

definition at :: "lval list \<Rightarrow> int \<Rightarrow> lval option" where
  "at s i = map_option ((!) s) (pos s i)"

lemma pos_less: "pos s i = Some p \<Longrightarrow> p < length s"
  by (auto simp: pos_def split: if_splits)

lemma pos_pos [simp]: "1 \<le> i \<Longrightarrow> i \<le> int (length s) \<Longrightarrow> pos s i = Some (nat i - 1)"
  by (simp add: pos_def)

lemma pos_neg [simp]: "i \<le> -1 \<Longrightarrow> - i \<le> int (length s) \<Longrightarrow> pos s i = Some (length s - nat (- i))"
  by (simp add: pos_def)

lemma at_top [simp]: "at (s @ [v]) (-1) = Some v"
  by (simp add: at_def pos_def)

lemma at_top2 [simp]: "at (s @ [u, v]) (-2) = Some u" "at (s @ [u, v]) (-1) = Some v"
  by (simp_all add: at_def pos_def nth_append)

lemma at_last [simp]: "at (s @ v # t) (-1) = Some (last (v # t))"
proof -
  have "(s @ v # t) ! (length s + length t) = last (s @ v # t)"
    by (metis add_diff_cancel_left' last_conv_nth length_append length_Cons
        append_is_Nil_conv list.distinct(1) plus_1_eq_Suc add.left_commute)
  then show ?thesis by (simp add: at_def pos_def)
qed

lemma at_snoc [simp]: "at (s @ t @ [v]) (-1) = Some v" "at (r @ s @ t @ [v]) (-1) = Some v"
    "at (r @ s @ x # t @ [v]) (-1) = Some v" "at (x # s @ [v]) (-1) = Some v"
  using at_top [of "x # s" v] at_top [of "s @ t" v] at_top [of "r @ s @ t" v] at_top [of "r @ s @ x # t" v] by simp_all

lemma at_append: assumes "1 \<le> i" and "i \<le> int (length s)" shows "at (s @ t) i = at s i"
proof -
  have "nat i - 1 < length s" using assms by linarith
  with assms show ?thesis by (simp add: at_def pos_def nth_append)
qed

lemma at_1 [simp]: "at (v # s) 1 = Some v"
  by (simp add: at_def pos_def)

lemma at_2 [simp]: "at (u # v # s) 2 = Some v"
  by (simp add: at_def pos_def)

lemma at_3 [simp]: "at (t # u # v # s) 3 = Some v"
  by (simp add: at_def pos_def)

lemma at_4 [simp]: "at (r # t # u # v # s) 4 = Some v"
  by (simp add: at_def pos_def)

lemma pos_mid [simp]:
  "pos (s @ v # t) (1 + int (length s)) = Some (length s)"
  "pos (s @ v # t) (int (length s) + 1) = Some (length s)"
  by (auto simp: pos_def nat_add_distrib)

lemma at_mid [simp]:
  "at (s @ v # t) (1 + int (length s)) = Some v" "at (s @ v # t) (int (length s) + 1) = Some v"
  by (simp_all add: at_def)

lemma at_beyond [simp]: "int (length s) < i \<Longrightarrow> at s i = None"
  by (simp add: at_def pos_def)

lemma at_nil [simp]: "at [] i = None"
  by (auto simp: at_def pos_def)

lemma at_Some_pos: "at s i = Some v \<Longrightarrow> \<exists>p. pos s i = Some p \<and> p < length s \<and> s ! p = v"
  by (auto simp: at_def dest: pos_less)

definition ltyp :: "lval option \<Rightarrow> ltype" where
  "ltyp v = (case v of None \<Rightarrow> LUA_TNONE | Some x \<Rightarrow> type_of x)"

lemma ltyp_simps [simp]: "ltyp None = LUA_TNONE" "ltyp (Some v) = type_of v"
  by (simp_all add: ltyp_def)

definition lua_gettop :: "lstate \<Rightarrow> nat lua" where
  "lua_gettop L = askst L length"

definition lua_absindex :: "lstate \<Rightarrow> int \<Rightarrow> int lua" where
  "lua_absindex L i = askst L (\<lambda>s. if 0 < i then i else int (length s) + i + 1)"

definition lua_type :: "lstate \<Rightarrow> int \<Rightarrow> ltype lua" where
  "lua_type L i = askst L (\<lambda>s. ltyp (at s i))"

definition lua_push :: "lstate \<Rightarrow> lval \<Rightarrow> unit lua" where
  "lua_push L v = modst L (\<lambda>s. Some (s @ [v]))"

abbreviation lua_pushnil :: "lstate \<Rightarrow> unit lua" where
  "lua_pushnil L \<equiv> lua_push L LNil"

abbreviation luaL_pushfail :: "lstate \<Rightarrow> unit lua" where
  "luaL_pushfail L \<equiv> lua_push L LNil"

abbreviation lua_pushboolean :: "lstate \<Rightarrow> bool \<Rightarrow> unit lua" where
  "lua_pushboolean L b \<equiv> lua_push L (LBoolean b)"

abbreviation lua_pushinteger :: "lstate \<Rightarrow> int \<Rightarrow> unit lua" where
  "lua_pushinteger L i \<equiv> lua_push L (LInteger i)"

abbreviation lua_pushstring :: "lstate \<Rightarrow> string \<Rightarrow> unit lua" where
  "lua_pushstring L s \<equiv> lua_push L (LString s)"

abbreviation lua_pushlightuserdata :: "lstate \<Rightarrow> addr \<Rightarrow> unit lua" where
  "lua_pushlightuserdata L p \<equiv> lua_push L (LLightuserdata p)"

definition lua_pop :: "lstate \<Rightarrow> nat \<Rightarrow> unit lua" where
  "lua_pop L n = modst L (\<lambda>s. if n \<le> length s then Some (take (length s - n) s) else None)"

definition lua_settop :: "lstate \<Rightarrow> nat \<Rightarrow> unit lua" where
  "lua_settop L n = modst L (\<lambda>s. Some (take n s @ replicate (n - length s) LNil))"

definition lua_pushvalue :: "lstate \<Rightarrow> int \<Rightarrow> unit lua" where
  "lua_pushvalue L i = modst L (\<lambda>s. map_option (\<lambda>v. s @ [v]) (at s i))"

text \<open>\<^verbatim>\<open>lua_insert\<close> moves the top element into the given index, shifting up what is above it.\<close>

definition lua_insert :: "lstate \<Rightarrow> int \<Rightarrow> unit lua" where
  "lua_insert L i = modst L (\<lambda>s. map_option (\<lambda>p. take p s @ last s # drop p (butlast s)) (pos s i))"

text \<open>\<^verbatim>\<open>lua_replace\<close> pops the top element into the given index.\<close>

definition lua_replace :: "lstate \<Rightarrow> int \<Rightarrow> unit lua" where
  "lua_replace L i = modst L (\<lambda>s. map_option (\<lambda>p. butlast (s[p := last s])) (pos s i))"

definition lua_remove :: "lstate \<Rightarrow> int \<Rightarrow> unit lua" where
  "lua_remove L i = modst L (\<lambda>s. map_option (\<lambda>p. take p s @ drop (Suc p) s) (pos s i))"

section \<open>Reading values\<close>

fun toboolean :: "lval option \<Rightarrow> bool" where
  "toboolean (Some LNil) = False"
| "toboolean (Some (LBoolean b)) = b"
| "toboolean None = False"
| "toboolean (Some _) = True"

definition lua_toboolean :: "lstate \<Rightarrow> int \<Rightarrow> bool lua" where
  "lua_toboolean L i = askst L (\<lambda>s. toboolean (at s i))"

definition in_lua_Integer :: "int \<Rightarrow> bool" where
  "in_lua_Integer i \<longleftrightarrow> - (2 ^ 63) \<le> i \<and> i < 2 ^ 63"

fun num2integer :: "lval \<Rightarrow> int option" where
  "num2integer (LInteger i) = Some i"
| "num2integer (LNumber d) = (case dbl_integral d of
      None \<Rightarrow> None | Some i \<Rightarrow> if in_lua_Integer i then Some i else None)"
| "num2integer _ = None"

definition tonumber :: "env \<Rightarrow> lval \<Rightarrow> lval option" where
  "tonumber E v = (case v of
      LInteger _ \<Rightarrow> Some v | LNumber _ \<Rightarrow> Some v | LString s \<Rightarrow> str2number E s | _ \<Rightarrow> None)"

definition tointegerx :: "env \<Rightarrow> lval option \<Rightarrow> int option" where
  "tointegerx E v = Option.bind (Option.bind v (tonumber E)) num2integer"

lemma tointegerx_integer [simp]: "tointegerx E (Some (LInteger i)) = Some i"
  by (simp add: tointegerx_def tonumber_def)

text \<open>The number with its fraction dropped, as a conversion of C from double to an integer type does.\<close>

definition number_trunc :: "lval \<Rightarrow> int option" where
  "number_trunc v = (case v of LInteger i \<Rightarrow> Some i | LNumber d \<Rightarrow> dbl_trunc d | _ \<Rightarrow> None)"

definition lua_tointeger :: "env \<Rightarrow> lstate \<Rightarrow> int \<Rightarrow> int lua" where
  "lua_tointeger E L i = askst L (\<lambda>s. case tointegerx E (at s i) of None \<Rightarrow> 0 | Some n \<Rightarrow> n)"

fun is_integer :: "lval option \<Rightarrow> bool" where
  "is_integer (Some (LInteger _)) = True"
| "is_integer _ = False"

definition lua_isinteger :: "lstate \<Rightarrow> int \<Rightarrow> bool lua" where
  "lua_isinteger L i = askst L (\<lambda>s. is_integer (at s i))"

text \<open>\<^verbatim>\<open>lua_touserdata\<close> of a light userdata; the modelled code uses it on no other value.\<close>

fun light_ptr :: "lval option \<Rightarrow> addr" where
  "light_ptr (Some (LLightuserdata p)) = p"
| "light_ptr _ = 0"

definition lua_tolight :: "lstate \<Rightarrow> int \<Rightarrow> addr lua" where
  "lua_tolight L i = askst L (\<lambda>s. light_ptr (at s i))"

fun is_userdata :: "lval option \<Rightarrow> bool" where
  "is_userdata (Some (LUserdata _)) = True"
| "is_userdata (Some (LLightuserdata _)) = True"
| "is_userdata _ = False"

definition lua_isuserdata :: "lstate \<Rightarrow> int \<Rightarrow> bool lua" where
  "lua_isuserdata L i = askst L (\<lambda>s. is_userdata (at s i))"

section \<open>Checking arguments\<close>

fun luaL_typename :: "ltype \<Rightarrow> string" where
  "luaL_typename LUA_TNONE = ''no value''"
| "luaL_typename LUA_TNIL = ''nil''"
| "luaL_typename LUA_TBOOLEAN = ''boolean''"
| "luaL_typename LUA_TLIGHTUSERDATA = ''light userdata''"
| "luaL_typename LUA_TNUMBER = ''number''"
| "luaL_typename LUA_TSTRING = ''string''"
| "luaL_typename LUA_TTABLE = ''table''"
| "luaL_typename LUA_TFUNCTION = ''function''"
| "luaL_typename LUA_TUSERDATA = ''userdata''"
| "luaL_typename LUA_TTHREAD = ''thread''"

definition luaL_error :: "lstate \<Rightarrow> string \<Rightarrow> 'a lua" where
  "luaL_error L msg = seq (lua_gettop L) (throw (LError msg))"

definition luaL_argerror :: "lstate \<Rightarrow> int \<Rightarrow> string \<Rightarrow> 'a lua" where
  "luaL_argerror L i msg = seq (lua_gettop L) (throw (ArgError i msg))"

definition luaL_typeerror :: "lstate \<Rightarrow> int \<Rightarrow> string \<Rightarrow> 'a lua" where
  "luaL_typeerror L i tname = seq (lua_gettop L) (throw (TypeError i tname))"

text \<open>\<^verbatim>\<open>lua_error\<close> raises the value on top of the stack.\<close>

definition lua_error :: "lstate \<Rightarrow> 'a lua" where
  "lua_error L = lbind (askst L (\<lambda>s. at s (-1)))
     (\<lambda>v. case v of None \<Rightarrow> throw Undef | Some x \<Rightarrow> throw (ErrValue x))"

definition luaL_argcheck :: "bool \<Rightarrow> int \<Rightarrow> string \<Rightarrow> unit lua" where
  "luaL_argcheck b i msg = (if b then ret () else throw (ArgError i msg))"

definition luaL_checktype :: "lstate \<Rightarrow> int \<Rightarrow> ltype \<Rightarrow> unit lua" where
  "luaL_checktype L i t = lbind (lua_type L i)
     (\<lambda>t'. if t' = t then ret () else throw (TypeError i (luaL_typename t)))"

definition luaL_checkinteger :: "env \<Rightarrow> lstate \<Rightarrow> int \<Rightarrow> int lua" where
  "luaL_checkinteger E L i = lbind (askst L (\<lambda>s. at s i)) (\<lambda>v. case tointegerx E v of
      Some n \<Rightarrow> ret n
    | None \<Rightarrow> (if Option.bind v (tonumber E) \<noteq> None
               then throw (ArgError i ''number has no integer representation'')
               else throw (TypeError i ''number'')))"

definition luaL_optinteger :: "env \<Rightarrow> lstate \<Rightarrow> int \<Rightarrow> int \<Rightarrow> int lua" where
  "luaL_optinteger E L i d = lbind (lua_type L i)
     (\<lambda>t. if t \<le> LUA_TNIL then ret d else luaL_checkinteger E L i)"

text \<open>
  \<^verbatim>\<open>luaL_checklstring\<close> accepts strings, and numbers, which it turns into a string in the stack.
\<close>

definition luaL_checklstring :: "env \<Rightarrow> lstate \<Rightarrow> int \<Rightarrow> string lua" where
  "luaL_checklstring E L i = lbind (askst L (\<lambda>s. at s i)) (\<lambda>v. case v of
      Some (LString str) \<Rightarrow> ret str
    | Some (LInteger n) \<Rightarrow> (let str = number2str E (LInteger n) in
        seq (modst L (\<lambda>s. map_option (\<lambda>p. s[p := LString str]) (pos s i))) (ret str))
    | Some (LNumber d) \<Rightarrow> (let str = number2str E (LNumber d) in
        seq (modst L (\<lambda>s. map_option (\<lambda>p. s[p := LString str]) (pos s i))) (ret str))
    | _ \<Rightarrow> throw (TypeError i ''string''))"

text \<open>The C string that starts a Lua string: what a library sees that stops at a NUL.\<close>

definition cstr :: "string \<Rightarrow> string" where
  "cstr s = takeWhile (\<lambda>c. c \<noteq> CHR 0x00) s"

text \<open>\<^verbatim>\<open>luaL_checkstring\<close>, for a library that takes a C string.\<close>

definition luaL_checkstring :: "env \<Rightarrow> lstate \<Rightarrow> int \<Rightarrow> string lua" where
  "luaL_checkstring E L i = lbind (luaL_checklstring E L i) (\<lambda>s. ret (cstr s))"

text \<open>\<^verbatim>\<open>luaL_optstring\<close> with the default \<^verbatim>\<open>NULL\<close>.\<close>

definition luaL_optstring :: "env \<Rightarrow> lstate \<Rightarrow> int \<Rightarrow> string option lua" where
  "luaL_optstring E L i = lbind (lua_type L i)
     (\<lambda>t. if t \<le> LUA_TNIL then ret None
          else lbind (luaL_checkstring E L i) (\<lambda>s. ret (Some s)))"

text \<open>\<^verbatim>\<open>lua_tolstring\<close> is \<^verbatim>\<open>NULL\<close> for anything but a string or a number; it converts a number in the stack.\<close>

definition lua_tolstring :: "env \<Rightarrow> lstate \<Rightarrow> int \<Rightarrow> string option lua" where
  "lua_tolstring E L i = lbind (askst L (\<lambda>s. at s i)) (\<lambda>v. case v of
      Some (LString str) \<Rightarrow> ret (Some str)
    | Some (LInteger n) \<Rightarrow> (let str = number2str E (LInteger n) in
        seq (modst L (\<lambda>s. map_option (\<lambda>p. s[p := LString str]) (pos s i))) (ret (Some str)))
    | Some (LNumber d) \<Rightarrow> (let str = number2str E (LNumber d) in
        seq (modst L (\<lambda>s. map_option (\<lambda>p. s[p := LString str]) (pos s i))) (ret (Some str)))
    | _ \<Rightarrow> ret None)"

definition lua_tostring :: "env \<Rightarrow> lstate \<Rightarrow> int \<Rightarrow> string option lua" where
  "lua_tostring E L i = lbind (lua_tolstring E L i) (\<lambda>s. ret (map_option cstr s))"

text \<open>\<^verbatim>\<open>%d\<close> of \<^verbatim>\<open>lua_pushfstring\<close>.\<close>

fun show_nat :: "nat \<Rightarrow> string" where
  "show_nat n = (if n < 10 then [char_of (n + 48)] else show_nat (n div 10) @ [char_of (n mod 10 + 48)])"

declare show_nat.simps [simp del]

definition show_int :: "int \<Rightarrow> string" where
  "show_int i = (if i < 0 then ''-'' @ show_nat (nat (- i)) else show_nat (nat i))"

definition quoted :: "string \<Rightarrow> string" where
  "quoted s = CHR 0x27 # s @ [CHR 0x27]"

section \<open>Userdata\<close>

definition lua_newuserdatauv :: "lstate \<Rightarrow> nat \<Rightarrow> nat lua" where
  "lua_newuserdatauv L n w = (let u = fresh w in
     seq (lua_push L (LUserdata u)) (ret u)
       (w\<lparr>uds := (uds w)(u \<mapsto> \<lparr>meta = None, uvs = replicate n LNil, blk = None\<rparr>), fresh := Suc u\<rparr>))"

definition ud_at :: "world \<Rightarrow> lval list \<Rightarrow> int \<Rightarrow> nat option" where
  "ud_at w s i = (case at s i of
      Some (LUserdata u) \<Rightarrow> (if uds w u = None then None else Some u) | _ \<Rightarrow> None)"

definition luaL_setmetatable :: "lstate \<Rightarrow> string \<Rightarrow> unit lua" where
  "luaL_setmetatable L name w = (case stacks w L of None \<Rightarrow> (Inl Undef, w)
    | Some s \<Rightarrow> (case ud_at w s (-1) of None \<Rightarrow> (Inl Undef, w)
    | Some u \<Rightarrow> (Inr (), w\<lparr>uds := (uds w)(u := map_option (meta_update (\<lambda>_. Some name)) (uds w u))\<rparr>)))"

text \<open>
  User values are numbered from 1. \<^verbatim>\<open>lua_setiuservalue\<close> pops a value and stores it, if the
  userdata has that user value; \<^verbatim>\<open>lua_getiuservalue\<close> pushes it and returns its type, or pushes
  nil and returns \<^verbatim>\<open>LUA_TNONE\<close>.
\<close>

definition set_uv :: "nat \<Rightarrow> lval \<Rightarrow> udata \<Rightarrow> udata" where
  "set_uv n v d = (if 1 \<le> n \<and> n \<le> length (uvs d) then d\<lparr>uvs := (uvs d)[n - 1 := v]\<rparr> else d)"

definition lua_setiuservalue :: "lstate \<Rightarrow> int \<Rightarrow> nat \<Rightarrow> unit lua" where
  "lua_setiuservalue L i n w = (case stacks w L of None \<Rightarrow> (Inl Undef, w)
    | Some s \<Rightarrow> (case ud_at w s i of None \<Rightarrow> (Inl Undef, w)
    | Some u \<Rightarrow> lua_pop L 1
        (w\<lparr>uds := (uds w)(u := map_option (set_uv n (last s)) (uds w u))\<rparr>)))"

definition get_uv :: "nat \<Rightarrow> udata \<Rightarrow> lval option" where
  "get_uv n d = (if 1 \<le> n \<and> n \<le> length (uvs d) then Some (uvs d ! (n - 1)) else None)"

definition lua_getiuservalue :: "lstate \<Rightarrow> int \<Rightarrow> nat \<Rightarrow> ltype lua" where
  "lua_getiuservalue L i n w = (case stacks w L of None \<Rightarrow> (Inl Undef, w)
    | Some s \<Rightarrow> (case ud_at w s i of None \<Rightarrow> (Inl Undef, w)
    | Some u \<Rightarrow> (let v = get_uv n (the (uds w u)) in
        seq (lua_push L (case v of None \<Rightarrow> LNil | Some x \<Rightarrow> x)) (ret (ltyp v)) w)))"

text \<open>A reachable userdata is never collected, so a userdata value on the stack is live.\<close>

definition luaL_checkudata :: "lstate \<Rightarrow> int \<Rightarrow> string \<Rightarrow> nat lua" where
  "luaL_checkudata L i name w = (case stacks w L of None \<Rightarrow> (Inl Undef, w)
    | Some s \<Rightarrow> (case ud_at w s i of None \<Rightarrow> (Inl (TypeError i name), w)
    | Some u \<Rightarrow> (if meta (the (uds w u)) = Some name then (Inr u, w)
                 else (Inl (TypeError i name), w))))"

text \<open>\<^verbatim>\<open>luaL_testudata\<close>: \<^verbatim>\<open>NULL\<close> for anything but a userdata of that kind.\<close>

definition luaL_testudata :: "lstate \<Rightarrow> int \<Rightarrow> string \<Rightarrow> nat option lua" where
  "luaL_testudata L i name w = (case stacks w L of None \<Rightarrow> (Inl Undef, w)
    | Some s \<Rightarrow> (Inr (case ud_at w s i of None \<Rightarrow> None
        | Some u \<Rightarrow> if meta (the (uds w u)) = Some name then Some u else None), w))"

text \<open>
  \<^verbatim>\<open>lua_getmetatable\<close> pushes the metatable of a value and tells whether there is one. Only userdata
  have one here: the metatable of strings is not that of any module, and a caller that finds it
  goes on as if there were none.
\<close>

definition lua_getmetatable :: "env \<Rightarrow> lstate \<Rightarrow> int \<Rightarrow> bool lua" where
  "lua_getmetatable E L i w = (case stacks w L of None \<Rightarrow> (Inl Undef, w)
    | Some s \<Rightarrow> (case Option.bind (ud_at w s i) (\<lambda>u. meta (the (uds w u))) of
        None \<Rightarrow> (Inr False, w)
      | Some m \<Rightarrow> seq (lua_push L (LTable (mtable E m))) (ret True) w))"

abbreviation luaL_getmetatable :: "env \<Rightarrow> lstate \<Rightarrow> string \<Rightarrow> unit lua" where
  "luaL_getmetatable E L name \<equiv> lua_push L (LTable (mtable E name))"

text \<open>\<^verbatim>\<open>lua_rawequal\<close>; the modelled code compares tables only.\<close>

definition lua_rawequal :: "lstate \<Rightarrow> int \<Rightarrow> int \<Rightarrow> bool lua" where
  "lua_rawequal L i j = askst L (\<lambda>s. at s i \<noteq> None \<and> at s i = at s j)"

text \<open>Reading and writing the block of a userdata; reading it before a write is undefined.\<close>

definition get_blk :: "nat \<Rightarrow> int lua" where
  "get_blk u w = (case Option.bind (uds w u) blk of None \<Rightarrow> (Inl Undef, w) | Some i \<Rightarrow> (Inr i, w))"

definition set_blk :: "nat \<Rightarrow> int \<Rightarrow> unit lua" where
  "set_blk u i w = (if uds w u = None then (Inl Undef, w)
     else (Inr (), w\<lparr>uds := (uds w)(u := map_option (blk_update (\<lambda>_. Some i)) (uds w u))\<rparr>))"

section \<open>Tables\<close>

definition tab_at :: "world \<Rightarrow> lval list \<Rightarrow> int \<Rightarrow> nat option" where
  "tab_at w s i = (case at s i of
      Some (LTable t) \<Rightarrow> (if tabs w t = None then None else Some t) | _ \<Rightarrow> None)"

definition tget :: "ltable \<Rightarrow> int \<Rightarrow> lval" where
  "tget t i = (if 1 \<le> i then (if nat i \<le> length (arr t) then arr t ! (nat i - 1) else LNil)
               else ints t i)"

definition tset :: "ltable \<Rightarrow> int \<Rightarrow> lval \<Rightarrow> ltable" where
  "tset t i v = (if 1 \<le> i
     then (if nat i \<le> length (arr t) then t\<lparr>arr := (arr t)[nat i - 1 := v]\<rparr>
           else t\<lparr>arr := arr t @ replicate (nat i - 1 - length (arr t)) LNil @ [v]\<rparr>)
     else t\<lparr>ints := (ints t)(i := v)\<rparr>)"

definition lua_createtable :: "lstate \<Rightarrow> unit lua" where
  "lua_createtable L w = lua_push L (LTable (fresh w))
     (w\<lparr>tabs := (tabs w)(fresh w \<mapsto> empty_table), fresh := Suc (fresh w)\<rparr>)"

abbreviation lua_newtable :: "lstate \<Rightarrow> unit lua" where
  "lua_newtable L \<equiv> lua_createtable L"

definition with_tab :: "lstate \<Rightarrow> int \<Rightarrow> (lval list \<Rightarrow> nat \<Rightarrow> ltable \<Rightarrow> 'a lua) \<Rightarrow> 'a lua" where
  "with_tab L i f w = (case stacks w L of None \<Rightarrow> (Inl Undef, w)
    | Some s \<Rightarrow> (case tab_at w s i of None \<Rightarrow> (Inl Undef, w)
    | Some t \<Rightarrow> f s t (the (tabs w t)) w))"

definition lua_rawgeti :: "lstate \<Rightarrow> int \<Rightarrow> int \<Rightarrow> ltype lua" where
  "lua_rawgeti L i n = with_tab L i (\<lambda>s t tb.
     seq (lua_push L (tget tb n)) (ret (type_of (tget tb n))))"

definition lua_rawseti :: "lstate \<Rightarrow> int \<Rightarrow> int \<Rightarrow> unit lua" where
  "lua_rawseti L i n = with_tab L i (\<lambda>s t tb w.
     lua_pop L 1 (w\<lparr>tabs := (tabs w)(t \<mapsto> tset tb n (last s))\<rparr>))"

text \<open>Tables have no metatables here, so \<^verbatim>\<open>lua_geti\<close> is the raw access.\<close>

abbreviation lua_geti :: "lstate \<Rightarrow> int \<Rightarrow> int \<Rightarrow> ltype lua" where
  "lua_geti \<equiv> lua_rawgeti"

definition lua_getfield :: "lstate \<Rightarrow> int \<Rightarrow> string \<Rightarrow> ltype lua" where
  "lua_getfield L i k = with_tab L i (\<lambda>s t tb.
     seq (lua_push L (strs tb k)) (ret (type_of (strs tb k))))"

text \<open>
  \<^verbatim>\<open>lua_gettable\<close> with the key on top of the stack. The modelled code uses string keys. Indexing
  anything but a table is an error.
\<close>

definition lua_gettable :: "lstate \<Rightarrow> int \<Rightarrow> unit lua" where
  "lua_gettable L i = lbind (askst L (\<lambda>s. (at s i, at s (-1)))) (\<lambda>(v, k). case (v, k) of
      (Some (LTable _), Some (LString key)) \<Rightarrow> with_tab L i (\<lambda>s t tb.
        modst L (\<lambda>s. Some (butlast s @ [strs tb key])))
    | (Some _, Some (LString key)) \<Rightarrow> throw (LError ''attempt to index'')
    | _ \<Rightarrow> throw Undef)"

definition lua_setfield :: "lstate \<Rightarrow> int \<Rightarrow> string \<Rightarrow> unit lua" where
  "lua_setfield L i k = with_tab L i (\<lambda>s t tb w.
     lua_pop L 1 (w\<lparr>tabs := (tabs w)(t \<mapsto> tb\<lparr>strs := (strs tb)(k := last s)\<rparr>)\<rparr>))"

text \<open>The length of anything but a string or a table is an error.\<close>

definition luaL_len :: "env \<Rightarrow> lstate \<Rightarrow> int \<Rightarrow> nat lua" where
  "luaL_len E L i = lbind (askst L (\<lambda>s. at s i)) (\<lambda>v. case v of
      Some (LTable _) \<Rightarrow> with_tab L i (\<lambda>s t tb. ret (border E (arr tb)))
    | Some (LString str) \<Rightarrow> ret (length str)
    | _ \<Rightarrow> throw (LError ''attempt to get length''))"

text \<open>\<^verbatim>\<open>lua_rawset\<close> with a string as key: the key is below the value on top of the stack.\<close>

definition lua_rawset :: "lstate \<Rightarrow> int \<Rightarrow> unit lua" where
  "lua_rawset L i = with_tab L i (\<lambda>s t tb. case at s (-2) of
      Some (LString k) \<Rightarrow> (\<lambda>w. lua_pop L 2 (w\<lparr>tabs := (tabs w)(t \<mapsto> tb\<lparr>strs := (strs tb)(k := last s)\<rparr>)\<rparr>))
    | _ \<Rightarrow> throw Undef)"

section \<open>Threads\<close>

text \<open>\<^verbatim>\<open>lua_tothread\<close> of a thread; the modelled code uses it on no other value.\<close>

fun thread_ptr :: "lval option \<Rightarrow> lstate" where
  "thread_ptr (Some (LThread l)) = l"
| "thread_ptr _ = 0"

definition lua_tothread :: "lstate \<Rightarrow> int \<Rightarrow> lstate lua" where
  "lua_tothread L i = askst L (\<lambda>s. thread_ptr (at s i))"

definition lua_pushthread :: "lstate \<Rightarrow> unit lua" where
  "lua_pushthread L = lua_push L (LThread L)"

definition lua_xmove :: "lstate \<Rightarrow> lstate \<Rightarrow> nat \<Rightarrow> unit lua" where
  "lua_xmove l L n = (if l = L then ret ()
     else lbind (askst l (\<lambda>s. drop (length s - n) s)) (\<lambda>vs.
       seq (lua_pop l n)
       (modst L (\<lambda>s. Some (s @ vs)))))"

section \<open>Closures of C functions\<close>

text \<open>
  \<^verbatim>\<open>lua_pushcclosure\<close> with one upvalue, the value on top of the stack. Upvalues of C functions have no
  names; \<open>proto\<close> is of no meaning for them.
\<close>

definition lua_pushcclosure1 :: "lstate \<Rightarrow> unit lua" where
  "lua_pushcclosure1 L w = (case stacks w L of None \<Rightarrow> (Inl Undef, w)
    | Some s \<Rightarrow> (if s = [] then (Inl Undef, w) else
        (Inr (), setst L (butlast s @ [LFunction (fresh w)]) (w\<lparr>
           clos := (clos w)(fresh w \<mapsto> \<lparr>is_c = True, proto = 0, upvals = [([], last s)]\<rparr>), fresh := Suc (fresh w)\<rparr>))))"

section \<open>Calls\<close>

text \<open>
  \<^verbatim>\<open>lua_pcall(L, nargs, nresults, 0)\<close> with \<open>nargs = n\<close>: the function below the arguments and
  the arguments are popped, then the results (all of them, or none), or the error object, are
  pushed. It returns whether the status is \<^verbatim>\<open>LUA_OK\<close>. A negative number of arguments, or more
  than the stack holds, is outside the contract.
\<close>

definition lua_pcall :: "env \<Rightarrow> lstate \<Rightarrow> int \<Rightarrow> bool \<Rightarrow> bool lua" where
  "lua_pcall E L n multret w = (case stacks w L of None \<Rightarrow> (Inl Undef, w)
    | Some s \<Rightarrow> (if n < 0 \<or> int (length s) < n + 1 then (Inl Undef, w)
        else (let k = length s - nat n - 1 in
          (case lcall E (s ! k) (drop (Suc k) s) (setst L (take k s) w) of
             (Inl e, w') \<Rightarrow> seq (lua_push L e) (ret False) w'
           | (Inr rs, w') \<Rightarrow> seq (modst L (\<lambda>s'. Some (s' @ (if multret then rs else []))))
               (ret True) w'))))"

section \<open>External calls and the C heap\<close>

definition ccall :: "env \<Rightarrow> string \<Rightarrow> carg list \<Rightarrow> cres lua" where
  "ccall E f as w = (Inr (reply E (trace w) (f, as)), w\<lparr>trace := (f, as) # trace w\<rparr>)"

definition ccall_rc :: "env \<Rightarrow> string \<Rightarrow> carg list \<Rightarrow> int lua" where
  "ccall_rc E f as = lbind (ccall E f as) (\<lambda>r. ret (rc r))"

text \<open>\<^verbatim>\<open>malloc\<close> of a struct: \<^verbatim>\<open>NULL\<close>, or a new block with no member written.\<close>

definition malloc :: "env \<Rightarrow> rcbody \<Rightarrow> addr lua" where
  "malloc E b = lbind (ccall_rc E ''malloc'' []) (\<lambda>ok w.
     (if ok = 0 then (Inr 0, w)
      else (Inr (fresh w), w\<lparr>mem := (mem w)(fresh w \<mapsto> \<lparr>body = b, refs = None\<rparr>),
                             fresh := Suc (fresh w)\<rparr>)))"

definition free :: "addr \<Rightarrow> unit lua" where
  "free p w = (if mem w p = None then (Inl Undef, w) else (Inr (), w\<lparr>mem := (mem w)(p := None)\<rparr>))"

text \<open>Access to a struct of the given kind through a pointer.\<close>

definition deref :: "rckind \<Rightarrow> addr \<Rightarrow> rcobj lua" where
  "deref k p w = (case mem w p of None \<Rightarrow> (Inl Undef, w)
    | Some ob \<Rightarrow> (if kind_of (body ob) = k then (Inr ob, w) else (Inl Undef, w)))"

definition store :: "rckind \<Rightarrow> addr \<Rightarrow> (rcobj \<Rightarrow> rcobj) \<Rightarrow> unit lua" where
  "store k p f = lbind (deref k p) (\<lambda>ob w. (Inr (), w\<lparr>mem := (mem w)(p \<mapsto> f ob)\<rparr>))"

text \<open>A library call on the pthread object inside a struct.\<close>

definition objcall :: "env \<Rightarrow> rckind \<Rightarrow> addr \<Rightarrow> string \<Rightarrow> carg list \<Rightarrow> cres lua" where
  "objcall E k p f as = seq (deref k p) (ccall E f (APtr p # as))"

definition objcall_rc :: "env \<Rightarrow> rckind \<Rightarrow> addr \<Rightarrow> string \<Rightarrow> carg list \<Rightarrow> int lua" where
  "objcall_rc E k p f as = lbind (objcall E k p f as) (\<lambda>r. ret (rc r))"

section \<open>States\<close>

definition luaL_newstate :: "env \<Rightarrow> lstate lua" where
  "luaL_newstate E = lbind (ccall_rc E ''luaL_newstate'' []) (\<lambda>ok w.
     (if ok = 0 then (Inr 0, w)
      else (Inr (fresh w), w\<lparr>stacks := (stacks w)(fresh w \<mapsto> []), fresh := Suc (fresh w)\<rparr>)))"

definition lua_close :: "lstate \<Rightarrow> unit lua" where
  "lua_close L w = (if stacks w L = None then (Inl Undef, w)
                    else (Inr (), w\<lparr>stacks := (stacks w)(L := None)\<rparr>))"

section \<open>Modules\<close>

text \<open>A C function that Lua can call: it returns the number of its results.\<close>

type_synonym cfunction = "env \<Rightarrow> lstate \<Rightarrow> nat lua"

text \<open>A field of a module table: a C function, an integer constant, or a nested table.\<close>

datatype field = Func cfunction | Const int | Sub "(string \<times> field) list"

text \<open>\<^verbatim>\<open>luaL_newlib\<close>, and \<^verbatim>\<open>DEFINE\<close> with its prefix.\<close>

definition luaL_newlib :: "(string \<times> cfunction) list \<Rightarrow> (string \<times> field) list" where
  "luaL_newlib l = map (\<lambda>(name, f). (name, Func f)) l"

definition DEFINE :: "env \<Rightarrow> string \<Rightarrow> string list \<Rightarrow> (string \<times> field) list" where
  "DEFINE E prefix idents = map (\<lambda>i. (i, Const (const E (prefix @ i)))) idents"

section \<open>Execution on a known stack\<close>

lemma stacks_setst [simp]: "stacks (setst L s w) = (stacks w)(L \<mapsto> s)"
  by (simp add: setst_def)

lemma setst_other [simp]:
  "registry (setst L s w) = registry w" "tabs (setst L s w) = tabs w" "uds (setst L s w) = uds w"
  "clos (setst L s w) = clos w" "mem (setst L s w) = mem w" "fresh (setst L s w) = fresh w"
  "trace (setst L s w) = trace w" "cbs (setst L s w) = cbs w" "mibs (setst L s w) = mibs w"
  by (simp_all add: setst_def)

lemma setst_setst [simp]: "setst L s (setst L t w) = setst L s w"
  by (simp add: setst_def)

lemma setst_absorb [simp]:
  "L \<noteq> l \<Longrightarrow> setst L a (setst l b (setst L c w)) = setst L a (setst l b w)"
  by (simp add: setst_def fun_upd_twist)

lemma setst_swap: "L \<noteq> l \<Longrightarrow> setst L a (setst l b w) = setst l b (setst L a w)"
  by (simp add: setst_def fun_upd_twist)

lemma setst_same: "stacks w L = Some s \<Longrightarrow> setst L s w = w"
  by (cases w) (auto simp: setst_def fun_upd_idem_iff)

lemma setst_upds [simp]:
  "(setst L s w)\<lparr>uds := a\<rparr> = setst L s (w\<lparr>uds := a\<rparr>)"
  "(setst L s w)\<lparr>tabs := b\<rparr> = setst L s (w\<lparr>tabs := b\<rparr>)"
  "(setst L s w)\<lparr>clos := c\<rparr> = setst L s (w\<lparr>clos := c\<rparr>)"
  "(setst L s w)\<lparr>mem := d\<rparr> = setst L s (w\<lparr>mem := d\<rparr>)"
  "(setst L s w)\<lparr>cbs := h\<rparr> = setst L s (w\<lparr>cbs := h\<rparr>)"
  "(setst L s w)\<lparr>mibs := i\<rparr> = setst L s (w\<lparr>mibs := i\<rparr>)"
  "(setst L s w)\<lparr>fresh := e\<rparr> = setst L s (w\<lparr>fresh := e\<rparr>)"
  "(setst L s w)\<lparr>trace := f\<rparr> = setst L s (w\<lparr>trace := f\<rparr>)"
  "(setst L s w)\<lparr>registry := g\<rparr> = setst L s (w\<lparr>registry := g\<rparr>)"
  by (simp_all add: setst_def)

lemma askst_run [lua_run]: "stacks w L = Some s \<Longrightarrow> askst L f w = (Inr (f s), w)"
  by (simp add: askst_def)

lemma modst_run [lua_run]:
  "stacks w L = Some s \<Longrightarrow>
   modst L f w = (case f s of None \<Rightarrow> (Inl Undef, w) | Some s' \<Rightarrow> (Inr (), setst L s' w))"
  by (simp add: modst_def)

lemma lua_push_run [lua_run]:
  "stacks w L = Some s \<Longrightarrow> lua_push L v w = (Inr (), setst L (s @ [v]) w)"
  by (simp add: lua_push_def modst_def)

lemma lua_pop_run [lua_run]:
  "stacks w L = Some s \<Longrightarrow> n \<le> length s \<Longrightarrow>
   lua_pop L n w = (Inr (), setst L (take (length s - n) s) w)"
  by (simp add: lua_pop_def modst_def)

lemmas lua_read_defs [lua_run] =
  lua_gettop_def lua_absindex_def lua_type_def lua_toboolean_def lua_tointeger_def
  lua_isinteger_def lua_tolight_def lua_isuserdata_def

lemma luaL_error_run [lua_run]:
  "stacks w L = Some s \<Longrightarrow> luaL_error L msg w = (Inl (LError msg), w)"
  by (simp add: luaL_error_def seq_def lbind_def lua_gettop_def askst_def)

lemma luaL_argerror_run [lua_run]:
  "stacks w L = Some s \<Longrightarrow> luaL_argerror L i msg w = (Inl (ArgError i msg), w)"
  by (simp add: luaL_argerror_def seq_def lbind_def lua_gettop_def askst_def)

lemma luaL_typeerror_run [lua_run]:
  "stacks w L = Some s \<Longrightarrow> luaL_typeerror L i msg w = (Inl (TypeError i msg), w)"
  by (simp add: luaL_typeerror_def seq_def lbind_def lua_gettop_def askst_def)

lemma ccall_run [lua_run]:
  "ccall E f as w = (Inr (reply E (trace w) (f, as)), w\<lparr>trace := (f, as) # trace w\<rparr>)"
  by (simp add: ccall_def)

lemma ccall_rc_run [lua_run]:
  "ccall_rc E f as w = (Inr (rc (reply E (trace w) (f, as))), w\<lparr>trace := (f, as) # trace w\<rparr>)"
  by (simp add: ccall_rc_def ccall_def lbind_def)

lemma deref_run [lua_run]:
  "mem w p = Some ob \<Longrightarrow> kind_of (body ob) = k \<Longrightarrow> deref k p w = (Inr ob, w)"
  by (simp add: deref_def)

lemma objcall_rc_run [lua_run]:
  "mem w p = Some ob \<Longrightarrow> kind_of (body ob) = k \<Longrightarrow>
   objcall_rc E k p f as w =
     (Inr (rc (reply E (trace w) (f, APtr p # as))), w\<lparr>trace := (f, APtr p # as) # trace w\<rparr>)"
  by (simp add: objcall_rc_def objcall_def seq_def lbind_def deref_def ccall_def)

end
