(* ===== verification/Utils.thy ===== *)
theory Utils
  imports Lua_Api
begin

text \<open>
  \<^verbatim>\<open>utils.h\<close>: the helpers every module includes. Result conventions (\<^verbatim>\<open>success\<close>, \<^verbatim>\<open>fail\<close>,
  \<^verbatim>\<open>fatal\<close>), wrapper userdata that carry a C pointer (the cookie) and a reference that keeps
  another object alive, and the stack/table helpers \<^verbatim>\<open>tpush\<close>, \<^verbatim>\<open>tpop\<close>, \<^verbatim>\<open>tpack\<close>, \<^verbatim>\<open>tunpack\<close>.
\<close>

section \<open>Definitions\<close>

text \<open>The reply of a failed system call: -1, with \<^verbatim>\<open>errno\<close> as the first out-value.\<close>

definition errno :: "cres \<Rightarrow> int" where
  "errno r = outi r 0"

definition success :: "lstate \<Rightarrow> nat lua" where
  "success L = seq (lua_pushinteger L 1) (ret 1)"

definition fail :: "env \<Rightarrow> lstate \<Rightarrow> int \<Rightarrow> nat lua" where
  "fail E L error =
     seq (luaL_pushfail L)
    (seq (lua_pushstring L (strerror E error))
    (seq (lua_pushinteger L error)
    (ret 3)))"

definition fatal :: "env \<Rightarrow> lstate \<Rightarrow> string \<Rightarrow> int \<Rightarrow> 'a lua" where
  "fatal E L source error = luaL_error L (source @ '': '' @ strerror E error)"

text \<open>\<^verbatim>\<open>enum wrapperuv\<close>\<close>

definition COOKIE :: nat where
  "COOKIE = 1"

definition REF :: nat where
  "REF = 2"

definition setcookie :: "lstate \<Rightarrow> int \<Rightarrow> addr \<Rightarrow> unit lua" where
  "setcookie L idx cookie =
     lbind (lua_absindex L idx) (\<lambda>idx.
     seq (lua_pushlightuserdata L cookie)
     (lua_setiuservalue L idx COOKIE))"

definition getcookie :: "lstate \<Rightarrow> int \<Rightarrow> ltype lua" where
  "getcookie L idx = lua_getiuservalue L idx COOKIE"

definition setref :: "lstate \<Rightarrow> int \<Rightarrow> int \<Rightarrow> unit lua" where
  "setref L idx ref =
     lbind (lua_absindex L idx) (\<lambda>idx.
     seq (lua_pushvalue L ref)
     (lua_setiuservalue L idx REF))"

definition getref :: "lstate \<Rightarrow> int \<Rightarrow> ltype lua" where
  "getref L idx = lua_getiuservalue L idx REF"

definition new :: "lstate \<Rightarrow> addr \<Rightarrow> string \<Rightarrow> nat lua" where
  "new L cookie metatable =
     seq (lua_newuserdatauv L 1)
    (seq (luaL_setmetatable L metatable)
    (seq (setcookie L (-1) cookie)
    (ret 1)))"

definition newref :: "lstate \<Rightarrow> int \<Rightarrow> addr \<Rightarrow> string \<Rightarrow> nat lua" where
  "newref L idx cookie metatable =
     lbind (lua_absindex L idx) (\<lambda>idx.
     seq (lua_newuserdatauv L 2)
    (seq (luaL_setmetatable L metatable)
    (seq (setcookie L (-1) cookie)
    (seq (setref L (-1) idx)
    (ret 1)))))"

definition checklightuserdata :: "lstate \<Rightarrow> int \<Rightarrow> addr lua" where
  "checklightuserdata L idx =
     seq (luaL_checktype L idx LUA_TLIGHTUSERDATA)
     (lua_tolight L idx)"

definition checkcookieuv :: "lstate \<Rightarrow> int \<Rightarrow> string \<Rightarrow> unit lua" where
  "checkcookieuv L idx metatable =
     seq (luaL_checkudata L idx metatable)
    (lbind (getcookie L idx) (\<lambda>t.
     luaL_argcheck (t = LUA_TLIGHTUSERDATA) idx ''invalid cookie''))"

definition checkcookienull :: "lstate \<Rightarrow> int \<Rightarrow> string \<Rightarrow> addr lua" where
  "checkcookienull L idx metatable =
     seq (checkcookieuv L idx metatable)
    (lbind (lua_tolight L (-1)) (\<lambda>cookie.
     seq (lua_pop L 1)
     (ret cookie)))"

definition checkcookie :: "lstate \<Rightarrow> int \<Rightarrow> string \<Rightarrow> addr lua" where
  "checkcookie L idx metatable =
     lbind (checkcookienull L idx metatable) (\<lambda>cookie.
     seq (luaL_argcheck (cookie \<noteq> 0) idx ''cookie expired'')
     (ret cookie))"

text \<open>\<^verbatim>\<open>testcookie\<close>: \<^verbatim>\<open>NULL\<close> for anything but a wrapper of that kind.\<close>

definition testcookie :: "env \<Rightarrow> lstate \<Rightarrow> int \<Rightarrow> string \<Rightarrow> addr lua" where
  "testcookie E L idx metatable =
     lbind (lua_getmetatable E L idx) (\<lambda>found.
     if found then
       seq (luaL_getmetatable E L metatable)
      (lbind (lua_rawequal L (-1) (-2)) (\<lambda>eq.
       if eq then
         lbind (getcookie L idx) (\<lambda>t.
         lbind (if t = LUA_TLIGHTUSERDATA then lua_tolight L (-1) else ret 0) (\<lambda>cookie.
         seq (lua_pop L 3)
         (ret cookie)))
       else
         seq (lua_pop L 2)
         (ret 0)))
     else ret 0)"

text \<open>\<^verbatim>\<open>checkfd\<close>: a number, or the descriptor of a file of the \<^verbatim>\<open>io\<close> library (its stream is in the block).\<close>

definition LUA_FILEHANDLE :: string where
  "LUA_FILEHANDLE = ''FILE*''"

definition checkfd :: "env \<Rightarrow> lstate \<Rightarrow> int \<Rightarrow> int lua" where
  "checkfd E L idx =
     lbind (lua_isinteger L idx) (\<lambda>b.
     if b then
       lbind (lua_tointeger E L idx) (\<lambda>i.
       ret (to_int i))
     else
       lbind (luaL_checkudata L idx LUA_FILEHANDLE) (\<lambda>s.
       lbind (get_blk s) (\<lambda>f.
       seq (luaL_argcheck (f \<noteq> 0) idx ''invalid file handle (closed)'')
      (lbind (ccall E ''fileno'' [AInt f]) (\<lambda>r.
       if rc r = -1 then fatal E L ''fileno'' (errno r)
       else ret (rc r))))))"

definition tpush :: "env \<Rightarrow> lstate \<Rightarrow> int \<Rightarrow> unit lua" where
  "tpush E L idx =
     lbind (luaL_len E L idx) (\<lambda>len.
     lua_rawseti L idx (int len + 1))"

definition tpop :: "env \<Rightarrow> lstate \<Rightarrow> int \<Rightarrow> unit lua" where
  "tpop E L idx =
     lbind (lua_absindex L idx) (\<lambda>idx.
     lbind (luaL_len E L idx) (\<lambda>len.
     seq (lua_rawgeti L idx (int len))
    (seq (lua_pushnil L)
     (lua_rawseti L idx (int len)))))"

text \<open>The loop of \<^verbatim>\<open>tpack\<close>: \<open>k\<close> rounds are left, the next one is for index \<open>i\<close>.\<close>

fun tpack_loop :: "lstate \<Rightarrow> int \<Rightarrow> nat \<Rightarrow> nat \<Rightarrow> unit lua" where
  "tpack_loop L idx i 0 = ret ()"
| "tpack_loop L idx i (Suc k) =
     seq (lua_pushvalue L (idx + int i))
    (seq (lua_rawseti L idx (int i))
     (tpack_loop L idx (Suc i) k))"

definition tpack :: "lstate \<Rightarrow> nat \<Rightarrow> unit lua" where
  "tpack L n =
     seq (lua_createtable L)
     (if 0 < n then
        lbind (lua_gettop L) (\<lambda>top.
        let idx = int top - int n in
        seq (lua_insert L idx)
       (seq (tpack_loop L idx 1 n)
        (lua_settop L (nat idx))))
      else ret ())"

fun tunpack_loop :: "lstate \<Rightarrow> int \<Rightarrow> nat \<Rightarrow> nat \<Rightarrow> unit lua" where
  "tunpack_loop L idx i 0 = ret ()"
| "tunpack_loop L idx i (Suc k) =
     seq (lua_rawgeti L idx (int i))
     (tunpack_loop L idx (Suc i) k)"

definition tunpack :: "env \<Rightarrow> lstate \<Rightarrow> int \<Rightarrow> nat lua" where
  "tunpack E L idx =
     lbind (lua_absindex L idx) (\<lambda>idx.
     lbind (luaL_len E L idx) (\<lambda>len.
     seq (tunpack_loop L idx 1 len)
    (seq (lua_remove L idx)
     (ret len))))"

section \<open>Results\<close>

lemma success_run [lua_run]:
  "stacks w L = Some s \<Longrightarrow> success L w = (Inr 1, setst L (s @ [LInteger 1]) w)"
  by (simp add: success_def lua_run)

lemma fail_run [lua_run]:
  "stacks w L = Some s \<Longrightarrow>
   fail E L e w = (Inr 3, setst L (s @ [LNil, LString (strerror E e), LInteger e]) w)"
  by (simp add: fail_def lua_run)

lemma fatal_run [lua_run]:
  "stacks w L = Some s \<Longrightarrow> fatal E L f e w = (Inl (LError (f @ '': '' @ strerror E e)), w)"
  by (simp add: fatal_def lua_run)

section \<open>Wrapper userdata\<close>

text \<open>The userdata that \<^verbatim>\<open>new\<close> makes.\<close>

definition wrapper :: "string \<Rightarrow> addr \<Rightarrow> udata" where
  "wrapper m p = \<lparr>meta = Some m, uvs = [LLightuserdata p], blk = None\<rparr>"

lemma wrapper_sel [simp]: "meta (wrapper m p) = Some m" "get_uv COOKIE (wrapper m p) = Some (LLightuserdata p)"
  by (simp_all add: wrapper_def get_uv_def COOKIE_def)

lemma at_append_ud: "1 \<le> i \<Longrightarrow> i \<le> int (length s) \<Longrightarrow> ud_at w (s @ t) i = ud_at w s i"
  by (simp add: ud_at_def at_append)

lemma ud_at_top [simp]:
  "ud_at w (s @ [LUserdata u]) (-1) = (if uds w u = None then None else Some u)"
  by (simp add: ud_at_def)

lemma ud_at_mid [simp]:
  "ud_at w (s @ LUserdata u # t) (1 + int (length s)) = (if uds w u = None then None else Some u)"
  "ud_at w (s @ LUserdata u # t) (int (length s) + 1) = (if uds w u = None then None else Some u)"
  by (simp_all add: ud_at_def)

lemma new_run [lua_run]:
  assumes "stacks w L = Some s"
  shows "new L p m w = (Inr 1, setst L (s @ [LUserdata (fresh w)])
           (w\<lparr>uds := (uds w)(fresh w \<mapsto> wrapper m p), fresh := Suc (fresh w)\<rparr>))"
  using assms
  by (simp add: new_def setcookie_def lua_newuserdatauv_def luaL_setmetatable_def
      lua_setiuservalue_def lua_run set_uv_def COOKIE_def wrapper_def)

text \<open>What \<^verbatim>\<open>checkcookie\<close> decides about the argument at an index.\<close>

definition cookie_at :: "world \<Rightarrow> lval list \<Rightarrow> int \<Rightarrow> string \<Rightarrow> exc + addr" where
  "cookie_at w s i m = (case ud_at w s i of
      None \<Rightarrow> Inl (TypeError i m)
    | Some u \<Rightarrow> (if meta (the (uds w u)) \<noteq> Some m then Inl (TypeError i m)
        else (case get_uv COOKIE (the (uds w u)) of
            Some (LLightuserdata p) \<Rightarrow> (if p = 0 then Inl (ArgError i ''cookie expired'') else Inr p)
          | _ \<Rightarrow> Inl (ArgError i ''invalid cookie''))))"

lemma checkcookie_value:
  assumes "stacks w L = Some s" and "1 \<le> i"
  shows "fst (checkcookie L i m w) = cookie_at w s i m"
proof -
  have *: "at (s @ [v]) i = at s i" if "at s i \<noteq> None" for v
    using that assms(2) by (cases "i \<le> int (length s)") (simp_all add: at_append)
  show ?thesis
    using assms(1)
    by (simp add: checkcookie_def checkcookienull_def checkcookieuv_def luaL_checkudata_def
        getcookie_def lua_getiuservalue_def luaL_argcheck_def cookie_at_def lua_run
        split: option.splits lval.splits)
qed

lemma checkcookie_run [lua_run]:
  assumes "stacks w L = Some s" and "cookie_at w s i m = Inr p"
  shows "checkcookie L i m w = (Inr p, w)"
proof -
  obtain u where u: "ud_at w s i = Some u" "meta (the (uds w u)) = Some m"
      "get_uv COOKIE (the (uds w u)) = Some (LLightuserdata p)" "p \<noteq> 0"
    using assms(2) by (auto simp: cookie_at_def split: option.splits if_splits lval.splits)
  then show ?thesis
    using assms(1)
    by (simp add: checkcookie_def checkcookienull_def checkcookieuv_def luaL_checkudata_def
        getcookie_def lua_getiuservalue_def luaL_argcheck_def lua_run setst_same)
qed

lemma checkcookie_error:
  assumes "stacks w L = Some s" and "cookie_at w s i m = Inl e" and "1 \<le> i"
  shows "\<exists>s'. checkcookie L i m w = (Inl e, setst L s' w)"
proof -
  have "fst (checkcookie L i m w) = Inl e"
    using checkcookie_value [OF assms(1,3)] assms(2) by simp
  moreover have "\<exists>s'. snd (checkcookie L i m w) = setst L s' w"
    using assms(1)
    by (auto simp: checkcookie_def checkcookienull_def checkcookieuv_def luaL_checkudata_def
        getcookie_def lua_getiuservalue_def luaL_argcheck_def lua_run
        split: option.splits intro: exI [of _ s] setst_same [symmetric])
  ultimately show ?thesis by (metis prod.collapse)
qed

lemma checkcookienull_wrapper:
  assumes "stacks w L = Some [LUserdata u]" and "uds w u = Some (wrapper m p)"
  shows "checkcookienull L 1 m w = (Inr p, w)"
  using assms by (simp add: checkcookienull_def checkcookieuv_def luaL_checkudata_def getcookie_def
      lua_getiuservalue_def luaL_argcheck_def ud_at_def lua_run setst_same at_def pos_def)

lemma setcookie_wrapper:
  assumes "stacks w L = Some [LUserdata u]" and "uds w u = Some (wrapper m p)"
  shows "setcookie L 1 q w = (Inr (), w\<lparr>uds := (uds w)(u \<mapsto> wrapper m q)\<rparr>)"
  using assms by (simp add: setcookie_def lua_setiuservalue_def ud_at_def lua_run set_uv_def COOKIE_def wrapper_def setst_same)

section \<open>Tables as sequences\<close>

text \<open>A table whose integer keys hold exactly the elements of a sequence without nil.\<close>

definition represents :: "ltable \<Rightarrow> lval list \<Rightarrow> bool" where
  "represents tb xs \<longleftrightarrow> LNil \<notin> set xs \<and> (\<exists>k. arr tb = xs @ replicate k LNil)"

lemma is_border_padded:
  assumes "LNil \<notin> set xs"
  shows "is_border (xs @ replicate k LNil) n \<longleftrightarrow> n = length xs"
proof -
  have lt: "n < length xs \<Longrightarrow> (xs @ replicate k LNil) ! n \<noteq> LNil" for n
    using assms by (metis nth_append nth_mem)
  have gt: "length xs < n \<Longrightarrow> n \<le> length xs + k \<Longrightarrow> (xs @ replicate k LNil) ! (n - 1) = LNil" for n
  proof -
    assume "length xs < n" "n \<le> length xs + k"
    then have "\<not> n - 1 < length xs" and "n - 1 - length xs < k" by linarith+
    then show ?thesis by (simp add: nth_append)
  qed
  have eq: "n = length xs \<Longrightarrow> n \<noteq> length xs + k \<Longrightarrow> (xs @ replicate k LNil) ! n = LNil" for n
    by (simp add: nth_append)
  show ?thesis
    unfolding is_border_def using lt [of n] lt [of "n - 1"] gt [of n] eq [of n]
    by (cases n "length xs" rule: linorder_cases) auto
qed

lemma border_represents: "border_ok E \<Longrightarrow> represents tb xs \<Longrightarrow> border E (arr tb) = length xs"
  unfolding represents_def by (metis border_ok_def is_border_padded)

lemma represents_empty [simp]: "represents empty_table []"
  by (simp add: represents_def empty_table_def)

lemma represents_arr: "LNil \<notin> set xs \<Longrightarrow> arr tb = xs \<Longrightarrow> represents tb xs"
  unfolding represents_def by (metis append_Nil2 replicate_0)

lemma represents_tset_end:
  assumes "represents tb xs" and "v \<noteq> LNil"
  shows "represents (tset tb (int (length xs) + 1) v) (xs @ [v])"
proof -
  from assms(1) obtain k where k: "arr tb = xs @ replicate k LNil" and nn: "LNil \<notin> set xs"
    by (auto simp: represents_def)
  show ?thesis
  proof (cases k)
    case 0
    with k nn assms(2) show ?thesis
      by (auto simp: represents_def tset_def nat_add_distrib intro: exI [of _ 0])
  next
    case (Suc j)
    with k have "arr (tset tb (int (length xs) + 1) v) = (xs @ [v]) @ replicate j LNil"
      by (simp add: tset_def nat_add_distrib list_update_append)
    with nn assms(2) show ?thesis
      unfolding represents_def by auto
  qed
qed

lemma represents_tset_last:
  assumes "represents tb (xs @ [v])"
  shows "represents (tset tb (int (length xs) + 1) LNil) xs"
proof -
  from assms obtain k where k: "arr tb = (xs @ [v]) @ replicate k LNil" and nn: "LNil \<notin> set xs"
    by (auto simp: represents_def)
  then have "arr (tset tb (int (length xs) + 1) LNil) = xs @ replicate (Suc k) LNil"
    by (simp add: tset_def nat_add_distrib list_update_append)
  with nn show ?thesis unfolding represents_def by blast
qed

lemma tget_represents:
  assumes "represents tb xs" and "i < length xs"
  shows "tget tb (int i + 1) = xs ! i"
  using assms by (auto simp: represents_def tget_def nat_add_distrib nth_append)

lemma tget_represents_top: "represents tb (xs @ [v]) \<Longrightarrow> tget tb (int (length xs) + 1) = v"
  by (simp add: tget_represents)

section \<open>Stack and table helpers\<close>

lemma with_tab_run [lua_run]:
  "stacks w L = Some s \<Longrightarrow> tab_at w s i = Some t \<Longrightarrow> with_tab L i f w = f s t (the (tabs w t)) w"
  by (simp add: with_tab_def)

lemma tab_at_top2 [simp]:
  "tab_at w (s @ [LTable t, v]) (-2) = (if tabs w t = None then None else Some t)"
  by (simp add: tab_at_def)

lemma tab_at_top [simp]:
  "tab_at w (s @ [LTable t]) (-1) = (if tabs w t = None then None else Some t)"
  by (simp add: tab_at_def)

lemma tab_at_mid [simp]:
  "tab_at w (s @ LTable t # r) (1 + int (length s)) = (if tabs w t = None then None else Some t)"
  "tab_at w (s @ LTable t # r) (int (length s) + 1) = (if tabs w t = None then None else Some t)"
  by (simp_all add: tab_at_def)

lemma tpush_run:
  assumes "border_ok E" and "stacks w L = Some (s @ [LTable t, v])" and "tabs w t = Some tb"
    and "represents tb xs"
  shows "tpush E L (-2) w = (Inr (), setst L (s @ [LTable t])
           (w\<lparr>tabs := (tabs w)(t \<mapsto> tset tb (int (length xs) + 1) v)\<rparr>))"
  using assms
  by (simp add: tpush_def luaL_len_def lua_rawseti_def lua_run border_represents)

lemma tpop_run:
  assumes "border_ok E" and "stacks w L = Some (s @ [LTable t])" and "tabs w t = Some tb"
    and "represents tb (xs @ [v])"
  shows "tpop E L (int (length s) + 1) w = (Inr (), setst L (s @ [LTable t, v])
           (w\<lparr>tabs := (tabs w)(t \<mapsto> tset tb (int (length xs) + 1) LNil)\<rparr>))"
  using assms border_represents [OF assms(1,4)] tget_represents_top [OF assms(4)]
  by (simp add: tpop_def luaL_len_def lua_rawgeti_def lua_rawseti_def lua_run add.commute)

lemma tpack_loop_run:
  assumes "stacks w L = Some (s @ LTable t # vs)" and "tabs w t = Some tb"
    and "arr tb = take j vs" and "j + k = length vs"
  shows "tpack_loop L (int (length s) + 1) (Suc j) k w =
           (Inr (), w\<lparr>tabs := (tabs w)(t \<mapsto> tb\<lparr>arr := vs\<rparr>)\<rparr>)"
  using assms
proof (induction k arbitrary: j tb w)
  case 0
  then show ?case
    by (cases w) (auto simp: fun_upd_idem_iff)
next
  case (Suc k)
  then have j: "j < length vs" by simp
  have at: "at (s @ LTable t # vs) (int (length s) + 1 + int (Suc j)) = Some (vs ! j)"
    using j by (simp add: at_def pos_def nth_append nat_add_distrib)
  have ts: "tset tb (int (Suc j)) (vs ! j) = tb\<lparr>arr := take (Suc j) vs\<rparr>"
    using Suc.prems(3) j by (simp add: tset_def take_Suc_conv_app_nth)
  let ?w = "w\<lparr>tabs := (tabs w)(t \<mapsto> tb\<lparr>arr := take (Suc j) vs\<rparr>)\<rparr>"
  have "tpack_loop L (int (length s) + 1) (Suc j) (Suc k) w
      = tpack_loop L (int (length s) + 1) (Suc (Suc j)) k ?w"
    using Suc.prems at ts
    by (simp add: lua_pushvalue_def lua_rawseti_def lua_run setst_same)
  also have "\<dots> = (Inr (), w\<lparr>tabs := (tabs w)(t \<mapsto> tb\<lparr>arr := vs\<rparr>)\<rparr>)"
    using Suc.IH [of ?w "tb\<lparr>arr := take (Suc j) vs\<rparr>" "Suc j"] Suc.prems
    by (simp add: fun_upd_def [symmetric])
  finally show ?case .
qed

lemma lua_insert_bottom_run:
  assumes "stacks w L = Some (s @ vs @ [v])"
  shows "lua_insert L (int (length s) + 1) w = (Inr (), setst L (s @ v # vs) w)"
proof -
  have "pos (s @ vs @ [v]) (int (length s) + 1) = Some (length s)"
    by (simp add: pos_def nat_add_distrib)
  moreover have "butlast (s @ vs @ [v]) = s @ vs"
    by (simp flip: append_assoc)
  ultimately show ?thesis
    using assms by (simp add: lua_insert_def lua_run)
qed

lemma tpack_run:
  assumes "stacks w L = Some (s @ vs)"
  shows "tpack L (length vs) w = (Inr (), setst L (s @ [LTable (fresh w)])
           (w\<lparr>tabs := (tabs w)(fresh w \<mapsto> empty_table\<lparr>arr := vs\<rparr>), fresh := Suc (fresh w)\<rparr>))"
proof (cases "vs = []")
  case True
  have "empty_table\<lparr>arr := []\<rparr> = empty_table" by (simp add: empty_table_def)
  with True assms show ?thesis by (simp add: tpack_def lua_createtable_def lua_run)
next
  case False
  let ?t = "fresh w"
  let ?w1 = "w\<lparr>tabs := (tabs w)(?t \<mapsto> empty_table), fresh := Suc ?t\<rparr>"
  let ?w2 = "setst L (s @ LTable ?t # vs) ?w1"
  have ins: "lua_insert L (int (length s) + 1) (setst L (s @ vs @ [LTable ?t]) ?w1) = (Inr (), ?w2)"
    by (simp add: lua_insert_bottom_run)
  have loop: "tpack_loop L (int (length s) + 1) (Suc 0) (length vs) ?w2 =
      (Inr (), ?w2\<lparr>tabs := (tabs ?w2)(?t \<mapsto> empty_table\<lparr>arr := vs\<rparr>)\<rparr>)"
    by (rule tpack_loop_run [where s = s and tb = empty_table]) (simp_all add: empty_table_def)
  show ?thesis
    using False assms ins loop
    by (simp add: tpack_def lua_createtable_def lua_settop_def lua_run add.commute nat_add_distrib)
qed

lemma tunpack_loop_run:
  assumes "stacks w L = Some (s @ LTable t # take j vs)" and "tabs w t = Some tb"
    and "represents tb vs" and "j + k = length vs"
  shows "tunpack_loop L (int (length s) + 1) (Suc j) k w = (Inr (), setst L (s @ LTable t # vs) w)"
  using assms
proof (induction k arbitrary: j w)
  case 0
  then show ?case by (simp add: setst_same)
next
  case (Suc k)
  then have j: "j < length vs" by simp
  have "tget tb (int (Suc j)) = vs ! j"
    using tget_represents [OF Suc.prems(3) j] by (simp add: add.commute)
  with Suc j show ?case
    by (simp add: lua_rawgeti_def lua_run take_Suc_conv_app_nth)
qed

lemma lua_remove_mid_run:
  assumes "stacks w L = Some (s @ v # vs)"
  shows "lua_remove L (int (length s) + 1) w = (Inr (), setst L (s @ vs) w)"
  using assms by (simp add: lua_remove_def lua_run)

lemma tunpack_run:
  assumes "border_ok E" and "stacks w L = Some (s @ [LTable t])" and "tabs w t = Some tb"
    and "represents tb vs"
  shows "tunpack E L (-1) w = (Inr (length vs), setst L (s @ vs) w)"
proof -
  have "tunpack_loop L (int (length s) + 1) (Suc 0) (length vs) w =
      (Inr (), setst L (s @ LTable t # vs) w)"
    by (rule tunpack_loop_run [where tb = tb]) (use assms in simp_all)
  moreover have "lua_remove L (int (length s) + 1) (setst L (s @ LTable t # vs) w) =
      (Inr (), setst L (s @ vs) w)"
    by (simp add: lua_remove_mid_run)
  ultimately show ?thesis
    using assms border_represents [OF assms(1,4)]
    by (simp add: tunpack_def luaL_len_def lua_run add.commute)
qed

text \<open>
  C12. Packing the values on top of the stack into a table (\<^verbatim>\<open>tpack\<close>) and unpacking it again
  (\<^verbatim>\<open>tunpack\<close>) gives the same stack, if none of them is nil.
\<close>

theorem tunpack_tpack:
  assumes "border_ok E" and "stacks w L = Some (s @ vs)" and "LNil \<notin> set vs"
  shows "\<exists>w'. seq (tpack L (length vs)) (tunpack E L (-1)) w = (Inr (length vs), w')
           \<and> stacks w' L = Some (s @ vs)"
proof -
  let ?w = "setst L (s @ [LTable (fresh w)])
      (w\<lparr>tabs := (tabs w)(fresh w \<mapsto> empty_table\<lparr>arr := vs\<rparr>), fresh := Suc (fresh w)\<rparr>)"
  have "tunpack E L (-1) ?w = (Inr (length vs), setst L (s @ vs) ?w)"
    by (rule tunpack_run [where tb = "empty_table\<lparr>arr := vs\<rparr>" and t = "fresh w" and s = s])
      (use assms in \<open>simp_all add: represents_arr\<close>)
  then show ?thesis
    using tpack_run [OF assms(2)] by (simp add: lua_run)
qed

theorem tunpack_tpack_witness:
  "\<exists>w'. seq (tpack 1 (length [LInteger 2, LString ''a''])) (tunpack env0 1 (-1))
          (world0 [1 \<mapsto> [LNil] @ [LInteger 2, LString ''a'']]) = (Inr (length [LInteger 2, LString ''a'']), w')
     \<and> stacks w' 1 = Some ([LNil] @ [LInteger 2, LString ''a''])"
  by (rule tunpack_tpack [OF border_ok_env0]) simp_all

text \<open>
  A nil among the values breaks the round trip: a border of the packed table may lie before it,
  and then the values from the nil on are lost. (Cleanup handlers keep their arguments this way.)
\<close>

theorem tunpack_tpack_nil:
  assumes "stacks w L = Some (s @ [v, LNil, u])" and "border E [v, LNil, u] = 1"
  shows "is_border [v, LNil, u] 1 = (v \<noteq> LNil)
       \<and> (\<exists>w'. seq (tpack L 3) (tunpack E L (-1)) w = (Inr 1, w') \<and> stacks w' L = Some (s @ [v]))"
proof -
  let ?w = "setst L (s @ [LTable (fresh w)])
      (w\<lparr>tabs := (tabs w)(fresh w \<mapsto> empty_table\<lparr>arr := [v, LNil, u]\<rparr>), fresh := Suc (fresh w)\<rparr>)"
  have pack: "tpack L 3 w = (Inr (), ?w)"
    using tpack_run [OF assms(1)] by (simp add: eval_nat_numeral)
  have rem: "lua_remove L (int (length s) + 1) w' = (Inr (), setst L (s @ [v]) w')"
    if "stacks w' L = Some (s @ LTable (fresh w) # [v])" for w'
    by (rule lua_remove_mid_run [OF that])
  have "tunpack E L (-1) ?w = (Inr 1, setst L (s @ [v]) ?w)"
    using assms(2) rem
    by (simp add: tunpack_def luaL_len_def lua_rawgeti_def tget_def lua_run add.commute)
  with pack show ?thesis by (simp add: lua_run is_border_def)
qed

theorem tunpack_tpack_nil_witness:
  "is_border [LInteger 2, LNil, LInteger 3] 1 = (LInteger 2 \<noteq> LNil)
     \<and> (\<exists>w'. seq (tpack 1 3) (tunpack env0 1 (-1)) (world0 [1 \<mapsto> [] @ [LInteger 2, LNil, LInteger 3]]) = (Inr 1, w')
          \<and> stacks w' 1 = Some ([] @ [LInteger 2]))"
  by (rule tunpack_tpack_nil) simp_all

end
