(* ===== verification/Pthread_Copy.thy ===== *)
theory Pthread_Copy
  imports Utils
begin

text \<open>
  \<^verbatim>\<open>copyn\<close> of \<^verbatim>\<open>libpthread/lua_pthread.c\<close>: values are copied from the stack of one Lua state to
  the stack of another. Plain values are copied as they are, functions by dumping and loading
  their code and copying their upvalues; everything else is refused. Thread arguments, thread
  results and the values of a rendezvous all go through it.
\<close>

section \<open>Functions of the API on closures\<close>

definition luaL_buffinit :: "env \<Rightarrow> lstate \<Rightarrow> unit lua" where
  "luaL_buffinit E L = (if bufslot E then lua_pushlightuserdata L 1 else ret ())"

text \<open>
  \<^verbatim>\<open>lua_dump\<close> of the value on top of the stack: nothing (a nonzero status) unless it is a Lua
  function; otherwise its prototype and the names of its upvalues. The writer of the code
  never fails.
\<close>

definition lua_dump :: "lstate \<Rightarrow> (nat \<times> string list) option lua" where
  "lua_dump L w = askst L (\<lambda>s. case at s (-1) of
      Some (LFunction c) \<Rightarrow> (case clos w c of
          Some cl \<Rightarrow> (if is_c cl then None else Some (proto cl, map fst (upvals cl)))
        | None \<Rightarrow> None)
    | _ \<Rightarrow> None) w"

text \<open>The text of the chunk is pushed and the slot of the buffer is given back.\<close>

definition luaL_pushresult :: "env \<Rightarrow> lstate \<Rightarrow> unit lua" where
  "luaL_pushresult E L =
     seq (lua_pushstring L [])
     (if bufslot E then lua_remove L (-2) else ret ())"

text \<open>
  \<^verbatim>\<open>luaL_loadbuffer\<close> makes a new closure of the dumped prototype: its first upvalue is the
  global environment of the state, the others are nil (section 4.6 of the manual, \<^verbatim>\<open>lua_load\<close>).
  Where it fails it pushes a message.
\<close>

fun load_upvals :: "lval \<Rightarrow> string list \<Rightarrow> (string \<times> lval) list" where
  "load_upvals g [] = []"
| "load_upvals g (n # ns) = (n, g) # map (\<lambda>m. (m, LNil)) ns"

definition luaL_loadbuffer :: "env \<Rightarrow> lstate \<Rightarrow> nat \<times> string list \<Rightarrow> bool lua" where
  "luaL_loadbuffer E l chunk = lbind (ccall E ''luaL_loadbuffer'' []) (\<lambda>r w.
     (if rc r \<noteq> 0 then seq (lua_pushstring l (outs r)) (ret False) w
      else seq (lua_push l (LFunction (fresh w))) (ret True)
        (w\<lparr>clos := (clos w)(fresh w \<mapsto> \<lparr>is_c = False, proto = fst chunk,
                                    upvals = load_upvals (globals E l) (snd chunk)\<rparr>),
           fresh := Suc (fresh w)\<rparr>)))"

definition clos_at :: "world \<Rightarrow> lval list \<Rightarrow> int \<Rightarrow> closure option" where
  "clos_at w s i = (case at s i of Some (LFunction c) \<Rightarrow> clos w c | _ \<Rightarrow> None)"

text \<open>The number of upvalues of the function at an index: a bound for the loop over them.\<close>

definition nupvalues :: "lstate \<Rightarrow> int \<Rightarrow> nat lua" where
  "nupvalues L i w = askst L (\<lambda>s. case clos_at w s i of None \<Rightarrow> 0 | Some cl \<Rightarrow> length (upvals cl)) w"

definition lua_getupvalue :: "lstate \<Rightarrow> int \<Rightarrow> nat \<Rightarrow> string option lua" where
  "lua_getupvalue L i uv w = (case stacks w L of None \<Rightarrow> (Inl Undef, w)
    | Some s \<Rightarrow> (case clos_at w s i of None \<Rightarrow> (Inl Undef, w)
    | Some cl \<Rightarrow> (if 1 \<le> uv \<and> uv \<le> length (upvals cl)
        then seq (lua_push L (snd (upvals cl ! (uv - 1)))) (ret (Some (fst (upvals cl ! (uv - 1))))) w
        else (Inr None, w))))"

definition lua_setupvalue :: "lstate \<Rightarrow> int \<Rightarrow> nat \<Rightarrow> string option lua" where
  "lua_setupvalue L i uv w = (case stacks w L of None \<Rightarrow> (Inl Undef, w)
    | Some s \<Rightarrow> (case at s i of
        Some (LFunction c) \<Rightarrow> (case clos w c of None \<Rightarrow> (Inl Undef, w)
        | Some cl \<Rightarrow> (if 1 \<le> uv \<and> uv \<le> length (upvals cl)
            then (let name = fst (upvals cl ! (uv - 1)) in
              seq (lua_pop L 1) (ret (Some name))
                (w\<lparr>clos := (clos w)(c \<mapsto> cl\<lparr>upvals := (upvals cl)[uv - 1 := (name, last s)]\<rparr>)\<rparr>))
            else (Inr None, w)))
      | _ \<Rightarrow> (Inl Undef, w)))"

definition c_assert :: "bool \<Rightarrow> unit lua" where
  "c_assert b = (if b then ret () else throw AssertFailed)"

lemma c_assert_simps [simp]: "c_assert True = ret ()" "c_assert False = throw AssertFailed"
  by (simp_all add: c_assert_def)

section \<open>copyn\<close>

text \<open>
  \<open>cp\<close> stands for the recursive call. The loop over the upvalues has \<open>k\<close> rounds left at most;
  the result says whether all were copied.
\<close>

fun copyups :: "(lstate \<Rightarrow> lstate \<Rightarrow> int \<Rightarrow> nat \<Rightarrow> int lua) \<Rightarrow>
    lstate \<Rightarrow> lstate \<Rightarrow> int \<Rightarrow> int \<Rightarrow> nat \<Rightarrow> nat \<Rightarrow> bool lua" where
  "copyups cp L l idx lidx uv 0 = throw NoFuel"
| "copyups cp L l idx lidx uv (Suc k) =
     lbind (lua_getupvalue L idx uv) (\<lambda>r. case r of
       None \<Rightarrow> ret True
     | Some name \<Rightarrow>
         (if name = ''_ENV'' then
            seq (lua_pop L 1)
            (copyups cp L l idx lidx (Suc uv) k)
          else
            lbind (cp L l (-1) 1) (\<lambda>e.
            if e \<noteq> 0 then ret False
            else
              seq (lua_pop L 1)
             (lbind (lua_setupvalue l lidx uv) (\<lambda>name.
              seq (c_assert (name \<noteq> None))
              (copyups cp L l idx lidx (Suc uv) k))))))"

text \<open>One round of the loop of \<^verbatim>\<open>copyn\<close>: the \<^verbatim>\<open>switch\<close> on the type of the value at \<open>idx\<close>.\<close>

definition copyval :: "env \<Rightarrow> (lstate \<Rightarrow> lstate \<Rightarrow> int \<Rightarrow> nat \<Rightarrow> int lua) \<Rightarrow>
    lstate \<Rightarrow> lstate \<Rightarrow> int \<Rightarrow> bool lua" where
  "copyval E cp L l idx = lbind (askst L (\<lambda>s. at s idx)) (\<lambda>v. case v of
      Some LNil \<Rightarrow> seq (lua_pushnil l) (ret True)
    | Some (LBoolean b) \<Rightarrow> seq (lua_pushboolean l b) (ret True)
    | Some (LLightuserdata p) \<Rightarrow> seq (lua_pushlightuserdata l p) (ret True)
    | Some (LInteger i) \<Rightarrow> seq (lua_pushinteger l i) (ret True)
    | Some (LNumber d) \<Rightarrow> seq (lua_push l (LNumber d)) (ret True)
    | Some (LString str) \<Rightarrow> seq (lua_pushstring l str) (ret True)
    | Some (LFunction c) \<Rightarrow>
        seq (luaL_buffinit E L)
       (seq (lua_pushvalue L idx)
       (lbind (lua_dump L) (\<lambda>d. case d of
          None \<Rightarrow> ret False
        | Some chunk \<Rightarrow>
            seq (luaL_pushresult E L)
           (lbind (luaL_loadbuffer E l chunk) (\<lambda>ok.
            if \<not> ok then ret False
            else
              seq (lua_pop L 2)
             (lbind (lua_gettop l) (\<lambda>lidx.
              lbind (nupvalues L idx) (\<lambda>k.
              lbind (copyups cp L l idx (int lidx) 1 (Suc k)) (\<lambda>ok.
              if \<not> ok then ret False
              else
                lbind (lua_gettop l) (\<lambda>top.
                seq (c_assert (top = lidx))
                (ret True)))))))))))
    | _ \<Rightarrow> ret False)"

text \<open>The loop: \<open>n\<close> values are left, the next one is at \<open>idx\<close>; \<open>Some idx\<close> is the index refused.\<close>

fun copyloop :: "env \<Rightarrow> (lstate \<Rightarrow> lstate \<Rightarrow> int \<Rightarrow> nat \<Rightarrow> int lua) \<Rightarrow>
    lstate \<Rightarrow> lstate \<Rightarrow> int \<Rightarrow> nat \<Rightarrow> int option lua" where
  "copyloop E cp L l idx 0 = ret None"
| "copyloop E cp L l idx (Suc n) =
     lbind (copyval E cp L l idx) (\<lambda>ok.
     if ok then copyloop E cp L l (idx + 1) n else ret (Some idx))"

text \<open>
  The first argument bounds the depth of the recursion; \<open>NoFuel\<close> is the end of the C stack.
\<close>

fun copyn :: "nat \<Rightarrow> env \<Rightarrow> lstate \<Rightarrow> lstate \<Rightarrow> int \<Rightarrow> nat \<Rightarrow> int lua" where
  "copyn 0 E L l idx n = throw NoFuel"
| "copyn (Suc depth) E L l idx n =
     lbind (lua_gettop L) (\<lambda>Ltop.
     lbind (lua_gettop l) (\<lambda>ltop.
     lbind (copyloop E (copyn depth E) L l idx n) (\<lambda>r. case r of
       Some i \<Rightarrow> ret i
     | None \<Rightarrow>
         lbind (lua_gettop L) (\<lambda>Ltop'.
         lbind (lua_gettop l) (\<lambda>ltop'.
         seq (c_assert (Ltop' = Ltop))
        (seq (c_assert (ltop' = ltop + n))
         (ret 0)))))))"

section \<open>What a copy is\<close>

fun plain :: "lval \<Rightarrow> bool" where
  "plain (LTable _) = False"
| "plain (LFunction _) = False"
| "plain (LUserdata _) = False"
| "plain (LThread _) = False"
| "plain _ = True"

text \<open>
  \<open>copied E l w n m v v'\<close>: \<open>v'\<close> is a faithful copy of \<open>v\<close> for the state \<open>l\<close>. A plain value is
  its own copy. A function is copied to a new closure of the same code whose upvalues are
  copies, except \<^verbatim>\<open>_ENV\<close>: the first upvalue is then the global environment of \<open>l\<close>, any other
  nil. Closures that are copied have numbers below \<open>n\<close>, their copies have numbers from \<open>m\<close> on.
\<close>

inductive copied :: "env \<Rightarrow> lstate \<Rightarrow> world \<Rightarrow> nat \<Rightarrow> nat \<Rightarrow> lval \<Rightarrow> lval \<Rightarrow> bool"
  for E l w n m where
  plain: "plain v \<Longrightarrow> copied E l w n m v v"
| closure: "c < n \<Longrightarrow> m \<le> c' \<Longrightarrow> clos w c = Some cl \<Longrightarrow> clos w c' = Some cl' \<Longrightarrow>
    \<not> is_c cl' \<Longrightarrow> proto cl' = proto cl \<Longrightarrow> map fst (upvals cl') = map fst (upvals cl) \<Longrightarrow>
    (\<forall>i < length (upvals cl).
       if fst (upvals cl ! i) = ''_ENV''
       then snd (upvals cl' ! i) = (if i = 0 then globals E l else LNil)
       else copied E l w n m (snd (upvals cl ! i)) (snd (upvals cl' ! i))) \<Longrightarrow>
    copied E l w n m (LFunction c) (LFunction c')"

inductive_simps copied_plain_simps:
  "copied E l w n m LNil v'" "copied E l w n m (LBoolean b) v'"
  "copied E l w n m (LLightuserdata p) v'" "copied E l w n m (LInteger i) v'"
  "copied E l w n m (LNumber d) v'" "copied E l w n m (LString str) v'"

inductive_cases copied_functionE: "copied E l w n m (LFunction c) v'"

lemma copied_plain: "copied E l w n m v v' \<Longrightarrow> plain v \<Longrightarrow> v' = v"
  by (cases v) (simp_all add: copied_plain_simps)

lemma copied_transfer:
  assumes "copied E l w n m v v'"
    and "\<And>c. c < n \<or> m \<le> c \<Longrightarrow> clos w c \<noteq> None \<Longrightarrow> clos w2 c = clos w c" and "m2 \<le> m"
  shows "copied E l w2 n m2 v v'"
  using assms(1)
proof (induction rule: copied.induct)
  case (plain v)
  then show ?case by (rule copied.plain)
next
  case (closure c c' cl cl')
  have *: "clos w2 c = Some cl" "clos w2 c' = Some cl'"
    using assms(2) [of c] assms(2) [of c'] closure by auto
  have "m2 \<le> c'" using closure(2) assms(3) by simp
  moreover have "\<forall>i < length (upvals cl).
       if fst (upvals cl ! i) = ''_ENV''
       then snd (upvals cl' ! i) = (if i = 0 then globals E l else LNil)
       else copied E l w2 n m2 (snd (upvals cl ! i)) (snd (upvals cl' ! i))"
    using closure(8) by (meson)
  ultimately show ?case
    using closure * by (intro copied.closure)
qed

text \<open>Closures have numbers below \<open>fresh\<close>.\<close>

definition clos_wf :: "world \<Rightarrow> bool" where
  "clos_wf w \<longleftrightarrow> (\<forall>c. clos w c \<noteq> None \<longrightarrow> c < fresh w)"

text \<open>
  \<open>grown w w'\<close>: from \<open>w\<close> to \<open>w'\<close> only new closures were made (and the stacks and the trace may
  have changed).
\<close>

definition grown :: "world \<Rightarrow> world \<Rightarrow> bool" where
  "grown w w' \<longleftrightarrow> tabs w' = tabs w \<and> uds w' = uds w \<and> mem w' = mem w \<and> registry w' = registry w
     \<and> (\<forall>c < fresh w. clos w' c = clos w c) \<and> fresh w \<le> fresh w' \<and> clos_wf w'"

lemma clos_wf_setst [simp]: "clos_wf (setst L s w) = clos_wf w"
  by (simp add: clos_wf_def)

lemma grown_refl: "clos_wf w \<Longrightarrow> grown w w"
  by (simp add: grown_def)

lemma grown_trans: "grown a b \<Longrightarrow> grown b c \<Longrightarrow> grown a c"
  by (auto simp: grown_def)

lemma grown_setst [simp]: "grown w (setst L s w') = grown w w'" "grown (setst L s w) w' = grown w w'"
  by (simp_all add: grown_def clos_wf_def)

text \<open>\<open>copies_to E l n T vs w w'\<close>: the state \<open>l\<close> got copies of \<open>vs\<close> on top of its stack \<open>T\<close>.\<close>

definition copies_to :: "env \<Rightarrow> lstate \<Rightarrow> nat \<Rightarrow> lval list \<Rightarrow> lval list \<Rightarrow> world \<Rightarrow> world \<Rightarrow> bool" where
  "copies_to E l n T vs w w' \<longleftrightarrow> grown w w' \<and> (\<exists>vs'. stacks w' = (stacks w)(l \<mapsto> T @ vs')
     \<and> list_all2 (copied E l w' n (fresh w)) vs vs')"

lemma copied_grown:
  "copied E l w n m v v' \<Longrightarrow> grown w w2 \<Longrightarrow> clos_wf w \<Longrightarrow> m2 \<le> m \<Longrightarrow> copied E l w2 n m2 v v'"
  by (erule copied_transfer) (auto simp: grown_def clos_wf_def)

lemma copies_to_append:
  assumes "copies_to E l n T us w w1" and "copies_to E l n (T @ us') vs w1 w2"
    and "stacks w1 = (stacks w)(l \<mapsto> T @ us')"
  shows "copies_to E l n T (us @ vs) w w2"
proof -
  from assms(1) obtain xs where g1: "grown w w1" and "stacks w1 = (stacks w)(l \<mapsto> T @ xs)"
      and c1: "list_all2 (copied E l w1 n (fresh w)) us xs"
    by (auto simp: copies_to_def)
  with assms(3) have xs: "xs = us'" by (auto dest: fun_cong [where x = l])
  from assms(2) obtain ys where g2: "grown w1 w2" and s2: "stacks w2 = (stacks w1)(l \<mapsto> (T @ us') @ ys)"
      and c2: "list_all2 (copied E l w2 n (fresh w1)) vs ys"
    by (auto simp: copies_to_def)
  have wf1: "clos_wf w1" and "fresh w \<le> fresh w1" using g1 by (auto simp: grown_def)
  have wf2: "clos_wf w2" using g2 by (simp add: grown_def)
  have "list_all2 (copied E l w2 n (fresh w)) us us'"
    using c1 xs by (auto elim!: list_all2_mono copied_grown [OF _ g2 wf1])
  moreover have "list_all2 (copied E l w2 n (fresh w)) vs ys"
    using c2 \<open>fresh w \<le> fresh w1\<close>
    by (auto elim!: list_all2_mono copied_transfer)
  ultimately have "list_all2 (copied E l w2 n (fresh w)) (us @ vs) (us' @ ys)"
    by (rule list_all2_appendI)
  moreover have "stacks w2 = (stacks w)(l \<mapsto> T @ (us' @ ys))"
    using s2 assms(3) by simp
  ultimately show ?thesis
    using grown_trans [OF g1 g2] unfolding copies_to_def by blast
qed

section \<open>What can be copied\<close>

text \<open>
  \<open>serializable E d n w v\<close>: plain values, and Lua functions (with numbers below \<open>n\<close>) whose
  upvalues other than \<^verbatim>\<open>_ENV\<close> are serializable, nested at most \<open>d\<close> deep. Where buffers take a
  stack slot, an upvalue must be plain: see \<open>copyn_nested_refused\<close> below.
\<close>

fun serializable :: "env \<Rightarrow> nat \<Rightarrow> nat \<Rightarrow> world \<Rightarrow> lval \<Rightarrow> bool" where
  "serializable E 0 n w v = plain v"
| "serializable E (Suc d) n w v = (case v of
      LFunction c \<Rightarrow> c < n \<and> (case clos w c of None \<Rightarrow> False
        | Some cl \<Rightarrow> \<not> is_c cl \<and> list_all (\<lambda>(nm, u). nm \<noteq> ''_ENV'' \<longrightarrow>
            (if bufslot E then plain u else serializable E d n w u)) (upvals cl))
    | _ \<Rightarrow> plain v)"

lemma serializable_plain: "plain v \<Longrightarrow> serializable E d n w v"
  by (cases d; cases v) auto

lemma serializable_transfer:
  "serializable E d n w v \<Longrightarrow> (\<And>c. c < n \<Longrightarrow> clos w' c = clos w c) \<Longrightarrow> serializable E d n w' v"
proof (induction d arbitrary: v)
  case 0
  then show ?case by simp
next
  case (Suc d)
  then show ?case
    by (cases v) (auto simp: list_all_iff split: option.splits if_splits)
qed

lemma serializable_mono: "serializable E d n w v \<Longrightarrow> n \<le> n' \<Longrightarrow> serializable E d n' w v"
proof (induction d arbitrary: v)
  case 0
  then show ?case by simp
next
  case (Suc d)
  then show ?case
    by (cases v) (auto simp: list_all_iff split: option.splits if_splits)
qed

text \<open>What the loop over the upvalues needs of the recursive call.\<close>

definition cp_spec :: "env \<Rightarrow> nat \<Rightarrow> (world \<Rightarrow> lval \<Rightarrow> bool) \<Rightarrow>
    (lstate \<Rightarrow> lstate \<Rightarrow> int \<Rightarrow> nat \<Rightarrow> int lua) \<Rightarrow> bool" where
  "cp_spec E n D cp \<longleftrightarrow> (\<forall>L l S T v w. L \<noteq> l \<longrightarrow> stacks w L = Some (S @ [v]) \<longrightarrow>
     stacks w l = Some T \<longrightarrow> clos_wf w \<longrightarrow> n \<le> fresh w \<longrightarrow> D w v \<longrightarrow>
     (\<exists>w'. cp L l (-1) 1 w = (Inr 0, w') \<and> copies_to E l n T [v] w w'))"

definition stable :: "nat \<Rightarrow> (world \<Rightarrow> lval \<Rightarrow> bool) \<Rightarrow> bool" where
  "stable n D \<longleftrightarrow> (\<forall>w w' v. (\<forall>c < n. clos w' c = clos w c) \<longrightarrow> D w v \<longrightarrow> D w' v)"

lemma cp_specD:
  assumes "cp_spec E n D cp" and "L \<noteq> l" and "stacks w L = Some (S @ [v])" and "stacks w l = Some T"
    and "clos_wf w" and "n \<le> fresh w" and "D w v"
  shows "\<exists>w'. cp L l (-1) 1 w = (Inr 0, w') \<and> copies_to E l n T [v] w w'"
  using assms unfolding cp_spec_def by blast

lemma stableD: "stable n D \<Longrightarrow> D w v \<Longrightarrow> (\<And>c. c < n \<Longrightarrow> clos w' c = clos w c) \<Longrightarrow> D w' v"
  unfolding stable_def by blast

text \<open>
  The upvalues of the new closure during the loop: the first \<open>j\<close> are done, the others are as
  \<^verbatim>\<open>luaL_loadbuffer\<close> left them.
\<close>

definition ups_done :: "env \<Rightarrow> lstate \<Rightarrow> nat \<Rightarrow> nat \<Rightarrow> nat \<Rightarrow> world \<Rightarrow>
    (string \<times> lval) list \<Rightarrow> (string \<times> lval) list \<Rightarrow> bool" where
  "ups_done E l n m j w ups ups' \<longleftrightarrow> map fst ups' = map fst ups \<and> (\<forall>i < length ups.
     if i < j \<and> fst (ups ! i) \<noteq> ''_ENV'' then copied E l w n m (snd (ups ! i)) (snd (ups' ! i))
     else snd (ups' ! i) = (if i = 0 then globals E l else LNil))"

lemma ups_done_init: "ups_done E l n m 0 w ups (load_upvals (globals E l) (map fst ups))"
  by (cases ups) (auto simp: ups_done_def nth_Cons split: nat.splits)

lemma ups_done_env:
  "ups_done E l n m j w ups ups' \<Longrightarrow> j < length ups \<Longrightarrow> fst (ups ! j) = ''_ENV'' \<Longrightarrow>
   ups_done E l n m (Suc j) w ups ups'"
  by (auto simp: ups_done_def less_Suc_eq)

lemma ups_done_step:
  assumes "ups_done E l n m j w ups ups'" and "j < length ups" and "fst (ups ! j) \<noteq> ''_ENV''"
    and "copied E l w n m (snd (ups ! j)) v'"
  shows "ups_done E l n m (Suc j) w ups (ups'[j := (fst (ups' ! j), v')])"
proof -
  have len: "length ups' = length ups" and fsts: "map fst ups' = map fst ups"
    using assms(1) by (auto simp: ups_done_def dest: map_eq_imp_length_eq)
  have "map fst (ups'[j := (fst (ups' ! j), v')]) = map fst ups"
    using fsts len assms(2)
    by (metis (no_types, lifting) fst_conv list_update_id map_update)
  with assms len show ?thesis
    by (auto simp: ups_done_def nth_list_update less_Suc_eq)
qed

lemma ups_done_transfer:
  assumes "ups_done E l n m j w ups ups'"
    and "\<And>c. c < n \<or> m \<le> c \<Longrightarrow> clos w c \<noteq> None \<Longrightarrow> clos w2 c = clos w c"
  shows "ups_done E l n m j w2 ups ups'"
proof -
  have "copied E l w2 n m u v" if "copied E l w n m u v" for u v
    by (rule copied_transfer [OF that]) (use assms(2) in auto)
  with assms(1) show ?thesis unfolding ups_done_def by metis
qed

text \<open>\<open>grown_but c'\<close>: as \<open>grown\<close>, but the closure \<open>c'\<close> may have changed.\<close>

definition grown_but :: "nat \<Rightarrow> world \<Rightarrow> world \<Rightarrow> bool" where
  "grown_but c' w w' \<longleftrightarrow> tabs w' = tabs w \<and> uds w' = uds w \<and> mem w' = mem w
     \<and> registry w' = registry w \<and> (\<forall>c < fresh w. c \<noteq> c' \<longrightarrow> clos w' c = clos w c)
     \<and> fresh w \<le> fresh w' \<and> clos_wf w'"

lemma grown_but_refl: "clos_wf w \<Longrightarrow> grown_but c' w w"
  by (simp add: grown_but_def)

lemma grown_but_trans: "grown_but c' a b \<Longrightarrow> grown_but c' b c \<Longrightarrow> grown_but c' a c"
  by (auto simp: grown_but_def)

lemma lua_getupvalue_run [lua_run]:
  "stacks w L = Some s \<Longrightarrow> clos_at w s i = Some cl \<Longrightarrow>
   lua_getupvalue L i (Suc j) w = (if j < length (upvals cl)
     then (Inr (Some (fst (upvals cl ! j))), setst L (s @ [snd (upvals cl ! j)]) w)
     else (Inr None, w))"
  by (simp add: lua_getupvalue_def lua_run)

lemma lua_setupvalue_run [lua_run]:
  "stacks w l = Some (T @ [LFunction c', v]) \<Longrightarrow> clos w c' = Some cl' \<Longrightarrow> j < length (upvals cl') \<Longrightarrow>
   lua_setupvalue l (1 + int (length T)) (Suc j) w = (Inr (Some (fst (upvals cl' ! j))),
     setst l (T @ [LFunction c'])
       (w\<lparr>clos := (clos w)(c' \<mapsto> cl'\<lparr>upvals := (upvals cl')[j := (fst (upvals cl' ! j), v)]\<rparr>)\<rparr>))"
  by (simp add: lua_setupvalue_def lua_run)

text \<open>The state of the loop over the upvalues when \<open>j\<close> of them are done.\<close>

definition ups_state :: "env \<Rightarrow> lstate \<Rightarrow> lstate \<Rightarrow> nat \<Rightarrow> lval list \<Rightarrow> int \<Rightarrow> closure \<Rightarrow> lval list \<Rightarrow>
    nat \<Rightarrow> nat \<Rightarrow> nat \<Rightarrow> world \<Rightarrow> bool" where
  "ups_state E L l n S idx cl T c' pr j w \<longleftrightarrow> L \<noteq> l \<and> n \<le> c' \<and> c' < fresh w \<and> clos_wf w
     \<and> stacks w L = Some S \<and> stacks w l = Some (T @ [LFunction c'])
     \<and> (\<exists>c. at S idx = Some (LFunction c) \<and> c < n \<and> clos w c = Some cl)
     \<and> (\<exists>cl'. clos w c' = Some cl' \<and> \<not> is_c cl' \<and> proto cl' = pr
          \<and> ups_done E l n (Suc c') j w (upvals cl) (upvals cl'))"

lemma ups_step_env:
  assumes "ups_state E L l n S idx cl T c' pr j w" and "j < length (upvals cl)"
    and "fst (upvals cl ! j) = ''_ENV''"
  shows "ups_state E L l n S idx cl T c' pr (Suc j) w"
  using assms by (auto simp: ups_state_def intro: ups_done_env)

lemma ups_step_copy:
  assumes st: "ups_state E L l n S idx cl T c' pr j w" and cp: "cp_spec E n D cp"
    and j: "j < length (upvals cl)" and env: "fst (upvals cl ! j) \<noteq> ''_ENV''"
    and D: "D (setst L (S @ [snd (upvals cl ! j)]) w) (snd (upvals cl ! j))"
  shows "\<exists>w1 w2 v'. cp L l (-1) 1 (setst L (S @ [snd (upvals cl ! j)]) w) = (Inr 0, w1)
    \<and> lua_pop L 1 w1 = (Inr (), setst L S w1)
    \<and> lua_setupvalue l (1 + int (length T)) (Suc j) (setst L S w1) = (Inr (Some v'), w2)
    \<and> stacks w2 = stacks w \<and> grown_but c' w w2 \<and> ups_state E L l n S idx cl T c' pr (Suc j) w2"
proof -
  let ?u = "snd (upvals cl ! j)" and ?w0 = "setst L (S @ [snd (upvals cl ! j)]) w"
  from st obtain c cl' where s: "L \<noteq> l" "n \<le> c'" "c' < fresh w" "clos_wf w" "stacks w L = Some S"
      "stacks w l = Some (T @ [LFunction c'])" "at S idx = Some (LFunction c)" "c < n"
      "clos w c = Some cl" "clos w c' = Some cl'" "\<not> is_c cl'" "proto cl' = pr"
      and ups: "ups_done E l n (Suc c') j w (upvals cl) (upvals cl')"
    unfolding ups_state_def by blast
  have nf: "n \<le> fresh w" using s by linarith
  have "\<exists>w1. cp L l (-1) 1 ?w0 = (Inr 0, w1) \<and> copies_to E l n (T @ [LFunction c']) [?u] ?w0 w1"
    by (rule cp_specD [OF cp]) (simp_all add: s s(1) [symmetric] nf D)
  then obtain w1 v' where run: "cp L l (-1) 1 ?w0 = (Inr 0, w1)" and g: "grown ?w0 w1"
      and s1: "stacks w1 = (stacks ?w0)(l \<mapsto> (T @ [LFunction c']) @ [v'])"
      and cpd: "copied E l w1 n (fresh w) ?u v'"
    by (auto simp: copies_to_def list_all2_Cons1)
  have len: "length (upvals cl') = length (upvals cl)"
    using ups by (auto simp: ups_done_def dest: map_eq_imp_length_eq)
  let ?cl2 = "cl'\<lparr>upvals := (upvals cl')[j := (fst (upvals cl' ! j), v')]\<rparr>"
  let ?w2 = "setst l (T @ [LFunction c']) ((setst L S w1)\<lparr>clos := (clos w1)(c' \<mapsto> ?cl2)\<rparr>)"
  have c1: "clos w1 x = clos w x" if "x < fresh w" for x
    using g that by (simp add: grown_def)
  have c'1: "clos w1 c' = Some cl'" and wf1: "clos_wf w1" "fresh w \<le> fresh w1"
    using s g c1 by (auto simp: grown_def)
  have pop: "lua_pop L 1 w1 = (Inr (), setst L S w1)"
    using s s1 by (simp add: lua_run)
  have set: "lua_setupvalue l (1 + int (length T)) (Suc j) (setst L S w1)
      = (Inr (Some (fst (upvals cl' ! j))), ?w2)"
    using s s1 c'1 j len by (simp add: lua_run)
  have stk: "stacks ?w2 = stacks w"
    using s s1 by (auto simp: fun_eq_iff)
  have gb: "grown_but c' w ?w2"
    using g s by (auto simp: grown_but_def grown_def clos_wf_def)
  have old: "clos ?w2 x = clos w x" if "x < n \<or> Suc c' \<le> x" "clos w x \<noteq> None" for x
    using that c1 s by (auto simp: clos_wf_def)
  have "copied E l ?w2 n (Suc c') ?u v'"
    by (rule copied_transfer [OF cpd]) (use s c1 in auto)
  then have "ups_done E l n (Suc c') (Suc j) ?w2 (upvals cl) (upvals ?cl2)"
    using ups_done_step [OF ups_done_transfer [OF ups old] j env] by simp
  then have "ups_state E L l n S idx cl T c' pr (Suc j) ?w2"
    using s s1 c1 stk gb unfolding ups_state_def grown_but_def by auto
  with run pop set stk gb show ?thesis by blast
qed

lemma copyups_run:
  assumes cp: "cp_spec E n D cp" and st: "stable n D"
    and D: "list_all (\<lambda>(nm, u). nm \<noteq> ''_ENV'' \<longrightarrow> D w u) (upvals cl)"
    and "ups_state E L l n S idx cl T c' pr j w" and "j + k = length (upvals cl)"
  shows "\<exists>w'. copyups cp L l idx (1 + int (length T)) (Suc j) (Suc k) w = (Inr True, w')
    \<and> stacks w' = stacks w \<and> grown_but c' w w'
    \<and> ups_state E L l n S idx cl T c' pr (length (upvals cl)) w'"
  using assms(4,5) D
proof (induction k arbitrary: j w)
  case 0
  then have "clos_at w S idx = Some cl" by (auto simp: ups_state_def clos_at_def)
  with 0 show ?case
    by (auto simp: ups_state_def lua_run grown_but_refl)
next
  case (Suc k)
  then have j: "j < length (upvals cl)" by simp
  have cl: "clos_at w S idx = Some cl" and SL: "stacks w L = Some S" and wf: "clos_wf w" and n: "n \<le> c'" "c' < fresh w"
    using Suc.prems(1) by (auto simp: ups_state_def clos_at_def)
  show ?case
  proof (cases "fst (upvals cl ! j) = ''_ENV''")
    case True
    from Suc.IH [OF ups_step_env [OF Suc.prems(1) j True]] Suc.prems True j cl SL show ?thesis
      by (simp add: lua_run setst_same)
  next
    case False
    let ?u = "snd (upvals cl ! j)"
    have "D w ?u" using Suc.prems(3) j False by (simp add: list_all_length split_beta)
    then have Du: "D (setst L (S @ [?u]) w) ?u" by (rule stableD [OF st]) simp
    from ups_step_copy [OF Suc.prems(1) cp j False Du] obtain w1 w2 v' where
        run: "cp L l (-1) 1 (setst L (S @ [?u]) w) = (Inr 0, w1)"
          "lua_pop L 1 w1 = (Inr (), setst L S w1)"
          "lua_setupvalue l (1 + int (length T)) (Suc j) (setst L S w1) = (Inr (Some v'), w2)"
        and w2: "stacks w2 = stacks w" "grown_but c' w w2" "ups_state E L l n S idx cl T c' pr (Suc j) w2"
      by blast
    have "D w2 u" if "D w u" for u
      using that by (rule stableD [OF st]) (use w2(2) n in \<open>simp add: grown_but_def\<close>)
    with Suc.prems(3) have D2: "list_all (\<lambda>(nm, u). nm \<noteq> ''_ENV'' \<longrightarrow> D w2 u) (upvals cl)"
      by (auto simp: list_all_iff)
    have eq: "Suc j + k = length (upvals cl)" using Suc.prems(2) by simp
    from Suc.IH [OF w2(3) eq D2] obtain w3 where
        "copyups cp L l idx (1 + int (length T)) (Suc (Suc j)) (Suc k) w2 = (Inr True, w3)"
        "stacks w3 = stacks w2" "grown_but c' w2 w3"
        "ups_state E L l n S idx cl T c' pr (length (upvals cl)) w3"
      by blast
    with run w2 cl SL j False show ?thesis
      by (auto simp: lua_run c_assert_def intro: grown_but_trans)
  qed
qed

lemma lua_remove_second_run [lua_run]:
  "stacks w L = Some (s @ [a, b]) \<Longrightarrow> lua_remove L (-2) w = (Inr (), setst L (s @ [b]) w)"
  by (simp add: lua_remove_def lua_run)

text \<open>Loading never fails (it fails only where memory is exhausted).\<close>

definition loads_ok :: "env \<Rightarrow> bool" where
  "loads_ok E \<longleftrightarrow> (\<forall>tr. rc (reply E tr (''luaL_loadbuffer'', [])) = 0)"

text \<open>Up to the loop over the upvalues, the code of a function is dumped and loaded.\<close>

lemma copyval_load:
  assumes "loads_ok E" and "L \<noteq> l" and SL: "stacks w L = Some S" and Tl: "stacks w l = Some T"
    and v: "at S idx = Some (LFunction c)" and cl: "clos w c = Some cl" "\<not> is_c cl"
    and idx: "1 \<le> idx \<or> \<not> bufslot E" and "clos_wf w"
  shows "\<exists>w1. copyval E cp L l idx w =
      lbind (copyups cp L l idx (1 + int (length T)) 1 (Suc (length (upvals cl)))) (\<lambda>ok.
        if \<not> ok then ret False
        else lbind (lua_gettop l) (\<lambda>top. seq (c_assert (top = Suc (length T))) (ret True))) w1
    \<and> stacks w1 = (stacks w)(l \<mapsto> T @ [LFunction (fresh w)])
    \<and> clos w1 = (clos w)(fresh w \<mapsto> \<lparr>is_c = False, proto = proto cl,
                   upvals = load_upvals (globals E l) (map fst (upvals cl))\<rparr>)
    \<and> fresh w1 = Suc (fresh w) \<and> tabs w1 = tabs w \<and> uds w1 = uds w \<and> mem w1 = mem w
    \<and> registry w1 = registry w"
proof -
  have c: "c < fresh w" using cl(1) assms(9) unfolding clos_wf_def by blast
  have at: "at (S @ [x]) idx = Some (LFunction c)" if "bufslot E" for x
    using v idx that by (cases "idx \<le> int (length S)") (simp_all add: at_append)
  have n: "clos_at w S idx = Some cl" using v cl by (simp add: clos_at_def)
  let ?w1 = "setst L S (setst l (T @ [LFunction (fresh w)])
      (w\<lparr>trace := (''luaL_loadbuffer'', []) # trace w,
         clos := (clos w)(fresh w \<mapsto> \<lparr>is_c = False, proto = proto cl,
                   upvals = load_upvals (globals E l) (map fst (upvals cl))\<rparr>),
         fresh := Suc (fresh w)\<rparr>))"
  have "copyval E cp L l idx w =
      lbind (copyups cp L l idx (1 + int (length T)) 1 (Suc (length (upvals cl)))) (\<lambda>ok.
        if \<not> ok then ret False
        else lbind (lua_gettop l) (\<lambda>top. seq (c_assert (top = Suc (length T))) (ret True))) ?w1"
    using assms(1,2) SL Tl v cl c at n
    by (cases "bufslot E")
      (simp_all add: copyval_def luaL_buffinit_def lua_pushvalue_def lua_dump_def luaL_pushresult_def
        luaL_loadbuffer_def nupvalues_def loads_ok_def clos_at_def lua_run del: copyups.simps)
  moreover have "stacks ?w1 = (stacks w)(l \<mapsto> T @ [LFunction (fresh w)])"
    using SL assms(2) by (auto simp: fun_eq_iff)
  ultimately show ?thesis by (intro exI [of _ ?w1]) simp
qed

lemma copyval_function:
  assumes ok: "loads_ok E" and cp: "cp_spec E n D cp" and st: "stable n D" and Ll: "L \<noteq> l"
    and SL: "stacks w L = Some S" and Tl: "stacks w l = Some T"
    and v: "at S idx = Some (LFunction c)" and c: "c < n" and cl: "clos w c = Some cl" "\<not> is_c cl"
    and D: "list_all (\<lambda>(nm, u). nm \<noteq> ''_ENV'' \<longrightarrow> D w u) (upvals cl)"
    and idx: "1 \<le> idx \<or> \<not> bufslot E" and wf: "clos_wf w" and n: "n \<le> fresh w"
  shows "\<exists>w'. copyval E cp L l idx w = (Inr True, w') \<and> copies_to E l n T [LFunction c] w w'"
proof -
  let ?c = "fresh w"
  from copyval_load [OF ok Ll SL Tl v cl idx wf, of cp] obtain w1 where
      run: "copyval E cp L l idx w =
        lbind (copyups cp L l idx (1 + int (length T)) 1 (Suc (length (upvals cl)))) (\<lambda>ok.
          if \<not> ok then ret False
          else lbind (lua_gettop l) (\<lambda>top. seq (c_assert (top = Suc (length T))) (ret True))) w1"
      and w1: "stacks w1 = (stacks w)(l \<mapsto> T @ [LFunction ?c])"
        "clos w1 = (clos w)(?c \<mapsto> \<lparr>is_c = False, proto = proto cl,
           upvals = load_upvals (globals E l) (map fst (upvals cl))\<rparr>)"
        "fresh w1 = Suc ?c" "tabs w1 = tabs w" "uds w1 = uds w" "mem w1 = mem w"
        "registry w1 = registry w"
    by blast
  have wf1: "clos_wf w1" using wf w1 by (auto simp: clos_wf_def less_Suc_eq)
  have "D w1 u" if "D w u" for u
    using that by (rule stableD [OF st]) (use w1 n in auto)
  with D have D1: "list_all (\<lambda>(nm, u). nm \<noteq> ''_ENV'' \<longrightarrow> D w1 u) (upvals cl)"
    by (auto simp: list_all_iff)
  have "ups_state E L l n S idx cl T ?c (proto cl) 0 w1"
    using Ll SL v c cl n wf1 w1 ups_done_init [of E l n "Suc ?c" w1 "upvals cl"]
    unfolding ups_state_def by auto
  from copyups_run [OF cp st D1 this] obtain w2 where
      ups: "copyups cp L l idx (1 + int (length T)) 1 (Suc (length (upvals cl))) w1 = (Inr True, w2)"
      and w2: "stacks w2 = stacks w1" "grown_but ?c w1 w2"
        "ups_state E L l n S idx cl T ?c (proto cl) (length (upvals cl)) w2"
    by auto
  have "copyval E cp L l idx w = (Inr True, w2)"
    using run ups w1 w2 by (simp add: lua_run c_assert_def)
  moreover have "grown w w2"
    using w1 w2(2) by (auto simp: grown_def grown_but_def)
  moreover have "copied E l w2 n ?c (LFunction c) (LFunction ?c)"
  proof -
    from w2(3) obtain cl' where cl': "clos w2 ?c = Some cl'" "\<not> is_c cl'" "proto cl' = proto cl"
        and dn: "ups_done E l n (Suc ?c) (length (upvals cl)) w2 (upvals cl) (upvals cl')"
        and old: "clos w2 c = Some cl"
      using v unfolding ups_state_def by auto
    have "copied E l w2 n ?c (snd (upvals cl ! i)) (snd (upvals cl' ! i))"
      if "i < length (upvals cl)" "fst (upvals cl ! i) \<noteq> ''_ENV''" for i
    proof -
      have "copied E l w2 n (Suc ?c) (snd (upvals cl ! i)) (snd (upvals cl' ! i))"
        using dn that by (auto simp: ups_done_def)
      then show ?thesis by (rule copied_transfer) auto
    qed
    with cl' dn old c show ?thesis
      by (intro copied.closure [where cl = cl and cl' = cl']) (auto simp: ups_done_def)
  qed
  ultimately show ?thesis
    using w1 w2 unfolding copies_to_def by auto
qed

text \<open>What may stand in an upvalue of a function that is copied, nested at most \<open>d\<close> deep.\<close>

definition upvalue_ok :: "env \<Rightarrow> nat \<Rightarrow> nat \<Rightarrow> world \<Rightarrow> lval \<Rightarrow> bool" where
  "upvalue_ok E d n w u = (if bufslot E then plain u else serializable E d n w u)"

lemma stable_upvalue_ok: "stable n (upvalue_ok E d n)"
  unfolding stable_def upvalue_ok_def using serializable_transfer by (metis (full_types))

lemma copyval_plain:
  assumes "L \<noteq> l" and "stacks w L = Some S" and "stacks w l = Some T" and "at S idx = Some v"
    and "plain v" and "clos_wf w"
  shows "\<exists>w'. copyval E cp L l idx w = (Inr True, w') \<and> copies_to E l n T [v] w w'"
proof -
  have "copyval E cp L l idx w = (Inr True, setst l (T @ [v]) w)"
    using assms by (cases v) (simp_all add: copyval_def lua_run)
  moreover have "copies_to E l n T [v] w (setst l (T @ [v]) w)"
    using assms(5,6) by (auto simp: copies_to_def grown_refl intro: copied.plain)
  ultimately show ?thesis by blast
qed

lemma copyval_ok:
  assumes "loads_ok E" and cp: "cp_spec E n (upvalue_ok E d n) cp" and "L \<noteq> l"
    and "stacks w L = Some S" and "stacks w l = Some T" and v: "at S idx = Some v"
    and s: "serializable E (Suc d) n w v" and idx: "1 \<le> idx \<or> \<not> bufslot E \<or> plain v"
    and "clos_wf w" and "n \<le> fresh w"
  shows "\<exists>w'. copyval E cp L l idx w = (Inr True, w') \<and> copies_to E l n T [v] w w'"
proof (cases "plain v")
  case True
  with assms show ?thesis by (intro copyval_plain)
next
  case False
  with s obtain c cl where c: "v = LFunction c" "c < n" "clos w c = Some cl" "\<not> is_c cl"
      and u: "list_all (\<lambda>(nm, u). nm \<noteq> ''_ENV'' \<longrightarrow> upvalue_ok E d n w u) (upvals cl)"
    by (cases v) (auto simp: upvalue_ok_def split: option.splits)
  show ?thesis
    unfolding c(1)
    by (rule copyval_function [OF assms(1) cp stable_upvalue_ok assms(3-5) _ c(2-4) u])
      (use assms c False in auto)
qed

lemma copyloop_ok:
  assumes "loads_ok E" and cp: "cp_spec E n (upvalue_ok E d n) cp" and "L \<noteq> l"
    and "stacks w L = Some (A @ vs @ B)" and "stacks w l = Some T"
    and "\<forall>v \<in> set vs. serializable E (Suc d) n w v" and "clos_wf w" and "n \<le> fresh w"
  shows "\<exists>w'. copyloop E cp L l (1 + int (length A)) (length vs) w = (Inr None, w')
           \<and> copies_to E l n T vs w w'"
  using assms(4-8)
proof (induction vs arbitrary: A T w)
  case Nil
  then show ?case by (auto simp: copies_to_def grown_refl fun_upd_idem_iff)
next
  case (Cons v vs)
  from Cons.prems copyval_ok [OF assms(1) cp assms(3), of w "A @ (v # vs) @ B" T "1 + int (length A)" v]
  obtain w1 where run: "copyval E cp L l (1 + int (length A)) w = (Inr True, w1)"
      and cv: "copies_to E l n T [v] w w1"
    by auto
  then obtain v' where s1: "stacks w1 = (stacks w)(l \<mapsto> T @ [v'])" and g: "grown w w1"
    by (auto simp: copies_to_def list_all2_Cons1)
  have "\<forall>u \<in> set vs. serializable E (Suc d) n w1 u"
    using Cons.prems(3,5) g serializable_transfer [of E "Suc d" n w _ w1]
    by (metis grown_def list.set_intros(2) order_less_le_trans)
  moreover have "clos_wf w1" "n \<le> fresh w1"
    using g Cons.prems(5) by (auto simp: grown_def)
  ultimately obtain w2 where
      run2: "copyloop E cp L l (1 + int (length (A @ [v]))) (length vs) w1 = (Inr None, w2)"
      and cv2: "copies_to E l n (T @ [v']) vs w1 w2"
    using Cons.IH [of w1 "A @ [v]" "T @ [v']"] Cons.prems(1) s1 assms(3) by auto
  have "copies_to E l n T ([v] @ vs) w w2"
    by (rule copies_to_append [OF cv cv2]) (simp add: s1)
  moreover have "1 + int (length A) + 1 = 1 + int (length (A @ [v]))" by simp
  ultimately show ?case
    using run run2 by (simp add: lua_run)
qed

lemma copyn_of_loop:
  assumes "copyloop E (copyn d E) L l idx n w = (Inr None, w')" and "L \<noteq> l"
    and "stacks w L = Some S" and "stacks w l = Some T" and "stacks w' = (stacks w)(l \<mapsto> T @ vs)"
    and "length vs = n"
  shows "copyn (Suc d) E L l idx n w = (Inr 0, w')"
  using assms by (simp add: lua_run)

lemma copies_to_length: "copies_to E l n T vs w w' \<Longrightarrow>
    \<exists>vs'. stacks w' = (stacks w)(l \<mapsto> T @ vs') \<and> length vs' = length vs"
  unfolding copies_to_def by (metis list_all2_lengthD)

lemma cp_spec_copyn:
  assumes "loads_ok E"
  shows "cp_spec E n (upvalue_ok E d n) (copyn (Suc d) E)"
proof (induction d)
  case 0
  show ?case
    unfolding cp_spec_def
  proof (intro allI impI)
    fix L l S T v w
    assume *: "L \<noteq> l" "stacks w L = Some (S @ [v])" "stacks w l = Some T" "clos_wf w"
      and "upvalue_ok E 0 n w v"
    then have "plain v" by (simp add: upvalue_ok_def split: if_splits)
    with * copyval_plain [of L l w "S @ [v]" T "-1" v E "copyn 0 E" n] obtain w' where
        w': "copyval E (copyn 0 E) L l (-1) w = (Inr True, w')" "copies_to E l n T [v] w w'"
      by auto
    then have "copyloop E (copyn 0 E) L l (-1) 1 w = (Inr None, w')"
      by (simp add: lua_run)
    with w' * copies_to_length [OF w'(2)]
    show "\<exists>w'. copyn (Suc 0) E L l (-1) 1 w = (Inr 0, w') \<and> copies_to E l n T [v] w w'"
      by (metis copyn_of_loop length_Cons list.size(3) One_nat_def)
  qed
next
  case (Suc d)
  show ?case
    unfolding cp_spec_def
  proof (intro allI impI)
    fix L l S T v w
    assume *: "L \<noteq> l" "stacks w L = Some (S @ [v])" "stacks w l = Some T" "clos_wf w" "n \<le> fresh w"
      and u: "upvalue_ok E (Suc d) n w v"
    have "serializable E (Suc d) n w v" "1 \<le> (-1::int) \<or> \<not> bufslot E \<or> plain v"
      using u by (cases "bufslot E"; simp add: upvalue_ok_def serializable_plain
          del: serializable.simps)+
    with * copyval_ok [OF assms Suc.IH, of L l w "S @ [v]" T "-1" v] obtain w' where
        w': "copyval E (copyn (Suc d) E) L l (-1) w = (Inr True, w')" "copies_to E l n T [v] w w'"
      by (metis at_top)
    then have "copyloop E (copyn (Suc d) E) L l (-1) 1 w = (Inr None, w')"
      by (simp add: lua_run)
    with w' * copies_to_length [OF w'(2)]
    show "\<exists>w'. copyn (Suc (Suc d)) E L l (-1) 1 w = (Inr 0, w') \<and> copies_to E l n T [v] w w'"
      by (metis copyn_of_loop length_Cons list.size(3) One_nat_def)
  qed
qed

text \<open>
  Every list of serializable values is copied: \<^verbatim>\<open>copyn\<close> returns 0, the stack of the source is
  unchanged and the target gets faithful copies in order.
\<close>

lemma copyn_ok:
  assumes "loads_ok E" and "L \<noteq> l" and "stacks w L = Some (A @ vs @ B)" and "stacks w l = Some T"
    and "\<forall>v \<in> set vs. serializable E (Suc d) (fresh w) w v" and "clos_wf w"
  shows "\<exists>w'. copyn (Suc (Suc d)) E L l (1 + int (length A)) (length vs) w = (Inr 0, w')
           \<and> copies_to E l (fresh w) T vs w w'"
proof -
  from copyloop_ok [OF assms(1) cp_spec_copyn [OF assms(1), of "fresh w" d] assms(2-6)]
  obtain w' where w': "copyloop E (copyn (Suc d) E) L l (1 + int (length A)) (length vs) w = (Inr None, w')"
      "copies_to E l (fresh w) T vs w w'"
    by auto
  with copies_to_length [OF w'(2)] assms show ?thesis
    by (metis copyn_of_loop)
qed

section \<open>Plain values\<close>

text \<open>Plain values are copied as they are and nothing else changes.\<close>

lemma copyval_plain_run:
  "stacks w L = Some S \<Longrightarrow> stacks w l = Some T \<Longrightarrow> at S idx = Some v \<Longrightarrow> plain v \<Longrightarrow>
   copyval E cp L l idx w = (Inr True, setst l (T @ [v]) w)"
  by (cases v) (simp_all add: copyval_def lua_run)

lemma copyloop_plain_run:
  assumes "L \<noteq> l" and "stacks w L = Some (A @ vs @ B)" and "stacks w l = Some T"
    and "list_all plain vs"
  shows "copyloop E cp L l (1 + int (length A)) (length vs) w = (Inr None, setst l (T @ vs) w)"
  using assms(2-)
proof (induction vs arbitrary: A T w)
  case Nil
  then show ?case by (simp add: setst_same)
next
  case (Cons v vs)
  have "copyval E cp L l (1 + int (length A)) w = (Inr True, setst l (T @ [v]) w)"
    by (rule copyval_plain_run) (use Cons.prems in auto)
  moreover have "copyloop E cp L l (1 + int (length (A @ [v]))) (length vs) (setst l (T @ [v]) w) =
      (Inr None, setst l ((T @ [v]) @ vs) (setst l (T @ [v]) w))"
    by (rule Cons.IH) (use Cons.prems assms(1) in simp_all)
  ultimately show ?case by (simp add: lua_run add.commute add.left_commute)
qed

lemma copyn_plain_run:
  assumes "L \<noteq> l" and "stacks w L = Some (A @ vs @ B)" and "stacks w l = Some T"
    and "list_all plain vs" and "0 < d"
  shows "copyn d E L l (1 + int (length A)) (length vs) w = (Inr 0, setst l (T @ vs) w)"
  using assms copyloop_plain_run [OF assms(1-4), of E "copyn (d - 1) E"]
  by (cases d) (simp_all add: lua_run)

section \<open>What is refused\<close>

definition refused :: "world \<Rightarrow> lval \<Rightarrow> bool" where
  "refused w v = (case v of
      LTable _ \<Rightarrow> True | LUserdata _ \<Rightarrow> True | LThread _ \<Rightarrow> True
    | LFunction c \<Rightarrow> (case clos w c of None \<Rightarrow> False | Some cl \<Rightarrow> is_c cl)
    | _ \<Rightarrow> False)"

lemma copyval_refused:
  assumes "stacks w L = Some S" and "at S idx = Some v" and "refused w v"
    and "1 \<le> idx \<or> \<not> bufslot E"
  shows "fst (copyval E cp L l idx w) = Inr False"
proof -
  have "at (S @ [x]) idx = Some v" if "bufslot E" for x
    using assms(2,4) that by (cases "idx \<le> int (length S)") (simp_all add: at_append)
  then show ?thesis
    using assms
    by (cases v) (auto simp: copyval_def refused_def luaL_buffinit_def lua_pushvalue_def
        lua_dump_def lua_run split: option.splits)
qed

lemma copyloop_refused:
  assumes "loads_ok E" and cp: "cp_spec E n (upvalue_ok E d n) cp" and "L \<noteq> l"
    and "stacks w L = Some (A @ us @ v # B)" and "stacks w l = Some T"
    and "\<forall>u \<in> set us. serializable E (Suc d) n w u" and "clos_wf w" and "n \<le> fresh w"
    and "refused w v" and "\<And>c. v = LFunction c \<Longrightarrow> c < fresh w"
  shows "fst (copyloop E cp L l (1 + int (length A)) (length us + Suc k) w) =
           Inr (Some (1 + int (length A + length us)))"
  using assms(4-)
proof (induction us arbitrary: A T w)
  case Nil
  then have "fst (copyval E cp L l (1 + int (length A)) w) = Inr False"
    by (intro copyval_refused [where S = "A @ v # B" and v = v]) simp_all
  then obtain w1 where "copyval E cp L l (1 + int (length A)) w = (Inr False, w1)"
    by (metis prod.collapse)
  then show ?case by (simp add: lua_run)
next
  case (Cons u us)
  from Cons.prems copyval_ok [OF assms(1) cp assms(3), of w "A @ (u # us) @ v # B" T "1 + int (length A)" u]
  obtain w1 where run: "copyval E cp L l (1 + int (length A)) w = (Inr True, w1)"
      and cv: "copies_to E l n T [u] w w1"
    by auto
  then obtain u' where s1: "stacks w1 = (stacks w)(l \<mapsto> T @ [u'])" and g: "grown w w1"
    by (auto simp: copies_to_def list_all2_Cons1)
  have "\<forall>u \<in> set us. serializable E (Suc d) n w1 u"
    using Cons.prems(3,5) g serializable_transfer [of E "Suc d" n w _ w1]
    by (metis grown_def list.set_intros(2) order_less_le_trans)
  moreover have "clos_wf w1" "n \<le> fresh w1" "fresh w \<le> fresh w1"
    using g Cons.prems(5) by (auto simp: grown_def)
  moreover have "refused w1 v"
    using Cons.prems(6,7) g by (cases v) (auto simp: refused_def grown_def)
  ultimately have "fst (copyloop E cp L l (1 + int (length (A @ [u]))) (length us + Suc k) w1) =
      Inr (Some (1 + int (length (A @ [u]) + length us)))"
    using Cons.IH [of w1 "A @ [u]" "T @ [u']"] Cons.prems s1 assms(3) by fastforce
  then show ?case
    using run by (simp add: lua_run add.assoc)
qed

lemma copyn_refused:
  assumes "loads_ok E" and "L \<noteq> l" and "stacks w L = Some (A @ us @ v # B)" and "stacks w l = Some T"
    and "\<forall>u \<in> set us. serializable E (Suc d) (fresh w) w u" and "clos_wf w" and "refused w v"
    and "length us < n"
  shows "fst (copyn (Suc (Suc d)) E L l (1 + int (length A)) n w) =
           Inr (1 + int (length A + length us))"
proof -
  from assms(8) obtain k where n: "n = length us + Suc k" by (metis less_iff_Suc_add add_Suc_right)
  have "c < fresh w" if "v = LFunction c" for c
    using that assms(6,7) by (auto simp: refused_def clos_wf_def split: option.splits)
  then have "fst (copyloop E (copyn (Suc d) E) L l (1 + int (length A)) n w) =
      Inr (Some (1 + int (length A + length us)))"
    unfolding n using assms
    by (intro copyloop_refused [OF _ cp_spec_copyn [of E "fresh w" d]]) auto
  then obtain w1 where "copyloop E (copyn (Suc d) E) L l (1 + int (length A)) n w =
      (Inr (Some (1 + int (length A + length us))), w1)"
    by (metis prod.collapse)
  then show ?thesis
    using assms(3,4) by (simp add: lua_run)
qed

text \<open>
  A function that refers to itself through an upvalue (as every recursive local function
  does) makes \<^verbatim>\<open>copyn\<close> recurse until the C stack ends, however deep that is, where buffers
  take no stack slot.
\<close>

theorem copyn_self_reference:
  assumes "loads_ok E" and "\<not> bufslot E" and "L \<noteq> l" and "stacks w L = Some S"
    and "stacks w l = Some T" and "at S idx = Some (LFunction c)" and "clos w c = Some cl"
    and "\<not> is_c cl" and "upvals cl = (nm, LFunction c) # ups" and "nm \<noteq> ''_ENV''" and "clos_wf w"
  shows "fst (copyn d E L l idx (Suc n) w) = Inl NoFuel"
  using assms(3-)
proof (induction d arbitrary: w S T idx n)
  case 0
  then show ?case by simp
next
  case (Suc d)
  from copyval_load [OF assms(1) Suc.prems(1-6) _ Suc.prems(9), of "copyn d E"] assms(2)
  obtain w1 where run: "copyval E (copyn d E) L l idx w =
        lbind (copyups (copyn d E) L l idx (1 + int (length T)) 1 (Suc (length (upvals cl)))) (\<lambda>ok.
          if \<not> ok then ret False
          else lbind (lua_gettop l) (\<lambda>top. seq (c_assert (top = Suc (length T))) (ret True))) w1"
      and w1: "stacks w1 = (stacks w)(l \<mapsto> T @ [LFunction (fresh w)])"
        "clos w1 = (clos w)(fresh w \<mapsto> \<lparr>is_c = False, proto = proto cl,
           upvals = load_upvals (globals E l) (map fst (upvals cl))\<rparr>)"
        "fresh w1 = Suc (fresh w)"
    by blast
  have c: "c < fresh w" using Suc.prems(5,9) unfolding clos_wf_def by blast
  have wf1: "clos_wf w1" using Suc.prems(9) w1 by (auto simp: clos_wf_def less_Suc_eq)
  let ?w2 = "setst L (S @ [LFunction c]) w1"
  have SL: "stacks w1 L = Some S" and cl1: "clos w1 c = Some cl"
    using w1 Suc.prems c by auto
  then have at1: "clos_at w1 S idx = Some cl"
    using Suc.prems(4) by (simp add: clos_at_def)
  have "fst (copyn d E L l (-1) (Suc 0) ?w2) = Inl NoFuel"
    by (rule Suc.IH [where S = "S @ [LFunction c]" and T = "T @ [LFunction (fresh w)]"])
      (use Suc.prems w1 cl1 wf1 in simp_all)
  then obtain w3 where "copyn d E L l (-1) (Suc 0) ?w2 = (Inl NoFuel, w3)"
    by (metis prod.collapse)
  then have "copyval E (copyn d E) L l idx w = (Inl NoFuel, w3)"
    using SL at1 Suc.prems(7,8) unfolding run by (simp add: lua_run)
  then show ?case
    using Suc.prems(2,3) by (simp add: lua_run)
qed

text \<open>A world with a function whose only upvalue is \<open>v\<close>, and an empty second state.\<close>

definition function_world :: "lval \<Rightarrow> world" where
  "function_world v = (world0 [1 \<mapsto> [LFunction 3], 2 \<mapsto> []])
     \<lparr>clos := [3 \<mapsto> \<lparr>is_c = False, proto = 0, upvals = [(''f'', v)]\<rparr>]\<rparr>"

lemma function_world_sel [simp]:
  "stacks (function_world v) = [1 \<mapsto> [LFunction 3], 2 \<mapsto> []]" "fresh (function_world v) = 10"
  "clos (function_world v) = [3 \<mapsto> \<lparr>is_c = False, proto = 0, upvals = [(''f'', v)]\<rparr>]"
  by (simp_all add: function_world_def)

lemma clos_wf_function_world: "clos_wf (function_world v)"
  by (simp add: clos_wf_def)

theorem copyn_self_reference_witness:
  "fst (copyn 50 (env0\<lparr>bufslot := False\<rparr>) 1 2 1 (Suc 0) (function_world (LFunction 3))) = Inl NoFuel"
  by (rule copyn_self_reference [where S = "[LFunction 3]" and T = "[]" and c = 3
        and cl = "\<lparr>is_c = False, proto = 0, upvals = [(''f'', LFunction 3)]\<rparr>" and nm = "''f''" and ups = "[]"])
    (simp_all add: clos_wf_function_world loads_ok_def)

text \<open>
  Where buffers take a stack slot, a function that has a function among its upvalues is
  refused: the index \<open>-1\<close> of the recursive call then names the buffer, not the function.
\<close>

lemma copyn_nested_refused:
  assumes "loads_ok E" and "bufslot E" and "L \<noteq> l" and "stacks w L = Some (S @ [LFunction c])"
    and "stacks w l = Some T"
  shows "fst (copyn (Suc d) E L l (-1) 1 w) = Inr (-1)"
  using assms
  by (simp add: copyval_def luaL_buffinit_def lua_pushvalue_def lua_dump_def lua_run)

text \<open>
  So where buffers take a stack slot (Lua 5.4.3 and later), a function whose first upvalue is
  itself a Lua function is refused: \<^verbatim>\<open>copyn\<close> returns its index.
\<close>

theorem copyn_function_upvalue_refused:
  assumes "loads_ok E" and "bufslot E" and "L \<noteq> l" and "stacks w L = Some S" and "stacks w l = Some T"
    and "at S idx = Some (LFunction c)" and "1 \<le> idx" and "clos w c = Some cl" and "\<not> is_c cl"
    and "upvals cl = (nm, LFunction c') # ups" and "nm \<noteq> ''_ENV''" and "clos_wf w"
  shows "fst (copyn (Suc (Suc d)) E L l idx (Suc n) w) = Inr idx"
proof -
  have idx: "1 \<le> idx \<or> \<not> bufslot E" using assms(7) by simp
  from copyval_load [OF assms(1,3,4,5,6,8,9) idx assms(12), of "copyn (Suc d) E"]
  obtain w1 where run: "copyval E (copyn (Suc d) E) L l idx w =
        lbind (copyups (copyn (Suc d) E) L l idx (1 + int (length T)) 1 (Suc (length (upvals cl)))) (\<lambda>ok.
          if \<not> ok then ret False
          else lbind (lua_gettop l) (\<lambda>top. seq (c_assert (top = Suc (length T))) (ret True))) w1"
      and w1: "stacks w1 = (stacks w)(l \<mapsto> T @ [LFunction (fresh w)])"
        "clos w1 = (clos w)(fresh w \<mapsto> \<lparr>is_c = False, proto = proto cl,
           upvals = load_upvals (globals E l) (map fst (upvals cl))\<rparr>)"
    by blast
  have "c < fresh w" using assms(8,12) unfolding clos_wf_def by blast
  then have at1: "clos_at w1 S idx = Some cl" and SL: "stacks w1 L = Some S"
    using assms(3,4,6,8) w1 by (auto simp: clos_at_def)
  have "fst (copyn (Suc d) E L l (-1) 1 (setst L (S @ [LFunction c']) w1)) = Inr (-1)"
    by (rule copyn_nested_refused [where S = S and T = "T @ [LFunction (fresh w)]" and c = c'])
      (use assms(1-3) w1 in simp_all)
  then obtain w2 where "copyn (Suc d) E L l (-1) (Suc 0) (setst L (S @ [LFunction c']) w1) = (Inr (-1), w2)"
    by (metis One_nat_def prod.collapse)
  then have "copyval E (copyn (Suc d) E) L l idx w = (Inr False, w2)"
    using SL at1 assms(10,11) unfolding run by (simp add: lua_run)
  then show ?thesis
    using assms(4,5) by (simp add: lua_run)
qed

theorem copyn_function_upvalue_refused_witness:
  "fst (copyn (Suc (Suc 0)) env0 1 2 1 (Suc 0) (function_world (LFunction 4))) = Inr 1"
  by (rule copyn_function_upvalue_refused [where S = "[LFunction 3]" and T = "[]" and c = 3 and c' = 4
        and cl = "\<lparr>is_c = False, proto = 0, upvals = [(''f'', LFunction 4)]\<rparr>" and nm = "''f''" and ups = "[]"])
    (simp_all add: clos_wf_function_world loads_ok_def)


definition mixed_world :: world where
  "mixed_world = setst 1 [LFunction 3, LTable 4] (function_world (LInteger 5))"


text \<open>A value that is no plain value and no function stops the copy; the values before it are copied.\<close>

fun opaque :: "lval \<Rightarrow> bool" where
  "opaque (LTable _) = True"
| "opaque (LUserdata _) = True"
| "opaque (LThread _) = True"
| "opaque _ = False"

lemma copyval_opaque_run:
  "stacks w L = Some S \<Longrightarrow> at S idx = Some v \<Longrightarrow> opaque v \<Longrightarrow> copyval E cp L l idx w = (Inr False, w)"
  by (cases v) (simp_all add: copyval_def lua_run)

lemma copyloop_opaque_run:
  assumes "L \<noteq> l" and "stacks w L = Some (A @ us @ v # B)" and "stacks w l = Some T"
    and "list_all plain us" and "opaque v"
  shows "copyloop E cp L l (1 + int (length A)) (length us + Suc k) w =
           (Inr (Some (1 + int (length A + length us))), setst l (T @ us) w)"
  using assms(2-)
proof (induction us arbitrary: A T w)
  case Nil
  then have "copyval E cp L l (1 + int (length A)) w = (Inr False, w)"
    by (intro copyval_opaque_run) auto
  with Nil show ?case by (simp add: lua_run setst_same)
next
  case (Cons u us)
  have "copyval E cp L l (1 + int (length A)) w = (Inr True, setst l (T @ [u]) w)"
    by (rule copyval_plain_run) (use Cons.prems in auto)
  moreover have "copyloop E cp L l (1 + int (length (A @ [u]))) (length us + Suc k) (setst l (T @ [u]) w) =
      (Inr (Some (1 + int (length (A @ [u]) + length us))), setst l ((T @ [u]) @ us) (setst l (T @ [u]) w))"
    by (rule Cons.IH) (use Cons.prems assms(1) in simp_all)
  ultimately show ?case by (simp add: lua_run add.commute add.left_commute)
qed

lemma copyn_opaque_run:
  assumes "L \<noteq> l" and "stacks w L = Some (A @ us @ v # B)" and "stacks w l = Some T"
    and "list_all plain us" and "opaque v" and "0 < d" and "length us < n"
  shows "copyn d E L l (1 + int (length A)) n w =
           (Inr (1 + int (length A + length us)), setst l (T @ us) w)"
proof -
  from assms(7) obtain k where n: "n = length us + Suc k" by (metis less_iff_Suc_add add_Suc_right)
  with assms copyloop_opaque_run [OF assms(1-5), of E "copyn (d - 1) E" k] show ?thesis
    by (cases d) (simp_all add: lua_run)
qed

end
