(* ===== verification/Refcount.thy ===== *)
theory Refcount
  imports Utils
begin

text \<open>
  \<^verbatim>\<open>libpthread/refcount.h\<close>: the atomic reference count that every shared object of the
  pthread module carries. The count is an \<^verbatim>\<open>unsigned long\<close> and wraps around. Each operation is
  one atomic access, so a single step of the model; the memory orders do not appear.
\<close>

definition refcount_init :: "rckind \<Rightarrow> addr \<Rightarrow> refcount \<Rightarrow> unit lua" where
  "refcount_init k p v = store k p (refs_update (\<lambda>_. Some v))"

definition refcount_retain :: "rckind \<Rightarrow> addr \<Rightarrow> unit lua" where
  "refcount_retain k p = lbind (deref k p) (\<lambda>ob. case refs ob of
      None \<Rightarrow> throw Undef
    | Some r \<Rightarrow> store k p (refs_update (\<lambda>_. Some (r + 1))))"

definition refcount_release :: "rckind \<Rightarrow> addr \<Rightarrow> bool lua" where
  "refcount_release k p = lbind (deref k p) (\<lambda>ob. case refs ob of
      None \<Rightarrow> throw Undef
    | Some r \<Rightarrow> seq (store k p (refs_update (\<lambda>_. Some (r - 1)))) (ret (r = 1)))"

lemma store_run [lua_run]:
  "mem w p = Some ob \<Longrightarrow> kind_of (body ob) = k \<Longrightarrow>
   store k p f w = (Inr (), w\<lparr>mem := (mem w)(p \<mapsto> f ob)\<rparr>)"
  by (simp add: store_def lua_run)

lemma refcount_init_run [lua_run]:
  "mem w p = Some ob \<Longrightarrow> kind_of (body ob) = k \<Longrightarrow>
   refcount_init k p v w = (Inr (), w\<lparr>mem := (mem w)(p \<mapsto> ob\<lparr>refs := Some v\<rparr>)\<rparr>)"
  by (simp add: refcount_init_def lua_run)

lemma refcount_retain_run [lua_run]:
  "mem w p = Some ob \<Longrightarrow> kind_of (body ob) = k \<Longrightarrow> refs ob = Some r \<Longrightarrow>
   refcount_retain k p w = (Inr (), w\<lparr>mem := (mem w)(p \<mapsto> ob\<lparr>refs := Some (r + 1)\<rparr>)\<rparr>)"
  by (simp add: refcount_retain_def lua_run)

lemma refcount_release_run [lua_run]:
  "mem w p = Some ob \<Longrightarrow> kind_of (body ob) = k \<Longrightarrow> refs ob = Some r \<Longrightarrow>
   refcount_release k p w = (Inr (r = 1), w\<lparr>mem := (mem w)(p \<mapsto> ob\<lparr>refs := Some (r - 1)\<rparr>)\<rparr>)"
  by (simp add: refcount_release_def lua_run)

end
