(* ===== verification/Cpuset.thy ===== *)
theory Cpuset
  imports Utils
begin

unbundle bit_operations_syntax

text \<open>
  \<^verbatim>\<open>sys/cpuset/lua_cpuset.c\<close> and \<^verbatim>\<open>sys/cpuset/lua_cpuset.h\<close>: sets of CPUs. A \<^verbatim>\<open>cpuset_t\<close> is in the block of
  the userdata. The \<^verbatim>\<open>CPU_*\<close> macros belong to the system headers: they are the parameter \<open>cpuops\<close>,
  and what bitset(9) documents of them is the locale \<open>bitset\<close>. The macros do not check the number
  of a CPU; an access to one that the set has no room for is outside the object.
\<close>

section \<open>Definitions\<close>

definition CPUSET_METATABLE :: string where
  "CPUSET_METATABLE = ''cpuset_t''"

definition newanoncpuset :: "lstate \<Rightarrow> nat lua" where
  "newanoncpuset L =
     lbind (lua_newuserdatauv L 0) (\<lambda>set.
     seq (luaL_setmetatable L CPUSET_METATABLE)
     (ret set))"

text \<open>
  A set as an argument of a system call, and the set that a system call stores through the
  pointer of a new object (which is live: it is on the stack).
\<close>

definition cpuset_arg :: "lstate \<Rightarrow> int \<Rightarrow> carg lua" where
  "cpuset_arg L i w = askst L (\<lambda>s. case Option.bind (ud_at w s i) (\<lambda>u. blk (the (uds w u))) of
      None \<Rightarrow> ANull | Some cs \<Rightarrow> AInt cs) w"

definition cpuset_out :: "nat \<Rightarrow> int \<Rightarrow> unit lua" where
  "cpuset_out u cs w = (Inr (), w\<lparr>uds := (uds w)(u := map_option (blk_update (\<lambda>_. Some cs)) (uds w u))\<rparr>)"

record cpuops =
  CPU_ZERO :: int
  CPU_FILL :: int
  CPU_SETOF :: "nat \<Rightarrow> int"
  CPU_SET :: "nat \<Rightarrow> int \<Rightarrow> int"
  CPU_CLR :: "nat \<Rightarrow> int \<Rightarrow> int"
  CPU_ISSET :: "nat \<Rightarrow> int \<Rightarrow> bool"
  CPU_EMPTY :: "int \<Rightarrow> bool"
  CPU_ISFULLSET :: "int \<Rightarrow> bool"
  CPU_SUBSET :: "int \<Rightarrow> int \<Rightarrow> bool"
  CPU_OVERLAP :: "int \<Rightarrow> int \<Rightarrow> bool"
  CPU_CMP :: "int \<Rightarrow> int \<Rightarrow> bool"
  CPU_OR :: "int \<Rightarrow> int \<Rightarrow> int"
  CPU_ORNOT :: "int \<Rightarrow> int \<Rightarrow> int"
  CPU_AND :: "int \<Rightarrow> int \<Rightarrow> int"
  CPU_ANDNOT :: "int \<Rightarrow> int \<Rightarrow> int"
  CPU_XOR :: "int \<Rightarrow> int \<Rightarrow> int"
  CPU_FFS :: "int \<Rightarrow> int"
  CPU_COUNT :: "int \<Rightarrow> int"

text \<open>An access to the bit \<open>i\<close> (a \<^verbatim>\<open>size_t\<close>) of a set.\<close>

definition cpu_bit :: "env \<Rightarrow> int \<Rightarrow> (nat \<Rightarrow> 'a lua) \<Rightarrow> 'a lua" where
  "cpu_bit E i f = (let cpu_idx = to_size_t i in
     if cpu_idx < const E ''CPU_SETSIZE'' then f (nat cpu_idx) else throw Undef)"

definition l_cpuset_copied :: "env \<Rightarrow> lstate \<Rightarrow> nat lua" where
  "l_cpuset_copied E L =
     lbind (luaL_checkudata L 1 CPUSET_METATABLE) (\<lambda>from.
     lbind (newanoncpuset L) (\<lambda>to.
     lbind (get_blk from) (\<lambda>set.
     seq (set_blk to set)
     (ret 1))))"

definition l_cpuset_filled :: "cpuops \<Rightarrow> env \<Rightarrow> lstate \<Rightarrow> nat lua" where
  "l_cpuset_filled C E L =
     lbind (newanoncpuset L) (\<lambda>set.
     seq (set_blk set (CPU_FILL C))
     (ret 1))"

definition l_cpuset_only :: "cpuops \<Rightarrow> env \<Rightarrow> lstate \<Rightarrow> nat lua" where
  "l_cpuset_only C E L =
     lbind (luaL_checkinteger E L 1) (\<lambda>cpu_idx.
     lbind (newanoncpuset L) (\<lambda>set.
     cpu_bit E cpu_idx (\<lambda>i.
     seq (set_blk set (CPU_SETOF C i))
     (ret 1))))"

text \<open>The common body of the functions that make a new set from two.\<close>

definition newfrom2 :: "lstate \<Rightarrow> (int \<Rightarrow> int \<Rightarrow> int) \<Rightarrow> nat lua" where
  "newfrom2 L cpuop =
     lbind (luaL_checkudata L 1 CPUSET_METATABLE) (\<lambda>src1.
     lbind (luaL_checkudata L 2 CPUSET_METATABLE) (\<lambda>src2.
     lbind (newanoncpuset L) (\<lambda>dst.
     lbind (get_blk src1) (\<lambda>s1.
     lbind (get_blk src2) (\<lambda>s2.
     seq (set_blk dst (cpuop s1 s2))
     (ret 1))))))"

definition l_cpuset_ored :: "cpuops \<Rightarrow> env \<Rightarrow> lstate \<Rightarrow> nat lua" where
  "l_cpuset_ored C E L = newfrom2 L (CPU_OR C)"

definition l_cpuset_ornoted :: "cpuops \<Rightarrow> env \<Rightarrow> lstate \<Rightarrow> nat lua" where
  "l_cpuset_ornoted C E L = newfrom2 L (CPU_ORNOT C)"

definition l_cpuset_anded :: "cpuops \<Rightarrow> env \<Rightarrow> lstate \<Rightarrow> nat lua" where
  "l_cpuset_anded C E L = newfrom2 L (CPU_AND C)"

definition l_cpuset_andnoted :: "cpuops \<Rightarrow> env \<Rightarrow> lstate \<Rightarrow> nat lua" where
  "l_cpuset_andnoted C E L = newfrom2 L (CPU_ANDNOT C)"

definition l_cpuset_xored :: "cpuops \<Rightarrow> env \<Rightarrow> lstate \<Rightarrow> nat lua" where
  "l_cpuset_xored C E L = newfrom2 L (CPU_XOR C)"

definition l_cpuset_zeroed :: "cpuops \<Rightarrow> env \<Rightarrow> lstate \<Rightarrow> nat lua" where
  "l_cpuset_zeroed C E L =
     lbind (newanoncpuset L) (\<lambda>set.
     seq (set_blk set (CPU_ZERO C))
     (ret 1))"

definition l_cpuset_clr :: "cpuops \<Rightarrow> env \<Rightarrow> lstate \<Rightarrow> nat lua" where
  "l_cpuset_clr C E L =
     lbind (luaL_checkudata L 1 CPUSET_METATABLE) (\<lambda>set.
     lbind (luaL_checkinteger E L 2) (\<lambda>cpu_idx.
     seq (luaL_checktype L 3 LUA_TNONE)
    (lbind (get_blk set) (\<lambda>s.
     cpu_bit E cpu_idx (\<lambda>i.
     seq (set_blk set (CPU_CLR C i s))
    (seq (lua_pop L 1)
     (ret 1)))))))"

definition l_cpuset_copy :: "env \<Rightarrow> lstate \<Rightarrow> nat lua" where
  "l_cpuset_copy E L =
     lbind (luaL_checkudata L 1 CPUSET_METATABLE) (\<lambda>to.
     lbind (luaL_checkudata L 2 CPUSET_METATABLE) (\<lambda>from.
     seq (luaL_checktype L 3 LUA_TNONE)
    (lbind (get_blk from) (\<lambda>s.
     seq (set_blk to s)
    (seq (lua_pop L 1)
     (ret 1))))))"

definition l_cpuset_isset :: "cpuops \<Rightarrow> env \<Rightarrow> lstate \<Rightarrow> nat lua" where
  "l_cpuset_isset C E L =
     lbind (luaL_checkudata L 1 CPUSET_METATABLE) (\<lambda>set.
     lbind (luaL_checkinteger E L 2) (\<lambda>cpu_idx.
     lbind (get_blk set) (\<lambda>s.
     cpu_bit E cpu_idx (\<lambda>i.
     seq (lua_pushboolean L (CPU_ISSET C i s))
     (ret 1)))))"

definition l_cpuset_set :: "cpuops \<Rightarrow> env \<Rightarrow> lstate \<Rightarrow> nat lua" where
  "l_cpuset_set C E L =
     lbind (luaL_checkudata L 1 CPUSET_METATABLE) (\<lambda>set.
     lbind (luaL_checkinteger E L 2) (\<lambda>cpu_idx.
     seq (luaL_checktype L 3 LUA_TNONE)
    (lbind (get_blk set) (\<lambda>s.
     cpu_bit E cpu_idx (\<lambda>i.
     seq (set_blk set (CPU_SET C i s))
    (seq (lua_pop L 1)
     (ret 1)))))))"

definition l_cpuset_zero :: "cpuops \<Rightarrow> env \<Rightarrow> lstate \<Rightarrow> nat lua" where
  "l_cpuset_zero C E L =
     lbind (luaL_checkudata L 1 CPUSET_METATABLE) (\<lambda>set.
     seq (luaL_checktype L 2 LUA_TNONE)
    (seq (set_blk set (CPU_ZERO C))
     (ret 1)))"

definition l_cpuset_fill :: "cpuops \<Rightarrow> env \<Rightarrow> lstate \<Rightarrow> nat lua" where
  "l_cpuset_fill C E L =
     lbind (luaL_checkudata L 1 CPUSET_METATABLE) (\<lambda>set.
     seq (luaL_checktype L 2 LUA_TNONE)
    (seq (set_blk set (CPU_FILL C))
     (ret 1)))"

definition l_cpuset_setof :: "cpuops \<Rightarrow> env \<Rightarrow> lstate \<Rightarrow> nat lua" where
  "l_cpuset_setof C E L =
     lbind (luaL_checkudata L 1 CPUSET_METATABLE) (\<lambda>set.
     lbind (luaL_checkinteger E L 2) (\<lambda>cpu_idx.
     seq (luaL_checktype L 3 LUA_TNONE)
    (cpu_bit E cpu_idx (\<lambda>i.
     seq (set_blk set (CPU_SETOF C i))
    (seq (lua_pop L 1)
     (ret 1))))))"

definition l_cpuset_empty :: "cpuops \<Rightarrow> env \<Rightarrow> lstate \<Rightarrow> nat lua" where
  "l_cpuset_empty C E L =
     lbind (luaL_checkudata L 1 CPUSET_METATABLE) (\<lambda>set.
     lbind (get_blk set) (\<lambda>s.
     seq (lua_pushboolean L (CPU_EMPTY C s))
     (ret 1)))"

definition l_cpuset_isfullset :: "cpuops \<Rightarrow> env \<Rightarrow> lstate \<Rightarrow> nat lua" where
  "l_cpuset_isfullset C E L =
     lbind (luaL_checkudata L 1 CPUSET_METATABLE) (\<lambda>set.
     lbind (get_blk set) (\<lambda>s.
     seq (lua_pushboolean L (CPU_ISFULLSET C s))
     (ret 1)))"

definition l_cpuset_ffs :: "cpuops \<Rightarrow> env \<Rightarrow> lstate \<Rightarrow> nat lua" where
  "l_cpuset_ffs C E L =
     lbind (luaL_checkudata L 1 CPUSET_METATABLE) (\<lambda>set.
     lbind (get_blk set) (\<lambda>s.
     let cpu_idx = CPU_FFS C s - 1 in
     seq (if 0 \<le> cpu_idx then lua_pushinteger L cpu_idx else lua_pushnil L)
     (ret 1)))"

definition l_cpuset_count :: "cpuops \<Rightarrow> env \<Rightarrow> lstate \<Rightarrow> nat lua" where
  "l_cpuset_count C E L =
     lbind (luaL_checkudata L 1 CPUSET_METATABLE) (\<lambda>set.
     lbind (get_blk set) (\<lambda>s.
     seq (lua_pushinteger L (CPU_COUNT C s))
     (ret 1)))"

text \<open>The common body of the comparisons of two sets.\<close>

definition compare2 :: "lstate \<Rightarrow> (int \<Rightarrow> int \<Rightarrow> bool) \<Rightarrow> nat lua" where
  "compare2 L cpuop =
     lbind (luaL_checkudata L 1 CPUSET_METATABLE) (\<lambda>set1.
     lbind (luaL_checkudata L 2 CPUSET_METATABLE) (\<lambda>set2.
     lbind (get_blk set1) (\<lambda>s1.
     lbind (get_blk set2) (\<lambda>s2.
     seq (lua_pushboolean L (cpuop s1 s2))
     (ret 1)))))"

definition l_cpuset_subset :: "cpuops \<Rightarrow> env \<Rightarrow> lstate \<Rightarrow> nat lua" where
  "l_cpuset_subset C E L = compare2 L (\<lambda>haystack needle. CPU_SUBSET C haystack needle)"

definition l_cpuset_overlap :: "cpuops \<Rightarrow> env \<Rightarrow> lstate \<Rightarrow> nat lua" where
  "l_cpuset_overlap C E L = compare2 L (CPU_OVERLAP C)"

definition l_cpuset_cmp :: "cpuops \<Rightarrow> env \<Rightarrow> lstate \<Rightarrow> nat lua" where
  "l_cpuset_cmp C E L = compare2 L (CPU_CMP C)"

definition l_cpuset_equal :: "cpuops \<Rightarrow> env \<Rightarrow> lstate \<Rightarrow> nat lua" where
  "l_cpuset_equal C E L = compare2 L (\<lambda>set1 set2. \<not> CPU_CMP C set1 set2)"

text \<open>The common body of the methods that change their set by another.\<close>

definition update2 :: "lstate \<Rightarrow> (int \<Rightarrow> int \<Rightarrow> int) \<Rightarrow> nat lua" where
  "update2 L cpuop =
     lbind (luaL_checkudata L 1 CPUSET_METATABLE) (\<lambda>set.
     lbind (luaL_checkudata L 2 CPUSET_METATABLE) (\<lambda>other.
     seq (luaL_checktype L 3 LUA_TNONE)
    (lbind (get_blk set) (\<lambda>s1.
     lbind (get_blk other) (\<lambda>s2.
     seq (set_blk set (cpuop s1 s2))
    (seq (lua_pop L 1)
     (ret 1)))))))"

definition l_cpuset_or :: "cpuops \<Rightarrow> env \<Rightarrow> lstate \<Rightarrow> nat lua" where
  "l_cpuset_or C E L = update2 L (CPU_OR C)"

definition l_cpuset_ornot :: "cpuops \<Rightarrow> env \<Rightarrow> lstate \<Rightarrow> nat lua" where
  "l_cpuset_ornot C E L = update2 L (CPU_ORNOT C)"

definition l_cpuset_and :: "cpuops \<Rightarrow> env \<Rightarrow> lstate \<Rightarrow> nat lua" where
  "l_cpuset_and C E L = update2 L (CPU_AND C)"

definition l_cpuset_andnot :: "cpuops \<Rightarrow> env \<Rightarrow> lstate \<Rightarrow> nat lua" where
  "l_cpuset_andnot C E L = update2 L (CPU_ANDNOT C)"

definition l_cpuset_xor :: "cpuops \<Rightarrow> env \<Rightarrow> lstate \<Rightarrow> nat lua" where
  "l_cpuset_xor C E L = update2 L (CPU_XOR C)"

text \<open>\<open>ornot\<close>: whether the headers define \<^verbatim>\<open>CPU_ORNOT\<close>.\<close>

definition l_cpuset_funcs :: "cpuops \<Rightarrow> bool \<Rightarrow> (string \<times> cfunction) list" where
  "l_cpuset_funcs C ornot =
     [(''copy'', l_cpuset_copied),
      (''fill'', l_cpuset_filled C),
      (''only'', l_cpuset_only C),
      (''or'', l_cpuset_ored C)]
     @ (if ornot then [(''ornot'', l_cpuset_ornoted C)] else [])
     @ [(''and'', l_cpuset_anded C),
        (''andnot'', l_cpuset_andnoted C),
        (''xor'', l_cpuset_xored C),
        (''zero'', l_cpuset_zeroed C)]"

definition l_cpuset_meta :: "cpuops \<Rightarrow> bool \<Rightarrow> (string \<times> cfunction) list" where
  "l_cpuset_meta C ornot =
     [(''__band'', l_cpuset_anded C),
      (''__bor'', l_cpuset_ored C),
      (''__bxor'', l_cpuset_xored C),
      (''__len'', l_cpuset_count C),
      (''__eq'', l_cpuset_equal C),
      (''clr'', l_cpuset_clr C),
      (''copy'', l_cpuset_copy),
      (''isset'', l_cpuset_isset C),
      (''set'', l_cpuset_set C),
      (''zero'', l_cpuset_zero C),
      (''fill'', l_cpuset_fill C),
      (''setof'', l_cpuset_setof C),
      (''empty'', l_cpuset_empty C),
      (''isfullset'', l_cpuset_isfullset C),
      (''ffs'', l_cpuset_ffs C),
      (''count'', l_cpuset_count C),
      (''subset'', l_cpuset_subset C),
      (''overlap'', l_cpuset_overlap C),
      (''cmp'', l_cpuset_cmp C),
      (''equal'', l_cpuset_equal C),
      (''or'', l_cpuset_or C)]
     @ (if ornot then [(''ornot'', l_cpuset_ornot C)] else [])
     @ [(''and'', l_cpuset_and C),
        (''andnot'', l_cpuset_andnot C),
        (''xor'', l_cpuset_xor C)]"

definition luaopen_sys_cpuset ::
  "cpuops \<Rightarrow> bool \<Rightarrow> env \<Rightarrow> (string \<times> (string \<times> cfunction) list) \<times> (string \<times> field) list" where
  "luaopen_sys_cpuset C ornot E =
     ((CPUSET_METATABLE, l_cpuset_meta C ornot),
      luaL_newlib (l_cpuset_funcs C ornot) @ [(''CPU_SETSIZE'', Const (const E ''CPU_SETSIZE''))])"

section \<open>The macros\<close>

text \<open>The CPUs in a set.\<close>

definition cpus :: "cpuops \<Rightarrow> nat \<Rightarrow> int \<Rightarrow> nat set" where
  "cpus C n s = {i. i < n \<and> CPU_ISSET C i s}"

text \<open>What bitset(9) documents of the macros, for sets with room for \<open>n\<close> CPUs.\<close>

locale bitset =
  fixes C :: cpuops and n :: nat
  assumes zero: "cpus C n (CPU_ZERO C) = {}"
    and fill: "cpus C n (CPU_FILL C) = {..<n}"
    and setof: "i < n \<Longrightarrow> cpus C n (CPU_SETOF C i) = {i}"
    and set: "i < n \<Longrightarrow> cpus C n (CPU_SET C i s) = insert i (cpus C n s)"
    and clr: "i < n \<Longrightarrow> cpus C n (CPU_CLR C i s) = cpus C n s - {i}"
    and empty: "CPU_EMPTY C s \<longleftrightarrow> cpus C n s = {}"
    and isfullset: "CPU_ISFULLSET C s \<longleftrightarrow> cpus C n s = {..<n}"
    and subset: "CPU_SUBSET C s t \<longleftrightarrow> cpus C n t \<subseteq> cpus C n s"
    and overlap: "CPU_OVERLAP C s t \<longleftrightarrow> cpus C n s \<inter> cpus C n t \<noteq> {}"
    and cmp: "CPU_CMP C s t \<longleftrightarrow> cpus C n s \<noteq> cpus C n t"
    and or: "cpus C n (CPU_OR C s t) = cpus C n s \<union> cpus C n t"
    and ornot: "cpus C n (CPU_ORNOT C s t) = cpus C n s \<union> ({..<n} - cpus C n t)"
    and and_both: "cpus C n (CPU_AND C s t) = cpus C n s \<inter> cpus C n t"
    and andnot: "cpus C n (CPU_ANDNOT C s t) = cpus C n s - cpus C n t"
    and xor: "cpus C n (CPU_XOR C s t) = (cpus C n s - cpus C n t) \<union> (cpus C n t - cpus C n s)"
    and ffs: "CPU_FFS C s = (if cpus C n s = {} then 0 else int (Min (cpus C n s)) + 1)"
    and count: "CPU_COUNT C s = int (card (cpus C n s))"

text \<open>
  The macros work on the words of the set bit by bit: the bit operations on the integer whose
  binary digits are the members of the set.
\<close>

definition members :: "nat \<Rightarrow> int \<Rightarrow> nat list" where
  "members n s = filter (bit s) [0..<n]"

definition bit_ops :: "nat \<Rightarrow> cpuops" where
  "bit_ops n = \<lparr>CPU_ZERO = 0, CPU_FILL = mask n, CPU_SETOF = (\<lambda>i. 2 ^ i),
     CPU_SET = (\<lambda>i s. set_bit i s), CPU_CLR = (\<lambda>i s. unset_bit i s), CPU_ISSET = (\<lambda>i s. bit s i),
     CPU_EMPTY = (\<lambda>s. members n s = []), CPU_ISFULLSET = (\<lambda>s. members n s = [0..<n]),
     CPU_SUBSET = (\<lambda>s t. members n (t AND NOT s) = []), CPU_OVERLAP = (\<lambda>s t. members n (s AND t) \<noteq> []),
     CPU_CMP = (\<lambda>s t. members n s \<noteq> members n t), CPU_OR = (OR), CPU_ORNOT = (\<lambda>s t. s OR NOT t),
     CPU_AND = (AND), CPU_ANDNOT = (\<lambda>s t. s AND NOT t), CPU_XOR = (XOR),
     CPU_FFS = (\<lambda>s. case members n s of [] \<Rightarrow> 0 | i # _ \<Rightarrow> int i + 1),
     CPU_COUNT = (\<lambda>s. int (length (members n s)))\<rparr>"

lemma cpus_bit_ops: "cpus (bit_ops n) n s = set (members n s)"
  by (auto simp: cpus_def members_def bit_ops_def)

lemma members_sorted: "sorted (members n s)" "distinct (members n s)"
  by (simp_all add: members_def sorted_wrt_filter)

lemma members_eq: "members n s = members n t \<longleftrightarrow> set (members n s) = set (members n t)"
  using members_sorted [of n s] members_sorted [of n t] by (auto intro: sorted_distinct_set_unique)

interpretation bits: bitset "bit_ops n" n
proof (unfold_locales, unfold cpus_bit_ops, goal_cases)
  case (7 s)
  have "members n (- 1) = [0..<n]" by (simp add: members_def)
  then have "members n s = [0..<n] \<longleftrightarrow> set (members n s) = {..<n}"
    using members_eq [of n s "- 1"] by (simp add: atLeast0LessThan)
  then show ?case by (simp add: bit_ops_def)
next
  case (10 s t)
  show ?case by (simp add: bit_ops_def members_eq)
next
  case (16 s)
  show ?case
  proof (cases "members n s")
    case (Cons i r)
    then have "sorted (i # r)" using members_sorted(1) [of n s] by simp
    then have "Min (set (i # r)) = i" by (intro Min_eqI) auto
    with Cons show ?thesis by (simp add: bit_ops_def)
  qed (simp add: bit_ops_def)
next
  case (17 s)
  show ?case using members_sorted(2) [of n s] by (simp add: bit_ops_def distinct_card)
qed (auto simp: bit_ops_def members_def bit_simps filter_empty_conv)

section \<open>The methods compute on sets\<close>

definition cpuset_object :: "int \<Rightarrow> udata" where
  "cpuset_object s = \<lparr>meta = Some CPUSET_METATABLE, uvs = [], blk = Some s\<rparr>"

lemma cpuset_object_upd [simp]: "(m(u \<mapsto> cpuset_object a) = m(u \<mapsto> cpuset_object b)) \<longleftrightarrow> a = b"
  by (auto simp: cpuset_object_def dest: map_upd_eqD1)

lemma check_cpuset [lua_run]:
  "stacks w L = Some st \<Longrightarrow> at st i = Some (LUserdata u) \<Longrightarrow> uds w u = Some (cpuset_object s) \<Longrightarrow>
   luaL_checkudata L i CPUSET_METATABLE w = (Inr u, w)"
  by (simp add: luaL_checkudata_def ud_at_def cpuset_object_def)

lemma cpuset_blk [lua_run]:
  "uds w u = Some (cpuset_object s) \<Longrightarrow> get_blk u w = (Inr s, w)"
  "uds w u = Some (cpuset_object s) \<Longrightarrow>
     set_blk u c w = (Inr (), w\<lparr>uds := (uds w)(u \<mapsto> cpuset_object c)\<rparr>)"
  by (simp_all add: get_blk_def set_blk_def cpuset_object_def)

lemma set_blk_new [lua_run]:
  "uds w u = Some \<lparr>meta = Some CPUSET_METATABLE, uvs = [], blk = None\<rparr> \<Longrightarrow>
     set_blk u c w = (Inr (), w\<lparr>uds := (uds w)(u \<mapsto> cpuset_object c)\<rparr>)"
  by (simp add: set_blk_def cpuset_object_def)

lemma newanoncpuset_run [lua_run]:
  "stacks w L = Some s \<Longrightarrow> newanoncpuset L w = (Inr (fresh w), setst L (s @ [LUserdata (fresh w)])
     (w\<lparr>fresh := Suc (fresh w),
        uds := (uds w)(fresh w \<mapsto> \<lparr>meta = Some CPUSET_METATABLE, uvs = [], blk = None\<rparr>)\<rparr>))"
  by (simp add: newanoncpuset_def lua_newuserdatauv_def luaL_setmetatable_def ud_at_def lua_run)

text \<open>
  The methods that change their set, the functions that make a new one, and those that answer a
  question, each with the operation on sets that it stands for.
\<close>

definition set_updates :: "cpuops \<Rightarrow> nat \<Rightarrow> (cfunction \<times> (nat set \<Rightarrow> nat set \<Rightarrow> nat set)) list" where
  "set_updates C n =
     [(l_cpuset_or C, \<lambda>A B. A \<union> B), (l_cpuset_and C, \<lambda>A B. A \<inter> B), (l_cpuset_andnot C, \<lambda>A B. A - B),
      (l_cpuset_xor C, \<lambda>A B. (A - B) \<union> (B - A)), (l_cpuset_ornot C, \<lambda>A B. A \<union> ({..<n} - B)),
      (l_cpuset_copy, \<lambda>A B. B)]"

definition new_sets :: "cpuops \<Rightarrow> nat \<Rightarrow> (cfunction \<times> (nat set \<Rightarrow> nat set \<Rightarrow> nat set)) list" where
  "new_sets C n =
     [(l_cpuset_ored C, \<lambda>A B. A \<union> B), (l_cpuset_anded C, \<lambda>A B. A \<inter> B), (l_cpuset_andnoted C, \<lambda>A B. A - B),
      (l_cpuset_xored C, \<lambda>A B. (A - B) \<union> (B - A)), (l_cpuset_ornoted C, \<lambda>A B. A \<union> ({..<n} - B)),
      (l_cpuset_copied, \<lambda>A B. A), (l_cpuset_zeroed C, \<lambda>A B. {}), (l_cpuset_filled C, \<lambda>A B. {..<n})]"

definition set_queries :: "cpuops \<Rightarrow> nat \<Rightarrow> (cfunction \<times> (nat set \<Rightarrow> nat set \<Rightarrow> lval)) list" where
  "set_queries C n =
     [(l_cpuset_subset C, \<lambda>A B. LBoolean (B \<subseteq> A)), (l_cpuset_overlap C, \<lambda>A B. LBoolean (A \<inter> B \<noteq> {})),
      (l_cpuset_cmp C, \<lambda>A B. LBoolean (A \<noteq> B)), (l_cpuset_equal C, \<lambda>A B. LBoolean (A = B)),
      (l_cpuset_empty C, \<lambda>A B. LBoolean (A = {})), (l_cpuset_isfullset C, \<lambda>A B. LBoolean (A = {..<n})),
      (l_cpuset_count C, \<lambda>A B. LInteger (int (card A))),
      (l_cpuset_ffs C, \<lambda>A B. if A = {} then LNil else LInteger (int (Min A)))]"

definition element_updates :: "cpuops \<Rightarrow> (cfunction \<times> (nat \<Rightarrow> nat set \<Rightarrow> nat set)) list" where
  "element_updates C =
     [(l_cpuset_set C, insert), (l_cpuset_clr C, \<lambda>i A. A - {i}), (l_cpuset_setof C, \<lambda>i A. {i})]"

context bitset
begin

lemma update2_run:
  assumes "stacks w L = Some [LUserdata u, LUserdata v]"
    and "uds w u = Some (cpuset_object a)" and "uds w v = Some (cpuset_object b)"
  shows "update2 L cpuop w = (Inr 1, setst L [LUserdata u] (w\<lparr>uds := (uds w)(u \<mapsto> cpuset_object (cpuop a b))\<rparr>))"
    and "l_cpuset_copy E L w = (Inr 1, setst L [LUserdata u] (w\<lparr>uds := (uds w)(u \<mapsto> cpuset_object b)\<rparr>))"
  using assms by (simp_all add: update2_def l_cpuset_copy_def luaL_checktype_def lua_run)

lemma updates:
  assumes "(f, g) \<in> set (set_updates C n)" and "stacks w L = Some [LUserdata u, LUserdata v]"
    and "uds w u = Some (cpuset_object a)" and "uds w v = Some (cpuset_object b)"
  shows "\<exists>c w'. f E L w = (Inr 1, w') \<and> stacks w' L = Some [LUserdata u]
       \<and> uds w' = (uds w)(u \<mapsto> cpuset_object c) \<and> cpus C n c = g (cpus C n a) (cpus C n b)"
  using assms(1) update2_run [OF assms(2-4)]
  by (auto simp: set_updates_def l_cpuset_or_def l_cpuset_and_def l_cpuset_andnot_def l_cpuset_xor_def
      l_cpuset_ornot_def or and_both andnot xor ornot)

lemma news:
  assumes "(f, g) \<in> set (new_sets C n)" and "stacks w L = Some [LUserdata u, LUserdata v]"
    and "uds w u = Some (cpuset_object a)" and "uds w v = Some (cpuset_object b)"
    and "u < fresh w" and "v < fresh w"
  shows "\<exists>c w'. f E L w = (Inr 1, w') \<and> stacks w' L = Some [LUserdata u, LUserdata v, LUserdata (fresh w)]
       \<and> uds w' = (uds w)(fresh w \<mapsto> cpuset_object c) \<and> cpus C n c = g (cpus C n a) (cpus C n b)"
  using assms
  by (auto simp: new_sets_def l_cpuset_ored_def l_cpuset_anded_def l_cpuset_andnoted_def l_cpuset_xored_def
      l_cpuset_ornoted_def l_cpuset_copied_def l_cpuset_zeroed_def l_cpuset_filled_def newfrom2_def lua_run
      or and_both andnot xor ornot zero fill)

lemma queries:
  assumes "(f, g) \<in> set (set_queries C n)" and "stacks w L = Some [LUserdata u, LUserdata v]"
    and "uds w u = Some (cpuset_object a)" and "uds w v = Some (cpuset_object b)"
  shows "f E L w = (Inr 1, setst L [LUserdata u, LUserdata v, g (cpus C n a) (cpus C n b)] w)"
  using assms
  by (auto simp: set_queries_def l_cpuset_subset_def l_cpuset_overlap_def l_cpuset_cmp_def l_cpuset_equal_def
      l_cpuset_empty_def l_cpuset_isfullset_def l_cpuset_count_def l_cpuset_ffs_def compare2_def lua_run
      subset overlap cmp empty isfullset count ffs)

lemma elements:
  assumes "(f, g) \<in> set (element_updates C)" and "stacks w L = Some [LUserdata u, LInteger (int i)]"
    and "uds w u = Some (cpuset_object a)" and "i < n" and "const E ''CPU_SETSIZE'' = int n" and "n < 2 ^ 63"
  shows "\<exists>c w'. f E L w = (Inr 1, w') \<and> stacks w' L = Some [LUserdata u]
       \<and> uds w' = (uds w)(u \<mapsto> cpuset_object c) \<and> cpus C n c = g i (cpus C n a)"
proof -
  have "to_size_t (int i) = int i" by (rule to_size_t_id) (use assms(4,6) in simp_all)
  with assms show ?thesis
    by (auto simp: element_updates_def l_cpuset_set_def l_cpuset_clr_def l_cpuset_setof_def cpu_bit_def
        luaL_checktype_def luaL_checkinteger_def lua_run set clr setof)
qed

end

text \<open>
  C21. The methods that change a set by another (\<^verbatim>\<open>or\<close>, \<^verbatim>\<open>and\<close>, \<^verbatim>\<open>andnot\<close>, \<^verbatim>\<open>xor\<close>, \<^verbatim>\<open>ornot\<close>, \<^verbatim>\<open>copy\<close>) replace the
  members of the first set by the union, intersection, difference and so on of the two, also when
  both are the same object, return the first set, and change no other object.
\<close>

theorem cpuset_updates_are_set_operations:
  assumes "bitset C n" and "(f, g) \<in> set (set_updates C n)"
    and "stacks w L = Some [LUserdata u, LUserdata v]"
    and "uds w u = Some (cpuset_object a)" and "uds w v = Some (cpuset_object b)"
  shows "\<exists>c w'. f E L w = (Inr 1, w') \<and> stacks w' L = Some [LUserdata u]
       \<and> uds w' = (uds w)(u \<mapsto> cpuset_object c) \<and> cpus C n c = g (cpus C n a) (cpus C n b)"
  by (rule bitset.updates [OF assms])

definition cpuset_world :: world where
  "cpuset_world = (world0 [1 \<mapsto> [LUserdata 5, LUserdata 6]])
     \<lparr>uds := [5 \<mapsto> cpuset_object 6, 6 \<mapsto> cpuset_object 3]\<rparr>"

theorem cpuset_updates_are_set_operations_witness:
  "\<exists>c w'. l_cpuset_andnot (bit_ops 1024) env0 1 cpuset_world = (Inr 1, w') \<and> stacks w' 1 = Some [LUserdata 5]
       \<and> uds w' = (uds cpuset_world)(5 \<mapsto> cpuset_object c)
       \<and> cpus (bit_ops 1024) 1024 c = cpus (bit_ops 1024) 1024 6 - cpus (bit_ops 1024) 1024 3"
  by (rule cpuset_updates_are_set_operations [OF bits.bitset_axioms, where g = "\<lambda>A B. A - B" and v = 6])
    (simp_all add: set_updates_def cpuset_world_def)

text \<open>
  The functions that make a new set leave their arguments alone, and the members of the new set
  are the union, intersection, difference and so on of theirs.
\<close>

theorem cpuset_news_are_set_operations:
  assumes "bitset C n" and "(f, g) \<in> set (new_sets C n)"
    and "stacks w L = Some [LUserdata u, LUserdata v]"
    and "uds w u = Some (cpuset_object a)" and "uds w v = Some (cpuset_object b)"
    and "u < fresh w" and "v < fresh w"
  shows "\<exists>c w'. f E L w = (Inr 1, w') \<and> stacks w' L = Some [LUserdata u, LUserdata v, LUserdata (fresh w)]
       \<and> uds w' = (uds w)(fresh w \<mapsto> cpuset_object c) \<and> cpus C n c = g (cpus C n a) (cpus C n b)"
  by (rule bitset.news [OF assms])

theorem cpuset_news_are_set_operations_witness:
  "\<exists>c w'. l_cpuset_xored (bit_ops 1024) env0 1 cpuset_world = (Inr 1, w')
       \<and> stacks w' 1 = Some [LUserdata 5, LUserdata 6, LUserdata (fresh cpuset_world)]
       \<and> uds w' = (uds cpuset_world)(fresh cpuset_world \<mapsto> cpuset_object c)
       \<and> cpus (bit_ops 1024) 1024 c = (\<lambda>A B. (A - B) \<union> (B - A)) (cpus (bit_ops 1024) 1024 6) (cpus (bit_ops 1024) 1024 3)"
  by (rule cpuset_news_are_set_operations [OF bits.bitset_axioms])
    (simp_all add: new_sets_def cpuset_world_def)



text \<open>
  Setting or clearing one CPU, or making it the only one, does exactly that for the CPUs the set
  has room for.
\<close>

theorem cpuset_element_updates:
  assumes "bitset C n" and "(f, g) \<in> set (element_updates C)"
    and "stacks w L = Some [LUserdata u, LInteger (int i)]" and "uds w u = Some (cpuset_object a)"
    and "i < n" and "const E ''CPU_SETSIZE'' = int n" and "n < 2 ^ 63"
  shows "\<exists>c w'. f E L w = (Inr 1, w') \<and> stacks w' L = Some [LUserdata u]
       \<and> uds w' = (uds w)(u \<mapsto> cpuset_object c) \<and> cpus C n c = g i (cpus C n a)"
  by (rule bitset.elements [OF assms])

theorem cpuset_element_updates_witness:
  "\<exists>c w'. l_cpuset_set (bit_ops 1) env0 1 (setst 1 [LUserdata 5, LInteger (int 0)] cpuset_world) = (Inr 1, w')
       \<and> stacks w' 1 = Some [LUserdata 5]
       \<and> uds w' = (uds (setst 1 [LUserdata 5, LInteger (int 0)] cpuset_world))(5 \<mapsto> cpuset_object c)
       \<and> cpus (bit_ops 1) 1 c = insert 0 (cpus (bit_ops 1) 1 6)"
  by (rule cpuset_element_updates [OF bits.bitset_axioms, where i = 0])
    (simp_all add: element_updates_def cpuset_world_def)

text \<open>
  No method checks the number of a CPU: with one that the set has no room for (a negative one
  included) the macros access memory outside the userdata.
\<close>

theorem cpuset_index_unchecked:
  assumes "f \<in> {l_cpuset_set C, l_cpuset_clr C, l_cpuset_setof C, l_cpuset_isset C}"
    and "stacks w L = Some [LUserdata u, LInteger i]" and "uds w u = Some (cpuset_object a)"
    and "in_lua_Integer i" and "i < 0 \<or> const E ''CPU_SETSIZE'' \<le> i" and "const E ''CPU_SETSIZE'' < 2 ^ 63"
  shows "fst (f E L w) = Inl Undef"
proof -
  have "const E ''CPU_SETSIZE'' \<le> to_size_t i"
  proof (cases "i < 0")
    case True
    have "to_size_t i = (i + 2 ^ 64) mod 2 ^ 64" by (simp only: to_size_t_def take_bit_eq_mod mod_add_self2)
    also have "\<dots> = i + 2 ^ 64"
      by (rule mod_pos_pos_trivial) (use True assms(4) in \<open>simp_all add: in_lua_Integer_def\<close>)
    finally have "to_size_t i = i + 2 ^ 64" .
    with assms(4,6) show ?thesis by (simp add: in_lua_Integer_def)
  next
    case False
    with assms(4) have "to_size_t i = i" by (intro to_size_t_id) (auto simp: in_lua_Integer_def)
    with assms(5) False show ?thesis by simp
  qed
  with assms(1-3) show ?thesis
    by (auto simp: l_cpuset_set_def l_cpuset_clr_def l_cpuset_setof_def l_cpuset_isset_def cpu_bit_def
        luaL_checktype_def luaL_checkinteger_def lua_run)
qed

theorem cpuset_index_unchecked_witness:
  "fst (l_cpuset_set (bit_ops 1) env0 1 (setst 1 [LUserdata 5, LInteger 4096] cpuset_world)) = Inl Undef"
  by (rule cpuset_index_unchecked [where f = "l_cpuset_set (bit_ops 1)" and C = "bit_ops 1" and i = 4096 and u = 5])
    (simp_all add: cpuset_world_def in_lua_Integer_def)

end
