(* ===== verification/Pthread_Thread.thy ===== *)
theory Pthread_Thread
  imports Pthread_Copy Refcount Cpuset
begin

text \<open>
  The thread functions of \<^verbatim>\<open>libpthread/lua_pthread.c\<close>: creation with its attributes, the body
  a new thread runs, the cleanup stack, joining, and the calls on a thread handle. Calls
  into libthr go to \<open>reply\<close>; a thread handle is the integer libthr stored in the struct.
\<close>

section \<open>Metatables and constants\<close>

definition PTHREAD_METATABLE :: string where
  "PTHREAD_METATABLE = ''pthread_t''"

definition PTHREAD_ONCE_METATABLE :: string where
  "PTHREAD_ONCE_METATABLE = ''pthread_once_t''"

definition PTHREAD_MUTEX_METATABLE :: string where
  "PTHREAD_MUTEX_METATABLE = ''pthread_mutex_t''"

definition PTHREAD_COND_METATABLE :: string where
  "PTHREAD_COND_METATABLE = ''pthread_cond_t''"

definition PTHREAD_RWLOCK_METATABLE :: string where
  "PTHREAD_RWLOCK_METATABLE = ''pthread_rwlock_t''"

definition PTHREAD_KEY_METATABLE :: string where
  "PTHREAD_KEY_METATABLE = ''pthread_key_t''"

definition PTHREAD_BARRIER_METATABLE :: string where
  "PTHREAD_BARRIER_METATABLE = ''pthread_barrier_t''"

definition PTHREAD_RENDEZVOUS_METATABLE :: string where
  "PTHREAD_RENDEZVOUS_METATABLE = ''pthread.rendezvous''"

lemmas metatable_defs = PTHREAD_METATABLE_def PTHREAD_ONCE_METATABLE_def
  PTHREAD_MUTEX_METATABLE_def PTHREAD_COND_METATABLE_def PTHREAD_RWLOCK_METATABLE_def
  PTHREAD_KEY_METATABLE_def PTHREAD_BARRIER_METATABLE_def PTHREAD_RENDEZVOUS_METATABLE_def
  CPUSET_METATABLE_def

text \<open>A call with \<^verbatim>\<open>threadp->thread\<close> as its first argument.\<close>

definition thrcall :: "env \<Rightarrow> addr \<Rightarrow> string \<Rightarrow> carg list \<Rightarrow> cres lua" where
  "thrcall E p f as = lbind (deref KThread p) (\<lambda>ob. case body ob of
      Rcthread (Some t) \<Rightarrow> ccall E f (AInt t # as)
    | _ \<Rightarrow> throw Undef)"

definition thrcall_rc :: "env \<Rightarrow> addr \<Rightarrow> string \<Rightarrow> carg list \<Rightarrow> int lua" where
  "thrcall_rc E p f as = lbind (thrcall E p f as) (\<lambda>r. ret (rc r))"

section \<open>Attributes\<close>

text \<open>
  One \<^verbatim>\<open>switch\<close> of the attribute checkers: an optional field that holds a number, converted
  by \<open>conv\<close> and handed to a setter; \<open>k\<close> is what follows.
\<close>

definition numfield :: "env \<Rightarrow> lstate \<Rightarrow> int \<Rightarrow> string \<Rightarrow> (int \<Rightarrow> int) \<Rightarrow> string \<Rightarrow> int lua \<Rightarrow> int lua" where
  "numfield E L idx field conv setter k =
     lbind (lua_getfield L idx field) (\<lambda>t.
     if t = LUA_TNUMBER then
       lbind (lua_tointeger E L (-1)) (\<lambda>i.
       lbind (ccall_rc E setter [AInt (conv i)]) (\<lambda>error.
       if error \<noteq> 0 then ret (-1)
       else seq (lua_pop L 1) k))
     else if t = LUA_TNIL then seq (lua_pop L 1) k
     else ret (-1))"

definition stackfield :: "env \<Rightarrow> lstate \<Rightarrow> int \<Rightarrow> int lua \<Rightarrow> int lua" where
  "stackfield E L idx k =
     lbind (lua_getfield L idx ''stack'') (\<lambda>t.
     if t = LUA_TTABLE then
       lbind (lua_getfield L (-1) ''addr'') (\<lambda>t1.
       if t1 \<noteq> LUA_TLIGHTUSERDATA then ret (-1)
       else
         lbind (lua_tolight L (-1)) (\<lambda>stackaddr.
         seq (lua_pop L 1)
        (lbind (lua_getfield L (-1) ''size'') (\<lambda>t2.
         if t2 \<noteq> LUA_TNUMBER then ret (-1)
         else
           lbind (lua_tointeger E L (-1)) (\<lambda>stacksize.
           seq (lua_pop L 1)
          (lbind (ccall_rc E ''pthread_attr_setstack'' [APtr stackaddr, AInt (to_size_t stacksize)]) (\<lambda>error.
           if error \<noteq> 0 then ret (-1)
           else seq (lua_pop L 1) k)))))))
     else if t = LUA_TNIL then seq (lua_pop L 1) k
     else ret (-1))"

definition schedparamfield :: "env \<Rightarrow> lstate \<Rightarrow> int \<Rightarrow> int lua \<Rightarrow> int lua" where
  "schedparamfield E L idx k =
     lbind (lua_getfield L idx ''schedparam'') (\<lambda>t.
     if t = LUA_TTABLE then
       lbind (lua_getfield L (-1) ''sched_priority'') (\<lambda>t1.
       if t1 \<noteq> LUA_TNUMBER then ret (-1)
       else
         lbind (lua_tointeger E L (-1)) (\<lambda>prio.
         seq (lua_pop L 1)
        (lbind (ccall_rc E ''pthread_attr_setschedparam'' [AInt (to_int prio)]) (\<lambda>error.
         if error \<noteq> 0 then ret (-1)
         else seq (lua_pop L 1) k))))
     else if t = LUA_TNIL then seq (lua_pop L 1) k
     else ret (-1))"

definition createsuspendfield :: "env \<Rightarrow> lstate \<Rightarrow> int \<Rightarrow> int lua \<Rightarrow> int lua" where
  "createsuspendfield E L idx k =
     lbind (lua_getfield L idx ''createsuspend_np'') (\<lambda>t.
     if t = LUA_TBOOLEAN then
       lbind (lua_toboolean L (-1)) (\<lambda>b.
       if b then
         lbind (ccall_rc E ''pthread_attr_setcreatesuspend_np'' []) (\<lambda>error.
         if error \<noteq> 0 then ret (-1)
         else seq (lua_pop L 1) k)
       else seq (lua_pop L 1) k)
     else if t = LUA_TNIL then seq (lua_pop L 1) k
     else ret (-1))"

text \<open>The metatable of the userdata on top is compared with the one of cpusets.\<close>

definition top_is_cpuset :: "lstate \<Rightarrow> bool lua" where
  "top_is_cpuset L w = askst L (\<lambda>s. case ud_at w s (-1) of None \<Rightarrow> False
     | Some u \<Rightarrow> meta (the (uds w u)) = Some CPUSET_METATABLE) w"

definition affinityfield :: "env \<Rightarrow> lstate \<Rightarrow> int \<Rightarrow> int lua \<Rightarrow> int lua" where
  "affinityfield E L idx k =
     lbind (lua_getfield L idx ''affinity_np'') (\<lambda>t.
     if t = LUA_TUSERDATA then
       lbind (top_is_cpuset L) (\<lambda>same.
       if \<not> same then ret (-1)
       else
         lbind (cpuset_arg L (-1)) (\<lambda>cpuset.
         lbind (ccall_rc E ''pthread_attr_setaffinity_np'' [cpuset]) (\<lambda>error.
         if error \<noteq> 0 then ret (-1)
         else seq (lua_pop L 1) k)))
     else if t = LUA_TNIL then seq (lua_pop L 1) k
     else ret (-1))"

definition checkattr :: "env \<Rightarrow> lstate \<Rightarrow> int \<Rightarrow> int lua" where
  "checkattr E L idx =
     lbind (lua_type L idx) (\<lambda>t. seq (c_assert (t = LUA_TTABLE))
    (stackfield E L idx
    (numfield E L idx ''stacksize'' to_size_t ''pthread_attr_setstacksize''
    (numfield E L idx ''guardsize'' to_size_t ''pthread_attr_setguardsize''
    (numfield E L idx ''detachstate'' to_int ''pthread_attr_setdetachstate''
    (numfield E L idx ''inheritsched'' to_int ''pthread_attr_setinheritsched''
    (schedparamfield E L idx
    (numfield E L idx ''schedpolicy'' to_int ''pthread_attr_setschedpolicy''
    (numfield E L idx ''scope'' to_int ''pthread_attr_setscope''
    (createsuspendfield E L idx
    (affinityfield E L idx
    (ret 0))))))))))))"

section \<open>The cleanup stack\<close>

text \<open>The registry entry at the address of \<^verbatim>\<open>getcleanupstack\<close>.\<close>

definition getcleanupstack :: "lstate \<Rightarrow> unit lua" where
  "getcleanupstack L w = lua_push L (registry w L) w"

definition initcleanupstack :: "lstate \<Rightarrow> unit lua" where
  "initcleanupstack L =
     seq (lua_newtable L)
    (lbind (askst L (\<lambda>s. last s)) (\<lambda>v.
     seq (lua_pop L 1)
     (\<lambda>w. (Inr (), w\<lparr>registry := (registry w)(L := v)\<rparr>))))"

fun cleanup_loop :: "env \<Rightarrow> lstate \<Rightarrow> int \<Rightarrow> nat \<Rightarrow> nat \<Rightarrow> unit lua" where
  "cleanup_loop E L idx i 0 = ret ()"
| "cleanup_loop E L idx i (Suc k) =
     seq (lua_rawgeti L idx (int i))
    (lbind (tunpack E L (-1)) (\<lambda>len.
     seq (lua_pcall E L (int len - 1) False)
     (cleanup_loop E L idx (Suc i) k)))"

definition thread_cleanup :: "env \<Rightarrow> lstate \<Rightarrow> unit lua" where
  "thread_cleanup E L =
     seq (getcleanupstack L)
    (lbind (lua_gettop L) (\<lambda>idx.
     lbind (luaL_len E L (-1)) (\<lambda>n.
     seq (cleanup_loop E L (int idx) 1 n)
     (lua_close L))))"

definition l_pthread_cleanup_push :: "env \<Rightarrow> lstate \<Rightarrow> nat lua" where
  "l_pthread_cleanup_push E L =
     lbind (lua_gettop L) (\<lambda>n.
     seq (tpack L n)
    (lbind (lua_gettop L) (\<lambda>idx.
     seq (getcleanupstack L)
    (seq (lua_pushvalue L (int idx))
    (seq (tpush E L (-2))
    (ret 0))))))"

definition l_pthread_cleanup_pop :: "env \<Rightarrow> lstate \<Rightarrow> nat lua" where
  "l_pthread_cleanup_pop E L =
     lbind (lua_toboolean L 1) (\<lambda>execute.
     seq (getcleanupstack L)
    (lbind (lua_gettop L) (\<lambda>idx.
     seq (tpop E L (int idx))
    (seq (lua_remove L (int idx))
    (seq (if execute then
            lbind (tunpack E L (-1)) (\<lambda>len.
            lbind (lua_pcall E L (int len - 1) True) (\<lambda>status.
            seq (lua_pushboolean L status)
            (lua_insert L (int idx))))
          else lua_pushboolean L True)
    (lbind (lua_gettop L) (\<lambda>top. ret (top - idx))))))))"

section \<open>Creating and running threads\<close>

definition attr_destroy :: "env \<Rightarrow> lstate \<Rightarrow> unit lua" where
  "attr_destroy E L =
     lbind (ccall_rc E ''pthread_attr_destroy'' []) (\<lambda>error.
     if error \<noteq> 0 then fatal E L ''pthread_attr_destroy'' error else ret ())"

definition thread_kfunction :: "env \<Rightarrow> lstate \<Rightarrow> bool \<Rightarrow> 'a lua" where
  "thread_kfunction E L status =
     seq (ccall E ''pthread_cleanup_pop'' [AInt 0])
    (seq (lua_pushboolean L status)
    (seq (lua_insert L 1)
     (throw (ThreadExit L))))"

definition thread_wrapper :: "env \<Rightarrow> lstate \<Rightarrow> unit lua" where
  "thread_wrapper E L =
     lbind (lua_gettop L) (\<lambda>top.
     seq (initcleanupstack L)
    (seq (ccall E ''pthread_cleanup_push'' [APtr L])
    (lbind (lua_pcall E L (int top - 1) True) (\<lambda>status.
     thread_kfunction E L status))))"

definition l_pthread_create :: "env \<Rightarrow> lstate \<Rightarrow> nat lua" where
  "l_pthread_create E L =
     lbind (ccall_rc E ''pthread_attr_init'' []) (\<lambda>error.
     if error \<noteq> 0 then fatal E L ''pthread_attr_init'' error
     else
       lbind (lua_gettop L) (\<lambda>n.
       lbind (lua_type L 1) (\<lambda>t.
       lbind (if t = LUA_TTABLE then
                lbind (checkattr E L 1) (\<lambda>error.
                if error \<noteq> 0 then
                  seq (attr_destroy E L)
                  (luaL_argerror L 1 ''invalid attr table'')
                else ret (n - 1, 2))
              else ret (n, 1)) (\<lambda>(n, fnidx).
       lbind (lua_type L fnidx) (\<lambda>t.
       if t \<noteq> LUA_TFUNCTION then
         seq (attr_destroy E L)
         (luaL_typeerror L fnidx ''function'')
       else
         lbind (luaL_newstate E) (\<lambda>l.
         if l = 0 then
           seq (attr_destroy E L)
           (fatal E L ''luaL_newstate'' (const E ''ENOMEM''))
         else
           seq (ccall E ''luaL_openlibs'' [APtr l])
          (lbind (copyn (cdepth E) E L l fnidx n) (\<lambda>error.
           if error \<noteq> 0 then
             seq (lua_close l)
            (seq (attr_destroy E L)
             (luaL_argerror L error ''non-serializable value''))
           else
             lbind (malloc E (Rcthread None)) (\<lambda>threadp.
             if threadp = 0 then
               seq (lua_close L)
              (seq (attr_destroy E L)
               (fatal E L ''malloc'' (const E ''ENOMEM'')))
             else
               lbind (ccall E ''pthread_create'' [APtr threadp, APtr l]) (\<lambda>r.
               seq (if rc r = 0
                    then store KThread threadp (body_update (\<lambda>_. Rcthread (Some (outi r 0))))
                    else ret ())
              (lbind (ccall_rc E ''pthread_attr_destroy'' []) (\<lambda>error1.
               if error1 \<noteq> 0 then
                 seq (lua_close l)
                (seq (free threadp)
                 (fatal E L ''pthread_attr_destroy'' error1))
               else if rc r \<noteq> 0 then
                 seq (lua_close l)
                (seq (free threadp)
                 (fail E L (rc r)))
               else
                 seq (refcount_init KThread threadp 1)
                 (new L threadp PTHREAD_METATABLE)))))))))))))"

section \<open>Reference counting\<close>

definition l_pthread_retain :: "env \<Rightarrow> lstate \<Rightarrow> nat lua" where
  "l_pthread_retain E L =
     lbind (checklightuserdata L 1) (\<lambda>threadp.
     seq (refcount_retain KThread threadp)
     (new L threadp PTHREAD_METATABLE))"

definition l_pthread_cookie :: "env \<Rightarrow> lstate \<Rightarrow> nat lua" where
  "l_pthread_cookie E L =
     seq (checkcookieuv L 1 PTHREAD_METATABLE)
     (ret 1)"

definition l_pthread_gc :: "env \<Rightarrow> lstate \<Rightarrow> nat lua" where
  "l_pthread_gc E L =
     lbind (checkcookie L 1 PTHREAD_METATABLE) (\<lambda>threadp.
     lbind (refcount_release KThread threadp) (\<lambda>last.
     seq (if last then free threadp else ret ())
     (ret 0)))"

definition l_pthread_self :: "env \<Rightarrow> lstate \<Rightarrow> nat lua" where
  "l_pthread_self E L =
     lbind (malloc E (Rcthread None)) (\<lambda>threadp.
     if threadp = 0 then fatal E L ''malloc'' (const E ''ENOMEM'')
     else
       lbind (ccall_rc E ''pthread_self'' []) (\<lambda>t.
       seq (store KThread threadp (body_update (\<lambda>_. Rcthread (Some t))))
      (seq (refcount_init KThread threadp 1)
       (new L threadp PTHREAD_METATABLE))))"

section \<open>Joining\<close>

text \<open>
  What follows a successful join: \<open>r\<close> is the reply, whose first out-value is the pointer the
  thread passed to \<^verbatim>\<open>pthread_exit\<close>; \<open>close\<close> says whether the state of the thread is closed.
\<close>

definition join_result :: "env \<Rightarrow> lstate \<Rightarrow> bool \<Rightarrow> cres \<Rightarrow> nat lua" where
  "join_result E L close r =
     (if rc r \<noteq> 0 then fail E L (rc r)
      else if outi r 0 = const E ''PTHREAD_CANCELED'' then
        seq (lua_pushboolean L False)
       (seq (lua_pushstring L ''canceled'')
       (ret 2))
      else
        let l = nat (outi r 0) in
        lbind (lua_gettop l) (\<lambda>nresults.
        lbind (if 0 < nresults then copyn (cdepth E) E l L 1 nresults else ret 0) (\<lambda>error.
        if error \<noteq> 0 then
          seq (if close then lua_close l else ret ())
          (luaL_error L ''thread returned a non-serializable value'')
        else
          seq (if close then lua_close l else ret ())
          (ret nresults))))"

definition l_pthread_join :: "env \<Rightarrow> lstate \<Rightarrow> nat lua" where
  "l_pthread_join E L =
     lbind (checkcookie L 1 PTHREAD_METATABLE) (\<lambda>threadp.
     lbind (thrcall E threadp ''pthread_join'' []) (\<lambda>r.
     join_result E L True r))"

definition l_pthread_peekjoin_np :: "env \<Rightarrow> lstate \<Rightarrow> nat lua" where
  "l_pthread_peekjoin_np E L =
     lbind (checkcookie L 1 PTHREAD_METATABLE) (\<lambda>threadp.
     lbind (thrcall E threadp ''pthread_peekjoin_np'' []) (\<lambda>r.
     join_result E L False r))"

definition l_pthread_timedjoin_np :: "env \<Rightarrow> lstate \<Rightarrow> nat lua" where
  "l_pthread_timedjoin_np E L =
     lbind (checkcookie L 1 PTHREAD_METATABLE) (\<lambda>threadp.
     lbind (luaL_checkinteger E L 2) (\<lambda>tv_sec.
     lbind (luaL_optinteger E L 3 0) (\<lambda>tv_nsec.
     lbind (thrcall E threadp ''pthread_timedjoin_np'' [AInt tv_sec, AInt tv_nsec]) (\<lambda>r.
     join_result E L True r))))"

definition l_pthread_exit :: "env \<Rightarrow> lstate \<Rightarrow> nat lua" where
  "l_pthread_exit E L =
     seq (lua_pushboolean L True)
    (seq (lua_insert L 1)
     (throw (ThreadExit L)))"

section \<open>Calls on a thread\<close>

definition l_pthread_cancel :: "env \<Rightarrow> lstate \<Rightarrow> nat lua" where
  "l_pthread_cancel E L =
     lbind (checkcookie L 1 PTHREAD_METATABLE) (\<lambda>threadp.
     lbind (thrcall_rc E threadp ''pthread_cancel'' []) (\<lambda>error.
     if error \<noteq> 0 then fail E L error else success L))"

definition l_pthread_detach :: "env \<Rightarrow> lstate \<Rightarrow> nat lua" where
  "l_pthread_detach E L =
     lbind (checkcookie L 1 PTHREAD_METATABLE) (\<lambda>threadp.
     lbind (thrcall_rc E threadp ''pthread_detach'' []) (\<lambda>error.
     if error \<noteq> 0 then fail E L error else success L))"

definition l_pthread_equal :: "env \<Rightarrow> lstate \<Rightarrow> nat lua" where
  "l_pthread_equal E L =
     lbind (checkcookie L 1 PTHREAD_METATABLE) (\<lambda>t1p.
     lbind (checkcookie L 2 PTHREAD_METATABLE) (\<lambda>t2p.
     lbind (deref KThread t2p) (\<lambda>ob. case body ob of
       Rcthread (Some t2) \<Rightarrow>
         lbind (thrcall_rc E t1p ''pthread_equal'' [AInt t2]) (\<lambda>eq.
         seq (lua_pushboolean L (eq \<noteq> 0))
         (ret 1))
     | _ \<Rightarrow> throw Undef)))"

definition setint :: "lstate \<Rightarrow> string \<Rightarrow> int \<Rightarrow> unit lua" where
  "setint L field i = seq (lua_pushinteger L i) (lua_setfield L (-2) field)"

text \<open>
  One getter of \<^verbatim>\<open>attr_get_np\<close>: on an error the attributes are destroyed and the error is
  raised; otherwise \<open>k\<close> gets the reply.
\<close>

definition attr_get :: "env \<Rightarrow> lstate \<Rightarrow> string \<Rightarrow> (cres \<Rightarrow> 'a lua) \<Rightarrow> 'a lua" where
  "attr_get E L getter k =
     lbind (ccall E getter []) (\<lambda>r.
     if rc r \<noteq> 0 then
       seq (attr_destroy E L)
       (fatal E L getter (rc r))
     else k r)"

definition l_pthread_attr_get_np :: "env \<Rightarrow> lstate \<Rightarrow> nat lua" where
  "l_pthread_attr_get_np E L =
     lbind (checkcookie L 1 PTHREAD_METATABLE) (\<lambda>threadp.
     lbind (ccall_rc E ''pthread_attr_init'' []) (\<lambda>error.
     if error \<noteq> 0 then fatal E L ''pthread_attr_init'' error
     else
       lbind (thrcall_rc E threadp ''pthread_attr_get_np'' []) (\<lambda>error.
       if error \<noteq> 0 then
         seq (attr_destroy E L)
         (fail E L error)
       else
         seq (lua_newtable L)
        (attr_get E L ''pthread_attr_getstack'' (\<lambda>r.
         seq (lua_createtable L)
        (seq (lua_pushlightuserdata L (nat (outi r 0)))
        (seq (lua_setfield L (-2) ''addr'')
        (seq (setint L ''size'' (to_lua_Integer (outi r 1)))
        (seq (lua_setfield L (-2) ''stack'')
        (attr_get E L ''pthread_attr_getguardsize'' (\<lambda>r.
         seq (setint L ''guardsize'' (to_lua_Integer (outi r 0)))
        (attr_get E L ''pthread_attr_getdetachstate'' (\<lambda>r.
         seq (setint L ''detachstate'' (outi r 0))
        (attr_get E L ''pthread_attr_getinheritsched'' (\<lambda>r.
         seq (setint L ''inheritsched'' (outi r 0))
        (attr_get E L ''pthread_attr_getschedparam'' (\<lambda>r.
         seq (lua_createtable L)
        (seq (setint L ''sched_priority'' (outi r 0))
        (seq (lua_setfield L (-2) ''schedparam'')
        (attr_get E L ''pthread_attr_getschedpolicy'' (\<lambda>r.
         seq (setint L ''schedpolicy'' (outi r 0))
        (attr_get E L ''pthread_attr_getscope'' (\<lambda>r.
         seq (setint L ''scope'' (outi r 0))
        (lbind (newanoncpuset L) (\<lambda>cpuset.
         attr_get E L ''pthread_attr_getaffinity_np'' (\<lambda>r.
         seq (cpuset_out cpuset (outi r 0))
        (seq (lua_setfield L (-2) ''affinity_np'')
        (seq (attr_destroy E L)
         (ret 1)))))))))))))))))))))))))))))"

definition l_pthread_getaffinity_np :: "env \<Rightarrow> lstate \<Rightarrow> nat lua" where
  "l_pthread_getaffinity_np E L =
     lbind (checkcookie L 1 PTHREAD_METATABLE) (\<lambda>threadp.
     lbind (newanoncpuset L) (\<lambda>cpuset.
     lbind (thrcall E threadp ''pthread_getaffinity_np'' []) (\<lambda>r.
     if rc r \<noteq> 0 then fail E L (rc r)
     else
       seq (cpuset_out cpuset (outi r 0))
       (ret 1))))"

definition l_pthread_setaffinity_np :: "env \<Rightarrow> lstate \<Rightarrow> nat lua" where
  "l_pthread_setaffinity_np E L =
     lbind (checkcookie L 1 PTHREAD_METATABLE) (\<lambda>threadp.
     lbind (luaL_checkudata L 2 CPUSET_METATABLE) (\<lambda>cpuset.
     lbind (cpuset_arg L 2) (\<lambda>cpuset.
     lbind (thrcall_rc E threadp ''pthread_setaffinity_np'' [cpuset]) (\<lambda>error.
     if error \<noteq> 0 then fail E L error else success L))))"

definition l_pthread_resume_np :: "env \<Rightarrow> lstate \<Rightarrow> nat lua" where
  "l_pthread_resume_np E L =
     lbind (checkcookie L 1 PTHREAD_METATABLE) (\<lambda>threadp.
     lbind (thrcall_rc E threadp ''pthread_resume_np'' []) (\<lambda>error.
     if error \<noteq> 0 then fail E L error else success L))"

definition l_pthread_suspend_np :: "env \<Rightarrow> lstate \<Rightarrow> nat lua" where
  "l_pthread_suspend_np E L =
     lbind (checkcookie L 1 PTHREAD_METATABLE) (\<lambda>threadp.
     lbind (thrcall_rc E threadp ''pthread_suspend_np'' []) (\<lambda>error.
     if error \<noteq> 0 then fail E L error else success L))"

definition l_pthread_kill :: "env \<Rightarrow> lstate \<Rightarrow> nat lua" where
  "l_pthread_kill E L =
     lbind (checkcookie L 1 PTHREAD_METATABLE) (\<lambda>threadp.
     lbind (luaL_checkinteger E L 2) (\<lambda>sig.
     lbind (thrcall_rc E threadp ''pthread_kill'' [AInt (to_int sig)]) (\<lambda>error.
     if error \<noteq> 0 then fail E L error else success L)))"

definition l_pthread_getname_np :: "env \<Rightarrow> lstate \<Rightarrow> nat lua" where
  "l_pthread_getname_np E L =
     lbind (checkcookie L 1 PTHREAD_METATABLE) (\<lambda>threadp.
     lbind (thrcall E threadp ''pthread_getname_np'' []) (\<lambda>r.
     if rc r \<noteq> 0 then fail E L (rc r)
     else
       seq (lua_pushstring L (cstr (outs r)))
       (ret 1)))"

definition l_pthread_setname_np :: "env \<Rightarrow> lstate \<Rightarrow> nat lua" where
  "l_pthread_setname_np E L =
     lbind (checkcookie L 1 PTHREAD_METATABLE) (\<lambda>threadp.
     lbind (luaL_checklstring E L 2) (\<lambda>name.
     lbind (thrcall_rc E threadp ''pthread_setname_np'' [AStr (cstr name)]) (\<lambda>error.
     if error \<noteq> 0 then fail E L error else success L)))"

text \<open>The members of \<^verbatim>\<open>union sigval\<close> are told apart by the argument.\<close>

definition l_pthread_sigqueue :: "env \<Rightarrow> lstate \<Rightarrow> nat lua" where
  "l_pthread_sigqueue E L =
     lbind (checkcookie L 1 PTHREAD_METATABLE) (\<lambda>threadp.
     lbind (luaL_checkinteger E L 2) (\<lambda>sig.
     lbind (lua_isinteger L 3) (\<lambda>isint.
     lbind (if isint then lbind (lua_tointeger E L 3) (\<lambda>i. ret (AInt (to_int i)))
            else lbind (checklightuserdata L 3) (\<lambda>p. ret (APtr p))) (\<lambda>value.
     lbind (thrcall_rc E threadp ''pthread_sigqueue'' [AInt (to_int sig), value]) (\<lambda>error.
     if error \<noteq> 0 then fail E L error else success L)))))"

section \<open>Calls on the calling thread and the process\<close>

definition l_pthread_setcancelstate :: "env \<Rightarrow> lstate \<Rightarrow> nat lua" where
  "l_pthread_setcancelstate E L =
     lbind (luaL_checkinteger E L 1) (\<lambda>state.
     lbind (ccall E ''pthread_setcancelstate'' [AInt (to_int state)]) (\<lambda>r.
     if rc r \<noteq> 0 then fail E L (rc r)
     else seq (lua_pushinteger L (outi r 0)) (ret 1)))"

definition l_pthread_setcanceltype :: "env \<Rightarrow> lstate \<Rightarrow> nat lua" where
  "l_pthread_setcanceltype E L =
     lbind (luaL_checkinteger E L 1) (\<lambda>type.
     lbind (ccall E ''pthread_setcanceltype'' [AInt (to_int type)]) (\<lambda>r.
     if rc r \<noteq> 0 then fail E L (rc r)
     else seq (lua_pushinteger L (outi r 0)) (ret 1)))"

definition l_pthread_testcancel :: "env \<Rightarrow> lstate \<Rightarrow> nat lua" where
  "l_pthread_testcancel E L = seq (ccall E ''pthread_testcancel'' []) (ret 0)"

definition l_pthread_yield :: "env \<Rightarrow> lstate \<Rightarrow> nat lua" where
  "l_pthread_yield E L = seq (ccall E ''pthread_yield'' []) (ret 0)"

definition l_pthread_getthreadid_np :: "env \<Rightarrow> lstate \<Rightarrow> nat lua" where
  "l_pthread_getthreadid_np E L =
     lbind (ccall_rc E ''pthread_getthreadid_np'' []) (\<lambda>t.
     seq (lua_pushinteger L t)
     (ret 1))"

definition l_pthread_main_np :: "env \<Rightarrow> lstate \<Rightarrow> nat lua" where
  "l_pthread_main_np E L =
     lbind (ccall_rc E ''pthread_main_np'' []) (\<lambda>ismain.
     if ismain = -1 then
       seq (luaL_pushfail L)
      (seq (lua_pushstring L ''not ready'')
       (ret 2))
     else
       seq (lua_pushboolean L (ismain \<noteq> 0))
       (ret 1))"

definition l_pthread_multi_np :: "env \<Rightarrow> lstate \<Rightarrow> nat lua" where
  "l_pthread_multi_np E L =
     lbind (ccall_rc E ''pthread_multi_np'' []) (\<lambda>error.
     seq (c_assert (error = 0))
     (success L))"

definition l_pthread_resume_all_np :: "env \<Rightarrow> lstate \<Rightarrow> nat lua" where
  "l_pthread_resume_all_np E L = seq (ccall E ''pthread_resume_all_np'' []) (ret 0)"

definition l_pthread_signals_block_np :: "env \<Rightarrow> lstate \<Rightarrow> nat lua" where
  "l_pthread_signals_block_np E L = seq (ccall E ''pthread_signals_block_np'' []) (ret 0)"

definition l_pthread_signals_unblock_np :: "env \<Rightarrow> lstate \<Rightarrow> nat lua" where
  "l_pthread_signals_unblock_np E L = seq (ccall E ''pthread_signals_unblock_np'' []) (ret 0)"

definition l_pthread_single_np :: "env \<Rightarrow> lstate \<Rightarrow> nat lua" where
  "l_pthread_single_np E L =
     lbind (ccall_rc E ''pthread_single_np'' []) (\<lambda>error.
     seq (c_assert (error = 0))
     (success L))"

definition l_pthread_suspend_all_np :: "env \<Rightarrow> lstate \<Rightarrow> nat lua" where
  "l_pthread_suspend_all_np E L = seq (ccall E ''pthread_suspend_all_np'' []) (ret 0)"

end
