(* ===== verification/Pthread_Sync.thy ===== *)
theory Pthread_Sync
  imports Pthread_Thread
begin

text \<open>
  The synchronisation objects of \<^verbatim>\<open>libpthread/lua_pthread.c\<close>: once controls, mutexes,
  condition variables, reader/writer locks, thread-specific keys and barriers. Each is a
  reference-counted struct on the C heap; a Lua value is a wrapper userdata whose cookie is
  the address of the struct.
\<close>

section \<open>Once controls\<close>

text \<open>
  \<^verbatim>\<open>pthread_once\<close> runs the routine or not: the reply's first out-value says whether this call
  is the one that runs it. The routine finds its Lua state in thread-specific data: its
  second out-value, 0 if there is none.
\<close>

definition once_wrapper :: "env \<Rightarrow> lstate \<Rightarrow> unit lua" where
  "once_wrapper E L =
     (if L \<noteq> 0 then
        lbind (lua_gettop L) (\<lambda>top.
        lbind (lua_pcall E L (int top - 1) True) (\<lambda>status.
        lua_pushboolean L status))
      else ret ())"

definition l_pthread_once_new :: "env \<Rightarrow> lstate \<Rightarrow> nat lua" where
  "l_pthread_once_new E L =
     lbind (malloc E Rconce) (\<lambda>oncep.
     if oncep = 0 then fatal E L ''malloc'' (const E ''ENOMEM'')
     else
       seq (refcount_init KOnce oncep 1)
       (new L oncep PTHREAD_ONCE_METATABLE))"

definition l_pthread_once_call :: "env \<Rightarrow> lstate \<Rightarrow> nat lua" where
  "l_pthread_once_call E L =
     lbind (checkcookie L 1 PTHREAD_ONCE_METATABLE) (\<lambda>oncep.
     lbind (lua_gettop L) (\<lambda>top.
     lbind (objcall E KOnce oncep ''pthread_once'' []) (\<lambda>r.
     seq (if rc r = 0 \<and> outi r 0 \<noteq> 0 then once_wrapper E (nat (outi r 1)) else ret ())
     (if rc r \<noteq> 0 then fail E L (rc r)
      else
        lbind (lua_gettop L) (\<lambda>top'.
        let nresults = int top' - int top in
        seq (c_assert (0 < nresults))
       (seq (lua_insert L (int top + 1))
        (ret (nat nresults))))))))"

definition l_pthread_once_retain :: "env \<Rightarrow> lstate \<Rightarrow> nat lua" where
  "l_pthread_once_retain E L =
     lbind (checklightuserdata L 1) (\<lambda>oncep.
     seq (refcount_retain KOnce oncep)
     (new L oncep PTHREAD_ONCE_METATABLE))"

definition l_pthread_once_cookie :: "env \<Rightarrow> lstate \<Rightarrow> nat lua" where
  "l_pthread_once_cookie E L =
     seq (checkcookieuv L 1 PTHREAD_ONCE_METATABLE)
     (ret 1)"

definition l_pthread_once_gc :: "env \<Rightarrow> lstate \<Rightarrow> nat lua" where
  "l_pthread_once_gc E L =
     lbind (checkcookie L 1 PTHREAD_ONCE_METATABLE) (\<lambda>oncep.
     lbind (refcount_release KOnce oncep) (\<lambda>last.
     seq (if last then free oncep else ret ())
     (ret 0)))"

section \<open>Mutexes\<close>

definition checkmutexattr :: "env \<Rightarrow> lstate \<Rightarrow> int \<Rightarrow> int lua" where
  "checkmutexattr E L idx =
     lbind (lua_type L idx) (\<lambda>t. seq (c_assert (t = LUA_TTABLE))
    (numfield E L idx ''prioceiling'' to_int ''pthread_mutexattr_setprioceiling''
    (numfield E L idx ''protocol'' to_int ''pthread_mutexattr_setprotocol''
    (numfield E L idx ''type'' to_int ''pthread_mutexattr_settype''
    (ret 0)))))"

definition mutexattr_destroy :: "env \<Rightarrow> lstate \<Rightarrow> unit lua" where
  "mutexattr_destroy E L =
     lbind (ccall_rc E ''pthread_mutexattr_destroy'' []) (\<lambda>error.
     if error \<noteq> 0 then fatal E L ''pthread_mutexattr_destroy'' error else ret ())"

definition l_pthread_mutex_new :: "env \<Rightarrow> lstate \<Rightarrow> nat lua" where
  "l_pthread_mutex_new E L =
     lbind (ccall_rc E ''pthread_mutexattr_init'' []) (\<lambda>error.
     if error \<noteq> 0 then fatal E L ''pthread_mutexattr_init'' error
     else
       lbind (lua_type L 1) (\<lambda>t.
       seq (if t = LUA_TTABLE then
              lbind (checkmutexattr E L 1) (\<lambda>error.
              if error \<noteq> 0 then
                seq (mutexattr_destroy E L)
                (luaL_argerror L 1 ''invalid attr table'')
              else ret ())
            else if t = LUA_TNIL \<or> t = LUA_TNONE then ret ()
            else
              seq (mutexattr_destroy E L)
              (luaL_argerror L 1 ''invalid argument''))
      (lbind (malloc E Rcmutex) (\<lambda>mutexp.
       if mutexp = 0 then
         seq (mutexattr_destroy E L)
         (fatal E L ''malloc'' (const E ''ENOMEM''))
       else
         lbind (objcall_rc E KMutex mutexp ''pthread_mutex_init'' []) (\<lambda>error.
         lbind (ccall_rc E ''pthread_mutexattr_destroy'' []) (\<lambda>error1.
         if error1 \<noteq> 0 then
           seq (free mutexp)
           (fatal E L ''pthread_mutexattr_destroy'' error1)
         else if error \<noteq> 0 then
           seq (free mutexp)
           (fail E L error)
         else
           seq (refcount_init KMutex mutexp 1)
           (new L mutexp PTHREAD_MUTEX_METATABLE)))))))"

definition l_pthread_mutex_retain :: "env \<Rightarrow> lstate \<Rightarrow> nat lua" where
  "l_pthread_mutex_retain E L =
     lbind (checklightuserdata L 1) (\<lambda>mutexp.
     seq (refcount_retain KMutex mutexp)
     (new L mutexp PTHREAD_MUTEX_METATABLE))"

definition l_pthread_mutex_cookie :: "env \<Rightarrow> lstate \<Rightarrow> nat lua" where
  "l_pthread_mutex_cookie E L =
     seq (checkcookieuv L 1 PTHREAD_MUTEX_METATABLE)
     (ret 1)"

definition l_pthread_mutex_gc :: "env \<Rightarrow> lstate \<Rightarrow> nat lua" where
  "l_pthread_mutex_gc E L =
     lbind (checkcookie L 1 PTHREAD_MUTEX_METATABLE) (\<lambda>mutexp.
     lbind (refcount_release KMutex mutexp) (\<lambda>last.
     if last then
       lbind (objcall_rc E KMutex mutexp ''pthread_mutex_destroy'' []) (\<lambda>error.
       seq (free mutexp)
       (if error \<noteq> 0 then fatal E L ''pthread_mutex_destroy'' error else ret 0))
     else ret 0))"

definition l_pthread_mutex_lock :: "env \<Rightarrow> lstate \<Rightarrow> nat lua" where
  "l_pthread_mutex_lock E L =
     lbind (checkcookie L 1 PTHREAD_MUTEX_METATABLE) (\<lambda>mutexp.
     lbind (objcall_rc E KMutex mutexp ''pthread_mutex_lock'' []) (\<lambda>error.
     if error \<noteq> 0 then fail E L error else success L))"

definition l_pthread_mutex_timedlock :: "env \<Rightarrow> lstate \<Rightarrow> nat lua" where
  "l_pthread_mutex_timedlock E L =
     lbind (checkcookie L 1 PTHREAD_MUTEX_METATABLE) (\<lambda>mutexp.
     lbind (luaL_checkinteger E L 2) (\<lambda>tv_sec.
     lbind (luaL_optinteger E L 3 0) (\<lambda>tv_nsec.
     lbind (objcall_rc E KMutex mutexp ''pthread_mutex_timedlock'' [AInt tv_sec, AInt tv_nsec]) (\<lambda>error.
     if error \<noteq> 0 then fail E L error else success L))))"

definition l_pthread_mutex_trylock :: "env \<Rightarrow> lstate \<Rightarrow> nat lua" where
  "l_pthread_mutex_trylock E L =
     lbind (checkcookie L 1 PTHREAD_MUTEX_METATABLE) (\<lambda>mutexp.
     lbind (objcall_rc E KMutex mutexp ''pthread_mutex_trylock'' []) (\<lambda>error.
     if error \<noteq> 0 then fail E L error else success L))"

definition l_pthread_mutex_unlock :: "env \<Rightarrow> lstate \<Rightarrow> nat lua" where
  "l_pthread_mutex_unlock E L =
     lbind (checkcookie L 1 PTHREAD_MUTEX_METATABLE) (\<lambda>mutexp.
     lbind (objcall_rc E KMutex mutexp ''pthread_mutex_unlock'' []) (\<lambda>error.
     if error \<noteq> 0 then fail E L error else success L))"

definition l_pthread_mutex_getspinloops_np :: "env \<Rightarrow> lstate \<Rightarrow> nat lua" where
  "l_pthread_mutex_getspinloops_np E L =
     lbind (checkcookie L 1 PTHREAD_MUTEX_METATABLE) (\<lambda>mutexp.
     lbind (objcall E KMutex mutexp ''pthread_mutex_getspinloops_np'' []) (\<lambda>r.
     if rc r \<noteq> 0 then fail E L (rc r)
     else seq (lua_pushinteger L (outi r 0)) (ret 1)))"

definition l_pthread_mutex_setspinloops_np :: "env \<Rightarrow> lstate \<Rightarrow> nat lua" where
  "l_pthread_mutex_setspinloops_np E L =
     lbind (checkcookie L 1 PTHREAD_MUTEX_METATABLE) (\<lambda>mutexp.
     lbind (luaL_checkinteger E L 2) (\<lambda>count.
     lbind (objcall_rc E KMutex mutexp ''pthread_mutex_setspinloops_np'' [AInt (to_int count)]) (\<lambda>error.
     if error \<noteq> 0 then fail E L error else success L)))"

definition l_pthread_mutex_getyieldloops_np :: "env \<Rightarrow> lstate \<Rightarrow> nat lua" where
  "l_pthread_mutex_getyieldloops_np E L =
     lbind (checkcookie L 1 PTHREAD_MUTEX_METATABLE) (\<lambda>mutexp.
     lbind (objcall E KMutex mutexp ''pthread_mutex_getyieldloops_np'' []) (\<lambda>r.
     if rc r \<noteq> 0 then fail E L (rc r)
     else seq (lua_pushinteger L (outi r 0)) (ret 1)))"

definition l_pthread_mutex_setyieldloops_np :: "env \<Rightarrow> lstate \<Rightarrow> nat lua" where
  "l_pthread_mutex_setyieldloops_np E L =
     lbind (checkcookie L 1 PTHREAD_MUTEX_METATABLE) (\<lambda>mutexp.
     lbind (luaL_checkinteger E L 2) (\<lambda>count.
     lbind (objcall_rc E KMutex mutexp ''pthread_mutex_setyieldloops_np'' [AInt (to_int count)]) (\<lambda>error.
     if error \<noteq> 0 then fail E L error else success L)))"

definition l_pthread_mutex_isowned_np :: "env \<Rightarrow> lstate \<Rightarrow> nat lua" where
  "l_pthread_mutex_isowned_np E L =
     lbind (checkcookie L 1 PTHREAD_MUTEX_METATABLE) (\<lambda>mutexp.
     lbind (objcall_rc E KMutex mutexp ''pthread_mutex_isowned_np'' []) (\<lambda>isowned.
     if isowned = -1 then
       seq (luaL_pushfail L)
      (seq (lua_pushstring L ''unknown error'')
       (ret 2))
     else
       seq (lua_pushboolean L (isowned \<noteq> 0))
       (ret 1)))"

section \<open>Condition variables\<close>

definition checkcondattr :: "env \<Rightarrow> lstate \<Rightarrow> int \<Rightarrow> int lua" where
  "checkcondattr E L idx =
     lbind (lua_type L idx) (\<lambda>t. seq (c_assert (t = LUA_TTABLE))
    (numfield E L idx ''clock'' to_int ''pthread_condattr_setclock''
    (numfield E L idx ''pshared'' to_int ''pthread_condattr_setpshared''
    (ret 0))))"

definition condattr_destroy :: "env \<Rightarrow> lstate \<Rightarrow> unit lua" where
  "condattr_destroy E L =
     lbind (ccall_rc E ''pthread_condattr_destroy'' []) (\<lambda>error.
     if error \<noteq> 0 then fatal E L ''pthread_condattr_destroy'' error else ret ())"

definition l_pthread_cond_new :: "env \<Rightarrow> lstate \<Rightarrow> nat lua" where
  "l_pthread_cond_new E L =
     lbind (ccall_rc E ''pthread_condattr_init'' []) (\<lambda>error.
     if error \<noteq> 0 then fatal E L ''pthread_condattr_init'' error
     else
       lbind (lua_type L 1) (\<lambda>t.
       seq (if t = LUA_TTABLE then
              lbind (checkcondattr E L 1) (\<lambda>error.
              if error \<noteq> 0 then
                seq (condattr_destroy E L)
                (luaL_argerror L 1 ''invalid attr table'')
              else ret ())
            else if t = LUA_TNIL \<or> t = LUA_TNONE then ret ()
            else
              seq (condattr_destroy E L)
              (luaL_argerror L 1 ''invalid argument''))
      (lbind (malloc E Rccond) (\<lambda>condp.
       if condp = 0 then
         seq (condattr_destroy E L)
         (fatal E L ''malloc'' (const E ''ENOMEM''))
       else
         lbind (objcall_rc E KCond condp ''pthread_cond_init'' []) (\<lambda>error.
         lbind (ccall_rc E ''pthread_condattr_destroy'' []) (\<lambda>error1.
         if error1 \<noteq> 0 then
           seq (free condp)
           (fatal E L ''pthread_condattr_destroy'' error1)
         else if error \<noteq> 0 then
           seq (free condp)
           (fail E L error)
         else
           seq (refcount_init KCond condp 1)
           (new L condp PTHREAD_COND_METATABLE)))))))"

definition l_pthread_cond_retain :: "env \<Rightarrow> lstate \<Rightarrow> nat lua" where
  "l_pthread_cond_retain E L =
     lbind (checklightuserdata L 1) (\<lambda>condp.
     seq (refcount_retain KCond condp)
     (new L condp PTHREAD_COND_METATABLE))"

definition l_pthread_cond_cookie :: "env \<Rightarrow> lstate \<Rightarrow> nat lua" where
  "l_pthread_cond_cookie E L =
     seq (checkcookieuv L 1 PTHREAD_COND_METATABLE)
     (ret 1)"

definition l_pthread_cond_gc :: "env \<Rightarrow> lstate \<Rightarrow> nat lua" where
  "l_pthread_cond_gc E L =
     lbind (checkcookie L 1 PTHREAD_COND_METATABLE) (\<lambda>condp.
     lbind (refcount_release KCond condp) (\<lambda>last.
     if last then
       lbind (objcall_rc E KCond condp ''pthread_cond_destroy'' []) (\<lambda>error.
       seq (free condp)
       (if error \<noteq> 0 then fatal E L ''pthread_cond_destroy'' error else ret 0))
     else ret 0))"

definition l_pthread_cond_broadcast :: "env \<Rightarrow> lstate \<Rightarrow> nat lua" where
  "l_pthread_cond_broadcast E L =
     lbind (checkcookie L 1 PTHREAD_COND_METATABLE) (\<lambda>condp.
     lbind (objcall_rc E KCond condp ''pthread_cond_broadcast'' []) (\<lambda>error.
     if error \<noteq> 0 then fail E L error else success L))"

definition l_pthread_cond_signal :: "env \<Rightarrow> lstate \<Rightarrow> nat lua" where
  "l_pthread_cond_signal E L =
     lbind (checkcookie L 1 PTHREAD_COND_METATABLE) (\<lambda>condp.
     lbind (objcall_rc E KCond condp ''pthread_cond_signal'' []) (\<lambda>error.
     if error \<noteq> 0 then fail E L error else success L))"

definition l_pthread_cond_timedwait :: "env \<Rightarrow> lstate \<Rightarrow> nat lua" where
  "l_pthread_cond_timedwait E L =
     lbind (checkcookie L 1 PTHREAD_COND_METATABLE) (\<lambda>condp.
     lbind (checkcookie L 2 PTHREAD_MUTEX_METATABLE) (\<lambda>mutexp.
     lbind (luaL_checkinteger E L 3) (\<lambda>tv_sec.
     lbind (luaL_optinteger E L 4 0) (\<lambda>tv_nsec.
     seq (deref KMutex mutexp)
    (lbind (objcall_rc E KCond condp ''pthread_cond_timedwait''
       [APtr mutexp, AInt tv_sec, AInt tv_nsec]) (\<lambda>error.
     if error \<noteq> 0 then fail E L error else success L))))))"

definition l_pthread_cond_wait :: "env \<Rightarrow> lstate \<Rightarrow> nat lua" where
  "l_pthread_cond_wait E L =
     lbind (checkcookie L 1 PTHREAD_COND_METATABLE) (\<lambda>condp.
     lbind (checkcookie L 2 PTHREAD_MUTEX_METATABLE) (\<lambda>mutexp.
     seq (deref KMutex mutexp)
    (lbind (objcall_rc E KCond condp ''pthread_cond_wait'' [APtr mutexp]) (\<lambda>error.
     if error \<noteq> 0 then fail E L error else success L))))"

section \<open>Reader/writer locks\<close>

definition checkrwlockattr :: "env \<Rightarrow> lstate \<Rightarrow> int \<Rightarrow> int lua" where
  "checkrwlockattr E L idx =
     lbind (lua_type L idx) (\<lambda>t. seq (c_assert (t = LUA_TTABLE))
    (numfield E L idx ''pshared'' to_int ''pthread_rwlockattr_setpshared''
    (ret 0)))"

definition rwlockattr_destroy :: "env \<Rightarrow> lstate \<Rightarrow> unit lua" where
  "rwlockattr_destroy E L =
     lbind (ccall_rc E ''pthread_rwlockattr_destroy'' []) (\<lambda>error.
     if error \<noteq> 0 then fatal E L ''pthread_rwlockattr_destroy'' error else ret ())"

definition l_pthread_rwlock_new :: "env \<Rightarrow> lstate \<Rightarrow> nat lua" where
  "l_pthread_rwlock_new E L =
     lbind (ccall_rc E ''pthread_rwlockattr_init'' []) (\<lambda>error.
     if error \<noteq> 0 then fatal E L ''pthread_rwlockattr_init'' error
     else
       lbind (lua_type L 1) (\<lambda>t.
       seq (if t = LUA_TTABLE then
              lbind (checkrwlockattr E L 1) (\<lambda>error.
              if error \<noteq> 0 then
                seq (rwlockattr_destroy E L)
                (luaL_argerror L 1 ''invalid attr table'')
              else ret ())
            else if t = LUA_TNIL \<or> t = LUA_TNONE then ret ()
            else
              seq (rwlockattr_destroy E L)
              (luaL_argerror L 1 ''invalid argument''))
      (lbind (malloc E Rcrwlock) (\<lambda>lockp.
       if lockp = 0 then
         seq (rwlockattr_destroy E L)
         (fatal E L ''malloc'' (const E ''ENOMEM''))
       else
         lbind (objcall_rc E KRwlock lockp ''pthread_rwlock_init'' []) (\<lambda>error.
         lbind (ccall_rc E ''pthread_rwlockattr_destroy'' []) (\<lambda>error1.
         if error1 \<noteq> 0 then
           seq (free lockp)
           (fatal E L ''pthread_rwlockattr_destroy'' error1)
         else if error \<noteq> 0 then
           seq (free lockp)
           (fail E L error)
         else
           seq (refcount_init KRwlock lockp 1)
           (new L lockp PTHREAD_RWLOCK_METATABLE)))))))"

definition l_pthread_rwlock_retain :: "env \<Rightarrow> lstate \<Rightarrow> nat lua" where
  "l_pthread_rwlock_retain E L =
     lbind (checklightuserdata L 1) (\<lambda>lockp.
     seq (refcount_retain KRwlock lockp)
     (new L lockp PTHREAD_RWLOCK_METATABLE))"

definition l_pthread_rwlock_cookie :: "env \<Rightarrow> lstate \<Rightarrow> nat lua" where
  "l_pthread_rwlock_cookie E L =
     seq (checkcookieuv L 1 PTHREAD_RWLOCK_METATABLE)
     (ret 1)"

definition l_pthread_rwlock_gc :: "env \<Rightarrow> lstate \<Rightarrow> nat lua" where
  "l_pthread_rwlock_gc E L =
     lbind (checkcookie L 1 PTHREAD_RWLOCK_METATABLE) (\<lambda>lockp.
     lbind (refcount_release KRwlock lockp) (\<lambda>last.
     if last then
       lbind (objcall_rc E KRwlock lockp ''pthread_rwlock_destroy'' []) (\<lambda>error.
       seq (free lockp)
       (if error \<noteq> 0 then fatal E L ''pthread_rwlock_destroy'' error else ret 0))
     else ret 0))"

definition l_pthread_rwlock_rdlock :: "env \<Rightarrow> lstate \<Rightarrow> nat lua" where
  "l_pthread_rwlock_rdlock E L =
     lbind (checkcookie L 1 PTHREAD_RWLOCK_METATABLE) (\<lambda>lockp.
     lbind (objcall_rc E KRwlock lockp ''pthread_rwlock_rdlock'' []) (\<lambda>error.
     if error \<noteq> 0 then fail E L error else success L))"

definition l_pthread_rwlock_tryrdlock :: "env \<Rightarrow> lstate \<Rightarrow> nat lua" where
  "l_pthread_rwlock_tryrdlock E L =
     lbind (checkcookie L 1 PTHREAD_RWLOCK_METATABLE) (\<lambda>lockp.
     lbind (objcall_rc E KRwlock lockp ''pthread_rwlock_tryrdlock'' []) (\<lambda>error.
     if error \<noteq> 0 then fail E L error else success L))"

definition l_pthread_rwlock_trywrlock :: "env \<Rightarrow> lstate \<Rightarrow> nat lua" where
  "l_pthread_rwlock_trywrlock E L =
     lbind (checkcookie L 1 PTHREAD_RWLOCK_METATABLE) (\<lambda>lockp.
     lbind (objcall_rc E KRwlock lockp ''pthread_rwlock_trywrlock'' []) (\<lambda>error.
     if error \<noteq> 0 then fail E L error else success L))"

definition l_pthread_rwlock_unlock :: "env \<Rightarrow> lstate \<Rightarrow> nat lua" where
  "l_pthread_rwlock_unlock E L =
     lbind (checkcookie L 1 PTHREAD_RWLOCK_METATABLE) (\<lambda>lockp.
     lbind (objcall_rc E KRwlock lockp ''pthread_rwlock_unlock'' []) (\<lambda>error.
     if error \<noteq> 0 then fail E L error else success L))"

definition l_pthread_rwlock_wrlock :: "env \<Rightarrow> lstate \<Rightarrow> nat lua" where
  "l_pthread_rwlock_wrlock E L =
     lbind (checkcookie L 1 PTHREAD_RWLOCK_METATABLE) (\<lambda>lockp.
     lbind (objcall_rc E KRwlock lockp ''pthread_rwlock_wrlock'' []) (\<lambda>error.
     if error \<noteq> 0 then fail E L error else success L))"

section \<open>Thread-specific keys\<close>

text \<open>A call with \<^verbatim>\<open>keyp->key\<close> as its first argument.\<close>

definition keycall :: "env \<Rightarrow> addr \<Rightarrow> string \<Rightarrow> carg list \<Rightarrow> cres lua" where
  "keycall E p f as = lbind (deref KKey p) (\<lambda>ob. case body ob of
      Rckey (Some k) \<Rightarrow> ccall E f (AInt k # as)
    | _ \<Rightarrow> throw Undef)"

definition l_pthread_key_create :: "env \<Rightarrow> lstate \<Rightarrow> nat lua" where
  "l_pthread_key_create E L =
     lbind (lua_type L 1) (\<lambda>t.
     lbind (if t = LUA_TLIGHTUSERDATA then lua_tolight L 1 else ret 0) (\<lambda>destructor.
     lbind (malloc E (Rckey None)) (\<lambda>keyp.
     if keyp = 0 then fatal E L ''malloc'' (const E ''ENOMEM'')
     else
       lbind (ccall E ''pthread_key_create'' [APtr keyp, APtr destructor]) (\<lambda>r.
       if rc r \<noteq> 0 then
         seq (free keyp)
         (fail E L (rc r))
       else
         seq (store KKey keyp (body_update (\<lambda>_. Rckey (Some (outi r 0)))))
        (seq (refcount_init KKey keyp 1)
         (new L keyp PTHREAD_KEY_METATABLE))))))"

definition l_pthread_key_retain :: "env \<Rightarrow> lstate \<Rightarrow> nat lua" where
  "l_pthread_key_retain E L =
     lbind (checklightuserdata L 1) (\<lambda>keyp.
     seq (refcount_retain KKey keyp)
     (new L keyp PTHREAD_KEY_METATABLE))"

definition l_pthread_key_cookie :: "env \<Rightarrow> lstate \<Rightarrow> nat lua" where
  "l_pthread_key_cookie E L =
     seq (checkcookieuv L 1 PTHREAD_KEY_METATABLE)
     (ret 1)"

definition l_pthread_key_gc :: "env \<Rightarrow> lstate \<Rightarrow> nat lua" where
  "l_pthread_key_gc E L =
     lbind (checkcookie L 1 PTHREAD_KEY_METATABLE) (\<lambda>keyp.
     lbind (refcount_release KKey keyp) (\<lambda>last.
     if last then
       lbind (keycall E keyp ''pthread_key_delete'' []) (\<lambda>r.
       seq (free keyp)
       (if rc r \<noteq> 0 then fatal E L ''pthread_key_delete'' (rc r) else ret 0))
     else ret 0))"

definition l_pthread_key_getspecific :: "env \<Rightarrow> lstate \<Rightarrow> nat lua" where
  "l_pthread_key_getspecific E L =
     lbind (checkcookie L 1 PTHREAD_KEY_METATABLE) (\<lambda>keyp.
     lbind (keycall E keyp ''pthread_getspecific'' []) (\<lambda>r.
     seq (lua_pushlightuserdata L (nat (rc r)))
     (ret 1)))"

definition l_pthread_key_setspecific :: "env \<Rightarrow> lstate \<Rightarrow> nat lua" where
  "l_pthread_key_setspecific E L =
     lbind (checkcookie L 1 PTHREAD_KEY_METATABLE) (\<lambda>keyp.
     lbind (checklightuserdata L 2) (\<lambda>value.
     lbind (keycall E keyp ''pthread_setspecific'' [APtr value]) (\<lambda>r.
     if rc r \<noteq> 0 then fail E L (rc r) else success L)))"

section \<open>Barriers\<close>

definition checkbarrierattr :: "env \<Rightarrow> lstate \<Rightarrow> int \<Rightarrow> int lua" where
  "checkbarrierattr E L idx =
     lbind (lua_type L idx) (\<lambda>t. seq (c_assert (t = LUA_TTABLE))
    (numfield E L idx ''pshared'' to_int ''pthread_barrierattr_setpshared''
    (ret 0)))"

definition barrierattr_destroy :: "env \<Rightarrow> lstate \<Rightarrow> unit lua" where
  "barrierattr_destroy E L =
     lbind (ccall_rc E ''pthread_barrierattr_destroy'' []) (\<lambda>error.
     if error \<noteq> 0 then fatal E L ''pthread_barrierattr_destroy'' error else ret ())"

definition l_pthread_barrier_new :: "env \<Rightarrow> lstate \<Rightarrow> nat lua" where
  "l_pthread_barrier_new E L =
     lbind (ccall_rc E ''pthread_barrierattr_init'' []) (\<lambda>error.
     if error \<noteq> 0 then fatal E L ''pthread_barrierattr_init'' error
     else
       lbind (lua_type L 1) (\<lambda>t.
       lbind (if t = LUA_TTABLE then
                lbind (checkbarrierattr E L 1) (\<lambda>error.
                if error \<noteq> 0 then
                  seq (barrierattr_destroy E L)
                  (luaL_argerror L 1 ''invalid attr table'')
                else ret 2)
              else ret 1) (\<lambda>countidx.
       lbind (lua_isinteger L countidx) (\<lambda>isint.
       if \<not> isint then
         seq (barrierattr_destroy E L)
         (luaL_typeerror L 1 ''integer'')
       else
         lbind (lua_tointeger E L countidx) (\<lambda>count.
         lbind (malloc E Rcbarrier) (\<lambda>barrierp.
         if barrierp = 0 then
           seq (barrierattr_destroy E L)
           (fatal E L ''malloc'' (const E ''ENOMEM''))
         else
           lbind (objcall_rc E KBarrier barrierp ''pthread_barrier_init'' [AInt (to_uint count)]) (\<lambda>error.
           lbind (ccall_rc E ''pthread_barrierattr_destroy'' []) (\<lambda>error1.
           if error1 \<noteq> 0 then
             seq (free barrierp)
             (fatal E L ''pthread_barrierattr_destroy'' error1)
           else if error \<noteq> 0 then
             seq (free barrierp)
             (fail E L error)
           else
             seq (refcount_init KBarrier barrierp 1)
             (new L barrierp PTHREAD_BARRIER_METATABLE)))))))))"

definition l_pthread_barrier_retain :: "env \<Rightarrow> lstate \<Rightarrow> nat lua" where
  "l_pthread_barrier_retain E L =
     lbind (checklightuserdata L 1) (\<lambda>barrierp.
     seq (refcount_retain KBarrier barrierp)
     (new L barrierp PTHREAD_BARRIER_METATABLE))"

definition l_pthread_barrier_cookie :: "env \<Rightarrow> lstate \<Rightarrow> nat lua" where
  "l_pthread_barrier_cookie E L =
     seq (checkcookieuv L 1 PTHREAD_BARRIER_METATABLE)
     (ret 1)"

definition l_pthread_barrier_gc :: "env \<Rightarrow> lstate \<Rightarrow> nat lua" where
  "l_pthread_barrier_gc E L =
     lbind (checkcookie L 1 PTHREAD_BARRIER_METATABLE) (\<lambda>barrierp.
     lbind (refcount_release KBarrier barrierp) (\<lambda>last.
     if last then
       lbind (objcall_rc E KBarrier barrierp ''pthread_barrier_destroy'' []) (\<lambda>error.
       seq (free barrierp)
       (if error \<noteq> 0 then fatal E L ''pthread_barrier_destroy'' error else ret 0))
     else ret 0))"

definition l_pthread_barrier_wait :: "env \<Rightarrow> lstate \<Rightarrow> nat lua" where
  "l_pthread_barrier_wait E L =
     lbind (checkcookie L 1 PTHREAD_BARRIER_METATABLE) (\<lambda>barrierp.
     lbind (objcall_rc E KBarrier barrierp ''pthread_barrier_wait'' []) (\<lambda>error.
     if error \<noteq> 0 then
       if error = const E ''PTHREAD_BARRIER_SERIAL_THREAD'' then
         seq (lua_pushinteger L error)
         (ret 1)
       else fail E L error
     else success L))"

text \<open>
  A barrier made with an attribute table takes its count as second argument; a count that is
  not an integer is reported as an error of the first argument.
\<close>

theorem barrier_new_blames_first_argument:
  assumes "stacks w L = Some [LTable t, v]" and "tabs w t = Some tb" and "strs tb ''pshared'' = LNil"
    and "\<not> is_integer (Some v)" and "rc (reply E (trace w) (''pthread_barrierattr_init'', [])) = 0"
    and "\<And>tr. rc (reply E tr (''pthread_barrierattr_destroy'', [])) = 0"
  shows "fst (l_pthread_barrier_new E L w) = Inl (TypeError 1 ''integer'')"
  using assms
  by (simp add: l_pthread_barrier_new_def checkbarrierattr_def numfield_def lua_getfield_def tab_at_def
      barrierattr_destroy_def lua_run)

theorem barrier_new_blames_first_argument_witness:
  "fst (l_pthread_barrier_new env0 1 ((world0 [1 \<mapsto> [LTable 2, LNil]])\<lparr>tabs := [2 \<mapsto> empty_table]\<rparr>)) =
     Inl (TypeError 1 ''integer'')"
  by (rule barrier_new_blames_first_argument [where t = 2 and v = LNil and tb = empty_table])
    (simp_all add: empty_table_def)

end
