(* ===== verification/Pthread_Rendezvous.thy ===== *)
theory Pthread_Rendezvous
  imports Pthread_Sync
begin

text \<open>
  The rendezvous of \<^verbatim>\<open>libpthread/lua_pthread.c\<close>: two threads meet and exchange values. The first
  to come leaves its Lua state in \<^verbatim>\<open>waiter\<close> and waits on the condition variable; the second
  copies values in both directions between the two stacks and wakes it. A blocking wait is
  \<open>block\<close>: whatever the other threads do to the world until the wait returns.
\<close>

section \<open>Definitions\<close>

definition blocking :: "env \<Rightarrow> string \<Rightarrow> carg list \<Rightarrow> int lua" where
  "blocking E f as w = (case block E (f, as) (w\<lparr>trace := (f, as) # trace w\<rparr>) of (r, w') \<Rightarrow> (Inr r, w'))"

definition bad_argument :: "int \<Rightarrow> string" where
  "bad_argument i = ''bad argument #'' @ show_int i @ '' to '' @ quoted ''exchange'' @ '' (non-serializable value)''"

definition other_thread :: string where
  "other_thread = ''other thread attempted invalid '' @ quoted ''exchange''"

definition get_waiter :: "addr \<Rightarrow> lstate option lua" where
  "get_waiter rp = lbind (deref KRendezvous rp) (\<lambda>ob. case body ob of
      Rcrendezvous (Some wt) \<Rightarrow> ret wt
    | _ \<Rightarrow> throw Undef)"

definition set_waiter :: "addr \<Rightarrow> lstate option \<Rightarrow> unit lua" where
  "set_waiter rp wt = store KRendezvous rp (body_update (\<lambda>_. Rcrendezvous (Some wt)))"

definition l_pthread_rendezvous_new :: "env \<Rightarrow> lstate \<Rightarrow> nat lua" where
  "l_pthread_rendezvous_new E L =
     lbind (malloc E (Rcrendezvous None)) (\<lambda>rp.
     if rp = 0 then fatal E L ''malloc'' (const E ''ENOMEM'')
     else
       lbind (objcall_rc E KRendezvous rp ''pthread_mutex_init'' [ANull]) (\<lambda>error.
       if error \<noteq> 0 then
         seq (free rp)
         (fatal E L ''pthread_mutex_init'' error)
       else
         lbind (objcall_rc E KRendezvous rp ''pthread_cond_init'' [ANull]) (\<lambda>error.
         if error \<noteq> 0 then
           seq (objcall_rc E KRendezvous rp ''pthread_mutex_destroy'' [])
          (seq (free rp)
           (fatal E L ''pthread_cond_init'' error))
         else
           seq (set_waiter rp None)
          (seq (refcount_init KRendezvous rp 1)
           (new L rp PTHREAD_RENDEZVOUS_METATABLE)))))"

definition l_pthread_rendezvous_retain :: "env \<Rightarrow> lstate \<Rightarrow> nat lua" where
  "l_pthread_rendezvous_retain E L =
     lbind (checklightuserdata L 1) (\<lambda>rp.
     seq (refcount_retain KRendezvous rp)
     (new L rp PTHREAD_RENDEZVOUS_METATABLE))"

definition l_pthread_rendezvous_gc :: "env \<Rightarrow> lstate \<Rightarrow> nat lua" where
  "l_pthread_rendezvous_gc E L =
     lbind (checkcookie L 1 PTHREAD_RENDEZVOUS_METATABLE) (\<lambda>rp.
     lbind (refcount_release KRendezvous rp) (\<lambda>last.
     if last then
       lbind (objcall_rc E KRendezvous rp ''pthread_cond_destroy'' []) (\<lambda>error1.
       lbind (objcall_rc E KRendezvous rp ''pthread_mutex_destroy'' []) (\<lambda>error2.
       seq (free rp)
       (if error1 \<noteq> 0 then fatal E L ''pthread_cond_destroy'' error1
        else if error2 \<noteq> 0 then fatal E L ''pthread_mutex_destroy'' error2
        else ret 0)))
     else ret 0))"

definition l_pthread_rendezvous_cookie :: "env \<Rightarrow> lstate \<Rightarrow> nat lua" where
  "l_pthread_rendezvous_cookie E L =
     seq (checkcookieuv L 1 PTHREAD_RENDEZVOUS_METATABLE)
     (ret 1)"

definition exchange :: "env \<Rightarrow> lstate \<Rightarrow> lstate \<Rightarrow> int \<Rightarrow> nat \<Rightarrow> int lua" where
  "exchange E L l idx narg =
     lbind (lua_tointeger E l (-1)) (\<lambda>i.
     let nres = to_int i in
     seq (lua_pop l 1)
    (lbind (lua_gettop l) (\<lambda>top.
     lbind (copyn (cdepth E) E l L (int top - nres + 1) (nat nres)) (\<lambda>error.
     if error \<noteq> 0 then
       seq (lua_pushstring l (bad_argument (error - 1)))
      (seq (lua_pushinteger l (-1))
      (seq (lua_pushstring L other_thread)
       (ret (-1))))
     else
       lbind (copyn (cdepth E) E L l idx narg) (\<lambda>error.
       if error \<noteq> 0 then
         seq (lua_pushstring l other_thread)
        (seq (lua_pushinteger l (-1))
        (seq (lua_pushstring L (bad_argument (error - 1)))
         (ret (-1))))
       else
         seq (lua_pushinteger l (int narg))
         (ret nres))))))"

text \<open>
  The body of the critical section when another thread waits already, and when none does:
  the latter up to the wait, and after it with the error \<open>error\<close>.
\<close>

definition exchange_second :: "env \<Rightarrow> lstate \<Rightarrow> addr \<Rightarrow> lstate \<Rightarrow> int \<Rightarrow> nat \<Rightarrow> int lua" where
  "exchange_second E L rp l idx narg =
     lbind (exchange E L l idx narg) (\<lambda>nres.
     seq (set_waiter rp None)
    (lbind (objcall_rc E KRendezvous rp ''pthread_cond_signal'' []) (\<lambda>error.
     if error \<noteq> 0 then
       seq (lua_pushstring L (''pthread_cond_signal: '' @ strerror E error))
       (ret (-1))
     else ret nres)))"

definition exchange_first :: "lstate \<Rightarrow> addr \<Rightarrow> nat \<Rightarrow> unit lua" where
  "exchange_first L rp narg =
     seq (lua_pushinteger L (int narg))
     (set_waiter rp (Some L))"

definition exchange_woken :: "env \<Rightarrow> lstate \<Rightarrow> addr \<Rightarrow> int \<Rightarrow> int lua" where
  "exchange_woken E L rp error =
     (if error = 0 then
        lbind (lua_tointeger E L (-1)) (\<lambda>nres.
        seq (lua_pop L 1)
        (ret (to_int nres)))
      else
        seq (set_waiter rp None)
       (seq (lua_pushstring L (''pthread_cond_wait: '' @ strerror E error))
        (ret (-1))))"

definition l_pthread_rendezvous_exchange :: "env \<Rightarrow> lstate \<Rightarrow> nat lua" where
  "l_pthread_rendezvous_exchange E L =
     lbind (lua_gettop L) (\<lambda>top.
     let narg = top - 1 in
     lbind (checkcookie L 1 PTHREAD_RENDEZVOUS_METATABLE) (\<lambda>rp.
     lbind (objcall_rc E KRendezvous rp ''pthread_mutex_lock'' []) (\<lambda>error.
     if error \<noteq> 0 then fatal E L ''pthread_mutex_lock'' error
     else
       lbind (get_waiter rp) (\<lambda>waiter.
       lbind (case waiter of
           None \<Rightarrow>
             seq (exchange_first L rp narg)
            (lbind (blocking E ''pthread_cond_wait'' [APtr rp]) (\<lambda>error.
             exchange_woken E L rp error))
         | Some l \<Rightarrow> exchange_second E L rp l 2 narg) (\<lambda>nres.
       lbind (objcall_rc E KRendezvous rp ''pthread_mutex_unlock'' []) (\<lambda>error.
       if error \<noteq> 0 then fatal E L ''pthread_mutex_unlock'' error
       else if nres < 0 then lua_error L
       else ret (nat nres)))))))"

definition exchange_timed_woken :: "env \<Rightarrow> lstate \<Rightarrow> addr \<Rightarrow> int \<Rightarrow> int lua" where
  "exchange_timed_woken E L rp error =
     (if error = 0 then
        lbind (lua_tointeger E L (-1)) (\<lambda>nres.
        seq (lua_pop L 1)
        (ret (to_int nres)))
      else
        seq (set_waiter rp None)
        (if error = const E ''ETIMEDOUT'' then ret (-2)
         else
           seq (lua_pushstring L (''pthread_cond_wait: '' @ strerror E error))
           (ret (-1))))"

definition l_pthread_rendezvous_timedexchange :: "env \<Rightarrow> lstate \<Rightarrow> nat lua" where
  "l_pthread_rendezvous_timedexchange E L =
     lbind (lua_gettop L) (\<lambda>top.
     let narg = top - 3 in
     lbind (checkcookie L 1 PTHREAD_RENDEZVOUS_METATABLE) (\<lambda>rp.
     lbind (luaL_checkinteger E L 2) (\<lambda>tv_sec.
     lbind (luaL_checkinteger E L 3) (\<lambda>tv_nsec.
     lbind (objcall_rc E KRendezvous rp ''pthread_mutex_timedlock'' [AInt tv_sec, AInt tv_nsec]) (\<lambda>error.
     if error \<noteq> 0 then
       if error = const E ''ETIMEDOUT'' then
         seq (lua_pushboolean L False)
         (ret 1)
       else fatal E L ''pthread_mutex_lock'' error
     else
       lbind (get_waiter rp) (\<lambda>waiter.
       lbind (case waiter of
           None \<Rightarrow>
             seq (exchange_first L rp narg)
            (lbind (blocking E ''pthread_cond_timedwait'' [APtr rp, AInt tv_sec, AInt tv_nsec]) (\<lambda>error.
             exchange_timed_woken E L rp error))
         | Some l \<Rightarrow> exchange_second E L rp l 4 narg) (\<lambda>nres.
       lbind (objcall_rc E KRendezvous rp ''pthread_mutex_unlock'' []) (\<lambda>error.
       if error \<noteq> 0 then fatal E L ''pthread_mutex_unlock'' error
       else if nres = -1 then lua_error L
       else if nres = -2 then
         seq (lua_pushboolean L False)
         (ret 1)
       else
         seq (lua_pushboolean L True)
        (lbind (lua_gettop L) (\<lambda>top.
         seq (lua_insert L (int top - (nres + 1)))
         (ret (nat (nres + 1)))))))))))))"

section \<open>Meeting\<close>

text \<open>The calls on the mutex and the condition variable of the rendezvous succeed.\<close>

definition sync_ok :: "env \<Rightarrow> addr \<Rightarrow> bool" where
  "sync_ok E rp \<longleftrightarrow> (\<forall>tr. rc (reply E tr (''pthread_mutex_lock'', [APtr rp])) = 0
     \<and> rc (reply E tr (''pthread_mutex_unlock'', [APtr rp])) = 0
     \<and> rc (reply E tr (''pthread_cond_signal'', [APtr rp])) = 0)"

text \<open>\<open>rendezvous_at w rp wt\<close>: a live rendezvous whose waiter is \<open>wt\<close>.\<close>

definition rendezvous_at :: "world \<Rightarrow> addr \<Rightarrow> lstate option \<Rightarrow> bool" where
  "rendezvous_at w rp wt \<longleftrightarrow> (\<exists>ob. mem w rp = Some ob \<and> body ob = Rcrendezvous (Some wt))"

lemma get_waiter_run [lua_run]: "rendezvous_at w rp wt \<Longrightarrow> get_waiter rp w = (Inr wt, w)"
  by (auto simp: rendezvous_at_def get_waiter_def lua_run)

lemma rendezvous_set [simp]:
  "rendezvous_at (w\<lparr>mem := (mem w)(rp \<mapsto> ob\<lparr>body := Rcrendezvous (Some wt)\<rparr>)\<rparr>) rp wt"
  by (simp add: rendezvous_at_def)

lemma rendezvous_at_cong: "mem w' rp = mem w rp \<Longrightarrow> rendezvous_at w' rp wt = rendezvous_at w rp wt"
  by (simp add: rendezvous_at_def)

lemma set_waiter_run [lua_run]:
  "rendezvous_at w rp wt0 \<Longrightarrow> set_waiter rp wt w =
     (Inr (), w\<lparr>mem := (mem w)(rp \<mapsto> (the (mem w rp))\<lparr>body := Rcrendezvous (Some wt)\<rparr>)\<rparr>)"
  by (auto simp: rendezvous_at_def set_waiter_def lua_run)

lemma objcall_rendezvous_run [lua_run]:
  "rendezvous_at w rp wt \<Longrightarrow> objcall_rc E KRendezvous rp f as w =
     (Inr (rc (reply E (trace w) (f, APtr rp # as))), w\<lparr>trace := (f, APtr rp # as) # trace w\<rparr>)"
  by (auto simp: rendezvous_at_def lua_run)

text \<open>The values change places.\<close>

lemma exchange_run:
  assumes "L \<noteq> l" and "stacks w L = Some (B @ ys)"
    and "stacks w l = Some (A @ xs @ [LInteger (int (length xs))])" and "length xs < 2 ^ 31"
    and "list_all plain xs" and "list_all plain ys" and "0 < cdepth E"
  shows "exchange E L l (1 + int (length B)) (length ys) w = (Inr (int (length xs)),
           setst l (A @ xs @ ys @ [LInteger (int (length ys))]) (setst L (B @ ys @ xs) w))"
proof -
  let ?w1 = "setst l (A @ xs) w"
  have c1: "copyn (cdepth E) E l L (1 + int (length A)) (length xs) ?w1 =
      (Inr 0, setst L ((B @ ys) @ xs) ?w1)"
    by (rule copyn_plain_run [where B = "[]"]) (use assms in auto)
  have c2: "copyn (cdepth E) E L l (1 + int (length B)) (length ys) (setst L ((B @ ys) @ xs) ?w1) =
      (Inr 0, setst l ((A @ xs) @ ys) (setst L ((B @ ys) @ xs) ?w1))"
    by (rule copyn_plain_run [where B = xs]) (use assms in auto)
  have "to_int (int (length xs)) = int (length xs)"
    using assms(4) by (simp add: to_int_id)
  with assms(1-3) c1 c2 show ?thesis
    by (simp add: exchange_def lua_run add.commute)
qed

text \<open>The values a C function hands to its caller: the topmost ones, as many as it returned.\<close>

definition results :: "lval list \<Rightarrow> nat \<Rightarrow> lval list" where
  "results s n = drop (length s - n) s"

lemma results_append [simp]: "results (s @ t) (length t) = t" "results (v # s @ t) (length t) = t"
  by (simp_all add: results_def)

text \<open>The rendezvous after a meeting: nobody waits.\<close>

definition met :: "addr \<Rightarrow> ecall list \<Rightarrow> world \<Rightarrow> world" where
  "met rp calls w = w\<lparr>mem := (mem w)(rp \<mapsto> (the (mem w rp))\<lparr>body := Rcrendezvous (Some None)\<rparr>),
                    trace := calls @ trace w\<rparr>"

lemma met_sel [simp]:
  "stacks (met rp c w) = stacks w" "uds (met rp c w) = uds w" "trace (met rp c w) = c @ trace w"
  "tabs (met rp c w) = tabs w" "clos (met rp c w) = clos w" "fresh (met rp c w) = fresh w"
  "rendezvous_at (met rp c w) rp None"
  by (simp_all add: met_def rendezvous_at_def)

lemma cookie_at_wrapper:
  "at s i = Some (LUserdata u) \<Longrightarrow> uds w u = Some (wrapper m p) \<Longrightarrow> p \<noteq> 0 \<Longrightarrow> cookie_at w s i m = Inr p"
  by (simp add: cookie_at_def ud_at_def)

lemma rendezvous_at_upd [simp]:
  "rendezvous_at (setst L s w) rp wt = rendezvous_at w rp wt"
  "rendezvous_at (w\<lparr>trace := t\<rparr>) rp wt = rendezvous_at w rp wt"
  by (simp_all add: rendezvous_at_def)

lemma exchange_second_run:
  assumes "L \<noteq> l" and "stacks w L = Some (B @ ys)"
    and "stacks w l = Some (A @ xs @ [LInteger (int (length xs))])" and "length xs < 2 ^ 31"
    and "list_all plain xs" and "list_all plain ys" and "0 < cdepth E"
    and "rendezvous_at w rp (Some l)" and "sync_ok E rp"
  shows "exchange_second E L rp l (1 + int (length B)) (length ys) w = (Inr (int (length xs)),
           setst l (A @ xs @ ys @ [LInteger (int (length ys))]) (setst L (B @ ys @ xs)
             (met rp [(''pthread_cond_signal'', [APtr rp])] w)))"
  using exchange_run [OF assms(1-7)] assms(8,9)
  by (simp add: exchange_second_def lua_run sync_ok_def met_def)

lemma rendezvous_second:
  assumes "L \<noteq> l" and "stacks w L = Some (LUserdata u # ys)"
    and "uds w u = Some (wrapper PTHREAD_RENDEZVOUS_METATABLE rp)" and "rp \<noteq> 0"
    and "stacks w l = Some (A @ xs @ [LInteger (int (length xs))])" and "length xs < 2 ^ 31"
    and "list_all plain xs" and "list_all plain ys" and "0 < cdepth E"
    and "rendezvous_at w rp (Some l)" and "sync_ok E rp"
  shows "l_pthread_rendezvous_exchange E L w = (Inr (length xs),
           setst l (A @ xs @ ys @ [LInteger (int (length ys))]) (setst L (LUserdata u # ys @ xs)
             (met rp [(''pthread_mutex_unlock'', [APtr rp]), (''pthread_cond_signal'', [APtr rp]),
                      (''pthread_mutex_lock'', [APtr rp])] w)))"
proof -
  let ?w = "w\<lparr>trace := (''pthread_mutex_lock'', [APtr rp]) # trace w\<rparr>"
  have ex: "exchange_second E L rp l 2 (length ys) ?w = (Inr (int (length xs)),
           setst l (A @ xs @ ys @ [LInteger (int (length ys))]) (setst L (LUserdata u # ys @ xs)
             (met rp [(''pthread_cond_signal'', [APtr rp])] ?w)))"
    using exchange_second_run [where B = "[LUserdata u]" and w = ?w and xs = xs and ys = ys]
      assms by simp
  have ck: "cookie_at w (LUserdata u # ys) 1 PTHREAD_RENDEZVOUS_METATABLE = Inr rp"
    using assms(3,4) by (simp add: cookie_at_wrapper)
  show ?thesis
    using assms(2,10,11) ck ex
    by (simp add: l_pthread_rendezvous_exchange_def lua_run sync_ok_def met_def)
qed

text \<open>
  The world in which the first to come is blocked: it holds no lock, the number of its values
  is on top of its stack \<open>s\<close> and its state is in the rendezvous.
\<close>

definition waiting :: "lstate \<Rightarrow> addr \<Rightarrow> lval list \<Rightarrow> nat \<Rightarrow> ecall list \<Rightarrow> world \<Rightarrow> world" where
  "waiting L rp s narg calls w = setst L (s @ [LInteger (int narg)])
     (w\<lparr>mem := (mem w)(rp \<mapsto> (the (mem w rp))\<lparr>body := Rcrendezvous (Some (Some L))\<rparr>),
        trace := calls @ trace w\<rparr>)"

lemma waiting_sel [simp]:
  "stacks (waiting L rp s n c w) = (stacks w)(L \<mapsto> s @ [LInteger (int n)])"
  "uds (waiting L rp s n c w) = uds w" "trace (waiting L rp s n c w) = c @ trace w"
  "rendezvous_at (waiting L rp s n c w) rp (Some L)"
  by (simp_all add: waiting_def rendezvous_at_def)

lemma rendezvous_first:
  assumes "stacks w L = Some (LUserdata u # xs)"
    and "uds w u = Some (wrapper PTHREAD_RENDEZVOUS_METATABLE rp)" and "rp \<noteq> 0"
    and "rendezvous_at w rp None" and "sync_ok E rp"
    and "block E (''pthread_cond_wait'', [APtr rp]) (waiting L rp (LUserdata u # xs) (length xs)
           [(''pthread_cond_wait'', [APtr rp]), (''pthread_mutex_lock'', [APtr rp])] w) = (0, w1)"
    and "stacks w1 L = Some (s @ [LInteger n])" and "n < 2 ^ 31" and "0 \<le> n"
    and "rendezvous_at w1 rp wt"
  shows "l_pthread_rendezvous_exchange E L w = (Inr (nat n),
           setst L s (w1\<lparr>trace := (''pthread_mutex_unlock'', [APtr rp]) # trace w1\<rparr>))"
proof -
  have ck: "cookie_at w (LUserdata u # xs) 1 PTHREAD_RENDEZVOUS_METATABLE = Inr rp"
    using assms(2,3) by (simp add: cookie_at_wrapper)
  have "to_int n = n" using assms(8,9) by (simp add: to_int_id)
  then show ?thesis
    using assms(1,4-7,9,10) ck
    by (simp add: l_pthread_rendezvous_exchange_def exchange_first_def exchange_woken_def blocking_def
        waiting_def lua_run sync_ok_def)
qed

text \<open>
  C5. Two threads that meet at a rendezvous exchange their values: while the first to come is
  blocked, the second calls \<^verbatim>\<open>exchange\<close>; the first returns the second's values, the second the
  first's, in order; afterwards nobody waits, and each has locked and unlocked the mutex once.
\<close>

theorem exchange_meets:
  assumes "L1 \<noteq> L2"
    and "stacks w L1 = Some (LUserdata u1 # xs)" and "stacks w L2 = Some (LUserdata u2 # ys)"
    and "uds w u1 = Some (wrapper PTHREAD_RENDEZVOUS_METATABLE rp)"
    and "uds w u2 = Some (wrapper PTHREAD_RENDEZVOUS_METATABLE rp)" and "rp \<noteq> 0"
    and "rendezvous_at w rp None"
    and "list_all plain xs" and "length xs < 2 ^ 31" and "list_all plain ys" and "length ys < 2 ^ 31"
    and "sync_ok E1 rp" and "sync_ok E2 rp" and "0 < cdepth E2"
    and v: "v = waiting L1 rp (LUserdata u1 # xs) (length xs)
              [(''pthread_cond_wait'', [APtr rp]), (''pthread_mutex_lock'', [APtr rp])] w"
    and block: "block E1 (''pthread_cond_wait'', [APtr rp]) v =
              (0, snd (l_pthread_rendezvous_exchange E2 L2 v))"
  shows "fst (l_pthread_rendezvous_exchange E2 L2 v) = Inr (length xs)
       \<and> (\<exists>w1 s1 s2. l_pthread_rendezvous_exchange E1 L1 w = (Inr (length ys), w1)
           \<and> stacks w1 L1 = Some s1 \<and> results s1 (length ys) = ys
           \<and> stacks w1 L2 = Some s2 \<and> results s2 (length xs) = xs
           \<and> rendezvous_at w1 rp None
           \<and> trace w1 = map (\<lambda>f. (f, [APtr rp]))
               [''pthread_mutex_unlock'', ''pthread_mutex_unlock'', ''pthread_cond_signal'',
                ''pthread_mutex_lock'', ''pthread_cond_wait'', ''pthread_mutex_lock''] @ trace w)"
proof -
  let ?w = "setst L1 ((LUserdata u1 # xs @ ys) @ [LInteger (int (length ys))])
      (setst L2 (LUserdata u2 # ys @ xs)
        (met rp [(''pthread_mutex_unlock'', [APtr rp]), (''pthread_cond_signal'', [APtr rp]),
                 (''pthread_mutex_lock'', [APtr rp])] v))"
  have second: "l_pthread_rendezvous_exchange E2 L2 v = (Inr (length xs), ?w)"
    using rendezvous_second [where w = v and L = L2 and l = L1 and A = "[LUserdata u1]" and xs = xs
        and ys = ys and u = u2 and E = E2 and rp = rp] assms
    by simp
  have first: "l_pthread_rendezvous_exchange E1 L1 w = (Inr (nat (int (length ys))),
      setst L1 (LUserdata u1 # xs @ ys) (?w\<lparr>trace := (''pthread_mutex_unlock'', [APtr rp]) # trace ?w\<rparr>))"
    using block second unfolding v
    by (intro rendezvous_first [where wt = None]) (use assms(2,4,6,7,11,12) in simp_all)
  have "results (LUserdata u1 # xs @ ys) (length ys) = ys"
    using results_append(1) [of "LUserdata u1 # xs" ys] by simp
  moreover have "results (LUserdata u2 # ys @ xs) (length xs) = xs"
    using results_append(1) [of "LUserdata u2 # ys" xs] by simp
  ultimately show ?thesis
    using assms(1) first second v by simp
qed

text \<open>Two states with wrappers of one rendezvous, and values to exchange.\<close>

definition rendezvous_world :: "lval list \<Rightarrow> lval list \<Rightarrow> world" where
  "rendezvous_world xs ys = (world0 [1 \<mapsto> LUserdata 3 # xs, 2 \<mapsto> LUserdata 4 # ys])
     \<lparr>uds := [3 \<mapsto> wrapper PTHREAD_RENDEZVOUS_METATABLE 5, 4 \<mapsto> wrapper PTHREAD_RENDEZVOUS_METATABLE 5],
      mem := [5 \<mapsto> \<lparr>body = Rcrendezvous (Some None), refs = Some 2\<rparr>]\<rparr>"

lemma rendezvous_world_sel [simp]:
  "stacks (rendezvous_world xs ys) = [1 \<mapsto> LUserdata 3 # xs, 2 \<mapsto> LUserdata 4 # ys]"
  "uds (rendezvous_world xs ys) = [3 \<mapsto> wrapper PTHREAD_RENDEZVOUS_METATABLE 5, 4 \<mapsto> wrapper PTHREAD_RENDEZVOUS_METATABLE 5]"
  "rendezvous_at (rendezvous_world xs ys) 5 None" "trace (rendezvous_world xs ys) = []"
  by (simp_all add: rendezvous_world_def rendezvous_at_def)

text \<open>While the first thread is blocked, the second one calls \<^verbatim>\<open>exchange\<close> in state 2.\<close>

definition partner_env :: env where
  "partner_env = env0\<lparr>block := (\<lambda>_ v. (0, snd (l_pthread_rendezvous_exchange env0 2 v)))\<rparr>"

lemma sync_ok_env0: "sync_ok env0 5" "sync_ok partner_env 5"
  by (simp_all add: sync_ok_def partner_env_def)

definition met_at :: "lval list \<Rightarrow> lval list \<Rightarrow> world" where
  "met_at xs ys = waiting 1 5 (LUserdata 3 # xs) (length xs)
     [(''pthread_cond_wait'', [APtr 5]), (''pthread_mutex_lock'', [APtr 5])] (rendezvous_world xs ys)"

theorem exchange_meets_witness:
  "fst (l_pthread_rendezvous_exchange env0 2 (met_at [LInteger 6] [LString ''y'', LNil])) = Inr (length [LInteger 6])
   \<and> (\<exists>w1 s1 s2. l_pthread_rendezvous_exchange partner_env 1 (rendezvous_world [LInteger 6] [LString ''y'', LNil])
             = (Inr (length [LString ''y'', LNil]), w1)
           \<and> stacks w1 1 = Some s1 \<and> results s1 (length [LString ''y'', LNil]) = [LString ''y'', LNil]
           \<and> stacks w1 2 = Some s2 \<and> results s2 (length [LInteger 6]) = [LInteger 6]
           \<and> rendezvous_at w1 5 None
           \<and> trace w1 = map (\<lambda>f. (f, [APtr 5]))
               [''pthread_mutex_unlock'', ''pthread_mutex_unlock'', ''pthread_cond_signal'',
                ''pthread_mutex_lock'', ''pthread_cond_wait'', ''pthread_mutex_lock'']
               @ trace (rendezvous_world [LInteger 6] [LString ''y'', LNil]))"
  by (rule exchange_meets [where ?u1.0 = 3 and ?u2.0 = 4, OF _ _ _ _ _ _ _ _ _ _ _ sync_ok_env0(2,1) _ met_at_def])
    (simp_all add: partner_env_def)

section \<open>Values that cannot be copied\<close>

text \<open>
  The second thread's own argument is refused: its stack gets the complaint, the waiter's
  the news that its partner failed, with the count \<open>-1\<close> on top.
\<close>

lemma exchange_own_refused:
  assumes "L \<noteq> l" and "stacks w L = Some (B @ us @ v # vs)"
    and "stacks w l = Some (A @ xs @ [LInteger (int (length xs))])" and "length xs < 2 ^ 31"
    and "list_all plain xs" and "list_all plain us" and "opaque v" and "0 < cdepth E"
  shows "exchange E L l (1 + int (length B)) (length (us @ v # vs)) w = (Inr (-1),
           setst l ((A @ xs @ us @ [LString other_thread]) @ [LInteger (-1)])
             (setst L (B @ us @ v # vs @ xs @ [LString (bad_argument (int (length B + length us)))]) w))"
proof -
  let ?w1 = "setst l (A @ xs) w" and ?sL = "(B @ us @ v # vs) @ xs"
  have c1: "copyn (cdepth E) E l L (1 + int (length A)) (length xs) ?w1 = (Inr 0, setst L ?sL ?w1)"
    by (rule copyn_plain_run [where B = "[]"]) (use assms in auto)
  have c2: "copyn (cdepth E) E L l (1 + int (length B)) (length (us @ v # vs)) (setst L ?sL ?w1) =
      (Inr (1 + int (length B + length us)), setst l ((A @ xs) @ us) (setst L ?sL ?w1))"
    by (rule copyn_opaque_run [where B = "vs @ xs"]) (use assms in auto)
  have "to_int (int (length xs)) = int (length xs)"
    using assms(4) by (simp add: to_int_id)
  with assms(1-3) c1 c2 show ?thesis
    by (simp add: exchange_def lua_run add.commute setst_swap [of L l])
qed

lemma exchange_waiter_refused:
  assumes "L \<noteq> l" and "stacks w L = Some B"
    and "stacks w l = Some (A @ (us @ v # vs) @ [LInteger (int (length (us @ v # vs)))])"
    and "length (us @ v # vs) < 2 ^ 31"
    and "list_all plain us" and "opaque v" and "0 < cdepth E"
  shows "exchange E L l idx n w = (Inr (-1),
           setst l ((A @ us @ v # vs @ [LString (bad_argument (int (length A + length us)))]) @ [LInteger (-1)])
             (setst L (B @ us @ [LString other_thread]) w))"
proof -
  let ?w1 = "setst l (A @ us @ v # vs) w"
  have c1: "copyn (cdepth E) E l L (1 + int (length A)) (length (us @ v # vs)) ?w1 =
      (Inr (1 + int (length A + length us)), setst L (B @ us) ?w1)"
    by (rule copyn_opaque_run [where B = vs]) (use assms in auto)
  have "to_int (int (length (us @ v # vs))) = int (length (us @ v # vs))"
    by (rule to_int_id) (use assms(4) in simp_all)
  with assms(1-3) c1 show ?thesis
    by (simp add: exchange_def lua_run add.commute nat_add_distrib setst_swap [of L l])
qed

text \<open>Both sides of a failed meeting release the lock and raise the message on top of their stack.\<close>

lemma rendezvous_second_error:
  assumes "stacks w L = Some (LUserdata u # ys)"
    and "uds w u = Some (wrapper PTHREAD_RENDEZVOUS_METATABLE rp)" and "rp \<noteq> 0"
    and "rendezvous_at w rp (Some l)" and "sync_ok E rp" and "L \<noteq> l"
    and "\<And>t. exchange E L l 2 (length ys) (w\<lparr>trace := t\<rparr>) =
           (Inr (-1), setst l s1 (setst L (s2 @ [m]) (w\<lparr>trace := t\<rparr>)))"
  shows "l_pthread_rendezvous_exchange E L w = (Inl (ErrValue m), setst l s1 (setst L (s2 @ [m])
           (met rp [(''pthread_mutex_unlock'', [APtr rp]), (''pthread_cond_signal'', [APtr rp]),
                    (''pthread_mutex_lock'', [APtr rp])] w)))"
proof -
  have "cookie_at w (LUserdata u # ys) 1 PTHREAD_RENDEZVOUS_METATABLE = Inr rp"
    using assms(2,3) by (simp add: cookie_at_wrapper)
  with assms(1,4-7) show ?thesis
    by (simp add: l_pthread_rendezvous_exchange_def exchange_second_def lua_error_def lua_run
        sync_ok_def met_def)
qed

lemma rendezvous_first_error:
  assumes "stacks w L = Some (LUserdata u # xs)"
    and "uds w u = Some (wrapper PTHREAD_RENDEZVOUS_METATABLE rp)" and "rp \<noteq> 0"
    and "rendezvous_at w rp None" and "sync_ok E rp"
    and "block E (''pthread_cond_wait'', [APtr rp]) (waiting L rp (LUserdata u # xs) (length xs)
           [(''pthread_cond_wait'', [APtr rp]), (''pthread_mutex_lock'', [APtr rp])] w) = (0, w1)"
    and "stacks w1 L = Some ((s @ [m]) @ [LInteger (-1)])"
    and "rendezvous_at w1 rp wt"
  shows "l_pthread_rendezvous_exchange E L w = (Inl (ErrValue m),
           setst L (s @ [m]) (w1\<lparr>trace := (''pthread_mutex_unlock'', [APtr rp]) # trace w1\<rparr>))"
proof -
  have ck: "cookie_at w (LUserdata u # xs) 1 PTHREAD_RENDEZVOUS_METATABLE = Inr rp"
    using assms(2,3) by (simp add: cookie_at_wrapper)
  have "to_int (-1) = -1" by (simp add: to_int_id)
  then show ?thesis
    using assms(1,4-8) ck
    by (simp add: l_pthread_rendezvous_exchange_def exchange_first_def exchange_woken_def blocking_def
        lua_error_def waiting_def lua_run sync_ok_def)
qed

text \<open>
  If the second thread offers a table, a userdata or a coroutine, both threads get an error: the
  second one names the position of that argument, the first one is told that its partner failed.
  The rendezvous is left empty and unlocked.
\<close>

theorem exchange_refused:
  assumes "L1 \<noteq> L2"
    and "stacks w L1 = Some (LUserdata u1 # xs)" and "stacks w L2 = Some (LUserdata u2 # us @ v # vs)"
    and "uds w u1 = Some (wrapper PTHREAD_RENDEZVOUS_METATABLE rp)"
    and "uds w u2 = Some (wrapper PTHREAD_RENDEZVOUS_METATABLE rp)" and "rp \<noteq> 0"
    and "rendezvous_at w rp None"
    and "list_all plain xs" and "length xs < 2 ^ 31" and "list_all plain us" and "opaque v"
    and "sync_ok E1 rp" and "sync_ok E2 rp" and "0 < cdepth E2"
    and v: "w0 = waiting L1 rp (LUserdata u1 # xs) (length xs)
              [(''pthread_cond_wait'', [APtr rp]), (''pthread_mutex_lock'', [APtr rp])] w"
    and block: "block E1 (''pthread_cond_wait'', [APtr rp]) w0 =
              (0, snd (l_pthread_rendezvous_exchange E2 L2 w0))"
  shows "fst (l_pthread_rendezvous_exchange E2 L2 w0) =
           Inl (ErrValue (LString (bad_argument (int (length us) + 1))))
       \<and> (\<exists>w1. l_pthread_rendezvous_exchange E1 L1 w = (Inl (ErrValue (LString other_thread)), w1)
           \<and> rendezvous_at w1 rp None
           \<and> trace w1 = map (\<lambda>f. (f, [APtr rp]))
               [''pthread_mutex_unlock'', ''pthread_mutex_unlock'', ''pthread_cond_signal'',
                ''pthread_mutex_lock'', ''pthread_cond_wait'', ''pthread_mutex_lock''] @ trace w)"
proof -
  let ?s1 = "((LUserdata u1 # xs @ us) @ [LString other_thread]) @ [LInteger (-1)]"
  let ?m = "LString (bad_argument (int (length us) + 1))"
  let ?w = "setst L1 ?s1 (setst L2 ((LUserdata u2 # us @ v # vs @ xs) @ [?m])
      (met rp [(''pthread_mutex_unlock'', [APtr rp]), (''pthread_cond_signal'', [APtr rp]),
                 (''pthread_mutex_lock'', [APtr rp])] w0))"
  have ex: "exchange E2 L2 L1 2 (length (us @ v # vs)) (w0\<lparr>trace := t\<rparr>) = (Inr (-1),
      setst L1 ?s1 (setst L2 ((LUserdata u2 # us @ v # vs @ xs) @ [?m]) (w0\<lparr>trace := t\<rparr>)))" for t
    using exchange_own_refused [where L = L2 and l = L1 and w = "w0\<lparr>trace := t\<rparr>" and A = "[LUserdata u1]"
        and B = "[LUserdata u2]" and us = us and v = v and vs = vs and xs = xs and E = E2] assms
    by (simp add: add.commute)
  have second: "l_pthread_rendezvous_exchange E2 L2 w0 = (Inl (ErrValue ?m), ?w)"
    by (rule rendezvous_second_error [where ys = "us @ v # vs" and u = u2]) (use assms ex in simp_all)
  have "l_pthread_rendezvous_exchange E1 L1 w = (Inl (ErrValue (LString other_thread)),
      setst L1 ((LUserdata u1 # xs @ us) @ [LString other_thread])
        (?w\<lparr>trace := (''pthread_mutex_unlock'', [APtr rp]) # trace ?w\<rparr>))"
    using block second unfolding v
    by (intro rendezvous_first_error [where wt = None]) (use assms(2,4,6,7,12) in simp_all)
  then show ?thesis
    using assms(1) second v by simp
qed

theorem exchange_refused_witness:
  "fst (l_pthread_rendezvous_exchange env0 2 (met_at [LInteger 6] ([LNil] @ LTable 8 # []))) =
     Inl (ErrValue (LString (bad_argument (int (length [LNil]) + 1))))
   \<and> (\<exists>w1. l_pthread_rendezvous_exchange partner_env 1 (rendezvous_world [LInteger 6] ([LNil] @ LTable 8 # []))
             = (Inl (ErrValue (LString other_thread)), w1)
           \<and> rendezvous_at w1 5 None
           \<and> trace w1 = map (\<lambda>f. (f, [APtr 5]))
               [''pthread_mutex_unlock'', ''pthread_mutex_unlock'', ''pthread_cond_signal'',
                ''pthread_mutex_lock'', ''pthread_cond_wait'', ''pthread_mutex_lock'']
               @ trace (rendezvous_world [LInteger 6] ([LNil] @ LTable 8 # [])))"
  by (rule exchange_refused [where ?u1.0 = 3 and ?u2.0 = 4 and v = "LTable 8", OF _ _ _ _ _ _ _ _ _ _ _ sync_ok_env0(2,1) _ met_at_def])
    (simp_all add: partner_env_def)

section \<open>Wakeups without a partner\<close>

text \<open>
  The wait is not repeated: when \<^verbatim>\<open>pthread_cond_wait\<close> returns 0 although no other thread came
  (POSIX allows such spurious wakeups), the caller gets its own arguments back as if they
  were the other thread's, and its state stays in the rendezvous as the waiter.
\<close>

theorem exchange_spurious:
  assumes "stacks w L = Some (LUserdata u # xs)"
    and "uds w u = Some (wrapper PTHREAD_RENDEZVOUS_METATABLE rp)" and "rp \<noteq> 0"
    and "rendezvous_at w rp None" and "sync_ok E rp" and "length xs < 2 ^ 31"
    and "\<And>v. block E (''pthread_cond_wait'', [APtr rp]) v = (0, v)"
  shows "\<exists>w1. l_pthread_rendezvous_exchange E L w = (Inr (length xs), w1)
       \<and> stacks w1 L = Some (LUserdata u # xs) \<and> results (LUserdata u # xs) (length xs) = xs
       \<and> rendezvous_at w1 rp (Some L)"
proof -
  let ?v = "waiting L rp (LUserdata u # xs) (length xs)
      [(''pthread_cond_wait'', [APtr rp]), (''pthread_mutex_lock'', [APtr rp])] w"
  have "l_pthread_rendezvous_exchange E L w = (Inr (nat (int (length xs))),
      setst L (LUserdata u # xs) (?v\<lparr>trace := (''pthread_mutex_unlock'', [APtr rp]) # trace ?v\<rparr>))"
    by (rule rendezvous_first [where wt = "Some L"]) (use assms in simp_all)
  moreover have "results (LUserdata u # xs) (length xs) = xs"
    using results_append(1) [of "[LUserdata u]" xs] by simp
  ultimately show ?thesis by simp
qed

theorem exchange_spurious_witness:
  "\<exists>w1. l_pthread_rendezvous_exchange env0 1 (rendezvous_world [LInteger 6] []) = (Inr (length [LInteger 6]), w1)
       \<and> stacks w1 1 = Some (LUserdata 3 # [LInteger 6])
       \<and> results (LUserdata 3 # [LInteger 6]) (length [LInteger 6]) = [LInteger 6]
       \<and> rendezvous_at w1 5 (Some 1)"
  by (rule exchange_spurious [where u = 3, OF _ _ _ _ sync_ok_env0(1)]) simp_all

section \<open>Exchange with a timeout\<close>

definition timed_ok :: "env \<Rightarrow> addr \<Rightarrow> bool" where
  "timed_ok E rp \<longleftrightarrow> sync_ok E rp
     \<and> (\<forall>tr t n. rc (reply E tr (''pthread_mutex_timedlock'', [APtr rp, AInt t, AInt n])) = 0)"

text \<open>
  A wait that times out withdraws the offer: the function returns false, nobody is left in
  the rendezvous, and the lock is released.
\<close>

theorem timedexchange_timeout:
  assumes "stacks w L = Some (LUserdata u # LInteger sec # LInteger nsec # xs)"
    and "uds w u = Some (wrapper PTHREAD_RENDEZVOUS_METATABLE rp)" and "rp \<noteq> 0"
    and "rendezvous_at w rp None" and "timed_ok E rp"
    and "const E ''ETIMEDOUT'' \<noteq> 0"
    and "\<And>v. block E (''pthread_cond_timedwait'', [APtr rp, AInt sec, AInt nsec]) v =
           (const E ''ETIMEDOUT'', v)"
  shows "\<exists>w1 s. l_pthread_rendezvous_timedexchange E L w = (Inr 1, w1)
       \<and> stacks w1 L = Some s \<and> results s 1 = [LBoolean False]
       \<and> rendezvous_at w1 rp None \<and> hd (trace w1) = (''pthread_mutex_unlock'', [APtr rp])"
proof -
  have "cookie_at w (LUserdata u # LInteger sec # LInteger nsec # xs) 1 PTHREAD_RENDEZVOUS_METATABLE = Inr rp"
    using assms(2,3) by (simp add: cookie_at_wrapper)
  with assms(1,4-7) show ?thesis
    by (simp add: l_pthread_rendezvous_timedexchange_def exchange_first_def exchange_timed_woken_def
        blocking_def luaL_checkinteger_def lua_run timed_ok_def sync_ok_def results_def
        rendezvous_at_def)
qed

text \<open>Waits always time out.\<close>

definition timeout_env :: env where
  "timeout_env = env0\<lparr>block := (\<lambda>_ v. (1, v))\<rparr>"

lemma timed_ok_env0: "timed_ok env0 5" "timed_ok timeout_env 5"
  by (simp_all add: timed_ok_def sync_ok_def timeout_env_def)

theorem timedexchange_timeout_witness:
  "\<exists>w1 s. l_pthread_rendezvous_timedexchange timeout_env 1
         (rendezvous_world (LInteger 9 # LInteger 0 # [LInteger 6]) []) = (Inr 1, w1)
       \<and> stacks w1 1 = Some s \<and> results s 1 = [LBoolean False]
       \<and> rendezvous_at w1 5 None \<and> hd (trace w1) = (''pthread_mutex_unlock'', [APtr 5])"
  by (rule timedexchange_timeout [where u = 3, OF _ _ _ _ timed_ok_env0(2)]) (simp_all add: timeout_env_def)

text \<open>
  The second to come copies the values correctly, but puts the result \<^verbatim>\<open>true\<close> one place too low:
  the first result it returns is the last of its own arguments (the nanoseconds if it passed
  no value), followed by the values of the other thread.
\<close>

theorem timedexchange_result:
  assumes "L \<noteq> l" and "stacks w L = Some (LUserdata u # LInteger sec # LInteger nsec # ys)"
    and "uds w u = Some (wrapper PTHREAD_RENDEZVOUS_METATABLE rp)" and "rp \<noteq> 0"
    and "stacks w l = Some (A @ xs @ [LInteger (int (length xs))])" and "length xs < 2 ^ 31"
    and "list_all plain xs" and "list_all plain ys" and "0 < cdepth E"
    and "rendezvous_at w rp (Some l)" and "timed_ok E rp"
  shows "\<exists>w1 s. l_pthread_rendezvous_timedexchange E L w = (Inr (length xs + 1), w1)
       \<and> stacks w1 L = Some s
       \<and> results s (length xs + 1) = last (LInteger nsec # ys) # xs"
proof -
  let ?call = "(''pthread_mutex_timedlock'', [APtr rp, AInt sec, AInt nsec])"
  let ?w = "w\<lparr>trace := ?call # trace w\<rparr>"
  let ?B = "[LUserdata u, LInteger sec]"
  obtain C z where C: "LInteger nsec # ys = C @ [z]"
    by (metis append_butlast_last_id list.distinct(1))
  then have last: "last (LInteger nsec # ys) = z" and lenC: "length ys = length C"
    by (simp, metis length_Cons length_append_singleton nat.inject)
  have app: "LInteger nsec # ys @ xs = C @ z # xs"
    using arg_cong [OF C, of "\<lambda>l. l @ xs"] by simp
  have ex: "exchange_second E L rp l 4 (length ys) ?w = (Inr (int (length xs)),
           setst l (A @ xs @ ys @ [LInteger (int (length ys))]) (setst L ((?B @ C) @ z # xs)
             (met rp [(''pthread_cond_signal'', [APtr rp])] ?w)))"
    using exchange_second_run [where B = "?B @ [LInteger nsec]" and w = ?w and xs = xs and ys = ys]
      assms app by (simp add: timed_ok_def)
  have ck: "cookie_at w (LUserdata u # LInteger sec # LInteger nsec # ys) 1 PTHREAD_RENDEZVOUS_METATABLE = Inr rp"
    using assms(3,4) by (simp add: cookie_at_wrapper)
  have ins: "lua_insert L (int (length (?B @ C)) + 1) w' =
      (Inr (), setst L ((?B @ C) @ LBoolean True # z # xs) w')"
    if "stacks w' L = Some ((?B @ C) @ (z # xs) @ [LBoolean True])" for w'
    by (rule lua_insert_bottom_run [OF that])
  have res: "results ((?B @ C @ [LBoolean True]) @ z # xs) (length xs + 1) = z # xs"
    using results_append(1) [of "?B @ C @ [LBoolean True]" "z # xs"] by simp
  show ?thesis
    using assms(1,2,10,11) ck ex ins lenC last res
    by (simp add: objcall_rendezvous_run [where wt = None] nat_add_distrib l_pthread_rendezvous_timedexchange_def luaL_checkinteger_def lua_run timed_ok_def
        sync_ok_def algebra_simps)
qed

theorem timedexchange_result_witness:
  "\<exists>w1 s. l_pthread_rendezvous_timedexchange env0 2 (met_at [LInteger 6] [LInteger 9, LInteger 0, LString ''y''])
         = (Inr (length [LInteger 6] + 1), w1)
       \<and> stacks w1 2 = Some s
       \<and> results s (length [LInteger 6] + 1) = last (LInteger 0 # [LString ''y'']) # [LInteger 6]"
  by (rule timedexchange_result [where l = 1 and A = "[LUserdata 3]" and u = 4, OF _ _ _ _ _ _ _ _ _ _ timed_ok_env0(1)])
    (simp_all add: met_at_def)

end
