(* ===== verification/Pthread_Lib.thy ===== *)
theory Pthread_Lib
  imports Pthread_Rendezvous
begin

text \<open>
  What \<^verbatim>\<open>require("pthread")\<close> gives a Lua program: the \<^verbatim>\<open>luaL_Reg\<close> tables of
  \<^verbatim>\<open>libpthread/lua_pthread.c\<close> (which C function is reachable under which name) and
  \<^verbatim>\<open>luaopen_pthread\<close>, which registers the metatables and builds the module table.
\<close>

section \<open>Registration tables\<close>

definition l_pthread_funcs :: "env \<Rightarrow> (string \<times> cfunction) list" where
  "l_pthread_funcs E =
     [(''create'', l_pthread_create),
      (''retain'', l_pthread_retain),
      (''exit'', l_pthread_exit),
      (''self'', l_pthread_self),
      (''setcancelstate'', l_pthread_setcancelstate),
      (''setcanceltype'', l_pthread_setcanceltype),
      (''testcancel'', l_pthread_testcancel),
      (''yield'', l_pthread_yield),
      (''getthreadid_np'', l_pthread_getthreadid_np),
      (''main_np'', l_pthread_main_np),
      (''multi_np'', l_pthread_multi_np),
      (''resume_all_np'', l_pthread_resume_all_np)]
     @ (if 1500043 < const E ''__FreeBSD_version'' then [(''signals_block_np'', l_pthread_signals_block_np),
      (''signals_unblock_np'', l_pthread_signals_unblock_np)] else [])
     @ [(''single_np'', l_pthread_single_np),
      (''suspend_all_np'', l_pthread_suspend_all_np)]"

definition l_pthread_meta :: "env \<Rightarrow> (string \<times> cfunction) list" where
  "l_pthread_meta E =
     [(''__eq'', l_pthread_equal),
      (''__gc'', l_pthread_gc),
      (''cookie'', l_pthread_cookie),
      (''cancel'', l_pthread_cancel),
      (''detach'', l_pthread_detach),
      (''equal'', l_pthread_equal),
      (''join'', l_pthread_join),
      (''attr_get_np'', l_pthread_attr_get_np),
      (''getaffinity_np'', l_pthread_getaffinity_np),
      (''setaffinity_np'', l_pthread_setaffinity_np),
      (''resume_np'', l_pthread_resume_np),
      (''peekjoin_np'', l_pthread_peekjoin_np),
      (''suspend_np'', l_pthread_suspend_np),
      (''timedjoin_np'', l_pthread_timedjoin_np),
      (''getname_np'', l_pthread_getname_np),
      (''setname_np'', l_pthread_setname_np)]
     @ (if 1500043 < const E ''__FreeBSD_version'' then [(''sigqueue'', l_pthread_sigqueue)] else [])"

definition l_pthread_once_funcs :: "(string \<times> cfunction) list" where
  "l_pthread_once_funcs =
     [(''new'', l_pthread_once_new),
      (''retain'', l_pthread_once_retain)]"

definition l_pthread_once_meta :: "(string \<times> cfunction) list" where
  "l_pthread_once_meta =
     [(''__call'', l_pthread_once_call),
      (''__gc'', l_pthread_once_gc),
      (''cookie'', l_pthread_once_cookie)]"

definition l_pthread_mutex_funcs :: "(string \<times> cfunction) list" where
  "l_pthread_mutex_funcs =
     [(''new'', l_pthread_mutex_new),
      (''retain'', l_pthread_mutex_retain)]"

definition l_pthread_mutex_meta :: "(string \<times> cfunction) list" where
  "l_pthread_mutex_meta =
     [(''__gc'', l_pthread_mutex_gc),
      (''cookie'', l_pthread_mutex_cookie),
      (''lock'', l_pthread_mutex_lock),
      (''timedlock'', l_pthread_mutex_timedlock),
      (''trylock'', l_pthread_mutex_trylock),
      (''unlock'', l_pthread_mutex_unlock),
      (''getspinloops_np'', l_pthread_mutex_getspinloops_np),
      (''setspinloops_np'', l_pthread_mutex_setspinloops_np),
      (''getyieldloops_np'', l_pthread_mutex_getyieldloops_np),
      (''setyieldloops_np'', l_pthread_mutex_setyieldloops_np),
      (''isowned_np'', l_pthread_mutex_isowned_np)]"

definition l_pthread_cond_funcs :: "(string \<times> cfunction) list" where
  "l_pthread_cond_funcs =
     [(''new'', l_pthread_cond_new),
      (''retain'', l_pthread_cond_retain)]"

definition l_pthread_cond_meta :: "(string \<times> cfunction) list" where
  "l_pthread_cond_meta =
     [(''__gc'', l_pthread_cond_gc),
      (''cookie'', l_pthread_cond_cookie),
      (''broadcast'', l_pthread_cond_broadcast),
      (''signal'', l_pthread_cond_signal),
      (''timedwait'', l_pthread_cond_timedwait),
      (''wait'', l_pthread_cond_wait)]"

definition l_pthread_rwlock_funcs :: "(string \<times> cfunction) list" where
  "l_pthread_rwlock_funcs =
     [(''new'', l_pthread_rwlock_new),
      (''retain'', l_pthread_rwlock_retain)]"

definition l_pthread_rwlock_meta :: "(string \<times> cfunction) list" where
  "l_pthread_rwlock_meta =
     [(''__gc'', l_pthread_rwlock_gc),
      (''cookie'', l_pthread_rwlock_cookie),
      (''rdlock'', l_pthread_rwlock_rdlock),
      (''tryrdlock'', l_pthread_rwlock_tryrdlock),
      (''trywrlock'', l_pthread_rwlock_trywrlock),
      (''unlock'', l_pthread_rwlock_unlock),
      (''wrlock'', l_pthread_rwlock_wrlock)]"

definition l_pthread_key_funcs :: "(string \<times> cfunction) list" where
  "l_pthread_key_funcs =
     [(''create'', l_pthread_key_create),
      (''retain'', l_pthread_key_retain)]"

definition l_pthread_key_meta :: "(string \<times> cfunction) list" where
  "l_pthread_key_meta =
     [(''__gc'', l_pthread_key_gc),
      (''cookie'', l_pthread_key_cookie),
      (''getspecific'', l_pthread_key_getspecific),
      (''setspecific'', l_pthread_key_setspecific)]"

definition l_pthread_cleanup_funcs :: "(string \<times> cfunction) list" where
  "l_pthread_cleanup_funcs =
     [(''pop'', l_pthread_cleanup_pop),
      (''push'', l_pthread_cleanup_push)]"

definition l_pthread_barrier_funcs :: "(string \<times> cfunction) list" where
  "l_pthread_barrier_funcs =
     [(''new'', l_pthread_barrier_new),
      (''retain'', l_pthread_barrier_retain)]"

definition l_pthread_barrier_meta :: "(string \<times> cfunction) list" where
  "l_pthread_barrier_meta =
     [(''__gc'', l_pthread_barrier_gc),
      (''cookie'', l_pthread_barrier_cookie),
      (''wait'', l_pthread_barrier_wait)]"

definition l_pthread_rendezvous_funcs :: "(string \<times> cfunction) list" where
  "l_pthread_rendezvous_funcs =
     [(''new'', l_pthread_rendezvous_new),
      (''retain'', l_pthread_rendezvous_retain)]"

definition l_pthread_rendezvous_meta :: "(string \<times> cfunction) list" where
  "l_pthread_rendezvous_meta =
     [(''__gc'', l_pthread_rendezvous_gc),
      (''cookie'', l_pthread_rendezvous_cookie),
      (''exchange'', l_pthread_rendezvous_exchange),
      (''timedexchange'', l_pthread_rendezvous_timedexchange)]"

section \<open>The module\<close>

text \<open>
  The metatables in the registry, by name. Each is its own \<^verbatim>\<open>__index\<close>, so its functions are
  the methods of the userdata that have it.
\<close>

definition pthread_metatables :: "env \<Rightarrow> (string \<times> (string \<times> cfunction) list) list" where
  "pthread_metatables E =
     [(PTHREAD_METATABLE, l_pthread_meta E),
      (PTHREAD_ONCE_METATABLE, l_pthread_once_meta),
      (PTHREAD_MUTEX_METATABLE, l_pthread_mutex_meta),
      (PTHREAD_COND_METATABLE, l_pthread_cond_meta),
      (PTHREAD_RWLOCK_METATABLE, l_pthread_rwlock_meta),
      (PTHREAD_KEY_METATABLE, l_pthread_key_meta),
      (PTHREAD_BARRIER_METATABLE, l_pthread_barrier_meta),
      (PTHREAD_RENDEZVOUS_METATABLE, l_pthread_rendezvous_meta)]"

definition pthread_module :: "env \<Rightarrow> (string \<times> field) list" where
  "pthread_module E =
     luaL_newlib (l_pthread_funcs E)
     @ [(''once'', Sub (luaL_newlib l_pthread_once_funcs)),
        (''mutex'', Sub (luaL_newlib l_pthread_mutex_funcs
           @ DEFINE E ''PTHREAD_MUTEX_''
               [''ERRORCHECK'', ''RECURSIVE'', ''NORMAL'', ''ADAPTIVE_NP'', ''TYPE_MAX'', ''DEFAULT'',
                ''STALLED'', ''ROBUST''])),
        (''cond'', Sub (luaL_newlib l_pthread_cond_funcs)),
        (''rwlock'', Sub (luaL_newlib l_pthread_rwlock_funcs)),
        (''key'', Sub (luaL_newlib l_pthread_key_funcs)),
        (''cleanup'', Sub (luaL_newlib l_pthread_cleanup_funcs)),
        (''barrier'', Sub (luaL_newlib l_pthread_barrier_funcs
           @ [(''SERIAL_THREAD'', Const (const E ''PTHREAD_BARRIER_SERIAL_THREAD''))])),
        (''rendezvous'', Sub (luaL_newlib l_pthread_rendezvous_funcs))]
     @ DEFINE E ''PTHREAD_''
         [''DESTRUCTOR_ITERATIONS'', ''KEYS_MAX'', ''STACK_MIN'', ''THREADS_MAX'',
          ''DETACHED'', ''SCOPE_SYSTEM'', ''INHERIT_SCHED'', ''NOFLOAT'',
          ''CREATE_DETACHED'', ''CREATE_JOINABLE'', ''SCOPE_PROCESS'', ''EXPLICIT_SCHED'',
          ''PROCESS_PRIVATE'', ''PROCESS_SHARED'',
          ''CANCEL_ENABLE'', ''CANCEL_DISABLE'', ''CANCEL_DEFERRED'', ''CANCEL_ASYNCHRONOUS'',
          ''PRIO_NONE'', ''PRIO_INHERIT'', ''PRIO_PROTECT'']"

text \<open>
  \<^verbatim>\<open>luaopen_pthread\<close>: \<^verbatim>\<open>require\<close> of the cpuset module may raise an error; the state is stored as
  thread-specific data; then the registry gets the metatables and the module is returned.
\<close>

definition luaopen_pthread ::
  "env \<Rightarrow> lstate \<Rightarrow> ((string \<times> (string \<times> cfunction) list) list \<times> (string \<times> field) list) lua" where
  "luaopen_pthread E L =
     lbind (ccall E ''require'' [AStr ''sys.cpuset'']) (\<lambda>r.
     if rc r \<noteq> 0 then throw (LError (outs r))
     else
       lbind (ccall_rc E ''pthread_setspecific'' [AStr ''thread_state_key'', APtr L]) (\<lambda>error.
       if error \<noteq> 0 then fatal E L ''pthread_setspecific'' error
       else ret (pthread_metatables E, pthread_module E)))"

end
