(* ===== verification/Pthread_Memory.thy ===== *)
theory Pthread_Memory
  imports Pthread_Lib
begin

text \<open>
  The shared objects of the pthread module live on the C heap; wrapper userdata hold their
  addresses. This theory shows which functions leave the heap and the userdata alone (on every
  path): the functions of the Lua API, and all handlers but the constructors, \<^verbatim>\<open>retain\<close> and
  \<^verbatim>\<open>__gc\<close>, whose effect on the invariant of \<^verbatim>\<open>Pthread_Refs\<close> is the subject of the next theories.
\<close>

section \<open>Operations that leave the heap alone\<close>

text \<open>The heap, the userdata, and a lower bound of the next object number.\<close>

definition heap :: "(addr \<Rightarrow> rcobj option) \<Rightarrow> (nat \<Rightarrow> udata option) \<Rightarrow> nat \<Rightarrow> world \<Rightarrow> bool" where
  "heap M U n w \<longleftrightarrow> mem w = M \<and> uds w = U \<and> n \<le> fresh w"

abbreviation quiet :: "'a lua \<Rightarrow> bool" where
  "quiet m \<equiv> (\<forall>M U n. keeps (heap M U n) m)"

lemma heap_setst [simp]: "heap M U n (setst L s w) = heap M U n w"
  by (simp add: heap_def)

lemma heap_upd [simp]:
  "heap M U n (w\<lparr>trace := t\<rparr>) = heap M U n w" "heap M U n (w\<lparr>tabs := x\<rparr>) = heap M U n w"
  "heap M U n (w\<lparr>clos := y\<rparr>) = heap M U n w" "heap M U n (w\<lparr>registry := z\<rparr>) = heap M U n w"
  "heap M U n (w\<lparr>stacks := s\<rparr>) = heap M U n w"
  by (simp_all add: heap_def)

lemma heap_fresh [simp]: "heap M U n w \<Longrightarrow> heap M U n (w\<lparr>fresh := Suc (fresh w)\<rparr>)"
  by (simp add: heap_def)

lemma keeps_case_ltype_if [keeps_rules]:
  "(b \<Longrightarrow> keeps P m) \<Longrightarrow> (\<not> b \<Longrightarrow> keeps P k) \<Longrightarrow> keeps P (\<lambda>w. if b then m w else k w)"
  by (cases b) simp_all

lemma keeps_stack [keeps_rules]:
  "keeps (heap M U n) (askst L f)" "keeps (heap M U n) (modst L g)"
  "keeps (heap M U n) (lua_push L v)" "keeps (heap M U n) (lua_pop L i)"
  "keeps (heap M U n) (lua_settop L i)" "keeps (heap M U n) (lua_pushvalue L j)"
  "keeps (heap M U n) (lua_insert L j)" "keeps (heap M U n) (lua_remove L j)"
  by (auto simp: keeps_def askst_def modst_def lua_push_def lua_pop_def lua_settop_def
      lua_pushvalue_def lua_insert_def lua_remove_def split: option.splits)

lemma keeps_read [keeps_rules]:
  "keeps (heap M U n) (lua_gettop L)" "keeps (heap M U n) (lua_absindex L j)"
  "keeps (heap M U n) (lua_type L j)" "keeps (heap M U n) (lua_toboolean L j)"
  "keeps (heap M U n) (lua_tointeger E L j)" "keeps (heap M U n) (lua_isinteger L j)"
  "keeps (heap M U n) (lua_tolight L j)"
  by (simp_all add: lua_read_defs keeps_stack)

lemma keeps_raise [keeps_rules]:
  "keeps (heap M U n) (luaL_error L msg)" "keeps (heap M U n) (luaL_argerror L j msg)"
  "keeps (heap M U n) (luaL_typeerror L j msg)" "keeps (heap M U n) (lua_error L)"
  "keeps (heap M U n) (luaL_argcheck b j msg)" "keeps (heap M U n) (c_assert b)"
  "keeps (heap M U n) (fatal E L src e)"
  unfolding luaL_error_def luaL_argerror_def luaL_typeerror_def lua_error_def luaL_argcheck_def
    c_assert_def fatal_def
  by (intro keeps_rules)+

lemma keeps_check [keeps_rules]:
  "keeps (heap M U n) (luaL_checktype L j t)" "keeps (heap M U n) (luaL_checkinteger E L j)"
  "keeps (heap M U n) (luaL_optinteger E L j d)" "keeps (heap M U n) (checklightuserdata L j)"
  unfolding luaL_checktype_def luaL_checkinteger_def luaL_optinteger_def checklightuserdata_def
  by (intro keeps_rules)+

lemma keeps_checklstring [keeps_rules]: "keeps (heap M U n) (luaL_checklstring E L j)"
  unfolding luaL_checklstring_def
  by (intro keeps_lbind keeps_stack) (auto split: option.split lval.split intro!: keeps_rules)

lemma keeps_external [keeps_rules]:
  "keeps (heap M U n) (ccall E f as)" "keeps (heap M U n) (ccall_rc E f as)"
  "keeps (heap M U n) (deref k p)"
  by (auto simp: keeps_def ccall_run ccall_rc_run deref_def split: option.splits)

lemma keeps_objcall [keeps_rules]:
  "keeps (heap M U n) (objcall E k p f as)" "keeps (heap M U n) (objcall_rc E k p f as)"
  unfolding objcall_rc_def objcall_def by (intro keeps_rules)+

lemma keeps_thrcall [keeps_rules]:
  "keeps (heap M U n) (thrcall E p f as)" "keeps (heap M U n) (thrcall_rc E p f as)"
  "keeps (heap M U n) (keycall E p f as)"
  unfolding thrcall_rc_def thrcall_def keycall_def
  by (intro keeps_rules | auto split: rcbody.split option.split intro!: keeps_rules)+

lemma keeps_results [keeps_rules]:
  "keeps (heap M U n) (success L)" "keeps (heap M U n) (fail E L e)"
  unfolding success_def fail_def by (intro keeps_rules)+

lemma keeps_userdata [keeps_rules]:
  "keeps (heap M U n) (luaL_checkudata L j m)" "keeps (heap M U n) (lua_getiuservalue L j i)"
  by (auto simp: keeps_def luaL_checkudata_def lua_getiuservalue_def lua_run
      split: option.splits)

lemma keeps_cookie [keeps_rules]:
  "keeps (heap M U n) (checkcookieuv L j m)" "keeps (heap M U n) (checkcookienull L j m)"
  "keeps (heap M U n) (checkcookie L j m)"
  unfolding checkcookie_def checkcookienull_def checkcookieuv_def getcookie_def
  by (intro keeps_rules)+

lemma keeps_tables [keeps_rules]:
  "(\<And>s t tb. keeps (heap M U n) (f s t tb)) \<Longrightarrow> keeps (heap M U n) (with_tab L j f)"
  by (auto simp: keeps_def with_tab_def split: option.splits)

lemma keeps_table_read [keeps_rules]:
  "keeps (heap M U n) (lua_getfield L j k)" "keeps (heap M U n) (lua_rawgeti L j i)"
  "keeps (heap M U n) (luaL_len E L j)"
  unfolding lua_getfield_def lua_rawgeti_def luaL_len_def
  by (intro keeps_rules | auto split: option.split lval.split intro!: keeps_rules)+

lemma keeps_table_write [keeps_rules]:
  "keeps (heap M U n) (lua_setfield L j k)" "keeps (heap M U n) (lua_rawseti L j i)"
  "keeps (heap M U n) (lua_createtable L)"
  by (auto simp: keeps_def with_tab_def lua_setfield_def lua_rawseti_def lua_pop_def lua_push_def
      lua_createtable_def modst_def heap_def split: option.splits)

lemma keeps_states [keeps_rules]:
  "keeps (heap M U n) (luaL_newstate E)" "keeps (heap M U n) (lua_close L)"
  "keeps (heap M U n) (getcleanupstack L)"
  by (auto simp: keeps_def luaL_newstate_def lua_close_def getcleanupstack_def lua_push_def modst_def
      lua_run heap_def split: option.splits)

section \<open>What copying preserves\<close>

text \<open>
  A predicate that changes of stacks, new closures and library calls do not touch is preserved by
  \<^verbatim>\<open>copyn\<close>: one proof for every such predicate.
\<close>

locale copy_stable =
  fixes P :: "world \<Rightarrow> bool"
  assumes P_setst: "P w \<Longrightarrow> P (setst L s w)" and P_trace: "P w \<Longrightarrow> P (w\<lparr>trace := t\<rparr>)"
    and P_clos: "P w \<Longrightarrow> P (w\<lparr>clos := c\<rparr>)" and P_fresh: "P w \<Longrightarrow> fresh w \<le> n \<Longrightarrow> P (w\<lparr>fresh := n\<rparr>)"
begin

lemma stack: "keeps P (askst L f)" "keeps P (modst L g)" "keeps P (lua_push L v)"
    "keeps P (lua_pop L i)" "keeps P (lua_pushvalue L j)" "keeps P (lua_remove L j)" "keeps P (lua_gettop L)"
  by (auto simp: keeps_def askst_def modst_def lua_push_def lua_pop_def lua_pushvalue_def lua_remove_def
      lua_gettop_def P_setst split: option.splits)

lemma chunks: "keeps P (luaL_buffinit E L)" "keeps P (luaL_pushresult E L)" "keeps P (c_assert b)"
  unfolding luaL_buffinit_def luaL_pushresult_def c_assert_def by (intro keeps_rules stack)+

lemma dump: "keeps P (lua_dump L)" "keeps P (nupvalues L j)"
  by (auto simp: keeps_def lua_dump_def nupvalues_def askst_def split: option.splits)

lemma loadbuffer: "keeps P (luaL_loadbuffer E l c)"
proof (rule keepsI)
  fix w assume "P w"
  then have "P (w\<lparr>trace := t, clos := c', fresh := Suc (fresh w)\<rparr>)" for t c'
    by (rule P_fresh [OF P_clos [OF P_trace], simplified]) simp
  with \<open>P w\<close> show "P (snd (luaL_loadbuffer E l c w))"
    by (auto simp: luaL_loadbuffer_def lua_push_def modst_def lua_run P_setst P_trace split: option.splits)
qed

lemma upvalue: "keeps P (lua_getupvalue L j i)" "keeps P (lua_setupvalue L j i)"
  by (auto simp: keeps_def lua_getupvalue_def lua_setupvalue_def lua_push_def lua_pop_def modst_def
      lua_run P_setst P_clos split: option.splits lval.splits)

lemmas basic = stack chunks dump loadbuffer upvalue

lemma ups:
  assumes "\<And>L l idx k. keeps P (cp L l idx k)"
  shows "keeps P (copyups cp L l idx lidx uv k)"
proof (induction k arbitrary: uv)
  case 0
  show ?case unfolding copyups.simps by (rule keeps_throw)
next
  case (Suc k)
  show ?case
    unfolding copyups.simps by (intro keeps_rules basic assms Suc.IH)
qed

lemma val:
  assumes "\<And>L l idx k. keeps P (cp L l idx k)"
  shows "keeps P (copyval E cp L l idx)"
  unfolding copyval_def
  by (intro keeps_lbind stack)
    (auto split: option.split lval.split intro!: keeps_rules basic ups assms)

lemma loop:
  assumes "\<And>L l idx k. keeps P (cp L l idx k)"
  shows "keeps P (copyloop E cp L l idx k)"
proof (induction k arbitrary: idx)
  case 0
  show ?case unfolding copyloop.simps by (rule keeps_ret)
next
  case (Suc k)
  show ?case
    unfolding copyloop.simps by (intro keeps_rules val assms Suc.IH)
qed

lemma copyn_keeps: "keeps P (copyn d E L l idx k)"
proof (induction d arbitrary: L l idx k)
  case 0
  show ?case unfolding copyn.simps by (rule keeps_throw)
next
  case (Suc d)
  show ?case
    unfolding copyn.simps by (intro keeps_rules basic loop Suc.IH)
qed

end

interpretation copy_heap: copy_stable "heap M U n" for M U n
  by unfold_locales (auto simp: heap_def)

interpretation copy_live: copy_stable "\<lambda>w. stacks w l \<noteq> None" for l
  by unfold_locales auto

lemmas keeps_copyn [keeps_rules] = copy_heap.copyn_keeps

section \<open>Handlers that leave the heap alone\<close>

lemma keeps_fields [keeps_rules]:
  assumes "keeps (heap M U n) k"
  shows "keeps (heap M U n) (numfield E L j field conv setter k)"
    and "keeps (heap M U n) (stackfield E L j k)"
    and "keeps (heap M U n) (schedparamfield E L j k)"
    and "keeps (heap M U n) (createsuspendfield E L j k)"
  unfolding numfield_def stackfield_def schedparamfield_def createsuspendfield_def
  by (intro keeps_rules assms)+

lemma keeps_top_is_cpuset [keeps_rules]: "keeps (heap M U n) (top_is_cpuset L)"
  by (auto simp: keeps_def top_is_cpuset_def askst_def split: option.splits)

lemma keeps_cpuset_arg [keeps_rules]: "keeps (heap M U n) (cpuset_arg L i)"
  by (auto simp: keeps_def cpuset_arg_def askst_def split: option.splits)

lemma keeps_affinityfield [keeps_rules]:
  "keeps (heap M U n) k \<Longrightarrow> keeps (heap M U n) (affinityfield E L j k)"
  unfolding affinityfield_def by (intro keeps_rules)

lemma keeps_checkattrs [keeps_rules]:
  "keeps (heap M U n) (checkattr E L j)" "keeps (heap M U n) (checkmutexattr E L j)"
  "keeps (heap M U n) (checkcondattr E L j)" "keeps (heap M U n) (checkrwlockattr E L j)"
  "keeps (heap M U n) (checkbarrierattr E L j)"
  unfolding checkattr_def checkmutexattr_def checkcondattr_def checkrwlockattr_def checkbarrierattr_def
  by (intro keeps_rules)+

lemma keeps_attr_destroy [keeps_rules]:
  "keeps (heap M U n) (attr_destroy E L)" "keeps (heap M U n) (mutexattr_destroy E L)"
  "keeps (heap M U n) (condattr_destroy E L)" "keeps (heap M U n) (rwlockattr_destroy E L)"
  "keeps (heap M U n) (barrierattr_destroy E L)"
  unfolding attr_destroy_def mutexattr_destroy_def condattr_destroy_def rwlockattr_destroy_def
    barrierattr_destroy_def
  by (intro keeps_rules)+

lemma keeps_join_result [keeps_rules]: "keeps (heap M U n) (join_result E L cl r)"
  unfolding join_result_def by (intro keeps_rules)

lemma keeps_equal [keeps_rules]: "keeps (heap M U n) (l_pthread_equal E L)"
  unfolding l_pthread_equal_def
  by (intro keeps_lbind keeps_cookie keeps_external)
    (auto split: rcbody.split option.split intro!: keeps_rules)

lemma keeps_thread_methods [keeps_rules]:
  "keeps (heap M U n) (l_pthread_cookie E L)" "keeps (heap M U n) (l_pthread_cancel E L)"
  "keeps (heap M U n) (l_pthread_detach E L)" "keeps (heap M U n) (l_pthread_join E L)"
  "keeps (heap M U n) (l_pthread_peekjoin_np E L)" "keeps (heap M U n) (l_pthread_timedjoin_np E L)"
  "keeps (heap M U n) (l_pthread_setaffinity_np E L)" "keeps (heap M U n) (l_pthread_resume_np E L)"
  "keeps (heap M U n) (l_pthread_suspend_np E L)" "keeps (heap M U n) (l_pthread_kill E L)"
  "keeps (heap M U n) (l_pthread_getname_np E L)" "keeps (heap M U n) (l_pthread_setname_np E L)"
  "keeps (heap M U n) (l_pthread_sigqueue E L)"
  unfolding l_pthread_cookie_def l_pthread_cancel_def l_pthread_detach_def l_pthread_join_def
    l_pthread_peekjoin_np_def l_pthread_timedjoin_np_def l_pthread_setaffinity_np_def
    l_pthread_resume_np_def l_pthread_suspend_np_def l_pthread_kill_def l_pthread_getname_np_def
    l_pthread_setname_np_def l_pthread_sigqueue_def
  by (intro keeps_rules)+

lemma keeps_process_functions [keeps_rules]:
  "keeps (heap M U n) (l_pthread_setcancelstate E L)" "keeps (heap M U n) (l_pthread_setcanceltype E L)"
  "keeps (heap M U n) (l_pthread_testcancel E L)" "keeps (heap M U n) (l_pthread_yield E L)"
  "keeps (heap M U n) (l_pthread_getthreadid_np E L)" "keeps (heap M U n) (l_pthread_main_np E L)"
  "keeps (heap M U n) (l_pthread_multi_np E L)" "keeps (heap M U n) (l_pthread_resume_all_np E L)"
  "keeps (heap M U n) (l_pthread_signals_block_np E L)"
  "keeps (heap M U n) (l_pthread_signals_unblock_np E L)"
  "keeps (heap M U n) (l_pthread_single_np E L)" "keeps (heap M U n) (l_pthread_suspend_all_np E L)"
  "keeps (heap M U n) (l_pthread_exit E L)"
  unfolding l_pthread_setcancelstate_def l_pthread_setcanceltype_def l_pthread_testcancel_def
    l_pthread_yield_def l_pthread_getthreadid_np_def l_pthread_main_np_def l_pthread_multi_np_def
    l_pthread_resume_all_np_def l_pthread_signals_block_np_def l_pthread_signals_unblock_np_def
    l_pthread_single_np_def l_pthread_suspend_all_np_def l_pthread_exit_def
  by (intro keeps_rules)+

lemma keeps_mutex_methods [keeps_rules]:
  "keeps (heap M U n) (l_pthread_mutex_cookie E L)" "keeps (heap M U n) (l_pthread_mutex_lock E L)"
  "keeps (heap M U n) (l_pthread_mutex_timedlock E L)" "keeps (heap M U n) (l_pthread_mutex_trylock E L)"
  "keeps (heap M U n) (l_pthread_mutex_unlock E L)"
  "keeps (heap M U n) (l_pthread_mutex_getspinloops_np E L)"
  "keeps (heap M U n) (l_pthread_mutex_setspinloops_np E L)"
  "keeps (heap M U n) (l_pthread_mutex_getyieldloops_np E L)"
  "keeps (heap M U n) (l_pthread_mutex_setyieldloops_np E L)"
  "keeps (heap M U n) (l_pthread_mutex_isowned_np E L)"
  unfolding l_pthread_mutex_cookie_def l_pthread_mutex_lock_def l_pthread_mutex_timedlock_def
    l_pthread_mutex_trylock_def l_pthread_mutex_unlock_def l_pthread_mutex_getspinloops_np_def
    l_pthread_mutex_setspinloops_np_def l_pthread_mutex_getyieldloops_np_def
    l_pthread_mutex_setyieldloops_np_def l_pthread_mutex_isowned_np_def
  by (intro keeps_rules)+

lemma keeps_cond_methods [keeps_rules]:
  "keeps (heap M U n) (l_pthread_cond_cookie E L)" "keeps (heap M U n) (l_pthread_cond_broadcast E L)"
  "keeps (heap M U n) (l_pthread_cond_signal E L)" "keeps (heap M U n) (l_pthread_cond_timedwait E L)"
  "keeps (heap M U n) (l_pthread_cond_wait E L)"
  unfolding l_pthread_cond_cookie_def l_pthread_cond_broadcast_def l_pthread_cond_signal_def
    l_pthread_cond_timedwait_def l_pthread_cond_wait_def
  by (intro keeps_rules)+

lemma keeps_rwlock_methods [keeps_rules]:
  "keeps (heap M U n) (l_pthread_rwlock_cookie E L)" "keeps (heap M U n) (l_pthread_rwlock_rdlock E L)"
  "keeps (heap M U n) (l_pthread_rwlock_tryrdlock E L)"
  "keeps (heap M U n) (l_pthread_rwlock_trywrlock E L)"
  "keeps (heap M U n) (l_pthread_rwlock_unlock E L)" "keeps (heap M U n) (l_pthread_rwlock_wrlock E L)"
  unfolding l_pthread_rwlock_cookie_def l_pthread_rwlock_rdlock_def l_pthread_rwlock_tryrdlock_def
    l_pthread_rwlock_trywrlock_def l_pthread_rwlock_unlock_def l_pthread_rwlock_wrlock_def
  by (intro keeps_rules)+

lemma keeps_other_methods [keeps_rules]:
  "keeps (heap M U n) (l_pthread_once_cookie E L)" "keeps (heap M U n) (l_pthread_key_cookie E L)"
  "keeps (heap M U n) (l_pthread_key_getspecific E L)"
  "keeps (heap M U n) (l_pthread_key_setspecific E L)"
  "keeps (heap M U n) (l_pthread_barrier_cookie E L)" "keeps (heap M U n) (l_pthread_barrier_wait E L)"
  "keeps (heap M U n) (l_pthread_rendezvous_cookie E L)"
  unfolding l_pthread_once_cookie_def l_pthread_key_cookie_def l_pthread_key_getspecific_def
    l_pthread_key_setspecific_def l_pthread_barrier_cookie_def l_pthread_barrier_wait_def
    l_pthread_rendezvous_cookie_def
  by (intro keeps_rules)+

end
