(* ===== verification/Pthread_Refs.thy ===== *)
theory Pthread_Refs
  imports Pthread_Memory
begin

text \<open>
  The reference-counting invariant of the pthread module: its statement, and that the parts of
  constructors, \<^verbatim>\<open>retain\<close> and \<^verbatim>\<open>__gc\<close> keep it.
\<close>

section \<open>The invariant\<close>

fun mt :: "rckind \<Rightarrow> string" where
  "mt KThread = PTHREAD_METATABLE"
| "mt KOnce = PTHREAD_ONCE_METATABLE"
| "mt KMutex = PTHREAD_MUTEX_METATABLE"
| "mt KCond = PTHREAD_COND_METATABLE"
| "mt KRwlock = PTHREAD_RWLOCK_METATABLE"
| "mt KKey = PTHREAD_KEY_METATABLE"
| "mt KBarrier = PTHREAD_BARRIER_METATABLE"
| "mt KRendezvous = PTHREAD_RENDEZVOUS_METATABLE"

lemma mt_inj [simp]: "mt k = mt k' \<longleftrightarrow> k = k'"
  by (cases k; cases k') (simp_all add: metatable_defs)

lemma mt_cpuset [simp]: "mt k \<noteq> CPUSET_METATABLE" "CPUSET_METATABLE \<noteq> mt k"
  by (cases k; simp add: metatable_defs)+

text \<open>The wrappers of an object.\<close>

definition holds :: "udata \<Rightarrow> addr \<Rightarrow> bool" where
  "holds d p \<longleftrightarrow> (\<exists>k. meta d = Some (mt k)) \<and> get_uv COOKIE d = Some (LLightuserdata p)"

definition handles :: "(nat \<Rightarrow> udata option) \<Rightarrow> addr \<Rightarrow> nat set" where
  "handles U p = {u. \<exists>d. U u = Some d \<and> holds d p}"

text \<open>All members of the struct that its methods read are written.\<close>

fun ready :: "rcbody \<Rightarrow> bool" where
  "ready (Rcthread t) = (t \<noteq> None)"
| "ready (Rckey k) = (k \<noteq> None)"
| "ready (Rcrendezvous r) = (r \<noteq> None)"
| "ready _ = True"

text \<open>
  \<open>rc_inv X w\<close>: the objects in \<open>X\<close> are under construction and have no wrapper yet; every other
  object is ready and counts its wrappers; every wrapper holds a live object of its kind.
\<close>

definition counted :: "(nat \<Rightarrow> udata option) \<Rightarrow> addr \<Rightarrow> rcobj \<Rightarrow> bool" where
  "counted U p ob \<longleftrightarrow> ready (body ob) \<and> handles U p \<noteq> {}
     \<and> refs ob = Some (of_nat (card (handles U p)))"

definition wrapped :: "(addr \<Rightarrow> rcobj option) \<Rightarrow> rckind \<Rightarrow> udata \<Rightarrow> bool" where
  "wrapped M k d \<longleftrightarrow> (\<exists>p ob. get_uv COOKIE d = Some (LLightuserdata p) \<and> M p = Some ob
     \<and> kind_of (body ob) = k)"

definition rc_inv :: "addr set \<Rightarrow> world \<Rightarrow> bool" where
  "rc_inv X w \<longleftrightarrow> 0 < fresh w \<and> mem w 0 = None
     \<and> (\<forall>p ob. mem w p = Some ob \<longrightarrow> p < fresh w) \<and> (\<forall>u d. uds w u = Some d \<longrightarrow> u < fresh w)
     \<and> (\<forall>p ob. mem w p = Some ob \<longrightarrow> p \<notin> X \<longrightarrow> counted (uds w) p ob)
     \<and> (\<forall>p \<in> X. handles (uds w) p = {})
     \<and> (\<forall>u d k. uds w u = Some d \<longrightarrow> meta d = Some (mt k) \<longrightarrow> wrapped (mem w) k d)"

lemma invD:
  assumes "rc_inv X w"
  shows inv_fresh: "0 < fresh w" and inv_null: "mem w 0 = None"
    and inv_mem_less: "mem w p = Some ob \<Longrightarrow> p < fresh w"
    and inv_uds_less: "uds w u = Some d \<Longrightarrow> u < fresh w"
    and inv_counted: "mem w p = Some ob \<Longrightarrow> p \<notin> X \<Longrightarrow> counted (uds w) p ob"
    and inv_building: "p \<in> X \<Longrightarrow> handles (uds w) p = {}"
    and inv_wrapped: "uds w u = Some d \<Longrightarrow> meta d = Some (mt k) \<Longrightarrow> wrapped (mem w) k d"
  using assms by (simp_all add: rc_inv_def)

lemma invI:
  assumes "0 < fresh w" and "mem w 0 = None"
    and "\<And>p ob. mem w p = Some ob \<Longrightarrow> p < fresh w" and "\<And>u d. uds w u = Some d \<Longrightarrow> u < fresh w"
    and "\<And>p ob. mem w p = Some ob \<Longrightarrow> p \<notin> X \<Longrightarrow> counted (uds w) p ob"
    and "\<And>p. p \<in> X \<Longrightarrow> handles (uds w) p = {}"
    and "\<And>u d k. uds w u = Some d \<Longrightarrow> meta d = Some (mt k) \<Longrightarrow> wrapped (mem w) k d"
  shows "rc_inv X w"
  using assms by (simp add: rc_inv_def)

lemma inv_frame:
  assumes "rc_inv X w" and "mem w' = mem w" and "uds w' = uds w" and "fresh w \<le> fresh w'"
  shows "rc_inv X w'"
  using assms by (auto simp: rc_inv_def intro: order_less_le_trans)

lemma inv_nonzero: "rc_inv X w \<Longrightarrow> mem w p = Some ob \<Longrightarrow> p \<noteq> 0"
  using inv_null by (metis option.distinct(1))

lemma inv_upd [simp]:
  "rc_inv X (setst L s w) = rc_inv X w" "rc_inv X (w\<lparr>trace := t\<rparr>) = rc_inv X w"
  "rc_inv X (w\<lparr>stacks := z\<rparr>) = rc_inv X w"
  by (simp_all add: rc_inv_def)

lemma keeps_inv_quiet:
  assumes "\<And>M U n. keeps (heap M U n) m"
  shows "keeps (rc_inv X) m"
proof (rule keepsI)
  fix w assume "rc_inv X w"
  moreover have "heap (mem w) (uds w) (fresh w) (snd (m w))"
    by (rule keepsD [OF assms]) (simp add: heap_def)
  ultimately show "rc_inv X (snd (m w))"
    by (auto simp: heap_def intro: inv_frame)
qed

lemma finite_handles: "rc_inv X w \<Longrightarrow> finite (handles (uds w) p)"
  by (rule finite_subset [of _ "{..< fresh w}"]) (auto simp: rc_inv_def handles_def)

lemma handles_upd [simp]:
  "u \<notin> handles U p \<Longrightarrow> handles (U(u \<mapsto> d)) p = (if holds d p then insert u (handles U p) else handles U p)"
  by (auto simp: handles_def)

lemma handles_remove: "handles (U(u := None)) p = handles U p - {u}"
  by (auto simp: handles_def)

lemma handle_unique: "u \<in> handles U p \<Longrightarrow> u \<in> handles U q \<Longrightarrow> p = q"
  by (auto simp: handles_def holds_def)

lemma holds_wrapper [simp]: "holds (wrapper (mt k) p) q \<longleftrightarrow> p = q"
  by (auto simp: holds_def)

lemma holds_meta: "holds d p \<Longrightarrow> \<exists>k. meta d = Some (mt k)"
  by (auto simp: holds_def)

lemma word64_eq_1: "n < 2 ^ 64 \<Longrightarrow> (of_nat n :: refcount) = 1 \<longleftrightarrow> n = 1"
proof -
  assume "n < 2 ^ 64"
  then have "unat (of_nat n :: refcount) = n"
    by (simp add: unat_of_nat take_bit_nat_eq_self)
  then show ?thesis by (metis of_nat_1 unat_1)
qed

text \<open>A live wrapper gives its method a live object of its kind.\<close>

lemma inv_wrapper:
  assumes "rc_inv X w" and "uds w u = Some d" and "meta d = Some (mt k)"
  obtains p ob where "get_uv COOKIE d = Some (LLightuserdata p)" and "mem w p = Some ob"
    and "kind_of (body ob) = k" and "p \<noteq> 0" and "p \<notin> X" and "counted (uds w) p ob"
    and "u \<in> handles (uds w) p"
proof -
  from inv_wrapped [OF assms] obtain p ob where p: "get_uv COOKIE d = Some (LLightuserdata p)"
      "mem w p = Some ob" "kind_of (body ob) = k"
    by (auto simp: wrapped_def)
  have u: "u \<in> handles (uds w) p"
    using assms p by (auto simp: handles_def holds_def)
  then have "p \<notin> X" using inv_building [OF assms(1)] by blast
  moreover have "p \<noteq> 0" using p inv_null [OF assms(1)] by (metis option.distinct(1))
  ultimately show ?thesis using that p u inv_counted [OF assms(1)] by blast
qed

lemma holds_wrapped: "rc_inv X w \<Longrightarrow> uds w u = Some d \<Longrightarrow> holds d p \<Longrightarrow> \<exists>ob. mem w p = Some ob"
  unfolding holds_def by (metis inv_wrapped wrapped_def lval.inject(2) option.inject)

lemma handles_live: "rc_inv X w \<Longrightarrow> mem w p = None \<Longrightarrow> handles (uds w) p = {}"
  unfolding handles_def by (auto dest: holds_wrapped)

lemma fresh_no_handle: "rc_inv X w \<Longrightarrow> fresh w \<notin> handles (uds w) q"
  using inv_uds_less by (fastforce simp: handles_def)

section \<open>Construction\<close>

lemma wrapped_upd:
  "wrapped M k d \<Longrightarrow> (\<And>ob. M p = Some ob \<Longrightarrow> kind_of (body ob') = kind_of (body ob)) \<Longrightarrow>
   wrapped (M(p \<mapsto> ob')) k d"
  unfolding wrapped_def by (metis fun_upd_apply)

lemma inv_malloc:
  assumes "rc_inv {} w"
  shows "rc_inv {fresh w} (w\<lparr>mem := (mem w)(fresh w \<mapsto> ob), fresh := Suc (fresh w)\<rparr>)"
proof -
  have none: "mem w (fresh w) = None"
    using inv_mem_less [OF assms] by (metis less_irrefl not_Some_eq)
  show ?thesis
  proof (rule invI, goal_cases)
    case (3 p ob) then show ?case using inv_mem_less [OF assms] by (auto split: if_splits simp: less_SucI)
  next
    case (4 u d) then show ?case using inv_uds_less [OF assms] by (auto simp: less_SucI)
  next
    case (5 p ob) then show ?case using inv_counted [OF assms] by (auto split: if_splits)
  next
    case (6 p) then show ?case using handles_live [OF assms none] by simp
  next
    case (7 u d k) then show ?case using inv_wrapped [OF assms] none by (auto intro!: wrapped_upd)
  qed (use invD(1,2) [OF assms] in auto)
qed

lemma inv_free:
  assumes "rc_inv {p} w"
  shows "rc_inv {} (w\<lparr>mem := (mem w)(p := None)\<rparr>)"
proof (rule invI, goal_cases)
  case (7 u d k)
  then have "wrapped (mem w) k d" and "\<not> holds d p"
    using inv_wrapped [OF assms] inv_building [OF assms, of p] by (auto simp: handles_def)
  with 7 show ?case by (auto simp: wrapped_def holds_def)
qed (use invD [OF assms] in \<open>auto split: if_splits\<close>)

lemma inv_store:
  assumes "rc_inv X w" and "mem w p = Some ob" and "p \<in> X" and "kind_of (body ob') = kind_of (body ob)"
  shows "rc_inv X (w\<lparr>mem := (mem w)(p \<mapsto> ob')\<rparr>)"
proof (rule invI, goal_cases)
  case (7 u d k)
  then show ?case using inv_wrapped [OF assms(1)] assms(2,4) by (auto intro!: wrapped_upd)
qed (use invD(1-6) [OF assms(1)] inv_nonzero [OF assms(1,2)] assms(2,3) in \<open>auto split: if_splits\<close>)

lemma inv_publish:
  assumes "rc_inv {p} w" and "mem w p = Some ob" and "ready (body ob)" and "refs ob = Some 1"
    and "kind_of (body ob) = k"
  shows "rc_inv {} (w\<lparr>uds := (uds w)(fresh w \<mapsto> wrapper (mt k) p), fresh := Suc (fresh w)\<rparr>)"
proof (rule invI, goal_cases)
  case (3 q ob) then show ?case using inv_mem_less [OF assms(1)] by (auto simp: less_SucI)
next
  case (4 u d) then show ?case using inv_uds_less [OF assms(1)] by (auto split: if_splits simp: less_SucI)
next
  case (5 q ob')
  then show ?case
    using fresh_no_handle [OF assms(1)] inv_building [OF assms(1), of p] inv_counted [OF assms(1), of q]
      assms(2-4)
    by (auto simp: counted_def)
next
  case (7 u d k')
  then show ?case
    using inv_wrapped [OF assms(1)] assms(2,5) by (auto split: if_splits simp: wrapped_def)
qed (use invD [OF assms(1)] in auto)

section \<open>Retaining and releasing\<close>

lemma inv_retain:
  assumes "rc_inv {} w" and "mem w p = Some ob" and "kind_of (body ob) = k" and "refs ob = Some r"
  shows "rc_inv {} (w\<lparr>mem := (mem w)(p \<mapsto> ob\<lparr>refs := Some (r + 1)\<rparr>),
                   uds := (uds w)(fresh w \<mapsto> wrapper (mt k) p), fresh := Suc (fresh w)\<rparr>)"
proof (rule invI, goal_cases)
  case (3 q ob')
  then show ?case using inv_mem_less [OF assms(1)] assms(2) by (auto split: if_splits simp: less_SucI)
next
  case (4 u d) then show ?case using inv_uds_less [OF assms(1)] by (auto split: if_splits simp: less_SucI)
next
  case (5 q ob')
  have no: "fresh w \<notin> handles (uds w) q" by (rule fresh_no_handle [OF assms(1)])
  then have "card (insert (fresh w) (handles (uds w) q)) = Suc (card (handles (uds w) q))"
    using finite_handles [OF assms(1)] by simp
  with 5 no show ?case
    using inv_counted [OF assms(1), of q] assms(2,4) by (auto simp: counted_def split: if_splits)
next
  case (7 u d k')
  then show ?case
    using inv_wrapped [OF assms(1), of u d k'] assms(2,3)
    by (auto split: if_splits intro!: wrapped_upd simp: wrapped_def)
qed (use invD(1-2) [OF assms(1)] inv_nonzero [OF assms(1,2)] in auto)

text \<open>
  A wrapper is collected: its finalizer releases the object, then the userdata is gone. The
  count is compared with 1 in 64 bits, so there must be fewer than \<open>2 ^ 64\<close> wrappers.
\<close>

lemma inv_release_last:
  assumes "rc_inv {} w" and "handles (uds w) p = {u}" and "uds w u = Some d" and "meta d = Some (mt k)"
  shows "rc_inv {} (w\<lparr>mem := (mem w)(p := None), uds := (uds w)(u := None)\<rparr>)"
proof (rule invI, goal_cases)
  case (5 q ob')
  moreover have "u \<notin> handles (uds w) q" if "q \<noteq> p"
    using that assms(2) handle_unique [of u "uds w" p q] by auto
  ultimately show ?case
    using inv_counted [OF assms(1), of q ob'] by (auto simp: counted_def handles_remove split: if_splits)
next
  case (7 v d' k')
  then have "\<not> holds d' p" using assms(2) by (auto simp: handles_def split: if_splits)
  with 7 inv_wrapped [OF assms(1), of v d' k'] show ?case
    by (auto simp: wrapped_def holds_def split: if_splits)
qed (use invD [OF assms(1)] in \<open>auto split: if_splits\<close>)

lemma inv_release_keep:
  assumes "rc_inv {} w" and "u \<in> handles (uds w) p" and "handles (uds w) p \<noteq> {u}"
    and "mem w p = Some ob" and "refs ob = Some r"
  shows "rc_inv {} (w\<lparr>mem := (mem w)(p \<mapsto> ob\<lparr>refs := Some (r - 1)\<rparr>), uds := (uds w)(u := None)\<rparr>)"
proof (rule invI, goal_cases)
  case (5 q ob')
  have "u \<notin> handles (uds w) q" if "q \<noteq> p"
    using that assms(2) handle_unique [of u "uds w" p q] by auto
  moreover have "of_nat (card (handles (uds w) p - {u})) = (of_nat (card (handles (uds w) p)) - 1 :: 64 word)"
    using assms(2) finite_handles [OF assms(1)] by (simp add: card_Diff_singleton card_gt_0_iff)
      (metis One_nat_def Suc_leI assms(2) card_gt_0_iff empty_iff of_nat_1 of_nat_diff)
  ultimately show ?case
    using 5 inv_counted [OF assms(1), of q] assms(2-5)
    by (auto simp: counted_def handles_remove split: if_splits)
next
  case (7 v d' k')
  then show ?case
    using inv_wrapped [OF assms(1), of v d' k'] assms(4) by (auto split: if_splits intro!: wrapped_upd)
qed (use invD(1-4) [OF assms(1)] inv_nonzero [OF assms(1,4)] assms(4) in \<open>auto split: if_splits\<close>)

end
