(* ===== verification/Pthread_Objects.thy ===== *)
theory Pthread_Objects
  imports Pthread_Refs
begin

text \<open>
  The constructors of the shared objects keep the reference-counting invariant, on their error
  paths too: whatever was allocated before the failure is freed again.
\<close>

section \<open>Constructors keep the invariant\<close>

text \<open>After undefined behaviour nothing is claimed; any other outcome keeps the invariant.\<close>

definition unless_undef :: "exc \<Rightarrow> world \<Rightarrow> bool" where
  "unless_undef e w \<longleftrightarrow> e \<noteq> Undef \<longrightarrow> rc_inv {} w"

abbreviation sound :: "'a lua \<Rightarrow> bool" where
  "sound m \<equiv> valid (rc_inv {}) m (\<lambda>_. rc_inv {}) unless_undef"

text \<open>A new object before its first wrapper.\<close>

definition building :: "rcbody \<Rightarrow> refcount option \<Rightarrow> addr \<Rightarrow> world \<Rightarrow> bool" where
  "building b r p w \<longleftrightarrow> rc_inv {p} w \<and> mem w p = Some \<lparr>body = b, refs = r\<rparr>"

named_theorems sound_rules
  \<open>rules for constructors\<close>

lemma sound_keeps: "keeps (rc_inv {}) m \<Longrightarrow> sound m"
  by (auto simp: valid_def keeps_def unless_undef_def split: prod.split sum.split)

lemma sound_quiet: "(\<And>M U n. keeps (heap M U n) m) \<Longrightarrow> sound m"
  by (rule sound_keeps) (rule keeps_inv_quiet)

lemma sound_malloc [sound_rules]:
  assumes "sound m" and "\<And>p. p \<noteq> 0 \<Longrightarrow> valid (building b None p) (f p) (\<lambda>_. rc_inv {}) unless_undef"
  shows "sound (lbind (malloc E b) (\<lambda>p. if p = 0 then m else f p))"
proof (rule validI)
  fix w assume rc_inv: "rc_inv {} w"
  let ?w1 = "w\<lparr>trace := (''malloc'', []) # trace w\<rparr>"
  let ?w2 = "?w1\<lparr>mem := (mem ?w1)(fresh ?w1 \<mapsto> \<lparr>body = b, refs = None\<rparr>), fresh := Suc (fresh ?w1)\<rparr>"
  have "rc_inv {} ?w1" using rc_inv by simp
  then have "building b None (fresh w) ?w2" and "fresh w \<noteq> 0"
    using inv_malloc [of ?w1 "\<lparr>body = b, refs = None\<rparr>"] inv_fresh [OF rc_inv]
    by (simp_all add: building_def)
  with assms(2) [of "fresh w"] assms(1) \<open>rc_inv {} ?w1\<close>
  show "case lbind (malloc E b) (\<lambda>p. if p = 0 then m else f p) w of
      (Inl e, w') \<Rightarrow> unless_undef e w' | (Inr a, w') \<Rightarrow> rc_inv {} w'"
    by (simp add: malloc_def lua_run valid_def split: if_splits)
qed

text \<open>Calls on an object under construction: they end with a value, or are undefined.\<close>

definition undef_only :: "'a lua \<Rightarrow> bool" where
  "undef_only m \<longleftrightarrow> (\<forall>w e w'. m w = (Inl e, w') \<longrightarrow> e = Undef)"

lemma building_quiet:
  assumes "\<And>M U n. keeps (heap M U n) m" and "undef_only m"
    and "\<And>a. valid (building b r p) (f a) (\<lambda>_. rc_inv {}) unless_undef"
  shows "valid (building b r p) (lbind m f) (\<lambda>_. rc_inv {}) unless_undef"
proof (rule valid_lbind [OF _ assms(3)], rule validI)
  fix w assume bu: "building b r p w"
  have h: "heap (mem w) (uds w) (fresh w) (snd (m w))"
    by (rule keepsD [OF assms(1)]) (simp add: heap_def)
  with bu have "building b r p (snd (m w))"
    by (auto simp: building_def heap_def intro: inv_frame)
  then show "case m w of (Inl e, w') \<Rightarrow> unless_undef e w' | (Inr a, w') \<Rightarrow> building b r p w'"
    using assms(2) by (auto simp: undef_only_def unless_undef_def split: prod.split sum.split)
qed

lemma undef_only_calls [simp]:
  "undef_only (ccall E f as)" "undef_only (ccall_rc E f as)" "undef_only (objcall_rc E k p f as)"
  "undef_only (lua_close L)"
  by (auto simp: undef_only_def ccall_run ccall_rc_run objcall_rc_def objcall_def seq_def lbind_def
      deref_def lua_close_def split: option.splits if_splits)

lemma building_ccall [sound_rules]:
  "(\<And>a. valid (building b r p) (f a) (\<lambda>_. rc_inv {}) unless_undef) \<Longrightarrow>
   valid (building b r p) (lbind (ccall E g as) f) (\<lambda>_. rc_inv {}) unless_undef"
  by (rule building_quiet) (simp_all add: keeps_external)

lemma building_ccall_rc [sound_rules]:
  "(\<And>a. valid (building b r p) (f a) (\<lambda>_. rc_inv {}) unless_undef) \<Longrightarrow>
   valid (building b r p) (lbind (ccall_rc E g as) f) (\<lambda>_. rc_inv {}) unless_undef"
  by (rule building_quiet) (simp_all add: keeps_external)

lemma building_objcall_rc [sound_rules]:
  "(\<And>a. valid (building b r p) (f a) (\<lambda>_. rc_inv {}) unless_undef) \<Longrightarrow>
   valid (building b r p) (lbind (objcall_rc E k q g as) f) (\<lambda>_. rc_inv {}) unless_undef"
  by (rule building_quiet) (simp_all add: keeps_objcall)

lemma building_objcall_seq [sound_rules]:
  "valid (building b r p) m (\<lambda>_. rc_inv {}) unless_undef \<Longrightarrow>
   valid (building b r p) (seq (objcall_rc E k q g as) m) (\<lambda>_. rc_inv {}) unless_undef"
  unfolding seq_def by (rule building_objcall_rc)

lemma building_close_seq [sound_rules]:
  "valid (building b r p) m (\<lambda>_. rc_inv {}) unless_undef \<Longrightarrow>
   valid (building b r p) (seq (lua_close L) m) (\<lambda>_. rc_inv {}) unless_undef"
  unfolding seq_def by (rule building_quiet) (simp_all add: keeps_states)

lemma building_if [sound_rules]:
  "(c \<Longrightarrow> valid (building b r p) m Q R) \<Longrightarrow> (\<not> c \<Longrightarrow> valid (building b r p) m' Q R) \<Longrightarrow>
   valid (building b r p) (if c then m else m') Q R"
  by simp

lemma building_free [sound_rules]:
  assumes "sound m"
  shows "valid (building b r p) (seq (free p) m) (\<lambda>_. rc_inv {}) unless_undef"
  unfolding seq_def
proof (rule valid_lbind [where A = "\<lambda>_. rc_inv {}"], rule validI)
  fix w assume "building b r p w"
  then show "case free p w of (Inl e, w') \<Rightarrow> unless_undef e w' | (Inr a, w') \<Rightarrow> rc_inv {} w'"
    by (simp add: building_def free_def inv_free)
qed (rule assms)

lemma building_store [sound_rules]:
  assumes "valid (building b' r p) m (\<lambda>_. rc_inv {}) unless_undef" and "kind_of b' = kind_of b"
  shows "valid (building b r p) (seq (store k p (body_update (\<lambda>_. b'))) m) (\<lambda>_. rc_inv {}) unless_undef"
  unfolding seq_def
proof (rule valid_lbind [where A = "\<lambda>_. building b' r p"], rule validI)
  fix w assume w: "building b r p w"
  then show "case store k p (body_update (\<lambda>_. b')) w of
      (Inl e, w') \<Rightarrow> unless_undef e w' | (Inr a, w') \<Rightarrow> building b' r p w'"
    using inv_store [of "{p}" w p "\<lparr>body = b, refs = r\<rparr>" "\<lparr>body = b', refs = r\<rparr>"] assms(2)
    by (auto simp: building_def store_def deref_def lbind_def unless_undef_def)
qed (rule assms(1))

lemma building_publish [sound_rules]:
  assumes "ready b" and "m = mt (kind_of b)"
  shows "valid (building b r p) (seq (refcount_init k p 1) (new L p m)) (\<lambda>_. rc_inv {}) unless_undef"
proof (rule validI)
  fix w assume w: "building b r p w"
  let ?ob = "\<lparr>body = b, refs = Some 1\<rparr>"
  let ?w = "w\<lparr>mem := (mem w)(p \<mapsto> ?ob)\<rparr>"
  have rc_inv: "rc_inv {p} ?w"
    using w inv_store [of "{p}" w p "\<lparr>body = b, refs = r\<rparr>" ?ob] by (simp add: building_def)
  have pub: "rc_inv {} (?w\<lparr>uds := (uds ?w)(fresh ?w \<mapsto> wrapper m p), fresh := Suc (fresh ?w)\<rparr>)"
    unfolding assms(2) by (rule inv_publish [OF rc_inv, where ob = ?ob]) (simp_all add: assms(1))
  show "case seq (refcount_init k p 1) (new L p m) w of
      (Inl e, w') \<Rightarrow> unless_undef e w' | (Inr a, w') \<Rightarrow> rc_inv {} w'"
  proof (cases "kind_of b = k")
    case False
    with w show ?thesis
      by (simp add: building_def refcount_init_def store_def deref_def lua_run unless_undef_def)
  next
    case True
    then have init: "refcount_init k p 1 w = (Inr (), ?w)"
      using w by (simp add: building_def lua_run)
    show ?thesis
    proof (cases "stacks w L")
      case None
      then show ?thesis
        using init by (simp add: lua_run new_def lua_newuserdatauv_def lua_push_def modst_def unless_undef_def)
    next
      case (Some s)
      with init pub show ?thesis by (simp add: lua_run)
    qed
  qed
qed

section \<open>The constructors\<close>

lemma sound_seq [sound_rules]: "sound m \<Longrightarrow> sound k \<Longrightarrow> sound (seq m k)"
  unfolding seq_def by (rule valid_lbind)

lemma sound_lbind [sound_rules]: "sound m \<Longrightarrow> (\<And>a. sound (f a)) \<Longrightarrow> sound (lbind m f)"
  by (rule valid_lbind)

lemma sound_if [sound_rules]:
  "(c \<Longrightarrow> sound m) \<Longrightarrow> (\<not> c \<Longrightarrow> sound k) \<Longrightarrow> sound (if c then m else k)"
  by simp

lemma sound_simple_constructors:
  "sound (l_pthread_once_new E L)" "sound (l_pthread_self E L)" "sound (l_pthread_rendezvous_new E L)"
  unfolding l_pthread_once_new_def l_pthread_self_def l_pthread_rendezvous_new_def set_waiter_def
  by (intro sound_rules; (rule sound_quiet, intro keeps_rules; fail)?; simp)+

lemma sound_attr_constructors:
  "sound (l_pthread_mutex_new E L)" "sound (l_pthread_cond_new E L)" "sound (l_pthread_rwlock_new E L)"
  "sound (l_pthread_barrier_new E L)" "sound (l_pthread_key_create E L)"
  unfolding l_pthread_mutex_new_def l_pthread_cond_new_def l_pthread_rwlock_new_def
    l_pthread_barrier_new_def l_pthread_key_create_def
  by (intro sound_rules; (rule sound_quiet, intro keeps_rules; fail)?; simp)+

lemma sound_case_prod [sound_rules]: "(\<And>a b. sound (f a b)) \<Longrightarrow> sound (case v of (a, b) \<Rightarrow> f a b)"
  by (cases v) simp

lemma building_started [sound_rules]:
  assumes "c \<Longrightarrow> valid (building b r p) (seq m k) (\<lambda>_. rc_inv {}) unless_undef"
    and "\<not> c \<Longrightarrow> valid (building b r p) k (\<lambda>_. rc_inv {}) unless_undef"
  shows "valid (building b r p) (seq (if c then m else ret ()) k) (\<lambda>_. rc_inv {}) unless_undef"
  using assms by (simp add: seq_def)

lemma sound_create: "sound (l_pthread_create E L)"
  unfolding l_pthread_create_def
  by (intro sound_rules; (rule sound_quiet, intro keeps_rules; fail)?; simp)

end
