(* ===== verification/Pthread_Sharing.thy ===== *)
theory Pthread_Sharing
  imports Pthread_Objects
begin

text \<open>
  The interface by which an object is shared between Lua states, as a locale: \<^verbatim>\<open>cookie\<close> gives the
  address, \<^verbatim>\<open>retain\<close> makes one more wrapper of an address, \<^verbatim>\<open>__gc\<close> gives a wrapper's reference back.
  Its lemmas are proved once from the laws and hold for each of the eight kinds of objects by
  interpretation.
\<close>

section \<open>The interface\<close>

text \<open>
  The collector of Lua finalizes an unreachable userdata by calling \<^verbatim>\<open>__gc\<close> with it, in the state
  \<open>L\<close>, and then frees it.
\<close>

definition collect :: "cfunction \<Rightarrow> env \<Rightarrow> lstate \<Rightarrow> nat \<Rightarrow> world \<Rightarrow> (exc + nat) \<times> world" where
  "collect gc E L u w = (case gc E L (setst L [LUserdata u] w) of
     (r, w') \<Rightarrow> (r, w'\<lparr>uds := (uds w')(u := None)\<rparr>))"

locale refcounted =
  fixes k :: rckind and retain gc cookie :: cfunction
  assumes retain_run: "stacks w L = Some (LLightuserdata p # s) \<Longrightarrow> mem w p = Some ob \<Longrightarrow>
      kind_of (body ob) = k \<Longrightarrow> refs ob = Some r \<Longrightarrow>
      retain E L w = (Inr 1, setst L (LLightuserdata p # s @ [LUserdata (fresh w)])
        (w\<lparr>mem := (mem w)(p \<mapsto> ob\<lparr>refs := Some (r + 1)\<rparr>),
           uds := (uds w)(fresh w \<mapsto> wrapper (mt k) p), fresh := Suc (fresh w)\<rparr>))"
    and cookie_run: "stacks w L = Some s \<Longrightarrow> cookie_at w s 1 (mt k) = Inr p \<Longrightarrow>
      cookie E L w = (Inr 1, setst L (s @ [LLightuserdata p]) w)"
    and gc_keep: "stacks w L = Some s \<Longrightarrow> cookie_at w s 1 (mt k) = Inr p \<Longrightarrow> mem w p = Some ob \<Longrightarrow>
      kind_of (body ob) = k \<Longrightarrow> refs ob = Some r \<Longrightarrow> r \<noteq> 1 \<Longrightarrow>
      gc E L w = (Inr 0, w\<lparr>mem := (mem w)(p \<mapsto> ob\<lparr>refs := Some (r - 1)\<rparr>)\<rparr>)"
    and gc_last: "stacks w L = Some s \<Longrightarrow> cookie_at w s 1 (mt k) = Inr p \<Longrightarrow> mem w p = Some ob \<Longrightarrow>
      kind_of (body ob) = k \<Longrightarrow> refs ob = Some 1 \<Longrightarrow> ready (body ob) \<Longrightarrow>
      \<exists>r calls. gc E L w = (r, w\<lparr>mem := (mem w)(p := None), trace := calls @ trace w\<rparr>)
        \<and> (r = Inr 0 \<or> (\<exists>msg. r = Inl (LError msg)))"
begin

text \<open>
  Collecting a wrapper keeps the invariant; the object is freed with its last wrapper and not
  before.
\<close>

lemma collect_inv:
  assumes inv: "rc_inv {} w" and u: "uds w u = Some d" "meta d = Some (mt k)"
    and p: "get_uv COOKIE d = Some (LLightuserdata p)" and few: "card (handles (uds w) p) < 2 ^ 64"
  shows "rc_inv {} (snd (collect gc E L u w))
       \<and> (mem (snd (collect gc E L u w)) p = None \<longleftrightarrow> handles (uds w) p = {u})
       \<and> (\<forall>q. q \<noteq> p \<longrightarrow> mem (snd (collect gc E L u w)) q = mem w q)
       \<and> fst (collect gc E L u w) \<noteq> Inl Undef"
proof -
  from inv_wrapper [OF inv u] p obtain ob where ob: "mem w p = Some ob" "kind_of (body ob) = k" "p \<noteq> 0"
      "counted (uds w) p ob" "u \<in> handles (uds w) p"
    by (metis lval.inject(2) option.inject)
  let ?n = "card (handles (uds w) p)"
  have fin: "finite (handles (uds w) p)" by (rule finite_handles [OF inv])
  have r: "refs ob = Some (of_nat ?n)" "ready (body ob)" using ob(4) by (simp_all add: counted_def)
  have ck: "cookie_at (setst L [LUserdata u] w) [LUserdata u] 1 (mt k) = Inr p"
    using u p ob(3) by (simp add: cookie_at_def ud_at_def)
  show ?thesis
  proof (cases "handles (uds w) p = {u}")
    case True
    then have "refs ob = Some 1" using r(1) by simp
    from gc_last [of "setst L [LUserdata u] w" L, OF _ ck _ ob(2) this r(2), of E] ob(1)
    obtain res calls where run: "gc E L (setst L [LUserdata u] w) =
          (res, (setst L [LUserdata u] w)\<lparr>mem := (mem w)(p := None), trace := calls @ trace w\<rparr>)"
        and res: "res = Inr 0 \<or> (\<exists>msg. res = Inl (LError msg))"
      by auto
    have "rc_inv {} (w\<lparr>mem := (mem w)(p := None), uds := (uds w)(u := None)\<rparr>)"
      by (rule inv_release_last [OF inv True u])
    then have "rc_inv {} (snd (collect gc E L u w))"
      using run by (auto simp: collect_def setst_def intro: inv_frame)
    with run res True show ?thesis by (auto simp: collect_def)
  next
    case False
    then have "?n \<noteq> 1"
      using ob(5) by (metis card_1_singletonE singletonD)
    then have "(of_nat ?n :: refcount) \<noteq> 1"
      using word64_eq_1 [OF few] by simp
    from gc_keep [of "setst L [LUserdata u] w" L, OF _ ck _ ob(2) r(1) this, of E] ob(1)
    have run: "gc E L (setst L [LUserdata u] w) =
        (Inr 0, (setst L [LUserdata u] w)\<lparr>mem := (mem w)(p \<mapsto> ob\<lparr>refs := Some (of_nat ?n - 1)\<rparr>)\<rparr>)"
      by simp
    have "rc_inv {} (w\<lparr>mem := (mem w)(p \<mapsto> ob\<lparr>refs := Some (of_nat ?n - 1)\<rparr>), uds := (uds w)(u := None)\<rparr>)"
      by (rule inv_release_keep [OF inv ob(5) False ob(1) r(1)])
    then have "rc_inv {} (snd (collect gc E L u w))"
      using run by (auto simp: collect_def setst_def intro: inv_frame)
    with run False show ?thesis by (auto simp: collect_def)
  qed
qed

text \<open>Retaining an address that a live wrapper holds keeps the invariant.\<close>

lemma retain_inv:
  assumes inv: "rc_inv {} w" and u: "uds w u = Some d" "meta d = Some (mt k)"
    and p: "get_uv COOKIE d = Some (LLightuserdata p)"
  shows "rc_inv {} (snd (retain E L (setst L [LLightuserdata p] w)))
       \<and> fst (retain E L (setst L [LLightuserdata p] w)) = Inr 1"
proof -
  from inv_wrapper [OF inv u] p obtain ob where ob: "mem w p = Some ob" "kind_of (body ob) = k"
      "counted (uds w) p ob"
    by (metis lval.inject(2) option.inject)
  then obtain r where r: "refs ob = Some r" by (auto simp: counted_def)
  let ?w = "setst L [LLightuserdata p] w"
  have "retain E L ?w = (Inr 1, setst L [LLightuserdata p, LUserdata (fresh w)]
      (?w\<lparr>mem := (mem w)(p \<mapsto> ob\<lparr>refs := Some (r + 1)\<rparr>),
           uds := (uds w)(fresh w \<mapsto> wrapper (mt k) p), fresh := Suc (fresh w)\<rparr>))"
    using retain_run [of ?w L p "[]" ob r E] ob r by simp
  moreover have "rc_inv {} (w\<lparr>mem := (mem w)(p \<mapsto> ob\<lparr>refs := Some (r + 1)\<rparr>),
                   uds := (uds w)(fresh w \<mapsto> wrapper (mt k) p), fresh := Suc (fresh w)\<rparr>)"
    by (rule inv_retain [OF inv ob(1,2) r])
  ultimately show ?thesis by (simp add: setst_def)
qed

text \<open>
  Sharing: the cookie of a wrapper in one state, retained in another, is a second wrapper of the
  same object, whose count has grown by one.
\<close>

lemma share:
  assumes inv: "rc_inv {} w" and u: "uds w u = Some d" "meta d = Some (mt k)"
    and st: "stacks w L = Some [LUserdata u]"
  shows "\<exists>p w1 w2. cookie E L w = (Inr 1, w1) \<and> stacks w1 L = Some [LUserdata u, LLightuserdata p]
       \<and> retain E L' (setst L' [LLightuserdata p] w1) = (Inr 1, w2)
       \<and> stacks w2 L' = Some [LLightuserdata p, LUserdata (fresh w)]
       \<and> handles (uds w2) p = insert (fresh w) (handles (uds w) p) \<and> u \<in> handles (uds w) p
       \<and> u \<noteq> fresh w \<and> rc_inv {} w2"
proof -
  from inv_wrapper [OF inv u] obtain p ob where p: "get_uv COOKIE d = Some (LLightuserdata p)"
      "mem w p = Some ob" "kind_of (body ob) = k" "p \<noteq> 0" "counted (uds w) p ob" "u \<in> handles (uds w) p"
    by metis
  obtain r where r: "refs ob = Some r" using p(5) by (auto simp: counted_def)
  let ?w1 = "setst L [LUserdata u, LLightuserdata p] w"
  have ck: "cookie E L w = (Inr 1, ?w1)"
    using cookie_run [OF st, of p E] u p(1,4) by (simp add: cookie_at_def ud_at_def)
  let ?w2 = "snd (retain E L' (setst L' [LLightuserdata p] ?w1))"
  have re: "retain E L' (setst L' [LLightuserdata p] ?w1) = (Inr 1, ?w2)"
      "stacks ?w2 L' = Some [LLightuserdata p, LUserdata (fresh w)]"
      "uds ?w2 = (uds w)(fresh w \<mapsto> wrapper (mt k) p)"
    using retain_run [of "setst L' [LLightuserdata p] ?w1" L' p "[]" ob r E] p(2,3) r by simp_all
  have "rc_inv {} ?w2" using retain_inv [of ?w1 u d p E L'] inv u p(1) by simp
  moreover have "fresh w \<notin> handles (uds w) p" by (rule fresh_no_handle [OF inv])
  moreover have "u \<noteq> fresh w" using inv_uds_less [OF inv u(1)] by simp
  ultimately show ?thesis using ck re p(6) by auto
qed

end

section \<open>The eight kinds of objects\<close>

lemma checklightuserdata_run [lua_run]:
  "stacks w L = Some (LLightuserdata p # s) \<Longrightarrow> checklightuserdata L 1 w = (Inr p, w)"
  by (simp add: checklightuserdata_def luaL_checktype_def lua_run)

lemma checkcookieuv_run [lua_run]:
  assumes "stacks w L = Some s" and "cookie_at w s i m = Inr p"
  shows "checkcookieuv L i m w = (Inr (), setst L (s @ [LLightuserdata p]) w)"
proof -
  obtain u where u: "ud_at w s i = Some u" "meta (the (uds w u)) = Some m"
      "get_uv COOKIE (the (uds w u)) = Some (LLightuserdata p)"
    using assms(2) by (auto simp: cookie_at_def split: option.splits if_splits lval.splits)
  then show ?thesis
    using assms(1)
    by (simp add: checkcookieuv_def luaL_checkudata_def getcookie_def lua_getiuservalue_def
        luaL_argcheck_def lua_run)
qed

text \<open>The shapes the code repeats for every kind.\<close>

lemma retain_shape:
  "stacks w L = Some (LLightuserdata p # s) \<Longrightarrow> mem w p = Some ob \<Longrightarrow>
   kind_of (body ob) = k \<Longrightarrow> refs ob = Some r \<Longrightarrow>
   lbind (checklightuserdata L 1) (\<lambda>p. seq (refcount_retain k p) (new L p m)) w =
     (Inr 1, setst L (LLightuserdata p # s @ [LUserdata (fresh w)])
        (w\<lparr>mem := (mem w)(p \<mapsto> ob\<lparr>refs := Some (r + 1)\<rparr>),
           uds := (uds w)(fresh w \<mapsto> wrapper m p), fresh := Suc (fresh w)\<rparr>))"
  by (simp add: lua_run)

lemma cookie_shape:
  "stacks w L = Some s \<Longrightarrow> cookie_at w s 1 m = Inr p \<Longrightarrow>
   seq (checkcookieuv L 1 m) (ret 1) w = (Inr 1, setst L (s @ [LLightuserdata p]) w)"
  by (simp add: lua_run)

lemma free_run [lua_run]: "mem w p \<noteq> None \<Longrightarrow> free p w = (Inr (), w\<lparr>mem := (mem w)(p := None)\<rparr>)"
  by (simp add: free_def)

lemma gc_shape_keep:
  "stacks w L = Some s \<Longrightarrow> cookie_at w s 1 m = Inr p \<Longrightarrow> mem w p = Some ob \<Longrightarrow>
   kind_of (body ob) = k \<Longrightarrow> refs ob = Some r \<Longrightarrow> r \<noteq> 1 \<Longrightarrow>
   lbind (checkcookie L 1 m) (\<lambda>p. lbind (refcount_release k p) (\<lambda>last. if last then f p else ret 0)) w =
     (Inr 0, w\<lparr>mem := (mem w)(p \<mapsto> ob\<lparr>refs := Some (r - 1)\<rparr>)\<rparr>)"
  by (simp add: lua_run)

lemma gc_shape_last:
  assumes "stacks w L = Some s" and "cookie_at w s 1 m = Inr p" and "mem w p = Some ob"
    and "kind_of (body ob) = k" and "refs ob = Some 1"
  shows "\<exists>r calls. lbind (checkcookie L 1 m) (\<lambda>p. lbind (refcount_release k p) (\<lambda>last. if last then
           lbind (objcall_rc E k p destroy []) (\<lambda>error. seq (free p)
             (if error \<noteq> 0 then fatal E L destroy error else ret 0)) else ret 0)) w
           = (r, w\<lparr>mem := (mem w)(p := None), trace := calls @ trace w\<rparr>)
         \<and> (r = Inr 0 \<or> (\<exists>msg. r = Inl (LError msg)))"
  using assms by (auto simp: lua_run intro!: exI [of _ "[(destroy, [APtr p])]"])

interpretation thread: refcounted KThread l_pthread_retain l_pthread_gc l_pthread_cookie
proof (unfold_locales, goal_cases)
  case (1 w L p s ob r E)
  then show ?case unfolding l_pthread_retain_def mt.simps by (rule retain_shape)
next
  case (2 w L s p E)
  then show ?case unfolding l_pthread_cookie_def mt.simps by (rule cookie_shape)
next
  case (4 w L s p ob E)
  then show ?case by (auto simp: l_pthread_gc_def lua_run intro!: exI [of _ "[]"])
qed (simp add: l_pthread_gc_def lua_run)

interpretation once: refcounted KOnce l_pthread_once_retain l_pthread_once_gc l_pthread_once_cookie
proof (unfold_locales, goal_cases)
  case (1 w L p s ob r E)
  then show ?case unfolding l_pthread_once_retain_def mt.simps by (rule retain_shape)
next
  case (2 w L s p E)
  then show ?case unfolding l_pthread_once_cookie_def mt.simps by (rule cookie_shape)
next
  case (4 w L s p ob E)
  then show ?case by (auto simp: l_pthread_once_gc_def lua_run intro!: exI [of _ "[]"])
qed (simp add: l_pthread_once_gc_def lua_run)

interpretation mutex: refcounted KMutex l_pthread_mutex_retain l_pthread_mutex_gc l_pthread_mutex_cookie
proof (unfold_locales, goal_cases)
  case (1 w L p s ob r E)
  then show ?case unfolding l_pthread_mutex_retain_def mt.simps by (rule retain_shape)
next
  case (2 w L s p E)
  then show ?case unfolding l_pthread_mutex_cookie_def mt.simps by (rule cookie_shape)
next
  case (3 w L s p ob r E)
  then show ?case unfolding l_pthread_mutex_gc_def mt.simps by (rule gc_shape_keep)
next
  case (4 w L s p ob E)
  then show ?case unfolding l_pthread_mutex_gc_def mt.simps by (intro gc_shape_last)
qed

interpretation cond: refcounted KCond l_pthread_cond_retain l_pthread_cond_gc l_pthread_cond_cookie
proof (unfold_locales, goal_cases)
  case (1 w L p s ob r E)
  then show ?case unfolding l_pthread_cond_retain_def mt.simps by (rule retain_shape)
next
  case (2 w L s p E)
  then show ?case unfolding l_pthread_cond_cookie_def mt.simps by (rule cookie_shape)
next
  case (3 w L s p ob r E)
  then show ?case unfolding l_pthread_cond_gc_def mt.simps by (rule gc_shape_keep)
next
  case (4 w L s p ob E)
  then show ?case unfolding l_pthread_cond_gc_def mt.simps by (intro gc_shape_last)
qed

interpretation rwlock: refcounted KRwlock l_pthread_rwlock_retain l_pthread_rwlock_gc l_pthread_rwlock_cookie
proof (unfold_locales, goal_cases)
  case (1 w L p s ob r E)
  then show ?case unfolding l_pthread_rwlock_retain_def mt.simps by (rule retain_shape)
next
  case (2 w L s p E)
  then show ?case unfolding l_pthread_rwlock_cookie_def mt.simps by (rule cookie_shape)
next
  case (3 w L s p ob r E)
  then show ?case unfolding l_pthread_rwlock_gc_def mt.simps by (rule gc_shape_keep)
next
  case (4 w L s p ob E)
  then show ?case unfolding l_pthread_rwlock_gc_def mt.simps by (intro gc_shape_last)
qed

interpretation barrier: refcounted KBarrier l_pthread_barrier_retain l_pthread_barrier_gc l_pthread_barrier_cookie
proof (unfold_locales, goal_cases)
  case (1 w L p s ob r E)
  then show ?case unfolding l_pthread_barrier_retain_def mt.simps by (rule retain_shape)
next
  case (2 w L s p E)
  then show ?case unfolding l_pthread_barrier_cookie_def mt.simps by (rule cookie_shape)
next
  case (3 w L s p ob r E)
  then show ?case unfolding l_pthread_barrier_gc_def mt.simps by (rule gc_shape_keep)
next
  case (4 w L s p ob E)
  then show ?case unfolding l_pthread_barrier_gc_def mt.simps by (intro gc_shape_last)
qed

interpretation key: refcounted KKey l_pthread_key_retain l_pthread_key_gc l_pthread_key_cookie
proof (unfold_locales, goal_cases)
  case (1 w L p s ob r E)
  then show ?case unfolding l_pthread_key_retain_def mt.simps by (rule retain_shape)
next
  case (2 w L s p E)
  then show ?case unfolding l_pthread_key_cookie_def mt.simps by (rule cookie_shape)
next
  case (3 w L s p ob r E)
  then show ?case unfolding l_pthread_key_gc_def mt.simps by (rule gc_shape_keep)
next
  case (4 w L s p ob E)
  then obtain k where "body ob = Rckey (Some k)" by (cases "body ob") auto
  with 4 show ?case
    by (auto simp: l_pthread_key_gc_def keycall_def lua_run
        intro!: exI [of _ "[(''pthread_key_delete'', [AInt k])]"])
qed

interpretation rendezvous: refcounted KRendezvous l_pthread_rendezvous_retain l_pthread_rendezvous_gc
    l_pthread_rendezvous_cookie
proof (unfold_locales, goal_cases)
  case (1 w L p s ob r E)
  then show ?case unfolding l_pthread_rendezvous_retain_def mt.simps by (rule retain_shape)
next
  case (2 w L s p E)
  then show ?case unfolding l_pthread_rendezvous_cookie_def mt.simps by (rule cookie_shape)
next
  case (3 w L s p ob r E)
  then show ?case unfolding l_pthread_rendezvous_gc_def mt.simps by (rule gc_shape_keep)
next
  case (4 w L s p ob E)
  then show ?case
    by (auto simp: l_pthread_rendezvous_gc_def lua_run
        intro!: exI [of _ "[(''pthread_mutex_destroy'', [APtr p]), (''pthread_cond_destroy'', [APtr p])]"])
qed

end
