(* ===== verification/Pthread_System.thy ===== *)
theory Pthread_System
  imports Pthread_Sharing
begin

text \<open>
  A program that uses the pthread module, as a step relation: its threads call the functions
  and methods the module registers, share objects by \<^verbatim>\<open>cookie\<close> and \<^verbatim>\<open>retain\<close>, and collect wrappers.
  Every world it reaches satisfies the reference-counting invariant.
\<close>

section \<open>The remaining handlers\<close>

lemma keeps_tpack_loops [keeps_rules]:
  "keeps (heap M U n) (tpack_loop L idx i k)" "keeps (heap M U n) (tunpack_loop L idx i k)"
proof (induction k arbitrary: i)
  case 0
  show "keeps (heap M U n) (tpack_loop L idx i 0)" "keeps (heap M U n) (tunpack_loop L idx i 0)" for i
    unfolding tpack_loop.simps tunpack_loop.simps by (rule keeps_ret)+
next
  case (Suc k)
  show "keeps (heap M U n) (tpack_loop L idx i (Suc k))" for i
    unfolding tpack_loop.simps by (intro keeps_rules Suc.IH)
  show "keeps (heap M U n) (tunpack_loop L idx i (Suc k))" for i
    unfolding tunpack_loop.simps by (intro keeps_rules Suc.IH)
qed

lemma keeps_packing [keeps_rules]:
  "keeps (heap M U n) (tpack L k)" "keeps (heap M U n) (tunpack E L j)"
  "keeps (heap M U n) (tpush E L j)" "keeps (heap M U n) (tpop E L j)"
  unfolding tpack_def tunpack_def tpush_def tpop_def by (intro keeps_rules)+

lemma keeps_cleanup_push [keeps_rules]: "keeps (heap M U n) (l_pthread_cleanup_push E L)"
  unfolding l_pthread_cleanup_push_def by (intro keeps_rules)

text \<open>
  Lua code that the module calls, and the other threads while this one is blocked, keep the
  invariant too: they change the heap only by the same steps.
\<close>

definition rely :: "env \<Rightarrow> bool" where
  "rely E \<longleftrightarrow> (\<forall>f as w. rc_inv {} w \<longrightarrow> rc_inv {} (snd (lcall E f as w)))
     \<and> (\<forall>c w. rc_inv {} w \<longrightarrow> rc_inv {} (snd (block E c w)))"

lemma keeps_inv_newanoncpuset: "keeps (rc_inv {}) (newanoncpuset L)"
proof (rule keepsI)
  fix w assume inv: "rc_inv {} w"
  let ?ud = "\<lambda>m. w\<lparr>uds := (uds w)(fresh w \<mapsto> \<lparr>meta = m, uvs = [], blk = None\<rparr>), fresh := Suc (fresh w)\<rparr>"
  have ud: "rc_inv {} (?ud m)" if "m = None \<or> m = Some CPUSET_METATABLE" for m
  proof (rule invI, goal_cases)
    case (5 p ob)
    have "\<not> holds \<lparr>meta = m, uvs = [], blk = None\<rparr> p" using that by (auto simp: holds_def)
    with 5 inv_counted [OF inv, of p ob] fresh_no_handle [OF inv] show ?case by (simp add: counted_def)
  qed (use that invD(1-4,7) [OF inv] in \<open>auto split: if_splits simp: less_SucI\<close>)
  show "rc_inv {} (snd (newanoncpuset L w))"
    by (cases "stacks w L")
      (auto simp: newanoncpuset_def lua_newuserdatauv_def luaL_setmetatable_def lua_push_def modst_def
        lua_run intro: inv_frame [OF ud [of "Some CPUSET_METATABLE"]] inv_frame [OF ud [of None]])
qed

lemma keeps_inv_cpuset_out: "keeps (rc_inv {}) (cpuset_out u cs)"
proof (rule keepsI)
  fix w assume inv: "rc_inv {} w"
  have hold: "holds (blk_update g d) p = holds d p" "wrapped M k (blk_update g d) = wrapped M k d" for g d p M k
    by (simp_all add: holds_def wrapped_def get_uv_def)
  let ?U = "(uds w)(u := map_option (blk_update (\<lambda>_. Some cs)) (uds w u))"
  have "handles ?U p = handles (uds w) p" for p
    by (auto simp: handles_def hold)
  then show "rc_inv {} (snd (cpuset_out u cs w))"
    using inv by (auto simp: cpuset_out_def rc_inv_def counted_def hold)
qed

lemma keeps_inv_pcall:
  assumes "rely E"
  shows "keeps (rc_inv {}) (lua_pcall E L n b)"
proof (rule keepsI)
  fix w assume inv: "rc_inv {} w"
  have "rc_inv {} w'" if "lcall E f as (setst L s w) = (r, w')" for f as s r w'
    using assms inv that unfolding rely_def by (metis inv_upd(1) snd_conv)
  then show "rc_inv {} (snd (lua_pcall E L n b w))"
    using inv
    by (auto simp: lua_pcall_def lua_push_def modst_def lua_run
        split: option.splits prod.splits sum.splits)
qed

lemma keeps_inv_blocking: "rely E \<Longrightarrow> keeps (rc_inv {}) (blocking E f as)"
  by (auto simp: keeps_def blocking_def rely_def split: prod.splits) (metis inv_upd(2) snd_conv)

lemma inv_body:
  assumes "rc_inv X w" and "mem w p = Some ob" and "kind_of b = kind_of (body ob)" and "ready b"
  shows "rc_inv X (w\<lparr>mem := (mem w)(p \<mapsto> ob\<lparr>body := b\<rparr>)\<rparr>)"
proof (rule invI, goal_cases)
  case (5 q ob')
  then show ?case
    using inv_counted [OF assms(1), of q] assms(2,4) by (auto simp: counted_def split: if_splits)
next
  case (7 u d k)
  then show ?case using inv_wrapped [OF assms(1)] assms(2,3) by (auto intro!: wrapped_upd)
qed (use invD(1-4,6) [OF assms(1)] inv_nonzero [OF assms(1,2)] assms(2) in \<open>auto split: if_splits\<close>)

lemma keeps_inv_set_waiter: "keeps (rc_inv {}) (set_waiter rp wt)"
  by (auto simp: keeps_def set_waiter_def store_def deref_def lbind_def inv_body split: option.splits)

lemma quiet_get_waiter: "keeps (heap M U n) (get_waiter rp)"
  unfolding get_waiter_def
  by (intro keeps_lbind keeps_external) (auto split: rcbody.split option.split intro!: keeps_rules)

lemma quiet_exchange: "keeps (heap M U n) (exchange E L l idx narg)"
  unfolding exchange_def by (intro keeps_rules)

lemmas keeps_inv_rules = keeps_inv_newanoncpuset keeps_inv_pcall keeps_inv_blocking
  keeps_inv_set_waiter keeps_inv_quiet [OF quiet_get_waiter] keeps_inv_quiet [OF quiet_exchange]

lemma keeps_inv_cpusets:
  "keeps (rc_inv {}) (l_pthread_getaffinity_np E L)" "keeps (rc_inv {}) (l_pthread_attr_get_np E L)"
  unfolding l_pthread_getaffinity_np_def l_pthread_attr_get_np_def attr_get_def setint_def
  by ((rule keeps_inv_quiet, intro keeps_rules; fail) | rule keeps_inv_newanoncpuset keeps_inv_cpuset_out
      | rule keeps_lbind keeps_seq keeps_if)+

lemma keeps_inv_once_call: "rely E \<Longrightarrow> keeps (rc_inv {}) (l_pthread_once_call E L)"
  unfolding l_pthread_once_call_def once_wrapper_def
  by ((rule keeps_inv_quiet, intro keeps_rules; fail) | rule keeps_inv_pcall, assumption
      | rule keeps_lbind keeps_seq keeps_if)+

lemma keeps_inv_cleanup_pop: "rely E \<Longrightarrow> keeps (rc_inv {}) (l_pthread_cleanup_pop E L)"
  unfolding l_pthread_cleanup_pop_def
  by ((rule keeps_inv_quiet, intro keeps_rules; fail) | rule keeps_inv_pcall, assumption
      | rule keeps_lbind keeps_seq keeps_if)+

lemma keeps_inv_exchange:
  assumes "rely E"
  shows "keeps (rc_inv {}) (l_pthread_rendezvous_exchange E L)"
    "keeps (rc_inv {}) (l_pthread_rendezvous_timedexchange E L)"
  unfolding l_pthread_rendezvous_exchange_def l_pthread_rendezvous_timedexchange_def exchange_second_def
    exchange_first_def exchange_woken_def exchange_timed_woken_def
  by ((rule keeps_inv_quiet, intro keeps_rules; fail) | rule keeps_inv_rules assms
      | rule keeps_lbind keeps_seq keeps_if keeps_Let keeps_case_option)+

section \<open>Everything a program can call\<close>

text \<open>
  All registered functions and methods by name, but \<^verbatim>\<open>retain\<close> and \<^verbatim>\<open>__gc\<close>, whose arguments the
  program must choose with care: they have steps of their own.
\<close>

definition registered :: "env \<Rightarrow> (string \<times> cfunction) list" where
  "registered E = l_pthread_funcs E @ l_pthread_meta E
     @ l_pthread_once_funcs @ l_pthread_once_meta @ l_pthread_mutex_funcs @ l_pthread_mutex_meta
     @ l_pthread_cond_funcs @ l_pthread_cond_meta @ l_pthread_rwlock_funcs @ l_pthread_rwlock_meta
     @ l_pthread_key_funcs @ l_pthread_key_meta @ l_pthread_cleanup_funcs
     @ l_pthread_barrier_funcs @ l_pthread_barrier_meta
     @ l_pthread_rendezvous_funcs @ l_pthread_rendezvous_meta"

definition callable :: "env \<Rightarrow> cfunction \<Rightarrow> bool" where
  "callable E f \<longleftrightarrow>
     (\<exists>name. (name, f) \<in> set (registered E) \<and> name \<noteq> ''retain'' \<and> name \<noteq> ''__gc'')"

lemmas quiet_methods = keeps_equal keeps_thread_methods keeps_process_functions keeps_mutex_methods
  keeps_cond_methods keeps_rwlock_methods keeps_other_methods keeps_cleanup_push

lemmas sound_methods = sound_simple_constructors sound_attr_constructors sound_create
  quiet_methods [THEN sound_quiet] keeps_inv_cpusets [THEN sound_keeps]
  keeps_inv_once_call [THEN sound_keeps] keeps_inv_cleanup_pop [THEN sound_keeps]
  keeps_inv_exchange [THEN sound_keeps]

definition all_sound :: "env \<Rightarrow> lstate \<Rightarrow> (string \<times> cfunction) list \<Rightarrow> bool" where
  "all_sound E L tab \<longleftrightarrow> (\<forall>(name, f) \<in> set tab. name \<noteq> ''retain'' \<longrightarrow> name \<noteq> ''__gc'' \<longrightarrow> sound (f E L))"

lemma all_sound_simps [simp]:
  "all_sound E L []"
  "all_sound E L ((name, f) # tab) \<longleftrightarrow>
     (name \<noteq> ''retain'' \<longrightarrow> name \<noteq> ''__gc'' \<longrightarrow> sound (f E L)) \<and> all_sound E L tab"
  "all_sound E L (tab @ tab') \<longleftrightarrow> all_sound E L tab \<and> all_sound E L tab'"
  by (auto simp: all_sound_def)

lemma all_sound_thread:
  "all_sound E L (l_pthread_funcs E)" "all_sound E L (l_pthread_meta E)"
  by (simp_all add: l_pthread_funcs_def l_pthread_meta_def sound_methods)

lemma all_sound_locks:
  "all_sound E L l_pthread_mutex_funcs" "all_sound E L l_pthread_mutex_meta"
  "all_sound E L l_pthread_cond_funcs" "all_sound E L l_pthread_cond_meta"
  "all_sound E L l_pthread_rwlock_funcs" "all_sound E L l_pthread_rwlock_meta"
  by (simp_all add: l_pthread_mutex_funcs_def l_pthread_mutex_meta_def l_pthread_cond_funcs_def
      l_pthread_cond_meta_def l_pthread_rwlock_funcs_def l_pthread_rwlock_meta_def sound_methods)

lemma all_sound_others:
  assumes "rely E"
  shows "all_sound E L l_pthread_once_funcs" "all_sound E L l_pthread_once_meta"
    "all_sound E L l_pthread_key_funcs" "all_sound E L l_pthread_key_meta"
    "all_sound E L l_pthread_cleanup_funcs"
    "all_sound E L l_pthread_barrier_funcs" "all_sound E L l_pthread_barrier_meta"
    "all_sound E L l_pthread_rendezvous_funcs" "all_sound E L l_pthread_rendezvous_meta"
  by (simp_all add: l_pthread_once_funcs_def l_pthread_once_meta_def l_pthread_key_funcs_def
      l_pthread_key_meta_def l_pthread_cleanup_funcs_def l_pthread_barrier_funcs_def
      l_pthread_barrier_meta_def l_pthread_rendezvous_funcs_def l_pthread_rendezvous_meta_def
      sound_methods assms)

lemma callable_sound:
  assumes "rely E" and "callable E f"
  shows "sound (f E L)"
proof -
  have "all_sound E L (registered E)"
    by (simp add: registered_def all_sound_thread all_sound_locks all_sound_others [OF assms(1)])
  then show ?thesis
    using assms(2) unfolding callable_def all_sound_def by blast
qed

section \<open>Programs\<close>

text \<open>The functions and the metatable of each kind.\<close>

fun funcs_of :: "env \<Rightarrow> rckind \<Rightarrow> (string \<times> cfunction) list" where
  "funcs_of E KThread = l_pthread_funcs E"
| "funcs_of E KOnce = l_pthread_once_funcs"
| "funcs_of E KMutex = l_pthread_mutex_funcs"
| "funcs_of E KCond = l_pthread_cond_funcs"
| "funcs_of E KRwlock = l_pthread_rwlock_funcs"
| "funcs_of E KKey = l_pthread_key_funcs"
| "funcs_of E KBarrier = l_pthread_barrier_funcs"
| "funcs_of E KRendezvous = l_pthread_rendezvous_funcs"

fun meta_of :: "env \<Rightarrow> rckind \<Rightarrow> (string \<times> cfunction) list" where
  "meta_of E KThread = l_pthread_meta E"
| "meta_of E KOnce = l_pthread_once_meta"
| "meta_of E KMutex = l_pthread_mutex_meta"
| "meta_of E KCond = l_pthread_cond_meta"
| "meta_of E KRwlock = l_pthread_rwlock_meta"
| "meta_of E KKey = l_pthread_key_meta"
| "meta_of E KBarrier = l_pthread_barrier_meta"
| "meta_of E KRendezvous = l_pthread_rendezvous_meta"

text \<open>
  A step of a program: a call of a registered function with any arguments in any state; a
  \<^verbatim>\<open>retain\<close> of the cookie of a wrapper that is still alive; the collection of a wrapper, where
  fewer than \<open>2 ^ 64\<close> objects were made so far.
\<close>

inductive pthread_step :: "env \<Rightarrow> world \<Rightarrow> world \<Rightarrow> bool" for E where
  call: "callable E f \<Longrightarrow> f E L (setst L args w) = (r, w') \<Longrightarrow> r \<noteq> Inl Undef \<Longrightarrow> pthread_step E w w'"
| retain: "map_of (funcs_of E k) ''retain'' = Some f \<Longrightarrow> uds w u = Some d \<Longrightarrow> meta d = Some (mt k) \<Longrightarrow>
    get_uv COOKIE d = Some (LLightuserdata p) \<Longrightarrow> f E L (setst L [LLightuserdata p] w) = (r, w') \<Longrightarrow>
    pthread_step E w w'"
| collect: "map_of (meta_of E k) ''__gc'' = Some gc \<Longrightarrow> uds w u = Some d \<Longrightarrow> meta d = Some (mt k) \<Longrightarrow>
    fresh w < 2 ^ 64 \<Longrightarrow> collect gc E L u w = (r, w') \<Longrightarrow> pthread_step E w w'"

definition initial :: "world \<Rightarrow> bool" where
  "initial w \<longleftrightarrow> 0 < fresh w \<and> mem w = (\<lambda>_. None) \<and> uds w = (\<lambda>_. None)"

definition reachable :: "env \<Rightarrow> world \<Rightarrow> bool" where
  "reachable E w \<longleftrightarrow> (\<exists>w0. initial w0 \<and> (pthread_step E)\<^sup>*\<^sup>* w0 w)"

lemma initial_inv: "initial w \<Longrightarrow> rc_inv {} w"
  by (simp add: initial_def rc_inv_def)

text \<open>The retain functions and finalizers that the tables register.\<close>

lemmas retain_registered = l_pthread_funcs_def l_pthread_once_funcs_def l_pthread_mutex_funcs_def
  l_pthread_cond_funcs_def l_pthread_rwlock_funcs_def l_pthread_key_funcs_def
  l_pthread_barrier_funcs_def l_pthread_rendezvous_funcs_def

lemmas gc_registered = l_pthread_meta_def l_pthread_once_meta_def l_pthread_mutex_meta_def
  l_pthread_cond_meta_def l_pthread_rwlock_meta_def l_pthread_key_meta_def
  l_pthread_barrier_meta_def l_pthread_rendezvous_meta_def

lemma retain_of_kind:
  assumes "map_of (funcs_of E k) ''retain'' = Some f" and "rc_inv {} w"
    and "uds w u = Some d" and "meta d = Some (mt k)" and "get_uv COOKIE d = Some (LLightuserdata p)"
  shows "rc_inv {} (snd (f E L (setst L [LLightuserdata p] w)))
       \<and> fst (f E L (setst L [LLightuserdata p] w)) = Inr 1"
  using assms(1) thread.retain_inv [OF assms(2,3) _ assms(5), of E L]
    once.retain_inv [OF assms(2,3) _ assms(5), of E L] mutex.retain_inv [OF assms(2,3) _ assms(5), of E L]
    cond.retain_inv [OF assms(2,3) _ assms(5), of E L] rwlock.retain_inv [OF assms(2,3) _ assms(5), of E L]
    key.retain_inv [OF assms(2,3) _ assms(5), of E L] barrier.retain_inv [OF assms(2,3) _ assms(5), of E L]
    rendezvous.retain_inv [OF assms(2,3) _ assms(5), of E L] assms(4)
  by (cases k) (auto simp: retain_registered)

lemma handles_few: "rc_inv X w \<Longrightarrow> fresh w < 2 ^ 64 \<Longrightarrow> card (handles (uds w) p) < 2 ^ 64"
proof -
  assume inv: "rc_inv X w" and few: "fresh w < 2 ^ 64"
  have "handles (uds w) p \<subseteq> {..< fresh w}"
    using inv_uds_less [OF inv] by (auto simp: handles_def)
  then have "card (handles (uds w) p) \<le> fresh w"
    by (metis card_lessThan card_mono finite_lessThan)
  with few show ?thesis by simp
qed

lemma collect_of_kind:
  assumes "map_of (meta_of E k) ''__gc'' = Some gc" and "rc_inv {} w" and "fresh w < 2 ^ 64"
    and "uds w u = Some d" and "meta d = Some (mt k)" and "get_uv COOKIE d = Some (LLightuserdata p)"
  shows "rc_inv {} (snd (collect gc E L u w))
       \<and> (mem (snd (collect gc E L u w)) p = None \<longleftrightarrow> handles (uds w) p = {u})
       \<and> (\<forall>q. q \<noteq> p \<longrightarrow> mem (snd (collect gc E L u w)) q = mem w q)
       \<and> fst (collect gc E L u w) \<noteq> Inl Undef"
proof -
  note few = handles_few [OF assms(2,3), of p]
  note laws = thread.collect_inv once.collect_inv mutex.collect_inv cond.collect_inv rwlock.collect_inv
    key.collect_inv barrier.collect_inv rendezvous.collect_inv
  note facts = laws [OF assms(2,4) _ assms(6) few, of E L]
  show ?thesis
    using assms(1,5) facts by (cases k) (auto simp: gc_registered)
qed

section \<open>Memory safety of programs\<close>

lemma pthread_step_inv:
  assumes "rely E" and "pthread_step E w w'" and "rc_inv {} w"
  shows "rc_inv {} w'"
  using assms(2)
proof cases
  case (call f L args r)
  from call(2,3) callable_sound [OF assms(1) call(1), of L] assms(3) show ?thesis
    by (cases r) (auto simp: unless_undef_def dest: valid_Inl [of _ _ _ _ "setst L args w"]
        valid_Inr [of _ _ _ _ "setst L args w"])
next
  case (retain k f u d p L r)
  from retain_of_kind [OF retain(1) assms(3) retain(2-4), of L] retain(5) show ?thesis by simp
next
  case (collect k gc u d L r)
  obtain p where "get_uv COOKIE d = Some (LLightuserdata p)"
    using inv_wrapper [OF assms(3) collect(2,3)] by metis
  from collect_of_kind [OF collect(1) assms(3) collect(4,2,3) this, of L] collect(5) show ?thesis by simp
qed

lemma reachable_inv:
  assumes "rely E" and "reachable E w"
  shows "rc_inv {} w"
proof -
  from assms(2) obtain w0 where "initial w0" and steps: "(pthread_step E)\<^sup>*\<^sup>* w0 w"
    by (auto simp: reachable_def)
  from steps initial_inv [OF \<open>initial w0\<close>] show ?thesis
    by induction (auto intro: pthread_step_inv [OF assms(1)])
qed

text \<open>A program that made one mutex.\<close>

definition one_mutex :: world where
  "one_mutex = snd (l_pthread_mutex_new env0 1 (setst 1 [] (world0 (\<lambda>_. None))))"

lemma mutex_new_env0:
  "l_pthread_mutex_new env0 1 (setst 1 [] (world0 (\<lambda>_. None))) = (Inr 1, one_mutex)"
  unfolding one_mutex_def
  by (simp add: l_pthread_mutex_new_def malloc_def lua_run)

lemma one_mutex_sel [simp]:
  "stacks one_mutex = [1 \<mapsto> [LUserdata 11]]" "fresh one_mutex = 12"
  "mem one_mutex = [10 \<mapsto> \<lparr>body = Rcmutex, refs = Some 1\<rparr>]"
  "uds one_mutex = [11 \<mapsto> wrapper PTHREAD_MUTEX_METATABLE 10]"
  by (simp_all add: one_mutex_def l_pthread_mutex_new_def malloc_def lua_run)

lemma rely_env0: "rely env0"
  by (simp add: rely_def)

lemma reachable_one_mutex: "reachable env0 one_mutex"
proof -
  have "callable env0 l_pthread_mutex_new"
    unfolding callable_def registered_def
    by (rule exI [of _ "''new''"]) (simp add: l_pthread_mutex_funcs_def)
  from this mutex_new_env0 have "pthread_step env0 (world0 (\<lambda>_. None)) one_mutex"
    by (rule pthread_step.call [where args = "[]" and L = 1]) simp
  moreover have "initial (world0 (\<lambda>_. None))" by (simp add: initial_def)
  ultimately show ?thesis unfolding reachable_def by blast
qed



text \<open>
  C2. No leak and exact counts. In every reachable world each live object has a wrapper, and
  its reference count is the number of its wrappers (modulo \<open>2 ^ 64\<close>).
\<close>

theorem counts_are_exact:
  assumes "rely E" and "reachable E w" and "mem w p = Some ob"
  shows "handles (uds w) p \<noteq> {} \<and> refs ob = Some (of_nat (card (handles (uds w) p)))"
  using inv_counted [OF reachable_inv [OF assms(1,2)] assms(3)] by (simp add: counted_def)

theorem counts_are_exact_witness:
  "handles (uds one_mutex) 10 \<noteq> {} \<and>
   refs \<lparr>body = Rcmutex, refs = Some 1\<rparr> = Some (of_nat (card (handles (uds one_mutex) 10)))"
  by (rule counts_are_exact [OF rely_env0 reachable_one_mutex]) simp

text \<open>
  C3. Freed with the last wrapper and not before. Collecting a wrapper of any kind in a reachable
  world frees its object exactly when it is the object's only wrapper, touches no other object,
  and is free of undefined behaviour.
\<close>

theorem collect_frees_last:
  assumes "rely E" and "reachable E w" and "map_of (meta_of E k) ''__gc'' = Some gc"
    and "fresh w < 2 ^ 64" and "uds w u = Some d" and "meta d = Some (mt k)"
    and "get_uv COOKIE d = Some (LLightuserdata p)"
  shows "(mem (snd (collect gc E L u w)) p = None \<longleftrightarrow> handles (uds w) p = {u})
       \<and> mem (snd (collect gc E L u w)) = (mem w)(p := mem (snd (collect gc E L u w)) p)
       \<and> fst (collect gc E L u w) \<noteq> Inl Undef"
  using collect_of_kind [OF assms(3) reachable_inv [OF assms(1,2)] assms(4-7), of L] by fastforce

theorem collect_frees_last_witness:
  "(mem (snd (collect l_pthread_mutex_gc env0 1 11 one_mutex)) 10 = None
      \<longleftrightarrow> handles (uds one_mutex) 10 = {11})
   \<and> mem (snd (collect l_pthread_mutex_gc env0 1 11 one_mutex)) =
        (mem one_mutex)(10 := mem (snd (collect l_pthread_mutex_gc env0 1 11 one_mutex)) 10)
   \<and> fst (collect l_pthread_mutex_gc env0 1 11 one_mutex) \<noteq> Inl Undef"
  by (rule collect_frees_last [OF rely_env0 reachable_one_mutex, where k = KMutex
        and d = "wrapper PTHREAD_MUTEX_METATABLE 10"])
    (simp_all add: l_pthread_mutex_meta_def)

text \<open>
  C10. Sharing. The cookie of a mutex in one state, retained in another state, is a second wrapper
  of the same mutex; the first one stays valid.
\<close>

theorem mutex_sharing:
  assumes "rely E" and "reachable E w" and "uds w u = Some d" and "meta d = Some PTHREAD_MUTEX_METATABLE"
    and "stacks w L = Some [LUserdata u]"
  shows "\<exists>p w1 w2. l_pthread_mutex_cookie E L w = (Inr 1, w1)
       \<and> stacks w1 L = Some [LUserdata u, LLightuserdata p]
       \<and> l_pthread_mutex_retain E L' (setst L' [LLightuserdata p] w1) = (Inr 1, w2)
       \<and> stacks w2 L' = Some [LLightuserdata p, LUserdata (fresh w)]
       \<and> handles (uds w2) p = insert (fresh w) (handles (uds w) p) \<and> u \<in> handles (uds w) p
       \<and> u \<noteq> fresh w \<and> rc_inv {} w2"
  by (rule mutex.share [OF reachable_inv [OF assms(1,2)] assms(3) _ assms(5)]) (simp add: assms(4))

theorem mutex_sharing_witness:
  "\<exists>p w1 w2. l_pthread_mutex_cookie env0 1 one_mutex = (Inr 1, w1)
       \<and> stacks w1 1 = Some [LUserdata 11, LLightuserdata p]
       \<and> l_pthread_mutex_retain env0 2 (setst 2 [LLightuserdata p] w1) = (Inr 1, w2)
       \<and> stacks w2 2 = Some [LLightuserdata p, LUserdata (fresh one_mutex)]
       \<and> handles (uds w2) p = insert (fresh one_mutex) (handles (uds one_mutex) p)
       \<and> 11 \<in> handles (uds one_mutex) p
       \<and> 11 \<noteq> fresh one_mutex \<and> rc_inv {} w2"
  by (rule mutex_sharing [OF rely_env0 reachable_one_mutex,
        where d = "wrapper PTHREAD_MUTEX_METATABLE 10"]) simp_all

text \<open>
  \<^verbatim>\<open>__gc\<close> is an ordinary method (the metatable is its own \<^verbatim>\<open>__index\<close>) and leaves the cookie in
  the wrapper: a program that calls it on the only wrapper of a mutex and then locks the mutex
  uses freed memory.
\<close>

theorem explicit_gc_use_after_free:
  assumes "stacks w L = Some [LUserdata u]" and "uds w u = Some (wrapper PTHREAD_MUTEX_METATABLE p)"
    and "p \<noteq> 0" and "mem w p = Some \<lparr>body = Rcmutex, refs = Some 1\<rparr>"
    and "rc (reply E (trace w) (''pthread_mutex_destroy'', [APtr p])) = 0"
  shows "fst (seq (l_pthread_mutex_gc E L) (l_pthread_mutex_lock E L) w) = Inl Undef"
proof -
  have ck: "cookie_at w' [LUserdata u] 1 PTHREAD_MUTEX_METATABLE = Inr p" if "uds w' = uds w" for w'
    using assms(2,3) that by (simp add: cookie_at_wrapper)
  show ?thesis
    using assms(1,4,5) ck
    by (simp add: l_pthread_mutex_gc_def l_pthread_mutex_lock_def lua_run objcall_rc_def objcall_def
        deref_def)
qed

theorem explicit_gc_use_after_free_witness:
  "fst (seq (l_pthread_mutex_gc env0 1) (l_pthread_mutex_lock env0 1) one_mutex) = Inl Undef"
  by (rule explicit_gc_use_after_free [where u = 11 and p = 10]) simp_all

end
