(* ===== verification/Pthread_Methods.thy ===== *)
theory Pthread_Methods
  imports Pthread_System
begin

text \<open>
  The methods of the shared objects: what they do with a wrong argument, that they are free of
  undefined behaviour in every reachable world, and what they return on each branch.
\<close>

section \<open>Wrong arguments\<close>

text \<open>The first argument is not a userdata with the metatable of the kind.\<close>

definition not_a :: "rckind \<Rightarrow> world \<Rightarrow> lval list \<Rightarrow> bool" where
  "not_a k w s \<longleftrightarrow> (\<forall>u. ud_at w s 1 = Some u \<longrightarrow> meta (the (uds w u)) \<noteq> Some (mt k))"

lemma checkudata_not_a:
  "stacks w L = Some s \<Longrightarrow> not_a k w s \<Longrightarrow> luaL_checkudata L 1 (mt k) w = (Inl (TypeError 1 (mt k)), w)"
  by (auto simp: luaL_checkudata_def not_a_def split: option.splits)

lemma checkcookie_not_a:
  assumes "stacks w L = Some s" and "not_a k w s"
  shows "checkcookie L 1 (mt k) w = (Inl (TypeError 1 (mt k)), w)"
    and "checkcookieuv L 1 (mt k) w = (Inl (TypeError 1 (mt k)), w)"
  using checkudata_not_a [OF assms]
  by (simp_all add: checkcookie_def checkcookienull_def checkcookieuv_def lua_run)

lemmas checkcookie_not_a_kind = checkcookie_not_a [where k = KThread, unfolded mt.simps]
  checkcookie_not_a [where k = KOnce, unfolded mt.simps]
  checkcookie_not_a [where k = KMutex, unfolded mt.simps]
  checkcookie_not_a [where k = KCond, unfolded mt.simps]
  checkcookie_not_a [where k = KRwlock, unfolded mt.simps]
  checkcookie_not_a [where k = KKey, unfolded mt.simps]
  checkcookie_not_a [where k = KBarrier, unfolded mt.simps]
  checkcookie_not_a [where k = KRendezvous, unfolded mt.simps]

lemmas thread_method_defs = l_pthread_equal_def l_pthread_gc_def l_pthread_cookie_def
  l_pthread_cancel_def l_pthread_detach_def l_pthread_join_def l_pthread_attr_get_np_def
  l_pthread_getaffinity_np_def l_pthread_setaffinity_np_def l_pthread_resume_np_def
  l_pthread_peekjoin_np_def l_pthread_suspend_np_def l_pthread_timedjoin_np_def
  l_pthread_getname_np_def l_pthread_setname_np_def l_pthread_sigqueue_def

lemmas lock_method_defs = l_pthread_mutex_gc_def l_pthread_mutex_cookie_def l_pthread_mutex_lock_def
  l_pthread_mutex_timedlock_def l_pthread_mutex_trylock_def l_pthread_mutex_unlock_def
  l_pthread_mutex_getspinloops_np_def l_pthread_mutex_setspinloops_np_def
  l_pthread_mutex_getyieldloops_np_def l_pthread_mutex_setyieldloops_np_def
  l_pthread_mutex_isowned_np_def
  l_pthread_cond_gc_def l_pthread_cond_cookie_def l_pthread_cond_broadcast_def l_pthread_cond_signal_def
  l_pthread_cond_timedwait_def l_pthread_cond_wait_def
  l_pthread_rwlock_gc_def l_pthread_rwlock_cookie_def l_pthread_rwlock_rdlock_def
  l_pthread_rwlock_tryrdlock_def l_pthread_rwlock_trywrlock_def l_pthread_rwlock_unlock_def
  l_pthread_rwlock_wrlock_def

lemmas other_method_defs = l_pthread_once_call_def l_pthread_once_gc_def l_pthread_once_cookie_def
  l_pthread_key_gc_def l_pthread_key_cookie_def l_pthread_key_getspecific_def
  l_pthread_key_setspecific_def l_pthread_barrier_gc_def l_pthread_barrier_cookie_def
  l_pthread_barrier_wait_def l_pthread_rendezvous_gc_def l_pthread_rendezvous_cookie_def
  l_pthread_rendezvous_exchange_def l_pthread_rendezvous_timedexchange_def

definition rejects :: "env \<Rightarrow> lstate \<Rightarrow> world \<Rightarrow> rckind \<Rightarrow> (string \<times> cfunction) list \<Rightarrow> bool" where
  "rejects E L w k tab \<longleftrightarrow> list_all (\<lambda>(_, f). f E L w = (Inl (TypeError 1 (mt k)), w)) tab"

lemma rejects_tables:
  assumes "stacks w L = Some s" and "not_a k w s"
  shows "rejects E L w k (meta_of E k)"
  using assms
  by (cases k) (simp_all add: rejects_def gc_registered thread_method_defs lock_method_defs other_method_defs
      lua_run checkcookie_not_a_kind)

text \<open>
  C9. Every method of every metatable of the module, called with anything but a userdata of its
  own kind as its first argument, raises a type error for argument 1 before it does anything
  else: the world is unchanged, no library function is called.
\<close>

theorem methods_reject_wrong_argument:
  assumes "stacks w L = Some s" and "not_a k w s" and "(name, f) \<in> set (meta_of E k)"
  shows "f E L w = (Inl (TypeError 1 (mt k)), w)"
  using rejects_tables [OF assms(1,2), of E] assms(3) by (auto simp: rejects_def list_all_iff)

theorem methods_reject_wrong_argument_witness:
  "l_pthread_mutex_lock env0 1 (setst 1 [LInteger 5] one_mutex) =
     (Inl (TypeError 1 (mt KMutex)), setst 1 [LInteger 5] one_mutex)"
  by (rule methods_reject_wrong_argument [where s = "[LInteger 5]" and name = "''lock''" and E = env0])
    (simp_all add: not_a_def ud_at_def l_pthread_mutex_meta_def)

section \<open>Branches\<close>

text \<open>
  The methods that hand their object to one function of libthr without further arguments and
  return its verdict.
\<close>

definition plain_methods :: "(cfunction \<times> rckind \<times> string) list" where
  "plain_methods =
     [(l_pthread_mutex_lock, KMutex, ''pthread_mutex_lock''),
      (l_pthread_mutex_trylock, KMutex, ''pthread_mutex_trylock''),
      (l_pthread_mutex_unlock, KMutex, ''pthread_mutex_unlock''),
      (l_pthread_cond_broadcast, KCond, ''pthread_cond_broadcast''),
      (l_pthread_cond_signal, KCond, ''pthread_cond_signal''),
      (l_pthread_rwlock_rdlock, KRwlock, ''pthread_rwlock_rdlock''),
      (l_pthread_rwlock_tryrdlock, KRwlock, ''pthread_rwlock_tryrdlock''),
      (l_pthread_rwlock_trywrlock, KRwlock, ''pthread_rwlock_trywrlock''),
      (l_pthread_rwlock_unlock, KRwlock, ''pthread_rwlock_unlock''),
      (l_pthread_rwlock_wrlock, KRwlock, ''pthread_rwlock_wrlock'')]"

text \<open>The verdict of a library call, as the module reports it to Lua.\<close>

definition verdict :: "env \<Rightarrow> int \<Rightarrow> lval list" where
  "verdict E error = (if error = 0 then [LInteger 1] else [LNil, LString (strerror E error), LInteger error])"

text \<open>
  Each of these methods makes exactly one library call, the one it is named after, on the
  object its wrapper holds, and returns 1 where it succeeds, and nil, the message and the number
  of the error where it fails; nothing else changes.
\<close>

theorem plain_methods_report:
  assumes "(f, k, call) \<in> set plain_methods" and "stacks w L = Some s"
    and "cookie_at w s 1 (mt k) = Inr p" and "mem w p = Some ob" and "kind_of (body ob) = k"
    and "error = rc (reply E (trace w) (call, [APtr p]))"
  shows "f E L w = (Inr (length (verdict E error)),
           setst L (s @ verdict E error) (w\<lparr>trace := (call, [APtr p]) # trace w\<rparr>))"
  using assms by (auto simp: plain_methods_def verdict_def lock_method_defs lua_run)

theorem plain_methods_report_witness:
  "l_pthread_mutex_lock env0 1 one_mutex = (Inr (length (verdict env0 0)),
     setst 1 ([LUserdata 11] @ verdict env0 0)
       (one_mutex\<lparr>trace := (''pthread_mutex_lock'', [APtr 10]) # trace one_mutex\<rparr>))"
  by (rule plain_methods_report [where k = KMutex and p = 10 and s = "[LUserdata 11]" and E = env0
        and ob = "\<lparr>body = Rcmutex, refs = Some 1\<rparr>"])
    (simp_all add: plain_methods_def cookie_at_wrapper)

section \<open>No undefined behaviour\<close>

text \<open>
  \<open>known L S w\<close>: the invariant holds, the state \<open>L\<close> is live, and the objects in \<open>S\<close> are live,
  ready and of the given kinds.
\<close>

definition known :: "lstate \<Rightarrow> (rckind \<times> addr) set \<Rightarrow> world \<Rightarrow> bool" where
  "known L S w \<longleftrightarrow> rc_inv {} w \<and> stacks w L \<noteq> None
     \<and> (\<forall>(k, p) \<in> S. \<exists>ob. mem w p = Some ob \<and> kind_of (body ob) = k \<and> ready (body ob))"

definition defined :: "lstate \<Rightarrow> (rckind \<times> addr) set \<Rightarrow> 'a lua \<Rightarrow> bool" where
  "defined L S m \<longleftrightarrow> valid (known L S) m (\<lambda>_. known L S) (\<lambda>e _. e \<noteq> Undef)"

named_theorems defined_rules
  \<open>rules that show the absence of undefined behaviour\<close>

lemma defined_lbind [defined_rules]: "defined L S m \<Longrightarrow> (\<And>a. defined L S (f a)) \<Longrightarrow> defined L S (lbind m f)"
  unfolding defined_def by (rule valid_lbind)

lemma defined_seq [defined_rules]: "defined L S m \<Longrightarrow> defined L S k \<Longrightarrow> defined L S (seq m k)"
  unfolding seq_def by (rule defined_lbind)

lemma defined_if [defined_rules]:
  "(c \<Longrightarrow> defined L S m) \<Longrightarrow> (\<not> c \<Longrightarrow> defined L S k) \<Longrightarrow> defined L S (if c then m else k)"
  by simp

lemma defined_ret [defined_rules]: "defined L S (ret a)" "e \<noteq> Undef \<Longrightarrow> defined L S (throw e)"
  by (auto simp: defined_def)

text \<open>An operation that leaves the heap alone, keeps the state and is defined.\<close>

lemma defined_quiet:
  assumes "\<And>M U n. keeps (heap M U n) m"
    and "\<And>w s. stacks w L = Some s \<Longrightarrow> stacks (snd (m w)) L \<noteq> None \<and> fst (m w) \<noteq> Inl Undef"
  shows "defined L S m"
  unfolding defined_def
proof (rule validI)
  fix w assume k: "known L S w"
  then obtain s where s: "stacks w L = Some s" by (auto simp: known_def)
  have h: "heap (mem w) (uds w) (fresh w) (snd (m w))"
    by (rule keepsD [OF assms(1)]) (simp add: heap_def)
  have "rc_inv {} (snd (m w))"
    using h k by (auto simp: heap_def known_def intro: inv_frame)
  with h k assms(2) [OF s] have "known L S (snd (m w))" "fst (m w) \<noteq> Inl Undef"
    by (auto simp: known_def heap_def)
  then show "case m w of (Inl e, w') \<Rightarrow> e \<noteq> Undef | (Inr a, w') \<Rightarrow> known L S w'"
    by (cases "m w") (auto split: sum.split)
qed

lemma defined_stack [defined_rules]:
  "defined L S (lua_push L v)" "defined L S (success L)" "defined L S (fail E L e)"
  "defined L S (fatal E L src e)" "defined L S (c_assert b)" "defined L S (lua_isinteger L j)"
  "defined L S (lua_tointeger E L j)" "defined L S (luaL_checkinteger E L j)"
  "defined L S (luaL_optinteger E L j d)" "defined L S (checklightuserdata L j)"
  "defined L S (luaL_checkudata L j m)" "defined L S (ccall E f as)" "defined L S (ccall_rc E f as)"
  by (rule defined_quiet, (rule keeps_rules)+,
      auto simp: lua_run c_assert_def luaL_checkinteger_def luaL_optinteger_def
        checklightuserdata_def luaL_checktype_def luaL_checkudata_def split: option.splits)+

lemma defined_checklstring [defined_rules]: "defined L S (luaL_checklstring E L j)"
proof (rule defined_quiet, rule keeps_rules)
  fix w :: world and s assume st: "stacks w L = Some s"
  then show "stacks (snd (luaL_checklstring E L j w)) L \<noteq> None
      \<and> fst (luaL_checklstring E L j w) \<noteq> Inl Undef"
  proof (cases "at s j")
    case None
    with st show ?thesis by (simp add: luaL_checklstring_def lua_run)
  next
    case (Some v)
    then obtain p where "pos s j = Some p" using at_Some_pos by blast
    with st Some show ?thesis by (cases v) (simp_all add: luaL_checklstring_def lua_run)
  qed
qed

lemma defined_insert: "defined L (insert x S) m \<Longrightarrow> valid (known L (insert x S)) m (\<lambda>_. known L S) (\<lambda>e _. e \<noteq> Undef)"
  unfolding defined_def by (erule valid_weaken) (auto simp: known_def)

lemma defined_checkcookie:
  assumes "\<And>p. defined L (insert (k, p) S) (f p)" and "m = mt k" and "1 \<le> i"
  shows "defined L S (lbind (checkcookie L i m) f)"
  unfolding defined_def
proof (rule valid_lbind [OF _ defined_insert [OF assms(1)]], rule validI)
  fix w assume kn: "known L S w"
  then obtain s where s: "stacks w L = Some s" and inv: "rc_inv {} w" by (auto simp: known_def)
  show "case checkcookie L i m w of (Inl e, w') \<Rightarrow> e \<noteq> Undef | (Inr p, w') \<Rightarrow> known L (insert (k, p) S) w'"
  proof (cases "cookie_at w s i m")
    case (Inl e)
    then have "e \<noteq> Undef" by (auto simp: cookie_at_def split: option.splits if_splits lval.splits)
    with checkcookie_error [OF s Inl assms(3)] show ?thesis by auto
  next
    case (Inr p)
    then obtain u d where "uds w u = Some d" "meta d = Some (mt k)" "get_uv COOKIE d = Some (LLightuserdata p)"
      by (auto simp: cookie_at_def ud_at_def assms(2) split: option.splits if_splits lval.splits)
    with inv_wrapper [OF inv this(1,2)] have "\<exists>ob. mem w p = Some ob \<and> kind_of (body ob) = k \<and> ready (body ob)"
      by (metis counted_def lval.inject(2) option.inject)
    with checkcookie_run [OF s Inr] kn show ?thesis by (auto simp: known_def)
  qed
qed

lemma defined_checkcookieuv:
  assumes "m = mt k"
  shows "defined L S (checkcookieuv L 1 m)"
proof -
  have *: "stacks (snd (checkcookieuv L 1 m w)) L \<noteq> None \<and> fst (checkcookieuv L 1 m w) \<noteq> Inl Undef"
    if "stacks w L = Some s" for w s
    using that
    by (auto simp: checkcookieuv_def luaL_checkudata_def getcookie_def lua_getiuservalue_def
        luaL_argcheck_def lua_run split: option.splits)
  show ?thesis by (rule defined_quiet [OF keeps_cookie(1) *])
qed

text \<open>Library calls on known objects.\<close>

lemma defined_objcall [defined_rules]:
  assumes "(k, p) \<in> S"
  shows "defined L S (objcall E k p f as)" "defined L S (objcall_rc E k p f as)" "defined L S (deref k p)"
proof -
  have *: "\<exists>ob. mem w p = Some ob \<and> kind_of (body ob) = k" if "known L S w" for w
    using that assms by (auto simp: known_def)
  show "defined L S (deref k p)" "defined L S (objcall E k p f as)" "defined L S (objcall_rc E k p f as)"
    unfolding defined_def objcall_def
    by (rule validI; use * in \<open>fastforce simp: lua_run known_def\<close>)+
qed

lemma defined_thrcall [defined_rules]:
  assumes "(KThread, p) \<in> S"
  shows "defined L S (thrcall E p f as)" "defined L S (thrcall_rc E p f as)"
proof -
  have *: "\<exists>ob t. mem w p = Some ob \<and> body ob = Rcthread (Some t)" if "known L S w" for w
  proof -
    from that assms obtain ob where ob: "mem w p = Some ob" "kind_of (body ob) = KThread" "ready (body ob)"
      by (auto simp: known_def)
    then show ?thesis by (cases "body ob") auto
  qed
  show "defined L S (thrcall E p f as)"
    unfolding defined_def
    by (rule validI) (use * in \<open>fastforce simp: thrcall_def lua_run known_def\<close>)
  then show "defined L S (thrcall_rc E p f as)"
    unfolding thrcall_rc_def by (intro defined_rules)
qed

lemma defined_keycall [defined_rules]:
  assumes "(KKey, p) \<in> S"
  shows "defined L S (keycall E p f as)"
proof -
  have *: "\<exists>ob t. mem w p = Some ob \<and> body ob = Rckey (Some t)" if "known L S w" for w
  proof -
    from that assms obtain ob where ob: "mem w p = Some ob" "kind_of (body ob) = KKey" "ready (body ob)"
      by (auto simp: known_def)
    then show ?thesis by (cases "body ob") auto
  qed
  show ?thesis
    unfolding defined_def
    by (rule validI) (use * in \<open>fastforce simp: keycall_def lua_run known_def\<close>)
qed

lemma defined_thread_of:
  assumes "(KThread, p) \<in> S" and "\<And>t. defined L S (f t)"
  shows "defined L S (lbind (deref KThread p) (\<lambda>ob. case body ob of
           Rcthread (Some t) \<Rightarrow> f t | _ \<Rightarrow> throw Undef))"
  unfolding defined_def
proof (rule validI)
  fix w assume kn: "known L S w"
  with assms(1) obtain ob where ob: "mem w p = Some ob" "kind_of (body ob) = KThread" "ready (body ob)"
    by (auto simp: known_def)
  then obtain t where "body ob = Rcthread (Some t)" by (cases "body ob") auto
  with ob assms(2) [of t] kn
  show "case lbind (deref KThread p) (\<lambda>ob. case body ob of Rcthread (Some t) \<Rightarrow> f t | _ \<Rightarrow> throw Undef) w of
      (Inl e, w') \<Rightarrow> e \<noteq> Undef | (Inr a, w') \<Rightarrow> known L S w'"
    by (simp add: lua_run defined_def valid_def)
qed

lemma defined_newanoncpuset [defined_rules]: "defined L S (newanoncpuset L)"
  unfolding defined_def
proof (rule validI)
  fix w assume kn: "known L S w"
  then obtain s where s: "stacks w L = Some s" and inv: "rc_inv {} w" by (auto simp: known_def)
  have "rc_inv {} (snd (newanoncpuset L w))" by (rule keepsD [OF keeps_inv_newanoncpuset inv])
  with s kn show "case newanoncpuset L w of (Inl e, w') \<Rightarrow> e \<noteq> Undef | (Inr a, w') \<Rightarrow> known L S w'"
    by (auto simp: newanoncpuset_def lua_newuserdatauv_def luaL_setmetatable_def lua_run known_def)
qed

lemma defined_cpuset_arg [defined_rules]: "defined L S (cpuset_arg L i)"
  unfolding defined_def by (rule validI) (auto simp: cpuset_arg_def known_def lua_run)

lemma defined_cpuset_out [defined_rules]: "defined L S (cpuset_out u cs)"
  unfolding defined_def
  by (rule validI) (auto simp: cpuset_out_def known_def dest: keepsD [OF keeps_inv_cpuset_out, of _ u cs])

lemmas defined_cookie_rules =
  defined_checkcookie [where k = KThread, unfolded mt.simps]
  defined_checkcookie [where k = KMutex, unfolded mt.simps]
  defined_checkcookie [where k = KCond, unfolded mt.simps]
  defined_checkcookie [where k = KRwlock, unfolded mt.simps]
  defined_checkcookie [where k = KKey, unfolded mt.simps]
  defined_checkcookie [where k = KBarrier, unfolded mt.simps]

lemmas defined_cookieuv_rules =
  defined_checkcookieuv [where k = KThread, unfolded mt.simps, OF refl]
  defined_checkcookieuv [where k = KOnce, unfolded mt.simps, OF refl]
  defined_checkcookieuv [where k = KMutex, unfolded mt.simps, OF refl]
  defined_checkcookieuv [where k = KCond, unfolded mt.simps, OF refl]
  defined_checkcookieuv [where k = KRwlock, unfolded mt.simps, OF refl]
  defined_checkcookieuv [where k = KKey, unfolded mt.simps, OF refl]
  defined_checkcookieuv [where k = KBarrier, unfolded mt.simps, OF refl]
  defined_checkcookieuv [where k = KRendezvous, unfolded mt.simps, OF refl]

lemmas defined_all = defined_cookie_rules [OF _ refl] defined_cookieuv_rules defined_thread_of

lemma defined_mutex_methods:
  "defined L S (l_pthread_mutex_cookie E L)" "defined L S (l_pthread_mutex_lock E L)"
  "defined L S (l_pthread_mutex_timedlock E L)" "defined L S (l_pthread_mutex_trylock E L)"
  "defined L S (l_pthread_mutex_unlock E L)" "defined L S (l_pthread_mutex_getspinloops_np E L)"
  "defined L S (l_pthread_mutex_setspinloops_np E L)" "defined L S (l_pthread_mutex_getyieldloops_np E L)"
  "defined L S (l_pthread_mutex_setyieldloops_np E L)" "defined L S (l_pthread_mutex_isowned_np E L)"
  unfolding lock_method_defs
  by (rule defined_all defined_rules | simp)+

lemma defined_cond_methods:
  "defined L S (l_pthread_cond_cookie E L)" "defined L S (l_pthread_cond_broadcast E L)"
  "defined L S (l_pthread_cond_signal E L)" "defined L S (l_pthread_cond_timedwait E L)"
  "defined L S (l_pthread_cond_wait E L)"
  unfolding lock_method_defs
  by (rule defined_all defined_rules | simp)+

lemma defined_rwlock_methods:
  "defined L S (l_pthread_rwlock_cookie E L)" "defined L S (l_pthread_rwlock_rdlock E L)"
  "defined L S (l_pthread_rwlock_tryrdlock E L)" "defined L S (l_pthread_rwlock_trywrlock E L)"
  "defined L S (l_pthread_rwlock_unlock E L)" "defined L S (l_pthread_rwlock_wrlock E L)"
  unfolding lock_method_defs
  by (rule defined_all defined_rules | simp)+

lemma defined_other_methods:
  "defined L S (l_pthread_once_cookie E L)" "defined L S (l_pthread_key_cookie E L)"
  "defined L S (l_pthread_key_getspecific E L)" "defined L S (l_pthread_key_setspecific E L)"
  "defined L S (l_pthread_barrier_cookie E L)" "defined L S (l_pthread_barrier_wait E L)"
  "defined L S (l_pthread_rendezvous_cookie E L)"
  unfolding other_method_defs
  by (rule defined_all defined_rules | simp)+

lemma defined_thread_methods:
  "defined L S (l_pthread_equal E L)" "defined L S (l_pthread_cookie E L)"
  "defined L S (l_pthread_cancel E L)" "defined L S (l_pthread_detach E L)"
  "defined L S (l_pthread_getaffinity_np E L)" "defined L S (l_pthread_setaffinity_np E L)"
  "defined L S (l_pthread_resume_np E L)" "defined L S (l_pthread_suspend_np E L)"
  "defined L S (l_pthread_getname_np E L)" "defined L S (l_pthread_setname_np E L)"
  "defined L S (l_pthread_sigqueue E L)"
  unfolding thread_method_defs
  by (rule defined_all defined_rules | simp)+

text \<open>
  The methods that neither call Lua functions, nor wait for another Lua state, nor build tables
  of attributes.
\<close>

definition direct_methods :: "env \<Rightarrow> rckind \<Rightarrow> (string \<times> cfunction) list" where
  "direct_methods E k = filter (\<lambda>(name, _). name \<notin> {''__gc'', ''__call'', ''join'', ''peekjoin_np'',
     ''timedjoin_np'', ''attr_get_np'', ''exchange'', ''timedexchange''}) (meta_of E k)"

lemma direct_methods_defined: "list_all (\<lambda>(_, f). defined L S (f E L)) (direct_methods E k)"
  by (cases k) (simp_all add: direct_methods_def gc_registered defined_mutex_methods defined_cond_methods
      defined_rwlock_methods defined_other_methods defined_thread_methods)

text \<open>
  C4. In every reachable world, every direct method of every kind of object, called in a live state
  with any arguments whatever, is free of undefined behaviour (it touches no freed object and no
  unwritten member): it returns or raises a Lua error.
\<close>

theorem direct_methods_no_undefined_behaviour:
  assumes "rely E" and "reachable E w" and "(name, f) \<in> set (direct_methods E k)"
  shows "fst (f E L (setst L args w)) \<noteq> Inl Undef"
proof -
  have "defined L {} (f E L)"
    using direct_methods_defined [of L "{}" E k] assms(3) by (auto simp: list_all_iff)
  moreover have "known L {} (setst L args w)"
    using reachable_inv [OF assms(1,2)] by (simp add: known_def)
  ultimately show ?thesis
    unfolding defined_def
    by (cases "f E L (setst L args w)") (auto dest: valid_Inl [of _ _ _ _ "setst L args w"])
qed

theorem direct_methods_no_undefined_behaviour_witness:
  "fst (l_pthread_mutex_timedlock env0 1 (setst 1 [LUserdata 11, LInteger 3] one_mutex)) \<noteq> Inl Undef"
  by (rule direct_methods_no_undefined_behaviour [OF rely_env0 reachable_one_mutex,
        where k = KMutex and name = "''timedlock''"])
    (simp add: direct_methods_def l_pthread_mutex_meta_def)

end
