(* ===== verification/Pthread_Life.thy ===== *)
theory Pthread_Life
  imports Pthread_Sharing
begin

text \<open>
  The life of a thread: \<^verbatim>\<open>pthread.create\<close> copies the function and its arguments to a new state, the
  thread runs the function and leaves its results there, \<^verbatim>\<open>join\<close> copies them to the caller and
  closes the state.
\<close>

section \<open>Creating a thread\<close>

text \<open>Every library call that creating a thread needs succeeds.\<close>

definition create_ok :: "env \<Rightarrow> bool" where
  "create_ok E \<longleftrightarrow> loads_ok E \<and> (\<forall>tr as. rc (reply E tr (''pthread_attr_init'', as)) = 0
     \<and> rc (reply E tr (''pthread_attr_destroy'', as)) = 0 \<and> rc (reply E tr (''pthread_create'', as)) = 0
     \<and> rc (reply E tr (''malloc'', as)) \<noteq> 0 \<and> rc (reply E tr (''luaL_newstate'', as)) \<noteq> 0)"

text \<open>The world in which the values are copied: the new state is there and empty.\<close>

definition new_state :: "world \<Rightarrow> world" where
  "new_state w = w\<lparr>stacks := (stacks w)(fresh w \<mapsto> []), fresh := Suc (fresh w),
     trace := (''luaL_openlibs'', [APtr (fresh w)]) # (''luaL_newstate'', [])
       # (''pthread_attr_init'', []) # trace w\<rparr>"

lemma new_state_sel [simp]:
  "stacks (new_state w) = (stacks w)(fresh w \<mapsto> [])" "fresh (new_state w) = Suc (fresh w)"
  "clos (new_state w) = clos w" "mem (new_state w) = mem w" "uds (new_state w) = uds w"
  by (simp_all add: new_state_def)

text \<open>What follows the copy.\<close>

definition create_rest :: "env \<Rightarrow> lstate \<Rightarrow> lstate \<Rightarrow> nat lua" where
  "create_rest E L l =
     lbind (malloc E (Rcthread None)) (\<lambda>threadp.
     if threadp = 0 then
       seq (lua_close L)
      (seq (attr_destroy E L)
       (fatal E L ''malloc'' (const E ''ENOMEM'')))
     else
       lbind (ccall E ''pthread_create'' [APtr threadp, APtr l]) (\<lambda>r.
       seq (if rc r = 0
            then store KThread threadp (body_update (\<lambda>_. Rcthread (Some (outi r 0))))
            else ret ())
      (lbind (ccall_rc E ''pthread_attr_destroy'' []) (\<lambda>error1.
       if error1 \<noteq> 0 then
         seq (lua_close l)
        (seq (free threadp)
         (fatal E L ''pthread_attr_destroy'' error1))
       else if rc r \<noteq> 0 then
         seq (lua_close l)
        (seq (free threadp)
         (fail E L (rc r)))
       else
         seq (refcount_init KThread threadp 1)
         (new L threadp PTHREAD_METATABLE)))))"

lemma create_unfold:
  assumes "stacks w L = Some (LFunction c # vs)" and "0 < fresh w" and "L \<noteq> fresh w"
    and "rc (reply E (trace w) (''pthread_attr_init'', [])) = 0"
    and "rc (reply E ((''pthread_attr_init'', []) # trace w) (''luaL_newstate'', [])) \<noteq> 0"
  shows "l_pthread_create E L w =
    lbind (copyn (cdepth E) E L (fresh w) 1 (Suc (length vs))) (\<lambda>error.
      if error \<noteq> 0 then
        seq (lua_close (fresh w))
       (seq (attr_destroy E L)
        (luaL_argerror L error ''non-serializable value''))
      else create_rest E L (fresh w)) (new_state w)"
  using assms unfolding create_rest_def
  by (simp add: l_pthread_create_def luaL_newstate_def new_state_def lua_run)

lemma serializable_new_state:
  assumes "\<forall>v \<in> set vs. serializable E d (fresh w) w v"
  shows "\<forall>v \<in> set vs. serializable E d (fresh (new_state w)) (new_state w) v"
proof
  fix v assume "v \<in> set vs"
  then have "serializable E d (fresh w) w v" using assms by blast
  then have "serializable E d (fresh w) (new_state w) v"
    by (rule serializable_transfer) simp
  then show "serializable E d (fresh (new_state w)) (new_state w) v"
    by (rule serializable_mono) simp
qed

lemma create_copy:
  assumes "loads_ok E" and "cdepth E = Suc (Suc d)" and "clos_wf w" and "0 < fresh w" and "L \<noteq> fresh w"
    and "stacks w L = Some (LFunction c # vs)"
    and "\<forall>v \<in> set (LFunction c # vs). serializable E (Suc d) (fresh w) w v"
    and "\<And>tr as. rc (reply E tr (''pthread_attr_init'', as)) = 0"
    and "\<And>tr as. rc (reply E tr (''luaL_newstate'', as)) \<noteq> 0"
  obtains w1 where "l_pthread_create E L w = create_rest E L (fresh w) w1"
    and "copies_to E (fresh w) (Suc (fresh w)) [] (LFunction c # vs) (new_state w) w1"
    and "stacks w1 L = Some (LFunction c # vs)" and "fresh w \<le> fresh w1"
    and "stacks w1 (fresh w) \<noteq> None"
proof -
  have "\<exists>w1. copyn (Suc (Suc d)) E L (fresh w) (1 + int (length ([] :: lval list)))
          (length (LFunction c # vs)) (new_state w) = (Inr 0, w1)
        \<and> copies_to E (fresh w) (fresh (new_state w)) [] (LFunction c # vs) (new_state w) w1"
  proof (rule copyn_ok [where B = "[]" and T = "[]", OF assms(1,5)])
    show "\<forall>v \<in> set (LFunction c # vs). serializable E (Suc d) (fresh (new_state w)) (new_state w) v"
      by (rule serializable_new_state [OF assms(7)])
    show "clos_wf (new_state w)" using assms(3) by (auto simp: clos_wf_def)
  qed (use assms(5,6) in simp_all)
  then obtain w1 where w1: "copyn (cdepth E) E L (fresh w) 1 (Suc (length vs)) (new_state w) = (Inr 0, w1)"
      "copies_to E (fresh w) (Suc (fresh w)) [] (LFunction c # vs) (new_state w) w1"
    using assms(2) by auto
  have "stacks w1 L = Some (LFunction c # vs)" and "fresh w \<le> fresh w1" and "stacks w1 (fresh w) \<noteq> None"
    using w1(2) assms(5,6) by (auto simp: copies_to_def grown_def)
  moreover have "l_pthread_create E L w = create_rest E L (fresh w) w1"
    using create_unfold [OF assms(6,4,5), of E] assms(8,9) w1(1) by (simp add: lua_run)
  ultimately show ?thesis using that w1(2) by blast
qed


text \<open>The environment \<open>env0\<close>, and a world with a function whose upvalue is a number.\<close>

definition create_world :: world where
  "create_world = (world0 [1 \<mapsto> [LFunction 2, LString ''x'']])
     \<lparr>clos := [2 \<mapsto> \<lparr>is_c = False, proto = 0, upvals = [(''_ENV'', LNil), (''n'', LInteger 4)]\<rparr>]\<rparr>"

lemma create_world_sel [simp]:
  "stacks create_world = [1 \<mapsto> [LFunction 2, LString ''x'']]" "fresh create_world = 10"
  "clos create_world = [2 \<mapsto> \<lparr>is_c = False, proto = 0, upvals = [(''_ENV'', LNil), (''n'', LInteger 4)]\<rparr>]"
  "mem create_world = (\<lambda>_. None)" "uds create_world = (\<lambda>_. None)" "trace create_world = []"
  by (simp_all add: create_world_def)

lemma create_ok_env0: "create_ok env0"
  by (simp add: create_ok_def loads_ok_def)


text \<open>
  If an argument cannot be copied (a table, a userdata, a coroutine or a C function), creating a
  thread raises an argument error that names the first such argument; the new state is closed, no
  handle is made, and the heap and all userdata are as before.
\<close>

theorem create_refuses_argument:
  assumes "create_ok E" and "cdepth E = Suc (Suc d)" and "clos_wf w" and "0 < fresh w" and "L \<noteq> fresh w"
    and "stacks w L = Some (LFunction c # us @ v # vs)"
    and "\<forall>u \<in> set (LFunction c # us). serializable E (Suc d) (fresh w) w u" and "refused w v"
  shows "\<exists>w'. l_pthread_create E L w =
           (Inl (ArgError (2 + int (length us)) ''non-serializable value''), w')
       \<and> stacks w' (fresh w) = None \<and> mem w' = mem w \<and> uds w' = uds w"
proof -
  have ld: "loads_ok E" using assms(1) by (simp add: create_ok_def)
  note ser = serializable_new_state [OF assms(7)]
  let ?n = "Suc (length (us @ v # vs))"
  let ?copy = "copyn (cdepth E) E L (fresh w) 1 ?n"
  have "fst (copyn (Suc (Suc d)) E L (fresh w) (1 + int (length ([] :: lval list))) ?n (new_state w)) =
      Inr (1 + int (length ([] :: lval list) + length (LFunction c # us)))"
    by (rule copyn_refused [where B = vs and T = "[]" and v = v, OF ld assms(5)])
      (use assms(3,5,6,8) ser in \<open>auto simp: clos_wf_def refused_def split: lval.splits\<close>)
  then obtain w1 where w1: "?copy (new_state w) = (Inr (2 + int (length us)), w1)"
    using assms(2) by (cases "?copy (new_state w)") auto
  have h: "heap (mem w) (uds w) 0 w1"
    using keepsD [OF keeps_copyn [where d = "cdepth E" and E = E and L = L and l = "fresh w" and idx = 1
          and k = ?n and M = "mem w" and U = "uds w" and n = 0], of "new_state w"] w1
    by (simp add: heap_def)
  have run: "l_pthread_create E L w =
      seq (lua_close (fresh w)) (seq (attr_destroy E L)
        (luaL_argerror L (2 + int (length us)) ''non-serializable value'')) w1"
    using create_unfold [OF assms(6,4,5), of E] assms(1) w1 by (simp add: create_ok_def lua_run)
  have live: "stacks w1 x \<noteq> None" if "stacks (new_state w) x \<noteq> None" for x
  proof -
    have "keeps (\<lambda>w. stacks w x \<noteq> None) ?copy" by (rule copy_live.copyn_keeps)
    from keepsD [OF this that] w1 show ?thesis by simp
  qed
  have "stacks w1 (fresh w) \<noteq> None" "stacks w1 L \<noteq> None" using live assms(5,6) by auto
  with run h assms(1,5) show ?thesis
    by (auto simp: lua_close_def attr_destroy_def create_ok_def heap_def lua_run)
qed

theorem create_refuses_argument_witness:
  "\<exists>w'. l_pthread_create env0 1 (setst 1 (LFunction 2 # [LInteger 1] @ LTable 3 # []) create_world) =
         (Inl (ArgError (2 + int (length [LInteger 1])) ''non-serializable value''), w')
       \<and> stacks w' (fresh (setst 1 (LFunction 2 # [LInteger 1] @ LTable 3 # []) create_world)) = None
       \<and> mem w' = mem (setst 1 (LFunction 2 # [LInteger 1] @ LTable 3 # []) create_world)
       \<and> uds w' = uds (setst 1 (LFunction 2 # [LInteger 1] @ LTable 3 # []) create_world)"
  by (rule create_refuses_argument [OF create_ok_env0, where d = 0 and c = 2])
    (auto simp: clos_wf_def refused_def)

text \<open>
  Where no memory is left for the handle of the thread, the function closes the state of its
  caller instead of the new one and then raises an error on the closed state: undefined behaviour.
\<close>

theorem create_out_of_memory_undefined:
  assumes "loads_ok E" and "cdepth E = Suc (Suc d)" and "clos_wf w" and "0 < fresh w" and "L \<noteq> fresh w"
    and "stacks w L = Some (LFunction c # vs)"
    and "\<forall>v \<in> set (LFunction c # vs). serializable E (Suc d) (fresh w) w v"
    and "\<And>tr as. rc (reply E tr (''pthread_attr_init'', as)) = 0"
    and "\<And>tr as. rc (reply E tr (''luaL_newstate'', as)) \<noteq> 0"
    and "\<And>tr as. rc (reply E tr (''malloc'', as)) = 0"
  shows "fst (l_pthread_create E L w) = Inl Undef"
proof -
  from create_copy [OF assms(1-9)] obtain w1
    where "l_pthread_create E L w = create_rest E L (fresh w) w1" and "stacks w1 L = Some (LFunction c # vs)"
    by metis
  then show ?thesis
    using assms(10)
    by (auto simp: create_rest_def malloc_def lua_close_def attr_destroy_def fatal_def luaL_error_def
        askst_def lua_run)
qed

definition oom_env :: env where
  "oom_env = env0\<lparr>reply := (\<lambda>tr c. \<lparr>rc = (if fst c = ''luaL_newstate'' then 1 else 0),
     outi = (\<lambda>_. 0), outs = [], outv = (\<lambda>_. [])\<rparr>)\<rparr>"

lemma oom_env_sel [simp]:
  "rc (reply oom_env tr c) = (if fst c = ''luaL_newstate'' then 1 else 0)" "cdepth oom_env = 2" "bufslot oom_env"
  by (simp_all add: oom_env_def)

theorem create_out_of_memory_undefined_witness: "fst (l_pthread_create oom_env 1 create_world) = Inl Undef"
  by (rule create_out_of_memory_undefined [where d = 0 and c = 2 and vs = "[LString ''x'']"])
    (auto simp: clos_wf_def loads_ok_def)

text \<open>
  Where the thread was started but its attributes cannot be destroyed, the function raises an
  error and closes the state on which the new thread is running.
\<close>

theorem create_closes_running_state:
  assumes "loads_ok E" and "cdepth E = Suc (Suc d)" and "clos_wf w" and "0 < fresh w" and "L \<noteq> fresh w"
    and "stacks w L = Some (LFunction c # vs)"
    and "\<forall>v \<in> set (LFunction c # vs). serializable E (Suc d) (fresh w) w v"
    and "\<And>tr as. rc (reply E tr (''pthread_attr_init'', as)) = 0"
    and "\<And>tr as. rc (reply E tr (''luaL_newstate'', as)) \<noteq> 0"
    and "\<And>tr as. rc (reply E tr (''malloc'', as)) \<noteq> 0"
    and "\<And>tr as. rc (reply E tr (''pthread_create'', as)) = 0"
    and "\<And>tr as. rc (reply E tr (''pthread_attr_destroy'', as)) = e" and "e \<noteq> 0"
  shows "\<exists>w' p. l_pthread_create E L w = (Inl (LError (''pthread_attr_destroy: '' @ strerror E e)), w')
       \<and> (''pthread_create'', [APtr p, APtr (fresh w)]) \<in> set (trace w') \<and> stacks w' (fresh w) = None"
proof -
  from create_copy [OF assms(1-9)] obtain w1
    where run: "l_pthread_create E L w = create_rest E L (fresh w) w1"
      and st: "stacks w1 L = Some (LFunction c # vs)" "stacks w1 (fresh w) \<noteq> None" "fresh w \<le> fresh w1"
    by metis
  then show ?thesis
    using assms(4,5,10-13) unfolding run
    by (intro exI [of _ "snd (create_rest E L (fresh w) w1)"] exI [of _ "fresh w1"])
      (auto simp: create_rest_def malloc_def lua_close_def lua_run)
qed

definition destroy_fails_env :: env where
  "destroy_fails_env = env0\<lparr>reply := (\<lambda>tr c. \<lparr>rc = (if fst c = ''luaL_newstate'' \<or> fst c = ''malloc''
     \<or> fst c = ''pthread_attr_destroy'' then 1 else 0), outi = (\<lambda>_. 0), outs = [], outv = (\<lambda>_. [])\<rparr>)\<rparr>"

lemma destroy_fails_env_sel [simp]:
  "rc (reply destroy_fails_env tr c) = (if fst c = ''luaL_newstate'' \<or> fst c = ''malloc''
     \<or> fst c = ''pthread_attr_destroy'' then 1 else 0)"
  "cdepth destroy_fails_env = 2" "bufslot destroy_fails_env"
  by (simp_all add: destroy_fails_env_def)

theorem create_closes_running_state_witness:
  "\<exists>w' p. l_pthread_create destroy_fails_env 1 create_world =
         (Inl (LError (''pthread_attr_destroy: '' @ strerror destroy_fails_env 1)), w')
       \<and> (''pthread_create'', [APtr p, APtr (fresh create_world)]) \<in> set (trace w')
       \<and> stacks w' (fresh create_world) = None"
  by (rule create_closes_running_state [where d = 0 and c = 2 and vs = "[LString ''x'']"])
    (auto simp: clos_wf_def loads_ok_def)

section \<open>Running and joining\<close>

text \<open>
  The body of a thread calls the function with its arguments; \<^verbatim>\<open>pthread_exit\<close> gets the state with
  the status and the results, or the error object.
\<close>

definition outcome :: "lval + lval list \<Rightarrow> lval list" where
  "outcome res = (case res of Inr rs \<Rightarrow> LBoolean True # rs | Inl e \<Rightarrow> [LBoolean False, e])"

lemma thread_wrapper_run:
  assumes "stacks w l = Some (f # args)"
    and "lcall E f args (setst l [] (w\<lparr>tabs := (tabs w)(fresh w \<mapsto> empty_table), fresh := Suc (fresh w),
           registry := (registry w)(l := LTable (fresh w)), trace := (''pthread_cleanup_push'', [APtr l]) # trace w\<rparr>))
         = (res, w1)"
    and "stacks w1 l = Some []"
  shows "thread_wrapper E l w = (Inl (ThreadExit l),
      setst l (outcome res)
        (w1\<lparr>trace := (''pthread_cleanup_pop'', [AInt 0]) # trace w1\<rparr>))"
proof -
  have ins: "lua_insert l 1 w2 = (Inr (), setst l (v # vs) w2)" if "stacks w2 l = Some (vs @ [v])" for w2 v vs
    using lua_insert_bottom_run [where s = "[]" and vs = vs and v = v] that by simp
  show ?thesis
    using assms
    by (cases res) (simp_all add: thread_wrapper_def thread_kfunction_def initcleanupstack_def
        outcome_def lua_createtable_def lua_pcall_def lua_run ins)
qed

lemma join_result_run:
  assumes "rc r = 0" and "outi r 0 = int l" and "int l \<noteq> const E ''PTHREAD_CANCELED''" and "L \<noteq> l"
    and "stacks w l = Some vs" and "list_all plain vs" and "vs \<noteq> []" and "stacks w L = Some s" and "0 < cdepth E"
  shows "join_result E L True r w = (Inr (length vs), w\<lparr>stacks := (stacks w)(L \<mapsto> s @ vs, l := None)\<rparr>)"
proof -
  have "copyn (cdepth E) E l L (1 + int (length ([] :: lval list))) (length vs) w =
      (Inr 0, setst L (s @ vs) w)"
    by (rule copyn_plain_run [where B = "[]"]) (use assms in auto)
  with assms show ?thesis
    by (simp add: join_result_def lua_close_def lua_run setst_def fun_upd_twist)
qed


text \<open>A world in which a thread (on state 2) is about to run, and its handle is in state 1.\<close>

definition thread_world :: world where
  "thread_world = (world0 [1 \<mapsto> [LUserdata 3], 2 \<mapsto> [LFunction 4, LInteger 6]])
     \<lparr>uds := [3 \<mapsto> wrapper PTHREAD_METATABLE 5],
      mem := [5 \<mapsto> \<lparr>body = Rcthread (Some 8), refs = Some 1\<rparr>]\<rparr>"

definition thread_env :: "lval + lval list \<Rightarrow> env" where
  "thread_env res = env0\<lparr>lcall := (\<lambda>_ _ v. (res, v)),
     reply := (\<lambda>tr c. \<lparr>rc = 0, outi = (\<lambda>_. 2), outs = [], outv = (\<lambda>_. [])\<rparr>)\<rparr>"


end
