(* ===== verification/Pthread_Cleanup.thy ===== *)
theory Pthread_Cleanup
  imports Pthread_Life
begin

text \<open>
  The emulated cleanup stack of \<^verbatim>\<open>libpthread/lua_pthread.c\<close> (a table of handlers in the registry of
  the thread's state; a handler is a table of a function and its arguments), and once controls.
\<close>

section \<open>Pushing and popping handlers\<close>

text \<open>\<open>handlers w L ct hs\<close>: the cleanup stack of \<open>L\<close> is the table \<open>ct\<close> and holds the values \<open>hs\<close>.\<close>

definition handlers :: "world \<Rightarrow> lstate \<Rightarrow> nat \<Rightarrow> lval list \<Rightarrow> bool" where
  "handlers w L ct hs \<longleftrightarrow> registry w L = LTable ct \<and> ct < fresh w
     \<and> (\<exists>tb. tabs w ct = Some tb \<and> represents tb hs)"

lemma handlersE:
  assumes "handlers w L ct hs"
  obtains tb where "registry w L = LTable ct" and "ct < fresh w" and "tabs w ct = Some tb"
    and "represents tb hs"
  using assms by (auto simp: handlers_def)

lemma getcleanupstack_run [lua_run]:
  "stacks w L = Some s \<Longrightarrow> getcleanupstack L w = (Inr (), setst L (s @ [registry w L]) w)"
  by (simp add: getcleanupstack_def lua_run)

lemma cleanup_push_run:
  assumes "border_ok E" and "stacks w L = Some vs" and "handlers w L ct hs"
  shows "\<exists>w'. l_pthread_cleanup_push E L w = (Inr 0, w') \<and> handlers w' L ct (hs @ [LTable (fresh w)])
       \<and> tabs w' (fresh w) = Some (empty_table\<lparr>arr := vs\<rparr>)
       \<and> stacks w' L = Some [LTable (fresh w), LTable ct]"
proof -
  obtain tb where tb: "registry w L = LTable ct" "ct < fresh w" "tabs w ct = Some tb" "represents tb hs"
    by (rule handlersE [OF assms(3)])
  let ?h = "LTable (fresh w)"
  let ?w1 = "w\<lparr>tabs := (tabs w)(fresh w \<mapsto> empty_table\<lparr>arr := vs\<rparr>), fresh := Suc (fresh w)\<rparr>"
  have pack: "tpack L (length vs) w = (Inr (), setst L [?h] ?w1)"
    using tpack_run [where s = "[]"] assms(2) by simp
  have push: "tpush E L (-2) (setst L [?h, LTable ct, ?h] ?w1) = (Inr (), setst L ([?h] @ [LTable ct])
      ((setst L [?h, LTable ct, ?h] ?w1)\<lparr>tabs := (tabs ?w1)(ct \<mapsto> tset tb (int (length hs) + 1) ?h)\<rparr>))"
    using tpush_run [OF assms(1), of "setst L [?h, LTable ct, ?h] ?w1" L "[?h]" ct ?h tb hs] tb by simp
  let ?w2 = "setst L [?h, LTable ct] (?w1\<lparr>tabs := (tabs ?w1)(ct \<mapsto> tset tb (int (length hs) + 1) ?h)\<rparr>)"
  have "l_pthread_cleanup_push E L w = (Inr 0, ?w2)"
    using assms(2) pack push tb(1)
    by (simp add: l_pthread_cleanup_push_def lua_pushvalue_def lua_run)
  moreover have "represents (tset tb (int (length hs) + 1) ?h) (hs @ [?h])"
    by (rule represents_tset_end [OF tb(4)]) simp
  ultimately show ?thesis using tb by (auto simp: handlers_def)
qed

lemma cleanup_top_run:
  assumes "border_ok E" and "stacks w L = Some [v]" and "handlers w L ct (hs @ [h])"
  shows "\<exists>tb'. seq (getcleanupstack L) (seq (tpop E L 2) (lua_remove L 2)) w =
           (Inr (), setst L [v, h] (w\<lparr>tabs := (tabs w)(ct \<mapsto> tb')\<rparr>)) \<and> represents tb' hs"
proof -
  obtain tb where tb: "registry w L = LTable ct" "tabs w ct = Some tb" "represents tb (hs @ [h])"
    by (rule handlersE [OF assms(3)])
  have "tpop E L (int (length [v]) + 1) (setst L [v, LTable ct] w) = (Inr (), setst L ([v] @ [LTable ct, h])
      ((setst L [v, LTable ct] w)\<lparr>tabs := (tabs w)(ct \<mapsto> tset tb (int (length hs) + 1) LNil)\<rparr>))"
    using tpop_run [OF assms(1), of "setst L [v, LTable ct] w" L "[v]" ct tb hs h] tb by simp
  moreover have "lua_remove L (int (length [v]) + 1) w' = (Inr (), setst L ([v] @ [h]) w')"
    if "stacks w' L = Some ([v] @ LTable ct # [h])" for w'
    by (rule lua_remove_mid_run [OF that])
  ultimately show ?thesis
    using assms(2) tb represents_tset_last [OF tb(3)] by (auto simp: lua_run)
qed

lemma cleanup_pop_unfold:
  assumes "stacks w L = Some [LBoolean b]"
  shows "l_pthread_cleanup_pop E L w =
    lbind (seq (getcleanupstack L) (seq (tpop E L 2) (lua_remove L 2))) (\<lambda>_.
    seq (if b then
            lbind (tunpack E L (-1)) (\<lambda>len.
            lbind (lua_pcall E L (int len - 1) True) (\<lambda>status.
            seq (lua_pushboolean L status)
            (lua_insert L (int 2))))
          else lua_pushboolean L True)
    (lbind (lua_gettop L) (\<lambda>top. ret (top - 2)))) w"
proof -
  have 2: "Suc (Suc 0) = 2" by simp
  show ?thesis
    using assms by (simp add: l_pthread_cleanup_pop_def lua_run seq_def lbind_assoc 2)
qed

text \<open>
  C11. Pushing a cleanup handler and popping it without executing it leaves the cleanup stack as it
  was and returns \<^verbatim>\<open>true\<close>.
\<close>

theorem cleanup_push_pop:
  assumes "border_ok E" and "stacks w L = Some vs" and "handlers w L ct hs"
  shows "\<exists>w1 w2 s. l_pthread_cleanup_push E L w = (Inr 0, w1)
       \<and> l_pthread_cleanup_pop E L (setst L [LBoolean False] w1) = (Inr 1, w2)
       \<and> handlers w2 L ct hs \<and> stacks w2 L = Some (s @ [LBoolean True])"
proof -
  obtain w1 where push: "l_pthread_cleanup_push E L w = (Inr 0, w1)"
      and h1: "handlers w1 L ct (hs @ [LTable (fresh w)])"
    using cleanup_push_run [OF assms] by blast
  let ?w = "setst L [LBoolean False] w1" and ?h = "LTable (fresh w)"
  have "handlers ?w L ct (hs @ [?h])" using h1 by (simp add: handlers_def)
  then obtain tb' where top: "seq (getcleanupstack L) (seq (tpop E L 2) (lua_remove L 2)) ?w =
        (Inr (), setst L [LBoolean False, ?h] (?w\<lparr>tabs := (tabs ?w)(ct \<mapsto> tb')\<rparr>))"
      and rep: "represents tb' hs"
    using cleanup_top_run [OF assms(1), of ?w L "LBoolean False" ct hs ?h] by auto
  have "l_pthread_cleanup_pop E L ?w = (Inr 1, setst L [LBoolean False, ?h, LBoolean True]
      (?w\<lparr>tabs := (tabs ?w)(ct \<mapsto> tb')\<rparr>))"
    using cleanup_pop_unfold [of ?w L False E] top by (simp add: lbind_value lua_run)
  moreover have "handlers (setst L [LBoolean False, ?h, LBoolean True] (?w\<lparr>tabs := (tabs ?w)(ct \<mapsto> tb')\<rparr>)) L ct hs"
    using h1 rep by (auto simp: handlers_def)
  ultimately show ?thesis using push by (auto intro!: exI [of _ "[LBoolean False, ?h]"])
qed

text \<open>A thread with one handler on its cleanup stack: function 4 with the argument 6.\<close>

definition cleanup_world :: "lval list \<Rightarrow> world" where
  "cleanup_world s = (world0 [1 \<mapsto> s])\<lparr>registry := (\<lambda>_. LTable 2),
     tabs := [2 \<mapsto> empty_table\<lparr>arr := [LTable 3]\<rparr>, 3 \<mapsto> empty_table\<lparr>arr := [LFunction 4, LInteger 6]\<rparr>]\<rparr>"

lemma cleanup_world_sel [simp]:
  "stacks (cleanup_world s) = [1 \<mapsto> s]" "registry (cleanup_world s) L = LTable 2"
  "tabs (cleanup_world s) =
     [2 \<mapsto> empty_table\<lparr>arr := [LTable 3]\<rparr>, 3 \<mapsto> empty_table\<lparr>arr := [LFunction 4, LInteger 6]\<rparr>]"
  "fresh (cleanup_world s) = 10" "trace (cleanup_world s) = []"
  by (simp_all add: cleanup_world_def)

lemma handlers_cleanup_world: "handlers (cleanup_world s) 1 2 [LTable 3]"
  by (simp add: handlers_def represents_arr)

theorem cleanup_push_pop_witness:
  "\<exists>w1 w2 s. l_pthread_cleanup_push env0 1 (cleanup_world [LFunction 5]) = (Inr 0, w1)
       \<and> l_pthread_cleanup_pop env0 1 (setst 1 [LBoolean False] w1) = (Inr 1, w2)
       \<and> handlers w2 1 2 [LTable 3] \<and> stacks w2 1 = Some (s @ [LBoolean True])"
  by (rule cleanup_push_pop [OF border_ok_env0 _ handlers_cleanup_world]) simp

text \<open>
  Popping a handler with execution calls it with its arguments, but the number of results is one
  too small: the caller gets the values the handler returned without the status before them.
\<close>

theorem cleanup_pop_drops_status:
  assumes "border_ok E" and "stacks w L = Some [LBoolean True]" and "handlers w L ct (hs @ [LTable h])"
    and "h \<noteq> ct" and "tabs w h = Some tb" and "represents tb (f # args)"
    and "\<And>v. lcall E f args v = (Inr rs, v)"
  shows "\<exists>w1 s. l_pthread_cleanup_pop E L w = (Inr (length rs), w1)
       \<and> stacks w1 L = Some s \<and> results s (length rs) = rs \<and> handlers w1 L ct hs"
proof -
  obtain tb' where top: "seq (getcleanupstack L) (seq (tpop E L 2) (lua_remove L 2)) w =
        (Inr (), setst L [LBoolean True, LTable h] (w\<lparr>tabs := (tabs w)(ct \<mapsto> tb')\<rparr>))"
      and rep: "represents tb' hs"
    using cleanup_top_run [OF assms(1-3)] by auto
  let ?w = "w\<lparr>tabs := (tabs w)(ct \<mapsto> tb')\<rparr>"
  have un: "tunpack E L (-1) (setst L [LBoolean True, LTable h] ?w) =
      (Inr (length (f # args)), setst L ([LBoolean True] @ (f # args)) (setst L [LBoolean True, LTable h] ?w))"
    by (rule tunpack_run [OF assms(1), where t = h and tb = tb]) (use assms(4-6) in simp_all)
  have pc: "lua_pcall E L (int (length args)) True (setst L ([LBoolean True] @ (f # args)) ?w) =
      (Inr True, setst L ([LBoolean True] @ rs) ?w)"
    using assms(7) by (simp add: lua_pcall_def lua_run)
  have ins: "lua_insert L (int (length [LBoolean True]) + 1) w' = (Inr (), setst L ([LBoolean True] @ LBoolean True # rs) w')"
    if "stacks w' L = Some ([LBoolean True] @ rs @ [LBoolean True])" for w'
    by (rule lua_insert_bottom_run [OF that])
  have "l_pthread_cleanup_pop E L w = (Inr (length rs), setst L (LBoolean True # LBoolean True # rs) ?w)"
    using cleanup_pop_unfold [OF assms(2), of E] top un pc ins by (simp add: lbind_value lua_run)
  moreover have "results (LBoolean True # LBoolean True # rs) (length rs) = rs"
    using results_append(1) [of "[LBoolean True, LBoolean True]" rs] by simp
  moreover have "handlers (setst L (LBoolean True # LBoolean True # rs) ?w) L ct hs"
    using assms(3) rep by (auto simp: handlers_def)
  ultimately show ?thesis by auto
qed

theorem cleanup_pop_drops_status_witness:
  "\<exists>w1 s. l_pthread_cleanup_pop env0 1 (cleanup_world [LBoolean True]) = (Inr (length ([] :: lval list)), w1)
       \<and> stacks w1 1 = Some s \<and> results s (length ([] :: lval list)) = [] \<and> handlers w1 1 2 []"
  by (rule cleanup_pop_drops_status [OF border_ok_env0, where h = 3 and f = "LFunction 4" and args = "[LInteger 6]"
        and tb = "empty_table\<lparr>arr := [LFunction 4, LInteger 6]\<rparr>"])
    (use handlers_cleanup_world in \<open>simp_all add: represents_arr\<close>)

section \<open>Cancellation\<close>

text \<open>The environment records which function is called; the calls return nothing.\<close>

definition records_calls :: "env \<Rightarrow> bool" where
  "records_calls E \<longleftrightarrow> (\<forall>c args v. lcall E (LFunction c) args v =
     (Inr [], v\<lparr>trace := (''lua_call'', [APtr c]) # trace v\<rparr>))"

definition call_of :: "nat \<Rightarrow> ecall" where
  "call_of c = (''lua_call'', [APtr c])"

lemma cleanup_loop_run:
  assumes "border_ok E" and "records_calls E" and "stacks w L = Some (s @ [LTable ct])"
    and "tabs w ct = Some tb" and "represents tb (map LTable (hs @ ts))"
    and "list_all2 (\<lambda>t c. \<exists>tb' args. tabs w t = Some tb' \<and> represents tb' (LFunction c # args)) ts cs"
  shows "cleanup_loop E L (int (length s) + 1) (Suc (length hs)) (length ts) w =
           (Inr (), w\<lparr>trace := rev (map call_of cs) @ trace w\<rparr>)"
  using assms(3-)
proof (induction ts arbitrary: hs cs w)
  case Nil
  then show ?case by simp
next
  case (Cons t ts)
  then obtain c cs' where cs: "cs = c # cs'"
      and rest: "list_all2 (\<lambda>t c. \<exists>tb' args. tabs w t = Some tb' \<and> represents tb' (LFunction c # args)) ts cs'"
      and "\<exists>tb' args. tabs w t = Some tb' \<and> represents tb' (LFunction c # args)"
    by (auto simp: list_all2_Cons1)
  then obtain tb' args where t: "tabs w t = Some tb'" "represents tb' (LFunction c # args)" by blast
  let ?w = "w\<lparr>trace := call_of c # trace w\<rparr>"
  have get: "lua_rawgeti L (int (length s) + 1) (int (Suc (length hs))) w =
      (Inr LUA_TTABLE, setst L (s @ [LTable ct, LTable t]) w)"
    using Cons.prems(1,2) tget_represents [OF Cons.prems(3), of "length hs"]
    by (simp add: lua_rawgeti_def lua_run nth_append add.commute)
  have un: "tunpack E L (-1) (setst L ((s @ [LTable ct]) @ [LTable t]) w) = (Inr (length (LFunction c # args)),
      setst L ((s @ [LTable ct]) @ (LFunction c # args)) (setst L ((s @ [LTable ct]) @ [LTable t]) w))"
    by (rule tunpack_run [OF assms(1), where t = t and tb = tb']) (use t in simp_all)
  have pc: "lua_pcall E L (int (length args)) False (setst L (s @ LTable ct # LFunction c # args) w) =
      (Inr True, ?w)"
    using assms(2) Cons.prems(1)
    by (simp add: lua_pcall_def lua_run records_calls_def call_of_def nth_append setst_same)
  have "cleanup_loop E L (int (length s) + 1) (Suc (length (hs @ [t]))) (length ts) ?w =
      (Inr (), ?w\<lparr>trace := rev (map call_of cs') @ trace ?w\<rparr>)"
    by (rule Cons.IH) (use Cons.prems rest in simp_all)
  with get un pc cs show ?case by (simp add: lua_run)
qed

text \<open>
  When a thread is cancelled its cleanup handlers run in the order in which they were pushed,
  the oldest first, and its state is closed. (POSIX runs cleanup handlers in the reverse order.)
\<close>

theorem thread_cleanup_oldest_first:
  assumes "border_ok E" and "records_calls E" and "stacks w L = Some s" and "handlers w L ct (map LTable ts)"
    and "list_all2 (\<lambda>t c. \<exists>tb args. tabs w t = Some tb \<and> represents tb (LFunction c # args)) ts cs"
  shows "\<exists>w'. thread_cleanup E L w = (Inr (), w') \<and> trace w' = rev (map call_of cs) @ trace w
       \<and> stacks w' L = None"
proof -
  obtain tb where tb: "registry w L = LTable ct" "tabs w ct = Some tb" "represents tb (map LTable ts)"
    by (rule handlersE [OF assms(4)])
  let ?w = "setst L (s @ [LTable ct]) w"
  have "cleanup_loop E L (int (length s) + 1) (Suc (length ([] :: nat list))) (length ts) ?w =
      (Inr (), ?w\<lparr>trace := rev (map call_of cs) @ trace ?w\<rparr>)"
    by (rule cleanup_loop_run [OF assms(1,2)]) (use assms(5) tb in simp_all)
  then show ?thesis
    using assms(3) tb border_represents [OF assms(1) tb(3)]
    by (simp add: thread_cleanup_def luaL_len_def lua_close_def lua_run add.commute)
qed

definition recording_env :: env where
  "recording_env = env0\<lparr>lcall := (\<lambda>f args v. (Inr [], case f of
     LFunction c \<Rightarrow> v\<lparr>trace := (''lua_call'', [APtr c]) # trace v\<rparr> | _ \<Rightarrow> v))\<rparr>"

theorem thread_cleanup_oldest_first_witness:
  "\<exists>w'. thread_cleanup recording_env 1 (cleanup_world []) = (Inr (), w')
       \<and> trace w' = rev (map call_of [4]) @ trace (cleanup_world []) \<and> stacks w' 1 = None"
proof -
  have "border_ok recording_env" using border_ok_env0 by (simp add: border_ok_def recording_env_def)
  then show ?thesis
    by (rule thread_cleanup_oldest_first [where ts = "[3]" and s = "[]" and ct = 2])
      (use handlers_cleanup_world [of "[]"] in \<open>auto simp: records_calls_def recording_env_def
        intro!: exI [of _ "[LInteger 6]"] represents_arr\<close>)
qed

section \<open>Once controls\<close>

text \<open>
  Calling a once control whose routine has run already fails an assertion: the call leaves no
  result, but at least one is required.
\<close>

theorem once_second_call_asserts:
  assumes "stacks w L = Some (LUserdata u # args)" and "uds w u = Some (wrapper PTHREAD_ONCE_METATABLE p)"
    and "p \<noteq> 0" and "mem w p = Some \<lparr>body = Rconce, refs = r\<rparr>"
    and "rc (reply E (trace w) (''pthread_once'', [APtr p])) = 0"
    and "outi (reply E (trace w) (''pthread_once'', [APtr p])) 0 = 0"
  shows "fst (l_pthread_once_call E L w) = Inl AssertFailed"
proof -
  have "cookie_at w (LUserdata u # args) 1 PTHREAD_ONCE_METATABLE = Inr p"
    using assms(2,3) by (simp add: cookie_at_wrapper)
  with assms(1,4-6) show ?thesis
    by (simp add: l_pthread_once_call_def objcall_def lua_run)
qed

definition once_world :: world where
  "once_world = (world0 [1 \<mapsto> [LUserdata 3, LFunction 4]])
     \<lparr>uds := [3 \<mapsto> wrapper PTHREAD_ONCE_METATABLE 5], mem := [5 \<mapsto> \<lparr>body = Rconce, refs = Some 1\<rparr>]\<rparr>"

lemma once_world_sel [simp]:
  "stacks once_world = [1 \<mapsto> [LUserdata 3, LFunction 4]]" "trace once_world = []"
  "uds once_world = [3 \<mapsto> wrapper PTHREAD_ONCE_METATABLE 5]" "mem once_world = [5 \<mapsto> \<lparr>body = Rconce, refs = Some 1\<rparr>]"
  by (simp_all add: once_world_def)

definition once_env :: "(nat \<Rightarrow> int) \<Rightarrow> env" where
  "once_env out = env0\<lparr>reply := (\<lambda>tr c. \<lparr>rc = 0, outi = out, outs = [], outv = (\<lambda>_. [])\<rparr>)\<rparr>"

theorem once_second_call_asserts_witness: "fst (l_pthread_once_call (once_env (\<lambda>_. 0)) 1 once_world) = Inl AssertFailed"
  by (rule once_second_call_asserts [where u = 3 and p = 5 and r = "Some 1" and args = "[LFunction 4]"])
    (simp_all add: once_env_def)

text \<open>
  The first call of a once control does not call the function it is given: it calls the once
  control itself, with the function as first argument. Whatever that call returns (unless it
  returns more values than were passed), an assertion fails.
\<close>

theorem once_calls_itself:
  assumes "stacks w L = Some (LUserdata u # f # args)" and "uds w u = Some (wrapper PTHREAD_ONCE_METATABLE p)"
    and "p \<noteq> 0" and "mem w p = Some \<lparr>body = Rconce, refs = r\<rparr>" and "L \<noteq> 0"
    and "rc (reply E (trace w) (''pthread_once'', [APtr p])) = 0"
    and "outi (reply E (trace w) (''pthread_once'', [APtr p])) 0 \<noteq> 0"
    and "outi (reply E (trace w) (''pthread_once'', [APtr p])) 1 = int L"
    and "lcall E (LUserdata u) (f # args) (setst L [] (w\<lparr>trace := (''pthread_once'', [APtr p]) # trace w\<rparr>)) = (res, v)"
    and "stacks v L = Some []" and "length (outcome res) \<le> Suc (Suc (length args))"
  shows "fst (l_pthread_once_call E L w) = Inl AssertFailed"
proof -
  let ?w = "w\<lparr>trace := (''pthread_once'', [APtr p]) # trace w\<rparr>"
  have "\<exists>s. once_wrapper E L ?w = (Inr (), setst L s v) \<and> length s \<le> Suc (Suc (length args))"
    using assms(1,5,9-11)
    by (cases res) (auto simp: once_wrapper_def lua_pcall_def outcome_def lua_run)
  then obtain s where run: "once_wrapper E L ?w = (Inr (), setst L s v)" "length s \<le> Suc (Suc (length args))"
    by blast
  moreover have "cookie_at w (LUserdata u # f # args) 1 PTHREAD_ONCE_METATABLE = Inr p"
    using assms(2,3) by (simp add: cookie_at_wrapper)
  ultimately show ?thesis
    using assms(1,4,6-8) by (simp add: l_pthread_once_call_def objcall_def c_assert_def lua_run)
qed

theorem once_calls_itself_witness: "fst (l_pthread_once_call (once_env (\<lambda>_. 1)) 1 once_world) = Inl AssertFailed"
  by (rule once_calls_itself [where u = 3 and p = 5 and r = "Some 1" and f = "LFunction 4" and args = "[]"
        and res = "Inr []" and v = "setst 1 [] (once_world\<lparr>trace := (''pthread_once'', [APtr 5]) # trace once_world\<rparr>)"])
    (simp_all add: once_env_def outcome_def)

end
