(* ===== verification/Fd_Object.thy ===== *)
theory Fd_Object
  imports Utils
begin

text \<open>
  The interface of a userdata that owns a file descriptor (in its first user value), as the
  modules \<^verbatim>\<open>sys.eventfd\<close>, \<^verbatim>\<open>sys.procdesc\<close> and \<^verbatim>\<open>sys.inotify\<close> build it: a constructor, a check that reads the
  descriptor, and a close function that is also the finalizer. The laws are the locale's
  assumptions, its lemmas are what a program can rely on.
\<close>

section \<open>Descriptors\<close>

definition FILEDESC :: nat where
  "FILEDESC = 1"

text \<open>The userdata with metatable \<open>m\<close> that owns the descriptor \<open>fd\<close>, or none after it is closed.\<close>

definition fd_object :: "string \<Rightarrow> int option \<Rightarrow> udata" where
  "fd_object m fd = \<lparr>meta = Some m, uvs = [case fd of None \<Rightarrow> LNil | Some i \<Rightarrow> LInteger i],
     blk = None\<rparr>"

lemma fd_object_sel [simp]:
  "meta (fd_object m fd) = Some m"
  "get_uv FILEDESC (fd_object m fd) = Some (case fd of None \<Rightarrow> LNil | Some i \<Rightarrow> LInteger i)"
  by (simp_all add: fd_object_def get_uv_def FILEDESC_def)

lemma fd_object_set [simp]: "set_uv FILEDESC LNil (fd_object m fd) = fd_object m None"
  by (simp add: fd_object_def set_uv_def FILEDESC_def)

text \<open>The bodies that the modules share, with the metatable and the message as arguments.\<close>

locale fd_owner =
  fixes m :: string and closed :: string
    and new_fd :: "lstate \<Rightarrow> int \<Rightarrow> nat lua" and check_fd :: "env \<Rightarrow> lstate \<Rightarrow> int \<Rightarrow> int lua"
    and close_fd fileno wrap :: "env \<Rightarrow> lstate \<Rightarrow> nat lua"
  assumes new_run: "stacks w L = Some s \<Longrightarrow> new_fd L fd w = (Inr 1, setst L (s @ [LUserdata (fresh w)])
        (w\<lparr>uds := (uds w)(fresh w \<mapsto> fd_object m (Some fd)), fresh := Suc (fresh w)\<rparr>))"
    and check_open: "stacks w L = Some (LUserdata u # s) \<Longrightarrow> uds w u = Some (fd_object m (Some fd)) \<Longrightarrow>
      check_fd E L 1 w = (Inr (to_int fd), w)"
    and check_closed: "stacks w L = Some (LUserdata u # s) \<Longrightarrow> uds w u = Some (fd_object m None) \<Longrightarrow>
      fst (check_fd E L 1 w) = Inl (ArgError 1 closed)"
    and close_closed: "stacks w L = Some (LUserdata u # s) \<Longrightarrow> uds w u = Some (fd_object m None) \<Longrightarrow>
      close_fd E L w = (Inr 1, setst L (LUserdata u # s @ [LNil, LInteger 1]) w)"
    and close_ok: "stacks w L = Some (LUserdata u # s) \<Longrightarrow> uds w u = Some (fd_object m (Some fd)) \<Longrightarrow>
      rc (reply E (trace w) (''close'', [AInt (to_int fd)])) \<noteq> -1 \<Longrightarrow>
      close_fd E L w = (Inr 1, setst L (LUserdata u # s @ [LInteger fd, LInteger 1])
        (w\<lparr>uds := (uds w)(u \<mapsto> fd_object m None), trace := (''close'', [AInt (to_int fd)]) # trace w\<rparr>))"
    and close_fails: "stacks w L = Some (LUserdata u # s) \<Longrightarrow> uds w u = Some (fd_object m (Some fd)) \<Longrightarrow>
      r = reply E (trace w) (''close'', [AInt (to_int fd)]) \<Longrightarrow> rc r = -1 \<Longrightarrow>
      close_fd E L w = (Inr 3, setst L (LUserdata u # s
          @ [LInteger fd, LNil, LString (strerror E (errno r)), LInteger (errno r)])
        (w\<lparr>trace := (''close'', [AInt (to_int fd)]) # trace w\<rparr>))"
    and fileno_is: "fileno E L = lbind (check_fd E L 1) (\<lambda>fd. seq (lua_pushinteger L fd) (ret 1))"
    and wrap_is: "wrap E L = lbind (luaL_checkinteger E L 1) (\<lambda>fd. new_fd L (to_int fd))"
begin

text \<open>Wrapping a descriptor and asking for its number gives the number back.\<close>

lemma wrap_fileno:
  assumes "stacks w L = Some [LInteger fd]" and "- (2 ^ 31) \<le> fd" and "fd < 2 ^ 31"
  shows "\<exists>w1. wrap E L w = (Inr 1, w1) \<and> stacks w1 L = Some [LInteger fd, LUserdata (fresh w)]
       \<and> (\<exists>w2. fileno E L (setst L [LUserdata (fresh w)] w1) = (Inr 1, w2)
            \<and> stacks w2 L = Some [LUserdata (fresh w), LInteger fd])"
proof -
  have fd: "to_int fd = fd" using assms(2,3) by (rule to_int_id)
  let ?w1 = "setst L [LInteger fd, LUserdata (fresh w)]
      (w\<lparr>uds := (uds w)(fresh w \<mapsto> fd_object m (Some fd)), fresh := Suc (fresh w)\<rparr>)"
  have "wrap E L w = (Inr 1, ?w1)"
    using assms(1) fd by (simp add: wrap_is luaL_checkinteger_def lua_run new_run)
  moreover have "fileno E L (setst L [LUserdata (fresh w)] ?w1) =
      (Inr 1, setst L [LUserdata (fresh w), LInteger fd] ?w1)"
    using fd by (simp add: fileno_is lua_run check_open [where u = "fresh w" and fd = fd and s = "[]"])
  ultimately show ?thesis by simp
qed

text \<open>
  Closing is done once: after a successful close the object is closed, a second close succeeds
  without a system call, and any use of the descriptor is an argument error.
\<close>

lemma close_once:
  assumes "stacks w L = Some [LUserdata u]" and "uds w u = Some (fd_object m (Some fd))"
    and "rc (reply E (trace w) (''close'', [AInt (to_int fd)])) \<noteq> -1"
  shows "\<exists>w1 w2. close_fd E L w = (Inr 1, w1) \<and> uds w1 u = Some (fd_object m None)
       \<and> trace w1 = (''close'', [AInt (to_int fd)]) # trace w
       \<and> close_fd E L (setst L [LUserdata u] w1) = (Inr 1, w2) \<and> trace w2 = trace w1
       \<and> fst (fileno E L (setst L [LUserdata u] w1)) = Inl (ArgError 1 closed)"
proof -
  let ?w1 = "setst L [LUserdata u, LInteger fd, LInteger 1]
      (w\<lparr>uds := (uds w)(u \<mapsto> fd_object m None), trace := (''close'', [AInt (to_int fd)]) # trace w\<rparr>)"
  let ?w = "setst L [LUserdata u] ?w1"
  have 1: "close_fd E L w = (Inr 1, ?w1)" using close_ok [OF assms] by simp
  have 2: "close_fd E L ?w = (Inr 1, setst L [LUserdata u, LNil, LInteger 1] ?w)"
    using close_closed [of ?w L u "[]" E] by simp
  have "fst (check_fd E L 1 ?w) = Inl (ArgError 1 closed)"
    by (rule check_closed [where u = u and s = "[]"]) simp_all
  then have 3: "fst (fileno E L ?w) = Inl (ArgError 1 closed)"
    by (simp add: fileno_is lbind_error)
  from 1 2 3 show ?thesis by simp
qed

text \<open>A close that fails reports the error and keeps the descriptor: it can be tried again.\<close>

lemma close_retry:
  assumes "stacks w L = Some [LUserdata u]" and "uds w u = Some (fd_object m (Some fd))"
    and "rc (reply E (trace w) (''close'', [AInt (to_int fd)])) = -1"
  shows "\<exists>w1. close_fd E L w = (Inr 3, w1) \<and> uds w1 u = Some (fd_object m (Some fd))
       \<and> check_fd E L 1 (setst L [LUserdata u] w1) = (Inr (to_int fd), setst L [LUserdata u] w1)"
  using close_fails [OF assms(1,2) refl assms(3)] assms(2)
  by (auto intro!: check_open [where s = "[]"])

end

end
