(* ===== verification/Eventfd.thy ===== *)
theory Eventfd
  imports Fd_Object
begin

text \<open>
  \<^verbatim>\<open>sys/eventfd/lua_eventfd.c\<close>: event descriptors. The descriptor is an integer in the first user
  value of the userdata, nil once it is closed. Counter values are unsigned 64-bit integers.
\<close>

section \<open>Definitions\<close>

definition EVENTFD_METATABLE :: string where
  "EVENTFD_METATABLE = ''eventfd''"

definition checkeventfdnil :: "lstate \<Rightarrow> int \<Rightarrow> unit lua" where
  "checkeventfdnil L idx =
     seq (luaL_checkudata L idx EVENTFD_METATABLE)
    (seq (lua_getiuservalue L idx FILEDESC)
     (ret ()))"

definition checkeventfd :: "env \<Rightarrow> lstate \<Rightarrow> int \<Rightarrow> int lua" where
  "checkeventfd E L idx =
     seq (checkeventfdnil L idx)
    (lbind (lua_isinteger L (-1)) (\<lambda>isint.
     seq (luaL_argcheck isint idx ''invalid eventfd (closed)'')
    (lbind (lua_tointeger E L (-1)) (\<lambda>fd.
     seq (lua_pop L 1)
     (ret (to_int fd))))))"

definition neweventfd :: "lstate \<Rightarrow> int \<Rightarrow> nat lua" where
  "neweventfd L fd =
     seq (lua_newuserdatauv L 1)
    (seq (lua_pushinteger L fd)
    (seq (lua_setiuservalue L (-2) FILEDESC)
    (seq (luaL_setmetatable L EVENTFD_METATABLE)
     (ret 1))))"

definition l_eventfd :: "env \<Rightarrow> lstate \<Rightarrow> nat lua" where
  "l_eventfd E L =
     lbind (luaL_checkinteger E L 1) (\<lambda>initval.
     lbind (luaL_optinteger E L 2 0) (\<lambda>flags.
     lbind (ccall E ''eventfd'' [AInt (to_uint initval), AInt (to_int flags)]) (\<lambda>r.
     if rc r = -1 then fail E L (errno r)
     else neweventfd L (rc r))))"

definition l_eventfd_close :: "env \<Rightarrow> lstate \<Rightarrow> nat lua" where
  "l_eventfd_close E L =
     seq (checkeventfdnil L 1)
    (lbind (lua_type L (-1)) (\<lambda>t.
     if t = LUA_TNIL then success L
     else
       lbind (lua_tointeger E L (-1)) (\<lambda>fd.
       lbind (ccall E ''close'' [AInt (to_int fd)]) (\<lambda>r.
       if rc r = -1 then fail E L (errno r)
       else
         seq (lua_pushnil L)
        (seq (lua_setiuservalue L 1 FILEDESC)
         (success L))))))"

definition l_eventfd_fileno :: "env \<Rightarrow> lstate \<Rightarrow> nat lua" where
  "l_eventfd_fileno E L =
     lbind (checkeventfd E L 1) (\<lambda>fd.
     seq (lua_pushinteger L fd)
     (ret 1))"

definition l_eventfd_read :: "env \<Rightarrow> lstate \<Rightarrow> nat lua" where
  "l_eventfd_read E L =
     lbind (checkeventfd E L 1) (\<lambda>fd.
     lbind (ccall E ''eventfd_read'' [AInt fd]) (\<lambda>r.
     if rc r = -1 then fail E L (errno r)
     else
       seq (lua_pushinteger L (to_lua_Integer (outi r 1)))
       (ret 1)))"

definition l_eventfd_write :: "env \<Rightarrow> lstate \<Rightarrow> nat lua" where
  "l_eventfd_write E L =
     lbind (checkeventfd E L 1) (\<lambda>fd.
     lbind (luaL_checkinteger E L 2) (\<lambda>value.
     lbind (ccall E ''eventfd_write'' [AInt fd, AInt (to_size_t value)]) (\<lambda>r.
     if rc r = -1 then fail E L (errno r)
     else success L)))"

definition l_eventfd_wrap :: "env \<Rightarrow> lstate \<Rightarrow> nat lua" where
  "l_eventfd_wrap E L =
     lbind (luaL_checkinteger E L 1) (\<lambda>fd.
     neweventfd L (to_int fd))"

definition l_eventfd_funcs :: "(string \<times> cfunction) list" where
  "l_eventfd_funcs =
     [(''eventfd'', l_eventfd),
      (''wrap'', l_eventfd_wrap)]"

definition l_eventfd_meta :: "(string \<times> cfunction) list" where
  "l_eventfd_meta =
     [(''__close'', l_eventfd_close),
      (''__gc'', l_eventfd_close),
      (''close'', l_eventfd_close),
      (''fileno'', l_eventfd_fileno),
      (''read'', l_eventfd_read),
      (''write'', l_eventfd_write)]"

text \<open>The metatable that \<^verbatim>\<open>luaopen_sys_eventfd\<close> registers, and the module it returns.\<close>

definition luaopen_sys_eventfd ::
  "env \<Rightarrow> (string \<times> (string \<times> cfunction) list) \<times> (string \<times> field) list" where
  "luaopen_sys_eventfd E =
     ((EVENTFD_METATABLE, l_eventfd_meta),
      luaL_newlib l_eventfd_funcs @ DEFINE E ''EFD_'' [''CLOEXEC'', ''NONBLOCK'', ''SEMAPHORE''])"

section \<open>Event descriptors own their descriptor\<close>

interpretation eventfd: fd_owner EVENTFD_METATABLE "''invalid eventfd (closed)''" neweventfd checkeventfd
    l_eventfd_close l_eventfd_fileno l_eventfd_wrap
proof (unfold_locales, goal_cases)
  case (1 w L s fd)
  then show ?case
    by (simp add: neweventfd_def lua_newuserdatauv_def lua_setiuservalue_def luaL_setmetatable_def lua_run
        ud_at_def set_uv_def FILEDESC_def fd_object_def)
next
  case (2 w L u s fd E)
  then show ?case
    by (simp add: checkeventfd_def checkeventfdnil_def luaL_checkudata_def lua_getiuservalue_def
        luaL_argcheck_def ud_at_def lua_run setst_same)
next
  case (3 w L u s E)
  then show ?case
    by (simp add: checkeventfd_def checkeventfdnil_def luaL_checkudata_def lua_getiuservalue_def
        luaL_argcheck_def ud_at_def lua_run)
qed (simp_all add: l_eventfd_close_def checkeventfdnil_def luaL_checkudata_def lua_getiuservalue_def
      lua_setiuservalue_def ud_at_def lua_run l_eventfd_fileno_def l_eventfd_wrap_def)

text \<open>
  Wrapping a descriptor number as an event descriptor and asking for its file number gives the
  number back, for every value of the C type \<^verbatim>\<open>int\<close>.
\<close>

theorem eventfd_wrap_fileno:
  assumes "stacks w L = Some [LInteger fd]" and "- (2 ^ 31) \<le> fd" and "fd < 2 ^ 31"
  shows "\<exists>w1. l_eventfd_wrap E L w = (Inr 1, w1) \<and> stacks w1 L = Some [LInteger fd, LUserdata (fresh w)]
       \<and> (\<exists>w2. l_eventfd_fileno E L (setst L [LUserdata (fresh w)] w1) = (Inr 1, w2)
            \<and> stacks w2 L = Some [LUserdata (fresh w), LInteger fd])"
  by (rule eventfd.wrap_fileno [OF assms])

theorem eventfd_wrap_fileno_witness:
  "\<exists>w1. l_eventfd_wrap env0 1 (world0 [1 \<mapsto> [LInteger 3]]) = (Inr 1, w1)
       \<and> stacks w1 1 = Some [LInteger 3, LUserdata (fresh (world0 [1 \<mapsto> [LInteger 3]]))]
       \<and> (\<exists>w2. l_eventfd_fileno env0 1
              (setst 1 [LUserdata (fresh (world0 [1 \<mapsto> [LInteger 3]]))] w1) = (Inr 1, w2)
            \<and> stacks w2 1 = Some [LUserdata (fresh (world0 [1 \<mapsto> [LInteger 3]])), LInteger 3])"
  by (rule eventfd_wrap_fileno) simp_all

text \<open>
  An event descriptor is closed once: after a successful close, a second close (or the
  finalizer) succeeds without another \<^verbatim>\<open>close\<close> call, so it cannot close a descriptor that the
  process has reused meanwhile, and the methods refuse the closed object.
\<close>

theorem eventfd_close_once:
  assumes "stacks w L = Some [LUserdata u]" and "uds w u = Some (fd_object EVENTFD_METATABLE (Some fd))"
    and "rc (reply E (trace w) (''close'', [AInt (to_int fd)])) \<noteq> -1"
  shows "\<exists>w1 w2. l_eventfd_close E L w = (Inr 1, w1) \<and> uds w1 u = Some (fd_object EVENTFD_METATABLE None)
       \<and> trace w1 = (''close'', [AInt (to_int fd)]) # trace w
       \<and> l_eventfd_close E L (setst L [LUserdata u] w1) = (Inr 1, w2) \<and> trace w2 = trace w1
       \<and> fst (l_eventfd_fileno E L (setst L [LUserdata u] w1)) =
           Inl (ArgError 1 ''invalid eventfd (closed)'')"
  by (rule eventfd.close_once [OF assms])

definition eventfd_world :: world where
  "eventfd_world = (world0 [1 \<mapsto> [LUserdata 5]])\<lparr>uds := [5 \<mapsto> fd_object EVENTFD_METATABLE (Some 3)]\<rparr>"

theorem eventfd_close_once_witness:
  "\<exists>w1 w2. l_eventfd_close env0 1 eventfd_world = (Inr 1, w1)
       \<and> uds w1 5 = Some (fd_object EVENTFD_METATABLE None)
       \<and> trace w1 = (''close'', [AInt (to_int 3)]) # trace eventfd_world
       \<and> l_eventfd_close env0 1 (setst 1 [LUserdata 5] w1) = (Inr 1, w2) \<and> trace w2 = trace w1
       \<and> fst (l_eventfd_fileno env0 1 (setst 1 [LUserdata 5] w1)) =
           Inl (ArgError 1 ''invalid eventfd (closed)'')"
  by (rule eventfd_close_once) (simp_all add: eventfd_world_def)

text \<open>
  Counter values: a value that Lua writes and the kernel hands back to a read arrives
  unchanged, also where the unsigned counter has its highest bit set.
\<close>

theorem eventfd_value_roundtrip:
  assumes "stacks w L = Some [LUserdata u, LInteger v]" and "- (2 ^ 63) \<le> v" and "v < 2 ^ 63"
    and "uds w u = Some (fd_object EVENTFD_METATABLE (Some fd))"
    and "\<And>tr c. rc (reply E tr c) = 0"
    and "\<And>tr x. outi (reply E ((''eventfd_write'', [AInt (to_int fd), AInt x]) # tr)
            (''eventfd_read'', [AInt (to_int fd)])) 1 = x"
  shows "\<exists>w1 w2. l_eventfd_write E L w = (Inr 1, w1)
       \<and> l_eventfd_read E L (setst L [LUserdata u] w1) = (Inr 1, w2)
       \<and> stacks w2 L = Some [LUserdata u, LInteger v]"
proof -
  have v: "to_lua_Integer (to_size_t v) = v"
  proof -
    have "to_lua_Integer (to_size_t v) = signed_take_bit 63 v"
      by (simp add: to_lua_Integer_def to_size_t_def signed_take_bit_take_bit)
    also have "\<dots> = v" using assms(2,3) by (simp add: signed_take_bit_int_eq_self)
    finally show ?thesis .
  qed
  have ck: "checkeventfd E L 1 w' = (Inr (to_int fd), w')"
    if "stacks w' L = Some (LUserdata u # s)" "uds w' = uds w" for w' s
    using eventfd.check_open [OF that(1)] that(2) assms(4) by simp
  show ?thesis
    using assms(1,5,6) v
    by (simp add: l_eventfd_write_def l_eventfd_read_def luaL_checkinteger_def lua_run ck)
qed

text \<open>An environment whose event counter holds the last value written.\<close>

definition counter_env :: env where
  "counter_env = env0\<lparr>reply := (\<lambda>tr c. \<lparr>rc = 0,
     outi = (\<lambda>_. case tr of (_, [_, AInt x]) # _ \<Rightarrow> x | _ \<Rightarrow> 0), outs = [], outv = (\<lambda>_. [])\<rparr>)\<rparr>"

theorem eventfd_value_roundtrip_witness:
  "\<exists>w1 w2. l_eventfd_write counter_env 1 (setst 1 [LUserdata 5, LInteger (-2)] eventfd_world) = (Inr 1, w1)
       \<and> l_eventfd_read counter_env 1 (setst 1 [LUserdata 5] w1) = (Inr 1, w2)
       \<and> stacks w2 1 = Some [LUserdata 5, LInteger (-2)]"
  by (rule eventfd_value_roundtrip [where fd = 3]) (simp_all add: eventfd_world_def counter_env_def)

end
