(* ===== verification/Procdesc.thy ===== *)
theory Procdesc
  imports Fd_Object
begin

text \<open>
  \<^verbatim>\<open>sys/procdesc/lua_procdesc.c\<close>: process descriptors. The functions that take a descriptor accept
  an object of this module or a plain integer.
\<close>

section \<open>Definitions\<close>

definition PROCDESC_METATABLE :: string where
  "PROCDESC_METATABLE = ''procdesc''"

definition checkprocdescnil :: "lstate \<Rightarrow> int \<Rightarrow> unit lua" where
  "checkprocdescnil L idx =
     seq (luaL_checkudata L idx PROCDESC_METATABLE)
    (seq (lua_getiuservalue L idx FILEDESC)
     (ret ()))"

definition checkprocdesc :: "env \<Rightarrow> lstate \<Rightarrow> int \<Rightarrow> int lua" where
  "checkprocdesc E L idx =
     seq (checkprocdescnil L idx)
    (lbind (lua_isinteger L (-1)) (\<lambda>isint.
     seq (luaL_argcheck isint idx ''invalid procdesc (closed)'')
    (lbind (lua_tointeger E L (-1)) (\<lambda>fd.
     seq (lua_pop L 1)
     (ret (to_int fd))))))"

definition checkprocdescfd :: "env \<Rightarrow> lstate \<Rightarrow> int \<Rightarrow> int lua" where
  "checkprocdescfd E L idx =
     lbind (lua_isinteger L idx) (\<lambda>isint.
     if isint then lbind (lua_tointeger E L idx) (\<lambda>fd. ret (to_int fd))
     else checkprocdesc E L idx)"

definition newprocdesc :: "lstate \<Rightarrow> int \<Rightarrow> nat lua" where
  "newprocdesc L fd =
     seq (lua_newuserdatauv L 1)
    (seq (lua_pushinteger L fd)
    (seq (lua_setiuservalue L (-2) FILEDESC)
    (seq (luaL_setmetatable L PROCDESC_METATABLE)
     (ret 1))))"

text \<open>\<^verbatim>\<open>pdfork\<close> stores the descriptor through its argument: the second out-value.\<close>

definition l_pdfork :: "env \<Rightarrow> lstate \<Rightarrow> nat lua" where
  "l_pdfork E L =
     lbind (luaL_optinteger E L 1 0) (\<lambda>flags.
     lbind (ccall E ''pdfork'' [AInt (to_int flags)]) (\<lambda>r.
     if rc r = -1 then fail E L (errno r)
     else
       seq (lua_pushinteger L (rc r))
      (seq (newprocdesc L (outi r 1))
       (ret 2))))"

definition l_pdgetpid :: "env \<Rightarrow> lstate \<Rightarrow> nat lua" where
  "l_pdgetpid E L =
     lbind (checkprocdescfd E L 1) (\<lambda>fd.
     lbind (ccall E ''pdgetpid'' [AInt fd]) (\<lambda>r.
     if rc r = -1 then fail E L (errno r)
     else
       seq (lua_pushinteger L (outi r 1))
       (ret 1)))"

definition l_pdkill :: "env \<Rightarrow> lstate \<Rightarrow> nat lua" where
  "l_pdkill E L =
     lbind (checkprocdescfd E L 1) (\<lambda>fd.
     lbind (luaL_checkinteger E L 2) (\<lambda>signum.
     lbind (ccall E ''pdkill'' [AInt fd, AInt (to_int signum)]) (\<lambda>r.
     if rc r = -1 then fail E L (errno r)
     else success L)))"

definition l_procdesc_wrap :: "env \<Rightarrow> lstate \<Rightarrow> nat lua" where
  "l_procdesc_wrap E L =
     lbind (luaL_checkinteger E L 1) (\<lambda>fd.
     newprocdesc L (to_int fd))"

definition l_procdesc_close :: "env \<Rightarrow> lstate \<Rightarrow> nat lua" where
  "l_procdesc_close E L =
     seq (checkprocdescnil L 1)
    (lbind (lua_type L (-1)) (\<lambda>t.
     if t = LUA_TNIL then success L
     else
       lbind (lua_tointeger E L (-1)) (\<lambda>fd.
       lbind (ccall E ''close'' [AInt (to_int fd)]) (\<lambda>r.
       if rc r = -1 then fail E L (errno r)
       else
         seq (lua_pushnil L)
        (seq (lua_setiuservalue L 1 FILEDESC)
         (success L))))))"

definition l_procdesc_fileno :: "env \<Rightarrow> lstate \<Rightarrow> nat lua" where
  "l_procdesc_fileno E L =
     lbind (checkprocdesc E L 1) (\<lambda>fd.
     seq (lua_pushinteger L fd)
     (ret 1))"

definition l_procdesc_funcs :: "(string \<times> cfunction) list" where
  "l_procdesc_funcs =
     [(''pdfork'', l_pdfork),
      (''pdgetpid'', l_pdgetpid),
      (''pdkill'', l_pdkill),
      (''wrap'', l_procdesc_wrap)]"

definition l_procdesc_meta :: "(string \<times> cfunction) list" where
  "l_procdesc_meta =
     [(''__close'', l_procdesc_close),
      (''__gc'', l_procdesc_close),
      (''close'', l_procdesc_close),
      (''fileno'', l_procdesc_fileno),
      (''getpid'', l_pdgetpid),
      (''kill'', l_pdkill)]"

text \<open>The metatable that \<^verbatim>\<open>luaopen_sys_procdesc\<close> registers, and the module it returns.\<close>

definition luaopen_sys_procdesc ::
  "env \<Rightarrow> (string \<times> (string \<times> cfunction) list) \<times> (string \<times> field) list" where
  "luaopen_sys_procdesc E =
     ((PROCDESC_METATABLE, l_procdesc_meta),
      luaL_newlib l_procdesc_funcs @ DEFINE E ''PD_'' [''DAEMON'', ''CLOEXEC'', ''ALLOWED_AT_FORK''])"

section \<open>Process descriptors own their descriptor\<close>

interpretation procdesc: fd_owner PROCDESC_METATABLE "''invalid procdesc (closed)''" newprocdesc
    checkprocdesc l_procdesc_close l_procdesc_fileno l_procdesc_wrap
proof (unfold_locales, goal_cases)
  case (1 w L s fd)
  then show ?case
    by (simp add: newprocdesc_def lua_newuserdatauv_def lua_setiuservalue_def luaL_setmetatable_def lua_run
        ud_at_def set_uv_def FILEDESC_def fd_object_def)
next
  case (2 w L u s fd E)
  then show ?case
    by (simp add: checkprocdesc_def checkprocdescnil_def luaL_checkudata_def lua_getiuservalue_def
        luaL_argcheck_def ud_at_def lua_run setst_same)
next
  case (3 w L u s E)
  then show ?case
    by (simp add: checkprocdesc_def checkprocdescnil_def luaL_checkudata_def lua_getiuservalue_def
        luaL_argcheck_def ud_at_def lua_run)
qed (simp_all add: l_procdesc_close_def checkprocdescnil_def luaL_checkudata_def lua_getiuservalue_def
      lua_setiuservalue_def ud_at_def lua_run l_procdesc_fileno_def l_procdesc_wrap_def)

section \<open>The life of a child\<close>

lemma pdkill_closed:
  assumes "stacks w L = Some (LUserdata u # s)" and "uds w u = Some (fd_object PROCDESC_METATABLE None)"
  shows "fst (l_pdkill E L w) = Inl (ArgError 1 ''invalid procdesc (closed)'')"
proof -
  have "fst (checkprocdesc E L 1 w) = Inl (ArgError 1 ''invalid procdesc (closed)'')"
    by (rule procdesc.check_closed [OF assms])
  then have "fst (checkprocdescfd E L 1 w) = Inl (ArgError 1 ''invalid procdesc (closed)'')"
    using assms(1) by (simp add: checkprocdescfd_def lua_run)
  then show ?thesis unfolding l_pdkill_def by (simp add: lbind_error)
qed

text \<open>
  A forked child can be signalled through the descriptor that the fork returned: the object is
  the second result, and \<^verbatim>\<open>kill\<close> on it calls \<^verbatim>\<open>pdkill\<close> with the descriptor that \<^verbatim>\<open>pdfork\<close> stored and
  the signal, until the object is closed; then it is refused without any call.
\<close>

theorem procdesc_fork_kill_close:
  assumes "stacks w L = Some []" and "r = reply E (trace w) (''pdfork'', [AInt 0])"
    and "rc r \<noteq> -1" and "outi r 1 = fd" and "to_int fd = fd" and "to_int sig = sig"
    and "\<And>tr c. fst c = ''pdkill'' \<or> fst c = ''close'' \<Longrightarrow> rc (reply E tr c) = 0"
  shows "\<exists>w1 w2 w3 p. l_pdfork E L w = (Inr 2, w1) \<and> stacks w1 L = Some [LInteger (rc r), p]
       \<and> l_pdkill E L (setst L [p, LInteger sig] w1) = (Inr 1, w2)
       \<and> trace w2 = (''pdkill'', [AInt fd, AInt sig]) # trace w1
       \<and> l_procdesc_close E L (setst L [p] w2) = (Inr 1, w3)
       \<and> fst (l_pdkill E L (setst L [p, LInteger sig] w3)) =
           Inl (ArgError 1 ''invalid procdesc (closed)'')"
proof -
  let ?u = "fresh w" and ?ob = "fd_object PROCDESC_METATABLE"
  let ?p = "LUserdata ?u"
  let ?w1 = "setst L [LInteger (rc r), ?p] (w\<lparr>trace := (''pdfork'', [AInt 0]) # trace w,
      uds := (uds w)(?u \<mapsto> ?ob (Some fd)), fresh := Suc ?u\<rparr>)"
  have 1: "l_pdfork E L w = (Inr 2, ?w1)"
    using assms(1-4)
    by (simp add: l_pdfork_def luaL_optinteger_def to_int_def lua_run procdesc.new_run)
  let ?w2 = "setst L [?p, LInteger sig, LInteger 1]
      (?w1\<lparr>trace := (''pdkill'', [AInt fd, AInt sig]) # trace ?w1\<rparr>)"
  have 2: "l_pdkill E L (setst L [?p, LInteger sig] ?w1) = (Inr 1, ?w2)"
    using assms(5,6,7)
    by (simp add: l_pdkill_def checkprocdescfd_def luaL_checkinteger_def lua_run
        procdesc.check_open [where u = ?u and fd = fd and s = "[LInteger sig]"])
  let ?w3 = "snd (l_procdesc_close E L (setst L [?p] ?w2))"
  have 3: "l_procdesc_close E L (setst L [?p] ?w2) = (Inr 1, ?w3)" "uds ?w3 ?u = Some (?ob None)"
    using procdesc.close_ok [of "setst L [?p] ?w2" L ?u "[]" fd E] assms(7) by simp_all
  have 4: "fst (l_pdkill E L (setst L [?p, LInteger sig] ?w3)) = Inl (ArgError 1 ''invalid procdesc (closed)'')"
    by (rule pdkill_closed [where u = ?u and s = "[LInteger sig]"]) (use 3(2) in simp_all)
  from 1 2 3(1) 4 show ?thesis by (auto intro!: exI [of _ ?p])
qed

theorem procdesc_fork_kill_close_witness:
  "\<exists>w1 w2 w3 p. l_pdfork env0 1 (world0 [1 \<mapsto> []]) = (Inr 2, w1) \<and> stacks w1 1 = Some [LInteger 0, p]
       \<and> l_pdkill env0 1 (setst 1 [p, LInteger 9] w1) = (Inr 1, w2)
       \<and> trace w2 = (''pdkill'', [AInt 7, AInt 9]) # trace w1
       \<and> l_procdesc_close env0 1 (setst 1 [p] w2) = (Inr 1, w3)
       \<and> fst (l_pdkill env0 1 (setst 1 [p, LInteger 9] w3)) =
           Inl (ArgError 1 ''invalid procdesc (closed)'')"
proof -
  have 0: "LInteger 0 = LInteger (rc (reply0 [] (''pdfork'', [AInt 0])))" by simp
  show ?thesis
    unfolding 0 by (rule procdesc_fork_kill_close) (auto simp: to_int_id)
qed

end
