(* ===== verification/Inotify.thy ===== *)
theory Inotify
  imports Fd_Object
begin

text \<open>
  \<^verbatim>\<open>sys/inotify/lua_inotify.c\<close>: inotify descriptors. Reading one gives a buffer with any number of
  events of variable size, which the module decodes into a table of tables.
\<close>

section \<open>Definitions\<close>

definition INOTIFY_METATABLE :: string where
  "INOTIFY_METATABLE = ''inotify fd''"

definition checkinotifynil :: "lstate \<Rightarrow> int \<Rightarrow> unit lua" where
  "checkinotifynil L idx =
     seq (luaL_checkudata L idx INOTIFY_METATABLE)
    (seq (lua_getiuservalue L idx FILEDESC)
     (ret ()))"

definition checkinotify :: "env \<Rightarrow> lstate \<Rightarrow> int \<Rightarrow> int lua" where
  "checkinotify E L idx =
     seq (checkinotifynil L idx)
    (lbind (lua_isinteger L (-1)) (\<lambda>isint.
     seq (luaL_argcheck isint idx ''invalid inotify fd (closed)'')
    (lbind (lua_tointeger E L (-1)) (\<lambda>fd.
     seq (lua_pop L 1)
     (ret (to_int fd))))))"

definition newinotify :: "lstate \<Rightarrow> int \<Rightarrow> nat lua" where
  "newinotify L fd =
     seq (lua_newuserdatauv L 1)
    (seq (lua_pushinteger L fd)
    (seq (lua_setiuservalue L (-2) FILEDESC)
    (seq (luaL_setmetatable L INOTIFY_METATABLE)
     (ret 1))))"

definition l_inotify_init :: "env \<Rightarrow> lstate \<Rightarrow> nat lua" where
  "l_inotify_init E L =
     lbind (luaL_optinteger E L 1 0) (\<lambda>flags.
     lbind (ccall E ''inotify_init1'' [AInt (to_int flags)]) (\<lambda>r.
     if rc r = -1 then fail E L (errno r)
     else newinotify L (rc r)))"

definition l_inotify_close :: "env \<Rightarrow> lstate \<Rightarrow> nat lua" where
  "l_inotify_close E L =
     seq (checkinotifynil L 1)
    (lbind (lua_type L (-1)) (\<lambda>t.
     if t = LUA_TNIL then success L
     else
       lbind (lua_tointeger E L (-1)) (\<lambda>fd.
       lbind (ccall E ''close'' [AInt (to_int fd)]) (\<lambda>r.
       if rc r = -1 then fail E L (errno r)
       else
         seq (lua_pushnil L)
        (seq (lua_setiuservalue L 1 FILEDESC)
         (success L))))))"

definition l_inotify_fileno :: "env \<Rightarrow> lstate \<Rightarrow> nat lua" where
  "l_inotify_fileno E L =
     lbind (checkinotify E L 1) (\<lambda>fd.
     seq (lua_pushinteger L fd)
     (ret 1))"

text \<open>
  \<^verbatim>\<open>struct inotify_event\<close> as inotify(2) documents it: the 32-bit fields \<^verbatim>\<open>wd\<close>, \<^verbatim>\<open>mask\<close>, \<^verbatim>\<open>cookie\<close> and
  \<^verbatim>\<open>len\<close> (least significant byte first), then \<^verbatim>\<open>len\<close> bytes of name, filled up with NUL. \<open>le32 bs i\<close>
  is the field at offset \<open>i\<close>.
\<close>

definition le32 :: "string \<Rightarrow> nat \<Rightarrow> int" where
  "le32 bs i = of_char (bs ! i) + 256 * (of_char (bs ! (i + 1))
     + 256 * (of_char (bs ! (i + 2)) + 256 * of_char (bs ! (i + 3))))"

text \<open>
  \<open>ie\<close> is what the kernel stored from the event on. Reading beyond it (an incomplete header, a
  name without a NUL) reads bytes that were never written.
\<close>

definition pushevent :: "lstate \<Rightarrow> string \<Rightarrow> int \<Rightarrow> (string \<times> int) lua" where
  "pushevent L ie resid =
     (if length ie < 16 then throw Undef
      else
        let ie_wd = to_int (le32 ie 0); ie_mask = le32 ie 4; ie_len = le32 ie 12; len = 16 + ie_len in
        seq (lua_newtable L)
       (seq (lua_pushinteger L ie_wd)
       (seq (lua_setfield L (-2) ''wd'')
       (seq (lua_pushinteger L ie_mask)
       (seq (lua_setfield L (-2) ''mask'')
       (seq (if 0 < ie_len then
               if CHR 0x00 \<notin> set (drop 16 ie) then throw Undef
               else
                 seq (lua_pushstring L (cstr (drop 16 ie)))
                 (lua_setfield L (-2) ''name'')
             else ret ())
        (ret (drop (nat len) ie, resid - len))))))))"

text \<open>The loop of \<^verbatim>\<open>read\<close>, with a bound on the number of rounds.\<close>

fun read_loop :: "lstate \<Rightarrow> nat \<Rightarrow> int \<Rightarrow> string \<Rightarrow> int \<Rightarrow> unit lua" where
  "read_loop L 0 i ie len = (if 0 < len then throw NoFuel else ret ())"
| "read_loop L (Suc k) i ie len =
     (if 0 < len then
        lbind (pushevent L ie len) (\<lambda>(ie, len).
        seq (lua_rawseti L (-2) i)
        (read_loop L k (i + 1) ie len))
      else ret ())"

text \<open>The buffer of \<^verbatim>\<open>read\<close>: one event and room for the longest name.\<close>

definition sizeof_event :: "env \<Rightarrow> int" where
  "sizeof_event E = 16 + (const E ''NAME_MAX'' + 1)"

definition l_inotify_read :: "env \<Rightarrow> lstate \<Rightarrow> nat lua" where
  "l_inotify_read E L =
     lbind (checkinotify E L 1) (\<lambda>fd.
     lbind (ccall E ''read'' [AInt fd, AInt (sizeof_event E)]) (\<lambda>r.
     if rc r = -1 then fail E L (errno r)
     else
       seq (lua_newtable L)
      (seq (read_loop L (nat (rc r)) 1 (outs r) (rc r))
       (ret 1))))"

definition l_inotify_add_watch :: "env \<Rightarrow> lstate \<Rightarrow> nat lua" where
  "l_inotify_add_watch E L =
     lbind (checkinotify E L 1) (\<lambda>fd.
     lbind (luaL_checklstring E L 2) (\<lambda>pathname.
     lbind (luaL_checkinteger E L 3) (\<lambda>mask.
     lbind (ccall E ''inotify_add_watch'' [AInt fd, AStr (cstr pathname), AInt (to_uint mask)]) (\<lambda>r.
     if rc r = -1 then fail E L (errno r)
     else
       seq (lua_pushinteger L (rc r))
       (ret 1)))))"

definition l_inotify_add_watch_at :: "env \<Rightarrow> lstate \<Rightarrow> nat lua" where
  "l_inotify_add_watch_at E L =
     lbind (checkinotify E L 1) (\<lambda>fd.
     lbind (luaL_checkinteger E L 2) (\<lambda>dfd.
     lbind (luaL_checklstring E L 3) (\<lambda>pathname.
     lbind (luaL_checkinteger E L 4) (\<lambda>mask.
     lbind (ccall E ''inotify_add_watch_at''
       [AInt fd, AInt (to_int dfd), AStr (cstr pathname), AInt (to_uint mask)]) (\<lambda>r.
     if rc r = -1 then fail E L (errno r)
     else
       seq (lua_pushinteger L (rc r))
       (ret 1))))))"

definition l_inotify_rm_watch :: "env \<Rightarrow> lstate \<Rightarrow> nat lua" where
  "l_inotify_rm_watch E L =
     lbind (checkinotify E L 1) (\<lambda>fd.
     lbind (luaL_checkinteger E L 2) (\<lambda>wd.
     lbind (ccall E ''inotify_rm_watch'' [AInt fd, AInt (to_uint wd)]) (\<lambda>r.
     if rc r = -1 then fail E L (errno r)
     else success L)))"

definition l_inotify_wrap :: "env \<Rightarrow> lstate \<Rightarrow> nat lua" where
  "l_inotify_wrap E L =
     lbind (luaL_checkinteger E L 1) (\<lambda>fd.
     newinotify L (to_int fd))"

definition l_inotify_funcs :: "(string \<times> cfunction) list" where
  "l_inotify_funcs =
     [(''init'', l_inotify_init),
      (''wrap'', l_inotify_wrap)]"

definition l_inotify_meta :: "(string \<times> cfunction) list" where
  "l_inotify_meta =
     [(''__close'', l_inotify_close),
      (''__gc'', l_inotify_close),
      (''add_watch'', l_inotify_add_watch),
      (''add_watch_at'', l_inotify_add_watch_at),
      (''rm_watch'', l_inotify_rm_watch),
      (''close'', l_inotify_close),
      (''fileno'', l_inotify_fileno),
      (''read'', l_inotify_read)]"

definition luaopen_sys_inotify ::
  "env \<Rightarrow> (string \<times> (string \<times> cfunction) list) \<times> (string \<times> field) list" where
  "luaopen_sys_inotify E =
     ((INOTIFY_METATABLE, l_inotify_meta),
      luaL_newlib l_inotify_funcs @ DEFINE E ''IN_''
        [''NONBLOCK'', ''CLOEXEC'', ''ACCESS'', ''MODIFY'', ''ATTRIB'', ''CLOSE_WRITE'', ''CLOSE_NOWRITE'',
         ''CLOSE'', ''OPEN'', ''MOVED_FROM'', ''MOVED_TO'', ''MOVE'', ''CREATE'', ''DELETE'', ''DELETE_SELF'',
         ''MOVE_SELF'', ''ALL_EVENTS'', ''ONLYDIR'', ''DONT_FOLLOW'', ''EXCL_UNLINK'', ''MASK_CREATE'',
         ''MASK_ADD'', ''ONESHOT'', ''UNMOUNT'', ''Q_OVERFLOW'', ''IGNORED'', ''ISDIR''])"

section \<open>Inotify objects own their descriptor\<close>

interpretation inotify: fd_owner INOTIFY_METATABLE "''invalid inotify fd (closed)''" newinotify checkinotify
    l_inotify_close l_inotify_fileno l_inotify_wrap
proof (unfold_locales, goal_cases)
  case (1 w L s fd)
  then show ?case
    by (simp add: newinotify_def lua_newuserdatauv_def lua_setiuservalue_def luaL_setmetatable_def lua_run
        ud_at_def set_uv_def FILEDESC_def fd_object_def)
next
  case (2 w L u s fd E)
  then show ?case
    by (simp add: checkinotify_def checkinotifynil_def luaL_checkudata_def lua_getiuservalue_def
        luaL_argcheck_def ud_at_def lua_run setst_same)
next
  case (3 w L u s E)
  then show ?case
    by (simp add: checkinotify_def checkinotifynil_def luaL_checkudata_def lua_getiuservalue_def
        luaL_argcheck_def ud_at_def lua_run)
qed (simp_all add: l_inotify_close_def checkinotifynil_def luaL_checkudata_def lua_getiuservalue_def
      lua_setiuservalue_def ud_at_def lua_run l_inotify_fileno_def l_inotify_wrap_def)

section \<open>Decoding events\<close>

text \<open>
  What the kernel stores for an event, following inotify(2); \<open>ev_pad\<close> is the number of NUL bytes
  that fill the name up.
\<close>

record event =
  ev_wd :: int
  ev_mask :: int
  ev_cookie :: int
  ev_name :: string
  ev_pad :: nat

definition bytes32 :: "int \<Rightarrow> string" where
  "bytes32 x = [char_of x, char_of (x div 256), char_of (x div 256 div 256),
     char_of (x div 256 div 256 div 256)]"

definition event_bytes :: "event \<Rightarrow> string" where
  "event_bytes e = bytes32 (ev_wd e) @ bytes32 (ev_mask e) @ bytes32 (ev_cookie e)
     @ bytes32 (int (length (ev_name e) + ev_pad e)) @ ev_name e @ replicate (ev_pad e) (CHR 0x00)"

definition event_ok :: "event \<Rightarrow> bool" where
  "event_ok e \<longleftrightarrow> - (2 ^ 31) \<le> ev_wd e \<and> ev_wd e < 2 ^ 31 \<and> 0 \<le> ev_mask e \<and> ev_mask e < 2 ^ 32
     \<and> CHR 0x00 \<notin> set (ev_name e) \<and> (ev_name e = [] \<or> 0 < ev_pad e)
     \<and> length (ev_name e) + ev_pad e < 2 ^ 32"

text \<open>The table that a Lua program should get for it.\<close>

definition event_table :: "event \<Rightarrow> ltable" where
  "event_table e = empty_table\<lparr>strs := (\<lambda>_. LNil)(''wd'' := LInteger (ev_wd e),
     ''mask'' := LInteger (ev_mask e),
     ''name'' := (if ev_pad e = 0 then LNil else LString (ev_name e)))\<rparr>"

lemma le32_bytes32:
  "le32 (bytes32 x @ r) 0 = x mod 2 ^ 32"
proof -
  have le: "le32 ([char_of a, char_of b, char_of c, char_of d] @ r) 0 =
      256 * (256 * (256 * (d mod 256) + c mod 256) + b mod 256) + a mod 256" for a b c d :: int
    by (simp add: le32_def)
  have "x mod 2 ^ 32 = x mod (256 * (256 * (256 * 256)))" by simp
  also have "\<dots> = 256 * (x div 256 mod (256 * (256 * 256))) + x mod 256"
    by (rule zmod_zmult2_eq) simp
  also have "x div 256 mod (256 * (256 * 256)) = 256 * (x div 256 div 256 mod (256 * 256)) + x div 256 mod 256"
    by (rule zmod_zmult2_eq) simp
  also have "x div 256 div 256 mod (256 * 256) =
      256 * (x div 256 div 256 div 256 mod 256) + x div 256 div 256 mod 256"
    by (rule zmod_zmult2_eq) simp
  finally show ?thesis unfolding bytes32_def le by (rule sym)
qed

lemma bytes32_length [simp]: "length (bytes32 x) = 4"
  by (simp add: bytes32_def)

lemma le32_append: "length a = n \<Longrightarrow> le32 (a @ b) (n + i) = le32 b i"
  by (simp add: le32_def nth_append add.assoc)

lemma le32_fields:
  "le32 (bytes32 a @ bytes32 b @ bytes32 c @ bytes32 d @ r) 0 = a mod 2 ^ 32"
  "le32 (bytes32 a @ bytes32 b @ bytes32 c @ bytes32 d @ r) 4 = b mod 2 ^ 32"
  "le32 (bytes32 a @ bytes32 b @ bytes32 c @ bytes32 d @ r) 12 = d mod 2 ^ 32"
proof -
  show "le32 (bytes32 a @ bytes32 b @ bytes32 c @ bytes32 d @ r) 0 = a mod 2 ^ 32"
    by (rule le32_bytes32)
  show "le32 (bytes32 a @ bytes32 b @ bytes32 c @ bytes32 d @ r) 4 = b mod 2 ^ 32"
    using le32_append [of "bytes32 a" 4 "bytes32 b @ bytes32 c @ bytes32 d @ r" 0] le32_bytes32 [of b] by simp
  show "le32 (bytes32 a @ bytes32 b @ bytes32 c @ bytes32 d @ r) 12 = d mod 2 ^ 32"
    using le32_append [of "bytes32 a @ bytes32 b @ bytes32 c" 12 "bytes32 d @ r" 0] le32_bytes32 [of d] by simp
qed

lemma event_fields:
  assumes "event_ok e"
  shows "to_int (le32 (event_bytes e @ r) 0) = ev_wd e" "le32 (event_bytes e @ r) 4 = ev_mask e"
    "le32 (event_bytes e @ r) 12 = int (length (ev_name e) + ev_pad e)"
    "drop 16 (event_bytes e @ r) = ev_name e @ replicate (ev_pad e) (CHR 0x00) @ r"
    "length (event_bytes e) = 16 + (length (ev_name e) + ev_pad e)"
proof -
  have "to_int (ev_wd e mod 2 ^ 32) = to_int (ev_wd e)"
    unfolding to_int_def take_bit_eq_mod [symmetric] by (simp add: signed_take_bit_take_bit)
  with assms show "to_int (le32 (event_bytes e @ r) 0) = ev_wd e"
    by (simp add: event_bytes_def le32_fields(1) [simplified] to_int_id event_ok_def)
  show "le32 (event_bytes e @ r) 4 = ev_mask e" "le32 (event_bytes e @ r) 12 = int (length (ev_name e) + ev_pad e)"
    using assms by (simp_all add: event_bytes_def event_ok_def le32_fields(2,3) [simplified])
qed (simp_all add: event_bytes_def)

lemma cstr_name: "CHR 0x00 \<notin> set a \<Longrightarrow> 0 < n \<Longrightarrow> cstr (a @ replicate n (CHR 0x00) @ r) = a"
  by (cases n) (auto simp: cstr_def takeWhile_append)

lemma event_table_cases:
  "ev_pad e = 0 \<Longrightarrow> event_table e = empty_table\<lparr>strs := (\<lambda>_. LNil)
     (''wd'' := LInteger (ev_wd e), ''mask'' := LInteger (ev_mask e))\<rparr>"
  "0 < ev_pad e \<Longrightarrow> event_table e = empty_table\<lparr>strs := (\<lambda>_. LNil)
     (''wd'' := LInteger (ev_wd e), ''mask'' := LInteger (ev_mask e), ''name'' := LString (ev_name e))\<rparr>"
  by (simp_all add: event_table_def fun_upd_idem)

lemma pushevent_run:
  assumes "stacks w L = Some s" and "event_ok e"
  shows "pushevent L (event_bytes e @ r) len w = (Inr (r, len - int (length (event_bytes e))),
     setst L (s @ [LTable (fresh w)])
       (w\<lparr>fresh := Suc (fresh w), tabs := (tabs w)(fresh w \<mapsto> event_table e)\<rparr>))"
proof -
  define bs where "bs = event_bytes e @ r"
  note fields = event_fields [OF assms(2)]
  have name: "cstr (ev_name e @ replicate (ev_pad e) (CHR 0x00) @ r) = ev_name e" if "0 < ev_pad e"
    by (rule cstr_name) (use assms(2) that in \<open>auto simp: event_ok_def\<close>)
  have pad: "ev_pad e = 0 \<Longrightarrow> ev_name e = []" using assms(2) by (auto simp: event_ok_def)
  have size: "\<not> length bs < 16" "int (length (event_bytes e)) = 16 + int (length (ev_name e) + ev_pad e)"
    "drop (nat (16 + int (length (ev_name e) + ev_pad e))) bs = r"
    using fields(5) by (simp_all add: bs_def nat_add_distrib)
  have bs: "to_int (le32 bs 0) = ev_wd e" "le32 bs 4 = ev_mask e"
    "le32 bs 12 = int (length (ev_name e) + ev_pad e)"
    "drop 16 bs = ev_name e @ replicate (ev_pad e) (CHR 0x00) @ r"
    by (simp_all only: bs_def fields(1-4))
  show ?thesis
    unfolding bs_def [symmetric] using assms(1) name pad size
    by (cases "ev_pad e = 0") (simp_all add: pushevent_def bs lua_createtable_def lua_setfield_def lua_run
        event_table_cases empty_table_def)
qed

text \<open>The events decoded so far are the elements of the table \<open>t\<close>.\<close>

abbreviation decoded :: "world \<Rightarrow> lval list \<Rightarrow> event list \<Rightarrow> bool" where
  "decoded w vs evs \<equiv> list_all2 (\<lambda>v e. \<exists>n. v = LTable n \<and> tabs w n = Some (event_table e)) vs evs"

lemma read_loop_run:
  assumes "stacks w L = Some (s @ [LTable t])" and "tabs w t = Some tb" and "t < fresh w"
    and "\<forall>e \<in> set evs. event_ok e" and "bs = concat (map event_bytes evs)" and "length bs \<le> k"
  shows "\<exists>w' tb' vs. read_loop L k (1 + int (length (arr tb))) bs (int (length bs)) w = (Inr (), w')
       \<and> stacks w' L = Some (s @ [LTable t]) \<and> tabs w' t = Some tb' \<and> arr tb' = arr tb @ vs
       \<and> decoded w' vs evs \<and> (\<forall>n < fresh w. n \<noteq> t \<longrightarrow> tabs w' n = tabs w n)"
  using assms
proof (induction evs arbitrary: w tb bs k)
  case Nil
  then show ?case by (cases k) auto
next
  case (Cons e evs)
  let ?bs = "concat (map event_bytes evs)" and ?tb = "tset tb (1 + int (length (arr tb))) (LTable (fresh w))"
  have e: "event_ok e" and bs: "bs = event_bytes e @ ?bs" using Cons.prems(4,5) by simp_all
  have len: "16 \<le> length (event_bytes e)" using event_fields(5) [OF e] by simp
  then obtain k' where k: "k = Suc k'" using Cons.prems(6) bs by (cases k) auto
  define v where "v = setst L (s @ [LTable t])
      (w\<lparr>fresh := Suc (fresh w), tabs := (tabs w)(fresh w \<mapsto> event_table e, t \<mapsto> ?tb)\<rparr>)"
  have arr: "arr ?tb = arr tb @ [LTable (fresh w)]" by (simp add: tset_def nat_add_distrib)
  have "\<exists>w' tb' vs. read_loop L k' (1 + int (length (arr ?tb))) ?bs (int (length ?bs)) v = (Inr (), w')
       \<and> stacks w' L = Some (s @ [LTable t]) \<and> tabs w' t = Some tb' \<and> arr tb' = arr ?tb @ vs
       \<and> decoded w' vs evs \<and> (\<forall>n < fresh v. n \<noteq> t \<longrightarrow> tabs w' n = tabs v n)"
    by (rule Cons.IH) (use Cons.prems bs len k in \<open>auto simp: v_def\<close>)
  then obtain w' tb' vs where rest: "read_loop L k' (1 + int (length (arr ?tb))) ?bs (int (length ?bs)) v = (Inr (), w')"
    "stacks w' L = Some (s @ [LTable t])" "tabs w' t = Some tb'" "arr tb' = arr ?tb @ vs" "decoded w' vs evs"
    "\<forall>n < fresh v. n \<noteq> t \<longrightarrow> tabs w' n = tabs v n" by blast
  have old: "tabs w' (fresh w) = Some (event_table e)" "\<forall>n < fresh w. n \<noteq> t \<longrightarrow> tabs w' n = tabs w n"
    using rest(6) Cons.prems(3) by (auto simp: v_def)
  have "read_loop L k (1 + int (length (arr tb))) bs (int (length bs)) w =
      read_loop L k' (1 + int (length (arr ?tb))) ?bs (int (length ?bs)) v"
    using Cons.prems(1-3) len
    by (simp add: k bs pushevent_run [OF Cons.prems(1) e] lua_rawseti_def lua_run v_def arr add.commute)
  with rest old arr show ?case by (auto intro!: exI [of _ w'] exI [of _ "LTable (fresh w) # vs"])
qed

text \<open>
  C24. Reading decodes exactly what the kernel stored: for any sequence of events in the buffer, of
  whatever sizes, the result is a table with one table per event in order, each with the watch
  descriptor, the mask, and the name without its filling where the event has one.
\<close>

theorem inotify_read_decodes:
  assumes "stacks w L = Some [LUserdata u]" and "uds w u = Some (fd_object INOTIFY_METATABLE (Some fd))"
    and "r = reply E (trace w) (''read'', [AInt (to_int fd), AInt (sizeof_event E)])"
    and "outs r = concat (map event_bytes evs)" and "rc r = int (length (outs r))"
    and "\<forall>e \<in> set evs. event_ok e"
  shows "\<exists>w' t tb. l_inotify_read E L w = (Inr 1, w') \<and> stacks w' L = Some [LUserdata u, LTable t]
       \<and> tabs w' t = Some tb
       \<and> list_all2 (\<lambda>v e. \<exists>n. v = LTable n \<and> tabs w' n = Some (event_table e)) (arr tb) evs"
proof -
  let ?c = "(''read'', [AInt (to_int fd), AInt (sizeof_event E)])"
  let ?v = "setst L [LUserdata u, LTable (fresh w)] (w\<lparr>trace := ?c # trace w,
      tabs := (tabs w)(fresh w \<mapsto> empty_table), fresh := Suc (fresh w)\<rparr>)"
  have ck: "checkinotify E L 1 w = (Inr (to_int fd), w)"
    by (rule inotify.check_open [OF assms(1,2)])
  have "\<exists>w' tb' vs. read_loop L (length (outs r)) (1 + int (length (arr empty_table))) (outs r)
        (int (length (outs r))) ?v = (Inr (), w')
       \<and> stacks w' L = Some ([LUserdata u] @ [LTable (fresh w)]) \<and> tabs w' (fresh w) = Some tb'
       \<and> arr tb' = arr empty_table @ vs \<and> decoded w' vs evs
       \<and> (\<forall>n < fresh ?v. n \<noteq> fresh w \<longrightarrow> tabs w' n = tabs ?v n)"
    by (rule read_loop_run) (use assms(4,6) in auto)
  then obtain w' tb' vs where "read_loop L (length (outs r)) 1 (outs r) (int (length (outs r))) ?v = (Inr (), w')"
    "stacks w' L = Some [LUserdata u, LTable (fresh w)]" "tabs w' (fresh w) = Some tb'"
    "arr tb' = vs" "decoded w' vs evs" by (auto simp: empty_table_def)
  then show ?thesis
    using assms(1) by (simp add: l_inotify_read_def ck lua_run lua_createtable_def assms(3) [symmetric] assms(5))
qed

definition read_env :: env where
  "read_env = env0\<lparr>reply := (\<lambda>tr c. let bs = concat (map event_bytes
     [\<lparr>ev_wd = 1, ev_mask = 256, ev_cookie = 0, ev_name = ''a'', ev_pad = 3\<rparr>,
      \<lparr>ev_wd = 2, ev_mask = 32768, ev_cookie = 0, ev_name = [], ev_pad = 0\<rparr>])
     in \<lparr>rc = int (length bs), outi = (\<lambda>_. 0), outs = bs, outv = (\<lambda>_. [])\<rparr>)\<rparr>"

definition inotify_world :: world where
  "inotify_world = (world0 [1 \<mapsto> [LUserdata 5]])\<lparr>uds := [5 \<mapsto> fd_object INOTIFY_METATABLE (Some 3)]\<rparr>"

theorem inotify_read_decodes_witness:
  "\<exists>w' t tb. l_inotify_read read_env 1 inotify_world = (Inr 1, w')
       \<and> stacks w' 1 = Some [LUserdata 5, LTable t] \<and> tabs w' t = Some tb
       \<and> list_all2 (\<lambda>v e. \<exists>n. v = LTable n \<and> tabs w' n = Some (event_table e)) (arr tb)
           [\<lparr>ev_wd = 1, ev_mask = 256, ev_cookie = 0, ev_name = ''a'', ev_pad = 3\<rparr>,
            \<lparr>ev_wd = 2, ev_mask = 32768, ev_cookie = 0, ev_name = [], ev_pad = 0\<rparr>]"
  by (rule inotify_read_decodes [OF _ _ refl, where fd = 3])
    (simp_all add: inotify_world_def read_env_def Let_def event_ok_def)

text \<open>Computations that do not end with \<open>NoFuel\<close>.\<close>

definition ends :: "'a lua \<Rightarrow> bool" where
  "ends m \<longleftrightarrow> (\<forall>w. fst (m w) \<noteq> Inl NoFuel)"

lemma ends_lbind: "ends m \<Longrightarrow> (\<And>w a. fst (m w) = Inr a \<Longrightarrow> ends (f a)) \<Longrightarrow> ends (lbind m f)"
  unfolding ends_def
  by (metis lbind_error lbind_value fst_conv obj_sumE)

lemma ends_seq: "ends m \<Longrightarrow> ends k \<Longrightarrow> ends (seq m k)"
  by (simp add: seq_def ends_lbind)

lemma ends_if: "(b \<Longrightarrow> ends m) \<Longrightarrow> (\<not> b \<Longrightarrow> ends k) \<Longrightarrow> ends (if b then m else k)"
  by simp

lemma ends_basic:
  "ends (ret a)" "ends (throw Undef)" "ends (throw (ArgError i m))" "ends (askst L g)" "ends (lua_push L v)"
  "ends (lua_pop L n)" "ends (lua_createtable L)" "ends (lua_setfield L i key)" "ends (lua_rawseti L i j)"
  "ends (ccall E c as)" "ends (luaL_checkudata L i name)" "ends (lua_getiuservalue L i n)"
  by (auto simp: ends_def ret_def throw_def askst_def lua_push_def modst_def lua_pop_def lua_createtable_def
      lua_setfield_def lua_rawseti_def with_tab_def ccall_def luaL_checkudata_def lua_getiuservalue_def
      seq_def lbind_def Let_def split: option.splits)

lemmas ends_rules = ends_lbind ends_seq ends_if ends_basic

lemma le32_nonneg: "0 \<le> le32 bs i"
proof -
  have "0 \<le> (of_char c :: int)" for c by (metis of_nat_0_le_iff of_nat_of_char)
  then show ?thesis by (simp add: le32_def)
qed

lemma pushevent_consumes: "fst (pushevent L ie len w) = Inr (ie', len') \<Longrightarrow> len' \<le> len - 16"
  using le32_nonneg [of ie 12]
  by (auto simp: pushevent_def Let_def seq_def lbind_def split: if_splits prod.splits sum.splits)

lemma ends_pushevent: "ends (pushevent L ie len)"
  unfolding pushevent_def Let_def by (intro ends_rules)

lemma ends_read_loop: "nat len \<le> k \<Longrightarrow> ends (read_loop L k i ie len)"
proof (induction k arbitrary: i ie len)
  case 0
  then show ?case by (simp add: ends_def)
next
  case (Suc k)
  have "ends (read_loop L k (i + 1) ie' len')" if "fst (pushevent L ie len w) = Inr (ie', len')" for ie' len' w
    using pushevent_consumes [OF that] Suc.prems by (intro Suc.IH) linarith
  then show ?case
    by (auto intro!: ends_rules ends_pushevent)
qed

text \<open>
  C25. Reading ends for every reply of the kernel, a malformed one included: each round consumes at
  least the sixteen bytes of a header, so the bound on the rounds is never reached.
\<close>

theorem inotify_read_ends: "fst (l_inotify_read E L w) \<noteq> Inl NoFuel"
proof -
  have "ends (l_inotify_read E L)"
    unfolding l_inotify_read_def checkinotify_def checkinotifynil_def luaL_argcheck_def fail_def
      lua_isinteger_def lua_tointeger_def
    by (intro ends_rules ends_read_loop order.refl)
  then show ?thesis by (simp add: ends_def)
qed

end
