(* ===== verification/Signal.thy ===== *)
theory Signal
  imports Utils
begin

text \<open>
  \<^verbatim>\<open>signal/lua_signal.h\<close>: a \<^verbatim>\<open>struct sigevent\<close> from a table. The struct belongs to the system headers
  and some of its field names are aliases, so it is modelled as the sequence of assignments that
  the code makes to it after setting it to zero.
\<close>

type_synonym sigevent = "(string \<times> int) list"

text \<open>\<^verbatim>\<open>INTFIELD(name)\<close>; \<open>conv\<close> is the conversion to the type of the field, \<open>sig\<close> what was assigned before.\<close>

definition INTFIELD :: "env \<Rightarrow> lstate \<Rightarrow> int \<Rightarrow> string \<Rightarrow> (int \<Rightarrow> int) \<Rightarrow> sigevent \<Rightarrow> sigevent lua" where
  "INTFIELD E L idx name conv sig =
     seq (lua_getfield L idx name)
    (lbind (lua_type L (-1)) (\<lambda>t.
     lbind (if t \<noteq> LUA_TNIL then
              lbind (luaL_checkinteger E L (-1)) (\<lambda>i.
              ret (sig @ [(''sigev_'' @ name, conv i)]))
            else ret sig) (\<lambda>sig.
     seq (lua_pop L 1)
     (ret sig))))"

definition checksigevent :: "env \<Rightarrow> lstate \<Rightarrow> int \<Rightarrow> sigevent lua" where
  "checksigevent E L idx =
     seq (luaL_checktype L idx LUA_TTABLE)
    (lbind (INTFIELD E L idx ''notify'' to_int []) (\<lambda>sig.
     lbind (INTFIELD E L idx ''notify_kqueue'' to_int sig) (\<lambda>sig.
     lbind (INTFIELD E L idx ''notify_kevent_flags'' to_ushort sig) (\<lambda>sig.
     lbind (INTFIELD E L idx ''notify_thread_id'' to_int sig) (\<lambda>sig.
     lbind (INTFIELD E L idx ''signo'' to_int sig) (\<lambda>sig.
     lbind (lua_getfield L idx ''value'') (\<lambda>t.
     lbind (if t = LUA_TLIGHTUSERDATA then
              lbind (lua_tolight L (-1)) (\<lambda>p.
              ret (sig @ [(''sigev_value.sival_ptr'', int p)]))
            else
              lbind (lua_type L (-1)) (\<lambda>t.
              if t \<noteq> LUA_TNIL then
                lbind (luaL_checkinteger E L (-1)) (\<lambda>i.
                ret (sig @ [(''sigev_value.sival_int'', to_int i)]))
              else ret sig)) (\<lambda>sig.
     seq (lua_pop L 1)
     (ret sig)))))))))"

text \<open>
  \<^verbatim>\<open>pushsigevent\<close>: a field is what was assigned last to its storage, 0 if nothing was. Some fields are
  names of the same storage; which ones is up to the system header, so the storage of a field is a
  parameter, its offset. A 16-bit field reads the low bits of what it shares its storage with.
  \<^verbatim>\<open>sigev_value\<close> is a union of an \<^verbatim>\<open>int\<close> and a pointer, of which one at most was assigned.
\<close>

definition sigslot :: "env \<Rightarrow> string \<Rightarrow> int" where
  "sigslot E field = const E (''offsetof(struct sigevent, '' @ field @ '')'')"

definition sigfield :: "env \<Rightarrow> sigevent \<Rightarrow> string \<Rightarrow> int" where
  "sigfield E sig field =
     (case map_of (rev (map (\<lambda>(name, i). (sigslot E name, i)) sig)) (sigslot E field) of None \<Rightarrow> 0 | Some i \<Rightarrow> i)"

definition sigvalue :: "sigevent \<Rightarrow> int" where
  "sigvalue sig = (case map_of (rev sig) ''sigev_value.sival_ptr'' of Some p \<Rightarrow> p
     | None \<Rightarrow> (case map_of (rev sig) ''sigev_value.sival_int'' of Some i \<Rightarrow> to_uint i | None \<Rightarrow> 0))"

definition push_INTFIELD :: "env \<Rightarrow> lstate \<Rightarrow> sigevent \<Rightarrow> string \<Rightarrow> (int \<Rightarrow> int) \<Rightarrow> unit lua" where
  "push_INTFIELD E L sig name conv =
     seq (lua_pushinteger L (conv (sigfield E sig (''sigev_'' @ name))))
     (lua_setfield L (-2) name)"

definition pushsigevent :: "env \<Rightarrow> lstate \<Rightarrow> sigevent \<Rightarrow> unit lua" where
  "pushsigevent E L sig =
     seq (lua_newtable L)
    (seq (push_INTFIELD E L sig ''notify'' to_int)
    (seq (push_INTFIELD E L sig ''notify_kqueue'' to_int)
    (seq (push_INTFIELD E L sig ''notify_kevent_flags'' to_ushort)
    (seq (push_INTFIELD E L sig ''notify_thread_id'' to_int)
    (seq (push_INTFIELD E L sig ''signo'' to_int)
    (seq (lua_createtable L)
    (seq (lua_pushinteger L (to_int (sigvalue sig)))
    (seq (lua_setfield L (-2) ''int'')
    (seq (lua_pushlightuserdata L (nat (sigvalue sig)))
    (seq (lua_setfield L (-2) ''ptr'')
     (lua_setfield L (-2) ''value'')))))))))))"

text \<open>The struct as an argument of a system call.\<close>

definition sigargs :: "sigevent \<Rightarrow> carg list" where
  "sigargs sig = concat (map (\<lambda>(field, i). [AStr field, AInt i]) sig)"

section \<open>What is read from a table\<close>

text \<open>A table of fields whose values, where present, are integers (or a pointer as the value).\<close>

lemma INTFIELD_run:
  assumes "stacks w L = Some s" and "1 \<le> idx" and "tab_at w s idx = Some t" and "tabs w t = Some tb"
    and "strs tb name = (case v of None \<Rightarrow> LNil | Some i \<Rightarrow> LInteger i)"
  shows "INTFIELD E L idx name conv sig w =
     (Inr (sig @ (case v of None \<Rightarrow> [] | Some i \<Rightarrow> [(''sigev_'' @ name, conv i)])), w)"
  using assms
  by (cases v) (simp_all add: INTFIELD_def lua_getfield_def luaL_checkinteger_def lua_run setst_same)

end
