(* ===== verification/Mqueue.thy ===== *)
theory Mqueue
  imports Signal
begin

unbundle bit_operations_syntax

text \<open>
  \<^verbatim>\<open>mqueue/lua_mqueue.c\<close>: POSIX message queues. A queue descriptor (\<^verbatim>\<open>mqd_t\<close>) is kept in the block of
  the userdata, -1 when there is none. Replies of system calls: -1 with \<^verbatim>\<open>errno\<close> as the first
  out-value on failure; the bytes of a received message are \<open>outs\<close>, its priority the second out-value.
\<close>

section \<open>Definitions\<close>

definition MQD_METATABLE :: string where
  "MQD_METATABLE = ''mqd_t''"

text \<open>
  \<^verbatim>\<open>(long)lua_tonumber(L, -1)\<close>: 0 where there is no number; undefined where the number does not fit.
\<close>

definition tolong :: "env \<Rightarrow> lstate \<Rightarrow> int lua" where
  "tolong E L = lbind (askst L (\<lambda>s. Option.bind (at s (-1)) (tonumber E))) (\<lambda>v. case v of
      None \<Rightarrow> ret 0
    | Some n \<Rightarrow> (case number_trunc n of
        Some i \<Rightarrow> (if in_lua_Integer i then ret i else throw Undef)
      | None \<Rightarrow> throw Undef))"

text \<open>One attribute: note that \<^verbatim>\<open>lua_pop(L, -1)\<close> is \<^verbatim>\<open>lua_settop(L, 0)\<close>, which empties the stack.\<close>

definition mq_attr_field :: "env \<Rightarrow> lstate \<Rightarrow> string \<Rightarrow> int lua" where
  "mq_attr_field E L name =
     seq (lua_pushstring L name)
    (seq (lua_gettable L 4)
    (lbind (tolong E L) (\<lambda>i.
     seq (lua_settop L 0)
     (ret i))))"

definition l_mq_open :: "env \<Rightarrow> lstate \<Rightarrow> nat lua" where
  "l_mq_open E L =
     lbind (lua_newuserdatauv L 0) (\<lambda>mqp.
     seq (luaL_setmetatable L MQD_METATABLE)
    (seq (set_blk mqp (-1))
    (lbind (luaL_checklstring E L 1) (\<lambda>name.
     lbind (luaL_checkinteger E L 2) (\<lambda>oflag.
     let oflag = to_int oflag in
     lbind (if oflag AND const E ''O_CREAT'' \<noteq> 0 then
              lbind (luaL_checkinteger E L 3) (\<lambda>mode.
              lbind (lua_gettop L) (\<lambda>top.
              if top = 5 then
                lbind (mq_attr_field E L ''maxmsg'') (\<lambda>mq_maxmsg.
                lbind (mq_attr_field E L ''msgsize'') (\<lambda>mq_msgsize.
                ccall E ''mq_open'' [AStr (cstr name), AInt oflag, AInt (to_ushort mode),
                  AInt mq_maxmsg, AInt mq_msgsize]))
              else ccall E ''mq_open'' [AStr (cstr name), AInt oflag, AInt (to_ushort mode), ANull]))
            else ccall E ''mq_open'' [AStr (cstr name), AInt oflag]) (\<lambda>r.
     if rc r = -1 then fail E L (errno r)
     else
       seq (set_blk mqp (rc r))
       (ret 1)))))))"

definition l_mq_close :: "env \<Rightarrow> lstate \<Rightarrow> nat lua" where
  "l_mq_close E L =
     lbind (luaL_checkudata L 1 MQD_METATABLE) (\<lambda>mqp.
     lbind (get_blk mqp) (\<lambda>mq.
     seq (set_blk mqp (-1))
    (lbind (ccall E ''mq_close'' [AInt mq]) (\<lambda>r.
     if rc r = -1 then fail E L (errno r)
     else success L))))"

definition l_mq_unlink :: "env \<Rightarrow> lstate \<Rightarrow> nat lua" where
  "l_mq_unlink E L =
     lbind (luaL_checklstring E L 1) (\<lambda>name.
     lbind (ccall E ''mq_unlink'' [AStr (cstr name)]) (\<lambda>r.
     if rc r = -1 then fail E L (errno r)
     else success L))"

definition l_mq_getattr :: "env \<Rightarrow> lstate \<Rightarrow> nat lua" where
  "l_mq_getattr E L =
     lbind (luaL_checkudata L 1 MQD_METATABLE) (\<lambda>mqp.
     lbind (get_blk mqp) (\<lambda>mq.
     lbind (ccall E ''mq_getattr'' [AInt mq]) (\<lambda>r.
     if rc r = -1 then fail E L (errno r)
     else
       seq (lua_newtable L)
      (seq (lua_pushinteger L (outi r 1))
      (seq (lua_setfield L (-2) ''flags'')
      (seq (lua_pushinteger L (outi r 2))
      (seq (lua_setfield L (-2) ''maxmsg'')
      (seq (lua_pushinteger L (outi r 3))
      (seq (lua_setfield L (-2) ''msgsize'')
      (seq (lua_pushinteger L (outi r 4))
      (seq (lua_setfield L (-2) ''curmsgs'')
       (ret 1))))))))))))"

definition l_mq_setattr :: "env \<Rightarrow> lstate \<Rightarrow> nat lua" where
  "l_mq_setattr E L =
     lbind (luaL_checkudata L 1 MQD_METATABLE) (\<lambda>mqp.
     lbind (luaL_checkinteger E L 2) (\<lambda>mq_flags.
     lbind (get_blk mqp) (\<lambda>mq.
     lbind (ccall E ''mq_setattr'' [AInt mq, AInt mq_flags, ANull]) (\<lambda>r.
     if rc r = -1 then fail E L (errno r)
     else success L))))"

definition l_mq_notify :: "env \<Rightarrow> lstate \<Rightarrow> nat lua" where
  "l_mq_notify E L =
     lbind (luaL_checkudata L 1 MQD_METATABLE) (\<lambda>mqp.
     lbind (lua_type L 2) (\<lambda>t.
     lbind (if t \<le> LUA_TNIL then ret [ANull]
            else lbind (checksigevent E L 2) (\<lambda>sig. ret (sigargs sig))) (\<lambda>notification.
     lbind (get_blk mqp) (\<lambda>mq.
     lbind (ccall E ''mq_notify'' (AInt mq # notification)) (\<lambda>r.
     if rc r = -1 then fail E L (errno r)
     else success L)))))"

definition l_mq_send :: "env \<Rightarrow> lstate \<Rightarrow> nat lua" where
  "l_mq_send E L =
     lbind (luaL_checkudata L 1 MQD_METATABLE) (\<lambda>mqp.
     lbind (luaL_checklstring E L 2) (\<lambda>msg.
     lbind (luaL_checkinteger E L 3) (\<lambda>prio.
     lbind (get_blk mqp) (\<lambda>mq.
     lbind (ccall E ''mq_send'' [AInt mq, AStr msg, AInt (to_uint prio)]) (\<lambda>r.
     if rc r = -1 then fail E L (errno r)
     else success L)))))"

definition l_mq_receive :: "env \<Rightarrow> lstate \<Rightarrow> nat lua" where
  "l_mq_receive E L =
     lbind (luaL_checkudata L 1 MQD_METATABLE) (\<lambda>mqp.
     lbind (luaL_checkinteger E L 2) (\<lambda>buflen.
     let buflen = to_size_t buflen in
     lbind (ccall_rc E ''malloc'' [AInt buflen]) (\<lambda>buf.
     if buf = 0 then fatal E L ''malloc'' (const E ''ENOMEM'')
     else
       lbind (get_blk mqp) (\<lambda>mq.
       lbind (ccall E ''mq_receive'' [AInt mq, AInt buf, AInt buflen]) (\<lambda>r.
       if rc r = -1 then
         seq (ccall E ''free'' [AInt buf])
         (fail E L (errno r))
       else
         seq (lua_pushstring L (outs r))
        (seq (lua_pushinteger L (outi r 1))
         (ret 2)))))))"

definition l_mq_timedsend :: "env \<Rightarrow> lstate \<Rightarrow> nat lua" where
  "l_mq_timedsend E L =
     lbind (luaL_checkudata L 1 MQD_METATABLE) (\<lambda>mqp.
     lbind (luaL_checklstring E L 2) (\<lambda>msg.
     lbind (luaL_checkinteger E L 3) (\<lambda>prio.
     lbind (luaL_checkinteger E L 4) (\<lambda>tv_sec.
     lbind (luaL_optinteger E L 5 0) (\<lambda>tv_nsec.
     lbind (get_blk mqp) (\<lambda>mq.
     lbind (ccall E ''mq_timedsend''
       [AInt mq, AStr msg, AInt (to_uint prio), AInt tv_sec, AInt tv_nsec]) (\<lambda>r.
     if rc r = -1 then fail E L (errno r)
     else success L)))))))"

definition l_mq_timedreceive :: "env \<Rightarrow> lstate \<Rightarrow> nat lua" where
  "l_mq_timedreceive E L =
     lbind (luaL_checkudata L 1 MQD_METATABLE) (\<lambda>mqp.
     lbind (luaL_checkinteger E L 2) (\<lambda>buflen.
     let buflen = to_size_t buflen in
     lbind (luaL_checkinteger E L 3) (\<lambda>tv_sec.
     lbind (luaL_optinteger E L 4 0) (\<lambda>tv_nsec.
     lbind (ccall_rc E ''malloc'' [AInt buflen]) (\<lambda>buf.
     if buf = 0 then fatal E L ''malloc'' (const E ''ENOMEM'')
     else
       lbind (get_blk mqp) (\<lambda>mq.
       lbind (ccall E ''mq_timedreceive'' [AInt mq, AInt buf, AInt buflen, AInt tv_sec, AInt tv_nsec]) (\<lambda>r.
       if rc r = -1 then
         seq (ccall E ''free'' [AInt buf])
         (fail E L (errno r))
       else
         seq (lua_pushstring L (outs r))
        (seq (lua_pushinteger L (outi r 1))
         (ret 2)))))))))"

definition l_mq_getfd_np :: "env \<Rightarrow> lstate \<Rightarrow> nat lua" where
  "l_mq_getfd_np E L =
     lbind (luaL_checkudata L 1 MQD_METATABLE) (\<lambda>mqp.
     lbind (get_blk mqp) (\<lambda>mq.
     lbind (ccall_rc E ''mq_getfd_np'' [AInt mq]) (\<lambda>fd.
     seq (lua_pushinteger L fd)
     (ret 1))))"

definition l_mq_gc :: "env \<Rightarrow> lstate \<Rightarrow> nat lua" where
  "l_mq_gc E L =
     lbind (luaL_checkudata L 1 MQD_METATABLE) (\<lambda>mqp.
     lbind (get_blk mqp) (\<lambda>mq.
     if mq = -1 then ret 0
     else
       seq (set_blk mqp (-1))
      (lbind (ccall E ''mq_close'' [AInt mq]) (\<lambda>r.
       if rc r = -1 then fail E L (errno r)
       else ret 0))))"

definition l_mqueue_funcs :: "(string \<times> cfunction) list" where
  "l_mqueue_funcs =
     [(''open'', l_mq_open),
      (''unlink'', l_mq_unlink)]"

definition l_mqd_meta :: "(string \<times> cfunction) list" where
  "l_mqd_meta =
     [(''__close'', l_mq_gc),
      (''__gc'', l_mq_gc),
      (''close'', l_mq_close),
      (''getattr'', l_mq_getattr),
      (''setattr'', l_mq_setattr),
      (''notify'', l_mq_notify),
      (''send'', l_mq_send),
      (''receive'', l_mq_receive),
      (''timedsend'', l_mq_timedsend),
      (''timedreceive'', l_mq_timedreceive),
      (''getfd'', l_mq_getfd_np)]"

definition luaopen_mqueue :: "(string \<times> (string \<times> cfunction) list) \<times> (string \<times> field) list" where
  "luaopen_mqueue = ((MQD_METATABLE, l_mqd_meta), luaL_newlib l_mqueue_funcs)"

section \<open>Queues\<close>

definition mq_object :: "int \<Rightarrow> udata" where
  "mq_object q = \<lparr>meta = Some MQD_METATABLE, uvs = [], blk = Some q\<rparr>"

lemma check_mq [lua_run]:
  "stacks w L = Some (LUserdata u # s) \<Longrightarrow> uds w u = Some (mq_object q) \<Longrightarrow>
   luaL_checkudata L 1 MQD_METATABLE w = (Inr u, w)"
  by (simp add: luaL_checkudata_def ud_at_def mq_object_def)

lemma mq_blk [lua_run]:
  "uds w u = Some (mq_object q) \<Longrightarrow> get_blk u w = (Inr q, w)"
  "uds w u = Some (mq_object q) \<Longrightarrow> set_blk u i w = (Inr (), w\<lparr>uds := (uds w)(u \<mapsto> mq_object i)\<rparr>)"
  by (simp_all add: get_blk_def set_blk_def mq_object_def)

lemma mq_open_head:
  assumes "stacks w L = Some s"
  shows "seq (luaL_setmetatable L MQD_METATABLE) (seq (set_blk (fresh w) (-1)) k)
     (snd (lua_newuserdatauv L 0 w)) = k (setst L (s @ [LUserdata (fresh w)])
       (w\<lparr>fresh := Suc (fresh w), uds := (uds w)(fresh w \<mapsto> mq_object (-1))\<rparr>))"
    and "fst (lua_newuserdatauv L 0 w) = Inr (fresh w)"
  using assms
  by (simp_all add: lua_newuserdatauv_def luaL_setmetatable_def set_blk_def ud_at_def mq_object_def lua_run)

text \<open>
  The life of a queue descriptor: opening a queue gives an object that holds the descriptor of
  the kernel; closing it hands that descriptor to \<^verbatim>\<open>mq_close\<close> once; the finalizer then finds no
  descriptor and makes no call.
\<close>

theorem mq_open_close_collect:
  assumes "stacks w L = Some [LString name, LInteger oflag]"
    and "to_int oflag AND const E ''O_CREAT'' = 0"
    and "rc (reply E (trace w) (''mq_open'', [AStr (cstr name), AInt (to_int oflag)])) = q" and "q \<noteq> -1"
    and "\<And>tr. rc (reply E tr (''mq_close'', [AInt q])) = 0"
  shows "\<exists>w1 w2 w3 u. l_mq_open E L w = (Inr 1, w1)
       \<and> stacks w1 L = Some [LString name, LInteger oflag, LUserdata u] \<and> uds w1 u = Some (mq_object q)
       \<and> l_mq_close E L (setst L [LUserdata u] w1) = (Inr 1, w2)
       \<and> trace w2 = (''mq_close'', [AInt q]) # trace w1
       \<and> l_mq_gc E L (setst L [LUserdata u] w2) = (Inr 0, w3) \<and> trace w3 = trace w2"
  unfolding l_mq_open_def lbind_value [of "lua_newuserdatauv L 0", OF mq_open_head(2) [OF assms(1)]]
    mq_open_head(1) [OF assms(1)]
  using assms
  by (simp add: luaL_checklstring_def luaL_checkinteger_def l_mq_close_def l_mq_gc_def lua_run)

definition mq_reply :: "ecall list \<Rightarrow> ecall \<Rightarrow> cres" where
  "mq_reply tr c = (if fst c = ''mq_receive'' then (case tr of
        _ # (_, [_, AStr m, AInt p]) # _ \<Rightarrow> \<lparr>rc = int (length m), outi = (\<lambda>_. p), outs = m, outv = (\<lambda>_. [])\<rparr>
      | _ \<Rightarrow> \<lparr>rc = 0, outi = (\<lambda>_. 0), outs = [], outv = (\<lambda>_. [])\<rparr>)
     else \<lparr>rc = (if fst c = ''mq_open'' then 40 else if fst c = ''malloc'' then 1 else 0),
         outi = (\<lambda>_. 0), outs = [], outv = (\<lambda>_. [])\<rparr>)"

definition mq_env :: env where
  "mq_env = env0\<lparr>reply := mq_reply\<rparr>"

theorem mq_open_close_collect_witness:
  "\<exists>w1 w2 w3 u. l_mq_open mq_env 1 (world0 [1 \<mapsto> [LString ''/q'', LInteger 2]]) = (Inr 1, w1)
       \<and> stacks w1 1 = Some [LString ''/q'', LInteger 2, LUserdata u] \<and> uds w1 u = Some (mq_object 40)
       \<and> l_mq_close mq_env 1 (setst 1 [LUserdata u] w1) = (Inr 1, w2)
       \<and> trace w2 = (''mq_close'', [AInt 40]) # trace w1
       \<and> l_mq_gc mq_env 1 (setst 1 [LUserdata u] w2) = (Inr 0, w3) \<and> trace w3 = trace w2"
  by (rule mq_open_close_collect) (simp_all add: mq_env_def mq_reply_def to_int_def)

text \<open>
  A message and its priority (any unsigned 32-bit value) that Lua sends and the kernel hands
  back arrive unchanged, whatever bytes the message holds.
\<close>

theorem mq_send_receive:
  assumes "stacks w L = Some [LUserdata u, LString msg, LInteger prio]" and "uds w u = Some (mq_object q)"
    and "0 \<le> prio" and "prio < 2 ^ 32"
    and "\<And>tr m p. rc (reply E tr (''mq_send'', [AInt q, AStr m, AInt p])) \<noteq> -1"
    and "\<And>tr n. rc (reply E tr (''malloc'', [AInt n])) \<noteq> 0"
    and "\<And>tr m p n c. fst c = ''mq_receive'' \<Longrightarrow>
           reply E ((''malloc'', [AInt n]) # (''mq_send'', [AInt q, AStr m, AInt p]) # tr) c =
             \<lparr>rc = int (length m), outi = (\<lambda>_. p), outs = m, outv = (\<lambda>_. [])\<rparr>"
  shows "\<exists>w1 w2. l_mq_send E L w = (Inr 1, w1)
       \<and> l_mq_receive E L (setst L [LUserdata u, LInteger sz] w1) = (Inr 2, w2)
       \<and> stacks w2 L = Some [LUserdata u, LInteger sz, LString msg, LInteger prio]"
  using assms
  by (simp add: l_mq_send_def l_mq_receive_def luaL_checklstring_def luaL_checkinteger_def lua_run to_uint_id)

definition mq_world :: world where
  "mq_world = (world0 [1 \<mapsto> [LUserdata 5, LInteger 128]])\<lparr>uds := [5 \<mapsto> mq_object 40]\<rparr>"

theorem mq_send_receive_witness:
  "\<exists>w1 w2. l_mq_send mq_env 1 (setst 1 [LUserdata 5, LString ''hi'', LInteger 7] mq_world) = (Inr 1, w1)
       \<and> l_mq_receive mq_env 1 (setst 1 [LUserdata 5, LInteger 128] w1) = (Inr 2, w2)
       \<and> stacks w2 1 = Some [LUserdata 5, LInteger 128, LString ''hi'', LInteger 7]"
  by (rule mq_send_receive [where q = 40])
    (auto simp: mq_world_def mq_env_def mq_reply_def split: list.splits)

text \<open>
  A received message leaks its buffer: where \<^verbatim>\<open>mq_receive\<close> succeeds, the only calls made are
  \<^verbatim>\<open>malloc\<close> and \<^verbatim>\<open>mq_receive\<close>; the buffer is freed on failure only.
\<close>

theorem mq_receive_leaks:
  assumes "stacks w L = Some [LUserdata u, LInteger sz]" and "uds w u = Some (mq_object q)"
    and "rc (reply E (trace w) (''malloc'', [AInt (to_size_t sz)])) = p" and "p \<noteq> 0"
    and "rc (reply E ((''malloc'', [AInt (to_size_t sz)]) # trace w)
            (''mq_receive'', [AInt q, AInt p, AInt (to_size_t sz)])) \<noteq> -1"
  shows "\<exists>w1. l_mq_receive E L w = (Inr 2, w1)
       \<and> trace w1 = [(''mq_receive'', [AInt q, AInt p, AInt (to_size_t sz)]),
                     (''malloc'', [AInt (to_size_t sz)])] @ trace w"
  using assms by (simp add: l_mq_receive_def luaL_checkinteger_def lua_run)

theorem mq_receive_leaks_witness:
  "\<exists>w1. l_mq_receive mq_env 1 mq_world = (Inr 2, w1)
       \<and> trace w1 = [(''mq_receive'', [AInt 40, AInt 1, AInt (to_size_t 128)]),
                     (''malloc'', [AInt (to_size_t 128)])] @ trace mq_world"
  by (rule mq_receive_leaks [where u = 5]) (simp_all add: mq_world_def mq_env_def mq_reply_def)

text \<open>
  Creating a queue with an attribute table never reaches \<^verbatim>\<open>mq_open\<close>: \<^verbatim>\<open>lua_pop(L, -1)\<close> after the
  first attribute empties the stack, and the second attribute is then looked up at an index that
  does not exist, which is undefined behaviour of the Lua API.
\<close>

theorem mq_open_attr_undefined:
  assumes "stacks w L = Some [LString name, LInteger oflag, LInteger mode, LTable t]"
    and "to_int oflag AND const E ''O_CREAT'' \<noteq> 0" and "tabs w t = Some tb"
    and "strs tb ''maxmsg'' = LInteger n" and "in_lua_Integer n"
  shows "fst (l_mq_open E L w) = Inl Undef \<and> trace (snd (l_mq_open E L w)) = trace w"
  unfolding l_mq_open_def lbind_value [of "lua_newuserdatauv L 0", OF mq_open_head(2) [OF assms(1)]]
    mq_open_head(1) [OF assms(1)]
  using assms
  by (simp add: luaL_checklstring_def luaL_checkinteger_def mq_attr_field_def lua_gettable_def tolong_def
      tonumber_def number_trunc_def lua_settop_def tab_at_def at_def pos_def lua_run)

definition mq_attr_world :: world where
  "mq_attr_world = (world0 [1 \<mapsto> [LString ''/q'', LInteger 1, LInteger 420, LTable 2]])
     \<lparr>tabs := [2 \<mapsto> empty_table\<lparr>strs := (\<lambda>_. LNil)(''maxmsg'' := LInteger 8)\<rparr>]\<rparr>"

theorem mq_open_attr_undefined_witness:
  "fst (l_mq_open env0 1 mq_attr_world) = Inl Undef
   \<and> trace (snd (l_mq_open env0 1 mq_attr_world)) = trace mq_attr_world"
  by (rule mq_open_attr_undefined [where tb = "empty_table\<lparr>strs := (\<lambda>_. LNil)(''maxmsg'' := LInteger 8)\<rparr>"
        and n = 8 and oflag = 1])
    (simp_all add: mq_attr_world_def to_int_id in_lua_Integer_def)

end
