(* ===== verification/Nv_Core.thy ===== *)
theory Nv_Core
  imports Utils
begin

text \<open>
  \<^verbatim>\<open>libnv/lua_nv.h\<close> and the shared part of \<^verbatim>\<open>libnv/lua_nv.c\<close>: name/value lists. The lists live in
  libnv, which is reached by calls that take the address of the list. A list is known to Lua by one of
  three kinds of wrapper: \<^verbatim>\<open>nvlist_t\<close> owns its list, \<^verbatim>\<open>const nvlist_t\<close> points into another list and keeps
  its wrapper alive, \<^verbatim>\<open>nvlist_t cookie\<close> points to one pair of a list.

  Replies: \<open>rc\<close> is the returned number, truth value or address (0 is \<^verbatim>\<open>NULL\<close>); the bytes of a returned
  string or binary are \<open>outs\<close>; for an array, the first out-value is the number of items, the items are
  the out-values from the second on, and the texts of an array of strings are \<open>outv\<close>. Where a call
  fails, \<^verbatim>\<open>errno\<close> is the first out-value.
\<close>

section \<open>lua_nv.h\<close>

definition NVLIST_METATABLE :: string where
  "NVLIST_METATABLE = ''nvlist_t''"

definition CONST_NVLIST_METATABLE :: string where
  "CONST_NVLIST_METATABLE = ''const nvlist_t''"

definition CNVLIST_METATABLE :: string where
  "CNVLIST_METATABLE = ''nvlist_t cookie''"

definition getnvlist :: "env \<Rightarrow> lstate \<Rightarrow> int \<Rightarrow> string \<Rightarrow> addr lua" where
  "getnvlist E L idx metatable =
     lbind (lua_getmetatable E L idx) (\<lambda>found.
     if found then
       seq (luaL_getmetatable E L metatable)
      (lbind (lua_rawequal L (-1) (-2)) (\<lambda>eq.
       if eq then
         lbind (getcookie L idx) (\<lambda>t.
         seq (luaL_argcheck (t = LUA_TLIGHTUSERDATA) idx ''invalid cookie'')
        (lbind (lua_tolight L (-1)) (\<lambda>nvl.
         seq (lua_pop L 3)
         (ret nvl))))
       else
         seq (lua_pop L 2)
         (ret 0)))
     else ret 0)"

text \<open>The two checks after \<^verbatim>\<open>getnvlist\<close>: a list was found, and it is not in an error state.\<close>

definition checkerror :: "env \<Rightarrow> int \<Rightarrow> string \<Rightarrow> addr \<Rightarrow> addr lua" where
  "checkerror E idx metatable nvl =
     (if nvl = 0 then throw (TypeError idx metatable)
      else
        lbind (ccall_rc E ''nvlist_error'' [APtr nvl]) (\<lambda>error.
        seq (luaL_argcheck (error = 0) idx ''nvlist has error'')
        (ret nvl)))"

definition checknvlist :: "env \<Rightarrow> lstate \<Rightarrow> int \<Rightarrow> addr lua" where
  "checknvlist E L idx =
     lbind (getnvlist E L idx NVLIST_METATABLE) (checkerror E idx NVLIST_METATABLE)"

definition checkconstnvlist :: "env \<Rightarrow> lstate \<Rightarrow> int \<Rightarrow> addr lua" where
  "checkconstnvlist E L idx =
     lbind (getnvlist E L idx CONST_NVLIST_METATABLE) (checkerror E idx CONST_NVLIST_METATABLE)"

definition getanynvlist :: "env \<Rightarrow> lstate \<Rightarrow> int \<Rightarrow> addr lua" where
  "getanynvlist E L idx =
     lbind (lua_getmetatable E L idx) (\<lambda>found.
     if found then
       seq (luaL_getmetatable E L NVLIST_METATABLE)
      (seq (luaL_getmetatable E L CONST_NVLIST_METATABLE)
      (lbind (lua_rawequal L (-1) (-2)) (\<lambda>eq2.
       lbind (if eq2 then ret True else lua_rawequal L (-1) (-3)) (\<lambda>eq.
       if eq then
         lbind (getcookie L idx) (\<lambda>t.
         seq (luaL_argcheck (t = LUA_TLIGHTUSERDATA) idx ''invalid cookie'')
        (lbind (lua_tolight L (-1)) (\<lambda>nvl.
         seq (lua_pop L 4)
         (ret nvl))))
       else
         seq (lua_pop L 3)
         (ret 0)))))
     else ret 0)"

definition checkanynvlist :: "env \<Rightarrow> lstate \<Rightarrow> int \<Rightarrow> addr lua" where
  "checkanynvlist E L idx =
     lbind (getanynvlist E L idx) (checkerror E idx NVLIST_METATABLE)"

section \<open>Names, types and arrays\<close>

text \<open>\<^verbatim>\<open>NVLIST_TYPES\<close>: the types with the constant of each.\<close>

definition NVLIST_TYPES :: "(string \<times> string) list" where
  "NVLIST_TYPES =
     [(''bool'', ''NV_TYPE_BOOL''),
      (''number'', ''NV_TYPE_NUMBER''),
      (''string'', ''NV_TYPE_STRING''),
      (''nvlist'', ''NV_TYPE_NVLIST''),
      (''binary'', ''NV_TYPE_BINARY''),
      (''bool_array'', ''NV_TYPE_BOOL_ARRAY''),
      (''number_array'', ''NV_TYPE_NUMBER_ARRAY''),
      (''string_array'', ''NV_TYPE_STRING_ARRAY''),
      (''nvlist_array'', ''NV_TYPE_NVLIST_ARRAY''),
      (''descriptor'', ''NV_TYPE_DESCRIPTOR''),
      (''descriptor_array'', ''NV_TYPE_DESCRIPTOR_ARRAY'')]"

definition NVLIST_TYPES_NULL :: "(string \<times> string) list" where
  "NVLIST_TYPES_NULL = (''null'', ''NV_TYPE_NULL'') # NVLIST_TYPES"

definition checkname :: "env \<Rightarrow> lstate \<Rightarrow> int \<Rightarrow> addr \<Rightarrow> int \<Rightarrow> string lua" where
  "checkname E L idx nvl type =
     lbind (luaL_checkstring E L idx) (\<lambda>name.
     lbind (ccall_rc E ''nvlist_exists_type'' [APtr nvl, AStr name, AInt type]) (\<lambda>found.
     seq (luaL_argcheck (found \<noteq> 0) idx ''name not found'')
     (ret name)))"

definition isnoneornil :: "lstate \<Rightarrow> int \<Rightarrow> bool lua" where
  "isnoneornil L i = lbind (lua_type L i) (\<lambda>t. ret (t \<le> LUA_TNIL))"

text \<open>\<^verbatim>\<open>lua_pushstring\<close> of a returned string: \<^verbatim>\<open>NULL\<close> is pushed as nil.\<close>

definition push_string :: "lstate \<Rightarrow> cres \<Rightarrow> unit lua" where
  "push_string L r = lua_push L (if rc r = 0 then LNil else LString (outs r))"

definition nitems :: "cres \<Rightarrow> nat" where
  "nitems r = nat (to_size_t (outi r 0))"

definition item :: "cres \<Rightarrow> nat \<Rightarrow> int" where
  "item r i = outi r (Suc i)"

text \<open>
  The loop \<^verbatim>\<open>for (int i = 0; i < nitems; i++)\<close> that pushes an item and stores it at \<open>i + 1\<close>; \<open>k\<close> rounds
  are left. The index is an \<^verbatim>\<open>int\<close>, and \<open>i + 1\<close> must not overflow.
\<close>

fun push_array :: "lstate \<Rightarrow> (nat \<Rightarrow> unit lua) \<Rightarrow> nat \<Rightarrow> nat \<Rightarrow> unit lua" where
  "push_array L push i 0 = ret ()"
| "push_array L push i (Suc k) =
     seq (push i)
    (if 2 ^ 31 \<le> int i + 1 then throw Undef
     else
       seq (lua_rawseti L (-2) (int i + 1))
       (push_array L push (Suc i) k))"

definition push_table :: "lstate \<Rightarrow> (nat \<Rightarrow> unit lua) \<Rightarrow> cres \<Rightarrow> unit lua" where
  "push_table L push r =
     seq (lua_createtable L)
     (push_array L push 0 (nitems r))"

text \<open>The items of the five kinds of array, as they are pushed.\<close>

definition push_bool_item :: "lstate \<Rightarrow> cres \<Rightarrow> nat \<Rightarrow> unit lua" where
  "push_bool_item L r i = lua_pushboolean L (item r i \<noteq> 0)"

definition push_number_item :: "lstate \<Rightarrow> cres \<Rightarrow> nat \<Rightarrow> unit lua" where
  "push_number_item L r i = lua_pushinteger L (to_lua_Integer (item r i))"

definition push_string_item :: "lstate \<Rightarrow> cres \<Rightarrow> nat \<Rightarrow> unit lua" where
  "push_string_item L r i = lua_push L (if item r i = 0 then LNil else LString (outv r i))"

definition push_descriptor_item :: "lstate \<Rightarrow> cres \<Rightarrow> nat \<Rightarrow> unit lua" where
  "push_descriptor_item L r i = lua_pushinteger L (item r i)"

definition push_const_item :: "lstate \<Rightarrow> cres \<Rightarrow> nat \<Rightarrow> unit lua" where
  "push_const_item L r i = seq (newref L 1 (nat (item r i)) CONST_NVLIST_METATABLE) (ret ())"

definition push_nvlist_item :: "lstate \<Rightarrow> cres \<Rightarrow> nat \<Rightarrow> unit lua" where
  "push_nvlist_item L r i = seq (new L (nat (item r i)) NVLIST_METATABLE) (ret ())"

section \<open>Getters of both kinds of list\<close>

definition get_bool :: "env \<Rightarrow> lstate \<Rightarrow> addr \<Rightarrow> nat lua" where
  "get_bool E L nvl =
     lbind (isnoneornil L 3) (\<lambda>nodef.
     if nodef then
       lbind (checkname E L 2 nvl (const E ''NV_TYPE_BOOL'')) (\<lambda>name.
       lbind (ccall_rc E ''nvlist_get_bool'' [APtr nvl, AStr name]) (\<lambda>v.
       seq (lua_pushboolean L (v \<noteq> 0))
       (ret 1)))
     else
       lbind (luaL_checkstring E L 2) (\<lambda>name.
       seq (luaL_checktype L 3 LUA_TBOOLEAN)
      (lbind (lua_toboolean L 3) (\<lambda>defval.
       lbind (ccall_rc E ''dnvlist_get_bool'' [APtr nvl, AStr name, AInt (of_bool defval)]) (\<lambda>v.
       seq (lua_pushboolean L (v \<noteq> 0))
       (ret 1))))))"

definition get_number :: "env \<Rightarrow> lstate \<Rightarrow> addr \<Rightarrow> nat lua" where
  "get_number E L nvl =
     lbind (isnoneornil L 3) (\<lambda>nodef.
     if nodef then
       lbind (checkname E L 2 nvl (const E ''NV_TYPE_NUMBER'')) (\<lambda>name.
       lbind (ccall_rc E ''nvlist_get_number'' [APtr nvl, AStr name]) (\<lambda>v.
       seq (lua_pushinteger L (to_lua_Integer v))
       (ret 1)))
     else
       lbind (luaL_checkstring E L 2) (\<lambda>name.
       lbind (luaL_checkinteger E L 3) (\<lambda>defval.
       lbind (ccall_rc E ''dnvlist_get_number'' [APtr nvl, AStr name, AInt (to_size_t defval)]) (\<lambda>v.
       seq (lua_pushinteger L (to_lua_Integer v))
       (ret 1)))))"

definition get_string :: "env \<Rightarrow> lstate \<Rightarrow> addr \<Rightarrow> nat lua" where
  "get_string E L nvl =
     lbind (isnoneornil L 3) (\<lambda>nodef.
     if nodef then
       lbind (checkname E L 2 nvl (const E ''NV_TYPE_STRING'')) (\<lambda>name.
       lbind (ccall E ''nvlist_get_string'' [APtr nvl, AStr name]) (\<lambda>r.
       seq (push_string L r)
       (ret 1)))
     else
       lbind (luaL_checkstring E L 2) (\<lambda>name.
       lbind (luaL_checkstring E L 3) (\<lambda>defval.
       lbind (ccall E ''dnvlist_get_string'' [APtr nvl, AStr name, AStr defval]) (\<lambda>r.
       seq (push_string L r)
       (ret 1)))))"

definition get_nvlist :: "env \<Rightarrow> lstate \<Rightarrow> addr \<Rightarrow> nat lua" where
  "get_nvlist E L nvl =
     lbind (isnoneornil L 3) (\<lambda>nodef.
     lbind (if nodef then
              lbind (checkname E L 2 nvl (const E ''NV_TYPE_NVLIST'')) (\<lambda>name.
              ccall_rc E ''nvlist_get_nvlist'' [APtr nvl, AStr name])
            else
              lbind (luaL_checkstring E L 2) (\<lambda>name.
              lbind (checkanynvlist E L 3) (\<lambda>defval.
              ccall_rc E ''dnvlist_get_nvlist'' [APtr nvl, AStr name, APtr defval]))) (\<lambda>value.
     newref L 1 (nat value) CONST_NVLIST_METATABLE))"

definition get_descriptor :: "env \<Rightarrow> lstate \<Rightarrow> addr \<Rightarrow> nat lua" where
  "get_descriptor E L nvl =
     lbind (isnoneornil L 3) (\<lambda>nodef.
     if nodef then
       lbind (checkname E L 2 nvl (const E ''NV_TYPE_DESCRIPTOR'')) (\<lambda>name.
       lbind (ccall_rc E ''nvlist_get_descriptor'' [APtr nvl, AStr name]) (\<lambda>v.
       seq (lua_pushinteger L v)
       (ret 1)))
     else
       lbind (luaL_checkstring E L 2) (\<lambda>name.
       lbind (luaL_checkinteger E L 3) (\<lambda>defval.
       lbind (ccall_rc E ''dnvlist_get_descriptor'' [APtr nvl, AStr name, AInt (to_int defval)]) (\<lambda>v.
       seq (lua_pushinteger L v)
       (ret 1)))))"

definition get_binary :: "env \<Rightarrow> lstate \<Rightarrow> addr \<Rightarrow> nat lua" where
  "get_binary E L nvl =
     lbind (isnoneornil L 3) (\<lambda>nodef.
     lbind (if nodef then
              lbind (checkname E L 2 nvl (const E ''NV_TYPE_BINARY'')) (\<lambda>name.
              ccall E ''nvlist_get_binary'' [APtr nvl, AStr name])
            else
              lbind (luaL_checkstring E L 2) (\<lambda>name.
              lbind (luaL_checklstring E L 3) (\<lambda>defval.
              ccall E ''dnvlist_get_binary'' [APtr nvl, AStr name, AStr defval]))) (\<lambda>r.
     seq (lua_pushstring L (outs r))
     (ret 1)))"

definition get_bool_array :: "env \<Rightarrow> lstate \<Rightarrow> addr \<Rightarrow> nat lua" where
  "get_bool_array E L nvl =
     lbind (checkname E L 2 nvl (const E ''NV_TYPE_BOOL_ARRAY'')) (\<lambda>name.
     lbind (ccall E ''nvlist_get_bool_array'' [APtr nvl, AStr name]) (\<lambda>r.
     seq (push_table L (push_bool_item L r) r)
     (ret 1)))"

definition get_number_array :: "env \<Rightarrow> lstate \<Rightarrow> addr \<Rightarrow> nat lua" where
  "get_number_array E L nvl =
     lbind (checkname E L 2 nvl (const E ''NV_TYPE_NUMBER_ARRAY'')) (\<lambda>name.
     lbind (ccall E ''nvlist_get_number_array'' [APtr nvl, AStr name]) (\<lambda>r.
     seq (push_table L (push_number_item L r) r)
     (ret 1)))"

definition get_string_array :: "env \<Rightarrow> lstate \<Rightarrow> addr \<Rightarrow> nat lua" where
  "get_string_array E L nvl =
     lbind (checkname E L 2 nvl (const E ''NV_TYPE_STRING_ARRAY'')) (\<lambda>name.
     lbind (ccall E ''nvlist_get_string_array'' [APtr nvl, AStr name]) (\<lambda>r.
     seq (push_table L (push_string_item L r) r)
     (ret 1)))"

definition get_nvlist_array :: "env \<Rightarrow> lstate \<Rightarrow> addr \<Rightarrow> nat lua" where
  "get_nvlist_array E L nvl =
     lbind (checkname E L 2 nvl (const E ''NV_TYPE_NVLIST_ARRAY'')) (\<lambda>name.
     lbind (ccall E ''nvlist_get_nvlist_array'' [APtr nvl, AStr name]) (\<lambda>r.
     seq (push_table L (push_const_item L r) r)
     (ret 1)))"

definition get_descriptor_array :: "env \<Rightarrow> lstate \<Rightarrow> addr \<Rightarrow> nat lua" where
  "get_descriptor_array E L nvl =
     lbind (checkname E L 2 nvl (const E ''NV_TYPE_DESCRIPTOR_ARRAY'')) (\<lambda>name.
     lbind (ccall E ''nvlist_get_descriptor_array'' [APtr nvl, AStr name]) (\<lambda>r.
     seq (push_table L (push_descriptor_item L r) r)
     (ret 1)))"

section \<open>Walking a list\<close>

text \<open>
  \<^verbatim>\<open>next\<close>: the call \<^verbatim>\<open>nvlist_next(nvl, &type, &cookie)\<close> gets the cookie and stores the next one through
  the pointer (second out-value); that is the local variable, which is not read again.
\<close>

definition nv_next :: "env \<Rightarrow> lstate \<Rightarrow> addr \<Rightarrow> nat lua" where
  "nv_next E L nvl =
     lbind (isnoneornil L 2) (\<lambda>first.
     lbind (if first then
              seq (new L 0 CNVLIST_METATABLE)
             (lbind (lua_gettop L) (\<lambda>top.
              seq (if 2 < top then lua_replace L 2 else ret ())
              (ret 0)))
            else checkcookie L 2 CNVLIST_METATABLE) (\<lambda>cookie.
     seq (luaL_checktype L 3 LUA_TNONE)
    (lbind (ccall E ''nvlist_next'' [APtr nvl, APtr cookie]) (\<lambda>r.
     if rc r = 0 then ret 0
     else
       seq (setref L (-1) 1)
      (seq (lua_pushstring L (outs r))
      (seq (lua_pushinteger L (outi r 0))
       (ret 3)))))))"

definition get_parent :: "env \<Rightarrow> lstate \<Rightarrow> addr \<Rightarrow> nat lua" where
  "get_parent E L nvl =
     lbind (ccall E ''nvlist_get_parent'' [APtr nvl]) (\<lambda>r.
     if rc r = 0 then ret 0
     else
       seq (getref L 1)
      (seq (newref L (-1) (nat (rc r)) CONST_NVLIST_METATABLE)
      (seq (newref L 1 (nat (outi r 0)) CNVLIST_METATABLE)
       (ret 2))))"

definition get_array_next :: "env \<Rightarrow> lstate \<Rightarrow> addr \<Rightarrow> nat lua" where
  "get_array_next E L nvl =
     lbind (ccall_rc E ''nvlist_get_array_next'' [APtr nvl]) (\<lambda>p.
     if p = 0 then ret 0
     else
       seq (getref L 1)
       (newref L (-1) (nat p) CONST_NVLIST_METATABLE))"

definition get_pararr :: "env \<Rightarrow> lstate \<Rightarrow> addr \<Rightarrow> nat lua" where
  "get_pararr E L nvl =
     lbind (ccall E ''nvlist_get_pararr'' [APtr nvl]) (\<lambda>r.
     if rc r = 0 then ret 0
     else
       seq (getref L 1)
      (seq (newref L (-1) (nat (rc r)) CONST_NVLIST_METATABLE)
       (if outi r 0 = 0 then ret 1
        else
          seq (newref L 1 (nat (outi r 0)) CNVLIST_METATABLE)
          (ret 2))))"

end
