(* ===== verification/Nv_List.thy ===== *)
theory Nv_List
  imports Nv_Core
begin

text \<open>
  The functions of the module \<^verbatim>\<open>nv\<close> and the methods of \<^verbatim>\<open>nvlist_t\<close> in \<^verbatim>\<open>libnv/lua_nv.c\<close>. The functions that
  the macros \<^verbatim>\<open>NVLIST_EXISTS\<close>, \<^verbatim>\<open>NVLIST_GET\<close> and \<^verbatim>\<open>NVLIST_FREE\<close> define for each type are one definition
  each, with the type as argument. An array handed to the library is its address followed by its items.
\<close>

section \<open>Module functions\<close>

definition l_nv_create :: "env \<Rightarrow> lstate \<Rightarrow> nat lua" where
  "l_nv_create E L =
     lbind (luaL_optinteger E L 1 0) (\<lambda>flags.
     lbind (ccall_rc E ''nvlist_create'' [AInt (to_int flags)]) (\<lambda>nvl.
     new L (nat nvl) NVLIST_METATABLE))"

definition l_nv_recv :: "env \<Rightarrow> lstate \<Rightarrow> nat lua" where
  "l_nv_recv E L =
     lbind (luaL_checkinteger E L 1) (\<lambda>sock.
     lbind (luaL_optinteger E L 2 0) (\<lambda>flags.
     lbind (ccall E ''nvlist_recv'' [AInt (to_int sock), AInt (to_int flags)]) (\<lambda>r.
     if rc r = 0 then fail E L (errno r)
     else new L (nat (rc r)) NVLIST_METATABLE)))"

definition l_nv_unpack :: "env \<Rightarrow> lstate \<Rightarrow> nat lua" where
  "l_nv_unpack E L =
     lbind (luaL_checklstring E L 1) (\<lambda>p.
     lbind (luaL_optinteger E L 2 0) (\<lambda>flags.
     lbind (ccall E ''nvlist_unpack'' [AStr p, AInt (to_int flags)]) (\<lambda>r.
     if rc r = 0 then fail E L (errno r)
     else new L (nat (rc r)) NVLIST_METATABLE)))"

section \<open>Whole lists\<close>

definition l_nvlist_gc :: "env \<Rightarrow> lstate \<Rightarrow> nat lua" where
  "l_nvlist_gc E L =
     lbind (checkcookienull L 1 NVLIST_METATABLE) (\<lambda>nvl.
     seq (ccall E ''nvlist_destroy'' [APtr nvl])
     (ret 0))"

definition l_nvlist_error :: "env \<Rightarrow> lstate \<Rightarrow> nat lua" where
  "l_nvlist_error E L =
     lbind (checkcookienull L 1 NVLIST_METATABLE) (\<lambda>nvl.
     lbind (ccall_rc E ''nvlist_error'' [APtr nvl]) (\<lambda>error.
     seq (lua_pushinteger L error)
     (ret 1)))"

definition l_nvlist_set_error :: "env \<Rightarrow> lstate \<Rightarrow> nat lua" where
  "l_nvlist_set_error E L =
     lbind (checkcookienull L 1 NVLIST_METATABLE) (\<lambda>nvl.
     lbind (luaL_checkinteger E L 2) (\<lambda>error.
     if to_int error = 0 then luaL_argerror L 2 (strerror E (const E ''EINVAL''))
     else
       seq (ccall E ''nvlist_set_error'' [APtr nvl, AInt (to_int error)])
       (ret 0)))"

definition l_nvlist_empty :: "env \<Rightarrow> lstate \<Rightarrow> nat lua" where
  "l_nvlist_empty E L =
     lbind (checknvlist E L 1) (\<lambda>nvl.
     lbind (ccall_rc E ''nvlist_empty'' [APtr nvl]) (\<lambda>b.
     seq (lua_pushboolean L (b \<noteq> 0))
     (ret 1)))"

definition l_nvlist_flags :: "env \<Rightarrow> lstate \<Rightarrow> nat lua" where
  "l_nvlist_flags E L =
     lbind (checknvlist E L 1) (\<lambda>nvl.
     lbind (ccall_rc E ''nvlist_flags'' [APtr nvl]) (\<lambda>flags.
     seq (lua_pushinteger L flags)
     (ret 1)))"

definition l_nvlist_in_array :: "env \<Rightarrow> lstate \<Rightarrow> nat lua" where
  "l_nvlist_in_array E L =
     lbind (checkcookie L 1 NVLIST_METATABLE) (\<lambda>nvl.
     lbind (ccall_rc E ''nvlist_in_array'' [APtr nvl]) (\<lambda>b.
     seq (lua_pushboolean L (b \<noteq> 0))
     (ret 1)))"

definition l_nvlist_clone :: "env \<Rightarrow> lstate \<Rightarrow> nat lua" where
  "l_nvlist_clone E L =
     lbind (checknvlist E L 1) (\<lambda>nvl.
     lbind (ccall_rc E ''nvlist_clone'' [APtr nvl]) (\<lambda>p.
     new L (nat p) NVLIST_METATABLE))"

definition l_nvlist_dump :: "env \<Rightarrow> lstate \<Rightarrow> nat lua" where
  "l_nvlist_dump E L =
     lbind (checknvlist E L 1) (\<lambda>nvl.
     lbind (luaL_checkinteger E L 2) (\<lambda>fd.
     seq (ccall E ''nvlist_dump'' [APtr nvl, AInt (to_int fd)])
     (ret 0)))"

definition l_nvlist_fdump :: "env \<Rightarrow> lstate \<Rightarrow> nat lua" where
  "l_nvlist_fdump E L =
     lbind (checknvlist E L 1) (\<lambda>nvl.
     lbind (luaL_checkudata L 2 ''FILE*'') (\<lambda>s.
     lbind (get_blk s) (\<lambda>f.
     seq (ccall E ''nvlist_fdump'' [APtr nvl, AInt f])
     (ret 0))))"

definition l_nvlist_size :: "env \<Rightarrow> lstate \<Rightarrow> nat lua" where
  "l_nvlist_size E L =
     lbind (checkcookie L 1 NVLIST_METATABLE) (\<lambda>nvl.
     lbind (ccall_rc E ''nvlist_size'' [APtr nvl]) (\<lambda>size.
     seq (lua_pushinteger L (to_lua_Integer size))
     (ret 1)))"

definition l_nvlist_pack :: "env \<Rightarrow> lstate \<Rightarrow> nat lua" where
  "l_nvlist_pack E L =
     lbind (checknvlist E L 1) (\<lambda>nvl.
     lbind (ccall E ''nvlist_pack'' [APtr nvl]) (\<lambda>r.
     if rc r = 0 then fail E L (errno r)
     else
       seq (lua_pushstring L (outs r))
      (seq (ccall E ''free'' [AInt (rc r)])
       (ret 1))))"

definition l_nvlist_send :: "env \<Rightarrow> lstate \<Rightarrow> nat lua" where
  "l_nvlist_send E L =
     lbind (checknvlist E L 1) (\<lambda>nvl.
     lbind (luaL_checkinteger E L 2) (\<lambda>sock.
     lbind (ccall E ''nvlist_send'' [AInt (to_int sock), APtr nvl]) (\<lambda>r.
     if rc r = -1 then fail E L (errno r)
     else success L)))"

text \<open>The list is handed over by \<^verbatim>\<open>nvlist_xfer\<close>: the wrapper forgets it first.\<close>

definition l_nvlist_xfer :: "env \<Rightarrow> lstate \<Rightarrow> nat lua" where
  "l_nvlist_xfer E L =
     lbind (checknvlist E L 1) (\<lambda>tosend.
     lbind (luaL_checkinteger E L 2) (\<lambda>sock.
     lbind (luaL_optinteger E L 3 0) (\<lambda>flags.
     seq (setcookie L 1 0)
    (lbind (ccall E ''nvlist_xfer'' [AInt (to_int sock), APtr tosend, AInt (to_int flags)]) (\<lambda>r.
     if rc r = 0 then fail E L (errno r)
     else new L (nat (rc r)) NVLIST_METATABLE)))))"

section \<open>Existence\<close>

definition l_nvlist_exists :: "env \<Rightarrow> lstate \<Rightarrow> nat lua" where
  "l_nvlist_exists E L =
     lbind (checknvlist E L 1) (\<lambda>nvl.
     lbind (luaL_checkstring E L 2) (\<lambda>name.
     lbind (ccall_rc E ''nvlist_exists'' [APtr nvl, AStr name]) (\<lambda>b.
     seq (lua_pushboolean L (b \<noteq> 0))
     (ret 1))))"

definition l_nvlist_exists_type :: "env \<Rightarrow> lstate \<Rightarrow> nat lua" where
  "l_nvlist_exists_type E L =
     lbind (checknvlist E L 1) (\<lambda>nvl.
     lbind (luaL_checkstring E L 2) (\<lambda>name.
     lbind (luaL_checkinteger E L 3) (\<lambda>type.
     lbind (ccall_rc E ''nvlist_exists_type'' [APtr nvl, AStr name, AInt (to_int type)]) (\<lambda>b.
     seq (lua_pushboolean L (b \<noteq> 0))
     (ret 1)))))"

definition NVLIST_EXISTS :: "string \<Rightarrow> env \<Rightarrow> lstate \<Rightarrow> nat lua" where
  "NVLIST_EXISTS type E L =
     lbind (checknvlist E L 1) (\<lambda>nvl.
     lbind (luaL_checkstring E L 2) (\<lambda>name.
     lbind (ccall_rc E (''nvlist_exists_'' @ type) [APtr nvl, AStr name]) (\<lambda>b.
     seq (lua_pushboolean L (b \<noteq> 0))
     (ret 1))))"

section \<open>Adding\<close>

definition l_nvlist_add_null :: "env \<Rightarrow> lstate \<Rightarrow> nat lua" where
  "l_nvlist_add_null E L =
     lbind (checknvlist E L 1) (\<lambda>nvl.
     lbind (luaL_checkstring E L 2) (\<lambda>name.
     seq (ccall E ''nvlist_add_null'' [APtr nvl, AStr name])
     (ret 0)))"

definition l_nvlist_add_bool :: "env \<Rightarrow> lstate \<Rightarrow> nat lua" where
  "l_nvlist_add_bool E L =
     lbind (checknvlist E L 1) (\<lambda>nvl.
     lbind (luaL_checkstring E L 2) (\<lambda>name.
     seq (luaL_checktype L 3 LUA_TBOOLEAN)
    (lbind (lua_toboolean L 3) (\<lambda>value.
     seq (ccall E ''nvlist_add_bool'' [APtr nvl, AStr name, AInt (of_bool value)])
     (ret 0)))))"

definition l_nvlist_add_number :: "env \<Rightarrow> lstate \<Rightarrow> nat lua" where
  "l_nvlist_add_number E L =
     lbind (checknvlist E L 1) (\<lambda>nvl.
     lbind (luaL_checkstring E L 2) (\<lambda>name.
     lbind (luaL_checkinteger E L 3) (\<lambda>value.
     seq (ccall E ''nvlist_add_number'' [APtr nvl, AStr name, AInt (to_size_t value)])
     (ret 0))))"

definition l_nvlist_add_string :: "env \<Rightarrow> lstate \<Rightarrow> nat lua" where
  "l_nvlist_add_string E L =
     lbind (checknvlist E L 1) (\<lambda>nvl.
     lbind (luaL_checkstring E L 2) (\<lambda>name.
     lbind (luaL_checkstring E L 3) (\<lambda>value.
     seq (ccall E ''nvlist_add_string'' [APtr nvl, AStr name, AStr value])
     (ret 0))))"

definition l_nvlist_add_nvlist :: "env \<Rightarrow> lstate \<Rightarrow> nat lua" where
  "l_nvlist_add_nvlist E L =
     lbind (checknvlist E L 1) (\<lambda>nvl.
     lbind (luaL_checkstring E L 2) (\<lambda>name.
     lbind (checkanynvlist E L 3) (\<lambda>value.
     seq (ccall E ''nvlist_add_nvlist'' [APtr nvl, AStr name, APtr value])
     (ret 0))))"

definition l_nvlist_add_descriptor :: "env \<Rightarrow> lstate \<Rightarrow> nat lua" where
  "l_nvlist_add_descriptor E L =
     lbind (checknvlist E L 1) (\<lambda>nvl.
     lbind (luaL_checkstring E L 2) (\<lambda>name.
     lbind (luaL_checkinteger E L 3) (\<lambda>value.
     seq (ccall E ''nvlist_add_descriptor'' [APtr nvl, AStr name, AInt (to_int value)])
     (ret 0))))"

definition l_nvlist_add_binary :: "env \<Rightarrow> lstate \<Rightarrow> nat lua" where
  "l_nvlist_add_binary E L =
     lbind (checknvlist E L 1) (\<lambda>nvl.
     lbind (luaL_checkstring E L 2) (\<lambda>name.
     lbind (luaL_checklstring E L 3) (\<lambda>value.
     seq (ccall E ''nvlist_add_binary'' [APtr nvl, AStr name, AStr value])
     (ret 0))))"

text \<open>
  The array operations begin alike: the list, the name, a table that is not empty, and a buffer for
  its items (\<open>sz\<close> bytes each); and they read the table alike. The index is an \<^verbatim>\<open>int\<close>.
\<close>

definition array_args :: "env \<Rightarrow> lstate \<Rightarrow> int \<Rightarrow> (addr \<times> string \<times> nat \<times> int) lua" where
  "array_args E L sz =
     lbind (checknvlist E L 1) (\<lambda>nvl.
     lbind (luaL_checkstring E L 2) (\<lambda>name.
     seq (luaL_checktype L 3 LUA_TTABLE)
    (lbind (luaL_len E L 3) (\<lambda>nitems.
     seq (luaL_argcheck (0 < nitems) 3 ''cannot be empty'')
    (lbind (ccall_rc E ''malloc'' [AInt (to_size_t (int nitems * sz))]) (\<lambda>value.
     if value = 0 then fatal E L ''malloc'' (const E ''ENOMEM'')
     else ret (nvl, name, nitems, value)))))))"

fun read_array :: "lstate \<Rightarrow> 'a lua \<Rightarrow> nat \<Rightarrow> nat \<Rightarrow> 'a list lua" where
  "read_array L rd i 0 = ret []"
| "read_array L rd i (Suc k) =
     (if 2 ^ 31 \<le> int i + 1 then throw Undef
      else
        seq (lua_geti L 3 (int i + 1))
       (lbind rd (\<lambda>v.
        seq (lua_pop L 1)
       (lbind (read_array L rd (Suc i) k) (\<lambda>vs.
        ret (v # vs))))))"

definition l_nvlist_add_bool_array :: "env \<Rightarrow> lstate \<Rightarrow> nat lua" where
  "l_nvlist_add_bool_array E L =
     lbind (array_args E L 1) (\<lambda>(nvl, name, nitems, value).
     lbind (read_array L (lua_toboolean L (-1)) 0 nitems) (\<lambda>vs.
     seq (ccall E ''nvlist_move_bool_array'' (APtr nvl # AStr name # AInt value # map (\<lambda>b. AInt (of_bool b)) vs))
     (ret 0)))"

definition l_nvlist_add_number_array :: "env \<Rightarrow> lstate \<Rightarrow> nat lua" where
  "l_nvlist_add_number_array E L =
     lbind (array_args E L 8) (\<lambda>(nvl, name, nitems, value).
     lbind (read_array L (lua_tointeger E L (-1)) 0 nitems) (\<lambda>vs.
     seq (ccall E ''nvlist_move_number_array'' (APtr nvl # AStr name # AInt value # map (\<lambda>i. AInt (to_size_t i)) vs))
     (ret 0)))"

text \<open>
  The items of \<^verbatim>\<open>add_string_array\<close> are pointers to Lua strings that have been popped; the model takes
  their contents at the time they are read. An item that is no string and no number is \<^verbatim>\<open>NULL\<close>.
\<close>

definition l_nvlist_add_string_array :: "env \<Rightarrow> lstate \<Rightarrow> nat lua" where
  "l_nvlist_add_string_array E L =
     lbind (array_args E L 8) (\<lambda>(nvl, name, nitems, value).
     lbind (read_array L (lua_tostring E L (-1)) 0 nitems) (\<lambda>vs.
     seq (ccall E ''nvlist_add_string_array'' (APtr nvl # AStr name # AInt value # map (\<lambda>x. case x of None \<Rightarrow> ANull | Some t \<Rightarrow> AStr t) vs))
    (seq (ccall E ''free'' [AInt value])
     (ret 0))))"

fun add_nvlist_loop :: "env \<Rightarrow> lstate \<Rightarrow> int \<Rightarrow> nat \<Rightarrow> nat \<Rightarrow> addr list lua" where
  "add_nvlist_loop E L value i 0 = ret []"
| "add_nvlist_loop E L value i (Suc k) =
     (if 2 ^ 31 \<le> int i + 1 then throw Undef
      else
        seq (lua_geti L 3 (int i + 1))
       (lbind (getanynvlist E L (-1)) (\<lambda>p.
        if p = 0 then
          seq (ccall E ''free'' [AInt value])
          (luaL_argerror L 3 ''nvlists expected'')
        else
          lbind (ccall_rc E ''nvlist_error'' [APtr p]) (\<lambda>error.
          if error \<noteq> 0 then
            seq (ccall E ''free'' [AInt value])
            (luaL_argerror L 3 ''nvlist has error'')
          else
            seq (lua_pop L 2)
           (lbind (add_nvlist_loop E L value (Suc i) k) (\<lambda>ps.
            ret (p # ps)))))))"

definition l_nvlist_add_nvlist_array :: "env \<Rightarrow> lstate \<Rightarrow> nat lua" where
  "l_nvlist_add_nvlist_array E L =
     lbind (array_args E L 8) (\<lambda>(nvl, name, nitems, value).
     lbind (add_nvlist_loop E L value 0 nitems) (\<lambda>ps.
     seq (ccall E ''nvlist_add_nvlist_array'' (APtr nvl # AStr name # AInt value # map APtr ps))
    (seq (ccall E ''free'' [AInt value])
     (ret 0))))"

definition l_nvlist_add_descriptor_array :: "env \<Rightarrow> lstate \<Rightarrow> nat lua" where
  "l_nvlist_add_descriptor_array E L =
     lbind (array_args E L 4) (\<lambda>(nvl, name, nitems, value).
     lbind (read_array L (lua_tointeger E L (-1)) 0 nitems) (\<lambda>vs.
     seq (ccall E ''nvlist_add_descriptor_array'' (APtr nvl # AStr name # AInt value # map (\<lambda>i. AInt (to_int i)) vs))
    (seq (ccall E ''free'' [AInt value])
     (ret 0))))"

section \<open>Moving\<close>

definition l_nvlist_move_descriptor :: "env \<Rightarrow> lstate \<Rightarrow> nat lua" where
  "l_nvlist_move_descriptor E L =
     lbind (checknvlist E L 1) (\<lambda>nvl.
     lbind (luaL_checkstring E L 2) (\<lambda>name.
     lbind (luaL_checkinteger E L 3) (\<lambda>value.
     seq (ccall E ''nvlist_move_descriptor'' [APtr nvl, AStr name, AInt (to_int value)])
     (ret 0))))"

definition l_nvlist_move_nvlist :: "env \<Rightarrow> lstate \<Rightarrow> nat lua" where
  "l_nvlist_move_nvlist E L =
     lbind (checknvlist E L 1) (\<lambda>nvl.
     lbind (luaL_checkstring E L 2) (\<lambda>name.
     lbind (checknvlist E L 3) (\<lambda>value.
     seq (setcookie L 3 0)
    (seq (ccall E ''nvlist_move_nvlist'' [APtr nvl, AStr name, APtr value])
     (ret 0)))))"

definition l_nvlist_move_descriptor_array :: "env \<Rightarrow> lstate \<Rightarrow> nat lua" where
  "l_nvlist_move_descriptor_array E L =
     lbind (array_args E L 4) (\<lambda>(nvl, name, nitems, value).
     lbind (read_array L (lua_tointeger E L (-1)) 0 nitems) (\<lambda>vs.
     seq (ccall E ''nvlist_move_descriptor_array'' (APtr nvl # AStr name # AInt value # map (\<lambda>i. AInt (to_int i)) vs))
     (ret 0)))"

text \<open>\<^verbatim>\<open>while (i--) nvlist_destroy(value[i])\<close>: \<open>rev_done\<close> holds the lists read so far, newest first.\<close>

fun destroy_all :: "env \<Rightarrow> addr list \<Rightarrow> unit lua" where
  "destroy_all E [] = ret ()"
| "destroy_all E (p # ps) =
     seq (ccall E ''nvlist_destroy'' [APtr p])
     (destroy_all E ps)"

fun move_nvlist_loop :: "env \<Rightarrow> lstate \<Rightarrow> int \<Rightarrow> addr list \<Rightarrow> nat \<Rightarrow> nat \<Rightarrow> addr list lua" where
  "move_nvlist_loop E L value rev_done i 0 = ret (rev rev_done)"
| "move_nvlist_loop E L value rev_done i (Suc k) =
     (if 2 ^ 31 \<le> int i + 1 then throw Undef
      else
        seq (lua_geti L 3 (int i + 1))
       (lbind (getnvlist E L (-1) NVLIST_METATABLE) (\<lambda>p.
        if p = 0 then
          seq (destroy_all E rev_done)
         (seq (ccall E ''free'' [AInt value])
          (luaL_argerror L 3 ''nvlists expected''))
        else
          lbind (ccall_rc E ''nvlist_error'' [APtr p]) (\<lambda>error.
          if error \<noteq> 0 then
            seq (destroy_all E rev_done)
           (seq (ccall E ''free'' [AInt value])
            (luaL_argerror L 3 ''nvlist has error''))
          else
            seq (setcookie L (-1) 0)
           (seq (lua_pop L 1)
            (move_nvlist_loop E L value (p # rev_done) (Suc i) k))))))"

definition l_nvlist_move_nvlist_array :: "env \<Rightarrow> lstate \<Rightarrow> nat lua" where
  "l_nvlist_move_nvlist_array E L =
     lbind (array_args E L 8) (\<lambda>(nvl, name, nitems, value).
     lbind (move_nvlist_loop E L value [] 0 nitems) (\<lambda>ps.
     seq (ccall E ''nvlist_move_nvlist_array'' (APtr nvl # AStr name # AInt value # map APtr ps))
     (ret 0)))"

section \<open>Getting and taking\<close>

definition NVLIST_GET :: "(env \<Rightarrow> lstate \<Rightarrow> addr \<Rightarrow> nat lua) \<Rightarrow> env \<Rightarrow> lstate \<Rightarrow> nat lua" where
  "NVLIST_GET getter E L = lbind (checknvlist E L 1) (\<lambda>nvl. getter E L nvl)"

definition l_nvlist_take_bool :: "env \<Rightarrow> lstate \<Rightarrow> nat lua" where
  "l_nvlist_take_bool E L =
     lbind (checknvlist E L 1) (\<lambda>nvl.
     lbind (isnoneornil L 3) (\<lambda>nodef.
     if nodef then
       lbind (checkname E L 2 nvl (const E ''NV_TYPE_BOOL'')) (\<lambda>name.
       lbind (ccall_rc E ''nvlist_take_bool'' [APtr nvl, AStr name]) (\<lambda>v.
       seq (lua_pushboolean L (v \<noteq> 0))
       (ret 1)))
     else
       lbind (luaL_checkstring E L 2) (\<lambda>name.
       seq (luaL_checktype L 3 LUA_TBOOLEAN)
      (lbind (lua_toboolean L 3) (\<lambda>defval.
       lbind (ccall_rc E ''dnvlist_take_bool'' [APtr nvl, AStr name, AInt (of_bool defval)]) (\<lambda>v.
       seq (lua_pushboolean L (v \<noteq> 0))
       (ret 1)))))))"

definition l_nvlist_take_number :: "env \<Rightarrow> lstate \<Rightarrow> nat lua" where
  "l_nvlist_take_number E L =
     lbind (checknvlist E L 1) (\<lambda>nvl.
     lbind (isnoneornil L 3) (\<lambda>nodef.
     if nodef then
       lbind (checkname E L 2 nvl (const E ''NV_TYPE_NUMBER'')) (\<lambda>name.
       lbind (ccall_rc E ''nvlist_take_number'' [APtr nvl, AStr name]) (\<lambda>v.
       seq (lua_pushinteger L (to_lua_Integer v))
       (ret 1)))
     else
       lbind (luaL_checkstring E L 2) (\<lambda>name.
       lbind (luaL_checkinteger E L 3) (\<lambda>defval.
       lbind (ccall_rc E ''dnvlist_take_number'' [APtr nvl, AStr name, AInt (to_size_t defval)]) (\<lambda>v.
       seq (lua_pushinteger L (to_lua_Integer v))
       (ret 1))))))"

text \<open>
  \<^verbatim>\<open>take_string\<close> and \<^verbatim>\<open>take_binary\<close> free what they took unless it is the default. A pointer to a Lua
  string has no address in the model; the reply tells by its first out-value (not 0) that the returned
  pointer is the default.
\<close>

definition l_nvlist_take_string :: "env \<Rightarrow> lstate \<Rightarrow> nat lua" where
  "l_nvlist_take_string E L =
     lbind (checknvlist E L 1) (\<lambda>nvl.
     lbind (isnoneornil L 3) (\<lambda>nodef.
     lbind (if nodef then
              lbind (checkname E L 2 nvl (const E ''NV_TYPE_STRING'')) (\<lambda>name.
              lbind (ccall E ''nvlist_take_string'' [APtr nvl, AStr name]) (\<lambda>r.
              ret (r, rc r = 0)))
            else
              lbind (luaL_checkstring E L 2) (\<lambda>name.
              lbind (luaL_checkstring E L 3) (\<lambda>defval.
              lbind (ccall E ''dnvlist_take_string'' [APtr nvl, AStr name, AStr defval]) (\<lambda>r.
              ret (r, outi r 0 \<noteq> 0))))) (\<lambda>(r, is_defval).
     seq (push_string L r)
    (seq (if is_defval then ret () else seq (ccall E ''free'' [AInt (rc r)]) (ret ()))
     (ret 1)))))"

definition l_nvlist_take_nvlist :: "env \<Rightarrow> lstate \<Rightarrow> nat lua" where
  "l_nvlist_take_nvlist E L =
     lbind (checknvlist E L 1) (\<lambda>nvl.
     lbind (isnoneornil L 3) (\<lambda>nodef.
     if nodef then
       lbind (checkname E L 2 nvl (const E ''NV_TYPE_NVLIST'')) (\<lambda>name.
       lbind (ccall_rc E ''nvlist_take_nvlist'' [APtr nvl, AStr name]) (\<lambda>value.
       new L (nat value) NVLIST_METATABLE))
     else
       lbind (luaL_checkstring E L 2) (\<lambda>name.
       lbind (checkanynvlist E L 3) (\<lambda>defval.
       seq (luaL_checktype L 4 LUA_TNONE)
      (lbind (ccall_rc E ''dnvlist_take_nvlist'' [APtr nvl, AStr name, APtr defval]) (\<lambda>value.
       if nat value = defval then ret 1
       else new L (nat value) NVLIST_METATABLE))))))"

definition l_nvlist_take_descriptor :: "env \<Rightarrow> lstate \<Rightarrow> nat lua" where
  "l_nvlist_take_descriptor E L =
     lbind (checknvlist E L 1) (\<lambda>nvl.
     lbind (isnoneornil L 3) (\<lambda>nodef.
     if nodef then
       lbind (checkname E L 2 nvl (const E ''NV_TYPE_DESCRIPTOR'')) (\<lambda>name.
       lbind (ccall_rc E ''nvlist_take_descriptor'' [APtr nvl, AStr name]) (\<lambda>v.
       seq (lua_pushinteger L v)
       (ret 1)))
     else
       lbind (luaL_checkstring E L 2) (\<lambda>name.
       lbind (luaL_checkinteger E L 3) (\<lambda>defval.
       lbind (ccall_rc E ''dnvlist_take_descriptor'' [APtr nvl, AStr name, AInt (to_int defval)]) (\<lambda>v.
       seq (lua_pushinteger L v)
       (ret 1))))))"

definition l_nvlist_take_binary :: "env \<Rightarrow> lstate \<Rightarrow> nat lua" where
  "l_nvlist_take_binary E L =
     lbind (checknvlist E L 1) (\<lambda>nvl.
     lbind (isnoneornil L 3) (\<lambda>nodef.
     lbind (if nodef then
              lbind (checkname E L 2 nvl (const E ''NV_TYPE_BINARY'')) (\<lambda>name.
              lbind (ccall E ''nvlist_take_binary'' [APtr nvl, AStr name]) (\<lambda>r.
              ret (r, rc r = 0)))
            else
              lbind (luaL_checkstring E L 2) (\<lambda>name.
              lbind (luaL_checklstring E L 3) (\<lambda>defval.
              lbind (ccall E ''dnvlist_take_binary'' [APtr nvl, AStr name, AStr defval]) (\<lambda>r.
              ret (r, outi r 0 \<noteq> 0))))) (\<lambda>(r, is_defval).
     seq (lua_pushstring L (outs r))
    (seq (if is_defval then ret () else seq (ccall E ''free'' [AInt (rc r)]) (ret ()))
     (ret 1)))))"

definition l_nvlist_take_bool_array :: "env \<Rightarrow> lstate \<Rightarrow> nat lua" where
  "l_nvlist_take_bool_array E L =
     lbind (checknvlist E L 1) (\<lambda>nvl.
     lbind (checkname E L 2 nvl (const E ''NV_TYPE_BOOL_ARRAY'')) (\<lambda>name.
     lbind (ccall E ''nvlist_take_bool_array'' [APtr nvl, AStr name]) (\<lambda>r.
     seq (push_table L (push_bool_item L r) r)
    (seq (ccall E ''free'' [AInt (rc r)])
     (ret 1)))))"

definition l_nvlist_take_number_array :: "env \<Rightarrow> lstate \<Rightarrow> nat lua" where
  "l_nvlist_take_number_array E L =
     lbind (checknvlist E L 1) (\<lambda>nvl.
     lbind (checkname E L 2 nvl (const E ''NV_TYPE_NUMBER_ARRAY'')) (\<lambda>name.
     lbind (ccall E ''nvlist_take_number_array'' [APtr nvl, AStr name]) (\<lambda>r.
     seq (push_table L (push_number_item L r) r)
    (seq (ccall E ''free'' [AInt (rc r)])
     (ret 1)))))"

text \<open>The loop that also frees each string once it is in the table.\<close>

fun take_strings :: "env \<Rightarrow> lstate \<Rightarrow> cres \<Rightarrow> nat \<Rightarrow> nat \<Rightarrow> unit lua" where
  "take_strings E L r i 0 = ret ()"
| "take_strings E L r i (Suc k) =
     seq (push_string_item L r i)
    (if 2 ^ 31 \<le> int i + 1 then throw Undef
     else
       seq (lua_rawseti L (-2) (int i + 1))
      (seq (ccall E ''free'' [AInt (item r i)])
       (take_strings E L r (Suc i) k)))"

definition l_nvlist_take_string_array :: "env \<Rightarrow> lstate \<Rightarrow> nat lua" where
  "l_nvlist_take_string_array E L =
     lbind (checknvlist E L 1) (\<lambda>nvl.
     lbind (checkname E L 2 nvl (const E ''NV_TYPE_STRING_ARRAY'')) (\<lambda>name.
     lbind (ccall E ''nvlist_take_string_array'' [APtr nvl, AStr name]) (\<lambda>r.
     seq (lua_createtable L)
    (seq (take_strings E L r 0 (nitems r))
    (seq (ccall E ''free'' [AInt (rc r)])
     (ret 1))))))"

definition l_nvlist_take_nvlist_array :: "env \<Rightarrow> lstate \<Rightarrow> nat lua" where
  "l_nvlist_take_nvlist_array E L =
     lbind (checknvlist E L 1) (\<lambda>nvl.
     lbind (checkname E L 2 nvl (const E ''NV_TYPE_NVLIST_ARRAY'')) (\<lambda>name.
     lbind (ccall E ''nvlist_take_nvlist_array'' [APtr nvl, AStr name]) (\<lambda>r.
     seq (push_table L (push_nvlist_item L r) r)
    (seq (ccall E ''free'' [AInt (rc r)])
     (ret 1)))))"

definition l_nvlist_take_descriptor_array :: "env \<Rightarrow> lstate \<Rightarrow> nat lua" where
  "l_nvlist_take_descriptor_array E L =
     lbind (checknvlist E L 1) (\<lambda>nvl.
     lbind (checkname E L 2 nvl (const E ''NV_TYPE_DESCRIPTOR_ARRAY'')) (\<lambda>name.
     lbind (ccall E ''nvlist_take_descriptor_array'' [APtr nvl, AStr name]) (\<lambda>r.
     seq (push_table L (push_descriptor_item L r) r)
    (seq (ccall E ''free'' [AInt (rc r)])
     (ret 1)))))"

section \<open>Appending\<close>

definition l_nvlist_append_bool_array :: "env \<Rightarrow> lstate \<Rightarrow> nat lua" where
  "l_nvlist_append_bool_array E L =
     lbind (checknvlist E L 1) (\<lambda>nvl.
     lbind (checkname E L 2 nvl (const E ''NV_TYPE_BOOL_ARRAY'')) (\<lambda>name.
     lbind (lua_type L 3) (\<lambda>t.
     if t \<noteq> LUA_TBOOLEAN then throw (TypeError 3 ''boolean'') else
     lbind (lua_toboolean L 3) (\<lambda>value.
     seq (ccall E ''nvlist_append_bool_array'' [APtr nvl, AStr name, AInt (of_bool value)])
     (ret 0)))))"

definition l_nvlist_append_number_array :: "env \<Rightarrow> lstate \<Rightarrow> nat lua" where
  "l_nvlist_append_number_array E L =
     lbind (checknvlist E L 1) (\<lambda>nvl.
     lbind (checkname E L 2 nvl (const E ''NV_TYPE_NUMBER_ARRAY'')) (\<lambda>name.
     lbind (luaL_checkinteger E L 3) (\<lambda>value.
     seq (ccall E ''nvlist_append_number_array'' [APtr nvl, AStr name, AInt (to_size_t value)])
     (ret 0))))"

definition l_nvlist_append_string_array :: "env \<Rightarrow> lstate \<Rightarrow> nat lua" where
  "l_nvlist_append_string_array E L =
     lbind (checknvlist E L 1) (\<lambda>nvl.
     lbind (checkname E L 2 nvl (const E ''NV_TYPE_STRING_ARRAY'')) (\<lambda>name.
     lbind (luaL_checkstring E L 3) (\<lambda>value.
     seq (ccall E ''nvlist_append_string_array'' [APtr nvl, AStr name, AStr value])
     (ret 0))))"

definition l_nvlist_append_nvlist_array :: "env \<Rightarrow> lstate \<Rightarrow> nat lua" where
  "l_nvlist_append_nvlist_array E L =
     lbind (checknvlist E L 1) (\<lambda>nvl.
     lbind (checkname E L 2 nvl (const E ''NV_TYPE_NVLIST_ARRAY'')) (\<lambda>name.
     lbind (checkanynvlist E L 3) (\<lambda>value.
     seq (ccall E ''nvlist_append_nvlist_array'' [APtr nvl, AStr name, APtr value])
     (ret 0))))"

definition l_nvlist_append_descriptor_array :: "env \<Rightarrow> lstate \<Rightarrow> nat lua" where
  "l_nvlist_append_descriptor_array E L =
     lbind (checknvlist E L 1) (\<lambda>nvl.
     lbind (checkname E L 2 nvl (const E ''NV_TYPE_DESCRIPTOR_ARRAY'')) (\<lambda>name.
     lbind (luaL_checkinteger E L 3) (\<lambda>value.
     seq (ccall E ''nvlist_append_descriptor_array'' [APtr nvl, AStr name, AInt (to_int value)])
     (ret 0))))"

section \<open>Freeing and walking\<close>

definition l_nvlist_free :: "env \<Rightarrow> lstate \<Rightarrow> nat lua" where
  "l_nvlist_free E L =
     lbind (checkcookie L 1 NVLIST_METATABLE) (\<lambda>nvl.
     lbind (luaL_checkstring E L 2) (\<lambda>name.
     lbind (ccall_rc E ''nvlist_exists'' [APtr nvl, AStr name]) (\<lambda>found.
     seq (luaL_argcheck (found \<noteq> 0) 2 ''name not found'')
    (seq (ccall E ''nvlist_free'' [APtr nvl, AStr name])
     (ret 0)))))"

definition l_nvlist_free_type :: "env \<Rightarrow> lstate \<Rightarrow> nat lua" where
  "l_nvlist_free_type E L =
     lbind (checknvlist E L 1) (\<lambda>nvl.
     lbind (luaL_checkinteger E L 3) (\<lambda>type.
     lbind (checkname E L 2 nvl (to_int type)) (\<lambda>name.
     seq (ccall E ''nvlist_free_type'' [APtr nvl, AStr name, AInt (to_int type)])
     (ret 0))))"

definition NVLIST_FREE :: "string \<Rightarrow> string \<Rightarrow> env \<Rightarrow> lstate \<Rightarrow> nat lua" where
  "NVLIST_FREE type T E L =
     lbind (checknvlist E L 1) (\<lambda>nvl.
     lbind (checkname E L 2 nvl (const E T)) (\<lambda>name.
     seq (ccall E (''nvlist_free_'' @ type) [APtr nvl, AStr name])
     (ret 0)))"

definition l_nvlist_next :: "env \<Rightarrow> lstate \<Rightarrow> nat lua" where
  "l_nvlist_next E L = lbind (checknvlist E L 1) (\<lambda>nvl. nv_next E L nvl)"

definition l_nvlist_get_parent :: "env \<Rightarrow> lstate \<Rightarrow> nat lua" where
  "l_nvlist_get_parent E L = lbind (checknvlist E L 1) (\<lambda>nvl. get_parent E L nvl)"

definition l_nvlist_get_array_next :: "env \<Rightarrow> lstate \<Rightarrow> nat lua" where
  "l_nvlist_get_array_next E L = lbind (checknvlist E L 1) (\<lambda>nvl. get_array_next E L nvl)"

definition l_nvlist_get_pararr :: "env \<Rightarrow> lstate \<Rightarrow> nat lua" where
  "l_nvlist_get_pararr E L = lbind (checknvlist E L 1) (\<lambda>nvl. get_pararr E L nvl)"

end
