(* ===== verification/Nv_Const.thy ===== *)
theory Nv_Const
  imports Nv_List
begin

text \<open>
  The methods of \<^verbatim>\<open>const nvlist_t\<close> and of \<^verbatim>\<open>nvlist_t cookie\<close>, the registration tables and \<^verbatim>\<open>luaopen_nv\<close>.
\<close>

section \<open>Lists inside other lists\<close>

definition l_const_nvlist_error :: "env \<Rightarrow> lstate \<Rightarrow> nat lua" where
  "l_const_nvlist_error E L =
     lbind (checkcookienull L 1 CONST_NVLIST_METATABLE) (\<lambda>nvl.
     lbind (ccall_rc E ''nvlist_error'' [APtr nvl]) (\<lambda>error.
     seq (lua_pushinteger L error)
     (ret 1)))"

definition l_const_nvlist_empty :: "env \<Rightarrow> lstate \<Rightarrow> nat lua" where
  "l_const_nvlist_empty E L =
     lbind (checkconstnvlist E L 1) (\<lambda>nvl.
     lbind (ccall_rc E ''nvlist_empty'' [APtr nvl]) (\<lambda>b.
     seq (lua_pushboolean L (b \<noteq> 0))
     (ret 1)))"

definition l_const_nvlist_flags :: "env \<Rightarrow> lstate \<Rightarrow> nat lua" where
  "l_const_nvlist_flags E L =
     lbind (checkconstnvlist E L 1) (\<lambda>nvl.
     lbind (ccall_rc E ''nvlist_flags'' [APtr nvl]) (\<lambda>flags.
     seq (lua_pushinteger L flags)
     (ret 1)))"

definition l_const_nvlist_in_array :: "env \<Rightarrow> lstate \<Rightarrow> nat lua" where
  "l_const_nvlist_in_array E L =
     lbind (checkcookie L 1 CONST_NVLIST_METATABLE) (\<lambda>nvl.
     lbind (ccall_rc E ''nvlist_in_array'' [APtr nvl]) (\<lambda>b.
     seq (lua_pushboolean L (b \<noteq> 0))
     (ret 1)))"

definition l_const_nvlist_clone :: "env \<Rightarrow> lstate \<Rightarrow> nat lua" where
  "l_const_nvlist_clone E L =
     lbind (checkconstnvlist E L 1) (\<lambda>nvl.
     lbind (ccall_rc E ''nvlist_clone'' [APtr nvl]) (\<lambda>p.
     new L (nat p) NVLIST_METATABLE))"

definition l_const_nvlist_dump :: "env \<Rightarrow> lstate \<Rightarrow> nat lua" where
  "l_const_nvlist_dump E L =
     lbind (checkconstnvlist E L 1) (\<lambda>nvl.
     lbind (luaL_checkinteger E L 2) (\<lambda>fd.
     seq (ccall E ''nvlist_dump'' [APtr nvl, AInt (to_int fd)])
     (ret 0)))"

definition l_const_nvlist_fdump :: "env \<Rightarrow> lstate \<Rightarrow> nat lua" where
  "l_const_nvlist_fdump E L =
     lbind (checkconstnvlist E L 1) (\<lambda>nvl.
     lbind (luaL_checkudata L 2 ''FILE*'') (\<lambda>s.
     lbind (get_blk s) (\<lambda>f.
     seq (ccall E ''nvlist_fdump'' [APtr nvl, AInt f])
     (ret 0))))"

definition l_const_nvlist_size :: "env \<Rightarrow> lstate \<Rightarrow> nat lua" where
  "l_const_nvlist_size E L =
     lbind (checkcookie L 1 CONST_NVLIST_METATABLE) (\<lambda>nvl.
     lbind (ccall_rc E ''nvlist_size'' [APtr nvl]) (\<lambda>size.
     seq (lua_pushinteger L (to_lua_Integer size))
     (ret 1)))"

definition l_const_nvlist_pack :: "env \<Rightarrow> lstate \<Rightarrow> nat lua" where
  "l_const_nvlist_pack E L =
     lbind (checkconstnvlist E L 1) (\<lambda>nvl.
     lbind (ccall E ''nvlist_pack'' [APtr nvl]) (\<lambda>r.
     if rc r = 0 then fail E L (errno r)
     else
       seq (lua_pushstring L (outs r))
      (seq (ccall E ''free'' [AInt (rc r)])
       (ret 1))))"

definition l_const_nvlist_send :: "env \<Rightarrow> lstate \<Rightarrow> nat lua" where
  "l_const_nvlist_send E L =
     lbind (checkconstnvlist E L 1) (\<lambda>nvl.
     lbind (luaL_checkinteger E L 2) (\<lambda>sock.
     lbind (ccall E ''nvlist_send'' [AInt (to_int sock), APtr nvl]) (\<lambda>r.
     if rc r = -1 then fail E L (errno r)
     else success L)))"

definition l_const_nvlist_exists :: "env \<Rightarrow> lstate \<Rightarrow> nat lua" where
  "l_const_nvlist_exists E L =
     lbind (checkconstnvlist E L 1) (\<lambda>nvl.
     lbind (luaL_checkstring E L 2) (\<lambda>name.
     lbind (ccall_rc E ''nvlist_exists'' [APtr nvl, AStr name]) (\<lambda>b.
     seq (lua_pushboolean L (b \<noteq> 0))
     (ret 1))))"

definition l_const_nvlist_exists_type :: "env \<Rightarrow> lstate \<Rightarrow> nat lua" where
  "l_const_nvlist_exists_type E L =
     lbind (checkconstnvlist E L 1) (\<lambda>nvl.
     lbind (luaL_checkstring E L 2) (\<lambda>name.
     lbind (luaL_checkinteger E L 3) (\<lambda>type.
     lbind (ccall_rc E ''nvlist_exists_type'' [APtr nvl, AStr name, AInt (to_int type)]) (\<lambda>b.
     seq (lua_pushboolean L (b \<noteq> 0))
     (ret 1)))))"

definition CONST_NVLIST_EXISTS :: "string \<Rightarrow> env \<Rightarrow> lstate \<Rightarrow> nat lua" where
  "CONST_NVLIST_EXISTS type E L =
     lbind (checkconstnvlist E L 1) (\<lambda>nvl.
     lbind (luaL_checkstring E L 2) (\<lambda>name.
     lbind (ccall_rc E (''nvlist_exists_'' @ type) [APtr nvl, AStr name]) (\<lambda>b.
     seq (lua_pushboolean L (b \<noteq> 0))
     (ret 1))))"

definition CONST_NVLIST_GET :: "(env \<Rightarrow> lstate \<Rightarrow> addr \<Rightarrow> nat lua) \<Rightarrow> env \<Rightarrow> lstate \<Rightarrow> nat lua" where
  "CONST_NVLIST_GET getter E L = lbind (checkconstnvlist E L 1) (\<lambda>nvl. getter E L nvl)"

definition l_const_nvlist_next :: "env \<Rightarrow> lstate \<Rightarrow> nat lua" where
  "l_const_nvlist_next E L = lbind (checkconstnvlist E L 1) (\<lambda>nvl. nv_next E L nvl)"

definition l_const_nvlist_get_parent :: "env \<Rightarrow> lstate \<Rightarrow> nat lua" where
  "l_const_nvlist_get_parent E L = lbind (checkconstnvlist E L 1) (\<lambda>nvl. get_parent E L nvl)"

definition l_const_nvlist_get_array_next :: "env \<Rightarrow> lstate \<Rightarrow> nat lua" where
  "l_const_nvlist_get_array_next E L = lbind (checkconstnvlist E L 1) (\<lambda>nvl. get_array_next E L nvl)"

definition l_const_nvlist_get_pararr :: "env \<Rightarrow> lstate \<Rightarrow> nat lua" where
  "l_const_nvlist_get_pararr E L = lbind (checkconstnvlist E L 1) (\<lambda>nvl. get_pararr E L nvl)"

section \<open>Cookies: one pair of a list\<close>

definition l_cnvlist_name :: "env \<Rightarrow> lstate \<Rightarrow> nat lua" where
  "l_cnvlist_name E L =
     lbind (checkcookie L 1 CNVLIST_METATABLE) (\<lambda>cookie.
     lbind (ccall E ''cnvlist_name'' [APtr cookie]) (\<lambda>r.
     seq (push_string L r)
     (ret 1)))"

definition l_cnvlist_type :: "env \<Rightarrow> lstate \<Rightarrow> nat lua" where
  "l_cnvlist_type E L =
     lbind (checkcookie L 1 CNVLIST_METATABLE) (\<lambda>cookie.
     lbind (ccall_rc E ''cnvlist_type'' [APtr cookie]) (\<lambda>type.
     seq (lua_pushinteger L type)
     (ret 1)))"

definition checkcookietype :: "env \<Rightarrow> lstate \<Rightarrow> int \<Rightarrow> int \<Rightarrow> addr lua" where
  "checkcookietype E L idx type =
     lbind (checkcookie L idx CNVLIST_METATABLE) (\<lambda>cookie.
     lbind (ccall_rc E ''cnvlist_type'' [APtr cookie]) (\<lambda>t.
     seq (luaL_argcheck (t = type) idx ''wrong type'')
     (ret cookie)))"

definition l_cnvlist_get_bool :: "env \<Rightarrow> lstate \<Rightarrow> nat lua" where
  "l_cnvlist_get_bool E L =
     lbind (checkcookietype E L 1 (const E ''NV_TYPE_BOOL'')) (\<lambda>cookie.
     lbind (ccall_rc E ''cnvlist_get_bool'' [APtr cookie]) (\<lambda>v.
     seq (lua_pushboolean L (v \<noteq> 0))
     (ret 1)))"

definition l_cnvlist_get_number :: "env \<Rightarrow> lstate \<Rightarrow> nat lua" where
  "l_cnvlist_get_number E L =
     lbind (checkcookietype E L 1 (const E ''NV_TYPE_NUMBER'')) (\<lambda>cookie.
     lbind (ccall_rc E ''cnvlist_get_number'' [APtr cookie]) (\<lambda>v.
     seq (lua_pushinteger L (to_lua_Integer v))
     (ret 1)))"

definition l_cnvlist_get_string :: "env \<Rightarrow> lstate \<Rightarrow> nat lua" where
  "l_cnvlist_get_string E L =
     lbind (checkcookietype E L 1 (const E ''NV_TYPE_STRING'')) (\<lambda>cookie.
     lbind (ccall E ''cnvlist_get_string'' [APtr cookie]) (\<lambda>r.
     seq (push_string L r)
     (ret 1)))"

definition l_cnvlist_get_nvlist :: "env \<Rightarrow> lstate \<Rightarrow> nat lua" where
  "l_cnvlist_get_nvlist E L =
     lbind (checkcookietype E L 1 (const E ''NV_TYPE_NVLIST'')) (\<lambda>cookie.
     lbind (ccall_rc E ''cnvlist_get_nvlist'' [APtr cookie]) (\<lambda>v.
     newref L 1 (nat v) CONST_NVLIST_METATABLE))"

definition l_cnvlist_get_binary :: "env \<Rightarrow> lstate \<Rightarrow> nat lua" where
  "l_cnvlist_get_binary E L =
     lbind (checkcookietype E L 1 (const E ''NV_TYPE_BINARY'')) (\<lambda>cookie.
     lbind (ccall E ''cnvlist_get_binary'' [APtr cookie]) (\<lambda>r.
     seq (lua_pushstring L (outs r))
     (ret 1)))"

definition l_cnvlist_get_bool_array :: "env \<Rightarrow> lstate \<Rightarrow> nat lua" where
  "l_cnvlist_get_bool_array E L =
     lbind (checkcookietype E L 1 (const E ''NV_TYPE_BOOL_ARRAY'')) (\<lambda>cookie.
     lbind (ccall E ''cnvlist_get_bool_array'' [APtr cookie]) (\<lambda>r.
     seq (push_table L (push_bool_item L r) r)
     (ret 1)))"

text \<open>
  \<^verbatim>\<open>lua_pushnumber\<close> of a \<^verbatim>\<open>uint64_t\<close>: the double nearest to it, the one with an even significand where two
  are equally near. A number of \<open>53 + n\<close> bits loses its \<open>n\<close> low bits.
\<close>

definition excess_bits :: "int \<Rightarrow> nat" where
  "excess_bits i = length (filter (\<lambda>n. 2 ^ (53 + n) \<le> i) [0..<11])"

definition round_even :: "int \<Rightarrow> nat \<Rightarrow> int" where
  "round_even i n = (let q = i div 2 ^ n; r = i mod 2 ^ n in
     if 2 * r < 2 ^ n \<or> 2 * r = 2 ^ n \<and> even q then q else q + 1)"

definition uint64_to_dbl :: "int \<Rightarrow> dbl" where
  "uint64_to_dbl i = (let n = excess_bits i in
     if n = 0 then Fin i 0 else Fin (round_even i n) (int n))"

definition push_double_item :: "lstate \<Rightarrow> cres \<Rightarrow> nat \<Rightarrow> unit lua" where
  "push_double_item L r i = lua_push L (LNumber (uint64_to_dbl (item r i)))"

definition l_cnvlist_get_number_array :: "env \<Rightarrow> lstate \<Rightarrow> nat lua" where
  "l_cnvlist_get_number_array E L =
     lbind (checkcookietype E L 1 (const E ''NV_TYPE_NUMBER_ARRAY'')) (\<lambda>cookie.
     lbind (ccall E ''cnvlist_get_number_array'' [APtr cookie]) (\<lambda>r.
     seq (push_table L (push_double_item L r) r)
     (ret 1)))"

definition l_cnvlist_get_string_array :: "env \<Rightarrow> lstate \<Rightarrow> nat lua" where
  "l_cnvlist_get_string_array E L =
     lbind (checkcookietype E L 1 (const E ''NV_TYPE_STRING_ARRAY'')) (\<lambda>cookie.
     lbind (ccall E ''cnvlist_get_string_array'' [APtr cookie]) (\<lambda>r.
     seq (push_table L (push_string_item L r) r)
     (ret 1)))"

definition l_cnvlist_get_nvlist_array :: "env \<Rightarrow> lstate \<Rightarrow> nat lua" where
  "l_cnvlist_get_nvlist_array E L =
     lbind (checkcookietype E L 1 (const E ''NV_TYPE_NVLIST_ARRAY'')) (\<lambda>cookie.
     lbind (ccall E ''cnvlist_get_nvlist_array'' [APtr cookie]) (\<lambda>r.
     seq (push_table L (push_const_item L r) r)
     (ret 1)))"

definition l_cnvlist_get_descriptor :: "env \<Rightarrow> lstate \<Rightarrow> nat lua" where
  "l_cnvlist_get_descriptor E L =
     lbind (checkcookietype E L 1 (const E ''NV_TYPE_DESCRIPTOR'')) (\<lambda>cookie.
     lbind (ccall_rc E ''cnvlist_get_descriptor'' [APtr cookie]) (\<lambda>v.
     seq (lua_pushinteger L v)
     (ret 1)))"

definition l_cnvlist_get_descriptor_array :: "env \<Rightarrow> lstate \<Rightarrow> nat lua" where
  "l_cnvlist_get_descriptor_array E L =
     lbind (checkcookietype E L 1 (const E ''NV_TYPE_DESCRIPTOR_ARRAY'')) (\<lambda>cookie.
     lbind (ccall E ''cnvlist_get_descriptor_array'' [APtr cookie]) (\<lambda>r.
     seq (push_table L (push_descriptor_item L r) r)
     (ret 1)))"

definition l_cnvlist_take_bool :: "env \<Rightarrow> lstate \<Rightarrow> nat lua" where
  "l_cnvlist_take_bool E L =
     lbind (checkcookietype E L 1 (const E ''NV_TYPE_BOOL'')) (\<lambda>cookie.
     lbind (ccall_rc E ''cnvlist_take_bool'' [APtr cookie]) (\<lambda>v.
     seq (lua_pushboolean L (v \<noteq> 0))
     (ret 1)))"

definition l_cnvlist_take_number :: "env \<Rightarrow> lstate \<Rightarrow> nat lua" where
  "l_cnvlist_take_number E L =
     lbind (checkcookietype E L 1 (const E ''NV_TYPE_NUMBER'')) (\<lambda>cookie.
     lbind (ccall_rc E ''cnvlist_take_number'' [APtr cookie]) (\<lambda>v.
     seq (lua_pushinteger L (to_lua_Integer v))
     (ret 1)))"

definition l_cnvlist_take_string :: "env \<Rightarrow> lstate \<Rightarrow> nat lua" where
  "l_cnvlist_take_string E L =
     lbind (checkcookietype E L 1 (const E ''NV_TYPE_STRING'')) (\<lambda>cookie.
     lbind (ccall E ''cnvlist_take_string'' [APtr cookie]) (\<lambda>r.
     seq (push_string L r)
    (seq (ccall E ''free'' [AInt (rc r)])
     (ret 1))))"

definition l_cnvlist_take_nvlist :: "env \<Rightarrow> lstate \<Rightarrow> nat lua" where
  "l_cnvlist_take_nvlist E L =
     lbind (checkcookietype E L 1 (const E ''NV_TYPE_NVLIST'')) (\<lambda>cookie.
     lbind (ccall_rc E ''cnvlist_take_nvlist'' [APtr cookie]) (\<lambda>v.
     new L (nat v) NVLIST_METATABLE))"

definition l_cnvlist_take_binary :: "env \<Rightarrow> lstate \<Rightarrow> nat lua" where
  "l_cnvlist_take_binary E L =
     lbind (checkcookietype E L 1 (const E ''NV_TYPE_BINARY'')) (\<lambda>cookie.
     lbind (ccall E ''cnvlist_take_binary'' [APtr cookie]) (\<lambda>r.
     seq (lua_pushstring L (outs r))
    (seq (ccall E ''free'' [AInt (rc r)])
     (ret 1))))"

definition l_cnvlist_take_bool_array :: "env \<Rightarrow> lstate \<Rightarrow> nat lua" where
  "l_cnvlist_take_bool_array E L =
     lbind (checkcookietype E L 1 (const E ''NV_TYPE_BOOL_ARRAY'')) (\<lambda>cookie.
     lbind (ccall E ''cnvlist_take_bool_array'' [APtr cookie]) (\<lambda>r.
     seq (push_table L (push_bool_item L r) r)
    (seq (ccall E ''free'' [AInt (rc r)])
     (ret 1))))"

definition l_cnvlist_take_number_array :: "env \<Rightarrow> lstate \<Rightarrow> nat lua" where
  "l_cnvlist_take_number_array E L =
     lbind (checkcookietype E L 1 (const E ''NV_TYPE_NUMBER_ARRAY'')) (\<lambda>cookie.
     lbind (ccall E ''cnvlist_take_number_array'' [APtr cookie]) (\<lambda>r.
     seq (push_table L (push_number_item L r) r)
    (seq (ccall E ''free'' [AInt (rc r)])
     (ret 1))))"

definition l_cnvlist_take_string_array :: "env \<Rightarrow> lstate \<Rightarrow> nat lua" where
  "l_cnvlist_take_string_array E L =
     lbind (checkcookietype E L 1 (const E ''NV_TYPE_STRING_ARRAY'')) (\<lambda>cookie.
     lbind (ccall E ''cnvlist_take_string_array'' [APtr cookie]) (\<lambda>r.
     seq (lua_createtable L)
    (seq (take_strings E L r 0 (nitems r))
    (seq (ccall E ''free'' [AInt (rc r)])
     (ret 1)))))"

definition l_cnvlist_take_nvlist_array :: "env \<Rightarrow> lstate \<Rightarrow> nat lua" where
  "l_cnvlist_take_nvlist_array E L =
     lbind (checkcookietype E L 1 (const E ''NV_TYPE_NVLIST_ARRAY'')) (\<lambda>cookie.
     lbind (ccall E ''cnvlist_take_nvlist_array'' [APtr cookie]) (\<lambda>r.
     seq (push_table L (push_nvlist_item L r) r)
    (seq (ccall E ''free'' [AInt (rc r)])
     (ret 1))))"

definition l_cnvlist_take_descriptor :: "env \<Rightarrow> lstate \<Rightarrow> nat lua" where
  "l_cnvlist_take_descriptor E L =
     lbind (checkcookietype E L 1 (const E ''NV_TYPE_DESCRIPTOR'')) (\<lambda>cookie.
     lbind (ccall_rc E ''cnvlist_take_descriptor'' [APtr cookie]) (\<lambda>v.
     seq (lua_pushinteger L v)
     (ret 1)))"

definition l_cnvlist_take_descriptor_array :: "env \<Rightarrow> lstate \<Rightarrow> nat lua" where
  "l_cnvlist_take_descriptor_array E L =
     lbind (checkcookietype E L 1 (const E ''NV_TYPE_DESCRIPTOR_ARRAY'')) (\<lambda>cookie.
     lbind (ccall E ''cnvlist_take_descriptor_array'' [APtr cookie]) (\<lambda>r.
     seq (push_table L (push_descriptor_item L r) r)
    (seq (ccall E ''free'' [AInt (rc r)])
     (ret 1))))"

definition CNVLIST_FREE :: "string \<Rightarrow> string \<Rightarrow> env \<Rightarrow> lstate \<Rightarrow> nat lua" where
  "CNVLIST_FREE type T E L =
     lbind (checkcookietype E L 1 (const E T)) (\<lambda>cookie.
     seq (ccall E (''cnvlist_free_'' @ type) [APtr cookie])
     (ret 0))"

section \<open>The module\<close>

text \<open>The functions \<^verbatim>\<open>get_##type\<close> in the order of \<^verbatim>\<open>NVLIST_TYPES\<close>.\<close>

definition getters :: "(string \<times> (env \<Rightarrow> lstate \<Rightarrow> addr \<Rightarrow> nat lua)) list" where
  "getters =
     [(''bool'', get_bool),
      (''number'', get_number),
      (''string'', get_string),
      (''nvlist'', get_nvlist),
      (''binary'', get_binary),
      (''bool_array'', get_bool_array),
      (''number_array'', get_number_array),
      (''string_array'', get_string_array),
      (''nvlist_array'', get_nvlist_array),
      (''descriptor'', get_descriptor),
      (''descriptor_array'', get_descriptor_array)]"

definition l_nv_funcs :: "(string \<times> cfunction) list" where
  "l_nv_funcs =
     [(''create'', l_nv_create),
      (''recv'', l_nv_recv),
      (''unpack'', l_nv_unpack)]"

definition l_nvlist_meta :: "(string \<times> cfunction) list" where
  "l_nvlist_meta =
     [(''__gc'', l_nvlist_gc),
      (''error'', l_nvlist_error),
      (''set_error'', l_nvlist_set_error),
      (''empty'', l_nvlist_empty),
      (''flags'', l_nvlist_flags),
      (''in_array'', l_nvlist_in_array),
      (''clone'', l_nvlist_clone),
      (''dump'', l_nvlist_dump),
      (''fdump'', l_nvlist_fdump),
      (''size'', l_nvlist_size),
      (''pack'', l_nvlist_pack),
      (''send'', l_nvlist_send),
      (''xfer'', l_nvlist_xfer),
      (''exists'', l_nvlist_exists)] @
     map (\<lambda>(t, T). (''exists_'' @ t, NVLIST_EXISTS t)) NVLIST_TYPES_NULL @
     [(''add_null'', l_nvlist_add_null),
      (''add_bool'', l_nvlist_add_bool),
      (''add_number'', l_nvlist_add_number),
      (''add_string'', l_nvlist_add_string),
      (''add_nvlist'', l_nvlist_add_nvlist),
      (''add_binary'', l_nvlist_add_binary),
      (''add_bool_array'', l_nvlist_add_bool_array),
      (''add_number_array'', l_nvlist_add_number_array),
      (''add_string_array'', l_nvlist_add_string_array),
      (''add_nvlist_array'', l_nvlist_add_nvlist_array),
      (''add_descriptor'', l_nvlist_add_descriptor),
      (''add_descriptor_array'', l_nvlist_add_descriptor_array)] @
     [(''move_nvlist'', l_nvlist_move_nvlist),
      (''move_descriptor'', l_nvlist_move_descriptor),
      (''move_nvlist_array'', l_nvlist_move_nvlist_array),
      (''move_descriptor_array'', l_nvlist_move_descriptor_array)] @
     map (\<lambda>(t, g). (''get_'' @ t, NVLIST_GET g)) getters @
     [(''take_bool'', l_nvlist_take_bool),
      (''take_number'', l_nvlist_take_number),
      (''take_string'', l_nvlist_take_string),
      (''take_nvlist'', l_nvlist_take_nvlist),
      (''take_binary'', l_nvlist_take_binary),
      (''take_bool_array'', l_nvlist_take_bool_array),
      (''take_number_array'', l_nvlist_take_number_array),
      (''take_string_array'', l_nvlist_take_string_array),
      (''take_nvlist_array'', l_nvlist_take_nvlist_array),
      (''take_descriptor'', l_nvlist_take_descriptor),
      (''take_descriptor_array'', l_nvlist_take_descriptor_array)] @
     [(''append_bool_array'', l_nvlist_append_bool_array),
      (''append_number_array'', l_nvlist_append_number_array),
      (''append_string_array'', l_nvlist_append_string_array),
      (''append_nvlist_array'', l_nvlist_append_nvlist_array),
      (''append_descriptor_array'', l_nvlist_append_descriptor_array),
      (''free'', l_nvlist_free),
      (''free_type'', l_nvlist_free_type)] @
     map (\<lambda>(t, T). (''free_'' @ t, NVLIST_FREE t T)) NVLIST_TYPES_NULL @
     [(''next'', l_nvlist_next),
      (''get_parent'', l_nvlist_get_parent),
      (''get_array_next'', l_nvlist_get_array_next),
      (''get_pararr'', l_nvlist_get_pararr)]"

definition l_const_nvlist_meta :: "(string \<times> cfunction) list" where
  "l_const_nvlist_meta =
     [(''error'', l_const_nvlist_error),
      (''empty'', l_const_nvlist_empty),
      (''flags'', l_const_nvlist_flags),
      (''in_array'', l_const_nvlist_in_array),
      (''clone'', l_const_nvlist_clone),
      (''dump'', l_const_nvlist_dump),
      (''fdump'', l_const_nvlist_fdump),
      (''size'', l_const_nvlist_size),
      (''pack'', l_const_nvlist_pack),
      (''send'', l_const_nvlist_send),
      (''exists'', l_const_nvlist_exists)] @
     map (\<lambda>(t, T). (''exists_'' @ t, CONST_NVLIST_EXISTS t)) NVLIST_TYPES_NULL @
     map (\<lambda>(t, g). (''get_'' @ t, CONST_NVLIST_GET g)) getters @
     [(''next'', l_const_nvlist_next),
      (''get_parent'', l_const_nvlist_get_parent),
      (''get_array_next'', l_const_nvlist_get_array_next),
      (''get_pararr'', l_const_nvlist_get_pararr)]"

definition l_cnvlist_meta :: "(string \<times> cfunction) list" where
  "l_cnvlist_meta =
     [(''name'', l_cnvlist_name),
      (''type'', l_cnvlist_type)] @
     [(''get_bool'', l_cnvlist_get_bool),
      (''get_number'', l_cnvlist_get_number),
      (''get_string'', l_cnvlist_get_string),
      (''get_nvlist'', l_cnvlist_get_nvlist),
      (''get_binary'', l_cnvlist_get_binary),
      (''get_bool_array'', l_cnvlist_get_bool_array),
      (''get_number_array'', l_cnvlist_get_number_array),
      (''get_string_array'', l_cnvlist_get_string_array),
      (''get_nvlist_array'', l_cnvlist_get_nvlist_array),
      (''get_descriptor'', l_cnvlist_get_descriptor),
      (''get_descriptor_array'', l_cnvlist_get_descriptor_array)] @
     [(''take_bool'', l_cnvlist_take_bool),
      (''take_number'', l_cnvlist_take_number),
      (''take_string'', l_cnvlist_take_string),
      (''take_nvlist'', l_cnvlist_take_nvlist),
      (''take_binary'', l_cnvlist_take_binary),
      (''take_bool_array'', l_cnvlist_take_bool_array),
      (''take_number_array'', l_cnvlist_take_number_array),
      (''take_string_array'', l_cnvlist_take_string_array),
      (''take_nvlist_array'', l_cnvlist_take_nvlist_array),
      (''take_descriptor'', l_cnvlist_take_descriptor),
      (''take_descriptor_array'', l_cnvlist_take_descriptor_array)] @
     map (\<lambda>(t, T). (''free_'' @ t, CNVLIST_FREE t T)) NVLIST_TYPES"

definition luaopen_nv ::
  "env \<Rightarrow> (string \<times> (string \<times> cfunction) list) list \<times> (string \<times> field) list" where
  "luaopen_nv E =
     ([(NVLIST_METATABLE, l_nvlist_meta),
       (CONST_NVLIST_METATABLE, l_const_nvlist_meta),
       (CNVLIST_METATABLE, l_cnvlist_meta)],
      luaL_newlib l_nv_funcs @ DEFINE E ''NV_''
        [''NAME_MAX'', ''TYPE_NONE'', ''TYPE_BOOL'', ''TYPE_NUMBER'', ''TYPE_STRING'', ''TYPE_NVLIST'',
      ''TYPE_DESCRIPTOR'', ''TYPE_BINARY'', ''TYPE_BOOL_ARRAY'', ''TYPE_NUMBER_ARRAY'',
      ''TYPE_STRING_ARRAY'', ''TYPE_NVLIST_ARRAY'', ''TYPE_DESCRIPTOR_ARRAY'', ''FLAG_IGNORE_CASE'',
      ''FLAG_NO_UNIQUE''])"

end
