(* ===== verification/Resources.thy ===== *)
theory Resources
  imports Utils
begin

text \<open>
  What a function does to the outside: computations that make no external call, and the memory that a
  function allocates. \<open>releases E b S m\<close> says that \<open>m\<close>, started while the blocks \<open>S\<close> are held on top of a
  balance \<open>b\<close>, has freed each of them, and each it allocates itself, exactly once when it ends, with a
  value or with an error.
\<close>

section \<open>Parts of the world that a computation leaves alone\<close>

definition leaves :: "(world \<Rightarrow> 'x) \<Rightarrow> 'a lua \<Rightarrow> bool" where
  "leaves get m \<longleftrightarrow> (\<forall>w. get (snd (m w)) = get w)"

named_theorems leaves_rules \<open>computations that leave a part of the world alone\<close>

lemma leavesI: "(\<And>w. get (snd (m w)) = get w) \<Longrightarrow> leaves get m"
  by (simp add: leaves_def)

lemma leavesD: "leaves get m \<Longrightarrow> get (snd (m w)) = get w"
  by (simp add: leaves_def)

lemma leaves_ret [leaves_rules]: "leaves get (ret a)"
  by (rule leavesI) simp

lemma leaves_throw [leaves_rules]: "leaves get (throw e)"
  by (rule leavesI) simp

lemma leaves_lbind [leaves_rules]: "leaves get m \<Longrightarrow> (\<And>a. leaves get (f a)) \<Longrightarrow> leaves get (lbind m f)"
  by (auto simp: leaves_def lbind_def split: prod.splits sum.splits) (metis snd_conv)+

lemma leaves_seq [leaves_rules]: "leaves get m \<Longrightarrow> leaves get k \<Longrightarrow> leaves get (seq m k)"
  by (simp add: seq_def leaves_lbind)

lemma leaves_if [leaves_rules]: "leaves get m \<Longrightarrow> leaves get k \<Longrightarrow> leaves get (if b then m else k)"
  by simp

lemma leaves_Let [leaves_rules]: "leaves get (f x) \<Longrightarrow> leaves get (Let x f)"
  by simp

lemma leaves_case_prod [leaves_rules]: "(\<And>x y. leaves get (f x y)) \<Longrightarrow> leaves get (case v of (x, y) \<Rightarrow> f x y)"
  by (simp split: prod.split)

lemma leaves_askst [leaves_rules]: "leaves get (askst L f)"
  by (rule leavesI) (simp add: askst_def split: option.split)

lemma leaves_with_tab [leaves_rules]: "(\<And>s t tb. leaves get (f s t tb)) \<Longrightarrow> leaves get (with_tab L i f)"
  by (rule leavesI) (simp add: with_tab_def leavesD split: option.split)

lemma leaves_upd:
  "leaves get m \<Longrightarrow> (\<And>w. get (g w) = get w) \<Longrightarrow> leaves get (\<lambda>w. m (g w))"
  by (simp add: leaves_def)

text \<open>
  Most functions of the API of Lua change stacks only. A part of the world that does not depend on these is
  not changed by them.
\<close>

locale stack_frame =
  fixes get :: "world \<Rightarrow> 'x"
  assumes stacks_upd: "get (w\<lparr>stacks := a\<rparr>) = get w"
begin

lemma setst_upd: "get (setst L s w) = get w"
  by (simp add: setst_def stacks_upd)

lemma leaves_modst [leaves_rules]: "leaves get (modst L f)"
  by (rule leavesI) (simp add: modst_def setst_upd split: option.split)

lemma leaves_stack [leaves_rules]:
  "leaves get (lua_push L v)" "leaves get (lua_pop L n)" "leaves get (lua_settop L n)"
  "leaves get (lua_replace L i)" "leaves get (lua_pushvalue L i)" "leaves get (lua_insert L i)"
  "leaves get (lua_remove L i)"
  by (simp_all add: lua_push_def lua_pop_def lua_settop_def lua_replace_def lua_pushvalue_def
      lua_insert_def lua_remove_def leaves_modst)

lemma leaves_reads [leaves_rules]:
  "leaves get (lua_gettop L)" "leaves get (lua_absindex L i)" "leaves get (lua_type L i)"
  "leaves get (lua_toboolean L i)" "leaves get (lua_tointeger E L i)" "leaves get (lua_isinteger L i)"
  "leaves get (lua_tolight L i)" "leaves get (lua_rawequal L i j)" "leaves get (lua_isuserdata L i)"
  by (simp_all add: lua_gettop_def lua_absindex_def lua_type_def lua_toboolean_def lua_tointeger_def
      lua_isinteger_def lua_tolight_def lua_rawequal_def lua_isuserdata_def leaves_rules)

lemma leaves_tables [leaves_rules]: "leaves get (lua_rawgeti L i n)" "leaves get (lua_getfield L i k)"
  by (simp_all add: lua_rawgeti_def lua_getfield_def leaves_rules)

lemma leaves_threads [leaves_rules]:
  "leaves get (lua_tothread L i)" "leaves get (lua_pushthread L)" "leaves get (lua_xmove l L n)"
  by (simp_all add: lua_tothread_def lua_pushthread_def lua_xmove_def leaves_rules)

lemma leaves_read_userdata [leaves_rules]:
  "leaves get (lua_getiuservalue L i n)" "leaves get (luaL_checkudata L i m)" "leaves get (lua_getmetatable E L i)"
  "leaves get (luaL_testudata L i m)" "leaves get (get_blk u)"
  by (rule leavesI; simp add: Let_def lua_getiuservalue_def luaL_checkudata_def lua_getmetatable_def luaL_testudata_def
      get_blk_def leavesD [OF leaves_seq [OF leaves_stack(1) leaves_ret]] split: option.split)+

lemma leaves_checks [leaves_rules]:
  "leaves get (luaL_argcheck b i msg)" "leaves get (luaL_checktype L i t)" "leaves get (luaL_error L msg)"
  "leaves get (luaL_argerror L i msg)" "leaves get (luaL_typeerror L i msg)"
  by (simp_all add: luaL_argcheck_def luaL_checktype_def luaL_error_def luaL_argerror_def luaL_typeerror_def
      leaves_rules)

lemma leaves_checkinteger [leaves_rules]: "leaves get (luaL_checkinteger E L i)"
  unfolding luaL_checkinteger_def
  by (rule leaves_lbind [OF leaves_askst]) (simp add: leaves_rules split: option.split)

lemma leaves_checklstring [leaves_rules]: "leaves get (luaL_checklstring E L i)"
  unfolding luaL_checklstring_def
  by (rule leaves_lbind [OF leaves_askst]) (simp add: leaves_rules Let_def split: option.split lval.split)

lemma leaves_len [leaves_rules]: "leaves get (luaL_len E L i)"
  unfolding luaL_len_def
  by (rule leaves_lbind [OF leaves_askst]) (simp add: leaves_rules split: option.split lval.split)

lemma leaves_tolstring [leaves_rules]: "leaves get (lua_tolstring E L i)"
  unfolding lua_tolstring_def
  by (rule leaves_lbind [OF leaves_askst]) (simp add: leaves_rules Let_def split: option.split lval.split)

lemma leaves_results [leaves_rules]:
  "leaves get (success L)" "leaves get (fail E L e)" "leaves get (fatal E L f e)"
  by (simp_all add: success_def fail_def fatal_def leaves_rules)

lemma leaves_derived [leaves_rules]:
  "leaves get (luaL_optinteger E L i d)" "leaves get (luaL_checkstring E L i)" "leaves get (lua_tostring E L i)"
  "leaves get (luaL_optstring E L i)" "leaves get (getcookie L i)" "leaves get (getref L i)"
  by (simp_all add: luaL_optinteger_def luaL_checkstring_def lua_tostring_def luaL_optstring_def
      getcookie_def getref_def leaves_rules)

lemma leaves_checkcookies [leaves_rules]:
  "leaves get (checkcookienull L i m)" "leaves get (checkcookie L i m)" "leaves get (checkcookieuv L i m)"
  "leaves get (checklightuserdata L i)" "leaves get (testcookie E L i m)"
  by (simp_all add: checkcookienull_def checkcookie_def checkcookieuv_def
      checklightuserdata_def testcookie_def leaves_rules)

end

text \<open>Others change tables and userdata too, or make new objects.\<close>

locale lua_frame = stack_frame +
  assumes tabs_upd: "get (w\<lparr>tabs := b\<rparr>) = get w"
    and uds_upd: "get (w\<lparr>uds := c\<rparr>) = get w"
    and fresh_upd: "get (w\<lparr>fresh := d\<rparr>) = get w"
begin

lemmas upds = stacks_upd tabs_upd uds_upd fresh_upd

lemma leaves_rawseti [leaves_rules]: "leaves get (lua_rawseti L i n)"
  unfolding lua_rawseti_def by (intro leaves_rules leaves_upd) (simp_all add: upds)

lemma leaves_setfield [leaves_rules]: "leaves get (lua_setfield L i k)"
  unfolding lua_setfield_def by (intro leaves_rules leaves_upd) (simp_all add: upds)

lemma leaves_rawset [leaves_rules]: "leaves get (lua_rawset L i)"
  unfolding lua_rawset_def
  by (rule leaves_with_tab, rule leavesI) (simp add: leavesD [OF leaves_stack(2)] upds split: option.split lval.split)

lemma leaves_createtable [leaves_rules]: "leaves get (lua_createtable L)"
  by (rule leavesI) (simp add: lua_createtable_def leavesD [OF leaves_stack(1)] upds)

lemma leaves_userdata [leaves_rules]:
  "leaves get (lua_newuserdatauv L n)" "leaves get (luaL_setmetatable L m)" "leaves get (lua_setiuservalue L i n)"
  "leaves get (set_blk u j)"
  by (rule leavesI; simp add: lua_newuserdatauv_def luaL_setmetatable_def lua_setiuservalue_def Let_def
      set_blk_def upds leavesD [OF leaves_seq [OF leaves_stack(1) leaves_ret]] leavesD [OF leaves_stack(2)]
      split: option.split)+

lemma leaves_setters [leaves_rules]: "leaves get (setcookie L i p)" "leaves get (setref L i j)"
  by (simp_all add: setcookie_def setref_def leaves_rules)

lemma leaves_wrappers [leaves_rules]: "leaves get (new L p m)" "leaves get (newref L i p m)"
  by (simp_all add: new_def newref_def leaves_rules)

end

interpretation trace_frame: lua_frame trace
  by unfold_locales simp_all

interpretation uds_frame: stack_frame uds
  by unfold_locales simp_all

lemma leaves_uds_ccall [leaves_rules]: "leaves uds (ccall E f as)"
  by (rule leavesI) (simp add: ccall_run)

text \<open>The requests of \<^verbatim>\<open>aio\<close> are not changed by external calls either.\<close>

interpretation cbs_frame: lua_frame cbs
  by unfold_locales simp_all

lemma leaves_cbs_ccall [leaves_rules]: "leaves cbs (ccall E f as)"
  by (rule leavesI) (simp add: ccall_run)

lemma leaves_cbs_ccall_rc [leaves_rules]: "leaves cbs (ccall_rc E f as)"
  by (rule leavesI) (simp add: ccall_rc_run)

lemma leaves_cbs_checkfd [leaves_rules]: "leaves cbs (checkfd E L i)"
  by (simp add: checkfd_def leaves_rules)

section \<open>Computations without external calls\<close>

abbreviation quiet :: "'a lua \<Rightarrow> bool" where
  "quiet \<equiv> leaves trace"

lemmas quietI = leavesI [where get = trace]
lemmas quietD = leavesD [where get = trace]

section \<open>Computations that only undefined behaviour can stop\<close>

definition sure :: "'a lua \<Rightarrow> bool" where
  "sure m \<longleftrightarrow> quiet m \<and> (\<forall>w e. fst (m w) = Inl e \<longrightarrow> e = Undef)"

named_theorems sure_rules \<open>computations that only undefined behaviour can stop\<close>

lemma sureI: "quiet m \<Longrightarrow> (\<And>w e. fst (m w) = Inl e \<Longrightarrow> e = Undef) \<Longrightarrow> sure m"
  by (simp add: sure_def)

lemma sure_quiet: "sure m \<Longrightarrow> quiet m"
  by (simp add: sure_def)

lemma sure_ret [sure_rules]: "sure (ret a)"
  by (rule sureI) (simp_all add: leaves_rules)

lemma sure_lbind [sure_rules]:
  assumes m: "sure m" and f: "\<And>a. sure (f a)"
  shows "sure (lbind m f)"
proof (rule sureI)
  show "quiet (lbind m f)"
    using m f by (simp add: sure_def leaves_lbind)
  fix w e assume e: "fst (lbind m f w) = Inl e"
  obtain r w' where run: "m w = (r, w')" by (cases "m w")
  show "e = Undef"
  proof (cases r)
    case (Inl d)
    then have "fst (m w) = Inl d" and "d = e" using run e by (simp_all add: lbind_def)
    with m show ?thesis by (simp add: sure_def)
  next
    case (Inr x)
    then have "fst (f x w') = Inl e" using run e by (simp add: lbind_def)
    with f [of x] show ?thesis unfolding sure_def by blast
  qed
qed

lemma sure_seq [sure_rules]: "sure m \<Longrightarrow> sure k \<Longrightarrow> sure (seq m k)"
  by (simp add: seq_def sure_lbind)

lemma sure_if [sure_rules]: "sure m \<Longrightarrow> sure k \<Longrightarrow> sure (if b then m else k)"
  by simp

lemma sure_askst [sure_rules]: "sure (askst L f)"
  by (rule sureI [OF leaves_askst]) (simp add: askst_def split: option.splits)

lemma sure_modst [sure_rules]: "sure (modst L f)"
  by (rule sureI [OF trace_frame.leaves_modst]) (simp add: modst_def split: option.splits)

lemma sure_with_tab [sure_rules]: "(\<And>s t tb. sure (f s t tb)) \<Longrightarrow> sure (with_tab L i f)"
  by (rule sureI [OF leaves_with_tab]) (auto simp: sure_def with_tab_def split: option.splits)

lemma sure_push [sure_rules]: "sure (lua_push L v)"
  by (simp add: lua_push_def sure_rules)

lemma sure_pop [sure_rules]: "sure (lua_pop L n)"
  by (simp add: lua_pop_def sure_rules)

lemma sure_reads [sure_rules]:
  "sure (lua_gettop L)" "sure (lua_absindex L i)" "sure (lua_type L i)" "sure (lua_toboolean L i)"
  "sure (lua_tointeger E L i)" "sure (lua_tolight L i)" "sure (lua_isinteger L i)"
  "sure (lua_replace L i)" "sure (lua_pushvalue L i)" "sure (lua_rawgeti L i n)"
  by (simp_all add: lua_gettop_def lua_absindex_def lua_type_def lua_toboolean_def lua_tointeger_def
      lua_tolight_def lua_isinteger_def lua_replace_def lua_pushvalue_def lua_rawgeti_def sure_rules)

lemma sure_rawseti [sure_rules]: "sure (lua_rawseti L i n)"
  by (rule sureI [OF trace_frame.leaves_rawseti])
    (auto simp: lua_rawseti_def with_tab_def lua_pop_def modst_def split: option.splits if_splits)

lemma sure_createtable [sure_rules]: "sure (lua_createtable L)"
  by (rule sureI [OF trace_frame.leaves_createtable])
    (auto simp: lua_createtable_def lua_push_def modst_def split: option.splits)

lemma sure_results [sure_rules]: "sure (success L)" "sure (fail E L e)"
  by (simp_all add: success_def fail_def sure_rules)

lemma sure_tolstring [sure_rules]: "sure (lua_tolstring E L i)"
  unfolding lua_tolstring_def
  by (rule sure_lbind [OF sure_askst]) (simp add: sure_rules Let_def split: option.split lval.split)

lemma sure_tostring [sure_rules]: "sure (lua_tostring E L i)"
  by (simp add: lua_tostring_def sure_rules)

text \<open>What comes after an error is not reached.\<close>

lemma error_bind:
  "lbind (luaL_error L msg) f = luaL_error L msg"
  "lbind (luaL_argerror L i msg) f = luaL_argerror L i msg"
  "lbind (luaL_typeerror L i msg) f = luaL_typeerror L i msg"
  "lbind (fatal E L file e) f = fatal E L file e"
  by (simp_all add: luaL_error_def luaL_argerror_def luaL_typeerror_def fatal_def seq_def lbind_assoc)

section \<open>The balance of the heap\<close>

text \<open>How often a block was allocated, less how often it was freed. \<^verbatim>\<open>NULL\<close> is no block.\<close>

fun balance :: "env \<Rightarrow> int \<Rightarrow> ecall list \<Rightarrow> int" where
  "balance E p [] = 0"
| "balance E p (c # tr) = balance E p tr
     + (if (fst c = ''malloc'' \<or> fst c = ''calloc'' \<or> fst c = ''strdup'') \<and> rc (reply E tr c) = p then 1
        else if c = (''free'', [AInt p]) then -1 else 0)"

definition holds :: "env \<Rightarrow> (int \<Rightarrow> int) \<Rightarrow> int list \<Rightarrow> ecall list \<Rightarrow> bool" where
  "holds E b S tr \<longleftrightarrow> (\<forall>p. p \<noteq> 0 \<longrightarrow> balance E p tr = b p + int (count_list S p))"

definition releases :: "env \<Rightarrow> (int \<Rightarrow> int) \<Rightarrow> int list \<Rightarrow> 'a lua \<Rightarrow> bool" where
  "releases E b S m \<longleftrightarrow> (\<forall>w. holds E b S (trace w) \<longrightarrow>
     fst (m w) = Inl Undef \<or> holds E b [] (trace (snd (m w))))"

named_theorems releases_rules \<open>everything allocated is freed once\<close>

text \<open>A function that releases all it allocates leaves the balance of every block as it was.\<close>

lemma releases_balance:
  assumes "\<And>b. releases E b [] m" and "p \<noteq> 0" and "fst (m w) \<noteq> Inl Undef"
  shows "balance E p (trace (snd (m w))) = balance E p (trace w)"
proof -
  have "holds E (\<lambda>p. balance E p (trace w)) [] (trace w)"
    by (simp add: holds_def)
  with assms show ?thesis
    unfolding releases_def holds_def by fastforce
qed

lemma releases_quiet: "quiet m \<Longrightarrow> releases E b [] m"
  by (simp add: releases_def leaves_def)

lemma releases_lbind:
  assumes "\<And>w. holds E b S (trace w) \<Longrightarrow>
      (case m w of (Inl e, w') \<Rightarrow> e = Undef \<or> holds E b [] (trace w') | (Inr a, w') \<Rightarrow> holds E b (S' a) (trace w'))"
    and "\<And>a. releases E b (S' a) (f a)"
  shows "releases E b S (lbind m f)"
  unfolding releases_def
proof (intro allI impI)
  fix w :: world assume "holds E b S (trace w)"
  from assms(1) [OF this] assms(2)
  show "fst (lbind m f w) = Inl Undef \<or> holds E b [] (trace (snd (lbind m f w)))"
    by (cases "m w"; cases "fst (m w)") (auto simp: lbind_def releases_def)
qed

lemma releases_lbind_quiet:
  assumes "quiet m" and "\<And>a. releases E b [] (f a)"
  shows "releases E b [] (lbind m f)"
proof (rule releases_lbind [where S' = "\<lambda>_. []"])
  fix w :: world assume "holds E b [] (trace w)"
  with quietD [OF assms(1), of w]
  show "case m w of (Inl e, w') \<Rightarrow> e = Undef \<or> holds E b [] (trace w') | (Inr a, w') \<Rightarrow> holds E b [] (trace w')"
    by (auto split: prod.splits sum.splits)
qed (rule assms(2))

lemma releases_lbind_sure:
  assumes "sure m" and "\<And>a. releases E b S (f a)"
  shows "releases E b S (lbind m f)"
proof (rule releases_lbind [where S' = "\<lambda>_. S"])
  fix w :: world assume "holds E b S (trace w)"
  with quietD [OF sure_quiet [OF assms(1)], of w] assms(1)
  show "case m w of (Inl e, w') \<Rightarrow> e = Undef \<or> holds E b [] (trace w') | (Inr a, w') \<Rightarrow> holds E b S (trace w')"
    by (auto simp: sure_def split: prod.splits sum.splits) (metis fst_conv)
qed (rule assms(2))

lemma releases_if [releases_rules]:
  "(c \<Longrightarrow> releases E b S m) \<Longrightarrow> (\<not> c \<Longrightarrow> releases E b S k) \<Longrightarrow> releases E b S (if c then m else k)"
  by simp

lemma releases_seq [releases_rules]: "releases E b S (lbind m (\<lambda>_. k)) \<Longrightarrow> releases E b S (seq m k)"
  by (simp add: seq_def)

lemma releases_alloc [releases_rules]:
  assumes "g = ''malloc'' \<or> g = ''calloc'' \<or> g = ''strdup''"
    and "releases E b S (f 0)" and "\<And>p. p \<noteq> 0 \<Longrightarrow> releases E b (p # S) (f p)"
  shows "releases E b S (lbind (ccall_rc E g as) f)"
proof -
  have "releases E b (if p = 0 then S else p # S) (f p)" for p
    using assms(2,3) by simp
  moreover have "holds E b (if rc (reply E tr (g, as)) = 0 then S else rc (reply E tr (g, as)) # S) ((g, as) # tr)"
    if "holds E b S tr" for tr
    using that assms(1) by (auto simp: holds_def)
  ultimately show ?thesis
    by (intro releases_lbind [where S' = "\<lambda>p. if p = 0 then S else p # S"])
      (simp_all add: ccall_rc_run)
qed

lemma releases_free [releases_rules]:
  assumes "p = 0 \<or> p \<in> set S" and "\<And>r. releases E b (remove1 p S) (f r)"
  shows "releases E b S (lbind (ccall E ''free'' [AInt p]) f)"
proof (rule releases_lbind [where S' = "\<lambda>_. remove1 p S"])
  have "int (count_list (remove1 p S) q) = int (count_list S q) - (if q = p \<and> p \<in> set S then 1 else 0)" for q
    by (induction S) auto
  then show "case ccall E ''free'' [AInt p] w of (Inl e, w') \<Rightarrow> e = Undef \<or> holds E b [] (trace w')
      | (Inr a, w') \<Rightarrow> holds E b (remove1 p S) (trace w')" if "holds E b S (trace w)" for w
    using that assms(1) by (auto simp: ccall_run holds_def)
qed (rule assms(2))

lemma releases_call [releases_rules]:
  assumes "g \<noteq> ''malloc''" and "g \<noteq> ''calloc''" and "g \<noteq> ''strdup''" and "g \<noteq> ''free''" and "\<And>r. releases E b S (f r)"
  shows "releases E b S (lbind (ccall E g as) f)"
  using assms by (auto intro!: releases_lbind [where S' = "\<lambda>_. S"] simp: ccall_run holds_def)

lemma releases_call_rc [releases_rules]:
  assumes "g \<noteq> ''malloc''" and "g \<noteq> ''calloc''" and "g \<noteq> ''strdup''" and "g \<noteq> ''free''" and "\<And>i. releases E b S (f i)"
  shows "releases E b S (lbind (ccall_rc E g as) f)"
  using assms by (auto intro!: releases_lbind [where S' = "\<lambda>_. S"] simp: ccall_rc_run holds_def)

text \<open>The order of the blocks held, and \<^verbatim>\<open>NULL\<close> among them, do not matter.\<close>

lemma releases_cong:
  assumes "\<And>p. p \<noteq> 0 \<Longrightarrow> count_list S p = count_list S' p" and "releases E b S m"
  shows "releases E b S' m"
  using assms by (simp add: releases_def holds_def)

lemma count_list_update_zero:
  "i < length xs \<Longrightarrow> xs ! i = 0 \<Longrightarrow> q \<noteq> 0 \<Longrightarrow>
   count_list (xs[i := p]) q = count_list xs q + (if q = (p :: int) then 1 else 0)"
  by (induction xs arbitrary: i) (auto split: nat.splits simp: nth_Cons')

lemma lbind_if: "lbind (if c then m else k) f = (if c then lbind m f else lbind k f)"
  by simp

text \<open>
  An error, or a computation without calls at the end, is fine once nothing is held; with
  something held, only what cannot fail may come before it is freed.
\<close>

lemmas releases_simps =
  releases_rules releases_quiet releases_lbind_quiet releases_lbind_sure seq_def lbind_assoc lbind_if Let_def
  error_bind leaves_rules sure_rules

end
