(* ===== verification/Nv_Guard.thy ===== *)
theory Nv_Guard
  imports Nv_Const Resources
begin

text \<open>
  libnv aborts the program when a value is read, taken or freed under a name that the list does not
  have with that type, or through a cookie of another type (\<^verbatim>\<open>nv(9)\<close>, \<^verbatim>\<open>cnv(9)\<close>). This theory shows that the
  module never makes such a call without having asked the library first: in the sequence of calls of
  every function of the module, each of these calls is preceded by the query that allows it, with a
  positive answer, and by nothing after it that could change a list.
\<close>

section \<open>Guarded call sequences\<close>

text \<open>The type of the functions that abort, from their names.\<close>

fun strip :: "string \<Rightarrow> string \<Rightarrow> string option" where
  "strip [] s = Some s"
| "strip (c # p) [] = None"
| "strip (c # p) (d # s) = (if c = d then strip p s else None)"

fun type_after :: "string list \<Rightarrow> string \<Rightarrow> string option" where
  "type_after [] f = None"
| "type_after (p # ps) f =
     (case strip p f of Some t \<Rightarrow> map_of NVLIST_TYPES_NULL t | None \<Rightarrow> type_after ps f)"

definition named_type :: "string \<Rightarrow> string option" where
  "named_type = type_after [''nvlist_get_'', ''nvlist_take_'', ''nvlist_append_'', ''nvlist_free_'']"

definition cookie_type :: "string \<Rightarrow> string option" where
  "cookie_type = type_after [''cnvlist_get_'', ''cnvlist_take_'', ''cnvlist_free_'']"

text \<open>The query that a call needs, and the answers that allow it.\<close>

definition needs :: "env \<Rightarrow> ecall \<Rightarrow> (ecall \<times> (int \<Rightarrow> bool)) option" where
  "needs E c =
     (if fst c = ''nvlist_free'' then Some ((''nvlist_exists'', snd c), \<lambda>a. a \<noteq> 0)
      else if fst c = ''nvlist_free_type'' then Some ((''nvlist_exists_type'', snd c), \<lambda>a. a \<noteq> 0)
      else (case named_type (fst c) of
        Some T \<Rightarrow> Some ((''nvlist_exists_type'', take 2 (snd c) @ [AInt (const E T)]), \<lambda>a. a \<noteq> 0)
      | None \<Rightarrow> (case cookie_type (fst c) of
        Some T \<Rightarrow> Some ((''cnvlist_type'', take 1 (snd c)), \<lambda>a. a = const E T)
      | None \<Rightarrow> None)))"

text \<open>The query was made last, but for calls that only ask a list for its error.\<close>

fun answered :: "env \<Rightarrow> ecall \<times> (int \<Rightarrow> bool) \<Rightarrow> ecall list \<Rightarrow> bool" where
  "answered E q [] = False"
| "answered E q (c # tr) =
     (c = fst q \<and> snd q (rc (reply E tr c)) \<or> fst c = ''nvlist_error'' \<and> answered E q tr)"

fun guarded :: "env \<Rightarrow> ecall list \<Rightarrow> bool" where
  "guarded E [] = True"
| "guarded E (c # tr) =
     (guarded E tr \<and> (case needs E c of None \<Rightarrow> True | Some q \<Rightarrow> answered E q tr))"

section \<open>Rules\<close>

lemma quiet_nv [leaves_rules]:
  "quiet (getnvlist E L i m)" "quiet (getanynvlist E L i)" "quiet (isnoneornil L i)"
  "quiet (push_string L r)"
  by (simp_all add: getnvlist_def getanynvlist_def isnoneornil_def push_string_def leaves_rules)

lemma quiet_items [leaves_rules]:
  "quiet (push_bool_item L r i)" "quiet (push_number_item L r i)" "quiet (push_string_item L r i)"
  "quiet (push_descriptor_item L r i)" "quiet (push_const_item L r i)" "quiet (push_nvlist_item L r i)"
  "quiet (push_double_item L r i)"
  by (simp_all add: push_bool_item_def push_number_item_def push_string_item_def
      push_descriptor_item_def push_const_item_def push_nvlist_item_def push_double_item_def leaves_rules)

lemma quiet_push_array [leaves_rules]: "(\<And>i. quiet (push i)) \<Longrightarrow> quiet (push_array L push i k)"
  by (induction k arbitrary: i) (simp_all add: leaves_rules)

lemma quiet_push_table [leaves_rules]: "(\<And>i. quiet (push i)) \<Longrightarrow> quiet (push_table L push r)"
  by (simp add: push_table_def leaves_rules)

lemma quiet_read_array [leaves_rules]: "quiet rd \<Longrightarrow> quiet (read_array L rd i k)"
  by (induction k arbitrary: i) (simp_all add: leaves_rules)

text \<open>
  \<open>safe E P m\<close>: from a guarded sequence that satisfies \<open>P\<close> the computation goes to a guarded one.
\<close>

definition safe :: "env \<Rightarrow> (ecall list \<Rightarrow> bool) \<Rightarrow> 'a lua \<Rightarrow> bool" where
  "safe E P m \<longleftrightarrow> (\<forall>w. guarded E (trace w) \<longrightarrow> P (trace w) \<longrightarrow> guarded E (trace (snd (m w))))"

abbreviation anything :: "ecall list \<Rightarrow> bool" where
  "anything \<equiv> \<lambda>_. True"

named_theorems safe_rules \<open>guarded call sequences\<close>

lemma safe_keeps: "safe E anything m \<longleftrightarrow> keeps (\<lambda>w. guarded E (trace w)) m"
  by (simp add: safe_def keeps_def)

lemma safe_quiet: "quiet m \<Longrightarrow> safe E P m"
  by (simp add: safe_def leaves_def)

lemma safe_lbind_quiet:
  assumes "quiet m" and "\<And>a. safe E P (f a)"
  shows "safe E P (lbind m f)"
  unfolding safe_def
proof (intro allI impI)
  fix w :: world assume "guarded E (trace w)" "P (trace w)"
  with assms quietD [OF assms(1), of w] show "guarded E (trace (snd (lbind m f w)))"
    by (cases "m w"; cases "fst (m w)") (auto simp: lbind_def safe_def)
qed

lemma safe_seq: "safe E P (lbind m (\<lambda>_. k)) \<Longrightarrow> safe E P (seq m k)"
  by (simp add: seq_def)

lemma safe_if [safe_rules]: "safe E P m \<Longrightarrow> safe E P k \<Longrightarrow> safe E P (if b then m else k)"
  by simp

lemma safe_lbind_if: "safe E P (lbind m f) \<Longrightarrow> safe E P (lbind k f) \<Longrightarrow> safe E P (lbind (if b then m else k) f)"
  by simp

lemma safe_case_prod [safe_rules]: "(\<And>x y. safe E P (f x y)) \<Longrightarrow> safe E P (case v of (x, y) \<Rightarrow> f x y)"
  by (cases v) simp

text \<open>A call that needs nothing forgets what was known before it.\<close>

lemma safe_plain_call:
  assumes "needs E (g, as) = None" and "\<And>r. safe E anything (f r)"
  shows "safe E P (lbind (ccall E g as) f)"
  using assms by (simp add: safe_def lbind_def ccall_def)

text \<open>A call that needs a query that was just answered.\<close>

lemma safe_guarded_call:
  assumes "needs E (g, as) = Some q" and "\<And>r. safe E anything (f r)"
  shows "safe E (answered E q) (lbind (ccall E g as) f)"
  using assms by (simp add: safe_def lbind_def ccall_def)

lemma ccall_rc_ccall: "lbind (ccall_rc E g as) f = lbind (ccall E g as) (\<lambda>r. f (rc r))"
  by (simp add: ccall_rc_def lbind_assoc)

text \<open>The query of every function, computed once.\<close>

lemma needs_get [safe_rules]:
  "needs E (''nvlist_get_bool'', p # n # as) = Some ((''nvlist_exists_type'', [p, n, AInt (const E ''NV_TYPE_BOOL'')]), \<lambda>a. a \<noteq> 0)"
  "needs E (''nvlist_get_number'', p # n # as) = Some ((''nvlist_exists_type'', [p, n, AInt (const E ''NV_TYPE_NUMBER'')]), \<lambda>a. a \<noteq> 0)"
  "needs E (''nvlist_get_string'', p # n # as) = Some ((''nvlist_exists_type'', [p, n, AInt (const E ''NV_TYPE_STRING'')]), \<lambda>a. a \<noteq> 0)"
  "needs E (''nvlist_get_nvlist'', p # n # as) = Some ((''nvlist_exists_type'', [p, n, AInt (const E ''NV_TYPE_NVLIST'')]), \<lambda>a. a \<noteq> 0)"
  "needs E (''nvlist_get_binary'', p # n # as) = Some ((''nvlist_exists_type'', [p, n, AInt (const E ''NV_TYPE_BINARY'')]), \<lambda>a. a \<noteq> 0)"
  "needs E (''nvlist_get_bool_array'', p # n # as) = Some ((''nvlist_exists_type'', [p, n, AInt (const E ''NV_TYPE_BOOL_ARRAY'')]), \<lambda>a. a \<noteq> 0)"
  "needs E (''nvlist_get_number_array'', p # n # as) = Some ((''nvlist_exists_type'', [p, n, AInt (const E ''NV_TYPE_NUMBER_ARRAY'')]), \<lambda>a. a \<noteq> 0)"
  "needs E (''nvlist_get_string_array'', p # n # as) = Some ((''nvlist_exists_type'', [p, n, AInt (const E ''NV_TYPE_STRING_ARRAY'')]), \<lambda>a. a \<noteq> 0)"
  "needs E (''nvlist_get_nvlist_array'', p # n # as) = Some ((''nvlist_exists_type'', [p, n, AInt (const E ''NV_TYPE_NVLIST_ARRAY'')]), \<lambda>a. a \<noteq> 0)"
  "needs E (''nvlist_get_descriptor'', p # n # as) = Some ((''nvlist_exists_type'', [p, n, AInt (const E ''NV_TYPE_DESCRIPTOR'')]), \<lambda>a. a \<noteq> 0)"
  "needs E (''nvlist_get_descriptor_array'', p # n # as) = Some ((''nvlist_exists_type'', [p, n, AInt (const E ''NV_TYPE_DESCRIPTOR_ARRAY'')]), \<lambda>a. a \<noteq> 0)"
  by (simp_all add: needs_def named_type_def cookie_type_def NVLIST_TYPES_def NVLIST_TYPES_NULL_def)

lemma needs_take [safe_rules]:
  "needs E (''nvlist_take_bool'', p # n # as) = Some ((''nvlist_exists_type'', [p, n, AInt (const E ''NV_TYPE_BOOL'')]), \<lambda>a. a \<noteq> 0)"
  "needs E (''nvlist_take_number'', p # n # as) = Some ((''nvlist_exists_type'', [p, n, AInt (const E ''NV_TYPE_NUMBER'')]), \<lambda>a. a \<noteq> 0)"
  "needs E (''nvlist_take_string'', p # n # as) = Some ((''nvlist_exists_type'', [p, n, AInt (const E ''NV_TYPE_STRING'')]), \<lambda>a. a \<noteq> 0)"
  "needs E (''nvlist_take_nvlist'', p # n # as) = Some ((''nvlist_exists_type'', [p, n, AInt (const E ''NV_TYPE_NVLIST'')]), \<lambda>a. a \<noteq> 0)"
  "needs E (''nvlist_take_binary'', p # n # as) = Some ((''nvlist_exists_type'', [p, n, AInt (const E ''NV_TYPE_BINARY'')]), \<lambda>a. a \<noteq> 0)"
  "needs E (''nvlist_take_bool_array'', p # n # as) = Some ((''nvlist_exists_type'', [p, n, AInt (const E ''NV_TYPE_BOOL_ARRAY'')]), \<lambda>a. a \<noteq> 0)"
  "needs E (''nvlist_take_number_array'', p # n # as) = Some ((''nvlist_exists_type'', [p, n, AInt (const E ''NV_TYPE_NUMBER_ARRAY'')]), \<lambda>a. a \<noteq> 0)"
  "needs E (''nvlist_take_string_array'', p # n # as) = Some ((''nvlist_exists_type'', [p, n, AInt (const E ''NV_TYPE_STRING_ARRAY'')]), \<lambda>a. a \<noteq> 0)"
  "needs E (''nvlist_take_nvlist_array'', p # n # as) = Some ((''nvlist_exists_type'', [p, n, AInt (const E ''NV_TYPE_NVLIST_ARRAY'')]), \<lambda>a. a \<noteq> 0)"
  "needs E (''nvlist_take_descriptor'', p # n # as) = Some ((''nvlist_exists_type'', [p, n, AInt (const E ''NV_TYPE_DESCRIPTOR'')]), \<lambda>a. a \<noteq> 0)"
  "needs E (''nvlist_take_descriptor_array'', p # n # as) = Some ((''nvlist_exists_type'', [p, n, AInt (const E ''NV_TYPE_DESCRIPTOR_ARRAY'')]), \<lambda>a. a \<noteq> 0)"
  by (simp_all add: needs_def named_type_def cookie_type_def NVLIST_TYPES_def NVLIST_TYPES_NULL_def)

lemma needs_append [safe_rules]:
  "needs E (''nvlist_append_bool_array'', p # n # as) = Some ((''nvlist_exists_type'', [p, n, AInt (const E ''NV_TYPE_BOOL_ARRAY'')]), \<lambda>a. a \<noteq> 0)"
  "needs E (''nvlist_append_number_array'', p # n # as) = Some ((''nvlist_exists_type'', [p, n, AInt (const E ''NV_TYPE_NUMBER_ARRAY'')]), \<lambda>a. a \<noteq> 0)"
  "needs E (''nvlist_append_string_array'', p # n # as) = Some ((''nvlist_exists_type'', [p, n, AInt (const E ''NV_TYPE_STRING_ARRAY'')]), \<lambda>a. a \<noteq> 0)"
  "needs E (''nvlist_append_nvlist_array'', p # n # as) = Some ((''nvlist_exists_type'', [p, n, AInt (const E ''NV_TYPE_NVLIST_ARRAY'')]), \<lambda>a. a \<noteq> 0)"
  "needs E (''nvlist_append_descriptor_array'', p # n # as) = Some ((''nvlist_exists_type'', [p, n, AInt (const E ''NV_TYPE_DESCRIPTOR_ARRAY'')]), \<lambda>a. a \<noteq> 0)"
  by (simp_all add: needs_def named_type_def cookie_type_def NVLIST_TYPES_def NVLIST_TYPES_NULL_def)

lemma needs_free [safe_rules]:
  "needs E (''nvlist_free_null'', p # n # as) = Some ((''nvlist_exists_type'', [p, n, AInt (const E ''NV_TYPE_NULL'')]), \<lambda>a. a \<noteq> 0)"
  "needs E (''nvlist_free_bool'', p # n # as) = Some ((''nvlist_exists_type'', [p, n, AInt (const E ''NV_TYPE_BOOL'')]), \<lambda>a. a \<noteq> 0)"
  "needs E (''nvlist_free_number'', p # n # as) = Some ((''nvlist_exists_type'', [p, n, AInt (const E ''NV_TYPE_NUMBER'')]), \<lambda>a. a \<noteq> 0)"
  "needs E (''nvlist_free_string'', p # n # as) = Some ((''nvlist_exists_type'', [p, n, AInt (const E ''NV_TYPE_STRING'')]), \<lambda>a. a \<noteq> 0)"
  "needs E (''nvlist_free_nvlist'', p # n # as) = Some ((''nvlist_exists_type'', [p, n, AInt (const E ''NV_TYPE_NVLIST'')]), \<lambda>a. a \<noteq> 0)"
  "needs E (''nvlist_free_binary'', p # n # as) = Some ((''nvlist_exists_type'', [p, n, AInt (const E ''NV_TYPE_BINARY'')]), \<lambda>a. a \<noteq> 0)"
  "needs E (''nvlist_free_bool_array'', p # n # as) = Some ((''nvlist_exists_type'', [p, n, AInt (const E ''NV_TYPE_BOOL_ARRAY'')]), \<lambda>a. a \<noteq> 0)"
  "needs E (''nvlist_free_number_array'', p # n # as) = Some ((''nvlist_exists_type'', [p, n, AInt (const E ''NV_TYPE_NUMBER_ARRAY'')]), \<lambda>a. a \<noteq> 0)"
  "needs E (''nvlist_free_string_array'', p # n # as) = Some ((''nvlist_exists_type'', [p, n, AInt (const E ''NV_TYPE_STRING_ARRAY'')]), \<lambda>a. a \<noteq> 0)"
  "needs E (''nvlist_free_nvlist_array'', p # n # as) = Some ((''nvlist_exists_type'', [p, n, AInt (const E ''NV_TYPE_NVLIST_ARRAY'')]), \<lambda>a. a \<noteq> 0)"
  "needs E (''nvlist_free_descriptor'', p # n # as) = Some ((''nvlist_exists_type'', [p, n, AInt (const E ''NV_TYPE_DESCRIPTOR'')]), \<lambda>a. a \<noteq> 0)"
  "needs E (''nvlist_free_descriptor_array'', p # n # as) = Some ((''nvlist_exists_type'', [p, n, AInt (const E ''NV_TYPE_DESCRIPTOR_ARRAY'')]), \<lambda>a. a \<noteq> 0)"
  by (simp_all add: needs_def named_type_def cookie_type_def NVLIST_TYPES_def NVLIST_TYPES_NULL_def)

lemma needs_cookie_get [safe_rules]:
  "needs E (''cnvlist_get_bool'', p # as) = Some ((''cnvlist_type'', [p]), \<lambda>a. a = const E ''NV_TYPE_BOOL'')"
  "needs E (''cnvlist_get_number'', p # as) = Some ((''cnvlist_type'', [p]), \<lambda>a. a = const E ''NV_TYPE_NUMBER'')"
  "needs E (''cnvlist_get_string'', p # as) = Some ((''cnvlist_type'', [p]), \<lambda>a. a = const E ''NV_TYPE_STRING'')"
  "needs E (''cnvlist_get_nvlist'', p # as) = Some ((''cnvlist_type'', [p]), \<lambda>a. a = const E ''NV_TYPE_NVLIST'')"
  "needs E (''cnvlist_get_binary'', p # as) = Some ((''cnvlist_type'', [p]), \<lambda>a. a = const E ''NV_TYPE_BINARY'')"
  "needs E (''cnvlist_get_bool_array'', p # as) = Some ((''cnvlist_type'', [p]), \<lambda>a. a = const E ''NV_TYPE_BOOL_ARRAY'')"
  "needs E (''cnvlist_get_number_array'', p # as) = Some ((''cnvlist_type'', [p]), \<lambda>a. a = const E ''NV_TYPE_NUMBER_ARRAY'')"
  "needs E (''cnvlist_get_string_array'', p # as) = Some ((''cnvlist_type'', [p]), \<lambda>a. a = const E ''NV_TYPE_STRING_ARRAY'')"
  "needs E (''cnvlist_get_nvlist_array'', p # as) = Some ((''cnvlist_type'', [p]), \<lambda>a. a = const E ''NV_TYPE_NVLIST_ARRAY'')"
  "needs E (''cnvlist_get_descriptor'', p # as) = Some ((''cnvlist_type'', [p]), \<lambda>a. a = const E ''NV_TYPE_DESCRIPTOR'')"
  "needs E (''cnvlist_get_descriptor_array'', p # as) = Some ((''cnvlist_type'', [p]), \<lambda>a. a = const E ''NV_TYPE_DESCRIPTOR_ARRAY'')"
  by (simp_all add: needs_def named_type_def cookie_type_def NVLIST_TYPES_def NVLIST_TYPES_NULL_def)

lemma needs_cookie_take [safe_rules]:
  "needs E (''cnvlist_take_bool'', p # as) = Some ((''cnvlist_type'', [p]), \<lambda>a. a = const E ''NV_TYPE_BOOL'')"
  "needs E (''cnvlist_take_number'', p # as) = Some ((''cnvlist_type'', [p]), \<lambda>a. a = const E ''NV_TYPE_NUMBER'')"
  "needs E (''cnvlist_take_string'', p # as) = Some ((''cnvlist_type'', [p]), \<lambda>a. a = const E ''NV_TYPE_STRING'')"
  "needs E (''cnvlist_take_nvlist'', p # as) = Some ((''cnvlist_type'', [p]), \<lambda>a. a = const E ''NV_TYPE_NVLIST'')"
  "needs E (''cnvlist_take_binary'', p # as) = Some ((''cnvlist_type'', [p]), \<lambda>a. a = const E ''NV_TYPE_BINARY'')"
  "needs E (''cnvlist_take_bool_array'', p # as) = Some ((''cnvlist_type'', [p]), \<lambda>a. a = const E ''NV_TYPE_BOOL_ARRAY'')"
  "needs E (''cnvlist_take_number_array'', p # as) = Some ((''cnvlist_type'', [p]), \<lambda>a. a = const E ''NV_TYPE_NUMBER_ARRAY'')"
  "needs E (''cnvlist_take_string_array'', p # as) = Some ((''cnvlist_type'', [p]), \<lambda>a. a = const E ''NV_TYPE_STRING_ARRAY'')"
  "needs E (''cnvlist_take_nvlist_array'', p # as) = Some ((''cnvlist_type'', [p]), \<lambda>a. a = const E ''NV_TYPE_NVLIST_ARRAY'')"
  "needs E (''cnvlist_take_descriptor'', p # as) = Some ((''cnvlist_type'', [p]), \<lambda>a. a = const E ''NV_TYPE_DESCRIPTOR'')"
  "needs E (''cnvlist_take_descriptor_array'', p # as) = Some ((''cnvlist_type'', [p]), \<lambda>a. a = const E ''NV_TYPE_DESCRIPTOR_ARRAY'')"
  by (simp_all add: needs_def named_type_def cookie_type_def NVLIST_TYPES_def NVLIST_TYPES_NULL_def)

lemma needs_cookie_free [safe_rules]:
  "needs E (''cnvlist_free_bool'', p # as) = Some ((''cnvlist_type'', [p]), \<lambda>a. a = const E ''NV_TYPE_BOOL'')"
  "needs E (''cnvlist_free_number'', p # as) = Some ((''cnvlist_type'', [p]), \<lambda>a. a = const E ''NV_TYPE_NUMBER'')"
  "needs E (''cnvlist_free_string'', p # as) = Some ((''cnvlist_type'', [p]), \<lambda>a. a = const E ''NV_TYPE_STRING'')"
  "needs E (''cnvlist_free_nvlist'', p # as) = Some ((''cnvlist_type'', [p]), \<lambda>a. a = const E ''NV_TYPE_NVLIST'')"
  "needs E (''cnvlist_free_binary'', p # as) = Some ((''cnvlist_type'', [p]), \<lambda>a. a = const E ''NV_TYPE_BINARY'')"
  "needs E (''cnvlist_free_bool_array'', p # as) = Some ((''cnvlist_type'', [p]), \<lambda>a. a = const E ''NV_TYPE_BOOL_ARRAY'')"
  "needs E (''cnvlist_free_number_array'', p # as) = Some ((''cnvlist_type'', [p]), \<lambda>a. a = const E ''NV_TYPE_NUMBER_ARRAY'')"
  "needs E (''cnvlist_free_string_array'', p # as) = Some ((''cnvlist_type'', [p]), \<lambda>a. a = const E ''NV_TYPE_STRING_ARRAY'')"
  "needs E (''cnvlist_free_nvlist_array'', p # as) = Some ((''cnvlist_type'', [p]), \<lambda>a. a = const E ''NV_TYPE_NVLIST_ARRAY'')"
  "needs E (''cnvlist_free_descriptor'', p # as) = Some ((''cnvlist_type'', [p]), \<lambda>a. a = const E ''NV_TYPE_DESCRIPTOR'')"
  "needs E (''cnvlist_free_descriptor_array'', p # as) = Some ((''cnvlist_type'', [p]), \<lambda>a. a = const E ''NV_TYPE_DESCRIPTOR_ARRAY'')"
  by (simp_all add: needs_def named_type_def cookie_type_def NVLIST_TYPES_def NVLIST_TYPES_NULL_def)

lemma needs_free_any [safe_rules]:
  "needs E (''nvlist_free'', as) = Some ((''nvlist_exists'', as), \<lambda>a. a \<noteq> 0)"
  by (simp_all add: needs_def named_type_def cookie_type_def NVLIST_TYPES_def NVLIST_TYPES_NULL_def)

lemma needs_free_type [safe_rules]:
  "needs E (''nvlist_free_type'', as) = Some ((''nvlist_exists_type'', as), \<lambda>a. a \<noteq> 0)"
  by (simp_all add: needs_def named_type_def cookie_type_def NVLIST_TYPES_def NVLIST_TYPES_NULL_def)

lemma needs_nothing [safe_rules]:
  "needs E (''cnvlist_name'', as) = None"
  "needs E (''cnvlist_type'', as) = None"
  "needs E (''dnvlist_get_binary'', as) = None"
  "needs E (''dnvlist_get_bool'', as) = None"
  "needs E (''dnvlist_get_descriptor'', as) = None"
  "needs E (''dnvlist_get_number'', as) = None"
  "needs E (''dnvlist_get_nvlist'', as) = None"
  "needs E (''dnvlist_get_string'', as) = None"
  "needs E (''dnvlist_take_binary'', as) = None"
  "needs E (''dnvlist_take_bool'', as) = None"
  "needs E (''dnvlist_take_descriptor'', as) = None"
  "needs E (''dnvlist_take_number'', as) = None"
  "needs E (''dnvlist_take_nvlist'', as) = None"
  "needs E (''dnvlist_take_string'', as) = None"
  "needs E (''free'', as) = None"
  "needs E (''malloc'', as) = None"
  "needs E (''nvlist_add_binary'', as) = None"
  "needs E (''nvlist_add_bool'', as) = None"
  "needs E (''nvlist_add_descriptor'', as) = None"
  "needs E (''nvlist_add_descriptor_array'', as) = None"
  "needs E (''nvlist_add_null'', as) = None"
  "needs E (''nvlist_add_number'', as) = None"
  "needs E (''nvlist_add_nvlist'', as) = None"
  "needs E (''nvlist_add_nvlist_array'', as) = None"
  "needs E (''nvlist_add_string'', as) = None"
  "needs E (''nvlist_add_string_array'', as) = None"
  "needs E (''nvlist_clone'', as) = None"
  "needs E (''nvlist_create'', as) = None"
  "needs E (''nvlist_destroy'', as) = None"
  "needs E (''nvlist_dump'', as) = None"
  "needs E (''nvlist_empty'', as) = None"
  "needs E (''nvlist_error'', as) = None"
  "needs E (''nvlist_exists'', as) = None"
  "needs E (''nvlist_exists_type'', as) = None"
  "needs E (''nvlist_fdump'', as) = None"
  "needs E (''nvlist_flags'', as) = None"
  "needs E (''nvlist_get_array_next'', as) = None"
  "needs E (''nvlist_get_pararr'', as) = None"
  "needs E (''nvlist_get_parent'', as) = None"
  "needs E (''nvlist_in_array'', as) = None"
  "needs E (''nvlist_move_bool_array'', as) = None"
  "needs E (''nvlist_move_descriptor'', as) = None"
  "needs E (''nvlist_move_descriptor_array'', as) = None"
  "needs E (''nvlist_move_number_array'', as) = None"
  "needs E (''nvlist_move_nvlist'', as) = None"
  "needs E (''nvlist_move_nvlist_array'', as) = None"
  "needs E (''nvlist_next'', as) = None"
  "needs E (''nvlist_pack'', as) = None"
  "needs E (''nvlist_recv'', as) = None"
  "needs E (''nvlist_send'', as) = None"
  "needs E (''nvlist_set_error'', as) = None"
  "needs E (''nvlist_size'', as) = None"
  "needs E (''nvlist_unpack'', as) = None"
  "needs E (''nvlist_xfer'', as) = None"
  by (simp_all add: needs_def named_type_def cookie_type_def NVLIST_TYPES_def NVLIST_TYPES_NULL_def)

text \<open>Asking a list for its error keeps what is known.\<close>

definition stable :: "(ecall list \<Rightarrow> bool) \<Rightarrow> bool" where
  "stable P \<longleftrightarrow> (\<forall>tr as. P tr \<longrightarrow> P ((''nvlist_error'', as) # tr))"

lemma stable_simps [simp]: "stable anything" "stable (answered E q)"
  by (simp_all add: stable_def)

lemma safe_error_call [safe_rules]:
  assumes "stable P" and "\<And>r. safe E P (f r)"
  shows "safe E P (lbind (ccall E ''nvlist_error'' as) f)"
  using assms by (simp add: safe_def stable_def lbind_def ccall_def needs_nothing)

lemma safe_checkerror:
  assumes "stable P" and "\<And>p. safe E P (f p)"
  shows "safe E P (lbind (checkerror E i m p) f)"
proof (cases "p = 0")
  case True
  then show ?thesis by (simp add: checkerror_def safe_quiet leaves_throw)
next
  case False
  have "safe E P (lbind (luaL_argcheck b i msg) (\<lambda>_. f p))" for b msg
    by (rule safe_lbind_quiet [OF trace_frame.leaves_checks(1) assms(2)])
  with False assms(1) show ?thesis
    by (simp add: checkerror_def seq_def lbind_assoc ccall_rc_ccall safe_error_call)
qed

lemma safe_checknvlist [safe_rules]:
  assumes "stable P" and "\<And>p. safe E P (f p)"
  shows "safe E P (lbind (checknvlist E L i) f)" "safe E P (lbind (checkconstnvlist E L i) f)"
    "safe E P (lbind (checkanynvlist E L i) f)"
  by (simp_all add: checknvlist_def checkconstnvlist_def checkanynvlist_def lbind_assoc
      safe_lbind_quiet quiet_nv safe_checkerror assms)

lemma safe_query:
  assumes "needs E (g, as) = None"
    and "safe E (answered E ((g, as), ok)) (f a)"
  shows "safe E P (lbind (ccall E g as) (\<lambda>r. lbind (luaL_argcheck (ok (rc r)) i msg) (\<lambda>_. f a)))"
  using assms by (simp add: safe_def lbind_def ccall_def luaL_argcheck_def)

lemma safe_checkname [safe_rules]:
  assumes "\<And>name. safe E (answered E ((''nvlist_exists_type'', [APtr p, AStr name, AInt t]), \<lambda>a. a \<noteq> 0)) (f name)"
  shows "safe E P (lbind (checkname E L i p t) f)"
  by (simp add: checkname_def seq_def lbind_assoc ccall_rc_ccall safe_lbind_quiet trace_frame.leaves_derived
      safe_query [where ok = "\<lambda>a. a \<noteq> 0"] needs_nothing assms)

lemma safe_checkcookietype [safe_rules]:
  assumes "\<And>p. safe E (answered E ((''cnvlist_type'', [APtr p]), \<lambda>a. a = t)) (f p)"
  shows "safe E P (lbind (checkcookietype E L i t) f)"
  by (simp add: checkcookietype_def seq_def lbind_assoc ccall_rc_ccall safe_lbind_quiet trace_frame.leaves_checkcookies
      safe_query [where ok = "\<lambda>a. a = t"] needs_nothing assms)

lemmas safe_simps =
  safe_quiet safe_lbind_quiet safe_lbind_if safe_plain_call safe_guarded_call
  seq_def lbind_assoc ccall_rc_ccall leaves_rules

section \<open>The module\<close>

lemma needs_exists [simplified, safe_rules]: "needs E (''nvlist_exists_'' @ t, as) = None"
  by (simp add: needs_def named_type_def cookie_type_def)

lemma needs_free_macro:
  "map_of NVLIST_TYPES_NULL t = Some T \<Longrightarrow> needs E (''nvlist_free_'' @ t, [p, n]) =
     Some ((''nvlist_exists_type'', [p, n, AInt (const E T)]), \<lambda>a. a \<noteq> 0)"
  "map_of NVLIST_TYPES_NULL t = Some T \<Longrightarrow> needs E (''cnvlist_free_'' @ t, [p]) =
     Some ((''cnvlist_type'', [p]), \<lambda>a. a = const E T)"
  by (auto simp: needs_def named_type_def cookie_type_def NVLIST_TYPES_NULL_def NVLIST_TYPES_def)

lemma safe_getters [safe_rules]:
  "safe E anything (get_bool E L p)"
  "safe E anything (get_number E L p)"
  "safe E anything (get_string E L p)"
  "safe E anything (get_nvlist E L p)"
  "safe E anything (get_binary E L p)"
  "safe E anything (get_bool_array E L p)"
  "safe E anything (get_number_array E L p)"
  "safe E anything (get_string_array E L p)"
  "safe E anything (get_nvlist_array E L p)"
  "safe E anything (get_descriptor E L p)"
  "safe E anything (get_descriptor_array E L p)"
  "safe E anything (nv_next E L p)"
  "safe E anything (get_parent E L p)"
  "safe E anything (get_array_next E L p)"
  "safe E anything (get_pararr E L p)"
  by (simp_all add: safe_rules safe_simps
      get_bool_def get_number_def get_string_def get_nvlist_def get_binary_def
      get_bool_array_def get_number_array_def get_string_array_def get_nvlist_array_def
      get_descriptor_def get_descriptor_array_def nv_next_def get_parent_def
      get_array_next_def get_pararr_def
      del: ret_run throw_run)

lemma safe_funcs [safe_rules]:
  "safe E anything (l_nv_create E L)"
  "safe E anything (l_nv_recv E L)"
  "safe E anything (l_nv_unpack E L)"
  by (simp_all add: safe_rules safe_simps
      l_nv_create_def l_nv_recv_def l_nv_unpack_def
      del: ret_run throw_run)

lemma safe_nvlist [safe_rules]:
  "safe E anything (l_nvlist_empty E L)"
  "safe E anything (l_nvlist_flags E L)"
  "safe E anything (l_nvlist_in_array E L)"
  "safe E anything (l_nvlist_clone E L)"
  "safe E anything (l_nvlist_dump E L)"
  "safe E anything (l_nvlist_fdump E L)"
  "safe E anything (l_nvlist_size E L)"
  "safe E anything (l_nvlist_pack E L)"
  "safe E anything (l_nvlist_send E L)"
  "safe E anything (l_nvlist_exists E L)"
  "safe E anything (l_nvlist_exists_type E L)"
  "safe E anything (l_nvlist_error E L)"
  "safe E anything (l_nvlist_gc E L)"
  "safe E anything (l_nvlist_set_error E L)"
  "safe E anything (l_nvlist_xfer E L)"
  by (simp_all add: safe_rules safe_simps
      l_nvlist_empty_def l_nvlist_flags_def l_nvlist_in_array_def l_nvlist_clone_def
      l_nvlist_dump_def l_nvlist_fdump_def l_nvlist_size_def l_nvlist_pack_def
      l_nvlist_send_def l_nvlist_exists_def l_nvlist_exists_type_def l_nvlist_error_def
      l_nvlist_gc_def l_nvlist_set_error_def l_nvlist_xfer_def
      del: ret_run throw_run)

lemma safe_const_nvlist [safe_rules]:
  "safe E anything (l_const_nvlist_empty E L)"
  "safe E anything (l_const_nvlist_flags E L)"
  "safe E anything (l_const_nvlist_in_array E L)"
  "safe E anything (l_const_nvlist_clone E L)"
  "safe E anything (l_const_nvlist_dump E L)"
  "safe E anything (l_const_nvlist_fdump E L)"
  "safe E anything (l_const_nvlist_size E L)"
  "safe E anything (l_const_nvlist_pack E L)"
  "safe E anything (l_const_nvlist_send E L)"
  "safe E anything (l_const_nvlist_exists E L)"
  "safe E anything (l_const_nvlist_exists_type E L)"
  "safe E anything (l_const_nvlist_error E L)"
  by (simp_all add: safe_rules safe_simps
      l_const_nvlist_empty_def l_const_nvlist_flags_def l_const_nvlist_in_array_def
      l_const_nvlist_clone_def l_const_nvlist_dump_def l_const_nvlist_fdump_def
      l_const_nvlist_size_def l_const_nvlist_pack_def l_const_nvlist_send_def
      l_const_nvlist_exists_def l_const_nvlist_exists_type_def l_const_nvlist_error_def
      del: ret_run throw_run)

lemma safe_macros [safe_rules]:
  "safe E anything (NVLIST_EXISTS t E L)" "safe E anything (CONST_NVLIST_EXISTS t E L)"
  "(\<And>p. safe E anything (g E L p)) \<Longrightarrow> safe E anything (NVLIST_GET g E L)"
  "(\<And>p. safe E anything (g E L p)) \<Longrightarrow> safe E anything (CONST_NVLIST_GET g E L)"
  by (simp_all del: ret_run add: safe_rules safe_simps NVLIST_EXISTS_def CONST_NVLIST_EXISTS_def NVLIST_GET_def CONST_NVLIST_GET_def)

lemma safe_free_macros:
  assumes "map_of NVLIST_TYPES_NULL t = Some T"
  shows "safe E anything (NVLIST_FREE t T E L)" "safe E anything (CNVLIST_FREE t T E L)"
  using needs_free_macro [OF assms]
  by (simp_all add: safe_rules safe_simps NVLIST_FREE_def CNVLIST_FREE_def)

lemma safe_add [safe_rules]:
  "safe E anything (l_nvlist_add_null E L)"
  "safe E anything (l_nvlist_add_bool E L)"
  "safe E anything (l_nvlist_add_number E L)"
  "safe E anything (l_nvlist_add_string E L)"
  "safe E anything (l_nvlist_add_nvlist E L)"
  "safe E anything (l_nvlist_add_descriptor E L)"
  "safe E anything (l_nvlist_add_binary E L)"
  "safe E anything (l_nvlist_add_bool_array E L)"
  "safe E anything (l_nvlist_add_number_array E L)"
  "safe E anything (l_nvlist_add_string_array E L)"
  "safe E anything (l_nvlist_add_descriptor_array E L)"
  "safe E anything (l_nvlist_move_descriptor E L)"
  "safe E anything (l_nvlist_move_nvlist E L)"
  "safe E anything (l_nvlist_move_descriptor_array E L)"
  by (simp_all add: safe_rules safe_simps
      l_nvlist_add_null_def l_nvlist_add_bool_def l_nvlist_add_number_def
      l_nvlist_add_string_def l_nvlist_add_nvlist_def l_nvlist_add_descriptor_def
      l_nvlist_add_binary_def l_nvlist_add_bool_array_def l_nvlist_add_number_array_def
      l_nvlist_add_string_array_def l_nvlist_add_descriptor_array_def
      l_nvlist_move_descriptor_def l_nvlist_move_nvlist_def l_nvlist_move_descriptor_array_def
      array_args_def
      del: ret_run throw_run)

lemma safe_add_loop: "(\<And>ps. safe E anything (f ps)) \<Longrightarrow> safe E anything (lbind (add_nvlist_loop E L v i k) f)"
  by (induction k arbitrary: i f) (simp_all add: safe_rules safe_simps)

lemma safe_destroy_all [safe_rules]:
  "(\<And>x. safe E anything (f x)) \<Longrightarrow> safe E anything (lbind (destroy_all E ps) f)"
  by (induction ps) (simp_all add: safe_rules safe_simps)

lemma safe_move_loop:
  "(\<And>ps. safe E anything (f ps)) \<Longrightarrow> safe E anything (lbind (move_nvlist_loop E L v qs i k) f)"
  by (induction k arbitrary: i qs) (simp_all add: safe_rules safe_simps)

lemma safe_take_strings [safe_rules]:
  "(\<And>x. safe E anything (f x)) \<Longrightarrow> safe E anything (lbind (take_strings E L r i k) f)"
  by (induction k arbitrary: i) (simp_all add: safe_rules safe_simps)

lemma safe_nvlist_arrays [safe_rules]:
  "safe E anything (l_nvlist_add_nvlist_array E L)"
  "safe E anything (l_nvlist_move_nvlist_array E L)"
  by (simp_all add: safe_rules safe_simps
      l_nvlist_add_nvlist_array_def l_nvlist_move_nvlist_array_def array_args_def
      safe_add_loop safe_move_loop
      del: ret_run throw_run)

lemma safe_take [safe_rules]:
  "safe E anything (l_nvlist_take_bool E L)"
  "safe E anything (l_nvlist_take_number E L)"
  "safe E anything (l_nvlist_take_string E L)"
  "safe E anything (l_nvlist_take_nvlist E L)"
  "safe E anything (l_nvlist_take_binary E L)"
  "safe E anything (l_nvlist_take_bool_array E L)"
  "safe E anything (l_nvlist_take_number_array E L)"
  "safe E anything (l_nvlist_take_string_array E L)"
  "safe E anything (l_nvlist_take_nvlist_array E L)"
  "safe E anything (l_nvlist_take_descriptor E L)"
  "safe E anything (l_nvlist_take_descriptor_array E L)"
  by (simp_all add: safe_rules safe_simps
      l_nvlist_take_bool_def l_nvlist_take_number_def l_nvlist_take_string_def
      l_nvlist_take_nvlist_def l_nvlist_take_binary_def l_nvlist_take_bool_array_def
      l_nvlist_take_number_array_def l_nvlist_take_string_array_def
      l_nvlist_take_nvlist_array_def l_nvlist_take_descriptor_def
      l_nvlist_take_descriptor_array_def
      del: ret_run throw_run)

lemma safe_append [safe_rules]:
  "safe E anything (l_nvlist_append_bool_array E L)"
  "safe E anything (l_nvlist_append_number_array E L)"
  "safe E anything (l_nvlist_append_string_array E L)"
  "safe E anything (l_nvlist_append_nvlist_array E L)"
  "safe E anything (l_nvlist_append_descriptor_array E L)"
  by (simp_all add: safe_rules safe_simps
      l_nvlist_append_bool_array_def l_nvlist_append_number_array_def
      l_nvlist_append_string_array_def l_nvlist_append_nvlist_array_def
      l_nvlist_append_descriptor_array_def
      del: ret_run throw_run)

lemma safe_rest [safe_rules]:
  "safe E anything (l_nvlist_free E L)"
  "safe E anything (l_nvlist_free_type E L)"
  "safe E anything (l_nvlist_next E L)"
  "safe E anything (l_nvlist_get_parent E L)"
  "safe E anything (l_nvlist_get_array_next E L)"
  "safe E anything (l_nvlist_get_pararr E L)"
  "safe E anything (l_const_nvlist_next E L)"
  "safe E anything (l_const_nvlist_get_parent E L)"
  "safe E anything (l_const_nvlist_get_array_next E L)"
  "safe E anything (l_const_nvlist_get_pararr E L)"
  by (simp_all add: safe_rules safe_simps
      l_nvlist_free_def l_nvlist_free_type_def l_nvlist_next_def l_nvlist_get_parent_def
      l_nvlist_get_array_next_def l_nvlist_get_pararr_def l_const_nvlist_next_def
      l_const_nvlist_get_parent_def l_const_nvlist_get_array_next_def
      l_const_nvlist_get_pararr_def safe_query [where ok = "\<lambda>a. a \<noteq> 0"]
      del: ret_run throw_run)

lemma safe_cookies [safe_rules]:
  "safe E anything (l_cnvlist_name E L)"
  "safe E anything (l_cnvlist_type E L)"
  "safe E anything (l_cnvlist_get_bool E L)"
  "safe E anything (l_cnvlist_get_number E L)"
  "safe E anything (l_cnvlist_get_string E L)"
  "safe E anything (l_cnvlist_get_nvlist E L)"
  "safe E anything (l_cnvlist_get_binary E L)"
  "safe E anything (l_cnvlist_get_bool_array E L)"
  "safe E anything (l_cnvlist_get_number_array E L)"
  "safe E anything (l_cnvlist_get_string_array E L)"
  "safe E anything (l_cnvlist_get_nvlist_array E L)"
  "safe E anything (l_cnvlist_get_descriptor E L)"
  "safe E anything (l_cnvlist_get_descriptor_array E L)"
  by (simp_all add: safe_rules safe_simps
      l_cnvlist_name_def l_cnvlist_type_def l_cnvlist_get_bool_def l_cnvlist_get_number_def
      l_cnvlist_get_string_def l_cnvlist_get_nvlist_def l_cnvlist_get_binary_def
      l_cnvlist_get_bool_array_def l_cnvlist_get_number_array_def
      l_cnvlist_get_string_array_def l_cnvlist_get_nvlist_array_def
      l_cnvlist_get_descriptor_def l_cnvlist_get_descriptor_array_def
      del: ret_run throw_run)

lemma safe_cookies_take [safe_rules]:
  "safe E anything (l_cnvlist_take_bool E L)"
  "safe E anything (l_cnvlist_take_number E L)"
  "safe E anything (l_cnvlist_take_string E L)"
  "safe E anything (l_cnvlist_take_nvlist E L)"
  "safe E anything (l_cnvlist_take_binary E L)"
  "safe E anything (l_cnvlist_take_bool_array E L)"
  "safe E anything (l_cnvlist_take_number_array E L)"
  "safe E anything (l_cnvlist_take_string_array E L)"
  "safe E anything (l_cnvlist_take_nvlist_array E L)"
  "safe E anything (l_cnvlist_take_descriptor E L)"
  "safe E anything (l_cnvlist_take_descriptor_array E L)"
  by (simp_all add: safe_rules safe_simps
      l_cnvlist_take_bool_def l_cnvlist_take_number_def l_cnvlist_take_string_def
      l_cnvlist_take_nvlist_def l_cnvlist_take_binary_def l_cnvlist_take_bool_array_def
      l_cnvlist_take_number_array_def l_cnvlist_take_string_array_def
      l_cnvlist_take_nvlist_array_def l_cnvlist_take_descriptor_def
      l_cnvlist_take_descriptor_array_def
      del: ret_run throw_run)


lemma safe_free_tables:
  "list_all (\<lambda>(t, T). safe E anything (NVLIST_FREE t T E L)) NVLIST_TYPES_NULL"
  "list_all (\<lambda>(t, T). safe E anything (CNVLIST_FREE t T E L)) NVLIST_TYPES"
  by (simp_all add: NVLIST_TYPES_NULL_def NVLIST_TYPES_def safe_free_macros)


end
