(* ===== verification/Nv_Lists.thy ===== *)
theory Nv_Lists
  imports Nv_Guard
begin

text \<open>
  What the methods of \<^verbatim>\<open>nvlist_t\<close> do with a list: arrays go through it in order, a list that is handed
  over is forgotten by its wrapper; and where the wrappers of nested lists and cookies go wrong.
\<close>

section \<open>Wrappers of lists\<close>

text \<open>Each name is registered with a metatable of its own (\<^verbatim>\<open>luaL_newmetatable\<close>).\<close>

definition mtables_ok :: "env \<Rightarrow> bool" where
  "mtables_ok E \<longleftrightarrow> inj (mtable E)"

lemma mtables_ok_env0: "mtables_ok env0" "mtables_ok (env0\<lparr>reply := f\<rparr>)"
  by (simp_all add: mtables_ok_def inj_def)

lemma mtable_eq: "mtables_ok E \<Longrightarrow> mtable E a = mtable E b \<longleftrightarrow> a = b"
  by (simp add: mtables_ok_def inj_eq)

text \<open>The userdata at an index wraps the address \<open>p\<close> under the metatable \<open>m\<close>.\<close>

definition wraps :: "world \<Rightarrow> lval list \<Rightarrow> int \<Rightarrow> string \<Rightarrow> addr \<Rightarrow> bool" where
  "wraps w s i m p \<longleftrightarrow> (case ud_at w s i of None \<Rightarrow> False
     | Some u \<Rightarrow> meta (the (uds w u)) = Some m \<and> get_uv COOKIE (the (uds w u)) = Some (LLightuserdata p))"

lemma ud_at_index: "ud_at w s i = Some u \<Longrightarrow> i \<le> int (length s)"
  by (rule ccontr) (simp add: ud_at_def)

lemma wrapsD:
  "wraps w s i m p \<Longrightarrow> \<exists>u. ud_at w s i = Some u \<and> meta (the (uds w u)) = Some m
     \<and> get_uv COOKIE (the (uds w u)) = Some (LLightuserdata p) \<and> i \<le> int (length s)"
  by (auto simp: wraps_def split: option.splits dest: ud_at_index)

lemma ud_at_world [simp]:
  "ud_at (w\<lparr>trace := tr\<rparr>) s i = ud_at w s i" "ud_at (setst L t w) s i = ud_at w s i"
  by (simp_all add: ud_at_def split: option.split lval.split)

lemma wraps_world [simp]:
  "wraps (w\<lparr>trace := tr\<rparr>) s i m p = wraps w s i m p"
  "wraps (setst L t w) s i m p = wraps w s i m p"
  by (simp_all add: wraps_def split: option.split)

lemma getnvlist_run:
  assumes "mtables_ok E" and "stacks w L = Some s" and "1 \<le> i" and "wraps w s i m p"
  shows "getnvlist E L i k w = (Inr (if m = k then p else 0), w)"
proof -
  obtain u where u: "ud_at w s i = Some u" "meta (the (uds w u)) = Some m"
      "get_uv COOKIE (the (uds w u)) = Some (LLightuserdata p)" "i \<le> int (length s)"
    using wrapsD [OF assms(4)] by blast
  have "ud_at w (s @ t) i = Some u" for t
    using u assms(3) by (simp add: at_append_ud)
  with u assms show ?thesis
    by (simp add: getnvlist_def lua_getmetatable_def lua_rawequal_def getcookie_def
        lua_getiuservalue_def luaL_argcheck_def lua_run setst_same mtable_eq)
qed

text \<open>
  \<^verbatim>\<open>getanynvlist\<close> compares the two metatables it has pushed with each other and the second of them
  with that of the argument: it finds the list of a \<^verbatim>\<open>const nvlist_t\<close> only.
\<close>

lemma getanynvlist_run:
  assumes "mtables_ok E" and "stacks w L = Some s" and "1 \<le> i" and "wraps w s i m p"
  shows "getanynvlist E L i w = (Inr (if m = CONST_NVLIST_METATABLE then p else 0), w)"
proof -
  obtain u where u: "ud_at w s i = Some u" "meta (the (uds w u)) = Some m"
      "get_uv COOKIE (the (uds w u)) = Some (LLightuserdata p)" "i \<le> int (length s)"
    using wrapsD [OF assms(4)] by blast
  have ud: "ud_at w (s @ t) i = Some u" for t
    using u assms(3) by (simp add: at_append_ud)
  have at: "at (s @ [a, b, c]) (-1) = Some c" "at (s @ [a, b, c]) (-2) = Some b"
      "at (s @ [a, b, c]) (-3) = Some a" for a b c
    by (simp_all add: at_def pos_def nth_append)
  have ne: "CONST_NVLIST_METATABLE \<noteq> NVLIST_METATABLE"
    by (simp add: NVLIST_METATABLE_def CONST_NVLIST_METATABLE_def)
  show ?thesis
    using u assms ud ne
    by (auto simp: getanynvlist_def lua_getmetatable_def lua_rawequal_def getcookie_def at
        lua_getiuservalue_def luaL_argcheck_def lua_run setst_same mtable_eq)
qed

text \<open>The state after asking the list at \<open>p\<close> for its error.\<close>

abbreviation asked :: "addr \<Rightarrow> world \<Rightarrow> world" where
  "asked p w \<equiv> w\<lparr>trace := (''nvlist_error'', [APtr p]) # trace w\<rparr>"

definition error_of :: "env \<Rightarrow> world \<Rightarrow> addr \<Rightarrow> int" where
  "error_of E w p = rc (reply E (trace w) (''nvlist_error'', [APtr p]))"

lemma checknvlist_run [lua_run]:
  assumes "mtables_ok E" and "stacks w L = Some s" and "1 \<le> i"
    and "wraps w s i NVLIST_METATABLE p" and "p \<noteq> 0" and "error_of E w p = 0"
  shows "checknvlist E L i w = (Inr p, asked p w)"
  using assms getnvlist_run [OF assms(1-4)]
  by (simp add: checknvlist_def checkerror_def lua_run luaL_argcheck_def error_of_def)

section \<open>Nested lists\<close>

text \<open>
  A list that Lua owns is refused as the value of \<^verbatim>\<open>add_nvlist\<close>, \<^verbatim>\<open>append_nvlist_array\<close> and as the
  default of \<^verbatim>\<open>get_nvlist\<close> and \<^verbatim>\<open>take_nvlist\<close>: the check behind them, \<^verbatim>\<open>checkanynvlist\<close>, raises a type error
  that asks for the very type the argument has. Only lists inside other lists pass.
\<close>

theorem owned_lists_are_refused:
  assumes "mtables_ok E" and "stacks w L = Some s" and "1 \<le> i" and "wraps w s i NVLIST_METATABLE p"
  shows "checkanynvlist E L i w = (Inl (TypeError i ''nvlist_t''), w)"
  using getanynvlist_run [OF assms]
  by (simp add: checkanynvlist_def checkerror_def lua_run NVLIST_METATABLE_def CONST_NVLIST_METATABLE_def)

theorem owned_lists_are_refused_witness:
  "checkanynvlist env0 1 3 ((world0 [1 \<mapsto> [LUserdata 2, LString ''x'', LUserdata 3]])
       \<lparr>uds := [2 \<mapsto> wrapper NVLIST_METATABLE 5, 3 \<mapsto> wrapper NVLIST_METATABLE 6]\<rparr>)
     = (Inl (TypeError 3 ''nvlist_t''), (world0 [1 \<mapsto> [LUserdata 2, LString ''x'', LUserdata 3]])
       \<lparr>uds := [2 \<mapsto> wrapper NVLIST_METATABLE 5, 3 \<mapsto> wrapper NVLIST_METATABLE 6]\<rparr>)"
  by (rule owned_lists_are_refused [where p = 6 and s = "[LUserdata 2, LString ''x'', LUserdata 3]"]) (simp_all add: mtables_ok_env0 wraps_def ud_at_def)

section \<open>Handing a list over\<close>

lemma set_cookie_wrapper [simp]: "set_uv COOKIE (LLightuserdata p) (wrapper m q) = wrapper m p"
  by (simp add: set_uv_def COOKIE_def wrapper_def)

lemma setcookie_run [lua_run]:
  assumes "stacks w L = Some s" and "ud_at w s i = Some u" and "1 \<le> i" and "uds w u = Some d"
  shows "setcookie L i p w =
    (Inr (), w\<lparr>uds := (uds w)(u \<mapsto> set_uv COOKIE (LLightuserdata p) d)\<rparr>)"
proof -
  have "ud_at w (s @ [v]) i = Some u" for v
    using assms ud_at_index by (simp add: at_append_ud)
  then show ?thesis
    using assms by (simp add: setcookie_def lua_setiuservalue_def lua_run setst_same)
qed

lemma luaL_checkstring_run [lua_run]:
  "stacks w L = Some s \<Longrightarrow> at s i = Some (LString str) \<Longrightarrow> luaL_checkstring E L i w = (Inr (cstr str), w)"
  by (simp add: luaL_checkstring_def luaL_checklstring_def lua_run)

lemma checkcookienull_run:
  assumes "stacks w L = Some s" and "wraps w s i m p"
  shows "checkcookienull L i m w = (Inr p, w)"
proof -
  obtain u where "ud_at w s i = Some u" "meta (the (uds w u)) = Some m"
      "get_uv COOKIE (the (uds w u)) = Some (LLightuserdata p)"
    using wrapsD [OF assms(2)] by blast
  then show ?thesis
    using assms(1)
    by (simp add: checkcookienull_def checkcookieuv_def luaL_checkudata_def getcookie_def
        lua_getiuservalue_def luaL_argcheck_def lua_run setst_same)
qed

lemma wraps_wrapper [simp]:
  "uds w u = Some (wrapper m p) \<Longrightarrow> at s i = Some (LUserdata u) \<Longrightarrow> wraps w s i k q \<longleftrightarrow> k = m \<and> q = p"
  by (auto simp: wraps_def ud_at_def)

text \<open>A wrapper that has handed its list over: its finalizer releases nothing, its methods refuse it.\<close>

lemma empty_wrapper:
  assumes "mtables_ok E" and "stacks w L = Some [LUserdata v]"
    and "uds w v = Some (wrapper NVLIST_METATABLE 0)"
  shows "l_nvlist_gc E L w = (Inr 0, w\<lparr>trace := (''nvlist_destroy'', [APtr 0]) # trace w\<rparr>)"
    and "checknvlist E L 1 w = (Inl (TypeError 1 ''nvlist_t''), w)"
  using assms getnvlist_run [OF assms(1,2), of 1 NVLIST_METATABLE 0 NVLIST_METATABLE]
  by (simp_all add: l_nvlist_gc_def checknvlist_def checkerror_def checkcookienull_run lua_run
      NVLIST_METATABLE_def)


text \<open>The lists of the witnesses: two wrappers, of the lists at 5 and 6.\<close>

definition two_lists :: "lval list \<Rightarrow> world" where
  "two_lists s = (world0 [1 \<mapsto> s])
     \<lparr>uds := [2 \<mapsto> wrapper NVLIST_METATABLE 5, 3 \<mapsto> wrapper NVLIST_METATABLE 6]\<rparr>"

lemma two_lists_sel [simp]:
  "stacks (two_lists s) = [1 \<mapsto> s]" "trace (two_lists s) = []" "fresh (two_lists s) = 10"
  "uds (two_lists s) = [2 \<mapsto> wrapper NVLIST_METATABLE 5, 3 \<mapsto> wrapper NVLIST_METATABLE 6]"
  "tabs (two_lists s) = (\<lambda>_. None)"
  by (simp_all add: two_lists_def)


text \<open>
  \<^verbatim>\<open>xfer\<close> hands its list to the library too, and forgets it also where the transfer fails
  (\<^verbatim>\<open>nvlist_xfer\<close> destroys the list in any case).
\<close>

theorem xfer_hands_over:
  assumes "mtables_ok E" and "stacks w L = Some [LUserdata u, LInteger sock]" and "u < fresh w"
    and "uds w u = Some (wrapper NVLIST_METATABLE p)" and "p \<noteq> 0" and "error_of E w p = 0"
  defines "c \<equiv> (''nvlist_xfer'', [AInt (to_int sock), APtr p, AInt 0])"
    and "tr \<equiv> (''nvlist_error'', [APtr p]) # trace w"
  shows "\<exists>w'. l_nvlist_xfer E L w = (Inr (if rc (reply E tr c) = 0 then 3 else 1), w')
    \<and> trace w' = c # tr \<and> uds w' u = Some (wrapper NVLIST_METATABLE 0)
    \<and> stacks w' L = Some ([LUserdata u, LInteger sock] @
        (if rc (reply E tr c) = 0
         then [LNil, LString (strerror E (errno (reply E tr c))), LInteger (errno (reply E tr c))]
         else [LUserdata (fresh w)]))
    \<and> (rc (reply E tr c) = 0 \<or> uds w' (fresh w) = Some (wrapper NVLIST_METATABLE (nat (rc (reply E tr c)))))"
proof -
  have int: "luaL_checkinteger E L 2 w' = (Inr sock, w')" "luaL_optinteger E L 3 0 w' = (Inr 0, w')"
    if "stacks w' L = Some [LUserdata u, LInteger sock]" for w'
    using that by (simp_all add: luaL_checkinteger_def luaL_optinteger_def lua_run)
  show ?thesis
    using assms
    by (simp add: l_nvlist_xfer_def lua_run int to_int_def
        checknvlist_run [where p = p and s = "[LUserdata u, LInteger sock]"]
        setcookie_run [where u = u and s = "[LUserdata u, LInteger sock]"] ud_at_def)
qed

theorem xfer_hands_over_witness:
  "\<exists>w'. l_nvlist_xfer env0 1 (two_lists [LUserdata 2, LInteger 4]) =
      (Inr (if rc (reply env0 [(''nvlist_error'', [APtr 5])] (''nvlist_xfer'', [AInt (to_int 4), APtr 5, AInt 0])) = 0 then 3 else 1), w')
    \<and> trace w' = [(''nvlist_xfer'', [AInt (to_int 4), APtr 5, AInt 0]), (''nvlist_error'', [APtr 5])]
    \<and> uds w' 2 = Some (wrapper NVLIST_METATABLE 0)"
  using xfer_hands_over [of env0 "two_lists [LUserdata 2, LInteger 4]" 1 2 4 5]
  by (auto simp: mtables_ok_env0 error_of_def)

text \<open>
  The finalizer does not clear the cookie, and it is reachable as the method \<^verbatim>\<open>__gc\<close> (the metatable is its
  own \<^verbatim>\<open>__index\<close>): a list finalized by hand is destroyed again when its wrapper is collected.
\<close>

lemma explicit_gc_destroys_twice:
  assumes "stacks w L = Some [LUserdata u]" and "uds w u = Some (wrapper NVLIST_METATABLE p)"
  shows "seq (l_nvlist_gc E L) (l_nvlist_gc E L) w =
    (Inr 0, w\<lparr>trace := (''nvlist_destroy'', [APtr p]) # (''nvlist_destroy'', [APtr p]) # trace w\<rparr>)"
proof -
  have "checkcookienull L 1 NVLIST_METATABLE w' = (Inr p, w')"
    if "stacks w' L = Some [LUserdata u]" "uds w' = uds w" for w'
    by (rule checkcookienull_run [OF that(1)]) (use that(2) assms(2) in simp)
  then show ?thesis
    using assms by (simp add: l_nvlist_gc_def lua_run)
qed

end
