(* ===== verification/Nv_Arrays.thy ===== *)
theory Nv_Arrays
  imports Nv_Lists
begin

text \<open>
  Arrays of name/value lists: tables in order on both ways, numbers unchanged through \<^verbatim>\<open>uint64_t\<close> but
  rounded where a cookie reads them as doubles, and the arrays of lists, which cannot be stored.
\<close>

section \<open>From the library to a table\<close>

lemma push_array_run:
  assumes "\<And>i w. push i w = lua_push L (v i) w"
    and "stacks w L = Some (s @ [LTable t])" and "tabs w t = Some tb" and "arr tb = map v [0..<i]"
    and "i + k < 2 ^ 31"
  shows "push_array L push i k w =
    (Inr (), w\<lparr>tabs := (tabs w)(t \<mapsto> tb\<lparr>arr := map v [0..<i + k]\<rparr>)\<rparr>)"
  using assms(2-)
proof (induction k arbitrary: i tb w)
  case 0
  then show ?case by (cases w) (auto simp: fun_upd_idem_iff)
next
  case (Suc k)
  let ?w = "w\<lparr>tabs := (tabs w)(t \<mapsto> tb\<lparr>arr := map v [0..<Suc i]\<rparr>)\<rparr>"
  have ts: "tset tb (int i + 1) (v i) = tb\<lparr>arr := map v [0..<Suc i]\<rparr>"
    using Suc.prems(3) by (simp add: tset_def nat_add_distrib)
  have "push_array L push i (Suc k) w = push_array L push (Suc i) k ?w"
    using Suc.prems ts assms(1) by (simp add: lua_rawseti_def lua_run setst_same)
  also have "\<dots> = (Inr (), w\<lparr>tabs := (tabs w)(t \<mapsto> tb\<lparr>arr := map v [0..<i + Suc k]\<rparr>)\<rparr>)"
    using Suc.IH [of ?w "tb\<lparr>arr := map v [0..<Suc i]\<rparr>" "Suc i"] Suc.prems
    by (simp add: fun_upd_def [symmetric])
  finally show ?case .
qed

text \<open>The table with the given values at \<open>1, 2, \<dots>\<close>, and the state after pushing a new one.\<close>

definition table_of :: "lval list \<Rightarrow> ltable" where
  "table_of vs = empty_table\<lparr>arr := vs\<rparr>"

definition pushed_table :: "lstate \<Rightarrow> lval list \<Rightarrow> lval list \<Rightarrow> world \<Rightarrow> world" where
  "pushed_table L s vs w = setst L (s @ [LTable (fresh w)])
     (w\<lparr>tabs := (tabs w)(fresh w \<mapsto> table_of vs), fresh := Suc (fresh w)\<rparr>)"

lemma pushed_table_sel [simp]:
  "stacks (pushed_table L s vs w) = (stacks w)(L \<mapsto> s @ [LTable (fresh w)])"
  "tabs (pushed_table L s vs w) = (tabs w)(fresh w \<mapsto> table_of vs)"
  "trace (pushed_table L s vs w) = trace w" "uds (pushed_table L s vs w) = uds w"
  by (simp_all add: pushed_table_def)

lemma push_table_run:
  assumes "\<And>i w. push i w = lua_push L (v i) w" and "stacks w L = Some s" and "nitems r < 2 ^ 31"
  shows "push_table L push r w = (Inr (), pushed_table L s (map v [0..<nitems r]) w)"
proof -
  let ?w = "setst L (s @ [LTable (fresh w)])
      (w\<lparr>tabs := (tabs w)(fresh w \<mapsto> empty_table), fresh := Suc (fresh w)\<rparr>)"
  have "push_array L push 0 (nitems r) ?w =
      (Inr (), ?w\<lparr>tabs := (tabs ?w)(fresh w \<mapsto> empty_table\<lparr>arr := map v [0..<0 + nitems r]\<rparr>)\<rparr>)"
    by (rule push_array_run [where s = s])
      (use assms in \<open>simp_all add: empty_table_def\<close>)
  then show ?thesis
    using assms(2) by (simp add: push_table_def lua_createtable_def lua_run pushed_table_def table_of_def)
qed

section \<open>From a table to the library\<close>

lemma read_array_run:
  assumes "stacks w L = Some s" and "tab_at w s 3 = Some t" and "tabs w t = Some tb"
    and "represents tb xs"
    and rd: "\<And>x. x \<in> set xs \<Longrightarrow> rd (setst L (s @ [x]) w) = (Inr (g x), setst L (s @ [x]) w)"
    and "i + k = length xs" and "length xs < 2 ^ 31"
  shows "read_array L rd i k w = (Inr (map g (drop i xs)), w)"
  using assms(6)
proof (induction k arbitrary: i)
  case 0
  then show ?case by simp
next
  case (Suc k)
  then have i: "i < length xs" by simp
  have "tget tb (int i + 1) = xs ! i"
    by (rule tget_represents [OF assms(4) i])
  then show ?case
    using Suc assms(1-3,7) rd [OF nth_mem [OF i]] Cons_nth_drop_Suc [OF i]
    by (simp add: lua_rawgeti_def lua_run setst_same) (metis list.simps(9))
qed

lemma array_args_run:
  assumes "mtables_ok E" and "border_ok E"
    and "stacks w L = Some [LUserdata u, LString name, LTable t]"
    and "uds w u = Some (wrapper NVLIST_METATABLE p)" and "p \<noteq> 0" and "error_of E w p = 0"
    and "tabs w t = Some tb" and "represents tb xs" and "xs \<noteq> []"
    and "rc (reply E ((''nvlist_error'', [APtr p]) # trace w) (''malloc'', [AInt (to_size_t (int (length xs) * sz))])) = a"
    and "a \<noteq> 0"
  shows "array_args E L sz w = (Inr (p, cstr name, length xs, a),
    w\<lparr>trace := (''malloc'', [AInt (to_size_t (int (length xs) * sz))]) # (''nvlist_error'', [APtr p]) # trace w\<rparr>)"
  using assms border_represents [OF assms(2,8)]
  by (simp add: array_args_def luaL_checktype_def luaL_len_def luaL_argcheck_def lua_run tab_at_def
      checknvlist_run [where p = p and s = "[LUserdata u, LString name, LTable t]"] ud_at_def)

section \<open>Numbers\<close>

lemma uint64_roundtrip: "in_lua_Integer i \<Longrightarrow> to_lua_Integer (to_size_t i) = i"
  by (simp add: in_lua_Integer_def to_lua_Integer_def to_size_t_def signed_take_bit_take_bit
      signed_take_bit_int_eq_self)

text \<open>
  What \<^verbatim>\<open>nv(9)\<close> promises: after \<^verbatim>\<open>nvlist_move_number_array\<close> has stored an array without putting the list
  into an error state, and with only queries since, the name exists with that type and the array that
  is returned for it is the one stored.
\<close>

definition stores_number_arrays :: "env \<Rightarrow> bool" where
  "stores_number_arrays E \<longleftrightarrow> (\<forall>tr0 p name a vs qs.
     let tr = (''nvlist_move_number_array'', APtr p # AStr name # AInt a # map AInt vs) # tr0;
         r = reply E (qs @ tr) (''nvlist_get_number_array'', [APtr p, AStr name]) in
     rc (reply E tr (''nvlist_error'', [APtr p])) = 0 \<longrightarrow>
     fst ` set qs \<subseteq> {''nvlist_error'', ''nvlist_exists_type''} \<longrightarrow> length vs < 2 ^ 31 \<longrightarrow>
     rc (reply E (qs @ tr) (''nvlist_exists_type'', [APtr p, AStr name, AInt (const E ''NV_TYPE_NUMBER_ARRAY'')])) \<noteq> 0
     \<and> outi r 0 = int (length vs) \<and> (\<forall>i < length vs. outi r (Suc i) = vs ! i))"

lemma stores_number_arraysD:
  assumes "stores_number_arrays E"
    and "tr = (''nvlist_move_number_array'', APtr p # AStr name # AInt a # map AInt vs) # tr0"
    and "rc (reply E tr (''nvlist_error'', [APtr p])) = 0"
    and "fst ` set qs \<subseteq> {''nvlist_error'', ''nvlist_exists_type''}" and "length vs < 2 ^ 31"
  shows "rc (reply E (qs @ tr) (''nvlist_exists_type'', [APtr p, AStr name, AInt (const E ''NV_TYPE_NUMBER_ARRAY'')])) \<noteq> 0"
    and "outi (reply E (qs @ tr) (''nvlist_get_number_array'', [APtr p, AStr name])) 0 = int (length vs)"
    and "i < length vs \<Longrightarrow>
      outi (reply E (qs @ tr) (''nvlist_get_number_array'', [APtr p, AStr name])) (Suc i) = vs ! i"
  using assms unfolding stores_number_arrays_def Let_def by simp_all

lemma add_number_array_run:
  assumes "mtables_ok E" and "border_ok E"
    and "stacks w L = Some [LUserdata u, LString name, LTable t]"
    and "uds w u = Some (wrapper NVLIST_METATABLE p)" and "p \<noteq> 0" and "error_of E w p = 0"
    and "tabs w t = Some tb" and "represents tb (map LInteger ns)" and "ns \<noteq> []" and "length ns < 2 ^ 31"
    and "rc (reply E ((''nvlist_error'', [APtr p]) # trace w) (''malloc'', [AInt (8 * int (length ns))])) = a"
    and "a \<noteq> 0"
  shows "l_nvlist_add_number_array E L w = (Inr 0, w\<lparr>trace :=
      (''nvlist_move_number_array'', APtr p # AStr (cstr name) # AInt a # map AInt (map to_size_t ns)) #
      (''malloc'', [AInt (8 * int (length ns))]) # (''nvlist_error'', [APtr p]) # trace w\<rparr>)"
proof -
  let ?w = "w\<lparr>trace := (''malloc'', [AInt (8 * int (length ns))]) # (''nvlist_error'', [APtr p]) # trace w\<rparr>"
  have sz: "to_size_t (int (length ns) * 8) = 8 * int (length ns)"
    using assms(10) by (simp add: to_size_t_id)
  have args: "array_args E L 8 w = (Inr (p, cstr name, length ns, a), ?w)"
    using array_args_run [OF assms(1-8), where sz = 8 and a = a] assms(9,11,12) sz by simp
  have "read_array L (lua_tointeger E L (-1)) 0 (length ns) ?w =
      (Inr (map (\<lambda>x. case x of LInteger i \<Rightarrow> i) (drop 0 (map LInteger ns))), ?w)"
    by (rule read_array_run [where s = "[LUserdata u, LString name, LTable t]" and t = t and tb = tb])
      (use assms in \<open>auto simp: tab_at_def lua_run at_def pos_def\<close>)
  then have "read_array L (lua_tointeger E L (-1)) 0 (length ns) ?w = (Inr ns, ?w)"
    by (simp add: comp_def)
  with args show ?thesis
    by (simp add: l_nvlist_add_number_array_def lua_run comp_def)
qed

lemma get_number_array_run:
  assumes "mtables_ok E" and "stacks w L = Some [LUserdata u, LString name]"
    and "uds w u = Some (wrapper NVLIST_METATABLE p)" and "p \<noteq> 0" and "error_of E w p = 0"
  defines "q \<equiv> (''nvlist_exists_type'', [APtr p, AStr (cstr name), AInt (const E ''NV_TYPE_NUMBER_ARRAY'')])"
    and "c \<equiv> (''nvlist_get_number_array'', [APtr p, AStr (cstr name)])"
    and "tr \<equiv> (''nvlist_error'', [APtr p]) # trace w"
  assumes "rc (reply E tr q) \<noteq> 0" and "nitems (reply E (q # tr) c) < 2 ^ 31"
  shows "NVLIST_GET get_number_array E L w = (Inr 1, pushed_table L [LUserdata u, LString name]
     (map (\<lambda>i. LInteger (to_lua_Integer (item (reply E (q # tr) c) i))) [0..<nitems (reply E (q # tr) c)])
     (w\<lparr>trace := c # q # tr\<rparr>))"
proof -
  have "push_table L (push_number_item L r) r w' = (Inr (), pushed_table L s
      (map (\<lambda>i. LInteger (to_lua_Integer (item r i))) [0..<nitems r]) w')"
    if "stacks w' L = Some s" "nitems r < 2 ^ 31" for r w' s
    using that by (intro push_table_run) (simp_all add: push_number_item_def)
  then show ?thesis
    using assms
    by (simp add: NVLIST_GET_def get_number_array_def checkname_def lua_run luaL_argcheck_def
        checknvlist_run [where p = p and s = "[LUserdata u, LString name]"])
qed


text \<open>A library that remembers the arrays it was given meets the hypothesis.\<close>

fun int_of :: "carg \<Rightarrow> int" where
  "int_of (AInt i) = i"
| "int_of _ = 0"

fun last_array :: "ecall list \<Rightarrow> carg \<Rightarrow> carg \<Rightarrow> int list" where
  "last_array [] p n = []"
| "last_array (c # tr) p n =
     (if fst c = ''nvlist_move_number_array'' \<and> take 2 (snd c) = [p, n] then map int_of (drop 3 (snd c))
      else last_array tr p n)"

definition nv_reply :: "ecall list \<Rightarrow> ecall \<Rightarrow> cres" where
  "nv_reply tr c = (let vs = last_array tr (snd c ! 0) (snd c ! 1) in
     \<lparr>rc = (if fst c = ''nvlist_error'' then 0 else 1),
      outi = (\<lambda>i. if i = 0 then int (length vs) else vs ! (i - 1)), outs = [], outv = (\<lambda>_. [])\<rparr>)"

lemma last_array_queries:
  "fst ` set qs \<subseteq> {''nvlist_error'', ''nvlist_exists_type''} \<Longrightarrow> last_array (qs @ tr) p n = last_array tr p n"
  by (induction qs) auto

lemma stores_number_arrays_env: "stores_number_arrays (env0\<lparr>reply := nv_reply\<rparr>)"
proof -
  have "map int_of (map AInt vs) = vs" for vs
    by (simp add: comp_def)
  then show ?thesis
    by (simp add: stores_number_arrays_def nv_reply_def last_array_queries Let_def)
qed

definition list_and_table :: world where
  "list_and_table = (two_lists [LUserdata 2, LString ''x'', LTable 4])
     \<lparr>tabs := [4 \<mapsto> table_of [LInteger 7, LInteger (-1)]]\<rparr>"


section \<open>Numbers read through a cookie\<close>

lemma excess_bits_small: "i < 2 ^ 53 \<longleftrightarrow> excess_bits i = 0"
proof
  assume "i < 2 ^ 53"
  moreover have "(2::int) ^ 53 \<le> 2 ^ (53 + n)" for n
    by (rule power_increasing) simp_all
  ultimately have "\<not> 2 ^ (53 + n) \<le> i" for n
    by (meson not_less order.strict_trans2)
  then show "excess_bits i = 0"
    by (simp add: excess_bits_def del: power_numeral)
next
  assume "excess_bits i = 0"
  then show "i < 2 ^ 53"
    by (simp add: excess_bits_def upt_conv_Cons split: if_splits)
qed

lemma round_even_near:
  assumes "0 < n"
  shows "2 * \<bar>round_even i n * 2 ^ n - i\<bar> \<le> 2 ^ n"
proof -
  define q r where "q = i div 2 ^ n" and "r = i mod 2 ^ n"
  have i: "i = q * 2 ^ n + r"
    unfolding q_def r_def by (rule div_mult_mod_eq [symmetric])
  have r: "0 \<le> r" "r < 2 ^ n"
    by (simp_all add: r_def)
  show ?thesis
  proof (cases "round_even i n = q")
    case True
    then have "2 * r \<le> 2 ^ n"
      by (auto simp: round_even_def Let_def q_def r_def split: if_splits)
    with True i r show ?thesis by simp
  next
    case False
    then have "round_even i n = q + 1" and "2 ^ n \<le> 2 * r"
      by (auto simp: round_even_def Let_def q_def r_def split: if_splits)
    then have "round_even i n * 2 ^ n - i = 2 ^ n - r"
      using i by (simp add: algebra_simps)
    with r \<open>2 ^ n \<le> 2 * r\<close> show ?thesis by simp
  qed
qed

lemma round_even_exact: "round_even i n * 2 ^ n = i \<longleftrightarrow> 2 ^ n dvd i"
proof
  assume "round_even i n * 2 ^ n = i"
  then show "2 ^ n dvd i" by (metis dvd_triv_right)
next
  assume "2 ^ n dvd i"
  then show "round_even i n * 2 ^ n = i"
    by (simp add: round_even_def Let_def)
qed

text \<open>
  A number that \<^verbatim>\<open>get_number_array\<close> of a cookie pushes is a double: the number itself exactly if its
  \<open>excess_bits\<close> low bits are zero (so always below \<open>2 ^ 53\<close>), and in any case no further from it than
  half a unit in the last place. \<^verbatim>\<open>get_number_array\<close> of a list and \<^verbatim>\<open>take_number_array\<close> of the same cookie
  push the integer.
\<close>

theorem cookie_number_precision:
  "(dbl_integral (uint64_to_dbl i) = Some i \<longleftrightarrow> 2 ^ excess_bits i dvd i)
   \<and> (i < 2 ^ 53 \<longleftrightarrow> excess_bits i = 0)
   \<and> (\<exists>v. dbl_integral (uint64_to_dbl i) = Some v \<and> 2 * \<bar>v - i\<bar> \<le> 2 ^ excess_bits i)"
proof (cases "excess_bits i = 0")
  case True
  moreover from this have "i < 2 ^ 53"
    by (simp only: excess_bits_small)
  ultimately show ?thesis
    by (simp add: uint64_to_dbl_def Let_def dbl_integral_def)
next
  case False
  define v where "v = round_even i (excess_bits i) * 2 ^ excess_bits i"
  have d: "dbl_integral (uint64_to_dbl i) = Some v"
    using False by (simp add: v_def uint64_to_dbl_def Let_def dbl_integral_def)
  show ?thesis
  proof (intro conjI exI [of _ v])
    show "dbl_integral (uint64_to_dbl i) = Some i \<longleftrightarrow> 2 ^ excess_bits i dvd i"
      by (simp only: d option.inject v_def round_even_exact)
    show "i < 2 ^ 53 \<longleftrightarrow> excess_bits i = 0"
      by (rule excess_bits_small)
    show "2 * \<bar>v - i\<bar> \<le> 2 ^ excess_bits i"
      using False round_even_near [of "excess_bits i" i] by (simp only: v_def neq0_conv)
  qed (rule d)
qed

lemma cookie_number_rounds:
  "dbl_integral (uint64_to_dbl (2 ^ 53 + 1)) = Some (2 ^ 53)"
  "dbl_integral (uint64_to_dbl (2 ^ 64 - 1)) = Some (2 ^ 64)"
  by (simp_all add: uint64_to_dbl_def excess_bits_def round_even_def dbl_integral_def Let_def upt_conv_Cons)

lemma checkcookietype_run:
  assumes "stacks w L = Some s" and "cookie_at w s 1 CNVLIST_METATABLE = Inr c"
    and "rc (reply E (trace w) (''cnvlist_type'', [APtr c])) = type"
  shows "checkcookietype E L 1 type w = (Inr c, w\<lparr>trace := (''cnvlist_type'', [APtr c]) # trace w\<rparr>)"
  using assms by (simp add: checkcookietype_def luaL_argcheck_def lua_run)

text \<open>
  The two ways to read an array of numbers through a cookie: \<^verbatim>\<open>get_number_array\<close> makes a table of
  doubles and leaves the array to the list; \<^verbatim>\<open>take_number_array\<close> makes a table of integers in the same
  order and frees the array it was given, once, after the last element was read.
\<close>

theorem cookie_number_arrays:
  assumes "stacks w L = Some [LUserdata u]" and "uds w u = Some (wrapper CNVLIST_METATABLE c)" and "c \<noteq> 0"
    and "rc (reply E (trace w) (''cnvlist_type'', [APtr c])) = const E ''NV_TYPE_NUMBER_ARRAY''"
    and "g = reply E ((''cnvlist_type'', [APtr c]) # trace w) (''cnvlist_get_number_array'', [APtr c])"
    and "k = reply E ((''cnvlist_type'', [APtr c]) # trace w) (''cnvlist_take_number_array'', [APtr c])"
    and "nitems g < 2 ^ 31" and "nitems k < 2 ^ 31"
  shows "l_cnvlist_get_number_array E L w = (Inr 1, pushed_table L [LUserdata u]
        (map (\<lambda>i. LNumber (uint64_to_dbl (item g i))) [0..<nitems g])
        (w\<lparr>trace := (''cnvlist_get_number_array'', [APtr c]) # (''cnvlist_type'', [APtr c]) # trace w\<rparr>))
    \<and> l_cnvlist_take_number_array E L w = (Inr 1, pushed_table L [LUserdata u]
        (map (\<lambda>i. LInteger (to_lua_Integer (item k i))) [0..<nitems k])
        (w\<lparr>trace := (''free'', [AInt (rc k)]) # (''cnvlist_take_number_array'', [APtr c])
          # (''cnvlist_type'', [APtr c]) # trace w\<rparr>))"
proof -
  have c: "cookie_at w [LUserdata u] 1 CNVLIST_METATABLE = Inr c"
    using assms(2,3) by (simp add: cookie_at_def ud_at_def)
  have "push_table L (push_double_item L r) r w' = (Inr (), pushed_table L s
      (map (\<lambda>i. LNumber (uint64_to_dbl (item r i))) [0..<nitems r]) w')"
    "push_table L (push_number_item L r) r w' = (Inr (), pushed_table L s
      (map (\<lambda>i. LInteger (to_lua_Integer (item r i))) [0..<nitems r]) w')"
    if "stacks w' L = Some s" "nitems r < 2 ^ 31" for r w' s
    using that by (auto intro!: push_table_run simp: push_double_item_def push_number_item_def)
  then show ?thesis
    using assms checkcookietype_run [OF assms(1) c assms(4)]
    by (simp add: l_cnvlist_get_number_array_def l_cnvlist_take_number_array_def lua_run pushed_table_def)
qed

text \<open>A cookie at 5, of a pair with two numbers, one of which is no double.\<close>

definition cookie_env :: env where
  "cookie_env = env0\<lparr>reply := (\<lambda>tr c. \<lparr>rc = 1, outi = (\<lambda>i. [2, 2 ^ 53 + 1, 4] ! i), outs = [],
     outv = (\<lambda>_. [])\<rparr>)\<rparr>"

theorem cookie_number_arrays_witness:
  "fst (l_cnvlist_get_number_array cookie_env 1 ((world0 [1 \<mapsto> [LUserdata 2]])
      \<lparr>uds := [2 \<mapsto> wrapper CNVLIST_METATABLE 5]\<rparr>)) = Inr 1
   \<and> map (\<lambda>i. LNumber (uint64_to_dbl (item (reply cookie_env [] (''x'', [])) i))) [0..<2]
      = [LNumber (Fin (2 ^ 52) 1), LNumber (Fin 4 0)]"
  using cookie_number_arrays [of "(world0 [1 \<mapsto> [LUserdata 2]])\<lparr>uds := [2 \<mapsto> wrapper CNVLIST_METATABLE 5]\<rparr>"
      1 2 5 cookie_env, OF _ _ _ _ refl refl]
  by (simp add: cookie_env_def nitems_def to_size_t_def item_def uint64_to_dbl_def excess_bits_def
      round_even_def Let_def upt_conv_Cons)

section \<open>Arrays of lists\<close>

text \<open>The first round of the two loops, for a table whose first element wraps a list.\<close>

lemma list_loops:
  assumes "mtables_ok E" and "stacks w L = Some s" and "tab_at w s 3 = Some t" and "tabs w t = Some tb"
    and "represents tb (LUserdata v # xs)" and "uds w v = Some d" and "meta d = Some m"
  shows "m = NVLIST_METATABLE \<Longrightarrow> fst (move_nvlist_loop E L a [] 0 (Suc k) w) = Inl Undef"
    and "m = CONST_NVLIST_METATABLE \<Longrightarrow> fst (add_nvlist_loop E L a 0 (Suc k) w) = Inl Undef"
    and "m \<noteq> NVLIST_METATABLE \<Longrightarrow> fst (move_nvlist_loop E L a [] 0 (Suc k) w) = Inl (ArgError 3 ''nvlists expected'')"
    and "m \<noteq> CONST_NVLIST_METATABLE \<Longrightarrow> fst (add_nvlist_loop E L a 0 (Suc k) w) = Inl (ArgError 3 ''nvlists expected'')"
proof -
  have get: "tget tb 1 = LUserdata v"
    using tget_represents [OF assms(5), of 0] by simp
  have at: "at (s @ [x, a, b, c]) (-1) = Some c" "at (s @ [x, a, b, c]) (-2) = Some b"
      "at (s @ [x, a, b, c]) (-3) = Some a" for x a b c
    by (simp_all add: at_def pos_def nth_append)
  have at3: "at (s @ [a, b, c]) (-1) = Some c" "at (s @ [a, b, c]) (-2) = Some b" for a b c
    by (simp_all add: at_def pos_def nth_append)
  have ne: "CONST_NVLIST_METATABLE \<noteq> NVLIST_METATABLE"
    by (simp add: NVLIST_METATABLE_def CONST_NVLIST_METATABLE_def)
  show "m = NVLIST_METATABLE \<Longrightarrow> fst (move_nvlist_loop E L a [] 0 (Suc k) w) = Inl Undef"
    and "m = CONST_NVLIST_METATABLE \<Longrightarrow> fst (add_nvlist_loop E L a 0 (Suc k) w) = Inl Undef"
    and "m \<noteq> NVLIST_METATABLE \<Longrightarrow> fst (move_nvlist_loop E L a [] 0 (Suc k) w) = Inl (ArgError 3 ''nvlists expected'')"
    and "m \<noteq> CONST_NVLIST_METATABLE \<Longrightarrow> fst (add_nvlist_loop E L a 0 (Suc k) w) = Inl (ArgError 3 ''nvlists expected'')"
    using assms get ne
    by (simp_all add: getnvlist_def getanynvlist_def lua_getmetatable_def lua_rawequal_def getcookie_def
        lua_getiuservalue_def lua_rawgeti_def lua_run at at3 mtable_eq ud_at_def)
qed

text \<open>
  No array of lists can be stored. With a table whose first element is a list that Lua owns,
  \<^verbatim>\<open>move_nvlist_array\<close> reads the user value of a metatable instead of that of the element (undefined
  behaviour), because \<^verbatim>\<open>getnvlist\<close> uses the index -1 again after it has pushed; and
  \<^verbatim>\<open>add_nvlist_array\<close> refuses it. With a list inside another list it is the other way round.
\<close>

theorem nvlist_arrays_unusable:
  assumes "mtables_ok E" and "border_ok E"
    and "stacks w L = Some [LUserdata u, LString name, LTable t]"
    and "uds w u = Some (wrapper NVLIST_METATABLE p)" and "p \<noteq> 0" and "error_of E w p = 0"
    and "tabs w t = Some tb" and "represents tb (LUserdata v # xs)"
    and "rc (reply E ((''nvlist_error'', [APtr p]) # trace w)
      (''malloc'', [AInt (to_size_t (int (length (LUserdata v # xs)) * 8))])) \<noteq> 0"
    and "uds w v = Some d" and "meta d = Some m" and "m = NVLIST_METATABLE \<or> m = CONST_NVLIST_METATABLE"
  shows "fst (l_nvlist_move_nvlist_array E L w) =
      (if m = NVLIST_METATABLE then Inl Undef else Inl (ArgError 3 ''nvlists expected''))
    \<and> fst (l_nvlist_add_nvlist_array E L w) =
      (if m = CONST_NVLIST_METATABLE then Inl Undef else Inl (ArgError 3 ''nvlists expected''))"
proof -
  obtain a where a: "rc (reply E ((''nvlist_error'', [APtr p]) # trace w)
      (''malloc'', [AInt (to_size_t (int (length (LUserdata v # xs)) * 8))])) = a" "a \<noteq> 0"
    using assms(9) by blast
  let ?w = "w\<lparr>trace := (''malloc'', [AInt (to_size_t (int (length (LUserdata v # xs)) * 8))])
    # (''nvlist_error'', [APtr p]) # trace w\<rparr>"
  have args: "array_args E L 8 w = (Inr (p, cstr name, Suc (length xs), a), ?w)"
    using array_args_run [OF assms(1-8) _ a] by simp
  have loops: "fst (lbind (move_nvlist_loop E L a [] 0 (Suc (length xs))) f ?w) =
      (if m = NVLIST_METATABLE then Inl Undef else Inl (ArgError 3 ''nvlists expected''))"
    "fst (lbind (add_nvlist_loop E L a 0 (Suc (length xs))) f ?w) =
      (if m = CONST_NVLIST_METATABLE then Inl Undef else Inl (ArgError 3 ''nvlists expected''))"
    for f :: "addr list \<Rightarrow> nat lua"
    using list_loops [OF assms(1), of ?w L "[LUserdata u, LString name, LTable t]" t tb v xs d m a "length xs"] assms
    by (auto simp: lbind_error tab_at_def)
  show ?thesis
    using args loops
    by (simp add: l_nvlist_move_nvlist_array_def l_nvlist_add_nvlist_array_def lbind_value)
qed

definition nested_world :: "string \<Rightarrow> world" where
  "nested_world m = (two_lists [LUserdata 2, LString ''x'', LTable 4])
     \<lparr>tabs := [4 \<mapsto> table_of [LUserdata 3]], uds := [2 \<mapsto> wrapper NVLIST_METATABLE 5, 3 \<mapsto> wrapper m 6]\<rparr>"

theorem nvlist_arrays_unusable_witness:
  "fst (l_nvlist_move_nvlist_array env0 1 (nested_world NVLIST_METATABLE)) =
      (if NVLIST_METATABLE = NVLIST_METATABLE then Inl Undef else Inl (ArgError 3 ''nvlists expected''))
    \<and> fst (l_nvlist_add_nvlist_array env0 1 (nested_world NVLIST_METATABLE)) =
      (if NVLIST_METATABLE = CONST_NVLIST_METATABLE then Inl Undef else Inl (ArgError 3 ''nvlists expected''))"
  by (rule nvlist_arrays_unusable [where u = 2 and name = "''x''" and t = 4 and p = 5 and v = 3 and xs = "[]"
        and tb = "table_of [LUserdata 3]" and d = "wrapper NVLIST_METATABLE 6"])
    (simp_all add: mtables_ok_env0 border_ok_env0 nested_world_def table_of_def represents_arr error_of_def)

end
