(* ===== verification/Nv_Walk.thy ===== *)
theory Nv_Walk
  imports Nv_Arrays
begin

text \<open>
  Walking a list with \<^verbatim>\<open>next\<close>, and the references that keep the list of a nested list alive.
\<close>

section \<open>next\<close>

lemma nv_next_first:
  assumes "stacks w L = Some [LUserdata u]" and "u < fresh w"
    and "r = reply E (trace w) (''nvlist_next'', [APtr p, APtr 0])" and "rc r \<noteq> 0"
  shows "nv_next E L p w = (Inr 3,
    setst L [LUserdata u, LUserdata (fresh w), LString (outs r), LInteger (outi r 0)]
      (w\<lparr>uds := (uds w)(fresh w \<mapsto> wrapper CNVLIST_METATABLE 0), fresh := Suc (fresh w),
        trace := (''nvlist_next'', [APtr p, APtr 0]) # trace w\<rparr>))"
proof -
  have at: "at [LUserdata u, LUserdata (fresh w)] 1 = Some (LUserdata u)"
    "at [LUserdata u, LUserdata (fresh w), v] 2 = Some (LUserdata (fresh w))" for v
    by simp_all
  have uv: "set_uv REF v (wrapper m q) = wrapper m q" for v m q
    by (simp add: set_uv_def REF_def wrapper_def)
  show ?thesis
    using assms
    by (simp add: nv_next_def isnoneornil_def luaL_checktype_def setref_def lua_pushvalue_def
        lua_setiuservalue_def lua_run ud_at_def at uv fun_upd_idem)
qed

lemma expired_cookie:
  assumes "stacks w L = Some s" and "at s i = Some (LUserdata c)" and "1 \<le> i"
    and "uds w c = Some (wrapper m 0)"
  shows "checkcookie L i m w = (Inl (ArgError i ''cookie expired''), w)"
proof -
  have "wraps w s i m 0"
    using assms(2,4) by simp
  then show ?thesis
    using checkcookienull_run [OF assms(1)] by (simp add: checkcookie_def luaL_argcheck_def lua_run)
qed

text \<open>
  A walk ends after one pair. The first \<^verbatim>\<open>next\<close> returns a cookie object, the name and the type of the
  first pair; the address of the pair that \<^verbatim>\<open>nvlist_next\<close> stored is not put into the object, so the second
  \<^verbatim>\<open>next\<close> and every method of the cookie fail with \<open>cookie expired\<close>, on any list.
\<close>

theorem walk_ends_after_one_pair:
  assumes "mtables_ok E" and "stacks w L = Some [LUserdata u]"
    and "uds w u = Some (wrapper NVLIST_METATABLE p)" and "p \<noteq> 0" and "u < fresh w"
    and "\<And>tr. rc (reply E tr (''nvlist_error'', [APtr p])) = 0"
    and "r = reply E ((''nvlist_error'', [APtr p]) # trace w) (''nvlist_next'', [APtr p, APtr 0])"
    and "rc r \<noteq> 0"
  shows "\<exists>w1. l_nvlist_next E L w = (Inr 3, w1)
    \<and> stacks w1 L = Some [LUserdata u, LUserdata (fresh w), LString (outs r), LInteger (outi r 0)]
    \<and> fst (l_nvlist_next E L (setst L [LUserdata u, LUserdata (fresh w)] w1)) = Inl (ArgError 2 ''cookie expired'')
    \<and> fst (l_cnvlist_name E L (setst L [LUserdata (fresh w)] w1)) = Inl (ArgError 1 ''cookie expired'')
    \<and> fst (l_cnvlist_get_number E L (setst L [LUserdata (fresh w)] w1)) = Inl (ArgError 1 ''cookie expired'')"
proof -
  define w1 where "w1 = setst L [LUserdata u, LUserdata (fresh w), LString (outs r), LInteger (outi r 0)]
      (w\<lparr>uds := (uds w)(fresh w \<mapsto> wrapper CNVLIST_METATABLE 0), fresh := Suc (fresh w),
        trace := (''nvlist_next'', [APtr p, APtr 0]) # (''nvlist_error'', [APtr p]) # trace w\<rparr>)"
  have chk: "checknvlist E L 1 w' = (Inr p, asked p w')"
    if "stacks w' L = Some (LUserdata u # s)" "uds w' u = uds w u" for w' s
    by (rule checknvlist_run [OF assms(1) that(1)])
      (use that(2) assms in \<open>simp_all add: error_of_def\<close>)
  have "l_nvlist_next E L w = (Inr 3, w1)"
    using assms(2,5,8) nv_next_first [of "asked p w" L u r E p] assms(7)
    by (simp add: l_nvlist_next_def chk lua_run w1_def)
  moreover have "fst (l_nvlist_next E L (setst L [LUserdata u, LUserdata (fresh w)] w1)) =
      Inl (ArgError 2 ''cookie expired'')"
    using assms(5) by (simp add: l_nvlist_next_def chk lua_run nv_next_def isnoneornil_def w1_def
        expired_cookie [where s = "[LUserdata u, LUserdata (fresh w)]" and c = "fresh w"])
  moreover have "checkcookie L 1 CNVLIST_METATABLE (setst L [LUserdata (fresh w)] w1) =
      (Inl (ArgError 1 ''cookie expired''), setst L [LUserdata (fresh w)] w1)"
    by (rule expired_cookie [where s = "[LUserdata (fresh w)]" and c = "fresh w"]) (simp_all add: w1_def)
  ultimately show ?thesis
    by (simp add: l_cnvlist_name_def l_cnvlist_get_number_def checkcookietype_def lua_run)
      (simp add: w1_def)
qed

text \<open>A library whose lists have one boolean \<open>a\<close>.\<close>

definition walk_env :: env where
  "walk_env = env0\<lparr>reply := (\<lambda>tr c. \<lparr>rc = (if fst c = ''nvlist_next'' then 9 else 0), outi = (\<lambda>_. 2),
     outs = ''a'', outv = (\<lambda>_. [])\<rparr>)\<rparr>"

theorem walk_ends_after_one_pair_witness:
  "\<exists>w1. l_nvlist_next walk_env 1 (two_lists [LUserdata 2]) = (Inr 3, w1)
    \<and> stacks w1 1 = Some [LUserdata 2, LUserdata 10, LString ''a'', LInteger 2]
    \<and> fst (l_nvlist_next walk_env 1 (setst 1 [LUserdata 2, LUserdata 10] w1)) = Inl (ArgError 2 ''cookie expired'')
    \<and> fst (l_cnvlist_name walk_env 1 (setst 1 [LUserdata 10] w1)) = Inl (ArgError 1 ''cookie expired'')"
  using walk_ends_after_one_pair [of walk_env "two_lists [LUserdata 2]" 1 2 5, OF _ _ _ _ _ _ refl]
  by (simp add: walk_env_def mtables_ok_env0) blast

section \<open>References\<close>

text \<open>The userdata that \<^verbatim>\<open>newref\<close> makes.\<close>

definition reference :: "string \<Rightarrow> addr \<Rightarrow> lval \<Rightarrow> udata" where
  "reference m p v = \<lparr>meta = Some m, uvs = [LLightuserdata p, v], blk = None\<rparr>"

lemma newref_run [lua_run]:
  assumes "stacks w L = Some s" and "1 \<le> i" and "at s i = Some v"
  shows "newref L i p m w = (Inr 1, setst L (s @ [LUserdata (fresh w)])
    (w\<lparr>uds := (uds w)(fresh w \<mapsto> reference m p v), fresh := Suc (fresh w)\<rparr>))"
proof -
  have "i \<le> int (length s)"
    using assms(3) by (rule contrapos_pp) simp
  with assms at_append [of i s "[LUserdata (fresh w)]"] show ?thesis
    by (simp add: newref_def setcookie_def setref_def lua_newuserdatauv_def luaL_setmetatable_def
        lua_setiuservalue_def lua_pushvalue_def lua_run set_uv_def COOKIE_def REF_def reference_def
        numeral_2_eq_2)
qed

text \<open>
  A nested list is handed to Lua as a reference that keeps the wrapper it was asked of alive, with the
  address in its cookie. For the default value of \<^verbatim>\<open>get_nvlist\<close> that is the wrong wrapper: the reference
  to the default keeps the list alive that does not contain it.
\<close>

lemma get_nvlist_reference:
  assumes "stacks w L = Some [LUserdata u, LString name]"
    and "rc (reply E (trace w) q) \<noteq> 0"
    and "q = (''nvlist_exists_type'', [APtr p, AStr (cstr name), AInt (const E ''NV_TYPE_NVLIST'')])"
    and "r = rc (reply E (q # trace w) (''nvlist_get_nvlist'', [APtr p, AStr (cstr name)]))"
  shows "get_nvlist E L p w = (Inr 1, setst L [LUserdata u, LString name, LUserdata (fresh w)]
    (w\<lparr>uds := (uds w)(fresh w \<mapsto> reference CONST_NVLIST_METATABLE (nat r) (LUserdata u)), fresh := Suc (fresh w),
      trace := (''nvlist_get_nvlist'', [APtr p, AStr (cstr name)]) # q # trace w\<rparr>))"
  using assms
  by (simp add: get_nvlist_def isnoneornil_def checkname_def luaL_argcheck_def lua_run)

lemma get_nvlist_default_reference:
  assumes "mtables_ok E" and "stacks w L = Some [LUserdata u, LString name, LUserdata v]"
    and "uds w v = Some (reference CONST_NVLIST_METATABLE q owner)" and "q \<noteq> 0" and "error_of E w q = 0"
    and "rc (reply E ((''nvlist_error'', [APtr q]) # trace w)
      (''dnvlist_get_nvlist'', [APtr p, AStr (cstr name), APtr q])) = int q"
  shows "get_nvlist E L p w = (Inr 1, setst L [LUserdata u, LString name, LUserdata v, LUserdata (fresh w)]
    (w\<lparr>uds := (uds w)(fresh w \<mapsto> reference CONST_NVLIST_METATABLE q (LUserdata u)), fresh := Suc (fresh w),
      trace := (''dnvlist_get_nvlist'', [APtr p, AStr (cstr name), APtr q]) # (''nvlist_error'', [APtr q]) # trace w\<rparr>))"
proof -
  have "wraps w [LUserdata u, LString name, LUserdata v] 3 CONST_NVLIST_METATABLE q"
    using assms(3) by (simp add: wraps_def ud_at_def reference_def get_uv_def COOKIE_def)
  then have "getanynvlist E L 3 w = (Inr q, w)"
    using getanynvlist_run [OF assms(1,2), of 3 CONST_NVLIST_METATABLE q] by simp
  then show ?thesis
    using assms
    by (simp add: get_nvlist_def isnoneornil_def checkanynvlist_def checkerror_def error_of_def
        luaL_argcheck_def lua_run)
qed

end
