(* ===== verification/Uio.thy ===== *)
theory Uio
  imports Resources
begin

text \<open>
  \<^verbatim>\<open>sys/uio/lua_uio.h\<close> and \<^verbatim>\<open>sys/uio/lua_uio.c\<close>: scattered reads and gathered writes. An array of iovecs is
  its address and its content, the base and the length of each buffer; the buffers themselves are memory
  that libc and the kernel see, so allocating (\<^verbatim>\<open>calloc\<close>, \<^verbatim>\<open>malloc\<close>), filling (\<^verbatim>\<open>memcpy\<close>) and freeing them are
  external calls, and the bytes at an address at some time are the reply (\<open>outs\<close>) to a call \<open>load\<close>.
\<close>

type_synonym iovec = "int \<times> int"

section \<open>lua_uio.h\<close>

fun free_bases :: "env \<Rightarrow> iovec list \<Rightarrow> unit lua" where
  "free_bases E [] = ret ()"
| "free_bases E (v # vs) =
     seq (ccall E ''free'' [AInt (fst v)])
     (free_bases E vs)"

definition freeriovecs :: "env \<Rightarrow> int \<Rightarrow> iovec list \<Rightarrow> unit lua" where
  "freeriovecs E iovs vs =
     seq (free_bases E vs)
    (seq (ccall E ''free'' [AInt iovs])
     (ret ()))"

text \<open>
  The loop of \<^verbatim>\<open>checkriovecs\<close>: \<open>vs\<close> is the array (\<open>n\<close> entries, zero at first), \<open>k\<close> rounds are left. The
  length is written before the buffer is allocated. The element is not popped.
\<close>

fun riovec_loop :: "env \<Rightarrow> lstate \<Rightarrow> int \<Rightarrow> int \<Rightarrow> iovec list \<Rightarrow> nat \<Rightarrow> nat \<Rightarrow> iovec list lua" where
  "riovec_loop E L idx iovs vs i 0 = ret vs"
| "riovec_loop E L idx iovs vs i (Suc k) =
     seq (lua_geti L idx (int i + 1))
    (lbind (lua_isinteger L (-1)) (\<lambda>b.
     if \<not> b then
       seq (freeriovecs E iovs vs)
       (luaL_argerror L idx ''expected iovec buffer lengths'')
     else
       lbind (lua_tointeger E L (-1)) (\<lambda>len.
       let len = to_size_t len in
       lbind (ccall_rc E ''malloc'' [AInt len]) (\<lambda>base.
       if base = 0 then
         seq (freeriovecs E iovs (vs[i := (0, len)]))
         (fatal E L ''malloc'' (const E ''ENOMEM''))
       else riovec_loop E L idx iovs (vs[i := (base, len)]) (Suc i) k))))"

definition checkriovecs :: "env \<Rightarrow> lstate \<Rightarrow> int \<Rightarrow> (int \<times> iovec list) lua" where
  "checkriovecs E L idx =
     seq (luaL_checktype L idx LUA_TTABLE)
    (lbind (luaL_len E L idx) (\<lambda>n.
     lbind (ccall_rc E ''calloc'' [AInt (int n), AInt 16]) (\<lambda>iovs.
     if iovs = 0 then fatal E L ''calloc'' (const E ''ENOMEM'')
     else
       lbind (riovec_loop E L idx iovs (replicate n (0, 0)) 0 n) (\<lambda>vs.
       ret (iovs, vs)))))"

fun push_iovecs :: "env \<Rightarrow> lstate \<Rightarrow> nat \<Rightarrow> iovec list \<Rightarrow> unit lua" where
  "push_iovecs E L i [] = ret ()"
| "push_iovecs E L i (v # vs) =
     lbind (ccall E ''load'' [AInt (fst v), AInt (snd v)]) (\<lambda>r.
     seq (lua_pushstring L (outs r))
    (seq (lua_rawseti L (-2) (int i + 1))
     (push_iovecs E L (Suc i) vs)))"

definition pushriovecs :: "env \<Rightarrow> lstate \<Rightarrow> iovec list \<Rightarrow> unit lua" where
  "pushriovecs E L vs =
     seq (lua_createtable L)
     (push_iovecs E L 0 vs)"

text \<open>
  \<^verbatim>\<open>checkwiovecs\<close> points the iovecs at the Lua strings; the model keeps the strings. Nothing is popped.
\<close>

fun wiovec_loop :: "env \<Rightarrow> lstate \<Rightarrow> int \<Rightarrow> int \<Rightarrow> nat \<Rightarrow> nat \<Rightarrow> string list lua" where
  "wiovec_loop E L idx iovs i 0 = ret []"
| "wiovec_loop E L idx iovs i (Suc k) =
     lbind (lua_geti L idx (int i + 1)) (\<lambda>t.
     if t \<noteq> LUA_TSTRING then
       seq (ccall E ''free'' [AInt iovs])
       (luaL_argerror L idx ''expected strings'')
     else
       lbind (lua_tolstring E L (-1)) (\<lambda>p.
       lbind (wiovec_loop E L idx iovs (Suc i) k) (\<lambda>ps.
       ret ((case p of None \<Rightarrow> [] | Some str \<Rightarrow> str) # ps))))"

definition checkwiovecs :: "env \<Rightarrow> lstate \<Rightarrow> int \<Rightarrow> (int \<times> string list) lua" where
  "checkwiovecs E L idx =
     seq (luaL_checktype L idx LUA_TTABLE)
    (lbind (luaL_len E L idx) (\<lambda>n.
     lbind (ccall_rc E ''calloc'' [AInt (int n), AInt 16]) (\<lambda>iovs.
     if iovs = 0 then fatal E L ''calloc'' (const E ''ENOMEM'')
     else
       lbind (wiovec_loop E L idx iovs 0 n) (\<lambda>ps.
       ret (iovs, ps)))))"

section \<open>lua_uio.c\<close>

text \<open>The iovecs as an argument of a system call.\<close>

definition iovargs :: "iovec list \<Rightarrow> carg list" where
  "iovargs vs = concat (map (\<lambda>(base, len). [AInt base, AInt len]) vs)"

definition l_readv :: "env \<Rightarrow> lstate \<Rightarrow> nat lua" where
  "l_readv E L =
     lbind (checkfd E L 1) (\<lambda>fd.
     lbind (checkriovecs E L 2) (\<lambda>(iovs, vs).
     lbind (ccall E ''readv'' (AInt fd # iovargs vs)) (\<lambda>r.
     if rc r = -1 then
       seq (freeriovecs E iovs vs)
       (fail E L (errno r))
     else
       seq (pushriovecs E L vs)
      (seq (freeriovecs E iovs vs)
      (seq (lua_pushinteger L (rc r))
       (ret 2))))))"

definition l_preadv :: "env \<Rightarrow> lstate \<Rightarrow> nat lua" where
  "l_preadv E L =
     lbind (checkfd E L 1) (\<lambda>fd.
     lbind (luaL_checkinteger E L 3) (\<lambda>offset.
     lbind (checkriovecs E L 2) (\<lambda>(iovs, vs).
     lbind (ccall E ''preadv'' (AInt fd # AInt offset # iovargs vs)) (\<lambda>r.
     if rc r = -1 then
       seq (freeriovecs E iovs vs)
       (fail E L (errno r))
     else
       seq (pushriovecs E L vs)
      (seq (freeriovecs E iovs vs)
      (seq (lua_pushinteger L (rc r))
       (ret 2)))))))"

definition l_writev :: "env \<Rightarrow> lstate \<Rightarrow> nat lua" where
  "l_writev E L =
     lbind (checkfd E L 1) (\<lambda>fd.
     lbind (checkwiovecs E L 2) (\<lambda>(iovs, ps).
     lbind (ccall E ''writev'' (AInt fd # map AStr ps)) (\<lambda>r.
     if rc r = -1 then
       seq (ccall E ''free'' [AInt iovs])
       (fail E L (errno r))
     else
       seq (ccall E ''free'' [AInt iovs])
      (seq (lua_pushinteger L (rc r))
       (ret 1)))))"

definition l_pwritev :: "env \<Rightarrow> lstate \<Rightarrow> nat lua" where
  "l_pwritev E L =
     lbind (checkfd E L 1) (\<lambda>fd.
     lbind (luaL_checkinteger E L 3) (\<lambda>offset.
     lbind (checkwiovecs E L 2) (\<lambda>(iovs, ps).
     lbind (ccall E ''pwritev'' (AInt fd # AInt offset # map AStr ps)) (\<lambda>r.
     if rc r = -1 then
       seq (ccall E ''free'' [AInt iovs])
       (fail E L (errno r))
     else
       seq (ccall E ''free'' [AInt iovs])
      (seq (lua_pushinteger L (rc r))
       (ret 1))))))"

definition l_uio_funcs :: "(string \<times> cfunction) list" where
  "l_uio_funcs =
     [(''readv'', l_readv),
      (''preadv'', l_preadv),
      (''writev'', l_writev),
      (''pwritev'', l_pwritev)]"

definition luaopen_sys_uio :: "env \<Rightarrow> (string \<times> field) list" where
  "luaopen_sys_uio E = luaL_newlib l_uio_funcs @ DEFINE E ''UIO_''
     [''READ'', ''WRITE'', ''USERSPACE'', ''SYSSPACE'', ''NOCOPY'']"

section \<open>Buffers\<close>

lemma releases_free_bases:
  assumes "\<And>x. releases E b S (f x)"
  shows "releases E b (map fst vs @ S) (lbind (free_bases E vs) f)"
proof (induction vs)
  case Nil
  with assms show ?case by (simp del: ret_run)
next
  case (Cons v vs)
  then show ?case by (auto simp: seq_def lbind_assoc intro!: releases_rules)
qed

lemma releases_freeriovecs:
  assumes "\<And>x. releases E b [] (f x)"
  shows "releases E b (map fst vs @ [iovs]) (lbind (freeriovecs E iovs vs) f)"
  unfolding freeriovecs_def seq_def lbind_assoc
  by (rule releases_free_bases) (auto intro!: releases_rules simp: assms)

lemma releases_riovec_loop:
  assumes "length vs = i + k" and "\<And>j. i \<le> j \<Longrightarrow> j < length vs \<Longrightarrow> fst (vs ! j) = 0"
    and "\<And>vs. releases E b (map fst vs @ [iovs]) (f vs)"
  shows "releases E b (map fst vs @ [iovs]) (lbind (riovec_loop E L idx iovs vs i k) f)"
  using assms(1,2)
proof (induction k arbitrary: i vs)
  case 0
  then show ?case by (simp add: assms(3) del: ret_run)
next
  case (Suc k)
  have null: "map fst (vs[i := (0, len)]) = map fst vs" for len
    using Suc.prems by (simp add: map_update list_update_same_conv)
  have next_round: "releases E b (base # map fst vs @ [iovs]) (lbind (riovec_loop E L idx iovs (vs[i := (base, len)]) (Suc i) k) f)"
    for base len
  proof (rule releases_cong)
    show "releases E b (map fst (vs[i := (base, len)]) @ [iovs]) (lbind (riovec_loop E L idx iovs (vs[i := (base, len)]) (Suc i) k) f)"
      by (rule Suc.IH) (use Suc.prems in \<open>auto simp: nth_list_update\<close>)
    show "count_list (map fst (vs[i := (base, len)]) @ [iovs]) p = count_list (base # map fst vs @ [iovs]) p" if "p \<noteq> 0" for p
      using that Suc.prems count_list_update_zero [of i "map fst vs" p base] by (simp add: map_update)
  qed
  have fail: "releases E b (map fst vs @ [iovs]) (lbind (freeriovecs E iovs (vs[i := (0, len)])) g)"
    if "\<And>x. quiet (g x)" for len and g :: "unit \<Rightarrow> 'b lua"
    using releases_freeriovecs [of E b g "vs[i := (0, len)]" iovs] that by (simp add: null releases_quiet)
  have fail': "releases E b (map fst vs @ [iovs]) (lbind (freeriovecs E iovs vs) g)"
    if "\<And>x. quiet (g x)" for g :: "unit \<Rightarrow> 'b lua"
    using that by (intro releases_freeriovecs releases_quiet)
  show ?case
    by (simp add: seq_def lbind_assoc lbind_if Let_def error_bind releases_if releases_lbind_sure releases_alloc
        sure_rules leaves_rules fail fail' next_round del: ret_run throw_run)
qed

lemma releases_push_iovecs:
  assumes "\<And>x. releases E b S (f x)"
  shows "releases E b S (lbind (push_iovecs E L i vs) f)"
  by (induction vs arbitrary: i) (simp_all add: releases_simps assms del: ret_run)

lemma releases_wiovec_loop:
  assumes "\<And>ps. releases E b [iovs] (f ps)"
  shows "releases E b [iovs] (lbind (wiovec_loop E L idx iovs i k) f)"
  using assms
proof (induction k arbitrary: i f)
  case 0
  then show ?case by (simp del: ret_run)
next
  case (Suc k)
  show ?case
    by (simp add: releases_simps Suc del: ret_run throw_run)
qed

lemma releases_checkfd:
  "(\<And>fd. releases E b [] (f fd)) \<Longrightarrow> releases E b [] (lbind (checkfd E L i) f)"
  by (simp add: checkfd_def releases_simps LUA_FILEHANDLE_def del: ret_run)

lemma releases_checkriovecs:
  assumes "\<And>iovs vs. releases E b (map fst vs @ [iovs]) (f (iovs, vs))"
  shows "releases E b [] (lbind (checkriovecs E L i) f)"
proof -
  have "releases E b [iovs] (lbind (riovec_loop E L i iovs (replicate n (0, 0)) 0 n) (\<lambda>vs. f (iovs, vs)))" for iovs n
  proof (rule releases_cong [OF _ releases_riovec_loop [where vs = "replicate n (0, 0)"]])
    show "count_list (map fst (replicate n (0 :: int, 0 :: int)) @ [iovs]) p = count_list [iovs] p" if "p \<noteq> 0" for p
      using that by (induction n) simp_all
  qed (simp_all add: assms)
  then show ?thesis
    by (simp add: checkriovecs_def releases_simps del: ret_run)
qed

lemma releases_checkwiovecs:
  assumes "\<And>iovs ps. releases E b [iovs] (f (iovs, ps))"
  shows "releases E b [] (lbind (checkwiovecs E L i) f)"
  by (simp add: checkwiovecs_def releases_simps releases_wiovec_loop assms del: ret_run)

lemma releases_uio:
  "releases E b [] (l_readv E L)" "releases E b [] (l_preadv E L)"
  "releases E b [] (l_writev E L)" "releases E b [] (l_pwritev E L)"
  by (simp_all add: l_readv_def l_preadv_def l_writev_def l_pwritev_def releases_simps
      releases_checkfd releases_checkriovecs releases_checkwiovecs releases_freeriovecs releases_push_iovecs pushriovecs_def del: ret_run)

text \<open>
  C17. No function of \<^verbatim>\<open>sys.uio\<close> leaks or frees twice: on success, on a failed system call, on a wrong
  argument in the middle of the list and on failed allocations, every block was freed exactly as often
  as it was allocated.
\<close>

theorem uio_frees_all:
  assumes "(name, f) \<in> set l_uio_funcs" and "p \<noteq> 0" and "fst (f E L w) \<noteq> Inl Undef"
  shows "balance E p (trace (snd (f E L w))) = balance E p (trace w)"
proof -
  have "releases E b [] (f E L)" for b
    using assms(1) by (auto simp: l_uio_funcs_def releases_uio)
  then show ?thesis
    by (rule releases_balance [where m = "f E L"]) (rule assms(2,3))+
qed

text \<open>A library whose blocks have the number of calls so far as address, and in which calls succeed.\<close>

definition heap_env :: env where
  "heap_env = env0\<lparr>reply := (\<lambda>tr c. \<lparr>rc = int (length tr) + 1, outi = (\<lambda>_. 0), outs = [], outv = (\<lambda>_. [])\<rparr>)\<rparr>"

definition lengths_world :: world where
  "lengths_world = (world0 [1 \<mapsto> [LInteger 0, LTable 4]])
     \<lparr>tabs := [4 \<mapsto> empty_table\<lparr>arr := [LInteger 3, LString ''x'']\<rparr>]\<rparr>"

theorem uio_frees_all_witness:
  "trace (snd (l_readv heap_env 1 lengths_world)) =
     [(''free'', [AInt 1]), (''free'', [AInt 0]), (''free'', [AInt 2]),
      (''malloc'', [AInt 3]), (''calloc'', [AInt 2, AInt 16])]
   \<and> balance heap_env 2 (trace (snd (l_readv heap_env 1 lengths_world))) = balance heap_env 2 (trace lengths_world)"
proof -
  have run: "fst (l_readv heap_env 1 lengths_world) = Inl (ArgError 2 ''expected iovec buffer lengths'')
    \<and> trace (snd (l_readv heap_env 1 lengths_world)) =
     [(''free'', [AInt 1]), (''free'', [AInt 0]), (''free'', [AInt 2]),
      (''malloc'', [AInt 3]), (''calloc'', [AInt 2, AInt 16])]"
    by (simp add: l_readv_def checkfd_def checkriovecs_def freeriovecs_def luaL_checktype_def luaL_len_def
        lua_rawgeti_def lua_run heap_env_def lengths_world_def tab_at_def tget_def to_int_def
        to_size_t_def numeral_2_eq_2 at_def pos_def)
  then show ?thesis
    using uio_frees_all [of "''readv''" l_readv 2 heap_env 1 lengths_world]
    by (simp add: l_uio_funcs_def)
qed

end
