(* ===== verification/Aio.thy ===== *)
theory Aio
  imports Uio Signal
begin

unbundle bit_operations_syntax

text \<open>
  \<^verbatim>\<open>aio/lua_aio.c\<close>: requests of asynchronous I/O. A request (\<^verbatim>\<open>struct rcaiocb\<close>) is on the C heap, shared by
  reference counting, and carries a state that says who may use its buffer. The kernel works on the
  request by its address; its buffers are C memory (see \<^verbatim>\<open>Uio\<close>).
\<close>

section \<open>Requests\<close>

definition AIOCB_METATABLE :: string where
  "AIOCB_METATABLE = ''struct aiocb''"

definition CB_LOCAL :: int where
  "CB_LOCAL = 1"

definition CB_VECTOR :: int where
  "CB_VECTOR = 2"

text \<open>Access to a request; \<^verbatim>\<open>calloc\<close> of one; the same operations on its count as in \<^verbatim>\<open>refcount.h\<close>.\<close>

definition cb_get :: "addr \<Rightarrow> rcaiocb lua" where
  "cb_get p w = (case cbs w p of None \<Rightarrow> (Inl Undef, w) | Some c \<Rightarrow> (Inr c, w))"

definition cb_put :: "addr \<Rightarrow> (rcaiocb \<Rightarrow> rcaiocb) \<Rightarrow> unit lua" where
  "cb_put p f = lbind (cb_get p) (\<lambda>c w. (Inr (), w\<lparr>cbs := (cbs w)(p \<mapsto> f c)\<rparr>))"

definition zero_cb :: rcaiocb where
  "zero_cb = \<lparr>aio_fildes = 0, aio_offset = 0, aio_buf = 0, aio_nbytes = 0, aio_iovs = [],
     aio_lio_opcode = 0, aio_sigevent = [], aio_flags = 0, aio_state = CB_UNINIT, cb_refs = 0,
     cb_state = CB_UNINIT\<rparr>"

definition cb_calloc :: "env \<Rightarrow> addr lua" where
  "cb_calloc E = lbind (ccall_rc E ''calloc'' []) (\<lambda>ok w.
     (if ok = 0 then (Inr 0, w)
      else (Inr (fresh w), w\<lparr>cbs := (cbs w)(fresh w \<mapsto> zero_cb), fresh := Suc (fresh w)\<rparr>)))"

definition cb_free :: "addr \<Rightarrow> unit lua" where
  "cb_free p w = (if cbs w p = None then (Inl Undef, w) else (Inr (), w\<lparr>cbs := (cbs w)(p := None)\<rparr>))"

definition cb_refcount_init :: "addr \<Rightarrow> refcount \<Rightarrow> unit lua" where
  "cb_refcount_init p v = cb_put p (cb_refs_update (\<lambda>_. v))"

definition cb_refcount_retain :: "addr \<Rightarrow> unit lua" where
  "cb_refcount_retain p = cb_put p (cb_refs_update (\<lambda>r. r + 1))"

definition cb_refcount_release :: "addr \<Rightarrow> bool lua" where
  "cb_refcount_release p = lbind (cb_get p) (\<lambda>c.
     seq (cb_put p (cb_refs_update (\<lambda>r. r - 1)))
     (ret (cb_refs c = 1)))"

text \<open>
  \<^verbatim>\<open>atomic_compare_exchange_strong\<close>: whether the state was the expected one, and the value that it
  leaves in \<^verbatim>\<open>*state\<close>, which is the state found.
\<close>

definition cb_cas :: "addr \<Rightarrow> aiocb_state \<Rightarrow> aiocb_state \<Rightarrow> (bool \<times> aiocb_state) lua" where
  "cb_cas p expected desired =
     lbind (cb_get p) (\<lambda>c.
     if cb_state c = expected then
       seq (cb_put p (cb_state_update (\<lambda>_. desired)))
       (ret (True, cb_state c))
     else ret (False, cb_state c))"

definition rcaiocb_trybeginwrite :: "addr \<Rightarrow> (bool \<times> aiocb_state) lua" where
  "rcaiocb_trybeginwrite p = cb_cas p CB_INIT CB_PENDING"

definition rcaiocb_trybeginread :: "addr \<Rightarrow> (bool \<times> aiocb_state) lua" where
  "rcaiocb_trybeginread p =
     lbind (cb_cas p CB_UNINIT CB_PENDING) (\<lambda>(ok, state).
     if ok then ret (True, state) else rcaiocb_trybeginwrite p)"

definition rcaiocb_trybeginreturn :: "addr \<Rightarrow> (bool \<times> aiocb_state) lua" where
  "rcaiocb_trybeginreturn p = cb_cas p CB_PENDING CB_RETURNING"

definition rcaiocb_rollback :: "addr \<Rightarrow> aiocb_state \<Rightarrow> unit lua" where
  "rcaiocb_rollback p state = cb_put p (cb_state_update (\<lambda>_. state))"

definition rcaiocb_commit :: "addr \<Rightarrow> unit lua" where
  "rcaiocb_commit p =
     seq (cb_put p (aio_state_update (\<lambda>_. CB_INIT)))
     (cb_put p (cb_state_update (\<lambda>_. CB_INIT)))"

definition aiocb_islocal :: "rcaiocb \<Rightarrow> bool" where
  "aiocb_islocal c \<longleftrightarrow> aio_flags c AND CB_LOCAL \<noteq> 0"

definition aiocb_isshared :: "rcaiocb \<Rightarrow> bool" where
  "aiocb_isshared c \<longleftrightarrow> aio_flags c AND CB_LOCAL = 0"

definition aiocb_isvector :: "rcaiocb \<Rightarrow> bool" where
  "aiocb_isvector c \<longleftrightarrow> aio_flags c AND CB_VECTOR \<noteq> 0"

section \<open>Buffers\<close>

text \<open>\<^verbatim>\<open>freeiovecs\<close> is the same function as \<^verbatim>\<open>freeriovecs\<close> of \<^verbatim>\<open>sys/uio/lua_uio.h\<close>.\<close>

definition freeiovecs :: "env \<Rightarrow> int \<Rightarrow> (int \<times> int) list \<Rightarrow> unit lua" where
  "freeiovecs E iov vs =
     seq (free_bases E vs)
    (seq (ccall E ''free'' [AInt iov])
     (ret ()))"

text \<open>
  The loop of \<^verbatim>\<open>checkiovecs\<close>: \<open>vs\<close> is the array (zero at first), \<open>ninit\<close> the number of buffers that were
  given as strings, \<open>k\<close> rounds are left.
\<close>

fun iovec_loop :: "env \<Rightarrow> lstate \<Rightarrow> int \<Rightarrow> int \<Rightarrow> (int \<times> int) list \<Rightarrow> nat \<Rightarrow> nat \<Rightarrow> nat \<Rightarrow> ((int \<times> int) list \<times> nat) lua" where
  "iovec_loop E L idx iov vs ninit i 0 = ret (vs, ninit)"
| "iovec_loop E L idx iov vs ninit i (Suc k) =
     lbind (lua_geti L idx (int i + 1)) (\<lambda>t.
     lbind (if t = LUA_TSTRING then lua_tolstring E L (-1) else ret None) (\<lambda>init.
     lbind (lua_isinteger L (-1)) (\<lambda>isint.
     if t \<noteq> LUA_TSTRING \<and> \<not> isint then
       seq (freeiovecs E iov vs)
       (luaL_argerror L idx ''invalid buffer description'')
     else
       lbind (case init of Some str \<Rightarrow> ret (int (length str))
              | None \<Rightarrow> lbind (lua_tointeger E L (-1)) (\<lambda>n. ret (to_size_t n))) (\<lambda>len.
       lbind (ccall_rc E ''malloc'' [AInt len]) (\<lambda>base.
       if base = 0 then
         seq (freeiovecs E iov vs)
         (fatal E L ''malloc'' (const E ''ENOMEM''))
       else
         lbind (case init of Some str \<Rightarrow> seq (ccall E ''memcpy'' [AInt base, AStr str]) (ret (ninit + 1))
                | None \<Rightarrow> ret ninit) (\<lambda>ninit.
         seq (lua_pop L 1)
         (iovec_loop E L idx iov (vs[i := (base, len)]) ninit (Suc i) k)))))))"

definition checkiovecs :: "env \<Rightarrow> lstate \<Rightarrow> int \<Rightarrow> addr \<Rightarrow> unit lua" where
  "checkiovecs E L idx p =
     seq (luaL_checktype L idx LUA_TTABLE)
    (lbind (luaL_len E L idx) (\<lambda>iovcnt.
     lbind (ccall_rc E ''calloc'' [AInt (int iovcnt), AInt 16]) (\<lambda>iov.
     if iov = 0 then fatal E L ''calloc'' (const E ''ENOMEM'')
     else
       lbind (iovec_loop E L idx iov (replicate iovcnt (0, 0)) 0 0 iovcnt) (\<lambda>(vs, ninit).
       seq (if 0 < ninit then
              if ninit \<noteq> iovcnt then
                seq (freeiovecs E iov vs)
                (luaL_argerror L idx ''invalid buffer description'')
              else rcaiocb_commit p
            else ret ())
       (cb_put p (\<lambda>c. c\<lparr>aio_buf := iov, aio_nbytes := int iovcnt, aio_iovs := vs,
          aio_flags := aio_flags c OR CB_VECTOR\<rparr>))))))"

definition checkbuf :: "env \<Rightarrow> lstate \<Rightarrow> int \<Rightarrow> addr \<Rightarrow> unit lua" where
  "checkbuf E L idx p =
     lbind (lua_type L idx) (\<lambda>t.
     lbind (if t = LUA_TSTRING then lua_tolstring E L idx else ret None) (\<lambda>init.
     lbind (lua_isinteger L idx) (\<lambda>isint.
     if t \<noteq> LUA_TSTRING \<and> \<not> isint then luaL_argerror L idx ''invalid buffer description''
     else
       lbind (case init of Some str \<Rightarrow> ret (int (length str))
              | None \<Rightarrow> lbind (lua_tointeger E L idx) (\<lambda>n. ret (to_size_t n))) (\<lambda>len.
       lbind (ccall_rc E ''malloc'' [AInt len]) (\<lambda>base.
       if base = 0 then fatal E L ''malloc'' (const E ''ENOMEM'')
       else
         seq (case init of Some str \<Rightarrow>
                seq (ccall E ''memcpy'' [AInt base, AStr str])
                (rcaiocb_commit p)
              | None \<Rightarrow> ret ())
         (cb_put p (\<lambda>c. c\<lparr>aio_buf := base, aio_nbytes := len\<rparr>)))))))"

section \<open>Making, sharing and freeing requests\<close>

definition l_aiocb_shared :: "env \<Rightarrow> lstate \<Rightarrow> nat lua" where
  "l_aiocb_shared E L =
     lbind (cb_calloc E) (\<lambda>p.
     if p = 0 then fatal E L ''calloc'' (const E ''ENOMEM'')
     else
       seq (cb_refcount_init p 1)
      (seq (lua_settop L 5)
      (seq (new L p AIOCB_METATABLE)
      (lbind (checkfd E L 1) (\<lambda>fd.
       seq (cb_put p (\<lambda>c. c\<lparr>aio_fildes := fd\<rparr>))
      (lbind (luaL_checkinteger E L 2) (\<lambda>offset.
       seq (cb_put p (\<lambda>c. c\<lparr>aio_offset := offset\<rparr>))
      (lbind (lua_type L 3) (\<lambda>t.
       seq (if t = LUA_TNIL then rcaiocb_commit p
            else if t = LUA_TTABLE then checkiovecs E L 3 p
            else checkbuf E L 3 p)
      (lbind (luaL_optinteger E L 4 0) (\<lambda>opcode.
       seq (cb_put p (\<lambda>c. c\<lparr>aio_lio_opcode := to_int opcode\<rparr>))
      (lbind (lua_type L 5) (\<lambda>t5.
       seq (if t5 \<le> LUA_TNIL then ret ()
            else
              lbind (checksigevent E L 5) (\<lambda>sig.
              cb_put p (\<lambda>c. c\<lparr>aio_sigevent := sig\<rparr>)))
       (ret 1))))))))))))))"

definition l_aiocb_cookie :: "env \<Rightarrow> lstate \<Rightarrow> nat lua" where
  "l_aiocb_cookie E L =
     seq (checkcookieuv L 1 AIOCB_METATABLE)
     (ret 1)"

definition l_aiocb_retain :: "env \<Rightarrow> lstate \<Rightarrow> nat lua" where
  "l_aiocb_retain E L =
     lbind (checklightuserdata L 1) (\<lambda>p.
     lbind (cb_get p) (\<lambda>c.
     seq (luaL_argcheck (aiocb_isshared c) 1 ''aiocb not shareable'')
    (seq (cb_refcount_retain p)
     (new L p AIOCB_METATABLE))))"

definition l_aiocb_eq :: "env \<Rightarrow> lstate \<Rightarrow> nat lua" where
  "l_aiocb_eq E L =
     lbind (checkcookie L 1 AIOCB_METATABLE) (\<lambda>a.
     lbind (checkcookie L 2 AIOCB_METATABLE) (\<lambda>b.
     seq (lua_pushboolean L (a = b))
     (ret 1)))"

text \<open>
  The loop at \<^verbatim>\<open>retry\<close>: it goes on as long as \<^verbatim>\<open>aio_suspend\<close> is interrupted, for ever if it always is
  (then the value is \<open>None\<close>).
\<close>

partial_function (option) suspend_retry :: "env \<Rightarrow> addr \<Rightarrow> ecall list \<Rightarrow> (bool \<times> ecall list) option" where
  "suspend_retry E p tr =
     (let c = (''aio_suspend'', [APtr p, ANull]); r = reply E tr c in
      if rc r = -1 then
        if errno r = const E ''EINTR'' then suspend_retry E p (c # tr)
        else Some (False, c # tr)
      else Some (True, c # tr))"

definition suspend_until_done :: "env \<Rightarrow> addr \<Rightarrow> bool lua" where
  "suspend_until_done E p w = (case suspend_retry E p (trace w) of
      None \<Rightarrow> (Inl NoFuel, w)
    | Some (ok, tr) \<Rightarrow> (Inr ok, w\<lparr>trace := tr\<rparr>))"

text \<open>\<^verbatim>\<open>abort2\<close> ends the process.\<close>

definition finish_io :: "env \<Rightarrow> addr \<Rightarrow> rcaiocb \<Rightarrow> unit lua" where
  "finish_io E p c =
     lbind (ccall_rc E ''aio_cancel'' [AInt (aio_fildes c), APtr p]) (\<lambda>status.
     seq (if status = -1 then throw AssertFailed
          else if status = const E ''AIO_NOTCANCELED'' then
            lbind (suspend_until_done E p) (\<lambda>ok.
            if ok then ret () else throw AssertFailed)
          else ret ())
    (seq (ccall E ''aio_return'' [APtr p])
     (ret ())))"

definition l_aiocb_free :: "env \<Rightarrow> lstate \<Rightarrow> nat lua" where
  "l_aiocb_free E L =
     lbind (checkcookienull L 1 AIOCB_METATABLE) (\<lambda>p.
     if p = 0 then ret 0
     else
       lbind (cb_get p) (\<lambda>c.
       let shared = aiocb_isshared c in
       lbind (if shared then cb_refcount_release p else ret True) (\<lambda>last.
       if \<not> last then ret 0
       else
         seq (if cb_state c = CB_PENDING then finish_io E p c else ret ())
        (seq (if shared \<and> aiocb_isvector c then freeiovecs E (aio_buf c) (aio_iovs c)
              else if shared \<or> aiocb_isvector c then
                seq (ccall E ''free'' [AInt (aio_buf c)]) (ret ())
              else ret ())
        (seq (cb_free p)
        (seq (setcookie L 1 0)
         (ret 0)))))))"

section \<open>Fields\<close>

definition tcopy_row :: "lstate \<Rightarrow> int \<Rightarrow> nat \<Rightarrow> unit lua" where
  "tcopy_row L idx i =
     seq (lua_geti L idx (int i))
     (lua_rawseti L (-2) (int i))"

fun tcopy_loop :: "lstate \<Rightarrow> int \<Rightarrow> nat \<Rightarrow> nat \<Rightarrow> unit lua" where
  "tcopy_loop L idx i 0 = ret ()"
| "tcopy_loop L idx i (Suc k) =
     seq (tcopy_row L idx i)
     (tcopy_loop L idx (Suc i) k)"

definition tcopy :: "env \<Rightarrow> lstate \<Rightarrow> int \<Rightarrow> unit lua" where
  "tcopy E L idx =
     lbind (lua_absindex L idx) (\<lambda>idx.
     lbind (luaL_len E L idx) (\<lambda>len.
     seq (lua_createtable L)
     (tcopy_loop L idx 1 len)))"

definition l_aiocb_index :: "env \<Rightarrow> lstate \<Rightarrow> nat lua" where
  "l_aiocb_index E L =
     lbind (checkcookie L 1 AIOCB_METATABLE) (\<lambda>p.
     lbind (luaL_checkstring E L 2) (\<lambda>field.
     seq (lua_getmetatable E L 1)
    (lbind (lua_getfield L (-1) field) (\<lambda>t.
     if t \<noteq> LUA_TNIL then ret 1
     else
       lbind (cb_get p) (\<lambda>c.
       if field = ''fildes'' then seq (lua_pushinteger L (aio_fildes c)) (ret 1)
       else if field = ''offset'' then seq (lua_pushinteger L (aio_offset c)) (ret 1)
       else if field = ''lio_opcode'' then seq (lua_pushinteger L (aio_lio_opcode c)) (ret 1)
       else if field = ''buf'' then
         if aiocb_isvector c then ret 0
         else if cb_state c \<noteq> CB_INIT then luaL_error L ''buffer not available''
         else
           seq (if aiocb_isshared c then
                  lbind (ccall E ''load'' [AInt (aio_buf c), AInt (aio_nbytes c)]) (\<lambda>r.
                  lua_pushstring L (outs r))
                else seq (getref L 1) (ret ()))
           (ret 1)
       else if field = ''iov'' then
         if \<not> aiocb_isvector c then ret 0
         else if cb_state c \<noteq> CB_INIT then luaL_error L ''buffers not available''
         else
           seq (if aiocb_isshared c then pushriovecs E L (aio_iovs c)
                else
                  seq (getref L 1)
                  (tcopy E L (-1)))
           (ret 1)
       else if field = ''sigevent'' then
         seq (pushsigevent E L (aio_sigevent c))
         (ret 1)
       else ret 0)))))"

section \<open>Submitting and completing\<close>

definition aio_op2 :: "env \<Rightarrow> bool" where
  "aio_op2 E \<longleftrightarrow> const E ''__FreeBSD_version'' > 1500013
     \<or> const E ''__FreeBSD_version'' > 1400508 \<and> const E ''__FreeBSD_version'' < 1500000"

text \<open>A submission: on failure the state before it is restored.\<close>

definition submit :: "env \<Rightarrow> lstate \<Rightarrow> addr \<Rightarrow> aiocb_state \<Rightarrow> string \<Rightarrow> carg list \<Rightarrow> nat lua" where
  "submit E L p state f as =
     lbind (ccall E f as) (\<lambda>r.
     if rc r = -1 then
       seq (rcaiocb_rollback p state)
       (fail E L (errno r))
     else success L)"

definition l_aio_read :: "env \<Rightarrow> lstate \<Rightarrow> nat lua" where
  "l_aio_read E L =
     lbind (checkcookie L 1 AIOCB_METATABLE) (\<lambda>p.
     lbind (luaL_optinteger E L 2 0) (\<lambda>flags.
     lbind (cb_get p) (\<lambda>c.
     seq (luaL_argcheck (aiocb_isshared c) 1 ''const aiocb buffer'')
    (lbind (rcaiocb_trybeginread p) (\<lambda>(ok, state).
     if \<not> ok then luaL_argerror L 1 ''buffer not available''
     else if aiocb_isvector c then submit E L p state ''aio_readv'' [APtr p]
     else if aio_op2 E then submit E L p state ''aio_read2'' [APtr p, AInt (to_int flags)]
     else submit E L p state ''aio_read'' [APtr p])))))"

definition l_aio_write :: "env \<Rightarrow> lstate \<Rightarrow> nat lua" where
  "l_aio_write E L =
     lbind (checkcookie L 1 AIOCB_METATABLE) (\<lambda>p.
     lbind (luaL_optinteger E L 2 0) (\<lambda>flags.
     lbind (rcaiocb_trybeginwrite p) (\<lambda>(ok, state).
     if \<not> ok then luaL_argerror L 1 ''buffer not available''
     else
       lbind (cb_get p) (\<lambda>c.
       if aiocb_isvector c then submit E L p state ''aio_writev'' [APtr p]
       else if aio_op2 E then submit E L p state ''aio_write2'' [APtr p, AInt (to_int flags)]
       else submit E L p state ''aio_write'' [APtr p]))))"

definition l_aio_error :: "env \<Rightarrow> lstate \<Rightarrow> nat lua" where
  "l_aio_error E L =
     lbind (checkcookie L 1 AIOCB_METATABLE) (\<lambda>p.
     lbind (ccall E ''aio_error'' [APtr p]) (\<lambda>r.
     if rc r = -1 then fail E L (errno r)
     else
       seq (lua_pushstring L (strerror E (rc r)))
      (seq (lua_pushinteger L (rc r))
       (ret 2))))"

definition l_aio_return :: "env \<Rightarrow> lstate \<Rightarrow> nat lua" where
  "l_aio_return E L =
     lbind (checkcookie L 1 AIOCB_METATABLE) (\<lambda>p.
     lbind (rcaiocb_trybeginreturn p) (\<lambda>(ok, state).
     if \<not> ok then luaL_argerror L 1 ''buffer not pending''
     else
       lbind (ccall E ''aio_return'' [APtr p]) (\<lambda>r.
       if rc r = -1 then
         lbind (cb_get p) (\<lambda>c.
         seq (rcaiocb_rollback p (aio_state c))
         (fail E L (errno r)))
       else
         seq (rcaiocb_commit p)
        (seq (lua_pushinteger L (rc r))
         (ret 1)))))"

definition l_cancel :: "env \<Rightarrow> lstate \<Rightarrow> nat lua" where
  "l_cancel E L =
     lbind (checkfd E L 1) (\<lambda>fd.
     lbind (ccall E ''aio_cancel'' [AInt fd, ANull]) (\<lambda>r.
     if rc r = -1 then fail E L (errno r)
     else
       seq (lua_pushinteger L (rc r))
       (ret 1)))"

definition l_aio_cancel :: "env \<Rightarrow> lstate \<Rightarrow> nat lua" where
  "l_aio_cancel E L =
     lbind (checkcookie L 1 AIOCB_METATABLE) (\<lambda>p.
     lbind (cb_get p) (\<lambda>c.
     if cb_state c \<noteq> CB_PENDING then luaL_argerror L 1 ''buffer not pending''
     else
       lbind (ccall E ''aio_cancel'' [AInt (aio_fildes c), APtr p]) (\<lambda>r.
       if rc r = -1 then fail E L (errno r)
       else
         seq (lua_pushinteger L (rc r))
         (ret 1))))"

text \<open>The timeout of \<^verbatim>\<open>suspend\<close> and \<^verbatim>\<open>waitcomplete\<close>: seconds at \<open>i\<close>, nanoseconds after it.\<close>

definition timeout_arg :: "env \<Rightarrow> lstate \<Rightarrow> int \<Rightarrow> carg list lua" where
  "timeout_arg E L i =
     lbind (lua_type L i) (\<lambda>t.
     if t \<le> LUA_TNIL then ret [ANull]
     else
       lbind (luaL_checkinteger E L i) (\<lambda>tv_sec.
       lbind (luaL_optinteger E L (i + 1) 0) (\<lambda>tv_nsec.
       ret [AInt tv_sec, AInt tv_nsec])))"

fun suspend_loop :: "lstate \<Rightarrow> nat \<Rightarrow> nat \<Rightarrow> addr list lua" where
  "suspend_loop L i 0 = ret []"
| "suspend_loop L i (Suc k) =
     seq (lua_geti L 1 (int i + 1))
    (lbind (checkcookie L (-1) AIOCB_METATABLE) (\<lambda>p.
     lbind (cb_get p) (\<lambda>c.
     seq (luaL_argcheck (cb_state c = CB_PENDING) 1 ''buffer not pending'')
    (seq (lua_pop L 1)
    (lbind (suspend_loop L (Suc i) k) (\<lambda>ps.
     ret (p # ps)))))))"

definition l_suspend :: "env \<Rightarrow> lstate \<Rightarrow> nat lua" where
  "l_suspend E L =
     seq (luaL_checktype L 1 LUA_TTABLE)
    (lbind (timeout_arg E L 2) (\<lambda>timeoutp.
     lbind (luaL_len E L 1) (\<lambda>niocb.
     seq (lua_newuserdatauv L 0)
    (lbind (suspend_loop L 0 (nat (to_int (int niocb)))) (\<lambda>ps.
     lbind (ccall E ''aio_suspend'' (map APtr ps @ timeoutp)) (\<lambda>r.
     if rc r = -1 then fail E L (errno r)
     else success L))))))"

definition l_aio_suspend :: "env \<Rightarrow> lstate \<Rightarrow> nat lua" where
  "l_aio_suspend E L =
     lbind (checkcookie L 1 AIOCB_METATABLE) (\<lambda>p.
     lbind (cb_get p) (\<lambda>c.
     seq (luaL_argcheck (cb_state c = CB_PENDING) 1 ''buffer not pending'')
    (lbind (timeout_arg E L 2) (\<lambda>timeoutp.
     lbind (ccall E ''aio_suspend'' (APtr p # timeoutp)) (\<lambda>r.
     if rc r = -1 then fail E L (errno r)
     else success L)))))"

definition l_aio_mlock :: "env \<Rightarrow> lstate \<Rightarrow> nat lua" where
  "l_aio_mlock E L =
     lbind (checkcookie L 1 AIOCB_METATABLE) (\<lambda>p.
     lbind (rcaiocb_trybeginwrite p) (\<lambda>(ok, state).
     if \<not> ok then luaL_argerror L 1 ''buffer not available''
     else submit E L p state ''aio_mlock'' [APtr p]))"

definition l_aio_fsync :: "env \<Rightarrow> lstate \<Rightarrow> nat lua" where
  "l_aio_fsync E L =
     lbind (checkcookie L 1 AIOCB_METATABLE) (\<lambda>p.
     lbind (luaL_checkinteger E L 2) (\<lambda>op.
     lbind (rcaiocb_trybeginwrite p) (\<lambda>(ok, state).
     if \<not> ok then luaL_argerror L 1 ''buffer not available''
     else submit E L p state ''aio_fsync'' [AInt (to_int op), APtr p])))"

text \<open>\<^verbatim>\<open>rollback_states\<close>: an entry that is not written yet (\<open>None\<close>) is no address.\<close>

fun rollback_states :: "(addr option \<times> aiocb_state) list \<Rightarrow> unit lua" where
  "rollback_states [] = ret ()"
| "rollback_states ((cb, state) # rest) = (case cb of
      None \<Rightarrow> throw Undef
    | Some p \<Rightarrow>
        seq (rcaiocb_rollback p state)
        (rollback_states rest))"

text \<open>The loop of \<^verbatim>\<open>listio\<close>; \<open>acc\<close> holds the entries made so far, in order.\<close>

fun listio_loop :: "env \<Rightarrow> lstate \<Rightarrow> (addr option \<times> aiocb_state) list \<Rightarrow> nat \<Rightarrow> nat \<Rightarrow> (addr option \<times> aiocb_state) list lua" where
  "listio_loop E L acc i 0 = ret acc"
| "listio_loop E L acc i (Suc k) =
     seq (lua_geti L 2 (int i + 1))
    (lbind (testcookie E L (-1) AIOCB_METATABLE) (\<lambda>p.
     if p = 0 then
       seq (rollback_states acc)
       (luaL_argerror L 2 ''invalid aiocb'')
     else
       lbind (cb_get p) (\<lambda>c.
       lbind (if aio_lio_opcode c AND const E ''LIO_READ'' = 0 then rcaiocb_trybeginwrite p
              else rcaiocb_trybeginread p) (\<lambda>(pending, state).
       if \<not> pending then
         seq (rollback_states (acc @ [(None, state)]))
         (luaL_argerror L 2 ''buffer not initialized'')
       else
         seq (lua_pop L 1)
         (listio_loop E L (acc @ [(Some p, state)]) (Suc i) k)))))"

definition l_lio_listio :: "env \<Rightarrow> lstate \<Rightarrow> nat lua" where
  "l_lio_listio E L =
     lbind (luaL_checkinteger E L 1) (\<lambda>mode.
     seq (luaL_checktype L 3 LUA_TTABLE)
    (lbind (lua_type L 4) (\<lambda>t.
     lbind (if t \<le> LUA_TNIL then ret [ANull]
            else lbind (checksigevent E L 4) (\<lambda>sig. ret (sigargs sig))) (\<lambda>sigp.
     lbind (luaL_len E L 2) (\<lambda>nent.
     seq (lua_newuserdatauv L 0)
    (lbind (listio_loop E L [] 0 (nat (to_int (int nent)))) (\<lambda>acc.
     lbind (ccall E ''lio_listio'' (AInt (to_int mode) # map (\<lambda>(p, _). APtr (the p)) acc @ sigp)) (\<lambda>r.
     if rc r = -1 then
       seq (rollback_states acc)
       (fail E L (errno r))
     else success L))))))))"

text \<open>
  The reply of \<^verbatim>\<open>aio_waitcomplete\<close>: the result, \<^verbatim>\<open>errno\<close>, and the address of the request that completed as
  the second out-value (0 where \<^verbatim>\<open>cb\<close> stays \<^verbatim>\<open>NULL\<close>).
\<close>

definition l_aio_waitcomplete :: "env \<Rightarrow> lstate \<Rightarrow> nat lua" where
  "l_aio_waitcomplete E L =
     lbind (timeout_arg E L 1) (\<lambda>timeoutp.
     lbind (ccall E ''aio_waitcomplete'' timeoutp) (\<lambda>r.
     let p = nat (outi r 1) in
     if rc r = -1 \<and> p = 0 then fail E L (errno r)
     else
       lbind (cb_get p) (\<lambda>c.
       if aiocb_islocal c then luaL_error L ''TODO''
       else
         seq (cb_refcount_retain p)
        (seq (new L p AIOCB_METATABLE)
         (if rc r = -1 then
            lbind (cb_get p) (\<lambda>c.
            seq (rcaiocb_rollback p (aio_state c))
           (seq (fail E L (errno r))
            (ret 4)))
          else
            seq (rcaiocb_commit p)
           (seq (lua_pushinteger L (rc r))
            (ret 2)))))))"

section \<open>The module\<close>

definition l_aio_funcs :: "(string \<times> cfunction) list" where
  "l_aio_funcs =
     [(''cancel'', l_cancel),
      (''suspend'', l_suspend),
      (''listio'', l_lio_listio),
      (''waitcomplete'', l_aio_waitcomplete)]"

definition l_aiocb_funcs :: "(string \<times> cfunction) list" where
  "l_aiocb_funcs =
     [(''shared'', l_aiocb_shared),
      (''retain'', l_aiocb_retain)]"

definition l_aiocb_meta :: "(string \<times> cfunction) list" where
  "l_aiocb_meta =
     [(''__close'', l_aiocb_free),
      (''__eq'', l_aiocb_eq),
      (''__gc'', l_aiocb_free),
      (''__index'', l_aiocb_index),
      (''cookie'', l_aiocb_cookie),
      (''read'', l_aio_read),
      (''write'', l_aio_write),
      (''error'', l_aio_error),
      (''_return'', l_aio_return),
      (''cancel'', l_aio_cancel),
      (''suspend'', l_aio_suspend),
      (''mlock'', l_aio_mlock),
      (''fsync'', l_aio_fsync)]"

definition luaopen_aio ::
  "env \<Rightarrow> (string \<times> (string \<times> cfunction) list) \<times> (string \<times> field) list" where
  "luaopen_aio E =
     ((AIOCB_METATABLE, l_aiocb_meta),
      luaL_newlib l_aio_funcs @ [(''aiocb'', Sub (luaL_newlib l_aiocb_funcs))] @ DEFINE E []
        [''AIO_CANCELED'', ''AIO_NOTCANCELED'', ''AIO_ALLDONE'', ''LIO_NOP'', ''LIO_WRITE'', ''LIO_READ'',
         ''LIO_VECTORED'', ''LIO_WRITEV'', ''LIO_READV'', ''LIO_FOFFSET'', ''AIO_OP2_FOFFSET'',
         ''AIO_OP2_VECTORED'', ''LIO_NOWAIT'', ''LIO_WAIT'', ''AIO_LISTIO_MAX''])"

end
