(* ===== verification/Aio_State.thy ===== *)
theory Aio_State
  imports Aio
begin

text \<open>
  The states of asynchronous requests. Between any two calls of the module no request is half way
  through \<^verbatim>\<open>aio_return\<close>, and the state saved in a request is the state to go back to.
\<close>

section \<open>The invariant\<close>

definition request_ok :: "rcaiocb \<Rightarrow> bool" where
  "request_ok c \<longleftrightarrow> (aio_state c = CB_UNINIT \<or> aio_state c = CB_INIT)
     \<and> (cb_state c = CB_PENDING \<or> cb_state c = aio_state c)"

text \<open>All requests are in order, and those of \<open>S\<close> were in the given state before submission.\<close>

definition saved :: "(addr \<times> aiocb_state) set \<Rightarrow> (addr \<Rightarrow> rcaiocb option) \<Rightarrow> bool" where
  "saved S h \<longleftrightarrow> (\<forall>p c. h p = Some c \<longrightarrow> request_ok c \<and> (\<forall>st. (p, st) \<in> S \<longrightarrow> aio_state c = st))"

abbreviation requests_ok :: "(addr \<Rightarrow> rcaiocb option) \<Rightarrow> bool" where
  "requests_ok \<equiv> saved {}"

lemma saved_ok: "saved S h \<Longrightarrow> requests_ok h"
  by (auto simp: saved_def)

definition protects :: "((addr \<Rightarrow> rcaiocb option) \<Rightarrow> bool) \<Rightarrow> 'a lua \<Rightarrow> bool" where
  "protects P m \<longleftrightarrow> (\<forall>w. P (cbs w) \<longrightarrow> requests_ok (cbs (snd (m w))))"

named_theorems protects_rules \<open>computations after which all requests are in order\<close>

lemma protects_leaves: "leaves cbs m \<Longrightarrow> protects (saved S) m"
  by (auto simp: protects_def leaves_def saved_ok)

lemma protects_lbind_leaves: "leaves cbs m \<Longrightarrow> (\<And>a. protects (saved S) (f a)) \<Longrightarrow> protects (saved S) (lbind m f)"
  by (auto simp: protects_def leaves_def lbind_def split: prod.splits sum.splits)
    (metis saved_ok snd_conv, metis snd_conv)

lemma protects_if [protects_rules]:
  "(b \<Longrightarrow> protects P m) \<Longrightarrow> (\<not> b \<Longrightarrow> protects P k) \<Longrightarrow> protects P (if b then m else k)"
  by simp

lemma protects_put [protects_rules]:
  assumes "\<And>c. cb_state (g c) = cb_state c" and "\<And>c. aio_state (g c) = aio_state c"
    and "\<And>x. protects (saved S) (f x)"
  shows "protects (saved S) (lbind (cb_put p g) f)"
  unfolding protects_def
proof (intro allI impI)
  fix w :: world assume ok: "saved S (cbs w)"
  show "requests_ok (cbs (snd (lbind (cb_put p g) f w)))"
  proof (cases "cbs w p")
    case None
    with saved_ok [OF ok] show ?thesis by (simp add: cb_put_def cb_get_def lbind_def)
  next
    case (Some c)
    have "saved S ((cbs w)(p \<mapsto> g c))"
      using ok Some assms(1,2) by (auto simp: saved_def request_ok_def)
    with assms(3) Some show ?thesis
      by (simp add: cb_put_def cb_get_def lbind_def protects_def)
  qed
qed

lemma protects_get [protects_rules]:
  "(\<And>c. protects (saved S) (f c)) \<Longrightarrow> protects (saved S) (lbind (cb_get p) f)"
  by (rule protects_lbind_leaves) (simp_all add: leaves_def cb_get_def split: option.split)

lemma protects_cas [protects_rules]:
  assumes "e = CB_UNINIT \<or> e = CB_INIT"
    and "protects (saved (insert (p, e) S)) (f (True, e))" and "\<And>st. protects (saved S) (f (False, st))"
  shows "protects (saved S) (lbind (cb_cas p e CB_PENDING) f)"
  unfolding protects_def
proof (intro allI impI)
  fix w :: world assume ok: "saved S (cbs w)"
  show "requests_ok (cbs (snd (lbind (cb_cas p e CB_PENDING) f w)))"
  proof (cases "\<exists>c. cbs w p = Some c \<and> cb_state c = e")
    case True
    then obtain c where c: "cbs w p = Some c" "cb_state c = e" by blast
    moreover have "request_ok c" using ok c(1) by (simp add: saved_def)
    ultimately have "saved (insert (p, e) S) ((cbs w)(p \<mapsto> c\<lparr>cb_state := CB_PENDING\<rparr>))"
      using ok assms(1) by (auto simp: saved_def request_ok_def)
    with c assms(2) show ?thesis
      by (simp add: cb_cas_def cb_put_def cb_get_def lbind_def seq_def protects_def)
  next
    case False
    with ok saved_ok [OF ok] assms(3) show ?thesis
      by (cases "cbs w p") (auto simp: cb_cas_def cb_get_def lbind_def protects_def)
  qed
qed

lemma protects_tryread [protects_rules]:
  assumes "\<And>st. protects (saved (insert (p, st) S)) (f (True, st))" and "\<And>st. protects (saved S) (f (False, st))"
  shows "protects (saved S) (lbind (rcaiocb_trybeginread p) f)" "protects (saved S) (lbind (rcaiocb_trybeginwrite p) f)"
  using assms
  by (simp_all add: rcaiocb_trybeginread_def rcaiocb_trybeginwrite_def lbind_assoc protects_cas del: ret_run)

lemma protects_rollback [protects_rules]:
  assumes "(p, st) \<in> S" and "\<And>x. protects (saved S) (f x)"
  shows "protects (saved S) (lbind (rcaiocb_rollback p st) f)"
  unfolding protects_def
proof (intro allI impI)
  fix w :: world assume ok: "saved S (cbs w)"
  show "requests_ok (cbs (snd (lbind (rcaiocb_rollback p st) f w)))"
  proof (cases "cbs w p")
    case None
    with saved_ok [OF ok] show ?thesis by (simp add: rcaiocb_rollback_def cb_put_def cb_get_def lbind_def)
  next
    case (Some c)
    have "saved S ((cbs w)(p \<mapsto> c\<lparr>cb_state := st\<rparr>))"
      using ok Some assms(1) by (auto simp: saved_def request_ok_def)
    with assms(2) Some show ?thesis
      by (simp add: rcaiocb_rollback_def cb_put_def cb_get_def lbind_def protects_def)
  qed
qed

lemma protects_commit [protects_rules]:
  assumes "\<And>x. protects (saved {}) (f x)"
  shows "protects (saved {}) (lbind (rcaiocb_commit p) f)"
  unfolding protects_def
proof (intro allI impI)
  fix w :: world assume ok: "requests_ok (cbs w)"
  show "requests_ok (cbs (snd (lbind (rcaiocb_commit p) f w)))"
  proof (cases "cbs w p")
    case None
    with ok show ?thesis by (simp add: rcaiocb_commit_def cb_put_def cb_get_def lbind_def seq_def)
  next
    case (Some c)
    have "requests_ok ((cbs w)(p \<mapsto> c\<lparr>aio_state := CB_INIT, cb_state := CB_INIT\<rparr>))"
      using ok Some by (auto simp: saved_def request_ok_def)
    with assms Some show ?thesis
      by (simp add: rcaiocb_commit_def cb_put_def cb_get_def lbind_def seq_def protects_def)
  qed
qed

lemma protects_free [protects_rules]:
  assumes "\<And>x. protects (saved S) (f x)"
  shows "protects (saved S) (lbind (cb_free p) f)"
  unfolding protects_def
proof (intro allI impI)
  fix w :: world assume ok: "saved S (cbs w)"
  then have "saved S ((cbs w)(p := None))" by (auto simp: saved_def)
  with assms saved_ok [OF ok] show "requests_ok (cbs (snd (lbind (cb_free p) f w)))"
    by (simp add: cb_free_def lbind_def protects_def)
qed

lemma protects_calloc [protects_rules]:
  assumes "\<And>x. protects (saved {}) (f x)"
  shows "protects (saved {}) (lbind (cb_calloc E) f)"
  unfolding protects_def
proof (intro allI impI)
  fix w :: world assume ok: "requests_ok (cbs w)"
  then have "requests_ok ((cbs w)(fresh w \<mapsto> zero_cb))" by (auto simp: saved_def request_ok_def zero_cb_def)
  with assms ok show "requests_ok (cbs (snd (lbind (cb_calloc E) f w)))"
    by (simp add: cb_calloc_def lbind_def ccall_rc_run protects_def)
qed

lemma protects_seq [protects_rules]: "protects P (lbind m (\<lambda>_. k)) \<Longrightarrow> protects P (seq m k)"
  by (simp add: seq_def)

lemma protects_case_prod [protects_rules]:
  "(\<And>x y. v = (x, y) \<Longrightarrow> protects P (f x y)) \<Longrightarrow> protects P (case v of (x, y) \<Rightarrow> f x y)"
  by (cases v) simp

section \<open>What leaves the requests alone\<close>

lemma leaves_cbs_isinteger [leaves_rules]: "leaves cbs (lua_isinteger L i)"
  by (rule cbs_frame.leaves_reads)

lemma leaves_free_bases [leaves_rules]: "leaves cbs (free_bases E vs)"
  by (induction vs) (simp_all add: leaves_rules del: ret_run)

lemma leaves_freeiovecs [leaves_rules]: "leaves cbs (freeiovecs E iov vs)"
  by (simp add: freeiovecs_def leaves_rules)

lemma leaves_case_option [leaves_rules]:
  "leaves get m \<Longrightarrow> (\<And>x. leaves get (f x)) \<Longrightarrow> leaves get (case v of None \<Rightarrow> m | Some x \<Rightarrow> f x)"
  by (cases v) simp_all

lemma leaves_iovec_loop [leaves_rules]: "leaves cbs (iovec_loop E L idx iov vs ninit i k)"
  by (induction k arbitrary: i vs ninit) (simp_all add: leaves_rules)

lemma leaves_cb_get [leaves_rules]: "leaves cbs (cb_get p)"
  by (rule leavesI) (simp add: cb_get_def split: option.split)

lemma leaves_finish_io [leaves_rules]: "leaves cbs (finish_io E p c)"
proof -
  have "leaves cbs (suspend_until_done E p)"
    by (rule leavesI) (simp add: suspend_until_done_def split: option.split prod.split)
  then show ?thesis by (simp add: finish_io_def leaves_rules)
qed

lemma leaves_checksigevent [leaves_rules]: "leaves cbs (checksigevent E L i)"
  by (simp add: checksigevent_def INTFIELD_def leaves_rules)

lemma leaves_pushes [leaves_rules]:
  "leaves cbs (pushsigevent E L sig)" "leaves cbs (push_iovecs E L i vs)" "leaves cbs (pushriovecs E L vs)"
proof -
  show vs: "leaves cbs (push_iovecs E L i vs)" for i
    by (induction vs arbitrary: i) (simp_all add: leaves_rules)
  then show "leaves cbs (pushriovecs E L vs)"
    by (simp add: pushriovecs_def leaves_rules)
qed (simp add: pushsigevent_def push_INTFIELD_def leaves_rules)

lemma leaves_tcopy [leaves_rules]: "leaves cbs (tcopy E L i)"
proof -
  have "leaves cbs (tcopy_loop L i j k)" for i j k
    by (induction k arbitrary: j) (simp_all add: tcopy_row_def leaves_rules)
  then show ?thesis by (simp add: tcopy_def leaves_rules)
qed

lemma leaves_timeout_arg [leaves_rules]: "leaves cbs (timeout_arg E L i)"
  by (simp add: timeout_arg_def leaves_rules)

lemma leaves_suspend_loop [leaves_rules]: "leaves cbs (suspend_loop L i k)"
  by (induction k arbitrary: i) (simp_all add: leaves_rules)

lemma leaves_aio_reads [leaves_rules]:
  "leaves cbs (l_aiocb_cookie E L)" "leaves cbs (l_aiocb_eq E L)" "leaves cbs (l_aiocb_index E L)"
  "leaves cbs (l_aio_error E L)" "leaves cbs (l_cancel E L)" "leaves cbs (l_aio_cancel E L)"
  "leaves cbs (l_suspend E L)" "leaves cbs (l_aio_suspend E L)"
  by (simp_all add: l_aiocb_cookie_def l_aiocb_eq_def l_aiocb_index_def l_aio_error_def l_cancel_def
      l_aio_cancel_def l_suspend_def l_aio_suspend_def leaves_rules)

lemmas protects_simps =
  protects_rules protects_leaves protects_lbind_leaves leaves_rules seq_def lbind_assoc lbind_if error_bind Let_def

section \<open>Every function keeps the invariant\<close>

lemma protects_cb_puts [protects_rules]:
  assumes "\<And>x. protects (saved S) (f x)"
  shows "protects (saved S) (lbind (cb_refcount_init p v) f)"
    "protects (saved S) (lbind (cb_refcount_retain p) f)"
  using assms by (simp_all add: cb_refcount_init_def cb_refcount_retain_def protects_put)

lemma protects_release [protects_rules]:
  assumes "\<And>x. protects (saved S) (f x)"
  shows "protects (saved S) (lbind (cb_refcount_release p) f)"
  by (simp add: cb_refcount_release_def protects_simps assms del: ret_run)

lemma protects_case_option_bind [protects_rules]:
  "(v = None \<Longrightarrow> protects P (lbind m k)) \<Longrightarrow> (\<And>x. v = Some x \<Longrightarrow> protects P (lbind (f x) k)) \<Longrightarrow>
   protects P (lbind (case v of None \<Rightarrow> m | Some x \<Rightarrow> f x) k)"
  by (cases v) simp_all

lemma protects_case_prod_bind [protects_rules]:
  "(\<And>x y. v = (x, y) \<Longrightarrow> protects P (lbind (f x y) k)) \<Longrightarrow> protects P (lbind (case v of (x, y) \<Rightarrow> f x y) k)"
  by (cases v) simp

lemma protects_buffers [protects_rules]:
  assumes "\<And>x. protects (saved {}) (f x)"
  shows "protects (saved {}) (lbind (checkiovecs E L i p) f)" "protects (saved {}) (lbind (checkbuf E L i p) f)"
  unfolding checkiovecs_def checkbuf_def seq_def lbind_assoc
  by (rule protects_rules conjI impI | rule protects_lbind_leaves, (simp add: leaves_rules; fail)
      | rule protects_leaves, (simp add: leaves_rules; fail)
      | simp add: assms lbind_assoc lbind_if error_bind seq_def del: ret_run throw_run)+

lemma protects_mono: "protects (saved S) m \<Longrightarrow> S \<subseteq> T \<Longrightarrow> protects (saved T) m"
  unfolding protects_def saved_def by blast

lemma protects_submit [protects_rules]: "(p, st) \<in> S \<Longrightarrow> protects (saved S) (submit E L p st f as)"
  by (simp add: submit_def protects_simps)

lemma protects_rollback_states [protects_rules]:
  assumes "\<And>p st. (Some p, st) \<in> set acc \<Longrightarrow> (p, st) \<in> S" and "\<And>x. protects (saved S) (f x)"
  shows "protects (saved S) (lbind (rollback_states acc) f)"
  using assms(1)
proof (induction acc)
  case Nil
  with assms(2) show ?case by (simp del: ret_run)
next
  case (Cons a acc)
  obtain cb st where a: "a = (cb, st)" by (cases a)
  with Cons show ?case
    by (cases cb) (simp_all add: protects_simps del: throw_run)
qed

text \<open>\<^verbatim>\<open>_return\<close> passes through a state in which the request is not in order.\<close>

definition returning :: "addr \<Rightarrow> (addr \<Rightarrow> rcaiocb option) \<Rightarrow> bool" where
  "returning p h \<longleftrightarrow> (\<exists>c. h p = Some c \<and> requests_ok (h(p \<mapsto> c\<lparr>cb_state := aio_state c\<rparr>)))"

lemma protects_ccall: "(\<And>r. protects P (g r)) \<Longrightarrow> protects P (lbind (ccall E f as) g)"
  by (simp add: protects_def lbind_def ccall_run)

lemma protects_tryreturn:
  assumes "\<And>st. protects (returning p) (f (True, st))" and "\<And>st. protects requests_ok (f (False, st))"
  shows "protects requests_ok (lbind (rcaiocb_trybeginreturn p) f)"
proof -
  have "requests_ok (cbs (snd (lbind (rcaiocb_trybeginreturn p) f w)))" if ok: "requests_ok (cbs w)" for w
  proof (cases "\<exists>c. cbs w p = Some c \<and> cb_state c = CB_PENDING")
    case True
    then obtain c where c: "cbs w p = Some c" "cb_state c = CB_PENDING" by blast
    with ok have "returning p ((cbs w)(p \<mapsto> c\<lparr>cb_state := CB_RETURNING\<rparr>))"
      by (auto simp: returning_def saved_def request_ok_def)
    with c assms(1) show ?thesis
      by (simp add: rcaiocb_trybeginreturn_def cb_cas_def cb_get_def cb_put_def lbind_def seq_def protects_def)
  next
    case False
    with ok assms(2) show ?thesis
      by (cases "cbs w p") (auto simp: rcaiocb_trybeginreturn_def cb_cas_def cb_get_def lbind_def protects_def)
  qed
  then show ?thesis by (simp add: protects_def)
qed

lemma protects_return_commit:
  assumes "\<And>x. protects requests_ok (f x)"
  shows "protects (returning p) (lbind (rcaiocb_commit p) f)"
proof -
  have "requests_ok ((cbs w)(p \<mapsto> c\<lparr>aio_state := CB_INIT, cb_state := CB_INIT\<rparr>))"
    if "requests_ok ((cbs w)(p \<mapsto> c\<lparr>cb_state := aio_state c\<rparr>))" for w :: world and c
    using that by (auto simp: saved_def request_ok_def split: if_splits)
  moreover have "snd (lbind (rcaiocb_commit p) f w) =
      snd (f () (w\<lparr>cbs := (cbs w)(p \<mapsto> c\<lparr>aio_state := CB_INIT, cb_state := CB_INIT\<rparr>)\<rparr>))"
    if "cbs w p = Some c" for w c
    using that by (simp add: rcaiocb_commit_def cb_put_def cb_get_def lbind_def seq_def)
  ultimately show ?thesis
    using assms by (fastforce simp: protects_def returning_def)
qed

lemma protects_return_rollback:
  assumes "\<And>x. protects requests_ok (f x)"
  shows "protects (returning p) (lbind (cb_get p) (\<lambda>c. lbind (rcaiocb_rollback p (aio_state c)) f))"
proof -
  have "snd (lbind (cb_get p) (\<lambda>c. lbind (rcaiocb_rollback p (aio_state c)) f) w) =
      snd (f () (w\<lparr>cbs := (cbs w)(p \<mapsto> c\<lparr>cb_state := aio_state c\<rparr>)\<rparr>))"
    if "cbs w p = Some c" for w c
    using that by (simp add: rcaiocb_rollback_def cb_put_def cb_get_def lbind_def)
  with assms show ?thesis
    by (fastforce simp: protects_def returning_def)
qed

lemma protects_return: "protects requests_ok (l_aio_return E L)"
  unfolding l_aio_return_def seq_def
  by (intro protects_lbind_leaves cbs_frame.leaves_checkcookies protects_tryreturn)
    (simp_all add: protects_leaves leaves_rules protects_ccall protects_if protects_return_commit protects_return_rollback del: ret_run)

lemma protects_listio_loop:
  assumes "\<And>p st. (Some p, st) \<in> set acc \<Longrightarrow> (p, st) \<in> S"
    and "\<And>acc T. (\<And>p st. (Some p, st) \<in> set acc \<Longrightarrow> (p, st) \<in> T) \<Longrightarrow> protects (saved T) (f acc)"
  shows "protects (saved S) (lbind (listio_loop E L acc i k) f)"
  using assms(1)
proof (induction k arbitrary: acc i S)
  case 0
  with assms(2) show ?case by (simp del: ret_run)
next
  case (Suc k)
  have roll: "protects (saved S) (lbind (rollback_states acc') (\<lambda>_. luaL_argerror L j msg))"
    if "acc' = acc \<or> acc' = acc @ [(None, st)]" for acc' st j msg
    by (rule protects_rollback_states) (use Suc.prems that in \<open>auto simp: leaves_rules intro!: protects_leaves\<close>)
  have go: "protects (saved (insert (p, st) S)) (lbind (listio_loop E L (acc @ [(Some p, st)]) (Suc i) k) f)" for p st
    by (rule Suc.IH) (use Suc.prems in auto)
  show ?case
    unfolding listio_loop.simps seq_def lbind_assoc
    by (rule protects_lbind_leaves, rule cbs_frame.leaves_tables, rule protects_lbind_leaves, rule cbs_frame.leaves_checkcookies)
      (simp add: lbind_if lbind_assoc error_bind roll protects_if protects_get protects_tryread go
        protects_lbind_leaves cbs_frame.leaves_stack del: ret_run)
qed

lemma protects_aio:
  "protects requests_ok (l_aiocb_shared E L)" "protects requests_ok (l_aiocb_retain E L)"
  "protects requests_ok (l_aiocb_free E L)" "protects requests_ok (l_aio_read E L)"
  "protects requests_ok (l_aio_write E L)" "protects requests_ok (l_aio_mlock E L)"
  "protects requests_ok (l_aio_fsync E L)"
  unfolding l_aiocb_shared_def l_aiocb_retain_def l_aiocb_free_def l_aio_read_def l_aio_write_def
    l_aio_mlock_def l_aio_fsync_def seq_def
  by (rule protects_rules conjI impI | rule protects_lbind_leaves, (simp add: leaves_rules; fail)
      | rule protects_leaves, (simp add: leaves_rules; fail) | rule insertI1
      | simp add: lbind_assoc lbind_if error_bind seq_def Let_def del: ret_run throw_run)+

lemma protects_lio_listio: "protects requests_ok (l_lio_listio E L)"
proof -
  have submit: "protects (saved T) (lbind (ccall E g as) (\<lambda>r.
      if rc r = -1 then lbind (rollback_states acc) (\<lambda>_. fail E L (errno r)) else success L))"
    if "\<And>p st. (Some p, st) \<in> set acc \<Longrightarrow> (p, st) \<in> T" for T g as and acc :: "(addr option \<times> aiocb_state) list"
    using that by (intro protects_lbind_leaves protects_if protects_rollback_states protects_leaves) (simp_all add: leaves_rules)
  show ?thesis
    unfolding l_lio_listio_def seq_def
    by (intro protects_lbind_leaves protects_listio_loop submit) (simp_all add: leaves_rules del: ret_run)
qed

lemma protects_rollback_saved:
  assumes "\<And>x. protects requests_ok (f x)"
  shows "protects requests_ok (lbind (cb_get p) (\<lambda>c. lbind (rcaiocb_rollback p (aio_state c)) f))"
proof -
  have "requests_ok (cbs (snd (lbind (cb_get p) (\<lambda>c. lbind (rcaiocb_rollback p (aio_state c)) f) w)))"
    if ok: "requests_ok (cbs w)" for w
  proof (cases "cbs w p")
    case None
    with ok show ?thesis by (simp add: cb_get_def lbind_def)
  next
    case (Some c)
    with ok have "requests_ok ((cbs w)(p \<mapsto> c\<lparr>cb_state := aio_state c\<rparr>))"
      by (auto simp: saved_def request_ok_def)
    with assms Some show ?thesis
      by (simp add: rcaiocb_rollback_def cb_put_def cb_get_def lbind_def protects_def)
  qed
  then show ?thesis by (simp add: protects_def)
qed

lemma protects_waitcomplete: "protects requests_ok (l_aio_waitcomplete E L)"
  unfolding l_aio_waitcomplete_def seq_def Let_def
  by (rule protects_rollback_saved protects_rules conjI impI | rule protects_lbind_leaves, (simp add: leaves_rules; fail)
      | rule protects_leaves, (simp add: leaves_rules; fail)
      | simp add: lbind_assoc lbind_if error_bind seq_def Let_def del: ret_run throw_run)+

section \<open>Requests and their wrappers\<close>

lemma cb_run [lua_run]:
  "cbs w p = Some c \<Longrightarrow> cb_get p w = (Inr c, w)"
  "cbs w p = Some c \<Longrightarrow> cb_put p f w = (Inr (), w\<lparr>cbs := (cbs w)(p \<mapsto> f c)\<rparr>)"
  "cbs w p = Some c \<Longrightarrow> cb_free p w = (Inr (), w\<lparr>cbs := (cbs w)(p := None)\<rparr>)"
  by (simp_all add: cb_get_def cb_put_def cb_free_def lbind_def)

lemma cb_cas_run [lua_run]:
  "cbs w p = Some c \<Longrightarrow> cb_cas p e d w =
     (Inr (cb_state c = e, cb_state c),
      if cb_state c = e then w\<lparr>cbs := (cbs w)(p \<mapsto> c\<lparr>cb_state := d\<rparr>)\<rparr> else w)"
  by (simp add: cb_cas_def lua_run)

lemma trybegin_run [lua_run]:
  assumes "cbs w p = Some c"
  shows "rcaiocb_trybeginwrite p w =
     (Inr (cb_state c = CB_INIT, cb_state c),
      if cb_state c = CB_INIT then w\<lparr>cbs := (cbs w)(p \<mapsto> c\<lparr>cb_state := CB_PENDING\<rparr>)\<rparr> else w)"
    and "rcaiocb_trybeginread p w =
     (Inr (cb_state c = CB_INIT \<or> cb_state c = CB_UNINIT, cb_state c),
      if cb_state c = CB_INIT \<or> cb_state c = CB_UNINIT
      then w\<lparr>cbs := (cbs w)(p \<mapsto> c\<lparr>cb_state := CB_PENDING\<rparr>)\<rparr> else w)"
  using assms by (simp_all add: rcaiocb_trybeginread_def rcaiocb_trybeginwrite_def lua_run)

lemma wrapper_cookie_at:
  "at s i = Some (LUserdata u) \<Longrightarrow> uds w u = Some (wrapper m p) \<Longrightarrow> p \<noteq> 0 \<Longrightarrow> cookie_at w s i m = Inr p"
  by (simp add: cookie_at_def ud_at_def)

section \<open>The whole module\<close>

definition aio_functions :: "(string \<times> cfunction) list" where
  "aio_functions = l_aio_funcs @ l_aiocb_funcs @ l_aiocb_meta"

text \<open>
  C13. Whatever a program calls of the \<^verbatim>\<open>aio\<close> module, with any arguments and any replies of the kernel,
  afterwards every request is initialised, uninitialised or pending (never half way through
  \<^verbatim>\<open>aio_return\<close>), and the state that it saved before submission is one to go back to: it is
  initialised or uninitialised, and equal to the current state if the request is not pending.
\<close>

theorem aio_states_invariant:
  assumes "(name, f) \<in> set aio_functions" and "\<And>p c. cbs w p = Some c \<Longrightarrow> request_ok c"
    and "cbs (snd (f E L w)) p = Some c"
  shows "cb_state c \<noteq> CB_RETURNING \<and> aio_state c \<in> {CB_UNINIT, CB_INIT}
    \<and> (cb_state c \<noteq> CB_PENDING \<longrightarrow> cb_state c = aio_state c)"
proof -
  have "protects requests_ok (f E L)"
    using assms(1)
    by (auto simp: aio_functions_def l_aio_funcs_def l_aiocb_funcs_def l_aiocb_meta_def protects_aio protects_return
        protects_lio_listio protects_waitcomplete protects_leaves leaves_aio_reads)
  moreover have "requests_ok (cbs w)" using assms(2) by (simp add: saved_def)
  ultimately have "request_ok c" using assms(3) by (auto simp: protects_def saved_def)
  then show ?thesis by (auto simp: request_ok_def)
qed

theorem aio_states_invariant_witness:
  "cbs (snd (l_aio_read env0 1 ((world0 [1 \<mapsto> [LUserdata 3]])
     \<lparr>uds := [3 \<mapsto> wrapper AIOCB_METATABLE 5], cbs := [5 \<mapsto> zero_cb]\<rparr>))) 5 = Some (zero_cb\<lparr>cb_state := CB_PENDING\<rparr>)
    \<and> aio_state (zero_cb\<lparr>cb_state := CB_PENDING\<rparr>) \<in> {CB_UNINIT, CB_INIT}"
proof -
  let ?w = "(world0 [1 \<mapsto> [LUserdata 3]])\<lparr>uds := [3 \<mapsto> wrapper AIOCB_METATABLE 5], cbs := [5 \<mapsto> zero_cb]\<rparr>"
  have "checkcookie 1 1 AIOCB_METATABLE ?w = (Inr 5, ?w)"
    by (rule checkcookie_run [where s = "[LUserdata 3]"]) (simp_all add: wrapper_cookie_at)
  then have "cbs (snd (l_aio_read env0 1 ?w)) 5 = Some (zero_cb\<lparr>cb_state := CB_PENDING\<rparr>)"
    by (simp add: l_aio_read_def luaL_optinteger_def luaL_argcheck_def submit_def lua_run aiocb_isshared_def
        aiocb_isvector_def zero_cb_def aio_op2_def)
  then show ?thesis
    using aio_states_invariant [of "''read''" l_aio_read ?w env0 1 5 "zero_cb\<lparr>cb_state := CB_PENDING\<rparr>"]
    by (simp add: aio_functions_def l_aio_funcs_def l_aiocb_funcs_def l_aiocb_meta_def request_ok_def zero_cb_def split: if_splits)
qed

end
