(* ===== verification/Aio_Methods.thy ===== *)
theory Aio_Methods
  imports Aio_State
begin

text \<open>
  What the methods of a request do: submission and completion as steps of the state of the request, a
  read from end to end, and the end of a request.
\<close>

section \<open>Submission\<close>

text \<open>Whether a request may be submitted: with an initialised buffer, and for reading with any.\<close>

definition may_submit :: "bool \<Rightarrow> aiocb_state \<Rightarrow> bool" where
  "may_submit reads st \<longleftrightarrow> st = CB_INIT \<or> reads \<and> st = CB_UNINIT"

definition submissions :: "(cfunction \<times> bool) set" where
  "submissions = {(l_aio_read, True), (l_aio_write, False), (l_aio_mlock, False), (l_aio_fsync, False)}"

text \<open>
  The outcome of a submission of the request \<open>p\<close>, with \<open>s\<close> on the stack: one system call about \<open>p\<close>, and
  then the request is pending, or the error is reported and the requests are as before.
\<close>

definition submitted :: "env \<Rightarrow> lstate \<Rightarrow> addr \<Rightarrow> lval list \<Rightarrow> world \<Rightarrow> (exc + nat) \<times> world \<Rightarrow> bool" where
  "submitted E L p s w out \<longleftrightarrow> (\<exists>g as. APtr p \<in> set as \<and> trace (snd out) = (g, as) # trace w
     \<and> (let r = reply E (trace w) (g, as) in
        if rc r = -1
        then fst out = Inr 3 \<and> cbs (snd out) = cbs w
          \<and> stacks (snd out) L = Some (s @ [LNil, LString (strerror E (errno r)), LInteger (errno r)])
        else fst out = Inr 1 \<and> cbs (snd out) = (cbs w)(p := map_option (cb_state_update (\<lambda>_. CB_PENDING)) (cbs w p))
          \<and> stacks (snd out) L = Some (s @ [LInteger 1])))"

lemma submit_submitted:
  assumes "stacks w L = Some s" and "cbs w p = Some c" and "APtr p \<in> set as"
  shows "submitted E L p s w (submit E L p (cb_state c) g as (w\<lparr>cbs := (cbs w)(p \<mapsto> c\<lparr>cb_state := CB_PENDING\<rparr>)\<rparr>))"
proof -
  have "(cbs w)(p \<mapsto> c\<lparr>cb_state := cb_state c\<rparr>) = cbs w" using assms(2) by (simp add: fun_upd_idem_iff)
  with assms show ?thesis
    unfolding submitted_def
    by (intro exI [of _ g] exI [of _ as]) (simp add: submit_def lua_run rcaiocb_rollback_def Let_def)
qed


text \<open>Two wrappers, 3 and 4, of the request 5.\<close>

definition aio_world :: "lval list \<Rightarrow> aiocb_state \<Rightarrow> refcount \<Rightarrow> world" where
  "aio_world s st n = (world0 [1 \<mapsto> s])\<lparr>uds := [3 \<mapsto> wrapper AIOCB_METATABLE 5, 4 \<mapsto> wrapper AIOCB_METATABLE 5],
     cbs := [5 \<mapsto> zero_cb\<lparr>cb_state := st, cb_refs := n\<rparr>]\<rparr>"

lemma aio_world_sel [simp]:
  "stacks (aio_world s st n) = [1 \<mapsto> s]" "cbs (aio_world s st n) = [5 \<mapsto> zero_cb\<lparr>cb_state := st, cb_refs := n\<rparr>]"
  "uds (aio_world s st n) = [3 \<mapsto> wrapper AIOCB_METATABLE 5, 4 \<mapsto> wrapper AIOCB_METATABLE 5]"
  "trace (aio_world s st n) = []"
  by (simp_all add: aio_world_def)

lemma zero_cb_flags [simp]:
  "aiocb_isshared (zero_cb\<lparr>cb_state := st, cb_refs := n\<rparr>)" "\<not> aiocb_isvector (zero_cb\<lparr>cb_state := st, cb_refs := n\<rparr>)"
  by (simp_all add: aiocb_isshared_def aiocb_isvector_def zero_cb_def)

text \<open>
  Replies: cancelling fails as the request is in progress, the first wait is interrupted, and the
  result is not available.
\<close>

definition aio_env :: env where
  "aio_env = env0\<lparr>reply := (\<lambda>tr c. \<lparr>rc = (if fst c = ''aio_cancel'' then 1
       else if fst c = ''aio_return'' \<or> fst c = ''aio_suspend'' \<and> fst (hd tr) \<noteq> ''aio_suspend'' then -1 else 0),
     outi = (\<lambda>_. 1), outs = ''data'', outv = (\<lambda>_. [])\<rparr>)\<rparr>"

lemma aio_env_sel [simp]:
  "rc (reply aio_env tr (f, as)) = (if f = ''aio_cancel'' then 1
       else if f = ''aio_return'' \<or> f = ''aio_suspend'' \<and> fst (hd tr) \<noteq> ''aio_suspend'' then -1 else 0)"
  "outi (reply aio_env tr c) i = 1" "outs (reply aio_env tr c) = ''data''" "const aio_env x = 1" "strerror aio_env e = []"
  by (simp_all add: aio_env_def)


section \<open>Completion\<close>

lemma l_aio_return_run:
  assumes "stacks w L = Some [LUserdata u]" and "uds w u = Some (wrapper AIOCB_METATABLE p)" and "p \<noteq> 0"
    and "cbs w p = Some c" and "r = reply E (trace w) (''aio_return'', [APtr p])"
  shows "l_aio_return E L w = (if cb_state c \<noteq> CB_PENDING then (Inl (ArgError 1 ''buffer not pending''), w)
     else if rc r = -1
     then (Inr 3, setst L [LUserdata u, LNil, LString (strerror E (errno r)), LInteger (errno r)]
       (w\<lparr>cbs := (cbs w)(p \<mapsto> c\<lparr>cb_state := aio_state c\<rparr>), trace := (''aio_return'', [APtr p]) # trace w\<rparr>))
     else (Inr 1, setst L [LUserdata u, LInteger (rc r)]
       (w\<lparr>cbs := (cbs w)(p \<mapsto> c\<lparr>aio_state := CB_INIT, cb_state := CB_INIT\<rparr>),
          trace := (''aio_return'', [APtr p]) # trace w\<rparr>)))"
proof -
  have "checkcookie L 1 AIOCB_METATABLE w = (Inr p, w)"
    by (rule checkcookie_run [OF assms(1)]) (use assms(2,3) in \<open>simp add: wrapper_cookie_at\<close>)
  with assms(1,4,5) show ?thesis
    by (simp add: l_aio_return_def rcaiocb_trybeginreturn_def rcaiocb_rollback_def rcaiocb_commit_def lua_run)
qed

section \<open>A read from end to end\<close>

text \<open>A new request with one buffer of \<open>n\<close> bytes at \<open>b\<close>, for reading.\<close>

definition read_request :: "int \<Rightarrow> int \<Rightarrow> int \<Rightarrow> int \<Rightarrow> rcaiocb" where
  "read_request fd off b n = zero_cb\<lparr>aio_fildes := to_int fd, aio_offset := off, aio_buf := b, aio_nbytes := n, cb_refs := 1\<rparr>"

lemma l_aiocb_shared_run:
  assumes "stacks w L = Some [LInteger fd, LInteger off, LInteger n]" and "0 \<le> n" and "n < 2 ^ 63"
    and "\<And>tr. rc (reply E tr (''calloc'', [])) \<noteq> 0" and "\<And>tr. rc (reply E tr (''malloc'', [AInt n])) = b" and "b \<noteq> 0"
    and "0 < fresh w"
  shows "l_aiocb_shared E L w = (Inr 1, setst L [LInteger fd, LInteger off, LInteger n, LNil, LNil, LUserdata (Suc (fresh w))]
     (w\<lparr>cbs := (cbs w)(fresh w \<mapsto> read_request fd off b n),
        uds := (uds w)(Suc (fresh w) \<mapsto> wrapper AIOCB_METATABLE (fresh w)), fresh := Suc (Suc (fresh w)),
        trace := (''malloc'', [AInt n]) # (''calloc'', []) # trace w\<rparr>))"
proof -
  have n: "to_size_t n = n" using assms(2,3) by (intro to_size_t_id) simp_all
  have "to_int 0 = 0" by (simp add: to_int_def)
  with n assms show ?thesis
    by (simp add: l_aiocb_shared_def cb_calloc_def cb_refcount_init_def checkfd_def checkbuf_def luaL_checkinteger_def
        luaL_optinteger_def lua_settop_def lua_run at_def pos_def eval_nat_numeral read_request_def zero_cb_def)
qed

lemma l_aiocb_index_buf_run:
  assumes "stacks w L = Some [LUserdata u, LString ''buf'']" and "uds w u = Some (wrapper AIOCB_METATABLE p)" and "p \<noteq> 0"
    and "cbs w p = Some c" and "aiocb_isshared c" and "\<not> aiocb_isvector c"
    and "tabs w (mtable E AIOCB_METATABLE) = Some mt" and "strs mt ''buf'' = LNil"
  shows "cb_state c \<noteq> CB_INIT \<Longrightarrow> fst (l_aiocb_index E L w) = Inl (LError ''buffer not available'')"
    and "cb_state c = CB_INIT \<Longrightarrow> \<exists>s w'. l_aiocb_index E L w = (Inr 1, w')
      \<and> stacks w' L = Some (s @ [LString (outs (reply E (trace w) (''load'', [AInt (aio_buf c), AInt (aio_nbytes c)])))])"
proof -
  have ck: "checkcookie L 1 AIOCB_METATABLE w = (Inr p, w)"
    by (rule checkcookie_run [OF assms(1)]) (use assms(2,3) in \<open>simp add: wrapper_cookie_at\<close>)
  have b: "cstr ''buf'' = ''buf''" by (simp add: cstr_def)
  note run = l_aiocb_index_def luaL_checkstring_def luaL_checklstring_def lua_getmetatable_def lua_getfield_def
    ud_at_def tab_at_def lua_run ck b
  have mt: "at [LUserdata u, LString ''buf'', LTable t] (-1) = Some (LTable t)" for t
    by (simp add: at_def pos_def)
  show "cb_state c \<noteq> CB_INIT \<Longrightarrow> fst (l_aiocb_index E L w) = Inl (LError ''buffer not available'')"
    using assms by (simp add: run mt)
  assume "cb_state c = CB_INIT"
  with assms show "\<exists>s w'. l_aiocb_index E L w = (Inr 1, w')
      \<and> stacks w' L = Some (s @ [LString (outs (reply E (trace w) (''load'', [AInt (aio_buf c), AInt (aio_nbytes c)])))])"
    by (intro exI [of _ "[LUserdata u, LString ''buf'', LTable (mtable E AIOCB_METATABLE), LNil]"]) (simp add: run mt)
qed

lemma l_aio_read_run:
  assumes "stacks w L = Some [LUserdata u, LInteger k]" and "uds w u = Some (wrapper AIOCB_METATABLE p)" and "p \<noteq> 0"
    and "cbs w p = Some c" and "aiocb_isshared c" and "\<not> aiocb_isvector c" and "cb_state c \<in> {CB_UNINIT, CB_INIT}"
    and "\<And>tr g as. g \<in> {''aio_read'', ''aio_read2''} \<Longrightarrow> rc (reply E tr (g, as)) \<noteq> -1"
  shows "\<exists>call. l_aio_read E L w = (Inr 1, setst L [LUserdata u, LInteger k, LInteger 1]
     (w\<lparr>cbs := (cbs w)(p \<mapsto> c\<lparr>cb_state := CB_PENDING\<rparr>), trace := call # trace w\<rparr>))"
proof -
  have ck: "checkcookie L 1 AIOCB_METATABLE w = (Inr p, w)"
    by (rule checkcookie_run [OF assms(1)]) (use assms(2,3) in \<open>simp add: wrapper_cookie_at\<close>)
  show ?thesis
    using assms by (auto simp: l_aio_read_def submit_def luaL_optinteger_def luaL_checkinteger_def luaL_argcheck_def ck lua_run)
qed

text \<open>
  C15. Reading: a request made for \<open>n\<close> bytes and submitted has no readable buffer until its result is
  fetched; then \<^verbatim>\<open>_return\<close> gives what \<^verbatim>\<open>aio_return\<close> gave, and \<^verbatim>\<open>buf\<close> the bytes that are in the buffer.
\<close>

theorem aio_read_roundtrip:
  assumes "stacks w L = Some [LInteger fd, LInteger off, LInteger n]" and "0 \<le> n" and "n < 2 ^ 63" and "0 < fresh w"
    and "\<And>tr. rc (reply E tr (''calloc'', [])) \<noteq> 0" and "\<And>tr. rc (reply E tr (''malloc'', [AInt n])) = b" and "b \<noteq> 0"
    and "\<And>tr g as. g \<in> {''aio_read'', ''aio_read2''} \<Longrightarrow> rc (reply E tr (g, as)) \<noteq> -1"
    and "\<And>tr p. rc (reply E tr (''aio_return'', [APtr p])) = m" and "m \<noteq> -1"
    and "\<And>tr. outs (reply E tr (''load'', [AInt b, AInt n])) = data"
    and "tabs w (mtable E AIOCB_METATABLE) = Some mt" and "strs mt ''buf'' = LNil"
  shows "\<exists>u w1 w2 w3 w4 s s'. l_aiocb_shared E L w = (Inr 1, w1) \<and> stacks w1 L = Some (s @ [LUserdata u])
    \<and> l_aio_read E L (setst L [LUserdata u, LInteger 0] w1) = (Inr 1, w2)
    \<and> fst (l_aiocb_index E L (setst L [LUserdata u, LString ''buf''] w2)) = Inl (LError ''buffer not available'')
    \<and> l_aio_return E L (setst L [LUserdata u] w2) = (Inr 1, w3) \<and> stacks w3 L = Some [LUserdata u, LInteger m]
    \<and> l_aiocb_index E L (setst L [LUserdata u, LString ''buf''] w3) = (Inr 1, w4) \<and> stacks w4 L = Some (s' @ [LString data])"
proof -
  let ?p = "fresh w" and ?u = "Suc (fresh w)" and ?c = "read_request fd off b n"
  let ?w1 = "w\<lparr>cbs := (cbs w)(?p \<mapsto> ?c), uds := (uds w)(?u \<mapsto> wrapper AIOCB_METATABLE ?p), fresh := Suc ?u,
      trace := (''malloc'', [AInt n]) # (''calloc'', []) # trace w\<rparr>"
  have c: "aiocb_isshared (?c\<lparr>cb_state := a\<rparr>)" "\<not> aiocb_isvector (?c\<lparr>cb_state := a\<rparr>)" "aiocb_isshared ?c" "\<not> aiocb_isvector ?c"
    "aiocb_isshared (?c\<lparr>aio_state := a, cb_state := a\<rparr>)" "\<not> aiocb_isvector (?c\<lparr>aio_state := a, cb_state := a\<rparr>)" for a
    by (simp_all add: aiocb_isshared_def aiocb_isvector_def read_request_def zero_cb_def)
  have st: "cb_state ?c = CB_UNINIT" "aio_buf ?c = b" "aio_nbytes ?c = n"
    by (simp_all add: read_request_def zero_cb_def)
  note new = l_aiocb_shared_run [OF assms(1-3,5-7,4)]
  obtain call where rd: "l_aio_read E L (setst L [LUserdata ?u, LInteger 0] ?w1) = (Inr 1, setst L [LUserdata ?u, LInteger 0, LInteger 1]
     (?w1\<lparr>cbs := (cbs ?w1)(?p \<mapsto> ?c\<lparr>cb_state := CB_PENDING\<rparr>), trace := call # trace ?w1\<rparr>))"
    using l_aio_read_run [of "setst L [LUserdata ?u, LInteger 0] ?w1" L ?u 0 ?p ?c E] c(3,4) st assms(4,8) by auto
  let ?w2 = "?w1\<lparr>cbs := (cbs ?w1)(?p \<mapsto> ?c\<lparr>cb_state := CB_PENDING\<rparr>), trace := call # trace ?w1\<rparr>"
  have locked: "fst (l_aiocb_index E L (setst L [LUserdata ?u, LString ''buf''] ?w2)) = Inl (LError ''buffer not available'')"
    by (rule l_aiocb_index_buf_run(1) [where u = ?u and p = ?p and mt = mt and c = "?c\<lparr>cb_state := CB_PENDING\<rparr>"]) (use assms c in simp_all)
  let ?w3 = "?w2\<lparr>cbs := (cbs ?w2)(?p \<mapsto> ?c\<lparr>aio_state := CB_INIT, cb_state := CB_INIT\<rparr>), trace := (''aio_return'', [APtr ?p]) # trace ?w2\<rparr>"
  have ret: "l_aio_return E L (setst L [LUserdata ?u] ?w2) = (Inr 1, setst L [LUserdata ?u, LInteger m] ?w3)"
    using l_aio_return_run [of "setst L [LUserdata ?u] ?w2" L ?u ?p "?c\<lparr>cb_state := CB_PENDING\<rparr>" _ E] assms(4,9,10) by simp
  obtain s' w4 where idx: "l_aiocb_index E L (setst L [LUserdata ?u, LString ''buf''] ?w3) = (Inr 1, w4)"
    "stacks w4 L = Some (s' @ [LString data])"
    using l_aiocb_index_buf_run(2) [of "setst L [LUserdata ?u, LString ''buf''] ?w3" L ?u ?p "?c\<lparr>aio_state := CB_INIT, cb_state := CB_INIT\<rparr>" E mt]
      c st assms by auto
  show ?thesis
    by (rule exI [of _ ?u], rule exI [of _ "setst L [LInteger fd, LInteger off, LInteger n, LNil, LNil, LUserdata ?u] ?w1"],
        rule exI [of _ "setst L [LUserdata ?u, LInteger 0, LInteger 1] ?w2"], rule exI [of _ "setst L [LUserdata ?u, LInteger m] ?w3"],
        rule exI [of _ w4], rule exI [of _ "[LInteger fd, LInteger off, LInteger n, LNil, LNil]"], rule exI [of _ s'])
      (use new rd locked ret idx in simp)
qed

definition read_env :: env where
  "read_env = env0\<lparr>reply := (\<lambda>tr c. \<lparr>rc = 9, outi = (\<lambda>_. 1), outs = ''data'', outv = (\<lambda>_. [])\<rparr>)\<rparr>"

definition read_world :: world where
  "read_world = (world0 [1 \<mapsto> [LInteger 2, LInteger 0, LInteger 4]])\<lparr>tabs := [string_code AIOCB_METATABLE \<mapsto> empty_table]\<rparr>"

theorem aio_read_roundtrip_witness:
  "\<exists>u w1 w2 w3 w4 s s'. l_aiocb_shared read_env 1 read_world = (Inr 1, w1) \<and> stacks w1 1 = Some (s @ [LUserdata u])
    \<and> l_aio_read read_env 1 (setst 1 [LUserdata u, LInteger 0] w1) = (Inr 1, w2)
    \<and> fst (l_aiocb_index read_env 1 (setst 1 [LUserdata u, LString ''buf''] w2)) = Inl (LError ''buffer not available'')
    \<and> l_aio_return read_env 1 (setst 1 [LUserdata u] w2) = (Inr 1, w3) \<and> stacks w3 1 = Some [LUserdata u, LInteger 9]
    \<and> l_aiocb_index read_env 1 (setst 1 [LUserdata u, LString ''buf''] w3) = (Inr 1, w4) \<and> stacks w4 1 = Some (s' @ [LString ''data''])"
  by (rule aio_read_roundtrip [where fd = 2 and off = 0 and n = 4 and b = 9 and mt = empty_table])
    (simp_all add: read_env_def read_world_def empty_table_def)

section \<open>The end of a request\<close>

lemma suspend_retry_ends:
  assumes "c = (''aio_suspend'', [APtr p, ANull])"
    and "\<And>j. j < n \<Longrightarrow> rc (reply E (replicate j c @ tr) c) = -1 \<and> errno (reply E (replicate j c @ tr) c) = const E ''EINTR''"
    and "rc (reply E (replicate n c @ tr) c) \<noteq> -1"
  shows "suspend_retry E p tr = Some (True, replicate (Suc n) c @ tr)"
  using assms(2,3)
proof (induction n arbitrary: tr)
  case 0
  then show ?case using assms(1) by (simp add: suspend_retry.simps)
next
  case (Suc n)
  have "suspend_retry E p (c # tr) = Some (True, replicate (Suc n) c @ c # tr)"
  proof (rule Suc.IH)
    show "rc (reply E (replicate j c @ c # tr) c) = -1 \<and> errno (reply E (replicate j c @ c # tr) c) = const E ''EINTR''" if "j < n" for j
      using Suc.prems(1) [of "Suc j"] that by (simp add: replicate_app_Cons_same)
    show "rc (reply E (replicate n c @ c # tr) c) \<noteq> -1"
      using Suc.prems(2) by (simp add: replicate_app_Cons_same)
  qed
  moreover have "suspend_retry E p tr = suspend_retry E p (c # tr)"
    using Suc.prems(1) [of 0] assms(1) by (subst suspend_retry.simps) simp
  ultimately show ?case by (simp add: replicate_app_Cons_same)
qed

text \<open>The last wrapper of a request with one buffer, when the kernel does not use it.\<close>

lemma free_idle_run:
  assumes "stacks w L = Some [LUserdata u]" and "uds w u = Some (wrapper AIOCB_METATABLE p)" and "p \<noteq> 0"
    and "cbs w p = Some c" and "aiocb_isshared c" and "\<not> aiocb_isvector c" and "cb_refs c = 1"
    and "cb_state c \<noteq> CB_PENDING"
  shows "l_aiocb_free E L w = (Inr 0, w\<lparr>cbs := (cbs w)(p := None), uds := (uds w)(u \<mapsto> wrapper AIOCB_METATABLE 0),
      trace := (''free'', [AInt (aio_buf c)]) # trace w\<rparr>)"
  using assms checkcookienull_wrapper [OF assms(1,2)]
  by (simp add: l_aiocb_free_def cb_refcount_release_def setcookie_def lua_setiuservalue_def ud_at_def
      lua_run setst_same set_uv_def COOKIE_def wrapper_def)

lemma finish_io_run:
  assumes "cancel = (''aio_cancel'', [AInt (aio_fildes c), APtr p])" and "suspend = (''aio_suspend'', [APtr p, ANull])"
    and "rc (reply E (trace w) cancel) \<noteq> -1"
    and "k = (if rc (reply E (trace w) cancel) = const E ''AIO_NOTCANCELED'' then Suc n else 0)"
    and "\<And>j. j < n \<Longrightarrow> rc (reply E (replicate j suspend @ cancel # trace w) suspend) = -1
        \<and> errno (reply E (replicate j suspend @ cancel # trace w) suspend) = const E ''EINTR''"
    and "rc (reply E (replicate n suspend @ cancel # trace w) suspend) \<noteq> -1"
  shows "finish_io E p c w = (Inr (), w\<lparr>trace := (''aio_return'', [APtr p]) # replicate k suspend @ cancel # trace w\<rparr>)"
  using assms suspend_retry_ends [OF assms(2,5,6)]
  by (simp add: finish_io_def suspend_until_done_def lua_run)



text \<open>
  The guard above can be switched off: \<^verbatim>\<open>aio_return\<close> of a request that is still in progress fails
  (\<^verbatim>\<open>EINPROGRESS\<close>), and \<^verbatim>\<open>_return\<close> then puts the request back into the state before its submission, although
  the kernel goes on using the buffer. The next collection frees the buffer with no cancelling and no
  waiting.
\<close>

theorem aio_early_return_unguards:
  assumes "stacks w L = Some [LUserdata u]" and "uds w u = Some (wrapper AIOCB_METATABLE p)" and "p \<noteq> 0"
    and "cbs w p = Some c" and "aiocb_isshared c" and "\<not> aiocb_isvector c" and "cb_refs c = 1"
    and "cb_state c = CB_PENDING" and "aio_state c \<noteq> CB_PENDING"
    and "rc (reply E (trace w) (''aio_return'', [APtr p])) = -1"
    and "errno (reply E (trace w) (''aio_return'', [APtr p])) = const E ''EINPROGRESS''"
  shows "\<exists>w1 w2. l_aio_return E L w = (Inr 3, w1)
    \<and> stacks w1 L = Some [LUserdata u, LNil, LString (strerror E (const E ''EINPROGRESS'')), LInteger (const E ''EINPROGRESS'')]
    \<and> l_aiocb_free E L (setst L [LUserdata u] w1) = (Inr 0, w2) \<and> cbs w2 p = None
    \<and> trace w2 = [(''free'', [AInt (aio_buf c)]), (''aio_return'', [APtr p])] @ trace w"
proof -
  let ?w = "setst L [LUserdata u] (w\<lparr>cbs := (cbs w)(p \<mapsto> c\<lparr>cb_state := aio_state c\<rparr>), trace := (''aio_return'', [APtr p]) # trace w\<rparr>)"
  have "l_aiocb_free E L ?w = (Inr 0, ?w\<lparr>cbs := (cbs ?w)(p := None), uds := (uds ?w)(u \<mapsto> wrapper AIOCB_METATABLE 0),
      trace := (''free'', [AInt (aio_buf (c\<lparr>cb_state := aio_state c\<rparr>))]) # trace ?w\<rparr>)"
    by (rule free_idle_run) (use assms in \<open>simp_all add: aiocb_isshared_def aiocb_isvector_def\<close>)
  then show ?thesis
    using l_aio_return_run [OF assms(1-4) refl] assms(8,10,11) by simp
qed

theorem aio_early_return_unguards_witness:
  "\<exists>w1 w2. l_aio_return aio_env 1 (aio_world [LUserdata 3] CB_PENDING 1) = (Inr 3, w1)
    \<and> stacks w1 1 = Some [LUserdata 3, LNil, LString [], LInteger 1]
    \<and> l_aiocb_free aio_env 1 (setst 1 [LUserdata 3] w1) = (Inr 0, w2) \<and> cbs w2 5 = None
    \<and> trace w2 = [(''free'', [AInt 0]), (''aio_return'', [APtr 5])]"
  using aio_early_return_unguards [of "aio_world [LUserdata 3] CB_PENDING 1" 1 3 5 "zero_cb\<lparr>cb_state := CB_PENDING, cb_refs := 1\<rparr>" aio_env]
  by (simp add: errno_def) (simp add: zero_cb_def)

text \<open>
  \<^verbatim>\<open>__close\<close> of a wrapper that is not the last one releases its reference but leaves the pointer in the
  wrapper, so the collector releases a reference a second time: the request is freed while the other
  wrapper is in use, and the next method on it reads freed memory.
\<close>

theorem aio_close_releases_twice:
  assumes "stacks w L = Some [LUserdata u]" and "uds w u = Some (wrapper AIOCB_METATABLE p)" and "p \<noteq> 0"
    and "uds w v = Some (wrapper AIOCB_METATABLE p)" and "u \<noteq> v"
    and "cbs w p = Some c" and "aiocb_isshared c" and "\<not> aiocb_isvector c" and "cb_refs c = 2"
    and "cb_state c \<noteq> CB_PENDING" and "(''__close'', close) \<in> set l_aiocb_meta" and "(''__gc'', gc) \<in> set l_aiocb_meta"
  shows "\<exists>w1 w2. close E L w = (Inr 0, w1)
    \<and> gc E L (setst L [LUserdata u] w1) = (Inr 0, w2) \<and> cbs w2 p = None
    \<and> uds w2 v = Some (wrapper AIOCB_METATABLE p)
    \<and> fst (l_aio_cancel E L (setst L [LUserdata v] w2)) = Inl Undef"
proof -
  have fs: "close = l_aiocb_free" "gc = l_aiocb_free"
    using assms(11,12) by (auto simp: l_aiocb_meta_def)
  let ?w1 = "w\<lparr>cbs := (cbs w)(p \<mapsto> cb_refs_update (\<lambda>r. r - 1) c)\<rparr>"
  let ?w1' = "setst L [LUserdata u] ?w1"
  let ?w2 = "?w1'\<lparr>cbs := (cbs ?w1')(p := None), uds := (uds ?w1')(u \<mapsto> wrapper AIOCB_METATABLE 0),
      trace := (''free'', [AInt (aio_buf (cb_refs_update (\<lambda>r. r - 1) c))]) # trace ?w1'\<rparr>"
  have 1: "l_aiocb_free E L w = (Inr 0, ?w1)"
    using assms checkcookienull_wrapper [OF assms(1,2)] by (simp add: l_aiocb_free_def cb_refcount_release_def lua_run)
  have 2: "l_aiocb_free E L ?w1' = (Inr 0, ?w2)"
    by (rule free_idle_run) (use assms in \<open>simp_all add: aiocb_isshared_def aiocb_isvector_def\<close>)
  have "checkcookie L 1 AIOCB_METATABLE (setst L [LUserdata v] ?w2) = (Inr p, setst L [LUserdata v] ?w2)"
    by (rule checkcookie_run [where s = "[LUserdata v]"])
      (use assms in \<open>simp_all add: cookie_at_def ud_at_def\<close>)
  then have "fst (l_aio_cancel E L (setst L [LUserdata v] ?w2)) = Inl Undef"
    by (simp add: l_aio_cancel_def lbind_def cb_get_def)
  with 1 2 fs assms(4,5) show ?thesis by simp
qed

theorem aio_close_releases_twice_witness:
  "\<exists>w1 w2. l_aiocb_free aio_env 1 (aio_world [LUserdata 3] CB_INIT 2) = (Inr 0, w1)
    \<and> l_aiocb_free aio_env 1 (setst 1 [LUserdata 3] w1) = (Inr 0, w2) \<and> cbs w2 5 = None
    \<and> uds w2 4 = Some (wrapper AIOCB_METATABLE 5)
    \<and> fst (l_aio_cancel aio_env 1 (setst 1 [LUserdata 4] w2)) = Inl Undef"
  by (rule aio_close_releases_twice [where u = 3 and p = 5 and c = "zero_cb\<lparr>cb_state := CB_INIT, cb_refs := 2\<rparr>"])
    (simp_all add: l_aiocb_meta_def)

section \<open>Lists of requests\<close>

text \<open>\<^verbatim>\<open>testcookie\<close> at the index -1: it uses the index again after it has pushed the metatables.\<close>

lemma testcookie_top:
  assumes "stacks w L = Some (s @ [x])"
  shows "fst (testcookie E L (-1) m w) = Inl Undef
    \<or> (\<exists>w'. testcookie E L (-1) m w = (Inr 0, w') \<and> stacks w' L = Some (s @ [x]))"
proof -
  have "ud_at w' (s @ [x, LTable a, LTable b]) (-1) = None" for w' a b
    using at_top [of "s @ [x, LTable a]" "LTable b"] by (simp add: ud_at_def)
  with assms show ?thesis
    by (auto simp: testcookie_def lua_getmetatable_def lua_rawequal_def getcookie_def lua_getiuservalue_def lua_run
        split: option.splits)
qed

lemma listio_loop_fails:
  assumes "stacks w L = Some s" and "tab_at w s 2 = Some t"
  shows "\<exists>e w'. listio_loop E L [] i (Suc k) w = (Inl e, w') \<and> trace w' = trace w"
proof -
  let ?w = "setst L (s @ [tget (the (tabs w t)) (int i + 1)]) w"
  have get: "lua_geti L 2 (int i + 1) w = (Inr (type_of (tget (the (tabs w t)) (int i + 1))), ?w)"
    using assms by (simp add: lua_rawgeti_def lua_run)
  have "trace (snd (testcookie E L (-1) AIOCB_METATABLE ?w)) = trace w"
    using leavesD [OF trace_frame.leaves_checkcookies(5), of E L "-1" AIOCB_METATABLE ?w] by simp
  with testcookie_top [of ?w L s "tget (the (tabs w t)) (int i + 1)" E AIOCB_METATABLE] get show ?thesis
    by (cases "testcookie E L (-1) AIOCB_METATABLE ?w") (auto simp: lua_run)
qed

lemma checkinteger_cases:
  assumes "stacks w L = Some s"
  shows "(\<exists>n. luaL_checkinteger E L i w = (Inr n, w))
    \<or> luaL_checkinteger E L i w = (Inl (TypeError i ''number''), w)
    \<or> luaL_checkinteger E L i w = (Inl (ArgError i ''number has no integer representation''), w)"
  using assms by (auto simp: luaL_checkinteger_def lua_run split: option.splits)

text \<open>
  \<^verbatim>\<open>listio\<close> never submits a request: called as documented, with the list as its second argument, it asks
  for a table as its third; and with one there it raises an error at an element that is no request, and
  at a request its own test (which looks at index -1 again after it pushed two values) takes the user value
  of a table, outside the contract of Lua. No system call is made either way.
\<close>

theorem aio_listio_never_submits:
  assumes "stacks w L = Some s" and "tab_at w s 2 = Some t" and "0 < border E (arr (the (tabs w t)))"
    and "border E (arr (the (tabs w t))) < 2 ^ 31" and "length s < 4 \<or> at s 4 = Some LNil"
  shows "\<exists>e w'. l_lio_listio E L w = (Inl e, w') \<and> trace w' = trace w
    \<and> (length s = 2 \<longrightarrow> e \<in> {TypeError 3 ''table'', TypeError 1 ''number'', ArgError 1 ''number has no integer representation''})"
proof -
  let ?n = "border E (arr (the (tabs w t)))"
  have "to_int (int ?n) = int ?n"
    using assms(4) by (intro to_int_id) auto
  then obtain k where k: "nat (to_int (int ?n)) = Suc k"
    using assms(3) by (metis Suc_pred nat_int)
  have t2: "at s 2 = Some (LTable t)" and t: "tabs w t \<noteq> None"
    using assms(2) by (auto simp: tab_at_def split: option.splits lval.splits if_splits)
  let ?w = "setst L (s @ [LUserdata (fresh w)]) (w\<lparr>uds := (uds w)(fresh w \<mapsto> \<lparr>meta = None, uvs = [], blk = None\<rparr>), fresh := Suc (fresh w)\<rparr>)"
  have "at (s @ [x]) 2 = Some (LTable t)" for x
    using t2 at_append [of 2 s "[x]"] by (cases "2 \<le> int (length s)") simp_all
  then have "\<exists>e w'. listio_loop E L [] 0 (Suc k) ?w = (Inl e, w') \<and> trace w' = trace w"
    using listio_loop_fails [of ?w L "s @ [LUserdata (fresh w)]" t E 0 k] t by (simp add: tab_at_def)
  moreover have "\<not> ltyp (at s 4) \<noteq> LUA_TNONE \<or> ltyp (at s 4) = LUA_TNIL"
    using assms(5) by auto
  moreover have "luaL_len E L 2 w = (Inr (border E (arr (the (tabs w t)))), w)"
    using assms(1,2) t2 by (simp add: luaL_len_def lua_run)
  moreover have "luaL_checktype L 3 LUA_TTABLE w = (if ltyp (at s 3) = LUA_TTABLE then Inr () else Inl (TypeError 3 ''table''), w)"
    using assms(1) by (simp add: luaL_checktype_def lua_run)
  moreover have "lua_newuserdatauv L 0 w = (Inr (fresh w), ?w)"
    using assms(1) by (simp add: lua_newuserdatauv_def lua_run)
  moreover have "lua_type L 4 w = (Inr (ltyp (at s 4)), w)"
    using assms(1) by (simp add: lua_run)
  moreover note checkinteger_cases [OF assms(1), of E 1]
  ultimately show ?thesis
    using k by (cases "length s = 2") (auto simp: l_lio_listio_def seq_def lbind_def)
qed

definition listio_world :: world where
  "listio_world = (aio_world [LInteger 1, LTable 7] CB_INIT 1)\<lparr>tabs := [7 \<mapsto> empty_table\<lparr>arr := [LUserdata 3]\<rparr>]\<rparr>"

theorem aio_listio_never_submits_witness:
  "\<exists>w'. l_lio_listio env0 1 listio_world = (Inl (TypeError 3 ''table''), w') \<and> trace w' = []"
  using aio_listio_never_submits [of listio_world 1 "[LInteger 1, LTable 7]" 7 env0]
  by (simp add: listio_world_def tab_at_def l_lio_listio_def luaL_checkinteger_def luaL_checktype_def lua_run)

end
