(* ===== verification/Handle.thy ===== *)
theory Handle
  imports Utils
begin

text \<open>
  The interface of a userdata that owns a handle of a library (a descriptor, a directory stream) with a
  function that closes it and a finalizer. \<open>obj\<close> is the userdata with a given handle, or the closed one;
  \<open>ok\<close> are the numbers that can be a handle, and \<open>closecall\<close> is the call that closes one. Also the steps that the
  functions on files of several modules share.
\<close>

locale handle_owner =
  fixes obj :: "int option \<Rightarrow> udata" and ok :: "int \<Rightarrow> bool" and closecall :: "int \<Rightarrow> ecall"
    and close_fn gc_fn :: "env \<Rightarrow> lstate \<Rightarrow> nat lua"
  assumes close_open: "stacks w L = Some [LUserdata u] \<Longrightarrow> uds w u = Some (obj (Some h)) \<Longrightarrow> ok h \<Longrightarrow>
      rc (reply E (trace w) (closecall h)) \<noteq> -1 \<Longrightarrow>
      \<exists>n w'. close_fn E L w = (Inr n, w') \<and> trace w' = closecall h # trace w \<and> uds w' = (uds w)(u \<mapsto> obj None)"
    and gc_open: "stacks w L = Some [LUserdata u] \<Longrightarrow> uds w u = Some (obj (Some h)) \<Longrightarrow> ok h \<Longrightarrow>
      rc (reply E (trace w) (closecall h)) \<noteq> -1 \<Longrightarrow> \<exists>n w'. gc_fn E L w = (Inr n, w') \<and> trace w' = closecall h # trace w"
    and gc_closed: "stacks w L = Some [LUserdata u] \<Longrightarrow> uds w u = Some (obj None) \<Longrightarrow>
      \<exists>n w'. gc_fn E L w = (Inr n, w') \<and> trace w' = trace w"
begin

text \<open>A handle is closed once, whether the program closes it before it is collected or not.\<close>

lemma closed_once:
  assumes "stacks w L = Some [LUserdata u]" and "uds w u = Some (obj (Some h))" and "ok h"
    and "rc (reply E (trace w) (closecall h)) \<noteq> -1"
  shows "(\<exists>n w1 k w2. close_fn E L w = (Inr n, w1) \<and> gc_fn E L (setst L [LUserdata u] w1) = (Inr k, w2)
      \<and> trace w2 = closecall h # trace w)
    \<and> (\<exists>k w2. gc_fn E L w = (Inr k, w2) \<and> trace w2 = closecall h # trace w)"
proof -
  obtain n w1 where 1: "close_fn E L w = (Inr n, w1)" "trace w1 = closecall h # trace w" "uds w1 = (uds w)(u \<mapsto> obj None)"
    using close_open [OF assms] by blast
  then obtain k w2 where "gc_fn E L (setst L [LUserdata u] w1) = (Inr k, w2)" "trace w2 = trace w1"
    using gc_closed [of "setst L [LUserdata u] w1" L u E] by auto
  with 1 gc_open [OF assms] show ?thesis by auto
qed

end

text \<open>Userdata that keep the handle in their block, with -1 for none.\<close>

definition blk_object :: "string \<Rightarrow> int option \<Rightarrow> udata" where
  "blk_object m h = \<lparr>meta = Some m, uvs = [], blk = Some (case h of None \<Rightarrow> -1 | Some i \<Rightarrow> i)\<rparr>"

lemma blk_object_sel [simp]:
  "meta (blk_object m h) = Some m" "blk (blk_object m h) = Some (case h of None \<Rightarrow> -1 | Some i \<Rightarrow> i)"
  "blk_update (\<lambda>_. Some (-1)) (blk_object m h) = blk_object m None"
  by (simp_all add: blk_object_def)

section \<open>What the modules for files share\<close>

text \<open>The descriptor of a file of the \<^verbatim>\<open>io\<close> library.\<close>

definition file_fd :: "env \<Rightarrow> lstate \<Rightarrow> nat \<Rightarrow> int lua" where
  "file_fd E L s =
     lbind (get_blk s) (\<lambda>f.
     lbind (ccall E ''fileno'' [AInt f]) (\<lambda>r.
     if rc r < 0 then fatal E L ''fileno'' (errno r)
     else ret (rc r)))"

text \<open>A system call without results.\<close>

definition report :: "env \<Rightarrow> lstate \<Rightarrow> string \<Rightarrow> carg list \<Rightarrow> nat lua" where
  "report E L f as =
     lbind (ccall E f as) (\<lambda>r.
     if rc r = -1 then fail E L (errno r)
     else success L)"

end
