(* ===== verification/Event.thy ===== *)
theory Event
  imports Handle Resources
begin

text \<open>
  \<^verbatim>\<open>sys/event/lua_event.c\<close>: kernel event queues. The descriptor of a queue is in the block of the userdata,
  -1 when it is closed. An event is passed to and from the kernel as its six members; the user data of
  an event is a \<^verbatim>\<open>lua_State *\<close>, which the kernel keeps as a number.
\<close>

section \<open>Definitions\<close>

definition KQUEUE_METATABLE :: string where
  "KQUEUE_METATABLE = ''kqueue''"

definition l_kqueue :: "env \<Rightarrow> lstate \<Rightarrow> nat lua" where
  "l_kqueue E L =
     lbind (luaL_optinteger E L 1 0) (\<lambda>flags.
     lbind (lua_newuserdatauv L 0) (\<lambda>kqp.
     lbind (ccall E ''kqueuex'' [AInt (to_uint flags)]) (\<lambda>r.
     seq (set_blk kqp (rc r))
     (if rc r = -1 then fail E L (errno r)
      else
        seq (luaL_setmetatable L KQUEUE_METATABLE)
        (ret 1)))))"

definition l_wrap :: "env \<Rightarrow> lstate \<Rightarrow> nat lua" where
  "l_wrap E L =
     lbind (luaL_checkinteger E L 1) (\<lambda>kq.
     lbind (lua_newuserdatauv L 0) (\<lambda>kqp.
     seq (set_blk kqp (to_int kq))
    (seq (luaL_setmetatable L KQUEUE_METATABLE)
     (ret 1))))"

text \<open>The error messages name the \<^verbatim>\<open>changelist\<close> between a backquote and an apostrophe.\<close>

definition changelist_msg :: "string \<Rightarrow> string" where
  "changelist_msg s = CHR 0x60 # ''changelist'' @ CHR 0x27 # s"

text \<open>The members of a change: \<^verbatim>\<open>INTFIELD\<close> and \<^verbatim>\<open>OPTINTFIELD\<close> of \<^verbatim>\<open>l_kevent\<close>.\<close>

definition change_ident :: "env \<Rightarrow> lstate \<Rightarrow> int lua" where
  "change_ident E L =
     lbind (lua_getfield L (-1) ''cookie'') (\<lambda>t.
     if t = LUA_TLIGHTUSERDATA then
       lbind (lua_tolight L (-1)) (\<lambda>p.
       seq (lua_pop L 1)
       (ret (int p)))
     else
       lbind (lua_getfield L (-2) ''ident'') (\<lambda>t.
       if t = LUA_TNUMBER then
         lbind (lua_tointeger E L (-1)) (\<lambda>i.
         seq (lua_pop L 2)
         (ret (to_size_t i)))
       else luaL_argerror L 2 (changelist_msg '' invalid ident'')))"

definition change_int :: "env \<Rightarrow> lstate \<Rightarrow> string \<Rightarrow> (int \<Rightarrow> int) \<Rightarrow> int lua" where
  "change_int E L name conv =
     lbind (lua_getfield L (-1) name) (\<lambda>t.
     seq (luaL_argcheck (t = LUA_TNUMBER) 2 (changelist_msg ('' invalid '' @ name)))
    (lbind (lua_tointeger E L (-1)) (\<lambda>i.
     seq (lua_pop L 1)
     (ret (conv i)))))"

definition change_optint :: "env \<Rightarrow> lstate \<Rightarrow> string \<Rightarrow> (int \<Rightarrow> int) \<Rightarrow> int lua" where
  "change_optint E L name conv =
     lbind (lua_getfield L (-1) name) (\<lambda>t.
     lbind (lua_isinteger L (-1)) (\<lambda>isint.
     lbind (if t = LUA_TNIL then ret 0
            else if isint then
              lbind (lua_tointeger E L (-1)) (\<lambda>i. ret (conv i))
            else luaL_argerror L 2 (changelist_msg ('' invalid '' @ name))) (\<lambda>i.
     seq (lua_pop L 1)
     (ret i))))"

definition change_udata :: "lstate \<Rightarrow> lstate lua" where
  "change_udata L =
     lbind (lua_getfield L (-1) ''udata'') (\<lambda>t.
     lbind (if t = LUA_TNIL then ret 0
            else if t = LUA_TTHREAD then lua_tothread L (-1)
            else luaL_argerror L 2 (changelist_msg '' invalid udata'')) (\<lambda>udata.
     seq (lua_pop L 1)
     (ret udata)))"

definition change :: "env \<Rightarrow> lstate \<Rightarrow> carg list lua" where
  "change E L =
     lbind (change_ident E L) (\<lambda>ident.
     lbind (change_int E L ''filter'' to_short) (\<lambda>filter.
     lbind (change_int E L ''flags'' to_ushort) (\<lambda>flags.
     lbind (change_optint E L ''fflags'' to_uint) (\<lambda>fflags.
     lbind (change_optint E L ''data'' to_lua_Integer) (\<lambda>data.
     lbind (change_udata L) (\<lambda>udata.
     ret [AInt ident, AInt filter, AInt flags, AInt fflags, AInt data, APtr udata]))))))"

text \<open>The loop over the changes: \<open>k\<close> rounds are left.\<close>

fun change_loop :: "env \<Rightarrow> lstate \<Rightarrow> nat \<Rightarrow> nat \<Rightarrow> carg list lua" where
  "change_loop E L i 0 = ret []"
| "change_loop E L i (Suc k) =
     lbind (lua_geti L 2 (int i)) (\<lambda>t.
     seq (luaL_argcheck (t = LUA_TTABLE) 2 (changelist_msg '' invalid''))
    (lbind (change E L) (\<lambda>ch.
     seq (lua_pop L 1)
    (lbind (change_loop E L (Suc i) k) (\<lambda>chs.
     ret (ch @ chs))))))"

definition push_event_field :: "lstate \<Rightarrow> string \<Rightarrow> int \<Rightarrow> unit lua" where
  "push_event_field L name i =
     seq (lua_pushinteger L i)
     (lua_setfield L (-2) name)"

text \<open>
  The reply of \<^verbatim>\<open>kevent\<close>: the number of events, then (after \<^verbatim>\<open>errno\<close>) \<^verbatim>\<open>ident\<close>, \<^verbatim>\<open>filter\<close>, \<^verbatim>\<open>flags\<close>, \<^verbatim>\<open>fflags\<close>,
  \<^verbatim>\<open>data\<close> and \<^verbatim>\<open>udata\<close> of the event.
\<close>

definition push_event :: "lstate \<Rightarrow> cres \<Rightarrow> nat lua" where
  "push_event L r =
     seq (lua_newtable L)
    (seq (push_event_field L ''ident'' (to_lua_Integer (outi r 1)))
    (seq (lua_pushlightuserdata L (nat (to_size_t (outi r 1))))
    (seq (lua_setfield L (-2) ''cookie'')
    (seq (push_event_field L ''filter'' (to_short (outi r 2)))
    (seq (push_event_field L ''flags'' (to_ushort (outi r 3)))
    (seq (push_event_field L ''fflags'' (to_uint (outi r 4)))
    (seq (push_event_field L ''data'' (to_lua_Integer (outi r 5)))
    (let udata = nat (outi r 6) in
     seq (if udata \<noteq> 0 then
            seq (lua_pushstring L ''udata'')
           (seq (lua_pushthread udata)
           (seq (lua_xmove udata L 1)
            (lua_rawset L (-3))))
          else ret ())
     (ret 1)))))))))"

definition l_kevent :: "env \<Rightarrow> lstate \<Rightarrow> nat lua" where
  "l_kevent E L =
     lbind (luaL_checkudata L 1 KQUEUE_METATABLE) (\<lambda>kqp.
     lbind (lua_type L 2) (\<lambda>t.
     lbind (if t \<le> LUA_TNIL then ret []
            else
              seq (luaL_argcheck (t = LUA_TTABLE) 2 (changelist_msg '' expected''))
             (lbind (luaL_len E L 2) (\<lambda>n.
              let nchanges = to_int (int n) in
              lbind (ccall_rc E ''malloc'' [AInt (to_size_t (nchanges * const E ''sizeof(struct kevent)''))]) (\<lambda>changelist.
              if changelist = 0 then fatal E L ''malloc'' (const E ''ENOMEM'')
              else change_loop E L 1 (nat (to_size_t nchanges)))))) (\<lambda>changes.
     lbind (get_blk kqp) (\<lambda>kq.
     lbind (ccall E ''kevent'' (AInt kq # changes)) (\<lambda>r.
     if rc r = 1 then push_event L r
     else if rc r = -1 then fail E L (errno r)
     else luaL_error L ''kevent failed spectacularly'')))))"

definition l_close :: "env \<Rightarrow> lstate \<Rightarrow> nat lua" where
  "l_close E L =
     lbind (luaL_checkudata L 1 KQUEUE_METATABLE) (\<lambda>kqp.
     lbind (get_blk kqp) (\<lambda>kq.
     if kq = -1 then ret 0
     else
       lbind (ccall E ''close'' [AInt kq]) (\<lambda>r.
       if rc r = -1 then fail E L (errno r)
       else
         seq (set_blk kqp (-1))
         (success L))))"

definition l_fileno :: "env \<Rightarrow> lstate \<Rightarrow> nat lua" where
  "l_fileno E L =
     lbind (luaL_checkudata L 1 KQUEUE_METATABLE) (\<lambda>kqp.
     lbind (get_blk kqp) (\<lambda>kq.
     if kq = -1 then ret 0
     else
       seq (lua_pushinteger L kq)
       (ret 1)))"

definition l_gc :: "env \<Rightarrow> lstate \<Rightarrow> nat lua" where
  "l_gc E L =
     lbind (luaL_checkudata L 1 KQUEUE_METATABLE) (\<lambda>kqp.
     lbind (get_blk kqp) (\<lambda>kq.
     if kq = -1 then ret 0
     else
       seq (ccall E ''close'' [AInt kq])
      (seq (set_blk kqp (-1))
       (ret 0))))"

definition l_kqueue_funcs :: "(string \<times> cfunction) list" where
  "l_kqueue_funcs =
     [(''kqueue'', l_kqueue),
      (''wrap'', l_wrap)]"

definition l_kqueue_meta :: "(string \<times> cfunction) list" where
  "l_kqueue_meta =
     [(''__close'', l_close),
      (''__gc'', l_gc),
      (''close'', l_close),
      (''kevent'', l_kevent),
      (''fileno'', l_fileno)]"

text \<open>The metatable (its own \<^verbatim>\<open>__index\<close>), and the module; constants that not every system has are left out.\<close>

definition luaopen_sys_event ::
  "env \<Rightarrow> (string \<times> (string \<times> cfunction) list) \<times> (string \<times> field) list" where
  "luaopen_sys_event E =
     ((KQUEUE_METATABLE, l_kqueue_meta),
      luaL_newlib l_kqueue_funcs @ DEFINE E []
        [''EV_ADD'', ''EV_DELETE'', ''EV_ENABLE'', ''EV_DISABLE'', ''EV_FORCEONESHOT'', ''EV_ONESHOT'', ''EV_CLEAR'',
         ''EV_RECEIPT'', ''EV_DISPATCH'', ''EV_EOF'', ''EV_ERROR'', ''EVFILT_READ'', ''EVFILT_WRITE'', ''EVFILT_AIO'',
         ''EVFILT_VNODE'', ''EVFILT_PROC'', ''EVFILT_SIGNAL'', ''EVFILT_TIMER'', ''EVFILT_PROCDESC'', ''EVFILT_FS'',
         ''EVFILT_LIO'', ''EVFILT_USER'', ''EVFILT_SENDFILE'', ''EVFILT_EMPTY'', ''NOTE_FFNOP'', ''NOTE_FFAND'',
         ''NOTE_FFOR'', ''NOTE_FFCOPY'', ''NOTE_FFCTRLMASK'', ''NOTE_FFLAGSMASK'', ''NOTE_TRIGGER'', ''NOTE_LOWAT'',
         ''NOTE_FILE_POLL'', ''NOTE_DELETE'', ''NOTE_WRITE'', ''NOTE_EXTEND'', ''NOTE_ATTRIB'', ''NOTE_LINK'',
         ''NOTE_RENAME'', ''NOTE_REVOKE'', ''NOTE_OPEN'', ''NOTE_CLOSE'', ''NOTE_CLOSE_WRITE'', ''NOTE_READ'',
         ''NOTE_EXIT'', ''NOTE_FORK'', ''NOTE_EXEC'', ''NOTE_PCTRLMASK'', ''NOTE_PDATAMASK'', ''NOTE_TRACK'',
         ''NOTE_TRACKERR'', ''NOTE_CHILD'', ''NOTE_SECONDS'', ''NOTE_MSECONDS'', ''NOTE_USECONDS'', ''NOTE_NSECONDS'',
         ''NOTE_ABSTIME'', ''KQUEUE_CLOEXEC''])"

section \<open>A queue owns its descriptor\<close>

interpretation kqueue: handle_owner "blk_object KQUEUE_METATABLE" "\<lambda>h. h \<noteq> -1" "\<lambda>h. (''close'', [AInt h])" l_close l_gc
  by unfold_locales
    (simp_all add: l_close_def l_gc_def luaL_checkudata_def get_blk_def set_blk_def ud_at_def lua_run)

section \<open>Changes and events\<close>

text \<open>A change as a Lua program describes it: a table with these fields, the last three optional.\<close>

record kchange =
  ch_ident :: int
  ch_filter :: int
  ch_flags :: int
  ch_fflags :: "int option"
  ch_data :: "int option"
  ch_udata :: "lstate option"

definition opt_int :: "int option \<Rightarrow> lval" where
  "opt_int i = (case i of None \<Rightarrow> LNil | Some n \<Rightarrow> LInteger n)"

definition describes :: "ltable \<Rightarrow> kchange \<Rightarrow> bool" where
  "describes tb ch \<longleftrightarrow> strs tb ''cookie'' = LNil \<and> strs tb ''ident'' = LInteger (ch_ident ch)
     \<and> strs tb ''filter'' = LInteger (ch_filter ch) \<and> strs tb ''flags'' = LInteger (ch_flags ch)
     \<and> strs tb ''fflags'' = opt_int (ch_fflags ch) \<and> strs tb ''data'' = opt_int (ch_data ch)
     \<and> strs tb ''udata'' = (case ch_udata ch of None \<Rightarrow> LNil | Some l \<Rightarrow> LThread l)"

text \<open>The \<^verbatim>\<open>struct kevent\<close> for it.\<close>

definition ev_set :: "kchange \<Rightarrow> carg list" where
  "ev_set ch = [AInt (to_size_t (ch_ident ch)), AInt (to_short (ch_filter ch)), AInt (to_ushort (ch_flags ch)),
     AInt (case ch_fflags ch of None \<Rightarrow> 0 | Some i \<Rightarrow> to_uint i),
     AInt (case ch_data ch of None \<Rightarrow> 0 | Some i \<Rightarrow> to_lua_Integer i),
     APtr (case ch_udata ch of None \<Rightarrow> 0 | Some l \<Rightarrow> l)]"

lemma change_run:
  assumes "stacks w L = Some (s @ [LTable t])" and "tabs w t = Some tb" and "describes tb ch"
  shows "change E L w = (Inr (ev_set ch), w)"
proof -
  have w: "setst L (s @ [LTable t]) w = w" by (rule setst_same [OF assms(1)])
  have ident: "change_ident E L w = (Inr (to_size_t (ch_ident ch)), w)"
    using assms w by (simp add: change_ident_def lua_getfield_def lua_run describes_def)
  have int: "change_int E L name conv w = (Inr (conv i), w)" if "strs tb name = LInteger i" for name conv i
    using assms w that by (simp add: change_int_def lua_getfield_def luaL_argcheck_def lua_run)
  have opt: "change_optint E L name conv w = (Inr (case i of None \<Rightarrow> 0 | Some n \<Rightarrow> conv n), w)"
    if "strs tb name = opt_int i" for name conv i
    using assms w that by (cases i) (simp_all add: change_optint_def lua_getfield_def lua_run opt_int_def)
  have udata: "change_udata L w = (Inr (case ch_udata ch of None \<Rightarrow> 0 | Some l \<Rightarrow> l), w)"
    using assms w by (cases "ch_udata ch") (simp_all add: change_udata_def lua_getfield_def lua_tothread_def lua_run describes_def)
  show ?thesis
    using assms(3) by (simp add: change_def describes_def lbind_def ident int opt udata ev_set_def)
qed

lemma change_loop_run:
  assumes "stacks w L = Some [LUserdata u, LTable t]" and "tabs w t = Some tb" and "arr tb = map LTable ts"
    and "length chs = length ts" and "\<And>j. j < length ts \<Longrightarrow> \<exists>tb'. tabs w (ts ! j) = Some tb' \<and> describes tb' (chs ! j)"
    and "i + k = length ts"
  shows "change_loop E L (Suc i) k w = (Inr (concat (map ev_set (drop i chs))), w)"
  using assms(6)
proof (induction k arbitrary: i)
  case 0
  then show ?case using assms(4) by simp
next
  case (Suc k)
  then have i: "i < length ts" by simp
  obtain tb' where tb': "tabs w (ts ! i) = Some tb'" "describes tb' (chs ! i)" using assms(5) [OF i] by blast
  let ?w = "setst L [LUserdata u, LTable t, LTable (ts ! i)] w"
  have "tget tb (int (Suc i)) = LTable (ts ! i)"
    using assms(3) i by (simp add: tget_def nat_add_distrib)
  then have get: "lua_geti L 2 (int (Suc i)) w = (Inr LUA_TTABLE, ?w)"
    using assms(1,2) by (simp add: lua_rawgeti_def tab_at_def lua_run)
  have ch: "change E L ?w = (Inr (ev_set (chs ! i)), ?w)"
    by (rule change_run [of _ _ "[LUserdata u, LTable t]" "ts ! i"]) (use tb' in simp_all)
  have "chs ! i # drop (Suc i) chs = drop i chs"
    using i assms(4) by (simp add: Cons_nth_drop_Suc)
  then have "ev_set (chs ! i) @ concat (map ev_set (drop (Suc i) chs)) = concat (map ev_set (drop i chs))"
    by (metis concat.simps(2) list.simps(9))
  with get ch Suc.IH [of "Suc i"] Suc.prems assms(1) show ?case
    by (simp add: luaL_argcheck_def lua_run numeral_2_eq_2 setst_same)
qed


definition changes_world :: world where
  "changes_world = (world0 [1 \<mapsto> [LUserdata 3, LTable 4], 2 \<mapsto> []])
     \<lparr>uds := [3 \<mapsto> blk_object KQUEUE_METATABLE (Some 8)],
      tabs := [4 \<mapsto> empty_table\<lparr>arr := [LTable 5]\<rparr>,
        5 \<mapsto> empty_table\<lparr>strs := (\<lambda>_. LNil)(''ident'' := LInteger 0, ''filter'' := LInteger (-1), ''flags'' := LInteger 1,
               ''udata'' := LThread 2)\<rparr>]\<rparr>"


definition event_fields :: "cres \<Rightarrow> string \<Rightarrow> lval" where
  "event_fields r = (\<lambda>_. LNil)(''ident'' := LInteger (to_lua_Integer (outi r 1)),
     ''cookie'' := LLightuserdata (nat (to_size_t (outi r 1))), ''filter'' := LInteger (to_short (outi r 2)),
     ''flags'' := LInteger (to_ushort (outi r 3)), ''fflags'' := LInteger (to_uint (outi r 4)),
     ''data'' := LInteger (to_lua_Integer (outi r 5)))"

lemma push_event_run:
  assumes "stacks w L = Some s" and "l = nat (outi r 6)"
  shows "l = 0 \<Longrightarrow> push_event L r w = (Inr 1, setst L (s @ [LTable (fresh w)])
      (w\<lparr>tabs := (tabs w)(fresh w \<mapsto> empty_table\<lparr>strs := event_fields r\<rparr>), fresh := Suc (fresh w)\<rparr>))"
    and "l \<noteq> 0 \<Longrightarrow> stacks w l = Some s' \<Longrightarrow> push_event L r w = (Inr 1, setst L (s @ [LTable (fresh w)])
      (w\<lparr>tabs := (tabs w)(fresh w \<mapsto> empty_table\<lparr>strs := (event_fields r)(''udata'' := LThread l)\<rparr>), fresh := Suc (fresh w)\<rparr>))"
    and "l \<noteq> 0 \<Longrightarrow> stacks w l = None \<Longrightarrow> fst (push_event L r w) = Inl Undef"
proof -
  have at: "at (s @ [LTable t, LString k, v]) (-2) = Some (LString k)" for t k v
    by (simp add: at_def pos_def nth_append)
  note run = push_event_def push_event_field_def lua_createtable_def lua_setfield_def lua_rawset_def lua_pushthread_def
    lua_xmove_def lua_run Let_def event_fields_def empty_table_def tab_at_def
  show "l = 0 \<Longrightarrow> push_event L r w = (Inr 1, setst L (s @ [LTable (fresh w)])
      (w\<lparr>tabs := (tabs w)(fresh w \<mapsto> empty_table\<lparr>strs := event_fields r\<rparr>), fresh := Suc (fresh w)\<rparr>))"
    using assms by (simp add: run)
  have tab: "at (s @ [LTable t, LString k, v]) (-3) = Some (LTable t)" for t k v
    by (simp add: at_def pos_def nth_append)
  show "l \<noteq> 0 \<Longrightarrow> stacks w l = Some s' \<Longrightarrow> push_event L r w = (Inr 1, setst L (s @ [LTable (fresh w)])
      (w\<lparr>tabs := (tabs w)(fresh w \<mapsto> empty_table\<lparr>strs := (event_fields r)(''udata'' := LThread l)\<rparr>), fresh := Suc (fresh w)\<rparr>))"
    using assms by (cases "l = L") (simp_all add: run at tab setst_swap [of l L] setst_same)
  have dead: "lua_push l v w' = (Inl Undef, w')" if "stacks w' l = None" for v w'
    using that by (simp add: lua_push_def modst_def)
  show "l \<noteq> 0 \<Longrightarrow> stacks w l = None \<Longrightarrow> fst (push_event L r w) = Inl Undef"
    using assms dead by (cases "l = L") (simp_all add: run)
qed

text \<open>
  The event that \<^verbatim>\<open>kevent\<close> got from the kernel comes back as a table of its members, with the thread
  that was given as \<^verbatim>\<open>udata\<close>. The kernel keeps only a pointer: for any other number in \<^verbatim>\<open>udata\<close> (a thread
  that was collected, or the \<^verbatim>\<open>sigev_value\<close> of an asynchronous request) the call is undefined behaviour.
\<close>

theorem kevent_returns_event:
  assumes "stacks w L = Some [LUserdata u]" and "uds w u = Some (blk_object KQUEUE_METATABLE (Some kq))"
    and "r = reply E (trace w) (''kevent'', [AInt kq])" and "rc r = 1" and "l = nat (outi r 6)"
  shows "if l = 0 \<or> stacks w l \<noteq> None
    then \<exists>w' tb. l_kevent E L w = (Inr 1, w') \<and> stacks w' L = Some [LUserdata u, LTable (fresh w)]
      \<and> tabs w' (fresh w) = Some tb \<and> strs tb ''ident'' = LInteger (to_lua_Integer (outi r 1))
      \<and> strs tb ''filter'' = LInteger (to_short (outi r 2)) \<and> strs tb ''flags'' = LInteger (to_ushort (outi r 3))
      \<and> strs tb ''fflags'' = LInteger (to_uint (outi r 4)) \<and> strs tb ''data'' = LInteger (to_lua_Integer (outi r 5))
      \<and> strs tb ''udata'' = (if l = 0 then LNil else LThread l)
    else fst (l_kevent E L w) = Inl Undef"
proof -
  let ?w = "w\<lparr>trace := (''kevent'', [AInt kq]) # trace w\<rparr>"
  have run: "l_kevent E L w = push_event L r ?w"
    using assms by (simp add: l_kevent_def luaL_checkudata_def get_blk_def ud_at_def lua_run)
  have "stacks ?w L = Some [LUserdata u]" using assms(1) by simp
  note pushed = push_event_run [OF this assms(5)]
  consider "l = 0" | s where "l \<noteq> 0" "stacks w l = Some s" | "l \<noteq> 0" "stacks w l = None" by blast
  then show ?thesis
  proof cases
    case 1
    with pushed(1) run show ?thesis by (simp add: event_fields_def)
  next
    case 2
    with pushed(2) [of s] run show ?thesis by (simp add: event_fields_def)
  next
    case 3
    with pushed(3) run show ?thesis by simp
  qed
qed

definition event_env :: env where
  "event_env = env0\<lparr>reply := (\<lambda>tr c. \<lparr>rc = 1, outi = (\<lambda>i. if i = 6 then 2 else 5), outs = [], outv = (\<lambda>_. [])\<rparr>)\<rparr>"

theorem kevent_returns_event_witness:
  "\<exists>w' tb. l_kevent event_env 1 (setst 1 [LUserdata 3] changes_world) = (Inr 1, w') \<and> stacks w' 1 = Some [LUserdata 3, LTable 10]
      \<and> tabs w' 10 = Some tb \<and> strs tb ''ident'' = LInteger (to_lua_Integer 5)
      \<and> strs tb ''filter'' = LInteger (to_short 5) \<and> strs tb ''flags'' = LInteger (to_ushort 5)
      \<and> strs tb ''fflags'' = LInteger (to_uint 5) \<and> strs tb ''data'' = LInteger (to_lua_Integer 5)
      \<and> strs tb ''udata'' = LThread 2"
proof -
  let ?w = "setst 1 [LUserdata 3] changes_world" and ?r = "reply event_env [] (''kevent'', [AInt 8])"
  have r: "rc ?r = 1" "outi ?r i = (if i = 6 then 2 else 5)" for i by (simp_all add: event_env_def)
  have w: "stacks ?w 1 = Some [LUserdata 3]" "stacks ?w 2 = Some []" "fresh ?w = 10" "trace ?w = []"
    "uds ?w 3 = Some (blk_object KQUEUE_METATABLE (Some 8))" by (simp_all add: changes_world_def)
  show ?thesis
    using kevent_returns_event [OF w(1,5), of ?r event_env 2] r w(2-4) by simp
qed

end
