(* ===== verification/Dirent.thy ===== *)
theory Dirent
  imports Handle Resources
begin

text \<open>
  \<^verbatim>\<open>dirent/lua_dirent.c\<close>: directory streams. The wrapper's cookie is the \<^verbatim>\<open>DIR *\<close>, \<^verbatim>\<open>NULL\<close> once it is closed.
  A reply of \<^verbatim>\<open>readdir\<close> is 0 at the end (with \<^verbatim>\<open>errno\<close> 0) or on failure, else the entry: its file number
  and type as out-values 1 and 2, its name as string.
\<close>

section \<open>Definitions\<close>

definition DIR_METATABLE :: string where
  "DIR_METATABLE = ''DIR''"

definition l_opendir :: "env \<Rightarrow> lstate \<Rightarrow> nat lua" where
  "l_opendir E L =
     lbind (luaL_checkstring E L 1) (\<lambda>path.
     lbind (ccall E ''opendir'' [AStr path]) (\<lambda>r.
     if rc r = 0 then fail E L (errno r)
     else new L (nat (rc r)) DIR_METATABLE))"

definition l_fdopendir :: "env \<Rightarrow> lstate \<Rightarrow> nat lua" where
  "l_fdopendir E L =
     lbind (luaL_checkinteger E L 1) (\<lambda>fd.
     lbind (ccall E ''fdopendir'' [AInt (to_int fd)]) (\<lambda>r.
     if rc r = 0 then fail E L (errno r)
     else new L (nat (rc r)) DIR_METATABLE))"

definition l_closedir :: "env \<Rightarrow> lstate \<Rightarrow> nat lua" where
  "l_closedir E L =
     lbind (checkcookie L 1 DIR_METATABLE) (\<lambda>dirp.
     lbind (ccall E ''closedir'' [APtr dirp]) (\<lambda>r.
     if rc r = -1 then fatal E L ''closedir'' (errno r)
     else
       seq (setcookie L 1 0)
       (ret 0)))"

definition l_dir_gc :: "env \<Rightarrow> lstate \<Rightarrow> nat lua" where
  "l_dir_gc E L =
     lbind (checkcookienull L 1 DIR_METATABLE) (\<lambda>dirp.
     if dirp \<noteq> 0 then
       lbind (ccall E ''closedir'' [APtr dirp]) (\<lambda>r.
       if rc r = -1 then fatal E L ''closedir'' (errno r)
       else ret 0)
     else ret 0)"

definition l_readdir :: "env \<Rightarrow> lstate \<Rightarrow> nat lua" where
  "l_readdir E L =
     lbind (checkcookie L 1 DIR_METATABLE) (\<lambda>dirp.
     lbind (ccall E ''readdir'' [APtr dirp]) (\<lambda>r.
     if rc r = 0 then
       if errno r = 0 then ret 0
       else fail E L (errno r)
     else
       seq (lua_createtable L)
      (seq (lua_pushinteger L (to_lua_Integer (outi r 1)))
      (seq (lua_setfield L (-2) ''fileno'')
      (seq (lua_pushinteger L (outi r 2))
      (seq (lua_setfield L (-2) ''type'')
      (seq (lua_pushstring L (outs r))
      (seq (lua_setfield L (-2) ''name'')
       (ret 1)))))))))"

definition l_telldir :: "env \<Rightarrow> lstate \<Rightarrow> nat lua" where
  "l_telldir E L =
     lbind (checkcookie L 1 DIR_METATABLE) (\<lambda>dirp.
     lbind (ccall E ''telldir'' [APtr dirp]) (\<lambda>r.
     if rc r = -1 then fail E L (errno r)
     else
       seq (lua_pushinteger L (rc r))
       (ret 1)))"

definition l_seekdir :: "env \<Rightarrow> lstate \<Rightarrow> nat lua" where
  "l_seekdir E L =
     lbind (checkcookie L 1 DIR_METATABLE) (\<lambda>dirp.
     lbind (luaL_checkinteger E L 2) (\<lambda>loc.
     seq (ccall E ''seekdir'' [APtr dirp, AInt loc])
     (ret 0)))"

definition l_rewinddir :: "env \<Rightarrow> lstate \<Rightarrow> nat lua" where
  "l_rewinddir E L =
     lbind (checkcookie L 1 DIR_METATABLE) (\<lambda>dirp.
     seq (ccall E ''rewinddir'' [APtr dirp])
     (ret 0))"

definition l_dirfd :: "env \<Rightarrow> lstate \<Rightarrow> nat lua" where
  "l_dirfd E L =
     lbind (checkcookie L 1 DIR_METATABLE) (\<lambda>dirp.
     lbind (ccall E ''dirfd'' [APtr dirp]) (\<lambda>r.
     seq (lua_pushinteger L (rc r))
     (ret 1)))"

text \<open>The macros \<^verbatim>\<open>IFTODT\<close> and \<^verbatim>\<open>DTTOIF\<close> belong to the system header.\<close>

definition l_iftodt :: "env \<Rightarrow> lstate \<Rightarrow> nat lua" where
  "l_iftodt E L =
     lbind (luaL_checkinteger E L 1) (\<lambda>mode.
     lbind (ccall E ''IFTODT'' [AInt mode]) (\<lambda>r.
     seq (lua_pushinteger L (rc r))
     (ret 1)))"

definition l_dttoif :: "env \<Rightarrow> lstate \<Rightarrow> nat lua" where
  "l_dttoif E L =
     lbind (luaL_checkinteger E L 1) (\<lambda>dt.
     lbind (ccall E ''DTTOIF'' [AInt dt]) (\<lambda>r.
     seq (lua_pushinteger L (rc r))
     (ret 1)))"

definition l_dirent_funcs :: "(string \<times> cfunction) list" where
  "l_dirent_funcs =
     [(''opendir'', l_opendir),
      (''fdopendir'', l_fdopendir),
      (''iftodt'', l_iftodt),
      (''dttoif'', l_dttoif)]"

definition l_dir_meta :: "(string \<times> cfunction) list" where
  "l_dir_meta =
     [(''__close'', l_closedir),
      (''__gc'', l_dir_gc),
      (''read'', l_readdir),
      (''tell'', l_telldir),
      (''seek'', l_seekdir),
      (''rewind'', l_rewinddir),
      (''fd'', l_dirfd)]"

definition luaopen_dirent ::
  "env \<Rightarrow> (string \<times> (string \<times> cfunction) list) \<times> (string \<times> field) list" where
  "luaopen_dirent E =
     ((DIR_METATABLE, l_dir_meta),
      luaL_newlib l_dirent_funcs @ DEFINE E ''DT_''
        [''UNKNOWN'', ''FIFO'', ''CHR'', ''DIR'', ''BLK'', ''REG'', ''LNK'', ''SOCK'', ''WHT''])"

section \<open>A stream is closed once\<close>

definition dir_object :: "int option \<Rightarrow> udata" where
  "dir_object h = wrapper DIR_METATABLE (case h of None \<Rightarrow> 0 | Some i \<Rightarrow> nat i)"

interpretation dir: handle_owner dir_object "\<lambda>h. 0 < h" "\<lambda>h. (''closedir'', [APtr (nat h)])" l_closedir l_dir_gc
proof (unfold_locales, goal_cases)
  case (1 w L u h E)
  then have "checkcookie L 1 DIR_METATABLE w = (Inr (nat h), w)"
    by (intro checkcookie_run [where s = "[LUserdata u]"]) (simp_all add: dir_object_def cookie_at_def ud_at_def)
  with 1 show ?case
    by (simp add: l_closedir_def lua_run dir_object_def setcookie_wrapper [where u = u and p = "nat h"])
next
  case (2 w L u h E)
  then show ?case
    by (simp add: l_dir_gc_def dir_object_def checkcookienull_wrapper [where u = u and p = "nat h"] lua_run)
next
  case (3 w L u E)
  then show ?case
    by (simp add: l_dir_gc_def dir_object_def checkcookienull_wrapper [where u = u and p = 0] lua_run)
qed

text \<open>
  A directory stream is closed once, whether a program closes it before it is collected or leaves that
  to the finalizer.
\<close>

theorem dir_closed_once:
  assumes "stacks w L = Some [LUserdata u]" and "uds w u = Some (wrapper DIR_METATABLE d)" and "d \<noteq> 0"
    and "rc (reply E (trace w) (''closedir'', [APtr d])) \<noteq> -1"
  shows "(\<exists>n w1 k w2. l_closedir E L w = (Inr n, w1) \<and> l_dir_gc E L (setst L [LUserdata u] w1) = (Inr k, w2)
      \<and> trace w2 = (''closedir'', [APtr d]) # trace w)
    \<and> (\<exists>k w2. l_dir_gc E L w = (Inr k, w2) \<and> trace w2 = (''closedir'', [APtr d]) # trace w)"
  using dir.closed_once [of w L u "int d" E] assms by (simp add: dir_object_def)

definition dir_world :: world where
  "dir_world = (world0 [1 \<mapsto> [LUserdata 3]])\<lparr>uds := [3 \<mapsto> wrapper DIR_METATABLE 7]\<rparr>"

theorem dir_closed_once_witness:
  "\<exists>n w1 k w2. l_closedir env0 1 dir_world = (Inr n, w1) \<and> l_dir_gc env0 1 (setst 1 [LUserdata 3] w1) = (Inr k, w2)
     \<and> trace w2 = [(''closedir'', [APtr 7])]"
  using dir_closed_once [of dir_world 1 3 7 env0] by (simp add: dir_world_def)

text \<open>The finalizer leaves the address in place: called by a program, it is called again at the collection.\<close>

lemma dir_explicit_gc:
  assumes "stacks w L = Some [LUserdata u]" and "uds w u = Some (wrapper DIR_METATABLE d)" and "d \<noteq> 0"
    and "\<And>tr. rc (reply E tr (''closedir'', [APtr d])) \<noteq> -1"
  shows "\<exists>k w1 n w2. l_dir_gc E L w = (Inr k, w1) \<and> l_dir_gc E L (setst L [LUserdata u] w1) = (Inr n, w2)
    \<and> trace w2 = (''closedir'', [APtr d]) # (''closedir'', [APtr d]) # trace w"
  using assms by (simp add: l_dir_gc_def checkcookienull_wrapper [where u = u and p = d] lua_run)

end
