(* ===== verification/Extattr.thy ===== *)
theory Extattr
  imports Handle Resources
begin

text \<open>
  \<^verbatim>\<open>sys/extattr/lua_extattr.c\<close>: extended attributes of files. Values and lists of names are read into a
  buffer that grows until it is large enough. The bytes at an address are the reply (\<open>outs\<close>) to a call
  \<open>load\<close>, as in \<^verbatim>\<open>Uio\<close>.
\<close>

section \<open>Deleting\<close>

definition l_extattr_delete :: "env \<Rightarrow> lstate \<Rightarrow> nat lua" where
  "l_extattr_delete E L =
     lbind (luaL_checkudata L 1 LUA_FILEHANDLE) (\<lambda>s.
     lbind (luaL_checkinteger E L 2) (\<lambda>attrnamespace.
     lbind (luaL_checkstring E L 3) (\<lambda>attrname.
     lbind (file_fd E L s) (\<lambda>fd.
     report E L ''extattr_delete_fd'' [AInt fd, AInt (to_int attrnamespace), AStr attrname]))))"

definition l_extattr_delete_fd :: "env \<Rightarrow> lstate \<Rightarrow> nat lua" where
  "l_extattr_delete_fd E L =
     lbind (luaL_checkinteger E L 1) (\<lambda>fd.
     lbind (luaL_checkinteger E L 2) (\<lambda>attrnamespace.
     lbind (luaL_checkstring E L 3) (\<lambda>attrname.
     report E L ''extattr_delete_fd'' [AInt (to_int fd), AInt (to_int attrnamespace), AStr attrname])))"

definition l_extattr_delete_file :: "env \<Rightarrow> lstate \<Rightarrow> nat lua" where
  "l_extattr_delete_file E L =
     lbind (luaL_checkstring E L 1) (\<lambda>path.
     lbind (luaL_checkinteger E L 2) (\<lambda>attrnamespace.
     lbind (luaL_checkstring E L 3) (\<lambda>attrname.
     report E L ''extattr_delete_file'' [AStr path, AInt (to_int attrnamespace), AStr attrname])))"

definition l_extattr_delete_link :: "env \<Rightarrow> lstate \<Rightarrow> nat lua" where
  "l_extattr_delete_link E L =
     lbind (luaL_checkstring E L 1) (\<lambda>path.
     lbind (luaL_checkinteger E L 2) (\<lambda>attrnamespace.
     lbind (luaL_checkstring E L 3) (\<lambda>attrname.
     report E L ''extattr_delete_link'' [AStr path, AInt (to_int attrnamespace), AStr attrname])))"

section \<open>Reading into a buffer that grows\<close>

text \<open>
  The loop of the \<^verbatim>\<open>get\<close> and \<^verbatim>\<open>list\<close> functions: \<open>g\<close> is the system call and \<open>pre\<close> its first arguments. It ends
  when the call fails, when memory runs out, or when the buffer was large enough; it goes on for ever if
  the kernel always asks for more. The calls it makes are added to the trace.
\<close>

datatype grown = GFail int | GNoMem | GData int int

partial_function (option) grow :: "env \<Rightarrow> string \<Rightarrow> carg list \<Rightarrow> int \<Rightarrow> int \<Rightarrow> ecall list \<Rightarrow> (grown \<times> ecall list) option" where
  "grow E g pre data datalen tr =
     (let c = (g, pre @ [AInt data, AInt datalen]); r = reply E tr c; release = (''free'', [AInt data]) in
      if rc r = -1 then Some (GFail (errno r), release # c # tr)
      else if rc r \<le> datalen then Some (GData data (rc r), c # tr)
      else
        let datalen = rc r * 2; alloc = (''malloc'', [AInt (to_size_t datalen)]);
          data = rc (reply E (release # c # tr) alloc) in
        if data = 0 then Some (GNoMem, alloc # release # c # tr)
        else grow E g pre data datalen (alloc # release # c # tr))"

definition getbuf :: "env \<Rightarrow> string \<Rightarrow> carg list \<Rightarrow> grown lua" where
  "getbuf E g pre w = (case grow E g pre 0 0 (trace w) of
      None \<Rightarrow> (Inl NoFuel, w)
    | Some (res, tr) \<Rightarrow> (Inr res, w\<lparr>trace := tr\<rparr>))"

definition getattr :: "env \<Rightarrow> lstate \<Rightarrow> string \<Rightarrow> carg list \<Rightarrow> nat lua" where
  "getattr E L g pre =
     lbind (getbuf E g pre) (\<lambda>res. case res of
       GFail error \<Rightarrow> fail E L error
     | GNoMem \<Rightarrow> fatal E L ''malloc'' (const E ''ENOMEM'')
     | GData data getlen \<Rightarrow>
         lbind (ccall E ''load'' [AInt data, AInt getlen]) (\<lambda>r.
         seq (lua_pushstring L (outs r))
        (seq (ccall E ''free'' [AInt data])
         (ret 1))))"

definition l_extattr_get :: "env \<Rightarrow> lstate \<Rightarrow> nat lua" where
  "l_extattr_get E L =
     lbind (luaL_checkudata L 1 LUA_FILEHANDLE) (\<lambda>s.
     lbind (luaL_checkinteger E L 2) (\<lambda>attrnamespace.
     lbind (luaL_checkstring E L 3) (\<lambda>attrname.
     lbind (file_fd E L s) (\<lambda>fd.
     getattr E L ''extattr_get_fd'' [AInt fd, AInt (to_int attrnamespace), AStr attrname]))))"

definition l_extattr_get_fd :: "env \<Rightarrow> lstate \<Rightarrow> nat lua" where
  "l_extattr_get_fd E L =
     lbind (luaL_checkinteger E L 1) (\<lambda>fd.
     lbind (luaL_checkinteger E L 2) (\<lambda>attrnamespace.
     lbind (luaL_checkstring E L 3) (\<lambda>attrname.
     getattr E L ''extattr_get_fd'' [AInt (to_int fd), AInt (to_int attrnamespace), AStr attrname])))"

definition l_extattr_get_file :: "env \<Rightarrow> lstate \<Rightarrow> nat lua" where
  "l_extattr_get_file E L =
     lbind (luaL_checkstring E L 1) (\<lambda>path.
     lbind (luaL_checkinteger E L 2) (\<lambda>attrnamespace.
     lbind (luaL_checkstring E L 3) (\<lambda>attrname.
     getattr E L ''extattr_get_file'' [AStr path, AInt (to_int attrnamespace), AStr attrname])))"

definition l_extattr_get_link :: "env \<Rightarrow> lstate \<Rightarrow> nat lua" where
  "l_extattr_get_link E L =
     lbind (luaL_checkstring E L 1) (\<lambda>path.
     lbind (luaL_checkinteger E L 2) (\<lambda>attrnamespace.
     lbind (luaL_checkstring E L 3) (\<lambda>attrname.
     getattr E L ''extattr_get_link'' [AStr path, AInt (to_int attrnamespace), AStr attrname])))"

section \<open>Lists of names\<close>

text \<open>
  The loop of \<^verbatim>\<open>pushlist\<close> over the bytes from \<^verbatim>\<open>p\<close> to \<^verbatim>\<open>end\<close>: each name is a byte with its length, then its
  bytes. The byte is read through a \<^verbatim>\<open>char\<close>, which is signed on some machines (\<^verbatim>\<open>CHAR_MIN\<close> is negative);
  a negative length, or one beyond the end, makes \<^verbatim>\<open>lua_pushlstring\<close> read outside the buffer.
\<close>

definition char_value :: "env \<Rightarrow> char \<Rightarrow> int" where
  "char_value E c = (if const E ''CHAR_MIN'' < 0 then signed_take_bit 7 (of_char c) else of_char c)"

function push_names :: "env \<Rightarrow> lstate \<Rightarrow> string \<Rightarrow> unit lua" where
  "push_names E L [] = ret ()"
| "push_names E L (c # p) =
     (let len = char_value E c in
      if len < 0 \<or> int (length p) < len then throw Undef
      else
        seq (lua_pushstring L (take (nat len) p))
       (lbind (luaL_len E L (-2)) (\<lambda>n.
        seq (lua_rawseti L (-2) (int n + 1))
        (push_names E L (drop (nat len) p)))))"
  by pat_completeness auto
termination by (relation "measure (\<lambda>(_, _, p). length p)") auto

definition pushlist :: "env \<Rightarrow> lstate \<Rightarrow> string \<Rightarrow> unit lua" where
  "pushlist E L p =
     seq (lua_createtable L)
     (push_names E L p)"

definition listattr :: "env \<Rightarrow> lstate \<Rightarrow> string \<Rightarrow> carg list \<Rightarrow> nat lua" where
  "listattr E L g pre =
     lbind (getbuf E g pre) (\<lambda>res. case res of
       GFail error \<Rightarrow> fail E L error
     | GNoMem \<Rightarrow> fatal E L ''malloc'' (const E ''ENOMEM'')
     | GData data listlen \<Rightarrow>
         lbind (ccall E ''load'' [AInt data, AInt listlen]) (\<lambda>r.
         seq (pushlist E L (outs r))
        (seq (ccall E ''free'' [AInt data])
         (ret 1))))"

definition l_extattr_list :: "env \<Rightarrow> lstate \<Rightarrow> nat lua" where
  "l_extattr_list E L =
     lbind (luaL_checkudata L 1 LUA_FILEHANDLE) (\<lambda>s.
     lbind (luaL_checkinteger E L 2) (\<lambda>attrnamespace.
     lbind (file_fd E L s) (\<lambda>fd.
     listattr E L ''extattr_list_fd'' [AInt fd, AInt (to_int attrnamespace)])))"

definition l_extattr_list_fd :: "env \<Rightarrow> lstate \<Rightarrow> nat lua" where
  "l_extattr_list_fd E L =
     lbind (luaL_checkinteger E L 1) (\<lambda>fd.
     lbind (luaL_checkinteger E L 2) (\<lambda>attrnamespace.
     listattr E L ''extattr_list_fd'' [AInt (to_int fd), AInt (to_int attrnamespace)]))"

definition l_extattr_list_file :: "env \<Rightarrow> lstate \<Rightarrow> nat lua" where
  "l_extattr_list_file E L =
     lbind (luaL_checkstring E L 1) (\<lambda>path.
     lbind (luaL_checkinteger E L 2) (\<lambda>attrnamespace.
     listattr E L ''extattr_list_file'' [AStr path, AInt (to_int attrnamespace)]))"

definition l_extattr_list_link :: "env \<Rightarrow> lstate \<Rightarrow> nat lua" where
  "l_extattr_list_link E L =
     lbind (luaL_checkstring E L 1) (\<lambda>path.
     lbind (luaL_checkinteger E L 2) (\<lambda>attrnamespace.
     listattr E L ''extattr_list_link'' [AStr path, AInt (to_int attrnamespace)]))"

section \<open>Setting, and names of namespaces\<close>

definition setattr :: "env \<Rightarrow> lstate \<Rightarrow> string \<Rightarrow> carg list \<Rightarrow> nat lua" where
  "setattr E L g as =
     lbind (ccall E g as) (\<lambda>r.
     if rc r = -1 then fail E L (errno r)
     else
       seq (lua_pushinteger L (rc r))
       (ret 1))"

definition l_extattr_set :: "env \<Rightarrow> lstate \<Rightarrow> nat lua" where
  "l_extattr_set E L =
     lbind (luaL_checkudata L 1 LUA_FILEHANDLE) (\<lambda>s.
     lbind (luaL_checkinteger E L 2) (\<lambda>attrnamespace.
     lbind (luaL_checkstring E L 3) (\<lambda>attrname.
     lbind (luaL_checklstring E L 4) (\<lambda>data.
     lbind (file_fd E L s) (\<lambda>fd.
     setattr E L ''extattr_set_fd'' [AInt fd, AInt (to_int attrnamespace), AStr attrname, AStr data])))))"

definition l_extattr_set_fd :: "env \<Rightarrow> lstate \<Rightarrow> nat lua" where
  "l_extattr_set_fd E L =
     lbind (luaL_checkinteger E L 1) (\<lambda>fd.
     lbind (luaL_checkinteger E L 2) (\<lambda>attrnamespace.
     lbind (luaL_checkstring E L 3) (\<lambda>attrname.
     lbind (luaL_checklstring E L 4) (\<lambda>data.
     setattr E L ''extattr_set_fd'' [AInt (to_int fd), AInt (to_int attrnamespace), AStr attrname, AStr data]))))"

definition l_extattr_set_file :: "env \<Rightarrow> lstate \<Rightarrow> nat lua" where
  "l_extattr_set_file E L =
     lbind (luaL_checkstring E L 1) (\<lambda>path.
     lbind (luaL_checkinteger E L 2) (\<lambda>attrnamespace.
     lbind (luaL_checkstring E L 3) (\<lambda>attrname.
     lbind (luaL_checklstring E L 4) (\<lambda>data.
     setattr E L ''extattr_set_file'' [AStr path, AInt (to_int attrnamespace), AStr attrname, AStr data]))))"

definition l_extattr_set_link :: "env \<Rightarrow> lstate \<Rightarrow> nat lua" where
  "l_extattr_set_link E L =
     lbind (luaL_checkstring E L 1) (\<lambda>path.
     lbind (luaL_checkinteger E L 2) (\<lambda>attrnamespace.
     lbind (luaL_checkstring E L 3) (\<lambda>attrname.
     lbind (luaL_checklstring E L 4) (\<lambda>data.
     setattr E L ''extattr_set_link'' [AStr path, AInt (to_int attrnamespace), AStr attrname, AStr data]))))"

text \<open>The string that the library allocates: its address is out-value 1.\<close>

definition l_extattr_namespace_to_string :: "env \<Rightarrow> lstate \<Rightarrow> nat lua" where
  "l_extattr_namespace_to_string E L =
     lbind (luaL_checkinteger E L 1) (\<lambda>attrnamespace.
     lbind (ccall E ''extattr_namespace_to_string'' [AInt (to_int attrnamespace)]) (\<lambda>r.
     if rc r = -1 then fail E L (errno r)
     else
       seq (lua_pushstring L (cstr (outs r)))
      (seq (ccall E ''free'' [AInt (outi r 1)])
       (ret 1))))"

definition l_extattr_string_to_namespace :: "env \<Rightarrow> lstate \<Rightarrow> nat lua" where
  "l_extattr_string_to_namespace E L =
     lbind (luaL_checkstring E L 1) (\<lambda>str.
     lbind (ccall E ''extattr_string_to_namespace'' [AStr str]) (\<lambda>r.
     if rc r = -1 then fail E L (errno r)
     else
       seq (lua_pushinteger L (outi r 1))
       (ret 1)))"

definition l_extattr_funcs :: "(string \<times> cfunction) list" where
  "l_extattr_funcs =
     [(''delete'', l_extattr_delete),
      (''delete_fd'', l_extattr_delete_fd),
      (''delete_file'', l_extattr_delete_file),
      (''delete_link'', l_extattr_delete_link),
      (''get'', l_extattr_get),
      (''get_fd'', l_extattr_get_fd),
      (''get_file'', l_extattr_get_file),
      (''get_link'', l_extattr_get_link),
      (''list'', l_extattr_list),
      (''list_fd'', l_extattr_list_fd),
      (''list_file'', l_extattr_list_file),
      (''list_link'', l_extattr_list_link),
      (''set'', l_extattr_set),
      (''set_fd'', l_extattr_set_fd),
      (''set_file'', l_extattr_set_file),
      (''set_link'', l_extattr_set_link),
      (''namespace_to_string'', l_extattr_namespace_to_string),
      (''string_to_namespace'', l_extattr_string_to_namespace)]"

definition luaopen_sys_extattr :: "env \<Rightarrow> (string \<times> field) list" where
  "luaopen_sys_extattr E = luaL_newlib l_extattr_funcs @ DEFINE E ''EXTATTR_''
     [''NAMESPACE_EMPTY'', ''NAMESPACE_USER'', ''NAMESPACE_SYSTEM'']"

section \<open>The loop ends\<close>

text \<open>
  What the manual of \<^verbatim>\<open>extattr_get_file(2)\<close> says: with a buffer the number of bytes read into it is
  returned, without one the number of bytes available.
\<close>

definition reads_at_most :: "env \<Rightarrow> string \<Rightarrow> bool" where
  "reads_at_most E g \<longleftrightarrow> (\<forall>tr as data n. data \<noteq> 0 \<longrightarrow> 0 \<le> n \<longrightarrow> rc (reply E tr (g, as @ [AInt data, AInt n])) \<le> n)"

text \<open>
  Under this contract the loop ends: after at most two system calls it has the whole value, or has
  reported a failure.
\<close>

theorem extattr_loop_ends:
  assumes "reads_at_most E g" and "\<And>c tr. -1 \<le> rc (reply E tr c)" and "g \<noteq> ''malloc''" and "g \<noteq> ''free''"
  shows "\<exists>res tr'. grow E g pre 0 0 tr = Some (res, tr')
    \<and> length (filter (\<lambda>c. fst c = g) tr') \<le> length (filter (\<lambda>c. fst c = g) tr) + 2"
proof -
  let ?c = "(g, pre @ [AInt 0, AInt 0])"
  let ?n = "rc (reply E tr ?c)"
  consider "?n = -1" | "?n = 0" | "0 < ?n" using assms(2) [of tr ?c] by linarith
  then show ?thesis
  proof cases
    case 3
    let ?tr = "(''free'', [AInt 0]) # ?c # tr" and ?alloc = "(''malloc'', [AInt (to_size_t (?n * 2))])"
    let ?data = "rc (reply E ?tr ?alloc)"
    let ?c' = "(g, pre @ [AInt ?data, AInt (?n * 2)])"
    have first: "grow E g pre 0 0 tr = (if ?data = 0 then Some (GNoMem, ?alloc # ?tr)
        else grow E g pre ?data (?n * 2) (?alloc # ?tr))"
      using 3 by (subst grow.simps) (simp add: Let_def)
    have "grow E g pre ?data (?n * 2) (?alloc # ?tr) = (let r = reply E (?alloc # ?tr) ?c' in
        if rc r = -1 then Some (GFail (errno r), (''free'', [AInt ?data]) # ?c' # ?alloc # ?tr)
        else Some (GData ?data (rc r), ?c' # ?alloc # ?tr))" if "?data \<noteq> 0"
    proof -
      have "rc (reply E (?alloc # ?tr) ?c') \<le> ?n * 2"
        using assms(1) 3 that unfolding reads_at_most_def by simp
      then show ?thesis by (subst grow.simps) (simp add: Let_def)
    qed
    with first assms(3,4) show ?thesis by (auto simp: Let_def)
  qed (use assms(3,4) in \<open>subst grow.simps, simp add: Let_def\<close>)+
qed

definition attr_env :: env where
  "attr_env = env0\<lparr>reply := (\<lambda>tr c. \<lparr>rc = (if fst c = ''malloc'' then 9
       else case rev (snd c) of AInt n # AInt d # _ \<Rightarrow> (if d = 0 then 3 else max 0 (min 3 n)) | _ \<Rightarrow> 0),
     outi = (\<lambda>_. 0), outs = [CHR 0x02] @ ''hi'', outv = (\<lambda>_. [])\<rparr>)\<rparr>"

lemma attr_env_contract: "g \<noteq> ''malloc'' \<Longrightarrow> reads_at_most attr_env g"
  by (simp add: reads_at_most_def attr_env_def)

theorem extattr_loop_ends_witness:
  "\<exists>res tr'. grow attr_env ''extattr_list_fd'' [AInt 3] 0 0 [] = Some (res, tr')
     \<and> length (filter (\<lambda>c. fst c = ''extattr_list_fd'') tr') \<le> 2"
proof -
  have "-1 \<le> rc (reply attr_env tr c)" for tr c
    by (auto simp: attr_env_def max_def min_def split: list.split carg.split)
  then show ?thesis
    using extattr_loop_ends [OF attr_env_contract, of "''extattr_list_fd''" "[AInt 3]" "[]"] by (simp add: numeral_2_eq_2)
qed

section \<open>The buffer is freed\<close>

lemma grow_holds:
  assumes "grow E g pre data n tr = Some (res, tr')" and "holds E b [data] tr"
    and "g \<noteq> ''malloc''" and "g \<noteq> ''calloc''" and "g \<noteq> ''strdup''" and "g \<noteq> ''free''"
  shows "holds E b (case res of GData d _ \<Rightarrow> [d] | _ \<Rightarrow> []) tr'"
proof -
  define P where "P = (\<lambda>E g (pre :: carg list) (data :: int) (n :: int) tr x. g \<noteq> ''malloc'' \<longrightarrow> g \<noteq> ''calloc'' \<longrightarrow> g \<noteq> ''strdup'' \<longrightarrow> g \<noteq> ''free''
      \<longrightarrow> holds E b [data] tr \<longrightarrow> holds E b (case fst x of GData d _ \<Rightarrow> [d] | _ \<Rightarrow> []) (snd (x :: grown \<times> ecall list)))"
  have "P E g pre data n tr (res, tr')"
  proof (rule grow.raw_induct [OF _ assms(1)])
    fix grow' E g and pre :: "carg list" and data n tr x
    assume IH: "\<And>E g pre data n tr x. grow' E g pre data n tr = Some x \<Longrightarrow> P E g pre data n tr x"
      and run: "(let c = (g, pre @ [AInt data, AInt n]); r = reply E tr c; release = (''free'', [AInt data])
        in if rc r = - 1 then Some (GFail (errno r), release # c # tr)
           else if rc r \<le> n then Some (GData data (rc r), c # tr)
           else let datalen = rc r * 2; alloc = (''malloc'', [AInt (to_size_t datalen)]);
                  data = rc (reply E (release # c # tr) alloc)
                in if data = 0 then Some (GNoMem, alloc # release # c # tr)
                   else grow' E g pre data datalen (alloc # release # c # tr)) = Some x"
    let ?c = "(g, pre @ [AInt data, AInt n])"
    let ?r = "reply E tr ?c" and ?tr = "(''free'', [AInt data]) # ?c # tr"
    let ?alloc = "(''malloc'', [AInt (to_size_t (rc ?r * 2))])"
    let ?data = "rc (reply E ?tr ?alloc)"
    show "P E g pre data n tr x"
      unfolding P_def
    proof (intro impI)
      assume g: "g \<noteq> ''malloc''" "g \<noteq> ''calloc''" "g \<noteq> ''strdup''" "g \<noteq> ''free''" and h: "holds E b [data] tr"
      then have call: "holds E b [data] (?c # tr)" by (simp add: holds_def)
      then have release: "holds E b [] ?tr" by (auto simp: holds_def split: if_splits)
      then have alloc: "holds E b [?data] (?alloc # ?tr)" by (auto simp: holds_def split: if_splits)
      consider "rc ?r = -1" | "rc ?r \<noteq> -1" "rc ?r \<le> n" | "rc ?r \<noteq> -1" "\<not> rc ?r \<le> n" by blast
      then show "holds E b (case fst x of GData d _ \<Rightarrow> [d] | _ \<Rightarrow> []) (snd x)"
      proof cases
        case 3
        show ?thesis
        proof (cases "?data = 0")
          case True
          with run 3 have "x = (GNoMem, ?alloc # ?tr)" by (simp add: Let_def)
          moreover have "holds E b [] (?alloc # ?tr)"
            using alloc True by (auto simp: holds_def split: if_splits)
          ultimately show ?thesis by simp
        next
          case False
          with run 3 have "grow' E g pre ?data (rc ?r * 2) (?alloc # ?tr) = Some x" by (simp add: Let_def)
          from IH [OF this] g alloc show ?thesis by (simp add: P_def)
        qed
      qed (use run call release in \<open>auto simp: Let_def\<close>)
    qed
  qed
  with assms show ?thesis by (simp add: P_def)
qed

lemma releases_getbuf:
  assumes "g \<noteq> ''malloc''" and "g \<noteq> ''calloc''" and "g \<noteq> ''strdup''" and "g \<noteq> ''free''"
    and "\<And>res. releases E b (case res of GData d _ \<Rightarrow> [d] | _ \<Rightarrow> []) (f res)"
  shows "releases E b [] (lbind (getbuf E g pre) f)"
proof (rule releases_lbind [where S' = "\<lambda>res. case res of GData d _ \<Rightarrow> [d] | _ \<Rightarrow> []", OF _ assms(5)])
  fix w :: world assume h: "holds E b [] (trace w)"
  then have "holds E b [0] (trace w)" by (simp add: holds_def)
  with grow_holds [OF _ _ assms(1-4)] h
  show "case getbuf E g pre w of (Inl e, w') \<Rightarrow> e = Undef \<or> holds E b [] (trace w')
      | (Inr res, w') \<Rightarrow> holds E b (case res of GData d _ \<Rightarrow> [d] | _ \<Rightarrow> []) (trace w')"
    by (auto simp: getbuf_def split: option.split prod.split)
qed

text \<open>\<^verbatim>\<open>pushlist\<close> works on the table it made: nothing but undefined behaviour can stop it.\<close>

lemma push_names_errors:
  assumes "stacks w L = Some (s @ [LTable t])" and "tabs w t \<noteq> None" and "fst (push_names E L p w) = Inl e"
  shows "e = Undef"
  using assms
proof (induction E L p arbitrary: w rule: push_names.induct)
  case (2 E L c p)
  show ?case
  proof (cases "char_value E c < 0 \<or> int (length p) < char_value E c")
    case True
    with 2(4) show ?thesis by simp
  next
    case False
    obtain tb where tb: "tabs w t = Some tb" using 2(3) by blast
    let ?w = "setst L (s @ [LTable t])
      (w\<lparr>tabs := (tabs w)(t \<mapsto> tset tb (int (border E (arr tb)) + 1) (LString (take (nat (char_value E c)) p)))\<rparr>)"
    have "push_names E L (c # p) w = push_names E L (drop (nat (char_value E c)) p) ?w"
      using False 2(2) tb by (simp add: Let_def luaL_len_def lua_rawseti_def lua_run)
    with 2(4) have "fst (push_names E L (drop (nat (char_value E c)) p) ?w) = Inl e" by simp
    from 2(1) [OF refl _ _ _ this] False show ?thesis by simp
  qed
qed simp

lemma sure_pushlist [sure_rules]: "sure (pushlist E L p)"
proof (rule sureI)
  have "quiet (push_names E L p)" for p
    by (induction E L p rule: push_names.induct) (simp_all add: Let_def leaves_rules del: ret_run)
  then show "quiet (pushlist E L p)" by (simp add: pushlist_def leaves_rules)
  fix w e assume e: "fst (pushlist E L p w) = Inl e"
  show "e = Undef"
  proof (cases "stacks w L")
    case None
    with e show ?thesis by (simp add: pushlist_def lua_createtable_def lua_push_def modst_def seq_def lbind_def)
  next
    case (Some s)
    let ?w = "setst L (s @ [LTable (fresh w)]) (w\<lparr>tabs := (tabs w)(fresh w \<mapsto> empty_table), fresh := Suc (fresh w)\<rparr>)"
    have "fst (push_names E L p ?w) = Inl e"
      using e Some by (simp add: pushlist_def lua_createtable_def lua_run)
    then show ?thesis using push_names_errors [of ?w L s "fresh w" E p e] by simp
  qed
qed

lemma releases_file_fd: "(\<And>fd. releases E b [] (f fd)) \<Longrightarrow> releases E b [] (lbind (file_fd E L s) f)"
  by (simp add: file_fd_def releases_simps del: ret_run)

lemma releases_attr:
  assumes "g \<noteq> ''malloc''" and "g \<noteq> ''calloc''" and "g \<noteq> ''strdup''" and "g \<noteq> ''free''"
  shows "releases E b [] (getattr E L g pre)" "releases E b [] (listattr E L g pre)"
    "releases E b [] (setattr E L g pre)" "releases E b [] (report E L g pre)"
  using assms
  by (auto simp: getattr_def listattr_def setattr_def report_def releases_simps sure_pushlist intro!: releases_getbuf
      split: grown.split simp del: ret_run)

lemma releases_extattr:
  "releases E b [] (l_extattr_delete E L)" "releases E b [] (l_extattr_delete_fd E L)"
  "releases E b [] (l_extattr_delete_file E L)" "releases E b [] (l_extattr_delete_link E L)"
  "releases E b [] (l_extattr_get E L)" "releases E b [] (l_extattr_get_fd E L)"
  "releases E b [] (l_extattr_get_file E L)" "releases E b [] (l_extattr_get_link E L)"
  "releases E b [] (l_extattr_list E L)" "releases E b [] (l_extattr_list_fd E L)"
  "releases E b [] (l_extattr_list_file E L)" "releases E b [] (l_extattr_list_link E L)"
  "releases E b [] (l_extattr_set E L)" "releases E b [] (l_extattr_set_fd E L)"
  "releases E b [] (l_extattr_set_file E L)" "releases E b [] (l_extattr_set_link E L)"
  "releases E b [] (l_extattr_string_to_namespace E L)"
  by (simp_all add: l_extattr_delete_def l_extattr_delete_fd_def l_extattr_delete_file_def
      l_extattr_delete_link_def l_extattr_get_def l_extattr_get_fd_def l_extattr_get_file_def l_extattr_get_link_def
      l_extattr_list_def l_extattr_list_fd_def l_extattr_list_file_def l_extattr_list_link_def l_extattr_set_def
      l_extattr_set_fd_def l_extattr_set_file_def l_extattr_set_link_def l_extattr_string_to_namespace_def
      releases_simps releases_file_fd releases_attr del: ret_run)

text \<open>
  C30. No function of \<^verbatim>\<open>sys.extattr\<close> leaks its buffer or frees it twice: on success, on failed system calls,
  on wrong arguments, and when memory runs out while the buffer grows. (\<^verbatim>\<open>namespace_to_string\<close> frees a string
  that the library allocated.)
\<close>

theorem extattr_frees_all:
  assumes "(name, f) \<in> set l_extattr_funcs" and "name \<noteq> ''namespace_to_string''" and "p \<noteq> 0"
    and "fst (f E L w) \<noteq> Inl Undef"
  shows "balance E p (trace (snd (f E L w))) = balance E p (trace w)"
proof -
  have "releases E b [] (f E L)" for b
    using assms(1,2) by (auto simp: l_extattr_funcs_def releases_extattr)
  then show ?thesis
    by (rule releases_balance [where m = "f E L"]) (rule assms(3,4))+
qed

theorem extattr_frees_all_witness:
  "balance attr_env 9 (trace (snd (l_extattr_get_fd attr_env 1 (world0 [1 \<mapsto> [LInteger 3, LInteger 1, LString ''a'']])))) = 0"
proof -
  let ?w = "world0 [1 \<mapsto> [LInteger 3, LInteger 1, LString ''a'']]"
  have "fst (getattr attr_env 1 g pre w') \<noteq> Inl Undef" if "stacks w' 1 \<noteq> None" for g pre and w' :: world
    using that by (auto simp: getattr_def getbuf_def lbind_def ccall_def seq_def fail_def fatal_def luaL_error_def
        lua_gettop_def askst_def lua_push_def modst_def split: option.splits prod.splits grown.splits sum.splits)
  then have "fst (l_extattr_get_fd attr_env 1 ?w) \<noteq> Inl Undef"
    by (simp add: l_extattr_get_fd_def luaL_checkinteger_def luaL_checkstring_def luaL_checklstring_def lua_run)
  then show ?thesis
    using extattr_frees_all [of "''get_fd''" l_extattr_get_fd 9 attr_env 1 ?w] by (simp add: l_extattr_funcs_def)
qed

section \<open>Decoding lists of names\<close>

text \<open>A list of names as the kernel gives it.\<close>

definition attr_list :: "string list \<Rightarrow> string" where
  "attr_list names = concat (map (\<lambda>n. char_of (length n) # n) names)"

definition readable_name :: "env \<Rightarrow> string \<Rightarrow> bool" where
  "readable_name E n \<longleftrightarrow> length n < (if const E ''CHAR_MIN'' < 0 then 128 else 256)"

lemma of_char_length: "length n < 256 \<Longrightarrow> of_char (char_of (length n) :: char) = int (length n)"
  using of_nat_of_char [of "char_of (length n)", where 'a = int] by (simp add: of_char_of)

lemma char_value_length:
  assumes "readable_name E n"
  shows "char_value E (char_of (length n)) = int (length n)"
proof -
  have "length n < 256" using assms by (simp add: readable_name_def split: if_splits)
  then have "of_char (char_of (length n) :: char) = int (length n)"
    by (rule of_char_length)
  moreover have "signed_take_bit 7 (int (length n)) = int (length n)" if "length n < 128"
    using that by (simp add: signed_take_bit_int_eq_self)
  ultimately show ?thesis using assms by (auto simp: char_value_def readable_name_def)
qed

lemma push_names_run:
  assumes "border_ok E" and "stacks w L = Some (s @ [LTable t])" and "tabs w t = Some tb" and "represents tb xs"
    and "\<And>n. n \<in> set names \<Longrightarrow> readable_name E n"
  shows "\<exists>tb'. push_names E L (attr_list names) w = (Inr (), w\<lparr>tabs := (tabs w)(t \<mapsto> tb')\<rparr>)
    \<and> represents tb' (xs @ map LString names)"
  using assms(2-5)
proof (induction names arbitrary: w tb xs)
  case Nil
  then show ?case by (intro exI [of _ tb], cases w) (auto simp: attr_list_def fun_upd_idem_iff)
next
  case (Cons n names)
  let ?tb = "tset tb (int (length xs) + 1) (LString n)"
  let ?w = "setst L (s @ [LTable t]) (w\<lparr>tabs := (tabs w)(t \<mapsto> ?tb)\<rparr>)"
  have len: "char_value E (char_of (length n)) = int (length n)"
    using Cons.prems(4) [of n] by (simp add: char_value_length)
  have "border E (arr tb) = length xs"
    by (rule border_represents [OF assms(1) Cons.prems(3)])
  then have step: "push_names E L (attr_list (n # names)) w = push_names E L (attr_list names) ?w"
    using Cons.prems(1,2) len by (simp add: attr_list_def luaL_len_def lua_rawseti_def lua_run)
  have "represents ?tb (xs @ [LString n])"
    by (rule represents_tset_end [OF Cons.prems(3)]) simp
  then have "\<exists>tb'. push_names E L (attr_list names) ?w = (Inr (), ?w\<lparr>tabs := (tabs ?w)(t \<mapsto> tb')\<rparr>)
      \<and> represents tb' ((xs @ [LString n]) @ map LString names)"
    by (intro Cons.IH) (use Cons.prems(4) in simp_all)
  then obtain tb' where "push_names E L (attr_list names) ?w = (Inr (), ?w\<lparr>tabs := (tabs ?w)(t \<mapsto> tb')\<rparr>)"
      "represents tb' (xs @ LString n # map LString names)" by auto
  with step Cons.prems(1) show ?case
    by (intro exI [of _ tb']) (simp add: setst_same fun_upd_def [symmetric])
qed



text \<open>A longer name is the end: its length is read as a negative number.\<close>

lemma extattr_long_name:
  assumes "const E ''CHAR_MIN'' < 0" and "128 \<le> length n" and "length n < 256"
  shows "fst (push_names E L (attr_list (n # names)) w) = Inl Undef"
proof -
  have "of_char (char_of (length n) :: char) = int (length n)"
    by (rule of_char_length [OF assms(3)])
  moreover have "signed_take_bit 7 (int (length n)) < 0"
  proof -
    have "int (length n) div 128 = 1" using assms(2,3) by simp
    then have "bit (int (length n)) 7" by (simp add: bit_iff_odd)
    then show ?thesis by simp
  qed
  ultimately show ?thesis using assms(1) by (simp add: attr_list_def char_value_def)
qed

end
