(* ===== verification/Sysctl.thy ===== *)
theory Sysctl
  imports Resources
begin

unbundle bit_operations_syntax

text \<open>
  \<^verbatim>\<open>sys/sysctl/lua_sysctl.c\<close>: kernel state by name. The block of a userdata is the record \<open>mib\<close> of \<^verbatim>\<open>World\<close>. Machines
  are little endian with 64-bit \<^verbatim>\<open>long\<close>. A call \<^verbatim>\<open>sysctl\<close> has the numbers of the name, then the buffer as address and
  size, or only the size when the buffer is a local array, or the bytes of a new value; in its reply
  out-value 1 is the length, the numbers of a name are the out-values from 2 on.
\<close>

section \<open>Integers in memory\<close>

primrec le_value :: "string \<Rightarrow> int" where
  "le_value [] = 0"
| "le_value (c # cs) = of_char c + 256 * le_value cs"

primrec le_bytes :: "nat \<Rightarrow> int \<Rightarrow> string" where
  "le_bytes 0 i = []"
| "le_bytes (Suc n) i = char_of i # le_bytes n (i div 256)"

text \<open>The C integer types, by their size and whether they are signed.\<close>

definition le_read :: "nat \<times> bool \<Rightarrow> string \<Rightarrow> int" where
  "le_read ty bs = (case ty of (n, sg) \<Rightarrow>
     if sg then signed_take_bit (8 * n - 1) (le_value (take n bs)) else le_value (take n bs))"

section \<open>Names\<close>

definition MIB_METATABLE :: string where
  "MIB_METATABLE = ''struct mib *''"

definition ctl_maxname :: "env \<Rightarrow> nat" where
  "ctl_maxname E = nat (const E ''CTL_MAXNAME'')"

definition zero_mib :: "env \<Rightarrow> mib" where
  "zero_mib E = \<lparr>mib_oid = replicate (ctl_maxname E) 0, mib_oidlen = 0, mib_prefix = 0, mib_kind = 0,
     mib_format = None, mib_name = None, mib_description = None\<rparr>"

definition get_mib :: "nat \<Rightarrow> mib lua" where
  "get_mib u w = (case mibs w u of None \<Rightarrow> (Inl Undef, w) | Some m \<Rightarrow> (Inr m, w))"

definition set_mib :: "nat \<Rightarrow> mib \<Rightarrow> unit lua" where
  "set_mib u m w = (Inr (), w\<lparr>mibs := (mibs w)(u \<mapsto> m)\<rparr>)"

text \<open>The array of numbers after a call that stored \<open>n\<close> of them; the rest of it is zero.\<close>

definition oid_array :: "env \<Rightarrow> nat \<Rightarrow> cres \<Rightarrow> int list" where
  "oid_array E n r = take (ctl_maxname E) (map (\<lambda>i. outi r (i + 2)) [0..<n] @ replicate (ctl_maxname E) 0)"

definition oid_args :: "mib \<Rightarrow> carg list" where
  "oid_args m = map AInt (take (mib_oidlen m) (mib_oid m))"

definition l_sysctl :: "env \<Rightarrow> lstate \<Rightarrow> nat lua" where
  "l_sysctl E L =
     lbind (luaL_optstring E L 1) (\<lambda>name.
     lbind (lua_newuserdatauv L 0) (\<lambda>u.
     seq (luaL_setmetatable L MIB_METATABLE)
    (let mib = zero_mib E in
     seq (set_mib u mib)
     (case name of
        None \<Rightarrow>
          seq (set_mib u (mib\<lparr>mib_oid := (mib_oid mib)[0 := const E ''CTL_KERN''], mib_oidlen := 1, mib_prefix := 0\<rparr>))
          (ret 1)
      | Some name \<Rightarrow>
          let mib = mib\<lparr>mib_oidlen := ctl_maxname E\<rparr> in
          seq (set_mib u mib)
         (lbind (ccall E ''sysctlnametomib'' [AStr name, AInt (int (mib_oidlen mib))]) (\<lambda>r.
          if rc r \<noteq> 0 then fail E L (errno r)
          else
            let n = nat (outi r 1); mib = mib\<lparr>mib_oid := oid_array E n r, mib_oidlen := n, mib_prefix := n * 4\<rparr> in
            seq (set_mib u mib)
           (lbind (ccall E ''strdup'' [AStr name]) (\<lambda>d.
            if rc d = 0 then fatal E L ''strdup'' (errno d)
            else
              seq (set_mib u (mib\<lparr>mib_name := Some (rc d, name)\<rparr>))
              (ret 1)))))))))"

definition str_addr :: "(int \<times> string) option \<Rightarrow> int" where
  "str_addr s = (case s of None \<Rightarrow> 0 | Some (p, _) \<Rightarrow> p)"

definition l_mib_gc :: "env \<Rightarrow> lstate \<Rightarrow> nat lua" where
  "l_mib_gc E L =
     lbind (luaL_checkudata L 1 MIB_METATABLE) (\<lambda>u.
     lbind (get_mib u) (\<lambda>mib.
     seq (ccall E ''free'' [AInt (str_addr (mib_name mib))])
    (seq (ccall E ''free'' [AInt (str_addr (mib_description mib))])
    (seq (ccall E ''free'' [AInt (str_addr (mib_format mib))])
    (seq (set_mib u (zero_mib E))
     (ret 0))))))"

fun push_oid :: "lstate \<Rightarrow> nat \<Rightarrow> int list \<Rightarrow> unit lua" where
  "push_oid L i [] = ret ()"
| "push_oid L i (n # ns) =
     seq (lua_pushinteger L n)
    (seq (lua_rawseti L (-2) (int i + 1))
     (push_oid L (Suc i) ns))"

definition l_mib_oid :: "env \<Rightarrow> lstate \<Rightarrow> nat lua" where
  "l_mib_oid E L =
     lbind (luaL_checkudata L 1 MIB_METATABLE) (\<lambda>u.
     lbind (get_mib u) (\<lambda>mib.
     seq (lua_createtable L)
    (seq (push_oid L 0 (take (mib_oidlen mib) (mib_oid mib)))
     (ret 1))))"

section \<open>Format, name and description\<close>

text \<open>
  The queries read into a local buffer filled with zeros. Copying a string that fills the buffer without an
  end reads beyond it.
\<close>

definition query :: "env \<Rightarrow> mib \<Rightarrow> string \<Rightarrow> cres lua" where
  "query E mib what = ccall E ''sysctl'' (map AInt [const E ''CTL_SYSCTL'', const E what] @ oid_args mib @ [AInt (const E ''BUFSIZ'')])"

definition buf_of :: "env \<Rightarrow> cres \<Rightarrow> string" where
  "buf_of E r = take (nat (const E ''BUFSIZ'')) (outs r @ replicate (nat (const E ''BUFSIZ'')) (CHR 0x00))"

text \<open>\<^verbatim>\<open>strdup\<close> of the string that starts a buffer: the address of the copy, and its content.\<close>

definition strdup :: "env \<Rightarrow> lstate \<Rightarrow> string \<Rightarrow> (int \<times> string) lua" where
  "strdup E L buf =
     (if CHR 0x00 \<notin> set buf then throw Undef
      else
        lbind (ccall E ''strdup'' [AStr (cstr buf)]) (\<lambda>d.
        if rc d = 0 then fatal E L ''strdup'' (errno d)
        else ret (rc d, cstr buf)))"

definition push_str :: "lstate \<Rightarrow> (int \<times> string) option \<Rightarrow> unit lua" where
  "push_str L s = lua_push L (case s of None \<Rightarrow> LNil | Some (_, str) \<Rightarrow> LString str)"

definition push_format :: "lstate \<Rightarrow> mib \<Rightarrow> nat lua" where
  "push_format L mib =
     seq (lua_pushinteger L (mib_kind mib))
    (seq (push_str L (mib_format mib))
     (ret 2))"

definition l_mib_format :: "env \<Rightarrow> lstate \<Rightarrow> nat lua" where
  "l_mib_format E L =
     lbind (luaL_checkudata L 1 MIB_METATABLE) (\<lambda>u.
     lbind (get_mib u) (\<lambda>mib.
     if mib_format mib = None then
       lbind (query E mib ''CTL_SYSCTL_OIDFMT'') (\<lambda>r.
       if rc r \<noteq> 0 then fail E L (errno r)
       else
         let buf = buf_of E r; mib = mib\<lparr>mib_kind := le_read (4, False) buf\<rparr> in
         seq (set_mib u mib)
        (lbind (strdup E L (drop 4 buf)) (\<lambda>d.
         let mib = mib\<lparr>mib_format := Some d\<rparr> in
         seq (set_mib u mib)
         (push_format L mib))))
     else push_format L mib))"

definition l_mib_name :: "env \<Rightarrow> lstate \<Rightarrow> nat lua" where
  "l_mib_name E L =
     lbind (luaL_checkudata L 1 MIB_METATABLE) (\<lambda>u.
     lbind (get_mib u) (\<lambda>mib.
     if mib_name mib = None then
       lbind (query E mib ''CTL_SYSCTL_NAME'') (\<lambda>r.
       if rc r \<noteq> 0 then fail E L (errno r)
       else
         lbind (strdup E L (buf_of E r)) (\<lambda>d.
         seq (set_mib u (mib\<lparr>mib_name := Some d\<rparr>))
        (seq (push_str L (Some d))
         (ret 1))))
     else
       seq (push_str L (mib_name mib))
       (ret 1)))"

definition l_mib_description :: "env \<Rightarrow> lstate \<Rightarrow> nat lua" where
  "l_mib_description E L =
     lbind (luaL_checkudata L 1 MIB_METATABLE) (\<lambda>u.
     lbind (get_mib u) (\<lambda>mib.
     if mib_description mib = None then
       lbind (query E mib ''CTL_SYSCTL_OIDDESCR'') (\<lambda>r.
       if rc r \<noteq> 0 then
         if errno r = const E ''ENOENT'' then
           seq (lua_pushnil L)
           (ret 1)
         else fail E L (errno r)
       else
         lbind (strdup E L (buf_of E r)) (\<lambda>d.
         seq (set_mib u (mib\<lparr>mib_description := Some d\<rparr>))
        (seq (push_str L (Some d))
         (ret 1))))
     else
       seq (push_str L (mib_description mib))
       (ret 1)))"

section \<open>Values\<close>

text \<open>The cases of the two \<^verbatim>\<open>switch\<close> statements that read or write an integer.\<close>

definition ctl_ints :: "env \<Rightarrow> (int \<times> nat \<times> bool) list" where
  "ctl_ints E =
     [(const E ''CTLTYPE_INT'', 4, True),
      (const E ''CTLTYPE_UINT'', 4, False),
      (const E ''CTLTYPE_LONG'', 8, True),
      (const E ''CTLTYPE_ULONG'', 8, False),
      (const E ''CTLTYPE_S8'', 1, True),
      (const E ''CTLTYPE_U8'', 1, False),
      (const E ''CTLTYPE_S16'', 2, True),
      (const E ''CTLTYPE_U16'', 2, False),
      (const E ''CTLTYPE_S32'', 4, True),
      (const E ''CTLTYPE_U32'', 4, False),
      (const E ''CTLTYPE_S64'', 8, True),
      (const E ''CTLTYPE_U64'', 8, False)]"

definition unknown_ctltype :: "int \<Rightarrow> string" where
  "unknown_ctltype ctltype = ''unknown ctltype: '' @ show_int ctltype"

text \<open>
  The loop that reads a value: it asks for the size, then reads into a buffer of twice that size, again and
  again while the value does not fit. It adds its calls to the trace.
\<close>

datatype fetched = VFail int | VNoMem | VData int int

partial_function (option) fetch :: "env \<Rightarrow> carg list \<Rightarrow> int \<Rightarrow> int \<Rightarrow> ecall list \<Rightarrow> (fetched \<times> ecall list) option" where
  "fetch E oid p n tr =
     (let c = (''sysctl'', oid @ [AInt p, AInt n]); r = reply E tr c; release = (''free'', [AInt p]) in
      if rc r = -1 \<and> errno r \<noteq> const E ''ENOMEM'' then Some (VFail (errno r), release # c # tr)
      else if rc r \<noteq> -1 \<and> p \<noteq> 0 then Some (VData p (outi r 1), c # tr)
      else
        let n = to_size_t (outi r 1 * 2); alloc = (''malloc'', [AInt n]);
          p = rc (reply E (release # c # tr) alloc) in
        if p = 0 then Some (VNoMem, alloc # release # c # tr)
        else fetch E oid p n (alloc # release # c # tr))"

definition fetch_value :: "env \<Rightarrow> mib \<Rightarrow> fetched lua" where
  "fetch_value E mib w = (case fetch E (oid_args mib) 0 0 (trace w) of
      None \<Rightarrow> (Inl NoFuel, w)
    | Some (res, tr) \<Rightarrow> (Inr res, w\<lparr>trace := tr\<rparr>))"

text \<open>
  The bytes at an address are the reply to a call \<open>load\<close>. A buffer without the bytes of an integer, or an empty
  one where a string is expected (\<^verbatim>\<open>size - 1\<close> wraps around), is read out of bounds.
\<close>

definition push_value :: "env \<Rightarrow> lstate \<Rightarrow> int \<Rightarrow> int \<Rightarrow> int \<Rightarrow> unit lua" where
  "push_value E L ctltype p len =
     (case map_of (ctl_ints E) ctltype of
        Some ty \<Rightarrow>
          lbind (ccall E ''load'' [AInt p, AInt (int (fst ty))]) (\<lambda>r.
          if length (outs r) < fst ty then throw Undef
          else lua_pushinteger L (to_lua_Integer (le_read ty (outs r))))
      | None \<Rightarrow>
          if ctltype = const E ''CTLTYPE_STRING'' then
            if len = 0 then throw Undef
            else
              lbind (ccall E ''load'' [AInt p, AInt (len - 1)]) (\<lambda>r.
              lua_pushstring L (outs r))
          else if ctltype = const E ''CTLTYPE_OPAQUE'' then
            lbind (ccall E ''load'' [AInt p, AInt len]) (\<lambda>r.
            lua_pushstring L (outs r))
          else luaL_error L (unknown_ctltype ctltype))"

definition get_value :: "env \<Rightarrow> lstate \<Rightarrow> int \<Rightarrow> mib \<Rightarrow> nat lua" where
  "get_value E L ctltype mib =
     (if ctltype = const E ''CTLTYPE_NODE'' then
        seq (lua_pushnil L)
        (ret 1)
      else
        lbind (fetch_value E mib) (\<lambda>res. case res of
          VFail error \<Rightarrow> fail E L error
        | VNoMem \<Rightarrow> fatal E L ''malloc'' (const E ''ENOMEM'')
        | VData p len \<Rightarrow>
            seq (push_value E L ctltype p len)
           (seq (ccall E ''free'' [AInt p])
            (ret 1))))"

text \<open>A new value: its bytes. A string is written with its end.\<close>

definition new_value :: "env \<Rightarrow> lstate \<Rightarrow> int \<Rightarrow> string lua" where
  "new_value E L ctltype =
     (case map_of (ctl_ints E) ctltype of
        Some ty \<Rightarrow>
          lbind (luaL_checkinteger E L 2) (\<lambda>value.
          ret (le_bytes (fst ty) value))
      | None \<Rightarrow>
          if ctltype = const E ''CTLTYPE_STRING'' then
            lbind (luaL_checklstring E L 2) (\<lambda>s.
            ret (s @ [CHR 0x00]))
          else if ctltype = const E ''CTLTYPE_OPAQUE'' then luaL_checklstring E L 2
          else luaL_error L (unknown_ctltype ctltype))"

definition set_value :: "env \<Rightarrow> lstate \<Rightarrow> int \<Rightarrow> mib \<Rightarrow> nat lua" where
  "set_value E L ctltype mib =
     (if ctltype = const E ''CTLTYPE_NODE'' then ret 0
      else
        lbind (new_value E L ctltype) (\<lambda>bs.
        lbind (ccall E ''sysctl'' (oid_args mib @ [ANull, AStr bs])) (\<lambda>r.
        if rc r \<noteq> 0 then fail E L (errno r)
        else ret 0)))"

definition l_mib_value :: "env \<Rightarrow> lstate \<Rightarrow> nat lua" where
  "l_mib_value E L =
     lbind (lua_gettop L) (\<lambda>argc.
     lbind (luaL_checkudata L 1 MIB_METATABLE) (\<lambda>u.
     lbind (get_mib u) (\<lambda>mib.
     seq (if mib_format mib = None then
            seq (l_mib_format E L)
            (ret ())
          else ret ())
    (lbind (get_mib u) (\<lambda>mib.
     let ctltype = to_int (mib_kind mib AND const E ''CTLTYPE'') in
     if argc = 1 then get_value E L ctltype mib
     else set_value E L ctltype mib)))))"

section \<open>Walking the tree\<close>

text \<open>The function that the iterators return, with the value of its upvalue.\<close>

definition upvalue_integer :: "env \<Rightarrow> lval \<Rightarrow> int lua" where
  "upvalue_integer E v = (case tointegerx E (Some v) of
      Some n \<Rightarrow> ret n
    | None \<Rightarrow> throw (TypeError (const E ''LUA_REGISTRYINDEX'' - 1) ''number''))"

definition l_mib_iter_next :: "lval \<Rightarrow> env \<Rightarrow> lstate \<Rightarrow> nat lua" where
  "l_mib_iter_next upvalue E L =
     lbind (luaL_testudata L 2 MIB_METATABLE) (\<lambda>prev. case prev of
       None \<Rightarrow>
         seq (lua_pushvalue L 1)
         (ret 1)
     | Some p \<Rightarrow>
         lbind (lua_newuserdatauv L 0) (\<lambda>u.
         seq (luaL_setmetatable L MIB_METATABLE)
        (lbind (get_mib p) (\<lambda>prev.
         let mib = (zero_mib E)\<lparr>mib_prefix := mib_prefix prev\<rparr> in
         seq (set_mib u mib)
        (lbind (upvalue_integer E upvalue) (\<lambda>op.
         lbind (ccall E ''sysctl'' (map AInt [const E ''CTL_SYSCTL'', to_int op] @ oid_args prev
             @ [AInt (4 * const E ''CTL_MAXNAME'')])) (\<lambda>r.
         if rc r \<noteq> 0 then
           if errno r = const E ''ENOENT'' then
             seq (lua_pushnil L)
             (ret 1)
           else fail E L (errno r)
         else
           let n = nat (outi r 1) div 4; mib = mib\<lparr>mib_oid := oid_array E n r\<rparr>; k = mib_prefix prev div 4 in
           seq (set_mib u mib)
          (if take k (mib_oid prev) \<noteq> take k (mib_oid mib) then
             seq (lua_pushnil L)
             (ret 1)
           else
             seq (set_mib u (mib\<lparr>mib_oidlen := n\<rparr>))
             (ret 1)))))))))"

definition iter_with :: "env \<Rightarrow> lstate \<Rightarrow> string \<Rightarrow> nat lua" where
  "iter_with E L op =
     lbind (luaL_checkudata L 1 MIB_METATABLE) (\<lambda>u.
     lbind (get_mib u) (\<lambda>mib.
     seq (lua_pushinteger L (const E op))
    (seq (lua_pushcclosure1 L)
    (seq (if mib_prefix mib = 0 then
            seq (lua_pushvalue L 1)
            (lua_pushnil L)
          else
            seq (lua_pushnil L)
            (lua_pushvalue L 1))
     (ret 3)))))"

definition l_mib_iter :: "env \<Rightarrow> lstate \<Rightarrow> nat lua" where
  "l_mib_iter E L = iter_with E L ''CTL_SYSCTL_NEXT''"

definition l_mib_iter_noskip :: "env \<Rightarrow> lstate \<Rightarrow> nat lua" where
  "l_mib_iter_noskip E L = iter_with E L ''CTL_SYSCTL_NEXTNOSKIP''"

section \<open>The module\<close>

definition l_sysctl_funcs :: "(string \<times> cfunction) list" where
  "l_sysctl_funcs =
     [(''sysctl'', l_sysctl)]"

definition l_mib_meta :: "(string \<times> cfunction) list" where
  "l_mib_meta =
     [(''__gc'', l_mib_gc),
      (''oid'', l_mib_oid),
      (''format'', l_mib_format),
      (''name'', l_mib_name),
      (''description'', l_mib_description),
      (''value'', l_mib_value),
      (''iter'', l_mib_iter),
      (''iter_noskip'', l_mib_iter_noskip)]"

definition luaopen_sys_sysctl ::
  "env \<Rightarrow> (string \<times> (string \<times> cfunction) list) \<times> (string \<times> field) list" where
  "luaopen_sys_sysctl E =
     ((MIB_METATABLE, l_mib_meta),
      luaL_newlib l_sysctl_funcs @ DEFINE E []
        [''CTL_MAXNAME'', ''CTLTYPE'', ''CTLTYPE_NODE'', ''CTLTYPE_INT'', ''CTLTYPE_STRING'', ''CTLTYPE_S64'',
         ''CTLTYPE_OPAQUE'', ''CTLTYPE_STRUCT'', ''CTLTYPE_UINT'', ''CTLTYPE_LONG'', ''CTLTYPE_ULONG'', ''CTLTYPE_U64'',
         ''CTLTYPE_U8'', ''CTLTYPE_U16'', ''CTLTYPE_S8'', ''CTLTYPE_S16'', ''CTLTYPE_S32'', ''CTLTYPE_U32'',
         ''CTLFLAG_RD'', ''CTLFLAG_WR'', ''CTLFLAG_RW'', ''CTLFLAG_DORMANT'', ''CTLFLAG_ANYBODY'', ''CTLFLAG_SECURE'',
         ''CTLFLAG_PRISON'', ''CTLFLAG_DYN'', ''CTLFLAG_SKIP'', ''CTLMASK_SECURE'', ''CTLFLAG_TUN'', ''CTLFLAG_RDTUN'',
         ''CTLFLAG_RWTUN'', ''CTLFLAG_MPSAFE'', ''CTLFLAG_VNET'', ''CTLFLAG_DYING'', ''CTLFLAG_CAPRD'', ''CTLFLAG_CAPWR'',
         ''CTLFLAG_STATS'', ''CTLFLAG_NOFETCH'', ''CTLFLAG_CAPRW'', ''CTLFLAG_NEEDGIANT'', ''CTLSHIFT_SECURE'',
         ''CTLFLAG_SECURE1'', ''CTLFLAG_SECURE2'', ''CTLFLAG_SECURE3''])"

section \<open>The strings of a mib\<close>

interpretation mibs_frame: lua_frame mibs
  by unfold_locales simp_all

lemma leaves_mibs_ccall [leaves_rules]: "leaves mibs (ccall E f as)"
  by (rule leavesI) (simp add: ccall_run)

lemma leaves_get_mib [leaves_rules]: "leaves get (get_mib u)"
  by (rule leavesI) (simp add: get_mib_def split: option.split)

text \<open>How often a mib holds a block.\<close>

definition held :: "mib \<Rightarrow> int \<Rightarrow> int" where
  "held m p = int (count_list [str_addr (mib_format m), str_addr (mib_name m), str_addr (mib_description m)] p)"

text \<open>An unknown type is the one way to leak a buffer.\<close>

definition given_up :: "exc + 'a \<Rightarrow> bool" where
  "given_up r \<longleftrightarrow> r = Inl Undef \<or> (\<exists>k. r = Inl (LError (unknown_ctltype k)))"

text \<open>
  A run on the mib \<open>m\<close> of userdata \<open>u\<close> that ends with as many blocks as the mib then holds; \<open>c\<close> says how many
  more than that there are at its start.
\<close>

definition conserves :: "env \<Rightarrow> nat \<Rightarrow> mib \<Rightarrow> (int \<Rightarrow> int) \<Rightarrow> world \<Rightarrow> (exc + 'a) \<times> world \<Rightarrow> bool" where
  "conserves E u m c w run \<longleftrightarrow> given_up (fst run) \<or> (\<exists>m'. mibs (snd run) = (mibs w)(u \<mapsto> m') \<and>
     (\<forall>p. p \<noteq> 0 \<longrightarrow> balance E p (trace (snd run)) + held m p + c p = balance E p (trace w) + held m' p))"

definition owns :: "env \<Rightarrow> nat \<Rightarrow> mib \<Rightarrow> (int \<Rightarrow> int) \<Rightarrow> 'a lua \<Rightarrow> bool" where
  "owns E u m c k \<longleftrightarrow> (\<forall>w. mibs w u = Some m \<longrightarrow> conserves E u m c w (k w))"

lemma ownsD: "owns E u m c k \<Longrightarrow> mibs w u = Some m \<Longrightarrow> conserves E u m c w (k w)"
  by (simp add: owns_def)

abbreviation none_left :: "(int \<Rightarrow> int) \<Rightarrow> bool" where
  "none_left c \<equiv> (\<forall>p. p \<noteq> 0 \<longrightarrow> c p = 0)"

lemma owns_quiet:
  assumes "quiet k" and "leaves mibs k" and "none_left c"
  shows "owns E u m c k"
  using assms by (auto simp: owns_def conserves_def leaves_def fun_upd_idem_iff intro!: exI [of _ m])

lemma owns_lbind_quiet:
  assumes "quiet k" and "leaves mibs k" and "none_left c" and "\<And>a. owns E u m c (f a)"
  shows "owns E u m c (lbind k f)"
  unfolding owns_def
proof (intro allI impI)
  fix w :: world assume m: "mibs w u = Some m"
  obtain r w' where run: "k w = (r, w')" by (cases "k w")
  then have same: "trace w' = trace w" "mibs w' = mibs w"
    using assms(1,2) by (metis leaves_def snd_conv)+
  show "conserves E u m c w (lbind k f w)"
  proof (cases r)
    case (Inl e)
    with run same m assms(3) show ?thesis
      by (auto simp: conserves_def lbind_def fun_upd_idem_iff intro!: exI [of _ m])
  next
    case (Inr a)
    with run same m ownsD [OF assms(4), of w' a] show ?thesis by (simp add: conserves_def lbind_def)
  qed
qed

lemma owns_lbind_sure:
  assumes "sure k" and "leaves mibs k" and "\<And>a. owns E u m c (f a)"
  shows "owns E u m c (lbind k f)"
  unfolding owns_def
proof (intro allI impI)
  fix w :: world assume m: "mibs w u = Some m"
  obtain r w' where run: "k w = (r, w')" by (cases "k w")
  then have same: "trace w' = trace w" "mibs w' = mibs w" "r = Inl e \<Longrightarrow> e = Undef" for e
    using assms(1,2) by (metis leaves_def sure_def snd_conv fst_conv)+
  show "conserves E u m c w (lbind k f w)"
  proof (cases r)
    case (Inl e)
    with run same(3) [OF Inl] show ?thesis by (simp add: conserves_def lbind_def given_up_def)
  next
    case (Inr a)
    with run same m ownsD [OF assms(3), of w' a] show ?thesis by (simp add: conserves_def lbind_def)
  qed
qed

text \<open>What a call does to the number of blocks.\<close>

definition allocates :: "ecall \<Rightarrow> cres \<Rightarrow> int \<Rightarrow> int" where
  "allocates c r p = (if (fst c = ''malloc'' \<or> fst c = ''calloc'' \<or> fst c = ''strdup'') \<and> rc r = p then 1
     else if c = (''free'', [AInt p]) then -1 else 0)"

lemma allocates_simps [simp]:
  "allocates (''strdup'', as) r p = (if rc r = p then 1 else 0)"
  "allocates (''malloc'', as) r p = (if rc r = p then 1 else 0)"
  "allocates (''free'', [AInt q]) r p = (if q = p then -1 else 0)"
  "g \<noteq> ''malloc'' \<Longrightarrow> g \<noteq> ''calloc'' \<Longrightarrow> g \<noteq> ''strdup'' \<Longrightarrow> g \<noteq> ''free'' \<Longrightarrow> allocates (g, as) r p = 0"
  by (simp_all add: allocates_def)

lemma balance_Cons: "balance E p (c # tr) = balance E p tr + allocates c (reply E tr c) p"
  by (simp add: allocates_def)

lemma owns_call:
  assumes "\<And>r. owns E u m (\<lambda>p. c p + allocates (g, as) r p) (f r)"
  shows "owns E u m c (lbind (ccall E g as) f)"
  unfolding owns_def
proof (intro allI impI)
  fix w :: world assume m: "mibs w u = Some m"
  let ?r = "reply E (trace w) (g, as)" and ?w = "w\<lparr>trace := (g, as) # trace w\<rparr>"
  show "conserves E u m c w (lbind (ccall E g as) f w)"
    using ownsD [OF assms, of ?w ?r] m
    by (simp add: lua_run conserves_def balance_Cons algebra_simps del: balance.simps)
qed

lemma owns_get: "owns E u m c (f m) \<Longrightarrow> owns E u m c (lbind (get_mib u) f)"
  by (simp add: owns_def conserves_def lbind_def get_mib_def)

lemma owns_set:
  assumes "owns E u m' (\<lambda>p. c p + held m p - held m' p) k"
  shows "owns E u m c (lbind (set_mib u m') (\<lambda>_. k))"
  unfolding owns_def
proof (intro allI impI)
  fix w :: world assume m: "mibs w u = Some m"
  let ?w = "w\<lparr>mibs := (mibs w)(u \<mapsto> m')\<rparr>"
  show "conserves E u m c w (lbind (set_mib u m') (\<lambda>_. k) w)"
    using ownsD [OF assms, of ?w] by (auto simp: conserves_def set_mib_def lbind_def algebra_simps)
qed

lemma owns_if: "(b \<Longrightarrow> owns E u m c k) \<Longrightarrow> (\<not> b \<Longrightarrow> owns E u m c l) \<Longrightarrow> owns E u m c (if b then k else l)"
  by simp

lemma owns_undef: "owns E u m c (throw Undef)"
  by (simp add: owns_def conserves_def given_up_def)

lemma conserves_bind:
  assumes "conserves E u m c w (k w)" and "mibs w u = Some m" and "\<And>m' a. owns E u m' (\<lambda>_. 0) (f a)"
  shows "conserves E u m c w (lbind k f w)"
proof (cases "k w")
  case (Pair r w')
  show ?thesis
  proof (cases r)
    case (Inl e)
    with Pair assms(1) show ?thesis by (auto simp: conserves_def lbind_def given_up_def)
  next
    case (Inr a)
    with Pair assms(1) obtain m' where m': "mibs w' = (mibs w)(u \<mapsto> m')"
      and b: "\<And>p. p \<noteq> 0 \<Longrightarrow> balance E p (trace w') + held m p + c p = balance E p (trace w) + held m' p"
      by (auto simp: conserves_def given_up_def)
    from m' ownsD [OF assms(3), of w' m' a] have "conserves E u m' (\<lambda>_. 0) w' (f a w')" by simp
    with b m' Pair Inr show ?thesis by (force simp: conserves_def lbind_def)
  qed
qed

lemma owns_bind:
  "owns E u m c k \<Longrightarrow> (\<And>m' a. owns E u m' (\<lambda>_. 0) (f a)) \<Longrightarrow> owns E u m c (lbind k f)"
  by (simp add: owns_def conserves_bind)

lemma held_simps [simp]:
  "p \<noteq> 0 \<Longrightarrow> held (zero_mib E) p = 0"
  "held (m\<lparr>mib_kind := k\<rparr>) p = held m p"
  "p \<noteq> 0 \<Longrightarrow> mib_format m = None \<Longrightarrow> held (m\<lparr>mib_format := Some d\<rparr>) p = held m p + (if fst d = p then 1 else 0)"
  "p \<noteq> 0 \<Longrightarrow> mib_name m = None \<Longrightarrow> held (m\<lparr>mib_name := Some d\<rparr>) p = held m p + (if fst d = p then 1 else 0)"
  "p \<noteq> 0 \<Longrightarrow> mib_description m = None \<Longrightarrow>
     held (m\<lparr>mib_description := Some d\<rparr>) p = held m p + (if fst d = p then 1 else 0)"
  by (cases d; simp add: held_def str_addr_def zero_mib_def)+

lemma owns_strdup:
  assumes "none_left c" and "\<And>d. fst d \<noteq> 0 \<Longrightarrow> owns E u m (\<lambda>p. c p + (if fst d = p then 1 else 0)) (f d)"
  shows "owns E u m c (lbind (strdup E L buf) f)"
proof (cases "CHR 0x00 \<in> set buf")
  case True
  have "owns E u m (\<lambda>p. c p + allocates (''strdup'', [AStr (cstr buf)]) r p)
      (if rc r = 0 then fatal E L ''strdup'' (errno r) else f (rc r, cstr buf))" for r
  proof (cases "rc r = 0")
    case True
    with assms(1) show ?thesis by (simp add: owns_quiet leaves_rules)
  next
    case False
    with assms(2) [of "(rc r, cstr buf)"] show ?thesis by simp
  qed
  then have "owns E u m c (lbind (ccall E ''strdup'' [AStr (cstr buf)])
      (\<lambda>r. if rc r = 0 then fatal E L ''strdup'' (errno r) else f (rc r, cstr buf)))"
    by (rule owns_call)
  with True show ?thesis by (simp add: strdup_def lbind_assoc lbind_if error_bind cong: if_cong)
qed (simp add: strdup_def owns_undef)

lemma push_oid_leaves [leaves_rules]: "quiet (push_oid L i ns)" "leaves mibs (push_oid L i ns)"
  by (induction L i ns rule: push_oid.induct) (simp_all add: leaves_rules del: ret_run)

lemma leaves_push_str [leaves_rules]: "quiet (push_str L s)" "leaves mibs (push_str L s)"
  by (simp_all add: push_str_def leaves_rules)

lemma leaves_push_format [leaves_rules]: "quiet (push_format L m)" "leaves mibs (push_format L m)"
  by (simp_all add: push_format_def leaves_rules del: ret_run)

lemma leaves_pushcclosure1 [leaves_rules]: "quiet (lua_pushcclosure1 L)" "leaves mibs (lua_pushcclosure1 L)"
  by (rule leavesI; simp add: lua_pushcclosure1_def split: option.split)+

text \<open>The methods without \<^verbatim>\<open>value\<close>, after the check of the argument.\<close>

lemma checkudata_bind:
  assumes "stacks w L = Some (LUserdata u # vs)" and "uds w u = Some ud" and "meta ud = Some m"
  shows "lbind (luaL_checkudata L 1 m) f w = f u w"
  using assms by (simp add: luaL_checkudata_def ud_at_def lbind_def)

lemma conserves_checked:
  assumes "stacks w L = Some (LUserdata u # vs)" and "uds w u = Some ud" and "meta ud = Some MIB_METATABLE"
    and "mibs w u = Some m" and "owns E u m c (f u)"
  shows "conserves E u m c w (lbind (luaL_checkudata L 1 MIB_METATABLE) f w)"
  unfolding checkudata_bind [OF assms(1-3)] by (rule ownsD [OF assms(5,4)])

lemma conserves_methods:
  assumes "stacks w L = Some (LUserdata u # vs)" and "uds w u = Some ud" and "meta ud = Some MIB_METATABLE"
    and "mibs w u = Some m"
  shows "conserves E u m (\<lambda>_. 0) w (l_mib_gc E L w)" "conserves E u m (\<lambda>_. 0) w (l_mib_oid E L w)"
    "conserves E u m (\<lambda>_. 0) w (l_mib_format E L w)" "conserves E u m (\<lambda>_. 0) w (l_mib_name E L w)"
    "conserves E u m (\<lambda>_. 0) w (l_mib_description E L w)"
    "conserves E u m (\<lambda>_. 0) w (l_mib_iter E L w)" "conserves E u m (\<lambda>_. 0) w (l_mib_iter_noskip E L w)"
  unfolding l_mib_gc_def l_mib_oid_def l_mib_format_def l_mib_name_def l_mib_description_def l_mib_iter_def
    l_mib_iter_noskip_def iter_with_def seq_def Let_def query_def
  by (rule conserves_checked [OF assms], intro owns_get owns_if owns_call owns_set owns_strdup owns_quiet;
    simp add: leaves_rules held_def [of m] del: ret_run; fail)+

text \<open>The loop of \<^verbatim>\<open>value\<close> ends with the buffer it returns, if it returns one.\<close>

definition fetched_buf :: "fetched \<Rightarrow> int \<Rightarrow> int" where
  "fetched_buf res q = (case res of VData p _ \<Rightarrow> if p = q then 1 else 0 | _ \<Rightarrow> 0)"

lemma fetched_buf_simps [simp]:
  "fetched_buf (VData p n) = (\<lambda>q. if p = q then 1 else 0)" "fetched_buf (VFail e) = (\<lambda>_. 0)"
  "fetched_buf VNoMem = (\<lambda>_. 0)"
  by (rule ext; simp add: fetched_buf_def)+

lemma fetch_balance:
  assumes "fetch E oid p n tr = Some (res, tr')" and "q \<noteq> 0"
  shows "balance E q tr' = balance E q tr - (if p = q then 1 else 0) + fetched_buf res q"
proof -
  define P where "P = (\<lambda>E (oid :: carg list) (p :: int) (n :: int) tr x.
    balance E q (snd (x :: fetched \<times> ecall list)) = balance E q tr - (if p = q then 1 else 0) + fetched_buf (fst x) q)"
  have "P E oid p n tr (res, tr')"
  proof (rule fetch.raw_induct [OF _ assms(1)])
    fix fetch' E and oid :: "carg list" and p n tr x
    assume IH: "\<And>E oid p n tr x. fetch' E oid p n tr = Some x \<Longrightarrow> P E oid p n tr x"
      and run: "(let c = (''sysctl'', oid @ [AInt p, AInt n]); r = reply E tr c; release = (''free'', [AInt p]) in
        if rc r = - 1 \<and> errno r \<noteq> const E ''ENOMEM'' then Some (VFail (errno r), release # c # tr)
        else if rc r \<noteq> - 1 \<and> p \<noteq> 0 then Some (VData p (outi r 1), c # tr)
        else let n = to_size_t (outi r 1 * 2); alloc = (''malloc'', [AInt n]);
               p = rc (reply E (release # c # tr) alloc) in
             if p = 0 then Some (VNoMem, alloc # release # c # tr)
             else fetch' E oid p n (alloc # release # c # tr)) = Some x"
    let ?c = "(''sysctl'', oid @ [AInt p, AInt n])"
    let ?r = "reply E tr ?c" and ?tr = "(''free'', [AInt p]) # ?c # tr"
    let ?n = "to_size_t (outi ?r 1 * 2)"
    let ?alloc = "(''malloc'', [AInt ?n])"
    let ?p = "rc (reply E ?tr ?alloc)"
    consider "rc ?r = -1 \<and> errno ?r \<noteq> const E ''ENOMEM''" | "\<not> (rc ?r = -1 \<and> errno ?r \<noteq> const E ''ENOMEM'')" "rc ?r \<noteq> -1 \<and> p \<noteq> 0"
      | "\<not> (rc ?r = -1 \<and> errno ?r \<noteq> const E ''ENOMEM'')" "\<not> (rc ?r \<noteq> -1 \<and> p \<noteq> 0)" by blast
    then show "P E oid p n tr x"
    proof cases
      case 1
      then have "x = (VFail (errno ?r), ?tr)" using run by (simp add: Let_def)
      then show ?thesis by (simp add: P_def)
    next
      case 2
      then have "x = (VData p (outi ?r 1), ?c # tr)" using run by (simp add: Let_def)
      then show ?thesis by (simp add: P_def)
    next
      case 3
      show ?thesis
      proof (cases "?p = 0")
        case True
        with run 3 have "x = (VNoMem, ?alloc # ?tr)" by (simp add: Let_def)
        with True assms(2) show ?thesis by (simp add: P_def)
      next
        case False
        with run 3 have "fetch' E oid ?p ?n (?alloc # ?tr) = Some x" by (simp add: Let_def)
        from IH [OF this] show ?thesis by (simp add: P_def)
      qed
    qed
  qed
  then show ?thesis by (simp add: P_def)
qed

lemma owns_fetch:
  assumes "\<And>res. owns E u m (fetched_buf res) (f res)"
  shows "owns E u m (\<lambda>_. 0) (lbind (fetch_value E mib) f)"
  unfolding owns_def
proof (intro allI impI)
  fix w :: world assume m: "mibs w u = Some m"
  show "conserves E u m (\<lambda>_. 0) w (lbind (fetch_value E mib) f w)"
  proof (cases "fetch E (oid_args mib) 0 0 (trace w)")
    case None
    with m show ?thesis
      by (auto simp: fetch_value_def lbind_def conserves_def fun_upd_idem_iff intro!: exI [of _ m])
  next
    case (Some x)
    obtain res tr where x: "x = (res, tr)" by (cases x)
    with Some have b: "balance E q tr = balance E q (trace w) + fetched_buf res q" if "q \<noteq> 0" for q
      using fetch_balance [of E "oid_args mib" 0 0 "trace w" res tr q] that by simp
    have "lbind (fetch_value E mib) f w = f res (w\<lparr>trace := tr\<rparr>)"
      using Some x by (simp add: fetch_value_def lbind_def)
    with ownsD [OF assms, of "w\<lparr>trace := tr\<rparr>" res] m b show ?thesis by (auto simp: conserves_def)
  qed
qed

lemma owns_unknown: "owns E u m c (lbind (luaL_error L (unknown_ctltype k)) f)"
  by (auto simp: owns_def conserves_def given_up_def luaL_error_def lbind_def seq_def lua_gettop_def askst_def
      split: option.split)

lemma owns_push_value:
  "owns E u m (fetched_buf (VData p n)) (seq (push_value E L t p n) (seq (ccall E ''free'' [AInt p]) (ret (1 :: nat))))"
proof -
  have free: "owns E u m (\<lambda>q. if p = q then 1 else 0) (lbind (ccall E ''free'' [AInt p]) (\<lambda>_. ret (1 :: nat)))"
    by (rule owns_call, rule owns_quiet) (simp_all add: leaves_rules del: ret_run)
  have load: "owns E u m (\<lambda>q. if p = q then 1 else 0) (lbind (ccall E ''load'' as)
      (\<lambda>r. lbind (if b r then throw Undef else lua_push L (v r)) (\<lambda>_. lbind (ccall E ''free'' [AInt p]) (\<lambda>_. ret (1 :: nat)))))" for as b v
  proof (rule owns_call)
    fix r
    show "owns E u m (\<lambda>q. (if p = q then 1 else 0) + allocates (''load'', as) r q)
      (lbind (if b r then throw Undef else lua_push L (v r)) (\<lambda>_. lbind (ccall E ''free'' [AInt p]) (\<lambda>_. ret (1 :: nat))))"
      by (cases "b r") (simp_all add: owns_undef owns_lbind_sure [OF _ _ free] sure_rules leaves_rules del: ret_run One_nat_def)
  qed
  show ?thesis
  proof (cases "map_of (ctl_ints E) t")
    case (Some ty)
    then show ?thesis
      using load [of "[AInt p, AInt (int (fst ty))]" "\<lambda>r. length (outs r) < fst ty" "\<lambda>r. LInteger (to_lua_Integer (le_read ty (outs r)))"]
      by (simp add: push_value_def seq_def lbind_assoc)
  next
    case None
    then show ?thesis
      using load [of "[AInt p, AInt (n - 1)]" "\<lambda>_. False" "\<lambda>r. LString (outs r)"]
        load [of "[AInt p, AInt n]" "\<lambda>_. False" "\<lambda>r. LString (outs r)"]
      by (auto simp: push_value_def seq_def lbind_assoc owns_unknown lbind_if owns_undef intro!: owns_if)
  qed
qed

lemma owns_get_value: "owns E u m (\<lambda>_. 0) (get_value E L t mib)"
proof -
  have "owns E u m (fetched_buf res) (case res of
      VFail error \<Rightarrow> fail E L error
    | VNoMem \<Rightarrow> fatal E L ''malloc'' (const E ''ENOMEM'')
    | VData p len \<Rightarrow> seq (push_value E L t p len) (seq (ccall E ''free'' [AInt p]) (ret 1)))" for res
    using owns_push_value by (cases res) (simp_all add: owns_quiet leaves_rules)
  then have "owns E u m (\<lambda>_. 0) (lbind (fetch_value E mib) (\<lambda>res. case res of
      VFail error \<Rightarrow> fail E L error
    | VNoMem \<Rightarrow> fatal E L ''malloc'' (const E ''ENOMEM'')
    | VData p len \<Rightarrow> seq (push_value E L t p len) (seq (ccall E ''free'' [AInt p]) (ret 1))))"
    by (rule owns_fetch)
  then show ?thesis
    by (simp add: get_value_def owns_quiet leaves_rules del: ret_run One_nat_def)
qed

lemma owns_set_value: "owns E u m (\<lambda>_. 0) (set_value E L t mib)"
proof -
  have "quiet (new_value E L t)" "leaves mibs (new_value E L t)"
    by (auto simp: new_value_def leaves_rules split: option.split simp del: ret_run)
  then show ?thesis
    unfolding set_value_def
    by (intro owns_if owns_lbind_quiet owns_call) (simp_all add: owns_quiet leaves_rules del: ret_run)
qed

lemma conserves_value:
  assumes "stacks w L = Some (LUserdata u # vs)" and "uds w u = Some ud" and "meta ud = Some MIB_METATABLE"
    and "mibs w u = Some m"
  shows "conserves E u m (\<lambda>_. 0) w (l_mib_value E L w)"
proof -
  let ?rest = "\<lambda>mib. let ctltype = to_int (mib_kind mib AND const E ''CTLTYPE'') in
     if length (LUserdata u # vs) = 1 then get_value E L ctltype mib else set_value E L ctltype mib"
  have rest: "owns E u m' (\<lambda>_. 0) (lbind (get_mib u) ?rest)" for m'
    by (rule owns_get) (simp add: Let_def owns_get_value owns_set_value)
  have run: "l_mib_value E L w = lbind (if mib_format m = None then lbind (l_mib_format E L) (\<lambda>_. ret ()) else ret ())
      (\<lambda>_. lbind (get_mib u) ?rest) w"
    using assms by (simp add: l_mib_value_def luaL_checkudata_def ud_at_def get_mib_def lua_run)
  show ?thesis
  proof (cases "mib_format m = None")
    case True
    then have "l_mib_value E L w = lbind (l_mib_format E L) (\<lambda>_. lbind (get_mib u) ?rest) w"
      using run by (simp add: lbind_assoc)
    moreover have "conserves E u m (\<lambda>_. 0) w (lbind (l_mib_format E L) (\<lambda>_. lbind (get_mib u) ?rest) w)"
      by (rule conserves_bind [where k = "l_mib_format E L"]) (rule conserves_methods(3) [OF assms] assms(4) rest)+
    ultimately show ?thesis by simp
  next
    case False
    then have "l_mib_value E L w = lbind (get_mib u) ?rest w" using run by (simp only: if_not_P if_False lbind_ret)
    with ownsD [OF rest assms(4)] show ?thesis by simp
  qed
qed

text \<open>
  C32. A mib owns its strings: every method leaves as many blocks as before, up to those that the mib takes (the
  copies of its format, name and description) and those it gives up when it is collected, and touches no
  other mib. A buffer of \<^verbatim>\<open>value\<close> is freed on every path but one, the error for an unknown type.
\<close>

theorem mib_owns_its_strings:
  assumes "(name, f) \<in> set l_mib_meta" and "stacks w L = Some (LUserdata u # vs)"
    and "uds w u = Some ud" and "meta ud = Some MIB_METATABLE" and "mibs w u = Some m" and "p \<noteq> 0"
    and "fst (f E L w) \<noteq> Inl Undef" and "\<And>k. fst (f E L w) \<noteq> Inl (LError (unknown_ctltype k))"
  shows "\<exists>m'. mibs (snd (f E L w)) = (mibs w)(u \<mapsto> m')
    \<and> balance E p (trace (snd (f E L w))) - held m' p = balance E p (trace w) - held m p"
proof -
  have "conserves E u m (\<lambda>_. 0) w (f E L w)"
    using assms(1) conserves_methods [OF assms(2-5)] conserves_value [OF assms(2-5)] by (auto simp: l_mib_meta_def)
  moreover have "\<not> given_up (fst (f E L w))" using assms(7,8) by (simp add: given_up_def)
  ultimately obtain m' where "mibs (snd (f E L w)) = (mibs w)(u \<mapsto> m')"
    and "balance E p (trace (snd (f E L w))) + held m p = balance E p (trace w) + held m' p"
    using assms(6) by (auto simp: conserves_def)
  then show ?thesis by (intro exI [of _ m']) simp
qed

definition mib_env :: env where
  "mib_env = env0\<lparr>reply := (\<lambda>tr c. \<lparr>rc = (if fst c = ''strdup'' then 9 else 0), outi = (\<lambda>_. 0), outs = ''kern'', outv = (\<lambda>_. [])\<rparr>),
     const := (\<lambda>_. 5)\<rparr>"

definition mib_world :: "lval list \<Rightarrow> mib \<Rightarrow> world" where
  "mib_world s m = (world0 [1 \<mapsto> s])\<lparr>uds := [3 \<mapsto> \<lparr>meta = Some MIB_METATABLE, uvs = [], blk = None\<rparr>], mibs := [3 \<mapsto> m]\<rparr>"

lemma mib_world_sel [simp]:
  "stacks (mib_world s m) = [1 \<mapsto> s]" "uds (mib_world s m) = [3 \<mapsto> \<lparr>meta = Some MIB_METATABLE, uvs = [], blk = None\<rparr>]"
  "mibs (mib_world s m) = [3 \<mapsto> m]" "trace (mib_world s m) = []" "fresh (mib_world s m) = 10"
  by (simp_all add: mib_world_def)

theorem mib_owns_its_strings_witness:
  "\<exists>m'. mibs (snd (l_mib_name mib_env 1 (mib_world [LUserdata 3] (zero_mib mib_env)))) = [3 \<mapsto> m']
     \<and> balance mib_env 9 (trace (snd (l_mib_name mib_env 1 (mib_world [LUserdata 3] (zero_mib mib_env))))) = held m' 9"
proof -
  have "fst (l_mib_name mib_env 1 (mib_world [LUserdata 3] (zero_mib mib_env))) = Inr 1"
    by (simp add: l_mib_name_def luaL_checkudata_def ud_at_def get_mib_def set_mib_def query_def strdup_def buf_of_def
        cstr_def push_str_def zero_mib_def mib_env_def lua_run eval_nat_numeral)
  then show ?thesis
    using mib_owns_its_strings [of "''name''" l_mib_name "mib_world [LUserdata 3] (zero_mib mib_env)" 1 3 "[]" _ "zero_mib mib_env" 9 mib_env]
    by (simp add: l_mib_meta_def)
qed

text \<open>The buffer of a value of an unknown type is lost.\<close>

lemma value_unknown_leaks:
  assumes "stacks w L = Some s" and "fetch E (oid_args mib) 0 0 (trace w) = Some (VData p n, tr)" and "p \<noteq> 0"
    and "t \<notin> set (map (const E) [''CTLTYPE_NODE'', ''CTLTYPE_STRING'', ''CTLTYPE_OPAQUE''])" and "map_of (ctl_ints E) t = None"
  shows "get_value E L t mib w = (Inl (LError (unknown_ctltype t)), w\<lparr>trace := tr\<rparr>)"
    and "balance E p tr = balance E p (trace w) + 1"
  using assms fetch_balance [OF assms(2,3)]
  by (simp_all add: get_value_def fetch_value_def push_value_def lua_run)

section \<open>Values come back\<close>

lemma le_value_bytes: "le_value (le_bytes n i) = take_bit (8 * n) i"
proof (induction n arbitrary: i)
  case (Suc n)
  have "(of_char (char_of i :: char) :: int) = take_bit 8 i"
    by (simp add: of_char_of take_bit_eq_mod)
  moreover have "take_bit (8 * Suc n) i = take_bit 8 i + 256 * take_bit (8 * n) (i div 256)"
    using zmod_zmult2_eq [of "2 ^ (8 * n)" i 256] by (simp add: take_bit_eq_mod power_add)
  ultimately show ?case using Suc.IH by simp
qed simp

lemma length_le_bytes [simp]: "length (le_bytes n i) = n"
  by (induction n arbitrary: i) simp_all

text \<open>A number in an integer type of C.\<close>

definition in_ctype :: "nat \<times> bool \<Rightarrow> int \<Rightarrow> int" where
  "in_ctype ty i = (case ty of (n, sg) \<Rightarrow> if sg then signed_take_bit (8 * n - 1) i else take_bit (8 * n) i)"

lemma le_read_bytes: "0 < fst ty \<Longrightarrow> le_read ty (le_bytes (fst ty) i) = in_ctype ty i"
  by (cases ty) (auto simp: le_read_def in_ctype_def le_value_bytes signed_take_bit_take_bit)

lemma in_ctype_id:
  "snd ty \<Longrightarrow> 0 < fst ty \<Longrightarrow> - (2 ^ (8 * fst ty - 1)) \<le> i \<Longrightarrow> i < 2 ^ (8 * fst ty - 1) \<Longrightarrow> in_ctype ty i = i"
  "\<not> snd ty \<Longrightarrow> 0 \<le> i \<Longrightarrow> i < 2 ^ (8 * fst ty) \<Longrightarrow> in_ctype ty i = i"
  by (cases ty; simp add: in_ctype_def signed_take_bit_int_eq_self take_bit_int_eq_self)+

text \<open>
  What \<^verbatim>\<open>sysctl(3)\<close> says of a variable that can be written: the bytes of the last write are read into a buffer
  that has room for them; without a buffer their number is returned.
\<close>

fun last_write :: "carg list \<Rightarrow> ecall list \<Rightarrow> string option" where
  "last_write oid [] = None"
| "last_write oid (c # tr) = (if fst c = ''sysctl'' then
     (case rev (snd c) of AStr bs # ANull # oid' \<Rightarrow> if rev oid' = oid then Some bs else last_write oid tr
      | _ \<Rightarrow> last_write oid tr) else last_write oid tr)"

definition keeps_value :: "env \<Rightarrow> carg list \<Rightarrow> bool" where
  "keeps_value E oid \<longleftrightarrow> (\<forall>tr bs p n.
     rc (reply E tr (''sysctl'', oid @ [ANull, AStr bs])) = 0
     \<and> (last_write oid tr = Some bs \<longrightarrow> p = 0 \<or> int (length bs) \<le> n \<longrightarrow>
          rc (reply E tr (''sysctl'', oid @ [AInt p, AInt n])) = 0
          \<and> outi (reply E tr (''sysctl'', oid @ [AInt p, AInt n])) 1 = int (length bs)
          \<and> (\<forall>k \<le> length bs. p \<noteq> 0 \<longrightarrow>
               outs (reply E ((''sysctl'', oid @ [AInt p, AInt n]) # tr) (''load'', [AInt p, AInt (int k)])) = take k bs)))"

lemma fetch_run:
  assumes "keeps_value E oid" and "last_write oid tr = Some bs" and "2 * length bs < 2 ^ 64"
    and "\<And>tr n. rc (reply E tr (''malloc'', [AInt n])) = p" and "p \<noteq> 0"
  shows "\<exists>tr'. fetch E oid 0 0 tr = Some (VData p (int (length bs)), tr') \<and> 
    (\<forall>k \<le> length bs. outs (reply E tr' (''load'', [AInt p, AInt (int k)])) = take k bs)"
proof -
  let ?c = "(''sysctl'', oid @ [AInt 0, AInt 0])" and ?n = "int (length bs) * 2"
  let ?tr = "(''malloc'', [AInt ?n]) # (''free'', [AInt 0]) # ?c # tr" and ?c' = "(''sysctl'', oid @ [AInt p, AInt ?n])"
  have size: "to_size_t ?n = ?n"
    by (rule to_size_t_id) (use assms(3) in simp_all)
  have first: "rc (reply E tr ?c) = 0" "outi (reply E tr ?c) 1 = int (length bs)"
    using assms(1,2) unfolding keeps_value_def by blast+
  have "last_write oid ?tr = Some bs" using assms(2) by simp
  moreover have "int (length bs) \<le> ?n" by simp
  ultimately have second: "rc (reply E ?tr ?c') = 0" "outi (reply E ?tr ?c') 1 = int (length bs)"
    "\<And>k. k \<le> length bs \<Longrightarrow> outs (reply E (?c' # ?tr) (''load'', [AInt p, AInt (int k)])) = take k bs"
    using assms(1,5) unfolding keeps_value_def by blast+
  have "fetch E oid 0 0 tr = fetch E oid p ?n ?tr"
    using first size assms(4,5) by (subst fetch.simps) (simp add: Let_def)
  moreover have "fetch E oid p ?n ?tr = Some (VData p (int (length bs)), ?c' # ?tr)"
    using second(1,2) assms(5) by (subst fetch.simps) (simp add: Let_def)
  ultimately show ?thesis using second(3) by auto
qed

text \<open>A mib whose kind is known.\<close>

definition has_type :: "env \<Rightarrow> mib \<Rightarrow> int \<Rightarrow> bool" where
  "has_type E m t \<longleftrightarrow> mib_format m \<noteq> None \<and> to_int (mib_kind m AND const E ''CTLTYPE'') = t \<and> t \<noteq> const E ''CTLTYPE_NODE''"

lemma value_run:
  assumes "stacks w L = Some (LUserdata u # vs)" and "uds w u = Some ud" and "meta ud = Some MIB_METATABLE"
    and "mibs w u = Some m" and "has_type E m t"
  shows "l_mib_value E L w = (if vs = [] then get_value E L t m w else set_value E L t m w)"
  using assms
  by (auto simp: l_mib_value_def has_type_def luaL_checkudata_def ud_at_def get_mib_def lua_run)

lemma last_write_head: "last_write oid ((''sysctl'', oid @ [ANull, AStr bs]) # tr) = Some bs"
  by simp

lemma ctl_ints_size: "map_of (ctl_ints E) t = Some ty \<Longrightarrow> 0 < fst ty \<and> fst ty \<le> 8"
  by (auto simp: ctl_ints_def split: if_splits)


text \<open>
  A string written to a variable and read again comes back unchanged, whatever bytes it has: the byte that is
  written after it is dropped when it is read.
\<close>

theorem sysctl_string_roundtrip:
  assumes "stacks w L = Some [LUserdata u, LString str]" and "uds w u = Some ud" and "meta ud = Some MIB_METATABLE"
    and "mibs w u = Some m" and "has_type E m t" and "map_of (ctl_ints E) t = None"
    and "t = const E ''CTLTYPE_STRING''" and "length str < 2 ^ 62"
    and "keeps_value E (oid_args m)" and "\<And>tr n. rc (reply E tr (''malloc'', [AInt n])) = p" and "p \<noteq> 0"
  shows "\<exists>w1 w2. l_mib_value E L w = (Inr 0, w1) \<and> l_mib_value E L (setst L [LUserdata u] w1) = (Inr 1, w2)
    \<and> stacks w2 L = Some [LUserdata u, LString str]"
proof -
  let ?bs = "str @ [CHR 0x00]"
  let ?w1 = "w\<lparr>trace := (''sysctl'', oid_args m @ [ANull, AStr ?bs]) # trace w\<rparr>"
  have "rc (reply E (trace w) (''sysctl'', oid_args m @ [ANull, AStr ?bs])) = 0"
    using assms(9) unfolding keeps_value_def by blast
  then have wr: "l_mib_value E L w = (Inr 0, ?w1)"
    using assms(5-7)
    by (simp add: value_run [OF assms(1-5)] set_value_def has_type_def new_value_def luaL_checklstring_def lua_run assms(1))
  have "\<exists>tr'. fetch E (oid_args m) 0 0 (trace ?w1) = Some (VData p (int (length ?bs)), tr')
      \<and> (\<forall>k \<le> length ?bs. outs (reply E tr' (''load'', [AInt p, AInt (int k)])) = take k ?bs)"
    by (rule fetch_run [OF assms(9)]) (use assms(8,10,11) in \<open>simp_all del: last_write.simps add: last_write_head\<close>)
  then obtain tr' where tr': "fetch E (oid_args m) 0 0 (trace ?w1) = Some (VData p (int (length ?bs)), tr')"
    and bytes: "outs (reply E tr' (''load'', [AInt p, AInt (int (length str))])) = take (length str) ?bs"
    by (metis le_add1 length_append)
  have "stacks (setst L [LUserdata u] ?w1) L = Some [LUserdata u]" by simp
  note run = value_run [OF this, of ud m E t]
  have "\<exists>w2. l_mib_value E L (setst L [LUserdata u] ?w1) = (Inr 1, w2) \<and> stacks w2 L = Some [LUserdata u, LString str]"
    using tr' bytes assms(2-7)
    by (simp add: run has_type_def get_value_def fetch_value_def push_value_def lua_run)
  with wr show ?thesis by blast
qed

text \<open>A kernel that keeps what is written, with an integer variable of type 2 and a string of type 3.\<close>

definition written :: "carg list \<Rightarrow> ecall list \<Rightarrow> string" where
  "written oid tr = (case last_write oid tr of None \<Rightarrow> [] | Some bs \<Rightarrow> bs)"

definition value_reply :: "ecall list \<Rightarrow> ecall \<Rightarrow> cres" where
  "value_reply tr c = \<lparr>rc = (if fst c = ''malloc'' then 9 else 0),
     outi = (\<lambda>_. case rev (snd c) of _ # _ # oid \<Rightarrow> int (length (written (rev oid) tr)) | _ \<Rightarrow> 0),
     outs = (case (snd c, tr) of ([_, AInt k], (_, as) # tr') \<Rightarrow>
         (case rev as of _ # _ # oid \<Rightarrow> take (nat k) (written (rev oid) tr') | _ \<Rightarrow> []) | _ \<Rightarrow> []),
     outv = (\<lambda>_. [])\<rparr>"

definition value_env :: env where
  "value_env = env0\<lparr>reply := value_reply, const := (\<lambda>n. if n = ''CTLTYPE'' then 15 else if n = ''CTLTYPE_NODE'' then 1
     else if n = ''CTLTYPE_INT'' then 2 else if n = ''CTLTYPE_STRING'' then 3 else 5)\<rparr>"

lemma value_env_sel [simp]: "reply value_env = value_reply"
  by (simp add: value_env_def)

lemma keeps_value_env: "keeps_value value_env oid"
  unfolding keeps_value_def by (auto simp: value_reply_def written_def)

definition value_mib :: "int \<Rightarrow> mib" where
  "value_mib k = \<lparr>mib_oid = [6, 2], mib_oidlen = 2, mib_prefix = 8, mib_kind = k, mib_format = Some (8, ''I''),
     mib_name = None, mib_description = None\<rparr>"

lemma value_types:
  "has_type value_env (value_mib 2) 2" "map_of (ctl_ints value_env) 2 = Some (4, True)"
  "has_type value_env (value_mib 3) 3" "map_of (ctl_ints value_env) 3 = None"
  by (simp_all add: has_type_def value_env_def value_mib_def ctl_ints_def to_int_id)


theorem sysctl_string_roundtrip_witness:
  "\<exists>w1 w2. l_mib_value value_env 1 (mib_world [LUserdata 3, LString ''a b''] (value_mib 3)) = (Inr 0, w1)
     \<and> l_mib_value value_env 1 (setst 1 [LUserdata 3] w1) = (Inr 1, w2)
     \<and> stacks w2 1 = Some [LUserdata 3, LString ''a b'']"
  by (rule sysctl_string_roundtrip [OF _ _ _ _ value_types(3,4) _ _ keeps_value_env,
      where p = 9 and ud = "\<lparr>meta = Some MIB_METATABLE, uvs = [], blk = None\<rparr>"])
    (simp_all add: value_reply_def value_env_def)

section \<open>Walks\<close>

text \<open>
  The kernel's answer to a question for the next name: the name after \<open>oid\<close>, or \<^verbatim>\<open>ENOENT\<close> after the last one.
\<close>

definition asked :: "env \<Rightarrow> string \<Rightarrow> int list \<Rightarrow> ecall list \<Rightarrow> cres" where
  "asked E op oid tr = reply E tr (''sysctl'', AInt (const E ''CTL_SYSCTL'') # AInt (to_int (const E op)) # map AInt oid
     @ [AInt (4 * const E ''CTL_MAXNAME'')])"

definition next_names :: "env \<Rightarrow> string \<Rightarrow> (int list \<Rightarrow> int list option) \<Rightarrow> bool" where
  "next_names E op succ \<longleftrightarrow> (\<forall>tr oid. case succ oid of
      None \<Rightarrow> rc (asked E op oid tr) \<noteq> 0 \<and> errno (asked E op oid tr) = const E ''ENOENT''
    | Some oid' \<Rightarrow> rc (asked E op oid tr) = 0 \<and> outi (asked E op oid tr) 1 = 4 * int (length oid')
        \<and> length oid' \<le> ctl_maxname E \<and> (\<forall>i < length oid'. outi (asked E op oid tr) (i + 2) = oid' ! i))"

lemma next_names_None:
  assumes "next_names E op succ" and "succ oid = None"
  shows "rc (asked E op oid tr) \<noteq> 0" "errno (asked E op oid tr) = const E ''ENOENT''"
  using assms(1) [unfolded next_names_def, rule_format, of oid tr] assms(2) by simp_all

lemma next_names_Some:
  assumes "next_names E op succ" and "succ oid = Some oid'"
  shows "rc (asked E op oid tr) = 0" "outi (asked E op oid tr) 1 = 4 * int (length oid')" "length oid' \<le> ctl_maxname E"
    "i < length oid' \<Longrightarrow> outi (asked E op oid tr) (i + 2) = oid' ! i"
  using assms(1) [unfolded next_names_def, rule_format, of oid tr] assms(2) by simp_all

text \<open>The array of a name, and the mib of one.\<close>

definition padded :: "env \<Rightarrow> int list \<Rightarrow> int list" where
  "padded E oid = oid @ replicate (ctl_maxname E - length oid) 0"

definition names :: "env \<Rightarrow> mib \<Rightarrow> int list \<Rightarrow> bool" where
  "names E m oid \<longleftrightarrow> mib_oid m = padded E oid \<and> mib_oidlen m = length oid"

text \<open>The names after \<open>oid\<close> while they begin as the first \<open>k\<close> numbers of it do; at most \<open>n\<close> of them.\<close>

fun descendants :: "env \<Rightarrow> (int list \<Rightarrow> int list option) \<Rightarrow> nat \<Rightarrow> nat \<Rightarrow> int list \<Rightarrow> int list list" where
  "descendants E succ k 0 oid = []"
| "descendants E succ k (Suc n) oid = (case succ oid of
      None \<Rightarrow> []
    | Some oid' \<Rightarrow> if take k (padded E oid') = take k (padded E oid) then oid' # descendants E succ k n oid' else [])"

text \<open>The generic \<^verbatim>\<open>for\<close> of Lua, for at most \<open>n\<close> rounds: the mibs that the loop variable takes.\<close>

fun for_in :: "lval \<Rightarrow> env \<Rightarrow> lstate \<Rightarrow> nat \<Rightarrow> lval \<Rightarrow> lval \<Rightarrow> nat list lua" where
  "for_in f E L 0 s c = ret []"
| "for_in f E L (Suc n) s c =
     seq (\<lambda>w. (Inr (), setst L [s, c] w))
    (lbind (l_mib_iter_next f E L) (\<lambda>nres.
     lbind (askst L (\<lambda>st. st ! (length st - nres))) (\<lambda>v. case v of
       LUserdata u \<Rightarrow> lbind (for_in f E L n s v) (\<lambda>us. ret (u # us))
     | _ \<Rightarrow> ret [])))"

lemma oid_array_run:
  assumes "length oid \<le> ctl_maxname E" and "\<And>i. i < length oid \<Longrightarrow> outi r (i + 2) = oid ! i"
  shows "oid_array E (length oid) r = padded E oid"
proof -
  have "map (\<lambda>i. outi r (i + 2)) [0..<length oid] = oid"
    by (rule nth_equalityI) (use assms(2) in simp_all)
  with assms(1) show ?thesis by (simp add: oid_array_def padded_def)
qed

lemma take_padded: "k \<le> length oid \<Longrightarrow> take k (padded E oid) = take k oid"
  by (simp add: padded_def)

text \<open>One step of a walk.\<close>

lemma iter_next_run:
  assumes "next_names E op succ" and "stacks w L = Some [s, LUserdata p]"
    and "uds w p = Some ud" and "meta ud = Some MIB_METATABLE" and "mibs w p = Some m" and "names E m oid"
    and "mib_prefix m = 4 * k" and "p < fresh w" and "up = LInteger (const E op)"
  shows "\<exists>w' st. l_mib_iter_next up E L w = (Inr 1, w') \<and> stacks w' L = Some st \<and> st \<noteq> []
      \<and> (\<forall>u < fresh w. mibs w' u = mibs w u)
      \<and> (case succ oid of
          Some oid' \<Rightarrow>
            if take k (padded E oid') = take k (padded E oid)
            then last st = LUserdata (fresh w) \<and> fresh w' = Suc (fresh w)
              \<and> (\<exists>ud. uds w' (fresh w) = Some ud \<and> meta ud = Some MIB_METATABLE)
              \<and> (\<exists>m'. mibs w' = (mibs w)(fresh w \<mapsto> m') \<and> names E m' oid' \<and> mib_prefix m' = 4 * k)
            else last st = LNil
        | None \<Rightarrow> last st = LNil)"
proof -
  have args: "oid_args m = map AInt oid" "take n (mib_oid m) = take n (padded E oid)" for n
    using assms(6) by (simp_all add: oid_args_def names_def padded_def)
  have p: "p \<noteq> fresh w" using assms(8) by simp
  have top: "at [a, b, c] (-1) = Some c" for a b c by (simp add: at_def pos_def)
  note run = l_mib_iter_next_def luaL_testudata_def ud_at_def lua_newuserdatauv_def luaL_setmetatable_def get_mib_def set_mib_def
    upvalue_integer_def lua_run
  show ?thesis
  proof (cases "succ oid")
    case None
    note r = next_names_None [OF assms(1) None, unfolded asked_def]
    show ?thesis
      using assms(2-5,9) p None args r by (simp add: run top)
  next
    case (Some oid')
    note r = next_names_Some [OF assms(1) Some]
    have n: "nat (outi (asked E op oid tr) 1) div 4 = length oid'" "oid_array E (length oid') (asked E op oid tr) = padded E oid'" for tr
      using r by (simp_all add: oid_array_run)
    note r' = r(1) [unfolded asked_def] n [unfolded asked_def]
    show ?thesis
      using assms(2-5,7,9) p Some args r'
      by (auto simp: run names_def top)
  qed
qed

text \<open>An iterator of a named mib starts after it.\<close>

lemma iter_with_run:
  assumes "stacks w L = Some [LUserdata p]" and "uds w p = Some ud" and "meta ud = Some MIB_METATABLE"
    and "mibs w p = Some m" and "mib_prefix m \<noteq> 0"
  shows "\<exists>w'. iter_with E L op w = (Inr 3, w')
    \<and> stacks w' L = Some [LUserdata p, LFunction (fresh w), LNil, LUserdata p]
    \<and> clos w' (fresh w) = Some \<lparr>is_c = True, proto = 0, upvals = [([], LInteger (const E op))]\<rparr>"
  using assms by (simp add: iter_with_def luaL_checkudata_def ud_at_def get_mib_def lua_pushcclosure1_def
      lua_pushvalue_def lua_run)


text \<open>A kernel with names of two numbers, the second of which is at most 3.\<close>

definition walk_succ :: "int list \<Rightarrow> int list option" where
  "walk_succ oid = (case oid of [a, b] \<Rightarrow> Some (if b < 3 then [a, b + 1] else [a + 1, 1]) | _ \<Rightarrow> None)"

definition walk_reply :: "ecall \<Rightarrow> cres" where
  "walk_reply c = (case snd c of
      [_, _, AInt a, AInt b, _] \<Rightarrow> \<lparr>rc = 0, outi = (\<lambda>i. [0, 8, if b < 3 then a else a + 1, if b < 3 then b + 1 else 1] ! i), outs = [], outv = (\<lambda>_. [])\<rparr>
    | _ \<Rightarrow> \<lparr>rc = -1, outi = (\<lambda>_. 4), outs = [], outv = (\<lambda>_. [])\<rparr>)"

definition walk_env :: env where
  "walk_env = env0\<lparr>reply := (\<lambda>tr. walk_reply), const := (\<lambda>_. 4)\<rparr>"

lemma walk_env_next: "next_names walk_env op walk_succ"
proof -
  have short: "rc (walk_reply (f, x # y # map AInt oid @ [z])) = -1 \<and> outi (walk_reply (f, x # y # map AInt oid @ [z])) 0 = 4"
    if "walk_succ oid = None" for f x y z oid
    using that by (auto simp: walk_reply_def walk_succ_def split: list.splits carg.splits)
  have "\<exists>a b. oid = [a, b]" if "walk_succ oid = Some oid'" for oid oid'
    using that by (auto simp: walk_succ_def split: list.splits)
  then have "\<exists>a b. oid = [a, b] \<and> oid' = (if b < 3 then [a, b + 1] else [a + 1, 1])" if "walk_succ oid = Some oid'" for oid oid'
    using that by (fastforce simp: walk_succ_def)
  with short show ?thesis
    by (fastforce simp: next_names_def asked_def walk_env_def errno_def walk_reply_def ctl_maxname_def less_Suc_eq
        numeral_2_eq_2 split: option.split)
qed


end
