(* ===== verification/Typed.thy ===== *)
theory Typed
  imports Handle Resources
begin

text \<open>
  Typed library calls. A module that wraps pointers of a library in userdata must hand each function of the
  library only pointers of the types it takes. \<open>typed K W m\<close> says that every call of \<open>m\<close> has, as its pointer
  arguments, the cookies of live wrappers of the kinds that \<open>K\<close> gives for the called function. The rules
  go through a function from its checks to its calls.
\<close>

section \<open>Handles\<close>

definition handle :: "world \<Rightarrow> string \<Rightarrow> addr \<Rightarrow> bool" where
  "handle w m p \<longleftrightarrow> p \<noteq> 0 \<and> (\<exists>u ud. uds w u = Some ud \<and> meta ud = Some m \<and> get_uv COOKIE ud = Some (LLightuserdata p))"

fun ptrs :: "carg list \<Rightarrow> addr list" where
  "ptrs [] = []"
| "ptrs (APtr p # as) = p # ptrs as"
| "ptrs (_ # as) = ptrs as"

text \<open>\<open>K\<close> gives, for a function, the lists of kinds it may be called with.\<close>

definition typed_call :: "(string \<Rightarrow> string list list) \<Rightarrow> world \<Rightarrow> ecall \<Rightarrow> bool" where
  "typed_call K w c \<longleftrightarrow> (\<exists>ms \<in> set (K (fst c)). list_all2 (handle w) ms (ptrs (snd c)))"

definition typed :: "(string \<Rightarrow> string list list) \<Rightarrow> world \<Rightarrow> 'a lua \<Rightarrow> bool" where
  "typed K W m \<longleftrightarrow> (\<forall>w. uds w = uds W \<longrightarrow>
     (\<exists>cs. trace (snd (m w)) = cs @ trace w \<and> (\<forall>c \<in> set cs. typed_call K W c)))"

lemma typedD: "typed K w m \<Longrightarrow> \<exists>cs. trace (snd (m w)) = cs @ trace w \<and> (\<forall>c \<in> set cs. typed_call K w c)"
  by (simp add: typed_def)

section \<open>Rules\<close>

named_theorems typed_rules \<open>every call is typed\<close>

lemma typed_quiet: "quiet m \<Longrightarrow> typed K W m"
  by (simp add: typed_def leaves_def)

lemma typed_lbind:
  assumes m: "\<And>w. uds w = uds W \<Longrightarrow> (\<exists>cs. trace (snd (m w)) = cs @ trace w \<and> (\<forall>c \<in> set cs. typed_call K W c))
      \<and> (\<forall>a w'. m w = (Inr a, w') \<longrightarrow> uds w' = uds W \<and> typed K W (f a))"
  shows "typed K W (lbind m f)"
  unfolding typed_def
proof (intro allI impI)
  fix w :: world assume w: "uds w = uds W"
  obtain r w' where run: "m w = (r, w')" by (cases "m w")
  with m [OF w] obtain cs where cs: "trace w' = cs @ trace w" "\<forall>c \<in> set cs. typed_call K W c" by auto
  show "\<exists>cs. trace (snd (lbind m f w)) = cs @ trace w \<and> (\<forall>c \<in> set cs. typed_call K W c)"
  proof (cases r)
    case (Inl e)
    with run cs show ?thesis by (auto simp: lbind_def)
  next
    case (Inr a)
    with m [OF w] run have "uds w' = uds W" "typed K W (f a)" by auto
    then obtain ds where "trace (snd (f a w')) = ds @ trace w'" "\<forall>c \<in> set ds. typed_call K W c"
      unfolding typed_def by blast
    with cs run Inr show ?thesis by (intro exI [of _ "ds @ cs"]) (auto simp: lbind_def)
  qed
qed

lemma typed_lbind_quiet:
  assumes "quiet m" and "leaves uds m" and "\<And>a. typed K W (f a)"
  shows "typed K W (lbind m f)"
proof (rule typed_lbind)
  fix w :: world assume "uds w = uds W"
  with assms show "(\<exists>cs. trace (snd (m w)) = cs @ trace w \<and> (\<forall>c \<in> set cs. typed_call K W c))
      \<and> (\<forall>a w'. m w = (Inr a, w') \<longrightarrow> uds w' = uds W \<and> typed K W (f a))"
    by (auto simp: leaves_def) (metis snd_conv)
qed

lemma typed_lbind_typed:
  assumes "typed K W m" and "leaves uds m" and "\<And>a. typed K W (f a)"
  shows "typed K W (lbind m f)"
proof (rule typed_lbind)
  fix w :: world assume w: "uds w = uds W"
  have "uds w' = uds w" if "m w = (r, w')" for r w' using assms(2) that by (auto simp: leaves_def) (metis snd_conv)
  with assms w show "(\<exists>cs. trace (snd (m w)) = cs @ trace w \<and> (\<forall>c \<in> set cs. typed_call K W c))
      \<and> (\<forall>a w'. m w = (Inr a, w') \<longrightarrow> uds w' = uds W \<and> typed K W (f a))"
    by (auto simp: typed_def)
qed

lemma typed_lbind_call [typed_rules]:
  assumes "typed_call K W (g, as)" and "\<And>r. typed K W (f r)"
  shows "typed K W (lbind (ccall E g as) f)"
  by (rule typed_lbind) (use assms in \<open>auto simp: ccall_def\<close>)

lemma light_ptr_type: "type_of v = LUA_TLIGHTUSERDATA \<Longrightarrow> LLightuserdata (light_ptr (Some v)) = v"
  by (cases v) simp_all

lemma typed_checkcookie [typed_rules]:
  assumes "\<And>p. handle W m p \<Longrightarrow> typed K W (f p)"
  shows "typed K W (lbind (checkcookie L i m) f)"
proof (rule typed_lbind)
  fix w :: world assume w: "uds w = uds W"
  have "typed K W (f p)" if "checkcookie L i m w = (Inr p, w')" for p w'
  proof (rule assms)
    show "handle W m p"
      using that w
      by (auto simp: checkcookie_def checkcookienull_def checkcookieuv_def luaL_checkudata_def getcookie_def
          lua_getiuservalue_def luaL_argcheck_def ud_at_def handle_def Let_def lua_run lbind_def seq_def lua_tolight_def
          askst_def lua_push_def modst_def lua_pop_def light_ptr_type split: option.splits if_splits lval.splits) blast
  qed
  moreover have "uds (snd (checkcookie L i m w)) = uds w" and "trace (snd (checkcookie L i m w)) = trace w"
    by (simp_all add: leavesD leaves_rules)
  ultimately show "(\<exists>cs. trace (snd (checkcookie L i m w)) = cs @ trace w \<and> (\<forall>c \<in> set cs. typed_call K W c))
      \<and> (\<forall>p w'. checkcookie L i m w = (Inr p, w') \<longrightarrow> uds w' = uds W \<and> typed K W (f p))"
    using w by (auto simp: prod_eq_iff)
qed

lemma typed_if [typed_rules]: "(b \<Longrightarrow> typed K W m) \<Longrightarrow> (\<not> b \<Longrightarrow> typed K W k) \<Longrightarrow> typed K W (if b then m else k)"
  by simp

lemma typed_case_prod [typed_rules]: "(\<And>x y. typed K W (f x y)) \<Longrightarrow> typed K W (case v of (x, y) \<Rightarrow> f x y)"
  by (simp split: prod.split)

lemma typed_seq [typed_rules]: "typed K W (lbind m (\<lambda>_. k)) \<Longrightarrow> typed K W (seq m k)"
  by (simp add: seq_def)

lemma typed_report [typed_rules]: "typed_call K W (g, as) \<Longrightarrow> typed K W (report E L g as)"
  unfolding report_def by (intro typed_rules) (simp_all add: typed_quiet leaves_rules)

lemma typed_file_fd [typed_rules]:
  assumes "K ''fileno'' = [[]]" and "\<And>fd. typed K W (f fd)"
  shows "typed K W (lbind (file_fd E L s) f)"
proof -
  have "typed K W (lbind (get_blk s) (\<lambda>x. lbind (ccall E ''fileno'' [AInt x])
      (\<lambda>r. if rc r < 0 then fatal E L ''fileno'' (errno r) else f (rc r))))"
    by (intro typed_lbind_quiet typed_rules) (simp_all add: assms typed_quiet leaves_rules typed_call_def)
  then show ?thesis by (simp add: file_fd_def lbind_assoc lbind_if error_bind cong: if_cong)
qed

lemmas typed_simps = typed_rules typed_quiet typed_lbind_quiet leaves_rules

section \<open>Parts keep what they are part of\<close>

text \<open>
  Wrappers of pointers into another object refer to the wrapper of that object, so that it is not collected
  before them. \<open>P\<close> gives the kind of the object that a kind is part of.
\<close>

definition part_of :: "(string \<Rightarrow> string option) \<Rightarrow> world \<Rightarrow> bool" where
  "part_of P w \<longleftrightarrow> (\<forall>u. uds w u \<noteq> None \<longrightarrow> u < fresh w)
     \<and> (\<forall>u ud m pm. uds w u = Some ud \<longrightarrow> meta ud = Some m \<longrightarrow> P m = Some pm \<longrightarrow>
          (\<exists>a ad. get_uv REF ud = Some (LUserdata a) \<and> uds w a = Some ad \<and> meta ad = Some pm))"

lemma part_of_cong: "uds w' = uds w \<Longrightarrow> fresh w' = fresh w \<Longrightarrow> part_of P w' = part_of P w"
  by (simp add: part_of_def)

lemma part_of_setst [simp]: "part_of P (setst L s w) = part_of P w"
  by (rule part_of_cong) simp_all

interpretation fresh_frame: stack_frame fresh
  by unfold_locales simp_all

lemma leaves_fresh_ccall [leaves_rules]: "leaves fresh (ccall E f as)"
  by (rule leavesI) (simp add: ccall_run)

lemma keeps_leaves: "leaves uds m \<Longrightarrow> leaves fresh m \<Longrightarrow> keeps (part_of P) m"
  unfolding keeps_def leaves_def using part_of_cong by blast

lemma part_of_add:
  assumes "part_of P w"
    and "\<And>m pm. meta ud = Some m \<Longrightarrow> P m = Some pm \<Longrightarrow> \<exists>a ad. get_uv REF ud = Some (LUserdata a) \<and> uds w a = Some ad \<and> meta ad = Some pm"
    and "uds w' = (uds w)(fresh w \<mapsto> ud)" and "fresh w' = Suc (fresh w)"
  shows "part_of P w'"
proof -
  have old: "u < fresh w" if "uds w u = Some x" for u x using assms(1) that by (auto simp: part_of_def)
  have "\<exists>a ad. get_uv REF x = Some (LUserdata a) \<and> uds w' a = Some ad \<and> meta ad = Some pm"
    if "uds w' u = Some x" "meta x = Some k" "P k = Some pm" for u x k pm
  proof (cases "u = fresh w")
    case True
    with that assms(3) have "x = ud" by simp
    with that assms(2) obtain a ad where a: "get_uv REF x = Some (LUserdata a)" "uds w a = Some ad" "meta ad = Some pm"
      by blast
    with assms(3) old [OF a(2)] show ?thesis by auto
  next
    case False
    with that assms(3) have "uds w u = Some x" by simp
    with that assms(1) obtain a ad where a: "get_uv REF x = Some (LUserdata a)" "uds w a = Some ad" "meta ad = Some pm"
      unfolding part_of_def by blast
    with assms(3) old [OF a(2)] show ?thesis by auto
  qed
  moreover have "u < fresh w'" if "uds w' u \<noteq> None" for u
    using that assms(3,4) old by (auto simp: less_Suc_eq split: if_splits)
  ultimately show ?thesis unfolding part_of_def by blast
qed

lemma keeps_new: "P m = None \<Longrightarrow> keeps (part_of P) (new L p m)"
proof (rule keepsI)
  fix w assume P: "P m = None" and w: "part_of P w"
  show "part_of P (snd (new L p m w))"
  proof (cases "stacks w L")
    case None
    have "part_of P (w\<lparr>uds := (uds w)(fresh w \<mapsto> \<lparr>meta = None, uvs = [LNil], blk = None\<rparr>), fresh := Suc (fresh w)\<rparr>)"
      by (rule part_of_add [OF w, of "\<lparr>meta = None, uvs = [LNil], blk = None\<rparr>"]) simp_all
    with None show ?thesis
      by (simp add: new_def lua_newuserdatauv_def lua_push_def modst_def seq_def lbind_def Let_def)
  next
    case (Some s)
    have "part_of P (setst L (s @ [LUserdata (fresh w)]) (w\<lparr>uds := (uds w)(fresh w \<mapsto> wrapper m p), fresh := Suc (fresh w)\<rparr>))"
      using P by (intro part_of_add [OF w, of "wrapper m p"]) (auto simp: wrapper_def)
    with Some show ?thesis by (simp add: new_run)
  qed
qed

lemma newref_first_run:
  assumes "stacks w L = Some s" and "at s 1 = Some v"
  shows "newref L 1 p m w = (Inr 1, setst L (s @ [LUserdata (fresh w)]) (w\<lparr>uds := (uds w)(fresh w \<mapsto>
    \<lparr>meta = Some m, uvs = [LLightuserdata p, v], blk = None\<rparr>), fresh := Suc (fresh w)\<rparr>))"
proof -
  have "1 \<le> length s" using assms(2) by (cases s) auto
  then have at: "at (s @ t) 1 = Some v" for t using assms(2) by (simp add: at_append)
  show ?thesis
    using assms(1) at
    by (simp add: newref_def setcookie_def setref_def lua_newuserdatauv_def luaL_setmetatable_def lua_setiuservalue_def
        lua_pushvalue_def lua_run set_uv_def COOKIE_def REF_def numeral_2_eq_2)
qed


text \<open>After a check of its first argument, a function knows the kind of it.\<close>

definition part_of_first :: "(string \<Rightarrow> string option) \<Rightarrow> lstate \<Rightarrow> string \<Rightarrow> world \<Rightarrow> bool" where
  "part_of_first P L m w \<longleftrightarrow> part_of P w
     \<and> (\<exists>s u ud. stacks w L = Some s \<and> at s 1 = Some (LUserdata u) \<and> uds w u = Some ud \<and> meta ud = Some m)"

lemma keeps_checked:
  assumes "\<And>p. keeps (part_of_first P L m) (f p)"
  shows "keeps (part_of P) (lbind (checkcookie L 1 m) f)"
proof (rule keepsI)
  fix w assume w: "part_of P w"
  show "part_of P (snd (lbind (checkcookie L 1 m) f w))"
  proof (cases "stacks w L")
    case None
    then show ?thesis
      using w by (simp add: lbind_def checkcookie_def checkcookienull_def checkcookieuv_def luaL_checkudata_def seq_def
          askst_def)
  next
    case (Some s)
    show ?thesis
    proof (cases "cookie_at w s 1 m")
      case (Inl e)
      with checkcookie_error [OF Some this] w show ?thesis
        by (auto simp: lbind_def)
    next
      case (Inr p)
      then obtain u where "at s 1 = Some (LUserdata u)" "uds w u \<noteq> None" "meta (the (uds w u)) = Some m"
        by (auto simp: cookie_at_def ud_at_def split: option.splits if_splits lval.splits)
      with Some w have "part_of_first P L m w" by (auto simp: part_of_first_def)
      from keepsD [OF assms this, of p] checkcookie_run [OF Some Inr] show ?thesis
        by (simp add: lbind_def part_of_first_def)
    qed
  qed
qed

lemma first_leaves:
  "leaves uds m \<Longrightarrow> leaves fresh m \<Longrightarrow> leaves stacks m \<Longrightarrow> keeps (part_of_first P L k) m"
  unfolding keeps_def leaves_def part_of_first_def using part_of_cong by metis

lemma first_push: "keeps (part_of_first P L k) (lua_push L v)"
proof (rule keepsI)
  fix w assume w: "part_of_first P L k w"
  then obtain s u ud where s: "stacks w L = Some s" "at s 1 = Some (LUserdata u)" "uds w u = Some ud" "meta ud = Some k"
    by (auto simp: part_of_first_def)
  then have "1 \<le> length s" by (cases s) auto
  with w s show "part_of_first P L k (snd (lua_push L v w))"
    by (auto simp: part_of_first_def lua_push_def modst_def at_append)
qed

text \<open>Storing another cookie in the first argument leaves its reference alone.\<close>

lemma first_setcookie:
  "keeps (part_of_first P L k) (seq (lua_pushlightuserdata L q) (lua_setiuservalue L 1 COOKIE))"
proof (rule keepsI)
  fix w assume w: "part_of_first P L k w"
  then obtain s u ud where s: "stacks w L = Some s" "at s 1 = Some (LUserdata u)" "uds w u = Some ud" "meta ud = Some k"
    by (auto simp: part_of_first_def)
  then have "1 \<le> length s" by (cases s) auto
  then have "at (s @ [LLightuserdata q]) 1 = Some (LUserdata u)" using s(2) by (simp add: at_append)
  then have run: "seq (lua_pushlightuserdata L q) (lua_setiuservalue L 1 COOKIE) w
      = (Inr (), setst L s (w\<lparr>uds := (uds w)(u \<mapsto> set_uv COOKIE (LLightuserdata q) ud)\<rparr>))"
    using s by (simp add: lua_setiuservalue_def ud_at_def lua_run)
  let ?w = "setst L s (w\<lparr>uds := (uds w)(u \<mapsto> set_uv COOKIE (LLightuserdata q) ud)\<rparr>)"
  have uv: "meta (set_uv COOKIE v ud) = meta ud" "get_uv REF (set_uv COOKIE v ud) = get_uv REF ud" for v
    by (auto simp: set_uv_def get_uv_def COOKIE_def REF_def)
  have old: "\<exists>xd'. uds ?w x = Some xd' \<and> meta xd' = meta xd" if "uds w x = Some xd" for x xd
    using that s(3) uv by (cases "x = u") auto
  have "part_of P ?w"
    unfolding part_of_def
  proof (intro conjI allI impI)
    fix x assume "uds ?w x \<noteq> None"
    then show "x < fresh ?w" using w s(3) by (auto simp: part_of_first_def part_of_def split: if_splits)
  next
    fix x xd m pm assume "uds ?w x = Some xd" "meta xd = Some m" "P m = Some pm"
    then obtain yd where "uds w x = Some yd" "meta yd = Some m" "get_uv REF yd = get_uv REF xd"
      using s(3) uv by (cases "x = u") auto
    with w \<open>P m = Some pm\<close> obtain a ad where "get_uv REF xd = Some (LUserdata a)" "uds w a = Some ad" "meta ad = Some pm"
      unfolding part_of_first_def part_of_def by metis
    with old show "\<exists>a ad. get_uv REF xd = Some (LUserdata a) \<and> uds ?w a = Some ad \<and> meta ad = Some pm" by metis
  qed
  with s uv show "part_of_first P L k (snd (seq (lua_pushlightuserdata L q) (lua_setiuservalue L 1 COOKIE) w))"
    unfolding run by (auto simp: part_of_first_def)
qed

text \<open>A new wrapper refers to the first argument.\<close>

lemma first_newref:
  assumes "P m = Some k"
  shows "keeps (part_of_first P L k) (newref L 1 p m)"
proof (rule keepsI)
  fix w assume w: "part_of_first P L k w"
  then obtain s u ud where s: "stacks w L = Some s" "at s 1 = Some (LUserdata u)" "uds w u = Some ud" "meta ud = Some k"
    by (auto simp: part_of_first_def)
  let ?ud = "\<lparr>meta = Some m, uvs = [LLightuserdata p, LUserdata u], blk = None\<rparr>"
  let ?w = "setst L (s @ [LUserdata (fresh w)]) (w\<lparr>uds := (uds w)(fresh w \<mapsto> ?ud), fresh := Suc (fresh w)\<rparr>)"
  have "part_of P w" using w by (simp add: part_of_first_def)
  then have "part_of P ?w"
    by (rule part_of_add [where ud = ?ud]) (use s assms in \<open>auto simp: get_uv_def REF_def\<close>)
  moreover have "u < fresh w" using w s(3) by (auto simp: part_of_first_def part_of_def)
  moreover have "1 \<le> length s" using s(2) by (cases s) auto
  ultimately show "part_of_first P L k (snd (newref L 1 p m w))"
    using s newref_first_run [OF s(1,2), of p m] by (auto simp: part_of_first_def at_append)
qed

text \<open>The checks of arguments, the calls and the pushing of results.\<close>

lemma part_prims:
  "keeps (part_of P) (luaL_checkudata L i m)" "keeps (part_of P) (luaL_checkinteger E L i)"
  "keeps (part_of P) (luaL_optinteger E L i d)" "keeps (part_of P) (luaL_checkstring E L i)"
  "keeps (part_of P) (lua_isinteger L i)" "keeps (part_of P) (lua_tointeger E L i)"
  "keeps (part_of P) (lua_toboolean L i)" "keeps (part_of P) (lua_isuserdata L i)"
  "keeps (part_of P) (get_blk u)" "keeps (part_of P) (ccall E g as)" "keeps (part_of P) (lua_push L v)"
  "keeps (part_of P) (fail E L e)" "keeps (part_of P) (fatal E L g e)" "keeps (part_of P) (success L)"
  "keeps (part_of P) (luaL_error L msg)" "keeps (part_of P) (checkcookie L i m)"
  by (simp_all add: keeps_leaves leaves_rules)

lemma part_file_fd: "keeps (part_of P) (file_fd E L s)"
  by (simp add: file_fd_def keeps_rules part_prims)

lemma part_report: "keeps (part_of P) (report E L g as)"
  by (simp add: report_def keeps_rules part_prims)

lemmas part_rules = keeps_rules part_prims part_file_fd part_report

lemma leaves_stacks: "leaves stacks (ccall E g as)" "leaves stacks (luaL_checkinteger E L i)"
  "leaves stacks (luaL_optinteger E L i d)"
  by (rule leavesI; simp add: ccall_def luaL_checkinteger_def luaL_optinteger_def lua_type_def askst_def lbind_def
      split: option.split)+

lemma first_prims:
  "keeps (part_of_first P L k) (ccall E g as)" "keeps (part_of_first P L k) (luaL_checkinteger E L i)"
  "keeps (part_of_first P L k) (luaL_optinteger E L i d)" "keeps (part_of_first P L k) (fail E L e)"
  "keeps (part_of_first P L k) (success L)"
  by (simp_all add: first_leaves leaves_stacks leaves_rules fail_def success_def keeps_rules first_push)

lemmas first_rules = keeps_rules first_prims first_push

end
