(* ===== verification/Acl.thy ===== *)
theory Acl
  imports Typed
begin

text \<open>
  \<^verbatim>\<open>sys/acl/lua_acl.c\<close>: access control lists. A list is the cookie of a wrapper; an entry of a list is a
  pointer into it, so its wrapper refers to that of the list, and the wrappers of the sets of flags and
  permissions of an entry refer to that of the entry. Numbers have the types of \<^verbatim>\<open>sys/acl.h\<close>: \<^verbatim>\<open>acl_type_t\<close> is \<^verbatim>\<open>int\<close>,
  tags, permissions and user identifiers have 32 bits, flags and entry types 16. The functions for FreeBSD
  releases after 14 are included.
\<close>

definition ACL_METATABLE :: string where
  "ACL_METATABLE = ''acl_t''"

definition ACL_ENTRY_METATABLE :: string where
  "ACL_ENTRY_METATABLE = ''acl_entry_t''"

definition ACL_FLAGSET_METATABLE :: string where
  "ACL_FLAGSET_METATABLE = ''acl_flagset_t''"

definition ACL_PERMSET_METATABLE :: string where
  "ACL_PERMSET_METATABLE = ''acl_permset_t''"

section \<open>Access control lists of files\<close>

text \<open>The end of a function that makes a list: the reply is its address, 0 on failure.\<close>

definition new_acl :: "env \<Rightarrow> lstate \<Rightarrow> string \<Rightarrow> carg list \<Rightarrow> nat lua" where
  "new_acl E L g as =
     lbind (ccall E g as) (\<lambda>r.
     if rc r = 0 then fail E L (errno r)
     else new L (nat (rc r)) ACL_METATABLE)"

definition l_acl_delete :: "env \<Rightarrow> lstate \<Rightarrow> nat lua" where
  "l_acl_delete E L =
     lbind (luaL_checkudata L 1 LUA_FILEHANDLE) (\<lambda>s.
     lbind (luaL_optinteger E L 2 (const E ''ACL_TYPE_ACCESS'')) (\<lambda>type.
     lbind (file_fd E L s) (\<lambda>fd.
     report E L ''acl_delete_fd_np'' [AInt fd, AInt (to_int type)])))"

definition l_acl_delete_fd :: "env \<Rightarrow> lstate \<Rightarrow> nat lua" where
  "l_acl_delete_fd E L =
     lbind (luaL_checkinteger E L 1) (\<lambda>fd.
     lbind (luaL_optinteger E L 2 (const E ''ACL_TYPE_ACCESS'')) (\<lambda>type.
     report E L ''acl_delete_fd_np'' [AInt (to_int fd), AInt (to_int type)]))"

definition l_acl_delete_file :: "env \<Rightarrow> lstate \<Rightarrow> nat lua" where
  "l_acl_delete_file E L =
     lbind (luaL_checkstring E L 1) (\<lambda>path.
     lbind (luaL_optinteger E L 2 (const E ''ACL_TYPE_ACCESS'')) (\<lambda>type.
     report E L ''acl_delete_file_np'' [AStr path, AInt (to_int type)]))"

definition l_acl_delete_link :: "env \<Rightarrow> lstate \<Rightarrow> nat lua" where
  "l_acl_delete_link E L =
     lbind (luaL_checkstring E L 1) (\<lambda>path.
     lbind (luaL_optinteger E L 2 (const E ''ACL_TYPE_ACCESS'')) (\<lambda>type.
     report E L ''acl_delete_link_np'' [AStr path, AInt (to_int type)]))"

definition l_acl_extended_file :: "env \<Rightarrow> lstate \<Rightarrow> nat lua" where
  "l_acl_extended_file E L =
     lbind (luaL_checkstring E L 1) (\<lambda>path.
     lbind (ccall E ''acl_extended_file_np'' [AStr path]) (\<lambda>r.
     if rc r = -1 then fail E L (errno r)
     else
       seq (lua_pushboolean L (rc r \<noteq> 0))
       (ret 1)))"

definition l_acl_extended_link :: "env \<Rightarrow> lstate \<Rightarrow> nat lua" where
  "l_acl_extended_link E L =
     lbind (luaL_checkstring E L 1) (\<lambda>path.
     lbind (ccall E ''acl_extended_link_np'' [AStr path]) (\<lambda>r.
     if rc r = -1 then fail E L (errno r)
     else
       seq (lua_pushboolean L (rc r \<noteq> 0))
       (ret 1)))"

definition l_acl_from_mode :: "env \<Rightarrow> lstate \<Rightarrow> nat lua" where
  "l_acl_from_mode E L =
     lbind (luaL_checkinteger E L 1) (\<lambda>mode.
     new_acl E L ''acl_from_mode_np'' [AInt (to_ushort mode)])"

definition l_acl_from_text :: "env \<Rightarrow> lstate \<Rightarrow> nat lua" where
  "l_acl_from_text E L =
     lbind (luaL_checkstring E L 1) (\<lambda>buf.
     new_acl E L ''acl_from_text'' [AStr buf])"

definition l_acl_get :: "env \<Rightarrow> lstate \<Rightarrow> nat lua" where
  "l_acl_get E L =
     lbind (luaL_checkudata L 1 LUA_FILEHANDLE) (\<lambda>s.
     lbind (luaL_optinteger E L 2 (const E ''ACL_TYPE_ACCESS'')) (\<lambda>type.
     lbind (file_fd E L s) (\<lambda>fd.
     new_acl E L ''acl_get_fd_np'' [AInt fd, AInt (to_int type)])))"

definition l_acl_get_fd :: "env \<Rightarrow> lstate \<Rightarrow> nat lua" where
  "l_acl_get_fd E L =
     lbind (luaL_checkinteger E L 1) (\<lambda>fd.
     lbind (luaL_optinteger E L 2 (const E ''ACL_TYPE_ACCESS'')) (\<lambda>type.
     new_acl E L ''acl_get_fd_np'' [AInt (to_int fd), AInt (to_int type)]))"

definition l_acl_get_file :: "env \<Rightarrow> lstate \<Rightarrow> nat lua" where
  "l_acl_get_file E L =
     lbind (luaL_checkstring E L 1) (\<lambda>path.
     lbind (luaL_optinteger E L 2 (const E ''ACL_TYPE_ACCESS'')) (\<lambda>type.
     new_acl E L ''acl_get_file'' [AStr path, AInt (to_int type)]))"

definition l_acl_get_link :: "env \<Rightarrow> lstate \<Rightarrow> nat lua" where
  "l_acl_get_link E L =
     lbind (luaL_checkstring E L 1) (\<lambda>path.
     lbind (luaL_optinteger E L 2 (const E ''ACL_TYPE_ACCESS'')) (\<lambda>type.
     new_acl E L ''acl_get_link_np'' [AStr path, AInt (to_int type)]))"

definition l_acl_new :: "env \<Rightarrow> lstate \<Rightarrow> nat lua" where
  "l_acl_new E L =
     lbind (luaL_optinteger E L 1 (const E ''ACL_MAX_ENTRIES'')) (\<lambda>count.
     new_acl E L ''acl_init'' [AInt (to_int count)])"

definition l_acl_cmp :: "env \<Rightarrow> lstate \<Rightarrow> nat lua" where
  "l_acl_cmp E L =
     lbind (checkcookie L 1 ACL_METATABLE) (\<lambda>acl1.
     lbind (checkcookie L 2 ACL_METATABLE) (\<lambda>acl2.
     lbind (ccall E ''acl_cmp_np'' [APtr acl1, APtr acl2]) (\<lambda>r.
     if rc r = -1 then fatal E L ''acl_cmp_np'' (errno r)
     else
       seq (lua_pushboolean L (rc r = 0))
       (ret 1))))"

definition l_acl_gc :: "env \<Rightarrow> lstate \<Rightarrow> nat lua" where
  "l_acl_gc E L =
     lbind (checkcookie L 1 ACL_METATABLE) (\<lambda>acl.
     lbind (ccall E ''acl_free'' [APtr acl]) (\<lambda>r.
     if rc r = -1 then fatal E L ''acl_free'' (errno r)
     else ret 0))"

definition l_acl_calc_mask :: "env \<Rightarrow> lstate \<Rightarrow> nat lua" where
  "l_acl_calc_mask E L =
     lbind (checkcookie L 1 ACL_METATABLE) (\<lambda>acl.
     lbind (ccall E ''acl_calc_mask'' [APtr acl]) (\<lambda>r.
     if rc r = -1 then fail E L (errno r)
     else
       seq (lua_pushlightuserdata L (nat (outi r 1)))
      (seq (lua_setiuservalue L 1 COOKIE)
       (success L))))"

definition l_acl_create_entry :: "env \<Rightarrow> lstate \<Rightarrow> nat lua" where
  "l_acl_create_entry E L =
     lbind (checkcookie L 1 ACL_METATABLE) (\<lambda>acl.
     lbind (luaL_optinteger E L 2 (-1)) (\<lambda>index.
     lbind (if to_int index = -1 then ccall E ''acl_create_entry'' [APtr acl]
            else ccall E ''acl_create_entry_np'' [APtr acl, AInt (to_int index)]) (\<lambda>r.
     if rc r = -1 then fail E L (errno r)
     else
       seq (lua_pushlightuserdata L (nat (outi r 1)))
      (seq (lua_setiuservalue L 1 COOKIE)
       (newref L 1 (nat (outi r 2)) ACL_ENTRY_METATABLE)))))"

definition l_acl_delete_entry :: "env \<Rightarrow> lstate \<Rightarrow> nat lua" where
  "l_acl_delete_entry E L =
     lbind (checkcookie L 1 ACL_METATABLE) (\<lambda>acl.
     lbind (lua_isinteger L 2) (\<lambda>isint.
     if isint then
       lbind (lua_tointeger E L 2) (\<lambda>index.
       report E L ''acl_delete_entry_np'' [APtr acl, AInt (to_int index)])
     else
       lbind (checkcookie L 1 ACL_ENTRY_METATABLE) (\<lambda>entry.
       report E L ''acl_delete_entry'' [APtr acl, APtr entry])))"

definition l_acl_dup :: "env \<Rightarrow> lstate \<Rightarrow> nat lua" where
  "l_acl_dup E L =
     lbind (checkcookie L 1 ACL_METATABLE) (\<lambda>acl1.
     new_acl E L ''acl_dup'' [APtr acl1])"

definition l_acl_equiv_mode :: "env \<Rightarrow> lstate \<Rightarrow> nat lua" where
  "l_acl_equiv_mode E L =
     lbind (checkcookie L 1 ACL_METATABLE) (\<lambda>acl.
     lbind (ccall E ''acl_equiv_mode_np'' [APtr acl]) (\<lambda>r.
     if rc r = 0 then
       seq (lua_pushboolean L True)
      (seq (lua_pushinteger L (outi r 1))
       (ret 2))
     else if rc r = 1 then
       seq (lua_pushboolean L False)
       (ret 1)
     else if rc r = -1 then fail E L (errno r)
     else luaL_error L ''undocumented acl_equiv_mode_np result''))"

definition l_acl_get_brand :: "env \<Rightarrow> lstate \<Rightarrow> nat lua" where
  "l_acl_get_brand E L =
     lbind (checkcookie L 1 ACL_METATABLE) (\<lambda>acl.
     lbind (ccall E ''acl_get_brand_np'' [APtr acl]) (\<lambda>r.
     if rc r = -1 then fail E L (errno r)
     else
       seq (lua_pushinteger L (outi r 1))
       (ret 1)))"

definition l_acl_get_entry :: "env \<Rightarrow> lstate \<Rightarrow> nat lua" where
  "l_acl_get_entry E L =
     lbind (checkcookie L 1 ACL_METATABLE) (\<lambda>acl.
     lbind (luaL_checkinteger E L 2) (\<lambda>id.
     lbind (ccall E ''acl_get_entry'' [APtr acl, AInt (to_int id)]) (\<lambda>r.
     if rc r = -1 then fail E L (errno r)
     else newref L 1 (nat (outi r 1)) ACL_ENTRY_METATABLE)))"

definition l_acl_is_trivial :: "env \<Rightarrow> lstate \<Rightarrow> nat lua" where
  "l_acl_is_trivial E L =
     lbind (checkcookie L 1 ACL_METATABLE) (\<lambda>acl.
     lbind (ccall E ''acl_is_trivial_np'' [APtr acl]) (\<lambda>r.
     if rc r = -1 then fail E L (errno r)
     else
       seq (lua_pushboolean L (outi r 1 \<noteq> 0))
       (ret 1)))"

definition l_acl_set :: "env \<Rightarrow> lstate \<Rightarrow> nat lua" where
  "l_acl_set E L =
     lbind (checkcookie L 1 ACL_METATABLE) (\<lambda>acl.
     lbind (luaL_checkudata L 2 LUA_FILEHANDLE) (\<lambda>s.
     lbind (luaL_optinteger E L 3 (const E ''ACL_TYPE_ACCESS'')) (\<lambda>type.
     lbind (file_fd E L s) (\<lambda>fd.
     report E L ''acl_set_fd_np'' [AInt fd, APtr acl, AInt (to_int type)]))))"

definition l_acl_set_fd :: "env \<Rightarrow> lstate \<Rightarrow> nat lua" where
  "l_acl_set_fd E L =
     lbind (checkcookie L 1 ACL_METATABLE) (\<lambda>acl.
     lbind (luaL_checkinteger E L 2) (\<lambda>fd.
     lbind (luaL_optinteger E L 3 (const E ''ACL_TYPE_ACCESS'')) (\<lambda>type.
     report E L ''acl_set_fd_np'' [AInt (to_int fd), APtr acl, AInt (to_int type)])))"

definition l_acl_set_file :: "env \<Rightarrow> lstate \<Rightarrow> nat lua" where
  "l_acl_set_file E L =
     lbind (checkcookie L 1 ACL_METATABLE) (\<lambda>acl.
     lbind (luaL_checkstring E L 2) (\<lambda>path.
     lbind (luaL_optinteger E L 3 (const E ''ACL_TYPE_ACCESS'')) (\<lambda>type.
     report E L ''acl_set_file'' [AStr path, AInt (to_int type), APtr acl])))"

definition l_acl_set_link :: "env \<Rightarrow> lstate \<Rightarrow> nat lua" where
  "l_acl_set_link E L =
     lbind (checkcookie L 1 ACL_METATABLE) (\<lambda>acl.
     lbind (luaL_checkstring E L 2) (\<lambda>path.
     lbind (luaL_optinteger E L 3 (const E ''ACL_TYPE_ACCESS'')) (\<lambda>type.
     report E L ''acl_set_link_np'' [AStr path, AInt (to_int type), APtr acl])))"

definition l_acl_strip :: "env \<Rightarrow> lstate \<Rightarrow> nat lua" where
  "l_acl_strip E L =
     lbind (checkcookie L 1 ACL_METATABLE) (\<lambda>acl1.
     lbind (lua_toboolean L 2) (\<lambda>recalculate_mask.
     new_acl E L ''acl_strip_np'' [APtr acl1, AInt (if recalculate_mask then 1 else 0)]))"

definition l_acl_to_text :: "env \<Rightarrow> lstate \<Rightarrow> nat lua" where
  "l_acl_to_text E L =
     lbind (checkcookie L 1 ACL_METATABLE) (\<lambda>acl.
     lbind (luaL_optinteger E L 2 0) (\<lambda>flags.
     lbind (ccall E ''acl_to_text_np'' [APtr acl, AInt (to_int flags)]) (\<lambda>r.
     if rc r = 0 then fail E L (errno r)
     else
       seq (lua_pushstring L (outs r))
       (ret 1))))"

definition l_acl_valid :: "env \<Rightarrow> lstate \<Rightarrow> nat lua" where
  "l_acl_valid E L =
     lbind (checkcookie L 1 ACL_METATABLE) (\<lambda>acl.
     lbind (lua_isuserdata L 2) (\<lambda>isud.
     if isud then
       lbind (luaL_checkudata L 2 LUA_FILEHANDLE) (\<lambda>s.
       lbind (luaL_optinteger E L 3 (const E ''ACL_TYPE_ACCESS'')) (\<lambda>type.
       lbind (file_fd E L s) (\<lambda>fd.
       report E L ''acl_valid_fd_np'' [AInt fd, AInt (to_int type), APtr acl])))
     else report E L ''acl_valid'' [APtr acl]))"

definition l_acl_valid_fd :: "env \<Rightarrow> lstate \<Rightarrow> nat lua" where
  "l_acl_valid_fd E L =
     lbind (checkcookie L 1 ACL_METATABLE) (\<lambda>acl.
     lbind (luaL_checkinteger E L 2) (\<lambda>fd.
     lbind (luaL_optinteger E L 3 (const E ''ACL_TYPE_ACCESS'')) (\<lambda>type.
     report E L ''acl_valid_fd_np'' [AInt (to_int fd), AInt (to_int type), APtr acl])))"

definition l_acl_valid_file :: "env \<Rightarrow> lstate \<Rightarrow> nat lua" where
  "l_acl_valid_file E L =
     lbind (checkcookie L 1 ACL_METATABLE) (\<lambda>acl.
     lbind (luaL_checkstring E L 2) (\<lambda>path.
     lbind (luaL_optinteger E L 3 (const E ''ACL_TYPE_ACCESS'')) (\<lambda>type.
     report E L ''acl_valid_file_np'' [AStr path, AInt (to_int type), APtr acl])))"

definition l_acl_valid_link :: "env \<Rightarrow> lstate \<Rightarrow> nat lua" where
  "l_acl_valid_link E L =
     lbind (checkcookie L 1 ACL_METATABLE) (\<lambda>acl.
     lbind (luaL_checkstring E L 2) (\<lambda>path.
     lbind (luaL_optinteger E L 3 (const E ''ACL_TYPE_ACCESS'')) (\<lambda>type.
     report E L ''acl_valid_link_np'' [AStr path, AInt (to_int type), APtr acl])))"

section \<open>Entries\<close>

definition l_acl_copy_entry :: "env \<Rightarrow> lstate \<Rightarrow> nat lua" where
  "l_acl_copy_entry E L =
     lbind (checkcookie L 1 ACL_ENTRY_METATABLE) (\<lambda>dst.
     lbind (checkcookie L 2 ACL_ENTRY_METATABLE) (\<lambda>src.
     report E L ''acl_copy_entry'' [APtr dst, APtr src]))"

definition l_acl_get_flagset :: "env \<Rightarrow> lstate \<Rightarrow> nat lua" where
  "l_acl_get_flagset E L =
     lbind (checkcookie L 1 ACL_ENTRY_METATABLE) (\<lambda>entry.
     lbind (ccall E ''acl_get_flagset_np'' [APtr entry]) (\<lambda>r.
     if rc r = -1 then fail E L (errno r)
     else newref L 1 (nat (outi r 1)) ACL_FLAGSET_METATABLE))"

definition l_acl_get_permset :: "env \<Rightarrow> lstate \<Rightarrow> nat lua" where
  "l_acl_get_permset E L =
     lbind (checkcookie L 1 ACL_ENTRY_METATABLE) (\<lambda>entry.
     lbind (ccall E ''acl_get_permset'' [APtr entry]) (\<lambda>r.
     if rc r = -1 then fail E L (errno r)
     else newref L 1 (nat (outi r 1)) ACL_PERMSET_METATABLE))"

text \<open>The identifier is copied from memory that the library allocates: its address is the result, its value out-value 1.\<close>

definition l_acl_get_qualifier :: "env \<Rightarrow> lstate \<Rightarrow> nat lua" where
  "l_acl_get_qualifier E L =
     lbind (checkcookie L 1 ACL_ENTRY_METATABLE) (\<lambda>entry.
     lbind (ccall E ''acl_get_qualifier'' [APtr entry]) (\<lambda>r.
     if rc r = 0 then fail E L (errno r)
     else
       seq (lua_pushinteger L (outi r 1))
      (seq (ccall E ''acl_free'' [AInt (rc r)])
       (ret 1))))"

definition l_acl_get_entry_type :: "env \<Rightarrow> lstate \<Rightarrow> nat lua" where
  "l_acl_get_entry_type E L =
     lbind (checkcookie L 1 ACL_ENTRY_METATABLE) (\<lambda>entry.
     lbind (ccall E ''acl_get_entry_type_np'' [APtr entry]) (\<lambda>r.
     if rc r = -1 then fail E L (errno r)
     else
       seq (lua_pushinteger L (outi r 1))
       (ret 1)))"

definition l_acl_set_entry_type :: "env \<Rightarrow> lstate \<Rightarrow> nat lua" where
  "l_acl_set_entry_type E L =
     lbind (checkcookie L 1 ACL_ENTRY_METATABLE) (\<lambda>entry.
     lbind (luaL_checkinteger E L 2) (\<lambda>type.
     report E L ''acl_set_entry_type_np'' [APtr entry, AInt (to_ushort type)]))"

definition l_acl_get_tag_type :: "env \<Rightarrow> lstate \<Rightarrow> nat lua" where
  "l_acl_get_tag_type E L =
     lbind (checkcookie L 1 ACL_ENTRY_METATABLE) (\<lambda>entry.
     lbind (ccall E ''acl_get_tag_type'' [APtr entry]) (\<lambda>r.
     if rc r = -1 then fail E L (errno r)
     else
       seq (lua_pushinteger L (outi r 1))
       (ret 1)))"

definition l_acl_set_tag_type :: "env \<Rightarrow> lstate \<Rightarrow> nat lua" where
  "l_acl_set_tag_type E L =
     lbind (checkcookie L 1 ACL_ENTRY_METATABLE) (\<lambda>entry.
     lbind (luaL_checkinteger E L 2) (\<lambda>tag_type.
     report E L ''acl_set_tag_type'' [APtr entry, AInt (to_uint tag_type)]))"

definition l_acl_set_flagset :: "env \<Rightarrow> lstate \<Rightarrow> nat lua" where
  "l_acl_set_flagset E L =
     lbind (checkcookie L 1 ACL_ENTRY_METATABLE) (\<lambda>entry.
     lbind (checkcookie L 2 ACL_FLAGSET_METATABLE) (\<lambda>flagset.
     report E L ''acl_set_flagset_np'' [APtr entry, APtr flagset]))"

definition l_acl_set_permset :: "env \<Rightarrow> lstate \<Rightarrow> nat lua" where
  "l_acl_set_permset E L =
     lbind (checkcookie L 1 ACL_ENTRY_METATABLE) (\<lambda>entry.
     lbind (checkcookie L 2 ACL_PERMSET_METATABLE) (\<lambda>permset.
     report E L ''acl_set_permset'' [APtr entry, APtr permset]))"

definition l_acl_set_qualifier :: "env \<Rightarrow> lstate \<Rightarrow> nat lua" where
  "l_acl_set_qualifier E L =
     lbind (checkcookie L 1 ACL_ENTRY_METATABLE) (\<lambda>entry.
     lbind (luaL_checkinteger E L 2) (\<lambda>id.
     report E L ''acl_set_qualifier'' [APtr entry, AInt (to_uint id)]))"

section \<open>Sets of flags and permissions\<close>

definition l_acl_add_flag :: "env \<Rightarrow> lstate \<Rightarrow> nat lua" where
  "l_acl_add_flag E L =
     lbind (checkcookie L 1 ACL_FLAGSET_METATABLE) (\<lambda>flagset.
     lbind (luaL_checkinteger E L 2) (\<lambda>flag.
     report E L ''acl_add_flag_np'' [APtr flagset, AInt (to_ushort flag)]))"

definition l_acl_clear_flags :: "env \<Rightarrow> lstate \<Rightarrow> nat lua" where
  "l_acl_clear_flags E L =
     lbind (checkcookie L 1 ACL_FLAGSET_METATABLE) (\<lambda>flagset.
     report E L ''acl_clear_flags_np'' [APtr flagset])"

definition l_acl_delete_flag :: "env \<Rightarrow> lstate \<Rightarrow> nat lua" where
  "l_acl_delete_flag E L =
     lbind (checkcookie L 1 ACL_FLAGSET_METATABLE) (\<lambda>flagset.
     lbind (luaL_checkinteger E L 2) (\<lambda>flag.
     report E L ''acl_delete_flag_np'' [APtr flagset, AInt (to_ushort flag)]))"

definition l_acl_get_flag :: "env \<Rightarrow> lstate \<Rightarrow> nat lua" where
  "l_acl_get_flag E L =
     lbind (checkcookie L 1 ACL_FLAGSET_METATABLE) (\<lambda>flagset.
     lbind (luaL_checkinteger E L 2) (\<lambda>flag.
     lbind (ccall E ''acl_get_flag_np'' [APtr flagset, AInt (to_ushort flag)]) (\<lambda>r.
     if rc r = -1 then fail E L (errno r)
     else
       seq (lua_pushboolean L (rc r \<noteq> 0))
       (ret 1))))"

definition l_acl_add_perm :: "env \<Rightarrow> lstate \<Rightarrow> nat lua" where
  "l_acl_add_perm E L =
     lbind (checkcookie L 1 ACL_PERMSET_METATABLE) (\<lambda>permset.
     lbind (luaL_checkinteger E L 2) (\<lambda>perm.
     report E L ''acl_add_perm'' [APtr permset, AInt (to_uint perm)]))"

definition l_acl_clear_perms :: "env \<Rightarrow> lstate \<Rightarrow> nat lua" where
  "l_acl_clear_perms E L =
     lbind (checkcookie L 1 ACL_PERMSET_METATABLE) (\<lambda>permset.
     report E L ''acl_clear_perms'' [APtr permset])"

definition l_acl_delete_perm :: "env \<Rightarrow> lstate \<Rightarrow> nat lua" where
  "l_acl_delete_perm E L =
     lbind (checkcookie L 1 ACL_PERMSET_METATABLE) (\<lambda>permset.
     lbind (luaL_checkinteger E L 2) (\<lambda>perm.
     report E L ''acl_delete_perm'' [APtr permset, AInt (to_uint perm)]))"

definition l_acl_get_perm :: "env \<Rightarrow> lstate \<Rightarrow> nat lua" where
  "l_acl_get_perm E L =
     lbind (checkcookie L 1 ACL_PERMSET_METATABLE) (\<lambda>permset.
     lbind (luaL_checkinteger E L 2) (\<lambda>perm.
     lbind (ccall E ''acl_get_perm_np'' [APtr permset, AInt (to_uint perm)]) (\<lambda>r.
     if rc r = -1 then fail E L (errno r)
     else
       seq (lua_pushboolean L (rc r \<noteq> 0))
       (ret 1))))"

section \<open>The module\<close>

definition l_acl_funcs :: "(string \<times> cfunction) list" where
  "l_acl_funcs =
     [(''delete'', l_acl_delete),
      (''delete_fd'', l_acl_delete_fd),
      (''delete_file'', l_acl_delete_file),
      (''delete_link'', l_acl_delete_link),
      (''extended_file'', l_acl_extended_file),
      (''extended_link'', l_acl_extended_link),
      (''from_mode'', l_acl_from_mode),
      (''from_text'', l_acl_from_text),
      (''get'', l_acl_get),
      (''get_fd'', l_acl_get_fd),
      (''get_file'', l_acl_get_file),
      (''get_link'', l_acl_get_link),
      (''new'', l_acl_new)]"

definition l_acl_meta :: "(string \<times> cfunction) list" where
  "l_acl_meta =
     [(''__eq'', l_acl_cmp),
      (''__gc'', l_acl_gc),
      (''calc_mask'', l_acl_calc_mask),
      (''create_entry'', l_acl_create_entry),
      (''delete_entry'', l_acl_delete_entry),
      (''dup'', l_acl_dup),
      (''equiv_mode'', l_acl_equiv_mode),
      (''get_brand'', l_acl_get_brand),
      (''get_entry'', l_acl_get_entry),
      (''is_trivial'', l_acl_is_trivial),
      (''set'', l_acl_set),
      (''set_fd'', l_acl_set_fd),
      (''set_file'', l_acl_set_file),
      (''set_link'', l_acl_set_link),
      (''strip'', l_acl_strip),
      (''to_text'', l_acl_to_text),
      (''valid'', l_acl_valid),
      (''valid_fd'', l_acl_valid_fd),
      (''valid_file'', l_acl_valid_file),
      (''valid_link'', l_acl_valid_link)]"

definition l_acl_entry_meta :: "(string \<times> cfunction) list" where
  "l_acl_entry_meta =
     [(''copy'', l_acl_copy_entry),
      (''get_flagset'', l_acl_get_flagset),
      (''get_permset'', l_acl_get_permset),
      (''get_qualifier'', l_acl_get_qualifier),
      (''get_tag_type'', l_acl_get_tag_type),
      (''get_type'', l_acl_get_entry_type),
      (''set_flagset'', l_acl_set_flagset),
      (''set_permset'', l_acl_set_permset),
      (''set_qualifier'', l_acl_set_qualifier),
      (''set_tag_type'', l_acl_set_tag_type),
      (''set_type'', l_acl_set_entry_type)]"

definition l_acl_flagset_meta :: "(string \<times> cfunction) list" where
  "l_acl_flagset_meta =
     [(''add'', l_acl_add_flag),
      (''clear'', l_acl_clear_flags),
      (''delete'', l_acl_delete_flag),
      (''get'', l_acl_get_flag)]"

definition l_acl_permset_meta :: "(string \<times> cfunction) list" where
  "l_acl_permset_meta =
     [(''add'', l_acl_add_perm),
      (''clear'', l_acl_clear_perms),
      (''delete'', l_acl_delete_perm),
      (''get'', l_acl_get_perm)]"

definition luaopen_sys_acl ::
  "env \<Rightarrow> (string \<times> (string \<times> cfunction) list) list \<times> (string \<times> field) list" where
  "luaopen_sys_acl E =
     ([(ACL_METATABLE, l_acl_meta), (ACL_ENTRY_METATABLE, l_acl_entry_meta),
       (ACL_FLAGSET_METATABLE, l_acl_flagset_meta), (ACL_PERMSET_METATABLE, l_acl_permset_meta)],
      luaL_newlib l_acl_funcs @ DEFINE E ''ACL_''
        [''MAX_ENTRIES'', ''BRAND_UNKNOWN'', ''BRAND_POSIX'', ''BRAND_NFS4'', ''UNDEFINED_TAG'', ''USER_OBJ'',
         ''USER'', ''GROUP_OBJ'', ''GROUP'', ''MASK'', ''OTHER'', ''OTHER_OBJ'', ''EVERYONE'',
         ''ENTRY_TYPE_ALLOW'', ''ENTRY_TYPE_DENY'', ''ENTRY_TYPE_AUDIT'', ''ENTRY_TYPE_ALARM'',
         ''TYPE_ACCESS_OLD'', ''TYPE_DEFAULT_OLD'', ''TYPE_ACCESS'', ''TYPE_DEFAULT'', ''TYPE_NFS4'', ''EXECUTE'',
         ''WRITE'', ''READ'', ''PERM_NONE'', ''PERM_BITS'', ''POSIX1E_BITS'', ''READ_DATA'', ''LIST_DIRECTORY'',
         ''WRITE_DATA'', ''ADD_FILE'', ''APPEND_DATA'', ''ADD_SUBDIRECTORY'', ''READ_NAMED_ATTRS'',
         ''WRITE_NAMED_ATTRS'', ''DELETE_CHILD'', ''READ_ATTRIBUTES'', ''WRITE_ATTRIBUTES'', ''DELETE'',
         ''READ_ACL'', ''WRITE_ACL'', ''WRITE_OWNER'', ''SYNCHRONIZE'', ''FULL_SET'', ''MODIFY_SET'', ''READ_SET'',
         ''WRITE_SET'', ''NFS4_PERM_BITS'', ''FIRST_ENTRY'', ''NEXT_ENTRY'', ''ENTRY_FILE_INHERIT'',
         ''ENTRY_DIRECTORY_INHERIT'', ''ENTRY_NO_PROPAGATE_INHERIT'', ''ENTRY_INHERIT_ONLY'',
         ''ENTRY_SUCCESSFUL_ACCESS'', ''ENTRY_FAILED_ACCESS'', ''ENTRY_INHERITED'', ''FLAGS_BITS'',
         ''UNDEFINED_ID'', ''TEXT_VERBOSE'', ''TEXT_NUMERIC_IDS'', ''TEXT_APPEND_ID'', ''OVERRIDE_MASK'',
         ''PRESERVE_MASK''])"

section \<open>The library gets pointers of the right types\<close>

text \<open>
  The kinds of the pointers that a function of the library takes. \<^verbatim>\<open>acl_free\<close> also frees memory that the library
  allocated for the result of a call.
\<close>

definition acl_pointers :: "string \<Rightarrow> string list list" where
  "acl_pointers g = (case map_of
     [(''acl_cmp_np'', [[ACL_METATABLE, ACL_METATABLE]]),
      (''acl_free'', [[ACL_METATABLE], []]),
      (''acl_calc_mask'', [[ACL_METATABLE]]),
      (''acl_create_entry'', [[ACL_METATABLE]]),
      (''acl_create_entry_np'', [[ACL_METATABLE]]),
      (''acl_delete_entry_np'', [[ACL_METATABLE]]),
      (''acl_delete_entry'', [[ACL_METATABLE, ACL_ENTRY_METATABLE]]),
      (''acl_dup'', [[ACL_METATABLE]]),
      (''acl_equiv_mode_np'', [[ACL_METATABLE]]),
      (''acl_get_brand_np'', [[ACL_METATABLE]]),
      (''acl_get_entry'', [[ACL_METATABLE]]),
      (''acl_is_trivial_np'', [[ACL_METATABLE]]),
      (''acl_set_fd_np'', [[ACL_METATABLE]]),
      (''acl_set_file'', [[ACL_METATABLE]]),
      (''acl_set_link_np'', [[ACL_METATABLE]]),
      (''acl_strip_np'', [[ACL_METATABLE]]),
      (''acl_to_text_np'', [[ACL_METATABLE]]),
      (''acl_valid_fd_np'', [[ACL_METATABLE]]),
      (''acl_valid'', [[ACL_METATABLE]]),
      (''acl_valid_file_np'', [[ACL_METATABLE]]),
      (''acl_valid_link_np'', [[ACL_METATABLE]]),
      (''acl_copy_entry'', [[ACL_ENTRY_METATABLE, ACL_ENTRY_METATABLE]]),
      (''acl_get_flagset_np'', [[ACL_ENTRY_METATABLE]]),
      (''acl_get_permset'', [[ACL_ENTRY_METATABLE]]),
      (''acl_get_qualifier'', [[ACL_ENTRY_METATABLE]]),
      (''acl_get_entry_type_np'', [[ACL_ENTRY_METATABLE]]),
      (''acl_set_entry_type_np'', [[ACL_ENTRY_METATABLE]]),
      (''acl_get_tag_type'', [[ACL_ENTRY_METATABLE]]),
      (''acl_set_tag_type'', [[ACL_ENTRY_METATABLE]]),
      (''acl_set_flagset_np'', [[ACL_ENTRY_METATABLE, ACL_FLAGSET_METATABLE]]),
      (''acl_set_permset'', [[ACL_ENTRY_METATABLE, ACL_PERMSET_METATABLE]]),
      (''acl_set_qualifier'', [[ACL_ENTRY_METATABLE]]),
      (''acl_add_flag_np'', [[ACL_FLAGSET_METATABLE]]),
      (''acl_clear_flags_np'', [[ACL_FLAGSET_METATABLE]]),
      (''acl_delete_flag_np'', [[ACL_FLAGSET_METATABLE]]),
      (''acl_get_flag_np'', [[ACL_FLAGSET_METATABLE]]),
      (''acl_add_perm'', [[ACL_PERMSET_METATABLE]]),
      (''acl_clear_perms'', [[ACL_PERMSET_METATABLE]]),
      (''acl_delete_perm'', [[ACL_PERMSET_METATABLE]]),
      (''acl_get_perm_np'', [[ACL_PERMSET_METATABLE]])] g of Some ks \<Rightarrow> ks | None \<Rightarrow> [[]])"

lemma quiet_new_acl: "typed_call K W (g, as) \<Longrightarrow> typed K W (new_acl E L g as)"
  unfolding new_acl_def by (intro typed_rules) (simp_all add: typed_quiet leaves_rules)

lemma acl_typed_1:
  "typed acl_pointers W (l_acl_delete E L)"
  "typed acl_pointers W (l_acl_delete_fd E L)"
  "typed acl_pointers W (l_acl_delete_file E L)"
  "typed acl_pointers W (l_acl_delete_link E L)"
  "typed acl_pointers W (l_acl_extended_file E L)"
  "typed acl_pointers W (l_acl_extended_link E L)"
  "typed acl_pointers W (l_acl_from_mode E L)"
  "typed acl_pointers W (l_acl_from_text E L)"
  "typed acl_pointers W (l_acl_get E L)"
  "typed acl_pointers W (l_acl_get_fd E L)"
  by (simp_all add: l_acl_delete_def l_acl_delete_fd_def l_acl_delete_file_def
      l_acl_delete_link_def l_acl_extended_file_def l_acl_extended_link_def l_acl_from_mode_def
      l_acl_from_text_def l_acl_get_def l_acl_get_fd_def
      typed_simps quiet_new_acl typed_call_def acl_pointers_def del: ret_run)

lemma acl_typed_2:
  "typed acl_pointers W (l_acl_get_file E L)"
  "typed acl_pointers W (l_acl_get_link E L)"
  "typed acl_pointers W (l_acl_new E L)"
  "typed acl_pointers W (l_acl_cmp E L)"
  "typed acl_pointers W (l_acl_gc E L)"
  "typed acl_pointers W (l_acl_calc_mask E L)"
  "typed acl_pointers W (l_acl_create_entry E L)"
  "typed acl_pointers W (l_acl_delete_entry E L)"
  "typed acl_pointers W (l_acl_dup E L)"
  "typed acl_pointers W (l_acl_equiv_mode E L)"
  by (simp_all add: l_acl_get_file_def l_acl_get_link_def l_acl_new_def
      l_acl_cmp_def l_acl_gc_def l_acl_calc_mask_def l_acl_create_entry_def
      l_acl_delete_entry_def l_acl_dup_def l_acl_equiv_mode_def
      typed_simps quiet_new_acl typed_call_def acl_pointers_def del: ret_run)

lemma acl_typed_3:
  "typed acl_pointers W (l_acl_get_brand E L)"
  "typed acl_pointers W (l_acl_get_entry E L)"
  "typed acl_pointers W (l_acl_is_trivial E L)"
  "typed acl_pointers W (l_acl_set E L)"
  "typed acl_pointers W (l_acl_set_fd E L)"
  "typed acl_pointers W (l_acl_set_file E L)"
  "typed acl_pointers W (l_acl_set_link E L)"
  "typed acl_pointers W (l_acl_strip E L)"
  "typed acl_pointers W (l_acl_to_text E L)"
  "typed acl_pointers W (l_acl_valid E L)"
  by (simp_all add: l_acl_get_brand_def l_acl_get_entry_def l_acl_is_trivial_def
      l_acl_set_def l_acl_set_fd_def l_acl_set_file_def l_acl_set_link_def
      l_acl_strip_def l_acl_to_text_def l_acl_valid_def
      typed_simps quiet_new_acl typed_call_def acl_pointers_def del: ret_run)

lemma acl_typed_4:
  "typed acl_pointers W (l_acl_valid_fd E L)"
  "typed acl_pointers W (l_acl_valid_file E L)"
  "typed acl_pointers W (l_acl_valid_link E L)"
  "typed acl_pointers W (l_acl_copy_entry E L)"
  "typed acl_pointers W (l_acl_get_flagset E L)"
  "typed acl_pointers W (l_acl_get_permset E L)"
  "typed acl_pointers W (l_acl_get_qualifier E L)"
  "typed acl_pointers W (l_acl_get_entry_type E L)"
  "typed acl_pointers W (l_acl_set_entry_type E L)"
  "typed acl_pointers W (l_acl_get_tag_type E L)"
  by (simp_all add: l_acl_valid_fd_def l_acl_valid_file_def l_acl_valid_link_def
      l_acl_copy_entry_def l_acl_get_flagset_def l_acl_get_permset_def l_acl_get_qualifier_def
      l_acl_get_entry_type_def l_acl_set_entry_type_def l_acl_get_tag_type_def
      typed_simps quiet_new_acl typed_call_def acl_pointers_def del: ret_run)

lemma acl_typed_5:
  "typed acl_pointers W (l_acl_set_tag_type E L)"
  "typed acl_pointers W (l_acl_set_flagset E L)"
  "typed acl_pointers W (l_acl_set_permset E L)"
  "typed acl_pointers W (l_acl_set_qualifier E L)"
  "typed acl_pointers W (l_acl_add_flag E L)"
  "typed acl_pointers W (l_acl_clear_flags E L)"
  "typed acl_pointers W (l_acl_delete_flag E L)"
  "typed acl_pointers W (l_acl_get_flag E L)"
  "typed acl_pointers W (l_acl_add_perm E L)"
  "typed acl_pointers W (l_acl_clear_perms E L)"
  by (simp_all add: l_acl_set_tag_type_def l_acl_set_flagset_def l_acl_set_permset_def
      l_acl_set_qualifier_def l_acl_add_flag_def l_acl_clear_flags_def l_acl_delete_flag_def
      l_acl_get_flag_def l_acl_add_perm_def l_acl_clear_perms_def
      typed_simps quiet_new_acl typed_call_def acl_pointers_def del: ret_run)

lemma acl_typed_6:
  "typed acl_pointers W (l_acl_delete_perm E L)"
  "typed acl_pointers W (l_acl_get_perm E L)"
  by (simp_all add: l_acl_delete_perm_def l_acl_get_perm_def
      typed_simps quiet_new_acl typed_call_def acl_pointers_def del: ret_run)

lemmas acl_typed =
  acl_typed_1 acl_typed_2 acl_typed_3 acl_typed_4 acl_typed_5 acl_typed_6

text \<open>
  C35. Types are respected: every call that a function of \<^verbatim>\<open>sys.acl\<close> makes on a list, an entry, a set of flags or a
  set of permissions gets the pointer from a live wrapper of just that kind, and never \<^verbatim>\<open>NULL\<close>, whatever the
  Lua program passes.
\<close>

theorem acl_calls_are_typed:
  assumes "(name, f) \<in> set (l_acl_funcs @ l_acl_meta @ l_acl_entry_meta @ l_acl_flagset_meta @ l_acl_permset_meta)"
  shows "\<exists>cs. trace (snd (f E L w)) = cs @ trace w
    \<and> (\<forall>c \<in> set cs. \<exists>ms \<in> set (acl_pointers (fst c)). list_all2 (handle w) ms (ptrs (snd c)))"
proof -
  have "typed acl_pointers w (f E L)"
    using assms
    by (auto simp: l_acl_funcs_def l_acl_meta_def l_acl_entry_meta_def l_acl_flagset_meta_def l_acl_permset_meta_def acl_typed)
  from typedD [OF this] show ?thesis by (simp add: typed_call_def)
qed

definition acl_world :: "lval list \<Rightarrow> world" where
  "acl_world s = (world0 [1 \<mapsto> s])\<lparr>uds := [3 \<mapsto> wrapper ACL_METATABLE 7,
     4 \<mapsto> \<lparr>meta = Some ACL_ENTRY_METATABLE, uvs = [LLightuserdata 8, LUserdata 3], blk = None\<rparr>]\<rparr>"

theorem acl_calls_are_typed_witness:
  "\<exists>cs. trace (snd (l_acl_cmp env0 1 (acl_world [LUserdata 3, LUserdata 3]))) = cs
    \<and> (\<forall>c \<in> set cs. \<exists>ms \<in> set (acl_pointers (fst c)).
         list_all2 (handle (acl_world [LUserdata 3, LUserdata 3])) ms (ptrs (snd c)))"
  using acl_calls_are_typed [of "''__eq''" l_acl_cmp env0 1 "acl_world [LUserdata 3, LUserdata 3]"]
  by (simp add: l_acl_meta_def acl_world_def)

section \<open>Parts of a list keep it\<close>

text \<open>An entry is part of a list, a set of flags or of permissions is part of an entry.\<close>

definition acl_whole :: "string \<Rightarrow> string option" where
  "acl_whole m =
     (if m = ACL_ENTRY_METATABLE then Some ACL_METATABLE
      else if m = ACL_FLAGSET_METATABLE \<or> m = ACL_PERMSET_METATABLE then Some ACL_ENTRY_METATABLE
      else None)"

lemma acl_wholes [simp]:
  "acl_whole ACL_METATABLE = None" "acl_whole ACL_ENTRY_METATABLE = Some ACL_METATABLE"
  "acl_whole ACL_FLAGSET_METATABLE = Some ACL_ENTRY_METATABLE" "acl_whole ACL_PERMSET_METATABLE = Some ACL_ENTRY_METATABLE"
  by (simp_all add: acl_whole_def ACL_METATABLE_def ACL_ENTRY_METATABLE_def ACL_FLAGSET_METATABLE_def ACL_PERMSET_METATABLE_def)

lemma part_new_acl: "keeps (part_of acl_whole) (new_acl E L g as)"
  by (simp add: new_acl_def part_rules keeps_new)

lemma acl_parts_1:
  "keeps (part_of acl_whole) (l_acl_get_entry E L)"
  "keeps (part_of acl_whole) (l_acl_get_flagset E L)"
  "keeps (part_of acl_whole) (l_acl_get_permset E L)"
  unfolding l_acl_get_entry_def l_acl_get_flagset_def l_acl_get_permset_def
  by (rule keeps_checked; simp add: first_rules first_newref)+

lemma acl_parts_2:
  "keeps (part_of acl_whole) (l_acl_calc_mask E L)"
  "keeps (part_of acl_whole) (l_acl_create_entry E L)"
proof -
  have *: "keeps (part_of_first acl_whole L ACL_METATABLE)
      (seq (lua_pushlightuserdata L q) (seq (lua_setiuservalue L 1 COOKIE) k))"
    if "keeps (part_of_first acl_whole L ACL_METATABLE) k" for q and k :: "nat lua"
    using keeps_seq [OF first_setcookie that] by (simp add: seq_def lbind_assoc)
  show "keeps (part_of acl_whole) (l_acl_calc_mask E L)" "keeps (part_of acl_whole) (l_acl_create_entry E L)"
    unfolding l_acl_calc_mask_def l_acl_create_entry_def
    by (rule keeps_checked; intro keeps_lbind keeps_if; simp add: first_prims first_newref *)+
qed

lemma acl_parts_3:
  "keeps (part_of acl_whole) (l_acl_delete E L)"
  "keeps (part_of acl_whole) (l_acl_delete_fd E L)"
  "keeps (part_of acl_whole) (l_acl_delete_file E L)"
  "keeps (part_of acl_whole) (l_acl_delete_link E L)"
  "keeps (part_of acl_whole) (l_acl_extended_file E L)"
  "keeps (part_of acl_whole) (l_acl_extended_link E L)"
  "keeps (part_of acl_whole) (l_acl_from_mode E L)"
  "keeps (part_of acl_whole) (l_acl_from_text E L)"
  "keeps (part_of acl_whole) (l_acl_get E L)"
  "keeps (part_of acl_whole) (l_acl_get_fd E L)"
  by (simp_all add: l_acl_delete_def l_acl_delete_fd_def l_acl_delete_file_def l_acl_delete_link_def
      l_acl_extended_file_def l_acl_extended_link_def l_acl_from_mode_def l_acl_from_text_def
      l_acl_get_def l_acl_get_fd_def
      part_rules part_new_acl del: ret_run)

lemma acl_parts_4:
  "keeps (part_of acl_whole) (l_acl_get_file E L)"
  "keeps (part_of acl_whole) (l_acl_get_link E L)"
  "keeps (part_of acl_whole) (l_acl_new E L)"
  "keeps (part_of acl_whole) (l_acl_cmp E L)"
  "keeps (part_of acl_whole) (l_acl_gc E L)"
  "keeps (part_of acl_whole) (l_acl_delete_entry E L)"
  "keeps (part_of acl_whole) (l_acl_dup E L)"
  "keeps (part_of acl_whole) (l_acl_equiv_mode E L)"
  "keeps (part_of acl_whole) (l_acl_get_brand E L)"
  "keeps (part_of acl_whole) (l_acl_is_trivial E L)"
  by (simp_all add: l_acl_get_file_def l_acl_get_link_def l_acl_new_def l_acl_cmp_def l_acl_gc_def
      l_acl_delete_entry_def l_acl_dup_def l_acl_equiv_mode_def l_acl_get_brand_def
      l_acl_is_trivial_def
      part_rules part_new_acl del: ret_run)

lemma acl_parts_5:
  "keeps (part_of acl_whole) (l_acl_set E L)"
  "keeps (part_of acl_whole) (l_acl_set_fd E L)"
  "keeps (part_of acl_whole) (l_acl_set_file E L)"
  "keeps (part_of acl_whole) (l_acl_set_link E L)"
  "keeps (part_of acl_whole) (l_acl_strip E L)"
  "keeps (part_of acl_whole) (l_acl_to_text E L)"
  "keeps (part_of acl_whole) (l_acl_valid E L)"
  "keeps (part_of acl_whole) (l_acl_valid_fd E L)"
  "keeps (part_of acl_whole) (l_acl_valid_file E L)"
  "keeps (part_of acl_whole) (l_acl_valid_link E L)"
  by (simp_all add: l_acl_set_def l_acl_set_fd_def l_acl_set_file_def l_acl_set_link_def
      l_acl_strip_def l_acl_to_text_def l_acl_valid_def l_acl_valid_fd_def l_acl_valid_file_def
      l_acl_valid_link_def
      part_rules part_new_acl del: ret_run)

lemma acl_parts_6:
  "keeps (part_of acl_whole) (l_acl_copy_entry E L)"
  "keeps (part_of acl_whole) (l_acl_get_qualifier E L)"
  "keeps (part_of acl_whole) (l_acl_get_entry_type E L)"
  "keeps (part_of acl_whole) (l_acl_set_entry_type E L)"
  "keeps (part_of acl_whole) (l_acl_get_tag_type E L)"
  "keeps (part_of acl_whole) (l_acl_set_tag_type E L)"
  "keeps (part_of acl_whole) (l_acl_set_flagset E L)"
  "keeps (part_of acl_whole) (l_acl_set_permset E L)"
  "keeps (part_of acl_whole) (l_acl_set_qualifier E L)"
  "keeps (part_of acl_whole) (l_acl_add_flag E L)"
  by (simp_all add: l_acl_copy_entry_def l_acl_get_qualifier_def l_acl_get_entry_type_def
      l_acl_set_entry_type_def l_acl_get_tag_type_def l_acl_set_tag_type_def l_acl_set_flagset_def
      l_acl_set_permset_def l_acl_set_qualifier_def l_acl_add_flag_def
      part_rules part_new_acl del: ret_run)

lemma acl_parts_7:
  "keeps (part_of acl_whole) (l_acl_clear_flags E L)"
  "keeps (part_of acl_whole) (l_acl_delete_flag E L)"
  "keeps (part_of acl_whole) (l_acl_get_flag E L)"
  "keeps (part_of acl_whole) (l_acl_add_perm E L)"
  "keeps (part_of acl_whole) (l_acl_clear_perms E L)"
  "keeps (part_of acl_whole) (l_acl_delete_perm E L)"
  "keeps (part_of acl_whole) (l_acl_get_perm E L)"
  by (simp_all add: l_acl_clear_flags_def l_acl_delete_flag_def l_acl_get_flag_def
      l_acl_add_perm_def l_acl_clear_perms_def l_acl_delete_perm_def l_acl_get_perm_def
      part_rules part_new_acl del: ret_run)

lemmas acl_parts =
  acl_parts_1 acl_parts_2 acl_parts_3 acl_parts_4 acl_parts_5 acl_parts_6 acl_parts_7

text \<open>
  C36. Lifetimes: a wrapper of an entry refers to a live wrapper of its list, and a wrapper of a set of flags or of
  permissions to one of its entry, so that the collector cannot free a list while a part of it is in use. Every
  function of \<^verbatim>\<open>sys.acl\<close> keeps this, on its error paths too.
\<close>

theorem acl_parts_keep_their_list:
  assumes "(name, f) \<in> set (l_acl_funcs @ l_acl_meta @ l_acl_entry_meta @ l_acl_flagset_meta @ l_acl_permset_meta)"
    and "part_of acl_whole w"
  shows "part_of acl_whole (snd (f E L w))"
proof -
  have "keeps (part_of acl_whole) (f E L)"
    using assms(1)
    by (auto simp: l_acl_funcs_def l_acl_meta_def l_acl_entry_meta_def l_acl_flagset_meta_def l_acl_permset_meta_def acl_parts)
  from keepsD [OF this assms(2)] show ?thesis .
qed

theorem acl_parts_keep_their_list_witness:
  "part_of acl_whole (snd (l_acl_get_flagset env0 1 (acl_world [LUserdata 4])))"
proof -
  have "part_of acl_whole (acl_world [LUserdata 4])"
    by (auto simp: part_of_def acl_world_def get_uv_def REF_def wrapper_def acl_whole_def
        ACL_METATABLE_def ACL_ENTRY_METATABLE_def ACL_FLAGSET_METATABLE_def ACL_PERMSET_METATABLE_def split: if_splits)
  then show ?thesis
    using acl_parts_keep_their_list [of "''get_flagset''" l_acl_get_flagset "acl_world [LUserdata 4]" env0 1]
    by (simp add: l_acl_entry_meta_def)
qed

text \<open>
  Deleting an entry by its object is never possible: the list itself, argument 1, is checked for being an entry.
\<close>

lemma delete_entry_refuses_entries:
  assumes "stacks w L = Some [LUserdata u, LUserdata v]" and "uds w u = Some (wrapper ACL_METATABLE p)" and "p \<noteq> 0"
  shows "\<exists>s. l_acl_delete_entry E L w = (Inl (TypeError 1 ACL_ENTRY_METATABLE), setst L s w)"
proof -
  have "cookie_at w [LUserdata u, LUserdata v] 1 ACL_ENTRY_METATABLE = Inl (TypeError 1 ACL_ENTRY_METATABLE)"
    using assms(2) by (simp add: cookie_at_def ud_at_def at_def pos_def wrapper_def ACL_METATABLE_def ACL_ENTRY_METATABLE_def)
  from checkcookie_error [OF assms(1) this] obtain s
    where "checkcookie L 1 ACL_ENTRY_METATABLE w = (Inl (TypeError 1 ACL_ENTRY_METATABLE), setst L s w)" by auto
  moreover have "checkcookie L 1 ACL_METATABLE w = (Inr p, w)"
    by (rule checkcookie_run [OF assms(1)]) (use assms(2,3) in \<open>simp add: cookie_at_def ud_at_def at_def pos_def get_uv_def wrapper_def COOKIE_def\<close>)
  ultimately show ?thesis
    using assms(1) by (auto simp: l_acl_delete_entry_def lua_run lbind_def at_def pos_def)
qed

end
