(* ===== verification/Mac.thy ===== *)
theory Mac
  imports Typed
begin

text \<open>
  \<^verbatim>\<open>sys/mac/lua_mac.c\<close>: labels of mandatory access control. A wrapper owns its label; the library is reached by
  calls. \<^verbatim>\<open>execve\<close> copies the environment out of a table, in the order that \<^verbatim>\<open>lua_next\<close> visits it, the parameter \<open>P\<close>.
\<close>

definition MAC_METATABLE :: string where
  "MAC_METATABLE = ''mac_t''"

section \<open>Policies and new labels\<close>

definition ptr_or_null :: "string option \<Rightarrow> carg" where
  "ptr_or_null s = (case s of None \<Rightarrow> ANull | Some str \<Rightarrow> AStr str)"

definition l_mac_is_present :: "env \<Rightarrow> lstate \<Rightarrow> nat lua" where
  "l_mac_is_present E L =
     lbind (luaL_optstring E L 1) (\<lambda>policyname.
     lbind (ccall E ''mac_is_present'' [ptr_or_null policyname]) (\<lambda>r.
     if rc r = -1 then fail E L (errno r)
     else
       seq (lua_pushboolean L (rc r \<noteq> 0))
       (ret 1)))"

text \<open>
  The policy works on a copy of the argument, in place. Without an argument nothing is allocated, and the length is
  zero.
\<close>

definition copy_arg :: "env \<Rightarrow> lstate \<Rightarrow> string option \<Rightarrow> int lua" where
  "copy_arg E L p = (case p of
       None \<Rightarrow> ret 0
     | Some str \<Rightarrow>
         lbind (ccall E ''malloc'' [AInt (int (length str))]) (\<lambda>m.
         if rc m = 0 then fatal E L ''malloc'' (const E ''ENOMEM'')
         else
           seq (ccall E ''memcpy'' [AInt (rc m), AStr str])
           (ret (rc m))))"

definition push_arg :: "env \<Rightarrow> lstate \<Rightarrow> int \<Rightarrow> string option \<Rightarrow> unit lua" where
  "push_arg E L arg p = (case p of
       None \<Rightarrow> lua_pushstring L []
     | Some str \<Rightarrow>
         lbind (ccall E ''load'' [AInt arg, AInt (int (length str))]) (\<lambda>d.
         lua_pushstring L (outs d)))"

definition l_mac_syscall :: "env \<Rightarrow> lstate \<Rightarrow> nat lua" where
  "l_mac_syscall E L =
     lbind (luaL_checkstring E L 1) (\<lambda>policyname.
     lbind (luaL_checkinteger E L 2) (\<lambda>call.
     lbind (lua_type L 3) (\<lambda>t.
     lbind (if t \<le> LUA_TNIL then ret None
            else lbind (luaL_checklstring E L 3) (\<lambda>p. ret (Some p))) (\<lambda>p.
     lbind (copy_arg E L p) (\<lambda>arg.
     lbind (ccall E ''mac_syscall'' [AStr policyname, AInt (to_int call), AInt arg]) (\<lambda>r.
     if rc r = -1 then
       seq (ccall E ''free'' [AInt arg])
       (fail E L (errno r))
     else
       seq (push_arg E L arg p)
      (seq (ccall E ''free'' [AInt arg])
       (ret 1))))))))"

text \<open>The end of a function that makes a label: its address is out-value 1.\<close>

definition new_label :: "env \<Rightarrow> lstate \<Rightarrow> string \<Rightarrow> carg list \<Rightarrow> nat lua" where
  "new_label E L g as =
     lbind (ccall E g as) (\<lambda>r.
     if rc r = -1 then fail E L (errno r)
     else new L (nat (outi r 1)) MAC_METATABLE)"

definition l_mac_from_text :: "env \<Rightarrow> lstate \<Rightarrow> nat lua" where
  "l_mac_from_text E L =
     lbind (luaL_checkstring E L 1) (\<lambda>txt.
     new_label E L ''mac_from_text'' [AStr txt])"

definition l_mac_prepare :: "env \<Rightarrow> lstate \<Rightarrow> nat lua" where
  "l_mac_prepare E L =
     lbind (luaL_checkstring E L 1) (\<lambda>elements.
     new_label E L ''mac_prepare'' [AStr elements])"

definition l_mac_prepare_file_label :: "env \<Rightarrow> lstate \<Rightarrow> nat lua" where
  "l_mac_prepare_file_label E L = new_label E L ''mac_prepare_file_label'' []"

definition l_mac_prepare_ifnet_label :: "env \<Rightarrow> lstate \<Rightarrow> nat lua" where
  "l_mac_prepare_ifnet_label E L = new_label E L ''mac_prepare_ifnet_label'' []"

definition l_mac_prepare_process_label :: "env \<Rightarrow> lstate \<Rightarrow> nat lua" where
  "l_mac_prepare_process_label E L = new_label E L ''mac_prepare_process_label'' []"

definition l_mac_prepare_type :: "env \<Rightarrow> lstate \<Rightarrow> nat lua" where
  "l_mac_prepare_type E L =
     lbind (luaL_checkstring E L 1) (\<lambda>type.
     new_label E L ''mac_prepare_type'' [AStr type])"

section \<open>Running a program with a label\<close>

text \<open>
  \<^verbatim>\<open>lua_next\<close> replaces the key on top of the stack by the pair after it. A key that is not in the table is an
  error.
\<close>

type_synonym lpairs = "ltable \<Rightarrow> (lval \<times> lval) list"

definition pairs_after :: "lval \<Rightarrow> (lval \<times> lval) list \<Rightarrow> (lval \<times> lval) list option" where
  "pairs_after k ps =
     (if k = LNil then Some ps
      else (case dropWhile (\<lambda>(k', _). k' \<noteq> k) ps of [] \<Rightarrow> None | _ # qs \<Rightarrow> Some qs))"

definition lua_next :: "lpairs \<Rightarrow> lstate \<Rightarrow> int \<Rightarrow> bool lua" where
  "lua_next P L i = with_tab L i (\<lambda>s t tb. case pairs_after (last s) (P tb) of
       None \<Rightarrow> throw (LError ''invalid key to next'')
     | Some [] \<Rightarrow> seq (lua_pop L 1) (ret False)
     | Some ((k, v) # _) \<Rightarrow>
         seq (lua_pop L 1)
        (seq (lua_push L k)
        (seq (lua_push L v)
         (ret True))))"

definition free_env :: "env \<Rightarrow> (int \<times> int list \<times> string list) option \<Rightarrow> unit lua" where
  "free_env E env = (case env of
       None \<Rightarrow> ret ()
     | Some (envv, cpys, _) \<Rightarrow>
         seq (foldr (\<lambda>p. seq (ccall E ''free'' [AInt p])) cpys (ret ()))
        (seq (ccall E ''free'' [AInt envv])
         (ret ())))"

fun get_argv :: "env \<Rightarrow> lstate \<Rightarrow> int list \<Rightarrow> string option list lua" where
  "get_argv E L [] = ret []"
| "get_argv E L (i # is) =
     seq (lua_geti L 3 i)
    (lbind (lua_tostring E L (-1)) (\<lambda>arg.
     lbind (get_argv E L is) (\<lambda>args.
     ret (arg # args))))"

text \<open>The first round counts the pairs. One round more than the table has pairs is enough.\<close>

fun count_env :: "lpairs \<Rightarrow> lstate \<Rightarrow> nat \<Rightarrow> nat \<Rightarrow> nat lua" where
  "count_env P L 0 envc = throw NoFuel"
| "count_env P L (Suc k) envc =
     lbind (lua_next P L 4) (\<lambda>more.
     if more then
       seq (lua_pop L 1)
       (count_env P L k (Suc envc))
     else ret envc)"

text \<open>
  The second round makes the strings: \<open>cpys\<close> are the addresses in the array so far, which is filled up with null
  pointers to the length \<open>envc\<close>, \<open>env\<close> the strings there. A key that is a number is converted in the stack, and
  so is no key of the table any more when \<^verbatim>\<open>lua_next\<close> gets it.
\<close>

definition env_array :: "nat \<Rightarrow> int list \<Rightarrow> int list" where
  "env_array envc cpys = cpys @ replicate (envc - length cpys) 0"

fun make_env :: "lpairs \<Rightarrow> env \<Rightarrow> lstate \<Rightarrow> int \<Rightarrow> int \<Rightarrow> nat \<Rightarrow> nat \<Rightarrow> int list \<Rightarrow> string list
    \<Rightarrow> (int list \<times> string list) lua" where
  "make_env P E L argv envv envc 0 cpys env = ret (cpys, env)"
| "make_env P E L argv envv envc (Suc k) cpys env =
     seq (lua_next P L 4)
    (lbind (lua_tolstring E L (-2)) (\<lambda>name.
     lbind (if name = None then ret None else lua_tolstring E L (-1)) (\<lambda>value.
     if name = None \<or> value = None then
       seq (free_env E (Some (envv, env_array envc cpys, env)))
      (seq (ccall E ''free'' [AInt argv])
       (luaL_argerror L 4 ''string conversion failed''))
     else
       let entry = cstr (the name) @ ''='' @ cstr (the value) in
       lbind (ccall E ''asprintf'' [AStr entry]) (\<lambda>r.
       if rc r = -1 then
         seq (free_env E (Some (envv, env_array envc cpys, env)))
        (seq (ccall E ''free'' [AInt argv])
         (fatal E L ''asprintf'' (errno r)))
       else
         seq (lua_pop L 1)
         (make_env P E L argv envv envc k (cpys @ [outi r 1]) (env @ [entry]))))))"

text \<open>The environment of the call: \<open>environ\<close>, or an array with copies.\<close>

definition get_env :: "lpairs \<Rightarrow> env \<Rightarrow> lstate \<Rightarrow> int \<Rightarrow> (int \<times> int list \<times> string list) option lua" where
  "get_env P E L argv =
     seq (lua_pushnil L)
    (lbind (with_tab L 4 (\<lambda>s t tb. count_env P L (Suc (length (P tb))) 0)) (\<lambda>envc.
     lbind (ccall E ''calloc'' [AInt (int envc + 1)]) (\<lambda>m.
     if rc m = 0 then
       seq (ccall E ''free'' [AInt argv])
       (fatal E L ''malloc'' (const E ''ENOMEM''))
     else
       seq (lua_pushnil L)
      (lbind (make_env P E L argv (rc m) envc envc [] []) (\<lambda>(cpys, env).
       ret (Some (rc m, cpys, env)))))))"

definition env_args :: "(int \<times> int list \<times> string list) option \<Rightarrow> carg list" where
  "env_args env = (case env of
       None \<Rightarrow> [AStr ''environ'']
     | Some (_, _, entries) \<Rightarrow> map AStr entries @ [ANull])"

definition l_mac_execve :: "lpairs \<Rightarrow> env \<Rightarrow> lstate \<Rightarrow> nat lua" where
  "l_mac_execve P E L =
     lbind (checkcookie L 1 MAC_METATABLE) (\<lambda>label.
     lbind (luaL_checkstring E L 2) (\<lambda>fname.
     seq (luaL_checktype L 3 LUA_TTABLE)
    (lbind (lua_type L 4) (\<lambda>t.
     lbind (luaL_len E L 3) (\<lambda>argc.
     lbind (ccall E ''malloc'' [AInt (int argc + 1)]) (\<lambda>m.
     if rc m = 0 then fatal E L ''malloc'' (const E ''ENOMEM'')
     else
       lbind (get_argv E L [1..int argc]) (\<lambda>args.
       lbind (if t = LUA_TTABLE then get_env P E L (rc m) else ret None) (\<lambda>env.
       lbind (ccall E ''mac_execve'' (AStr fname # map ptr_or_null args @ [ANull] @ env_args env @ [APtr label])) (\<lambda>r.
       seq (free_env E env)
      (seq (ccall E ''free'' [AInt (rc m)])
       (fail E L (errno r))))))))))))"

section \<open>Reading and setting labels\<close>

definition l_mac_gc :: "env \<Rightarrow> lstate \<Rightarrow> nat lua" where
  "l_mac_gc E L =
     lbind (checkcookie L 1 MAC_METATABLE) (\<lambda>label.
     lbind (ccall E ''mac_free'' [APtr label]) (\<lambda>r.
     if rc r = -1 then fatal E L ''mac_free'' (errno r)
     else ret 0))"

definition l_mac_get :: "env \<Rightarrow> lstate \<Rightarrow> nat lua" where
  "l_mac_get E L =
     lbind (checkcookie L 1 MAC_METATABLE) (\<lambda>label.
     lbind (luaL_checkudata L 2 LUA_FILEHANDLE) (\<lambda>s.
     lbind (file_fd E L s) (\<lambda>fd.
     report E L ''mac_get_fd'' [AInt fd, APtr label])))"

definition l_mac_get_fd :: "env \<Rightarrow> lstate \<Rightarrow> nat lua" where
  "l_mac_get_fd E L =
     lbind (checkcookie L 1 MAC_METATABLE) (\<lambda>label.
     lbind (luaL_checkinteger E L 2) (\<lambda>fd.
     report E L ''mac_get_fd'' [AInt (to_int fd), APtr label]))"

definition l_mac_get_file :: "env \<Rightarrow> lstate \<Rightarrow> nat lua" where
  "l_mac_get_file E L =
     lbind (checkcookie L 1 MAC_METATABLE) (\<lambda>label.
     lbind (luaL_checkstring E L 2) (\<lambda>path.
     report E L ''mac_get_file'' [AStr path, APtr label]))"

definition l_mac_get_link :: "env \<Rightarrow> lstate \<Rightarrow> nat lua" where
  "l_mac_get_link E L =
     lbind (checkcookie L 1 MAC_METATABLE) (\<lambda>label.
     lbind (luaL_checkstring E L 2) (\<lambda>path.
     report E L ''mac_get_link'' [AStr path, APtr label]))"

definition l_mac_get_peer :: "env \<Rightarrow> lstate \<Rightarrow> nat lua" where
  "l_mac_get_peer E L =
     lbind (checkcookie L 1 MAC_METATABLE) (\<lambda>label.
     lbind (luaL_checkinteger E L 2) (\<lambda>fd.
     report E L ''mac_get_peer'' [AInt (to_int fd), APtr label]))"

definition l_mac_get_pid :: "env \<Rightarrow> lstate \<Rightarrow> nat lua" where
  "l_mac_get_pid E L =
     lbind (checkcookie L 1 MAC_METATABLE) (\<lambda>label.
     lbind (luaL_checkinteger E L 2) (\<lambda>pid.
     report E L ''mac_get_pid'' [AInt (to_int pid), APtr label]))"

definition l_mac_get_proc :: "env \<Rightarrow> lstate \<Rightarrow> nat lua" where
  "l_mac_get_proc E L =
     lbind (checkcookie L 1 MAC_METATABLE) (\<lambda>label.
     report E L ''mac_get_proc'' [APtr label])"

definition l_mac_set :: "env \<Rightarrow> lstate \<Rightarrow> nat lua" where
  "l_mac_set E L =
     lbind (checkcookie L 1 MAC_METATABLE) (\<lambda>label.
     lbind (luaL_checkudata L 2 LUA_FILEHANDLE) (\<lambda>s.
     lbind (file_fd E L s) (\<lambda>fd.
     report E L ''mac_set_fd'' [AInt fd, APtr label])))"

definition l_mac_set_fd :: "env \<Rightarrow> lstate \<Rightarrow> nat lua" where
  "l_mac_set_fd E L =
     lbind (checkcookie L 1 MAC_METATABLE) (\<lambda>label.
     lbind (luaL_checkinteger E L 2) (\<lambda>fd.
     report E L ''mac_set_fd'' [AInt (to_int fd), APtr label]))"

definition l_mac_set_file :: "env \<Rightarrow> lstate \<Rightarrow> nat lua" where
  "l_mac_set_file E L =
     lbind (checkcookie L 1 MAC_METATABLE) (\<lambda>label.
     lbind (luaL_checkstring E L 2) (\<lambda>path.
     report E L ''mac_set_file'' [AStr path, APtr label]))"

definition l_mac_set_link :: "env \<Rightarrow> lstate \<Rightarrow> nat lua" where
  "l_mac_set_link E L =
     lbind (checkcookie L 1 MAC_METATABLE) (\<lambda>label.
     lbind (luaL_checkstring E L 2) (\<lambda>path.
     report E L ''mac_set_link'' [AStr path, APtr label]))"

definition l_mac_set_proc :: "env \<Rightarrow> lstate \<Rightarrow> nat lua" where
  "l_mac_set_proc E L =
     lbind (checkcookie L 1 MAC_METATABLE) (\<lambda>label.
     report E L ''mac_set_proc'' [APtr label])"

definition l_mac_to_text :: "env \<Rightarrow> lstate \<Rightarrow> nat lua" where
  "l_mac_to_text E L =
     lbind (checkcookie L 1 MAC_METATABLE) (\<lambda>label.
     lbind (ccall E ''mac_to_text'' [APtr label]) (\<lambda>r.
     if rc r = -1 then fail E L (errno r)
     else
       seq (lua_pushstring L (outs r))
      (seq (ccall E ''free'' [AInt (outi r 1)])
       (ret 1))))"

section \<open>The module\<close>

definition l_mac_funcs :: "(string \<times> cfunction) list" where
  "l_mac_funcs =
     [(''is_present'', l_mac_is_present),
      (''syscall'', l_mac_syscall),
      (''from_text'', l_mac_from_text),
      (''prepare'', l_mac_prepare),
      (''prepare_file_label'', l_mac_prepare_file_label),
      (''prepare_ifnet_label'', l_mac_prepare_ifnet_label),
      (''prepare_process_label'', l_mac_prepare_process_label),
      (''prepare_type'', l_mac_prepare_type)]"

definition l_mac_meta :: "lpairs \<Rightarrow> (string \<times> cfunction) list" where
  "l_mac_meta P =
     [(''__gc'', l_mac_gc),
      (''execve'', l_mac_execve P),
      (''get'', l_mac_get),
      (''get_fd'', l_mac_get_fd),
      (''get_file'', l_mac_get_file),
      (''get_link'', l_mac_get_link),
      (''get_peer'', l_mac_get_peer),
      (''get_pid'', l_mac_get_pid),
      (''get_proc'', l_mac_get_proc),
      (''set'', l_mac_set),
      (''set_fd'', l_mac_set_fd),
      (''set_file'', l_mac_set_file),
      (''set_link'', l_mac_set_link),
      (''set_proc'', l_mac_set_proc),
      (''to_text'', l_mac_to_text)]"

definition luaopen_sys_mac :: "lpairs \<Rightarrow> env \<Rightarrow> (string \<times> (string \<times> cfunction) list) \<times> (string \<times> field) list" where
  "luaopen_sys_mac P E =
     ((MAC_METATABLE, l_mac_meta P),
      luaL_newlib l_mac_funcs @ DEFINE E ''MAC_''
        [''MAX_POLICY_NAME'', ''MAX_LABEL_ELEMENT_NAME'', ''MAX_LABEL_ELEMENT_DATA'', ''MAX_LABEL_BUF_LEN''])"

section \<open>The library gets labels\<close>

text \<open>Only these functions take pointers that a wrapper holds: a label each.\<close>

definition mac_pointers :: "string \<Rightarrow> string list list" where
  "mac_pointers g =
     (if g \<in> set [''mac_free'', ''mac_execve'', ''mac_get_fd'', ''mac_get_file'', ''mac_get_link'', ''mac_get_peer'',
        ''mac_get_pid'', ''mac_get_proc'', ''mac_set_fd'', ''mac_set_file'', ''mac_set_link'', ''mac_set_proc'',
        ''mac_to_text'']
      then [[MAC_METATABLE]] else [[]])"

lemma leaves_next [leaves_rules]: "leaves trace (lua_next P L i)" "leaves uds (lua_next P L i)"
  unfolding lua_next_def
  by (rule leaves_with_tab; simp add: leaves_rules split: option.split list.split)+

lemma leaves_get_argv [leaves_rules]: "leaves trace (get_argv E L is)" "leaves uds (get_argv E L is)"
  by (induction "is") (simp_all add: leaves_rules)

lemma leaves_count_env [leaves_rules]: "leaves trace (count_env P L k n)" "leaves uds (count_env P L k n)"
  by (induction k arbitrary: n) (simp_all add: leaves_rules)

lemma leaves_free_env [leaves_rules]: "leaves uds (free_env E env)"
proof -
  have "leaves uds (foldr (\<lambda>p. seq (ccall E ''free'' [AInt p])) ps (ret ()))" for ps
    by (induction ps) (simp_all add: leaves_rules del: ret_run)
  then show ?thesis by (simp add: free_env_def leaves_rules split: option.split)
qed

lemma leaves_make_env [leaves_rules]: "leaves uds (make_env P E L argv envv envc k cpys env)"
  by (induction k arbitrary: cpys env) (simp_all add: leaves_rules Let_def)

lemma typed_free_env: "typed mac_pointers W (free_env E env)"
proof -
  have "typed mac_pointers W (foldr (\<lambda>p. seq (ccall E ''free'' [AInt p])) ps (ret ()))" for ps
    by (induction ps) (simp_all add: typed_simps typed_call_def mac_pointers_def del: ret_run)
  moreover have "leaves uds (foldr (\<lambda>p. seq (ccall E ''free'' [AInt p])) ps (ret ()))" for ps
    by (induction ps) (simp_all add: leaves_rules del: ret_run)
  ultimately show ?thesis
    by (auto simp: free_env_def seq_def [of "foldr _ _ _"] typed_simps typed_lbind_typed typed_call_def mac_pointers_def
        simp del: ret_run split: option.split)
qed

lemma typed_new_label: "typed_call K W (g, as) \<Longrightarrow> typed K W (new_label E L g as)"
  unfolding new_label_def by (intro typed_rules) (simp_all add: typed_quiet leaves_rules)

lemma mac_typed_1:
  "typed mac_pointers W (l_mac_get E L)"
  "typed mac_pointers W (l_mac_get_fd E L)"
  "typed mac_pointers W (l_mac_get_file E L)"
  "typed mac_pointers W (l_mac_get_link E L)"
  "typed mac_pointers W (l_mac_get_peer E L)"
  "typed mac_pointers W (l_mac_get_pid E L)"
  "typed mac_pointers W (l_mac_get_proc E L)"
  "typed mac_pointers W (l_mac_set E L)"
  "typed mac_pointers W (l_mac_set_fd E L)"
  "typed mac_pointers W (l_mac_set_file E L)"
  "typed mac_pointers W (l_mac_set_link E L)"
  "typed mac_pointers W (l_mac_set_proc E L)"
  "typed mac_pointers W (l_mac_to_text E L)"
  "typed mac_pointers W (l_mac_gc E L)"
  by (simp_all add: l_mac_get_def l_mac_get_fd_def l_mac_get_file_def l_mac_get_link_def
      l_mac_get_peer_def l_mac_get_pid_def l_mac_get_proc_def l_mac_set_def l_mac_set_fd_def
      l_mac_set_file_def l_mac_set_link_def l_mac_set_proc_def l_mac_to_text_def l_mac_gc_def
      typed_simps typed_new_label typed_call_def mac_pointers_def ptr_or_null_def del: ret_run split: option.split)

lemma mac_typed_2:
  "typed mac_pointers W (l_mac_is_present E L)"
  "typed mac_pointers W (l_mac_from_text E L)"
  "typed mac_pointers W (l_mac_prepare E L)"
  "typed mac_pointers W (l_mac_prepare_file_label E L)"
  "typed mac_pointers W (l_mac_prepare_ifnet_label E L)"
  "typed mac_pointers W (l_mac_prepare_process_label E L)"
  "typed mac_pointers W (l_mac_prepare_type E L)"
  by (simp_all add: l_mac_is_present_def l_mac_from_text_def l_mac_prepare_def
      l_mac_prepare_file_label_def l_mac_prepare_ifnet_label_def l_mac_prepare_process_label_def
      l_mac_prepare_type_def
      typed_simps typed_new_label typed_call_def mac_pointers_def ptr_or_null_def del: ret_run split: option.split)

lemma typed_lbind_free_env: "(\<And>a. typed mac_pointers W (f a)) \<Longrightarrow> typed mac_pointers W (lbind (free_env E env) f)"
  by (rule typed_lbind_typed [OF typed_free_env leaves_free_env])

lemma typed_make_env: "typed mac_pointers W (make_env P E L argv envv envc k cpys env)"
proof (induction k arbitrary: cpys env)
  case (Suc k)
  have fail: "typed mac_pointers W (seq (free_env E (Some (envv, env_array envc cpys, env)))
      (seq (ccall E ''free'' [AInt argv]) m))" if "quiet m" for m :: "(int list \<times> string list) lua"
    using that by (simp add: typed_simps typed_lbind_free_env typed_call_def mac_pointers_def del: ret_run)
  have last: "typed mac_pointers W (seq (lua_pop L 1) (make_env P E L argv envv envc k (cpys @ [a]) (env @ [e])))" for a e
    using Suc by (simp add: typed_simps)
  show ?case
    unfolding make_env.simps Let_def
    by (intro typed_seq typed_lbind_quiet typed_if typed_lbind_call fail last)
      (simp_all add: leaves_rules typed_call_def mac_pointers_def del: ret_run)
qed (simp add: typed_simps del: ret_run)

lemma typed_lbind_arg:
  "(\<And>a. typed mac_pointers W (f a)) \<Longrightarrow> typed mac_pointers W (lbind (copy_arg E L p) f)"
  "(\<And>u. typed mac_pointers W (g u)) \<Longrightarrow> typed mac_pointers W (lbind (push_arg E L a p) g)"
  by (rule typed_lbind_typed;
      simp add: copy_arg_def push_arg_def typed_simps typed_call_def mac_pointers_def del: ret_run split: option.split)+

lemma leaves_get_env: "leaves uds (get_env P E L argv)"
  unfolding get_env_def by (intro leaves_rules leaves_count_env trace_frame.leaves_stack uds_frame.leaves_stack)

lemma typed_get_env: "typed mac_pointers W (get_env P E L argv)"
proof -
  have count: "leaves trace (with_tab L 4 (\<lambda>s t tb. count_env P L (Suc (length (P tb))) 0))"
    "leaves uds (with_tab L 4 (\<lambda>s t tb. count_env P L (Suc (length (P tb))) 0))"
    by (intro leaves_with_tab leaves_count_env)+
  show ?thesis
    by (simp add: get_env_def typed_simps typed_lbind_typed [OF typed_make_env leaves_make_env] typed_lbind_quiet [OF count]
        typed_call_def mac_pointers_def del: ret_run count_env.simps)
qed

lemma typed_lbind_env:
  assumes "\<And>x. typed mac_pointers W (f x)"
  shows "typed mac_pointers W (lbind (if b then get_env P E L argv else ret y) f)"
  by (rule typed_lbind_typed) (simp_all add: assms typed_get_env leaves_get_env leaves_rules typed_quiet del: ret_run)

lemma ptrs_execve [simp]: "ptrs (as @ bs) = ptrs as @ ptrs bs" "ptrs (map ptr_or_null args) = []" "ptrs (env_args env) = []"
proof -
  show "ptrs (as @ bs) = ptrs as @ ptrs bs" for as bs by (induction as rule: ptrs.induct) simp_all
  note append = this
  show "ptrs (map ptr_or_null args) = []"
    by (induction args) (simp_all add: ptr_or_null_def split: option.split)
  have "ptrs (map AStr s) = []" for s by (induction s) simp_all
  then show "ptrs (env_args env) = []" by (auto simp: env_args_def append split: option.split)
qed

lemma mac_typed_3: "typed mac_pointers W (l_mac_syscall E L)"
  by (simp add: l_mac_syscall_def typed_simps typed_lbind_arg typed_call_def mac_pointers_def del: ret_run)

lemma mac_typed_4: "typed mac_pointers W (l_mac_execve P E L)"
proof -
  have call: "typed mac_pointers W (lbind (ccall E ''mac_execve''
        (AStr fname # map ptr_or_null args @ [ANull] @ env_args env @ [APtr label])) (\<lambda>r.
       seq (free_env E env)
      (seq (ccall E ''free'' [AInt m])
       (fail E L (errno r)))))" if "handle W MAC_METATABLE label" for fname args env label m
    using that by (simp add: typed_simps typed_lbind_free_env typed_call_def mac_pointers_def del: ret_run)
  show ?thesis
    unfolding l_mac_execve_def
    by (intro typed_checkcookie typed_seq typed_lbind_quiet typed_lbind_env call typed_lbind_call typed_if)
      (simp_all add: leaves_rules typed_quiet typed_call_def mac_pointers_def)
qed

lemmas mac_typed = mac_typed_1 mac_typed_2 mac_typed_3 mac_typed_4

text \<open>
  Types are respected: every call that a function of \<^verbatim>\<open>sys.mac\<close> makes on a label, \<^verbatim>\<open>mac_execve\<close> after its
  conversion of argument and environment tables included, gets the pointer from a live wrapper of a label, never
  \<^verbatim>\<open>NULL\<close>, and no other call gets such a pointer.
\<close>

theorem mac_calls_are_typed:
  assumes "(name, f) \<in> set (l_mac_funcs @ l_mac_meta P)"
  shows "\<exists>cs. trace (snd (f E L w)) = cs @ trace w
    \<and> (\<forall>c \<in> set cs. \<exists>ms \<in> set (mac_pointers (fst c)). list_all2 (handle w) ms (ptrs (snd c)))"
proof -
  have "typed mac_pointers w (f E L)"
    using assms by (auto simp: l_mac_funcs_def l_mac_meta_def mac_typed)
  from typedD [OF this] show ?thesis by (simp add: typed_call_def)
qed

definition mac_world :: "lval list \<Rightarrow> world" where
  "mac_world s = (world0 [1 \<mapsto> s])\<lparr>uds := [3 \<mapsto> wrapper MAC_METATABLE 7], tabs := [4 \<mapsto> empty_table, 5 \<mapsto> empty_table]\<rparr>"

theorem mac_calls_are_typed_witness:
  "\<exists>cs. trace (snd (l_mac_execve (\<lambda>_. []) env0 1 (mac_world [LUserdata 3, LString ''/bin/true'', LTable 4]))) = cs
    \<and> (\<forall>c \<in> set cs. \<exists>ms \<in> set (mac_pointers (fst c)).
         list_all2 (handle (mac_world [LUserdata 3, LString ''/bin/true'', LTable 4])) ms (ptrs (snd c)))"
  using mac_calls_are_typed [of "''execve''" "l_mac_execve (\<lambda>_. [])" "\<lambda>_. []" env0 1
      "mac_world [LUserdata 3, LString ''/bin/true'', LTable 4]"]
  by (simp add: l_mac_meta_def mac_world_def)

section \<open>Environments\<close>

text \<open>
  A key that is a number makes \<^verbatim>\<open>execve\<close> raise an error, when another pair follows, after it has allocated: the
  key is converted to a string in the stack, which \<^verbatim>\<open>lua_next\<close> does not find. Nothing is freed then.
\<close>

lemma execve_number_key:
  assumes "stacks w L = Some [LUserdata u, LString fname, LTable a, LTable t]" and "uds w u = Some (wrapper MAC_METATABLE p)"
    and "p \<noteq> 0" and "tabs w a = Some empty_table" and "tabs w t = Some tb" and "border E [] = 0"
    and "P tb = [(LInteger n, LString v), (LString k, LString x)]" and "k \<noteq> number2str E (LInteger n)"
    and "\<And>tr as. rc (reply E tr (''malloc'', as)) \<noteq> 0" and "\<And>tr as. rc (reply E tr (''calloc'', as)) \<noteq> 0"
    and "\<And>tr as. rc (reply E tr (''asprintf'', as)) \<noteq> -1"
  shows "\<exists>cs w'. l_mac_execve P E L w = (Inl (LError ''invalid key to next''), w')
    \<and> map fst (trace w') = [''asprintf'', ''calloc'', ''malloc''] @ map fst (trace w)"
proof -
  have "cookie_at w [LUserdata u, LString fname, LTable a, LTable t] 1 MAC_METATABLE = Inr p"
    using assms(2,3) by (simp add: cookie_at_def ud_at_def at_def pos_def get_uv_def wrapper_def COOKIE_def)
  note ck = checkcookie_run [OF assms(1) this]
  have tops: "at [x1, x2, x3, x4, x5, x6] (-1) = Some x6" "at [x1, x2, x3, x4, x5, x6] (-2) = Some x5"
    "pos [x1, x2, x3, x4, x5, x6] (-1) = Some 5" "pos [x1, x2, x3, x4, x5, x6] (-2) = Some 4" for x1 x2 x3 x4 x5 x6 :: lval
    by (simp_all add: at_def pos_def)
  show ?thesis
    using assms
    by (simp add: l_mac_execve_def ck lua_run luaL_checktype_def luaL_checkstring_def luaL_checklstring_def luaL_len_def
        get_env_def lua_next_def lua_tolstring_def pairs_after_def Let_def tops tab_at_def empty_table_def cong: if_cong)
qed

end
