(* ===== verification/Capsicum.thy ===== *)
theory Capsicum
  imports Handle Resources
begin

unbundle bit_operations_syntax

text \<open>
  \<^verbatim>\<open>sys/capsicum/lua_capsicum.c\<close> and \<^verbatim>\<open>capsicum_helpers/lua_capsicum_helpers.c\<close>: capability mode, and the rights that
  a process keeps on its descriptors. A \<^verbatim>\<open>cap_rights_t\<close> is in the block of its userdata. The functions on
  rights belong to libc: they are the parameter \<open>capops\<close>, and what cap_rights_init(3) documents of them is the
  locale \<open>right_sets\<close>. They abort when a number is no right.
\<close>

section \<open>Rights\<close>

definition CAP_RIGHTS_METATABLE :: string where
  "CAP_RIGHTS_METATABLE = ''cap_rights_t *''"

definition CAP_IOCTLS_LIMIT_MAX :: nat where
  "CAP_IOCTLS_LIMIT_MAX = 256"

record capops =
  cap_right :: "int \<Rightarrow> bool" \<comment> \<open>whether the functions accept a number as a right\<close>
  cap_rights_init :: int
  cap_rights_set :: "int \<Rightarrow> int \<Rightarrow> int"
  cap_rights_clear :: "int \<Rightarrow> int \<Rightarrow> int"
  cap_rights_is_set :: "int \<Rightarrow> int \<Rightarrow> bool"
  cap_rights_is_empty :: "int \<Rightarrow> bool"
  cap_rights_is_valid :: "int \<Rightarrow> bool"
  cap_rights_merge :: "int \<Rightarrow> int \<Rightarrow> int"
  cap_rights_remove :: "int \<Rightarrow> int \<Rightarrow> int"
  cap_rights_contains :: "int \<Rightarrow> int \<Rightarrow> bool"

definition l_cap_enter :: "env \<Rightarrow> lstate \<Rightarrow> nat lua" where
  "l_cap_enter E L = report E L ''cap_enter'' []"

definition l_cap_sandboxed :: "env \<Rightarrow> lstate \<Rightarrow> nat lua" where
  "l_cap_sandboxed E L =
     lbind (ccall E ''cap_sandboxed'' []) (\<lambda>r.
     seq (lua_pushboolean L (rc r \<noteq> 0))
     (ret 1))"

text \<open>The arguments with the given indices, rights, are put into (or taken out of) the rights of a userdata.\<close>

fun change_rights :: "capops \<Rightarrow> (int \<Rightarrow> int \<Rightarrow> int) \<Rightarrow> env \<Rightarrow> lstate \<Rightarrow> nat \<Rightarrow> int list \<Rightarrow> unit lua" where
  "change_rights R f E L u [] = ret ()"
| "change_rights R f E L u (i # is) =
     lbind (luaL_checkinteger E L i) (\<lambda>right.
     if \<not> cap_right R (to_size_t right) then throw AssertFailed
     else
       lbind (get_blk u) (\<lambda>rights.
       seq (set_blk u (f rights (to_size_t right)))
       (change_rights R f E L u is)))"

definition l_cap_rights_new :: "capops \<Rightarrow> env \<Rightarrow> lstate \<Rightarrow> nat lua" where
  "l_cap_rights_new R E L =
     lbind (lua_gettop L) (\<lambda>top.
     lbind (lua_newuserdatauv L 0) (\<lambda>rights.
     seq (set_blk rights (cap_rights_init R))
    (seq (change_rights R (cap_rights_set R) E L rights [1..int top])
    (seq (luaL_setmetatable L CAP_RIGHTS_METATABLE)
     (ret 1)))))"

definition l_cap_rights_get :: "env \<Rightarrow> lstate \<Rightarrow> nat lua" where
  "l_cap_rights_get E L =
     lbind (checkfd E L 1) (\<lambda>fd.
     lbind (lua_newuserdatauv L 0) (\<lambda>rights.
     lbind (ccall E ''cap_rights_get'' [AInt fd]) (\<lambda>r.
     if rc r = -1 then fail E L (errno r)
     else
       seq (set_blk rights (outi r 1))
      (seq (luaL_setmetatable L CAP_RIGHTS_METATABLE)
       (ret 1)))))"

definition l_cap_rights_init :: "capops \<Rightarrow> env \<Rightarrow> lstate \<Rightarrow> nat lua" where
  "l_cap_rights_init R E L =
     lbind (luaL_checkudata L 1 CAP_RIGHTS_METATABLE) (\<lambda>rights.
     lbind (lua_gettop L) (\<lambda>top.
     seq (set_blk rights (cap_rights_init R))
    (seq (change_rights R (cap_rights_set R) E L rights [2..int top])
     (ret 1))))"

definition l_cap_rights_set :: "capops \<Rightarrow> env \<Rightarrow> lstate \<Rightarrow> nat lua" where
  "l_cap_rights_set R E L =
     lbind (luaL_checkudata L 1 CAP_RIGHTS_METATABLE) (\<lambda>rights.
     lbind (lua_gettop L) (\<lambda>top.
     seq (change_rights R (cap_rights_set R) E L rights [2..int top])
    (seq (lua_pushvalue L 1)
     (ret 1))))"

definition l_cap_rights_clear :: "capops \<Rightarrow> env \<Rightarrow> lstate \<Rightarrow> nat lua" where
  "l_cap_rights_clear R E L =
     lbind (luaL_checkudata L 1 CAP_RIGHTS_METATABLE) (\<lambda>rights.
     lbind (lua_gettop L) (\<lambda>top.
     seq (change_rights R (cap_rights_clear R) E L rights [2..int top])
    (seq (lua_pushvalue L 1)
     (ret 1))))"

fun all_set :: "capops \<Rightarrow> env \<Rightarrow> lstate \<Rightarrow> nat \<Rightarrow> int list \<Rightarrow> bool lua" where
  "all_set R E L u [] = ret True"
| "all_set R E L u (i # is) =
     lbind (luaL_checkinteger E L i) (\<lambda>right.
     if \<not> cap_right R (to_size_t right) then throw AssertFailed
     else
       lbind (get_blk u) (\<lambda>rights.
       if \<not> cap_rights_is_set R rights (to_size_t right) then ret False
       else all_set R E L u is))"

definition l_cap_rights_is_set :: "capops \<Rightarrow> env \<Rightarrow> lstate \<Rightarrow> nat lua" where
  "l_cap_rights_is_set R E L =
     lbind (luaL_checkudata L 1 CAP_RIGHTS_METATABLE) (\<lambda>rights.
     lbind (lua_gettop L) (\<lambda>top.
     lbind (all_set R E L rights [2..int top]) (\<lambda>b.
     seq (lua_pushboolean L b)
     (ret 1))))"

definition l_cap_rights_is_empty :: "capops \<Rightarrow> env \<Rightarrow> lstate \<Rightarrow> nat lua" where
  "l_cap_rights_is_empty R E L =
     lbind (luaL_checkudata L 1 CAP_RIGHTS_METATABLE) (\<lambda>u.
     lbind (get_blk u) (\<lambda>rights.
     seq (lua_pushboolean L (cap_rights_is_empty R rights))
     (ret 1)))"

definition l_cap_rights_is_valid :: "capops \<Rightarrow> env \<Rightarrow> lstate \<Rightarrow> nat lua" where
  "l_cap_rights_is_valid R E L =
     lbind (luaL_checkudata L 1 CAP_RIGHTS_METATABLE) (\<lambda>u.
     lbind (get_blk u) (\<lambda>rights.
     seq (lua_pushboolean L (cap_rights_is_valid R rights))
     (ret 1)))"

definition l_cap_rights_merge :: "capops \<Rightarrow> env \<Rightarrow> lstate \<Rightarrow> nat lua" where
  "l_cap_rights_merge R E L =
     lbind (luaL_checkudata L 1 CAP_RIGHTS_METATABLE) (\<lambda>dst.
     lbind (luaL_checkudata L 2 CAP_RIGHTS_METATABLE) (\<lambda>src.
     lbind (get_blk dst) (\<lambda>d.
     lbind (get_blk src) (\<lambda>s.
     seq (set_blk dst (cap_rights_merge R d s))
    (seq (lua_pushvalue L 1)
     (ret 1))))))"

definition l_cap_rights_remove :: "capops \<Rightarrow> env \<Rightarrow> lstate \<Rightarrow> nat lua" where
  "l_cap_rights_remove R E L =
     lbind (luaL_checkudata L 1 CAP_RIGHTS_METATABLE) (\<lambda>dst.
     lbind (luaL_checkudata L 2 CAP_RIGHTS_METATABLE) (\<lambda>src.
     lbind (get_blk dst) (\<lambda>d.
     lbind (get_blk src) (\<lambda>s.
     seq (set_blk dst (cap_rights_remove R d s))
    (seq (lua_pushvalue L 1)
     (ret 1))))))"

definition l_cap_rights_contains :: "capops \<Rightarrow> env \<Rightarrow> lstate \<Rightarrow> nat lua" where
  "l_cap_rights_contains R E L =
     lbind (luaL_checkudata L 1 CAP_RIGHTS_METATABLE) (\<lambda>big.
     lbind (luaL_checkudata L 2 CAP_RIGHTS_METATABLE) (\<lambda>little.
     lbind (get_blk big) (\<lambda>b.
     lbind (get_blk little) (\<lambda>l.
     seq (lua_pushboolean L (cap_rights_contains R b l))
     (ret 1)))))"

definition l_cap_rights_limit :: "env \<Rightarrow> lstate \<Rightarrow> nat lua" where
  "l_cap_rights_limit E L =
     lbind (luaL_checkudata L 1 CAP_RIGHTS_METATABLE) (\<lambda>u.
     lbind (checkfd E L 2) (\<lambda>fd.
     lbind (get_blk u) (\<lambda>rights.
     report E L ''cap_rights_limit'' [AInt fd, AInt rights])))"

section \<open>Limits on fcntl(2) and ioctl(2)\<close>

definition l_cap_fcntls_limit :: "env \<Rightarrow> lstate \<Rightarrow> nat lua" where
  "l_cap_fcntls_limit E L =
     lbind (checkfd E L 1) (\<lambda>fd.
     lbind (luaL_checkinteger E L 2) (\<lambda>fcntlrights.
     report E L ''cap_fcntls_limit'' [AInt fd, AInt (to_uint fcntlrights)]))"

definition l_cap_fcntls_get :: "env \<Rightarrow> lstate \<Rightarrow> nat lua" where
  "l_cap_fcntls_get E L =
     lbind (checkfd E L 1) (\<lambda>fd.
     lbind (ccall E ''cap_fcntls_get'' [AInt fd]) (\<lambda>r.
     if rc r = -1 then fail E L (errno r)
     else
       seq (lua_pushinteger L (to_uint (outi r 1)))
       (ret 1)))"

text \<open>
  The commands are put into a local array. The elements behind them hold what the memory of the stack happens
  to hold, the reply to \<open>load\<close>; the library gets the array with its whole length.
\<close>

fun check_cmds :: "env \<Rightarrow> lstate \<Rightarrow> int list \<Rightarrow> int list lua" where
  "check_cmds E L [] = ret []"
| "check_cmds E L (i # is) =
     lbind (luaL_checkinteger E L i) (\<lambda>cmd.
     lbind (check_cmds E L is) (\<lambda>cmds.
     ret (to_size_t cmd # cmds)))"

definition cmds_array :: "cres \<Rightarrow> int list \<Rightarrow> int list" where
  "cmds_array m cmds = cmds @ map (\<lambda>i. to_size_t (outi m i)) [length cmds..<CAP_IOCTLS_LIMIT_MAX]"

definition limit_ioctls :: "env \<Rightarrow> lstate \<Rightarrow> string \<Rightarrow> nat lua" where
  "limit_ioctls E L g =
     lbind (checkfd E L 1) (\<lambda>fd.
     lbind (lua_gettop L) (\<lambda>top.
     if int top - 1 > int CAP_IOCTLS_LIMIT_MAX then luaL_error L ''too many cmds (max 256)''
     else
       lbind (ccall E ''load'' [AStr ''cmds'']) (\<lambda>m.
       lbind (check_cmds E L [2..int top]) (\<lambda>cmds.
       report E L g (map AInt (fd # cmds_array m cmds))))))"

definition l_cap_ioctls_limit :: "env \<Rightarrow> lstate \<Rightarrow> nat lua" where
  "l_cap_ioctls_limit E L = limit_ioctls E L ''cap_ioctls_limit''"

text \<open>The array is read up to the result of the call, which counts the commands that the descriptor has.\<close>

fun push_cmds :: "lstate \<Rightarrow> cres \<Rightarrow> nat list \<Rightarrow> unit lua" where
  "push_cmds L r [] = ret ()"
| "push_cmds L r (i # is) =
     (if CAP_IOCTLS_LIMIT_MAX \<le> i then throw Undef
      else
        seq (lua_pushinteger L (to_lua_Integer (outi r i)))
       (seq (lua_rawseti L (-2) (int i + 1))
        (push_cmds L r is)))"

definition l_cap_ioctls_get :: "env \<Rightarrow> lstate \<Rightarrow> nat lua" where
  "l_cap_ioctls_get E L =
     lbind (checkfd E L 1) (\<lambda>fd.
     lbind (ccall E ''cap_ioctls_get'' [AInt fd, AInt (int CAP_IOCTLS_LIMIT_MAX)]) (\<lambda>r.
     if rc r = -1 then fail E L (errno r)
     else if rc r = const E ''CAP_IOCTLS_ALL'' then
       seq (lua_pushboolean L False)
       (ret 1)
     else
       seq (lua_createtable L)
      (seq (push_cmds L r [0..<nat (rc r)])
       (ret 1))))"

section \<open>The module\<close>

definition l_capsicum_funcs :: "(string \<times> cfunction) list" where
  "l_capsicum_funcs = [(''enter'', l_cap_enter), (''sandboxed'', l_cap_sandboxed)]"

definition l_cap_rights_funcs :: "capops \<Rightarrow> (string \<times> cfunction) list" where
  "l_cap_rights_funcs R = [(''new'', l_cap_rights_new R), (''get'', l_cap_rights_get)]"

text \<open>\<^verbatim>\<open>is_empty\<close> exists in newer versions of the system.\<close>

definition l_cap_rights_meta :: "capops \<Rightarrow> bool \<Rightarrow> (string \<times> cfunction) list" where
  "l_cap_rights_meta R newer =
     [(''init'', l_cap_rights_init R),
      (''set'', l_cap_rights_set R),
      (''clear'', l_cap_rights_clear R),
      (''is_set'', l_cap_rights_is_set R)]
     @ (if newer then [(''is_empty'', l_cap_rights_is_empty R)] else [])
     @ [(''is_valid'', l_cap_rights_is_valid R),
        (''merge'', l_cap_rights_merge R),
        (''remove'', l_cap_rights_remove R),
        (''contains'', l_cap_rights_contains R),
        (''limit'', l_cap_rights_limit)]"

definition l_cap_fcntls_funcs :: "(string \<times> cfunction) list" where
  "l_cap_fcntls_funcs = [(''limit'', l_cap_fcntls_limit), (''get'', l_cap_fcntls_get)]"

definition l_cap_ioctls_funcs :: "(string \<times> cfunction) list" where
  "l_cap_ioctls_funcs = [(''limit'', l_cap_ioctls_limit), (''get'', l_cap_ioctls_get)]"

text \<open>The names of the rights; \<open>H\<close> are the macros that the headers of the system define.\<close>

definition cap_names :: "string list \<Rightarrow> string list" where
  "cap_names H =
     (if ''CAP_RESERVED'' \<in> set H then [''RESERVED''] else [])
         @ [''READ'', ''WRITE'', ''SEEK_TELL'', ''SEEK'', ''PREAD'', ''PWRITE'', ''MMAP'', ''MMAP_R'', ''MMAP_W'',
         ''MMAP_X'', ''MMAP_RW'', ''MMAP_RX'', ''MMAP_WX'', ''MMAP_RWX'', ''CREATE'', ''FEXECVE'', ''FSYNC'',
         ''FTRUNCATE'', ''LOOKUP'', ''FCHDIR'', ''FCHFLAGS'', ''CHFLAGSAT'', ''FCHMOD'', ''FCHMODAT'',
         ''FCHOWN'', ''FCHOWNAT'', ''FCNTL'', ''FLOCK'', ''FPATHCONF'', ''FSCK'', ''FSTAT'', ''FSTATAT'',
         ''FSTATFS'', ''FUTIMES'', ''FUTIMESAT'', ''LINKAT_TARGET'', ''MKDIRAT'', ''MKFIFOAT'', ''MKNODAT'',
         ''RENAMEAT_SOURCE'', ''SYMLINKAT'', ''UNLINKAT'', ''ACCEPT'', ''BIND'', ''CONNECT'', ''GETPEERNAME'',
         ''GETSOCKNAME'', ''GETSOCKOPT'', ''LISTEN'', ''PEELOFF'', ''RECV'', ''SEND'', ''SETSOCKOPT'',
         ''SHUTDOWN'', ''BINDAT'', ''CONNECTAT'', ''LINKAT_SOURCE'', ''RENAMEAT_TARGET'']
         @ (if ''CAP_FCHROOT'' \<in> set H then [''FCHROOT''] else [])
         @ [''SOCK_CLIENT'', ''SOCK_SERVER'']
         @ (if ''CAP_RESERVED'' \<in> set H then [''UNUSED0_45'', ''UNUSED0_46'', ''UNUSED0_47'', ''UNUSED0_48'', ''UNUSED0_49'', ''UNUSED0_50'',
         ''UNUSED0_51'', ''UNUSED0_52'', ''UNUSED0_53'', ''UNUSED0_54'', ''UNUSED0_55'', ''UNUSED0_56'',
         ''UNUSED0_57''] else [])
         @ [''ALL0'', ''MAC_GET'', ''MAC_SET'', ''SEM_GETVALUE'', ''SEM_POST'', ''SEM_WAIT'', ''EVENT'',
         ''KQUEUE_EVENT'', ''IOCTL'', ''TTYHOOK'', ''PDGETPID'', ''PDWAIT'', ''PDKILL'', ''EXTATTR_DELETE'',
         ''EXTATTR_GET'', ''EXTATTR_LIST'', ''EXTATTR_SET'', ''ACL_CHECK'', ''ACL_DELETE'', ''ACL_GET'',
         ''ACL_SET'', ''KQUEUE_CHANGE'', ''KQUEUE'']
         @ (if ''CAP_INOTIFY_ADD'' \<in> set H then [''INOTIFY_ADD''] else [])
         @ (if ''CAP_INOTIFY_RM'' \<in> set H then [''INOTIFY_RM''] else [])
         @ (if ''CAP_RESERVED'' \<in> set H then [''UNUSED1_24'', ''UNUSED1_25'', ''UNUSED1_26'', ''UNUSED1_27'', ''UNUSED1_28'', ''UNUSED1_29'',
         ''UNUSED1_30'', ''UNUSED1_31'', ''UNUSED1_32'', ''UNUSED1_33'', ''UNUSED1_34'', ''UNUSED1_35'',
         ''UNUSED1_36'', ''UNUSED1_37'', ''UNUSED1_38'', ''UNUSED1_39'', ''UNUSED1_40'', ''UNUSED1_41'',
         ''UNUSED1_42'', ''UNUSED1_43'', ''UNUSED1_44'', ''UNUSED1_45'', ''UNUSED1_46'', ''UNUSED1_47'',
         ''UNUSED1_48'', ''UNUSED1_49'', ''UNUSED1_50'', ''UNUSED1_51'', ''UNUSED1_52'', ''UNUSED1_53'',
         ''UNUSED1_54'', ''UNUSED1_55'', ''UNUSED1_56'', ''UNUSED1_57''] else [])
         @ [''ALL1'', ''FCNTL_GETFL'', ''FCNTL_SETFL'', ''FCNTL_GETOWN'', ''FCNTL_SETOWN'', ''FCNTL_ALL'']"

definition luaopen_sys_capsicum ::
  "capops \<Rightarrow> bool \<Rightarrow> string list \<Rightarrow> env \<Rightarrow> (string \<times> (string \<times> cfunction) list) \<times> (string \<times> field) list" where
  "luaopen_sys_capsicum R newer H E =
     ((CAP_RIGHTS_METATABLE, l_cap_rights_meta R newer),
      luaL_newlib l_capsicum_funcs
      @ [(''rights'', Sub (luaL_newlib (l_cap_rights_funcs R))),
         (''fcntls'', Sub (luaL_newlib l_cap_fcntls_funcs)),
         (''ioctls'', Sub (luaL_newlib l_cap_ioctls_funcs))]
      @ DEFINE E ''CAP_'' (cap_names H))"

section \<open>The helpers\<close>

definition l_caph_enter :: "env \<Rightarrow> lstate \<Rightarrow> nat lua" where
  "l_caph_enter E L = report E L ''caph_enter'' []"

definition l_caph_enter_casper :: "env \<Rightarrow> lstate \<Rightarrow> nat lua" where
  "l_caph_enter_casper E L = report E L ''caph_enter_casper'' []"

definition l_caph_rights_limit :: "env \<Rightarrow> lstate \<Rightarrow> nat lua" where
  "l_caph_rights_limit E L =
     lbind (checkfd E L 1) (\<lambda>fd.
     lbind (luaL_checkudata L 2 CAP_RIGHTS_METATABLE) (\<lambda>u.
     lbind (get_blk u) (\<lambda>rights.
     report E L ''caph_rights_limit'' [AInt fd, AInt rights])))"

definition l_caph_ioctls_limit :: "env \<Rightarrow> lstate \<Rightarrow> nat lua" where
  "l_caph_ioctls_limit E L = limit_ioctls E L ''caph_ioctls_limit''"

definition l_caph_fcntls_limit :: "env \<Rightarrow> lstate \<Rightarrow> nat lua" where
  "l_caph_fcntls_limit E L =
     lbind (checkfd E L 1) (\<lambda>fd.
     lbind (luaL_checkinteger E L 2) (\<lambda>fcntlrights.
     report E L ''caph_fcntls_limit'' [AInt fd, AInt (to_uint fcntlrights)]))"

definition l_caph_limit_stream :: "env \<Rightarrow> lstate \<Rightarrow> nat lua" where
  "l_caph_limit_stream E L =
     lbind (checkfd E L 1) (\<lambda>fd.
     lbind (luaL_checkinteger E L 2) (\<lambda>flags.
     report E L ''caph_limit_stream'' [AInt fd, AInt (to_int flags)]))"

definition l_caph_limit_stdin :: "env \<Rightarrow> lstate \<Rightarrow> nat lua" where
  "l_caph_limit_stdin E L = report E L ''caph_limit_stdin'' []"

definition l_caph_limit_stderr :: "env \<Rightarrow> lstate \<Rightarrow> nat lua" where
  "l_caph_limit_stderr E L = report E L ''caph_limit_stderr'' []"

definition l_caph_limit_stdout :: "env \<Rightarrow> lstate \<Rightarrow> nat lua" where
  "l_caph_limit_stdout E L = report E L ''caph_limit_stdout'' []"

definition l_caph_limit_stdio :: "env \<Rightarrow> lstate \<Rightarrow> nat lua" where
  "l_caph_limit_stdio E L = report E L ''caph_limit_stdio'' []"

text \<open>The rights that the helper adds are stored in the userdata.\<close>

definition l_caph_stream_rights :: "env \<Rightarrow> lstate \<Rightarrow> nat lua" where
  "l_caph_stream_rights E L =
     lbind (luaL_checkudata L 1 CAP_RIGHTS_METATABLE) (\<lambda>u.
     lbind (luaL_checkinteger E L 2) (\<lambda>flags.
     lbind (get_blk u) (\<lambda>rights.
     lbind (ccall E ''caph_stream_rights'' [AInt rights, AInt (to_int flags)]) (\<lambda>r.
     seq (set_blk u (outi r 1))
    (seq (lua_pushvalue L 1)
     (ret 1))))))"

definition l_caph_cache_tzdata :: "env \<Rightarrow> lstate \<Rightarrow> nat lua" where
  "l_caph_cache_tzdata E L = seq (ccall E ''caph_cache_tzdata'' []) (ret 0)"

definition l_caph_cache_catpages :: "env \<Rightarrow> lstate \<Rightarrow> nat lua" where
  "l_caph_cache_catpages E L = seq (ccall E ''caph_cache_catpages'' []) (ret 0)"

definition l_caph_funcs :: "(string \<times> cfunction) list" where
  "l_caph_funcs =
     [(''enter'', l_caph_enter),
      (''enter_casper'', l_caph_enter_casper),
      (''rights_limit'', l_caph_rights_limit),
      (''ioctls_limit'', l_caph_ioctls_limit),
      (''fcntls_limit'', l_caph_fcntls_limit),
      (''limit_stream'', l_caph_limit_stream),
      (''limit_stdin'', l_caph_limit_stdin),
      (''limit_stderr'', l_caph_limit_stderr),
      (''limit_stdout'', l_caph_limit_stdout),
      (''limit_stdio'', l_caph_limit_stdio),
      (''stream_rights'', l_caph_stream_rights),
      (''cache_tzdata'', l_caph_cache_tzdata),
      (''cache_catpages'', l_caph_cache_catpages)]"

definition luaopen_capsicum_helpers :: "env \<Rightarrow> (string \<times> field) list" where
  "luaopen_capsicum_helpers E =
     luaL_newlib l_caph_funcs @ DEFINE E ''CAPH_'' [''IGNORE_EBADF'', ''READ'', ''WRITE'', ''LOOKUP'']"

section \<open>What the library does with rights\<close>

text \<open>
  A \<^verbatim>\<open>cap_rights_t\<close> stands for a set, and so does a right (some rights contain others). What
  cap_rights_init(3) says of the functions, for any way \<open>B\<close>, \<open>b\<close> of reading them as sets.
\<close>

locale right_sets =
  fixes R :: capops and B :: "int \<Rightarrow> 'r set" and b :: "int \<Rightarrow> 'r set"
  assumes init: "B (cap_rights_init R) = {}"
    and set: "cap_right R r \<Longrightarrow> B (cap_rights_set R s r) = B s \<union> b r"
    and clear: "cap_right R r \<Longrightarrow> B (cap_rights_clear R s r) = B s - b r"
    and is_set: "cap_right R r \<Longrightarrow> cap_rights_is_set R s r \<longleftrightarrow> b r \<subseteq> B s"
    and is_empty: "cap_rights_is_empty R s \<longleftrightarrow> B s = {}"
    and merge: "B (cap_rights_merge R s t) = B s \<union> B t"
    and remove: "B (cap_rights_remove R s t) = B s - B t"
    and contains: "cap_rights_contains R s t \<longleftrightarrow> B t \<subseteq> B s"

text \<open>
  Two words of 64 bits: bit 57 or bit 58 of a right says which word its other bits belong to. The bits of both
  words are those of one integer here.
\<close>

definition right_bits :: "int \<Rightarrow> int" where
  "right_bits c = push_bit (if bit c 57 then 0 else 64) (take_bit 57 c)"

definition word_rights :: capops where
  "word_rights = \<lparr>cap_right = (\<lambda>c. 0 \<le> c \<and> c < 2 ^ 59 \<and> bit c 57 \<noteq> bit c 58),
     cap_rights_init = 0, cap_rights_set = (\<lambda>s c. s OR right_bits c),
     cap_rights_clear = (\<lambda>s c. s AND NOT (right_bits c)),
     cap_rights_is_set = (\<lambda>s c. right_bits c AND NOT s = 0), cap_rights_is_empty = (\<lambda>s. s = 0),
     cap_rights_is_valid = (\<lambda>s. 0 \<le> s \<and> s < 2 ^ 121), cap_rights_merge = (OR),
     cap_rights_remove = (\<lambda>s t. s AND NOT t), cap_rights_contains = (\<lambda>s t. t AND NOT s = 0)\<rparr>"

definition int_bits :: "int \<Rightarrow> nat set" where
  "int_bits s = {i. bit s i}"

lemma int_bits_ops:
  "int_bits 0 = {}" "int_bits (s OR t) = int_bits s \<union> int_bits t" "int_bits (s AND NOT t) = int_bits s - int_bits t"
  "s = 0 \<longleftrightarrow> int_bits s = {}" "s AND NOT t = 0 \<longleftrightarrow> int_bits s \<subseteq> int_bits t"
  by (auto simp: int_bits_def bit_simps bit_eq_iff [where 'a = int])

interpretation word_rights: right_sets word_rights int_bits "\<lambda>c. int_bits (right_bits c)"
  by unfold_locales (simp_all add: word_rights_def int_bits_ops)

section \<open>The methods compute on sets\<close>

definition rights_object :: "int \<Rightarrow> udata" where
  "rights_object s = \<lparr>meta = Some CAP_RIGHTS_METATABLE, uvs = [], blk = Some s\<rparr>"

lemma rights_object_upd [simp]: "(m(u \<mapsto> rights_object a) = m(u \<mapsto> rights_object c)) \<longleftrightarrow> a = c"
  by (auto simp: rights_object_def dest: map_upd_eqD1)

lemma rights_object_sel [simp]: "blk (rights_object s) = Some s" "rights_object s\<lparr>blk := Some t\<rparr> = rights_object t"
  by (simp_all add: rights_object_def)

lemma check_rights [lua_run]:
  "stacks w L = Some st \<Longrightarrow> at st i = Some (LUserdata u) \<Longrightarrow> uds w u = Some (rights_object s) \<Longrightarrow>
   luaL_checkudata L i CAP_RIGHTS_METATABLE w = (Inr u, w)"
  by (simp add: luaL_checkudata_def ud_at_def rights_object_def)

lemma blk_run:
  "uds w u = Some ud \<Longrightarrow> blk ud = Some s \<Longrightarrow> get_blk u w = (Inr s, w)"
  "uds w u = Some ud \<Longrightarrow> set_blk u c w = (Inr (), w\<lparr>uds := (uds w)(u \<mapsto> ud\<lparr>blk := Some c\<rparr>)\<rparr>)"
  by (cases ud; simp add: get_blk_def set_blk_def)+

text \<open>The rights among the values on a stack.\<close>

fun right_of :: "lval option \<Rightarrow> int" where
  "right_of (Some (LInteger r)) = to_size_t r"
| "right_of _ = 0"

lemma change_rights_run:
  assumes "stacks w L = Some st" and "uds w u = Some ud" and "blk ud = Some s"
    and "\<And>i. i \<in> set is \<Longrightarrow> \<exists>r. at st i = Some (LInteger r) \<and> cap_right R (to_size_t r)"
  shows "change_rights R f E L u is w =
    (Inr (), w\<lparr>uds := (uds w)(u \<mapsto> ud\<lparr>blk := Some (foldl f s (map (\<lambda>i. right_of (at st i)) is))\<rparr>)\<rparr>)"
  using assms
proof (induction "is" arbitrary: w ud s)
  case Nil
  then have "ud\<lparr>blk := Some s\<rparr> = ud" by (cases ud) simp
  with Nil have "(uds w)(u \<mapsto> ud\<lparr>blk := Some s\<rparr>) = uds w" by (simp add: fun_upd_idem)
  then show ?case by simp
next
  case (Cons i js)
  obtain r where r: "at st i = Some (LInteger r)" "cap_right R (to_size_t r)" using Cons.prems(4) [of i] by auto
  let ?s = "f s (to_size_t r)" and ?w = "w\<lparr>uds := (uds w)(u \<mapsto> ud\<lparr>blk := Some (f s (to_size_t r))\<rparr>)\<rparr>"
  have "change_rights R f E L u (i # js) w = change_rights R f E L u js ?w"
    using Cons.prems(1-3) r by (simp add: luaL_checkinteger_def lua_run blk_run)
  also have "\<dots> = (Inr (), ?w\<lparr>uds := (uds ?w)(u \<mapsto> (ud\<lparr>blk := Some ?s\<rparr>)
      \<lparr>blk := Some (foldl f ?s (map (\<lambda>i. right_of (at st i)) js))\<rparr>)\<rparr>)"
    by (rule Cons.IH) (use Cons.prems in auto)
  finally show ?case using r by (simp del: change_rights.simps add: fun_upd_def cong: if_cong)
qed

lemma all_set_run:
  assumes "stacks w L = Some st" and "uds w u = Some ud" and "blk ud = Some s"
    and "\<And>i. i \<in> set is \<Longrightarrow> \<exists>r. at st i = Some (LInteger r) \<and> cap_right R (to_size_t r)"
  shows "all_set R E L u is w = (Inr (list_all (\<lambda>i. cap_rights_is_set R s (right_of (at st i))) is), w)"
  using assms(4)
proof (induction "is")
  case (Cons i js)
  obtain r where "at st i = Some (LInteger r)" "cap_right R (to_size_t r)" using Cons.prems [of i] by auto
  with Cons assms(1-3) show ?case by (simp add: luaL_checkinteger_def lua_run blk_run)
qed simp

text \<open>Arguments that follow each other in the stack.\<close>

lemma at_args:
  assumes "i \<in> set [int (length xs) + 1..int (length xs + length rs)]"
  shows "at (xs @ map LInteger rs @ ys) i = Some (LInteger (rs ! nat (i - 1 - int (length xs))))"
    and "nat (i - 1 - int (length xs)) < length rs"
  using assms by (auto simp: at_def pos_def nth_append nat_diff_distrib)

lemma rights_of_args:
  "map (\<lambda>i. right_of (at (xs @ map LInteger rs @ ys) i)) [int (length xs) + 1..int (length xs + length rs)]
     = map to_size_t rs"
  by (rule nth_equalityI) (simp_all add: at_args)

text \<open>An object followed by rights.\<close>

lemma object_args:
  fixes rs :: "int list" and u :: nat
  defines "st \<equiv> LUserdata u # map LInteger rs"
  shows "map (\<lambda>i. right_of (at st i)) [2..1 + int (length rs)] = map to_size_t rs"
    and "(\<And>r. r \<in> set rs \<Longrightarrow> cap_right R (to_size_t r)) \<Longrightarrow> i \<in> set [2..1 + int (length rs)] \<Longrightarrow>
      \<exists>r. at st i = Some (LInteger r) \<and> cap_right R (to_size_t r)"
  using rights_of_args [of "[LUserdata u]" rs "[]"]
    at_args(1) [of i "[LUserdata u]" rs "[]"] at_args(2) [of i "[LUserdata u]" rs]
  by (auto simp: st_def)

lemma object_rights_run:
  assumes "stacks w L = Some (LUserdata u # map LInteger rs)" and "uds w u = Some (rights_object s)"
    and "\<And>r. r \<in> set rs \<Longrightarrow> cap_right R (to_size_t r)"
  shows "change_rights R f E L u [2..1 + int (length rs)] w
      = (Inr (), w\<lparr>uds := (uds w)(u \<mapsto> rights_object (foldl f s (map to_size_t rs)))\<rparr>)"
    and "all_set R E L u [2..1 + int (length rs)] w = (Inr (list_all (cap_rights_is_set R s) (map to_size_t rs)), w)"
proof -
  let ?st = "LUserdata u # map LInteger rs"
  have "change_rights R f E L u [2..1 + int (length rs)] w = (Inr (), w\<lparr>uds := (uds w)(u \<mapsto> rights_object s
      \<lparr>blk := Some (foldl f s (map (\<lambda>i. right_of (at ?st i)) [2..1 + int (length rs)]))\<rparr>)\<rparr>)"
    by (rule change_rights_run [OF assms(1,2) _ object_args(2)]) (simp_all add: assms(3))
  then show "change_rights R f E L u [2..1 + int (length rs)] w
      = (Inr (), w\<lparr>uds := (uds w)(u \<mapsto> rights_object (foldl f s (map to_size_t rs)))\<rparr>)"
    unfolding object_args(1) by simp
  have "all_set R E L u [2..1 + int (length rs)] w
      = (Inr (list_all (cap_rights_is_set R s) (map (\<lambda>i. right_of (at ?st i)) [2..1 + int (length rs)])), w)"
    using assms(3) unfolding list.pred_map comp_def
    by (intro all_set_run [OF assms(1,2) _ object_args(2)]) simp_all
  then show "all_set R E L u [2..1 + int (length rs)] w = (Inr (list_all (cap_rights_is_set R s) (map to_size_t rs)), w)"
    unfolding object_args(1) .
qed

context right_sets
begin

lemma set_all: "(\<And>r. r \<in> set rs \<Longrightarrow> cap_right R (to_size_t r)) \<Longrightarrow>
    B (foldl (cap_rights_set R) s (map to_size_t rs)) = B s \<union> (\<Union>r \<in> List.set rs. b (to_size_t r))"
  by (induction rs arbitrary: s) (auto simp: set)

lemma clear_all: "(\<And>r. r \<in> List.set rs \<Longrightarrow> cap_right R (to_size_t r)) \<Longrightarrow>
    B (foldl (cap_rights_clear R) s (map to_size_t rs)) = B s - (\<Union>r \<in> List.set rs. b (to_size_t r))"
  by (induction rs arbitrary: s) (auto simp: clear)

lemma is_set_all: "(\<And>r. r \<in> List.set rs \<Longrightarrow> cap_right R (to_size_t r)) \<Longrightarrow>
    list_all (cap_rights_is_set R s) (map to_size_t rs) \<longleftrightarrow> (\<Union>r \<in> List.set rs. b (to_size_t r)) \<subseteq> B s"
  by (induction rs) (auto simp: is_set)

end

text \<open>The methods of an object with the sets that they make of its rights and the arguments.\<close>

definition rights_updates :: "capops \<Rightarrow> (cfunction \<times> ('r set \<Rightarrow> 'r set \<Rightarrow> 'r set)) list" where
  "rights_updates R = [(l_cap_rights_set R, \<lambda>A X. A \<union> X), (l_cap_rights_clear R, \<lambda>A X. A - X)]"

text \<open>
  C37. The rights of an object are a set: \<^verbatim>\<open>set\<close> adds what its arguments stand for, all of them, \<^verbatim>\<open>clear\<close> takes them
  away, both return the object, and no other object changes.
\<close>

theorem rights_updates_are_set_operations:
  assumes "right_sets R B b" and "(f, g) \<in> set (rights_updates R)"
    and "stacks w L = Some (LUserdata u # map LInteger rs)" and "uds w u = Some (rights_object s)"
    and "\<And>r. r \<in> set rs \<Longrightarrow> cap_right R (to_size_t r)"
  shows "\<exists>t w'. f E L w = (Inr 1, w') \<and> stacks w' L = Some (LUserdata u # map LInteger rs @ [LUserdata u])
    \<and> uds w' = (uds w)(u \<mapsto> rights_object t) \<and> B t = g (B s) (\<Union>r \<in> set rs. b (to_size_t r))"
proof -
  have "at (LUserdata u # map LInteger rs) 1 = Some (LUserdata u)" by (simp add: at_def)
  then have "l_cap_rights_set R E L w = (Inr 1, setst L (LUserdata u # map LInteger rs @ [LUserdata u])
        (w\<lparr>uds := (uds w)(u \<mapsto> rights_object (foldl (cap_rights_set R) s (map to_size_t rs)))\<rparr>))"
    and "l_cap_rights_clear R E L w = (Inr 1, setst L (LUserdata u # map LInteger rs @ [LUserdata u])
        (w\<lparr>uds := (uds w)(u \<mapsto> rights_object (foldl (cap_rights_clear R) s (map to_size_t rs)))\<rparr>))"
    using assms(3,4) object_rights_run(1) [OF assms(3-5)]
    by (simp_all add: l_cap_rights_set_def l_cap_rights_clear_def lua_pushvalue_def lua_run)
  with assms(2) right_sets.set_all [OF assms(1,5)] right_sets.clear_all [OF assms(1,5)]
  show ?thesis by (auto simp: rights_updates_def)
qed

lemma cap_right_numbers:
  "r = 2 ^ 57 + 1 \<or> r = 2 ^ 57 + 2 \<or> r = 2 ^ 58 + 8 \<Longrightarrow> cap_right word_rights (to_size_t r)"
  by (auto simp: word_rights_def to_size_t_def take_bit_eq_mod bit_iff_odd)

definition rights_world :: "lval list \<Rightarrow> world" where
  "rights_world st = (world0 [1 \<mapsto> st])\<lparr>uds := [3 \<mapsto> rights_object 5, 4 \<mapsto> rights_object 2]\<rparr>"

theorem rights_updates_are_set_operations_witness:
  "\<exists>t w'. l_cap_rights_set word_rights env0 1 (rights_world [LUserdata 3, LInteger (2 ^ 57 + 2), LInteger (2 ^ 58 + 8)])
      = (Inr 1, w')
    \<and> stacks w' 1 = Some ([LUserdata 3, LInteger (2 ^ 57 + 2), LInteger (2 ^ 58 + 8)] @ [LUserdata 3])
    \<and> uds w' = (uds (rights_world [LUserdata 3, LInteger (2 ^ 57 + 2), LInteger (2 ^ 58 + 8)]))(3 \<mapsto> rights_object t)
    \<and> int_bits t = int_bits 5 \<union> (\<Union>r \<in> {2 ^ 57 + 2, 2 ^ 58 + 8}. int_bits (right_bits (to_size_t r)))"
  using rights_updates_are_set_operations [OF word_rights.right_sets_axioms, of "l_cap_rights_set word_rights" "(\<union>)"
      "rights_world [LUserdata 3, LInteger (2 ^ 57 + 2), LInteger (2 ^ 58 + 8)]" 1 3 "[2 ^ 57 + 2, 2 ^ 58 + 8]" 5 env0]
    cap_right_numbers
  by (auto simp: rights_updates_def rights_world_def)

text \<open>
  \<^verbatim>\<open>is_set\<close> answers whether all that its arguments stand for is in the rights of the object, and changes nothing.
\<close>

theorem rights_is_set_is_inclusion:
  assumes "right_sets R B b" and "stacks w L = Some (LUserdata u # map LInteger rs)"
    and "uds w u = Some (rights_object s)" and "\<And>r. r \<in> set rs \<Longrightarrow> cap_right R (to_size_t r)"
  shows "l_cap_rights_is_set R E L w = (Inr 1, setst L (LUserdata u # map LInteger rs
        @ [LBoolean ((\<Union>r \<in> set rs. b (to_size_t r)) \<subseteq> B s)]) w)"
proof -
  have "at (LUserdata u # map LInteger rs) 1 = Some (LUserdata u)" by (simp add: at_def)
  then show ?thesis
    using assms(2,3) object_rights_run(2) [OF assms(2-4)] right_sets.is_set_all [OF assms(1,4), of rs]
    by (simp add: l_cap_rights_is_set_def lua_run)
qed

theorem rights_is_set_is_inclusion_witness:
  "l_cap_rights_is_set word_rights env0 1 (rights_world [LUserdata 3, LInteger (2 ^ 57 + 1)]) = (Inr 1, setst 1
     ([LUserdata 3, LInteger (2 ^ 57 + 1)] @ [LBoolean (int_bits (right_bits (to_size_t (2 ^ 57 + 1))) \<subseteq> int_bits 5)])
     (rights_world [LUserdata 3, LInteger (2 ^ 57 + 1)]))"
  using rights_is_set_is_inclusion [OF word_rights.right_sets_axioms,
      of "rights_world [LUserdata 3, LInteger (2 ^ 57 + 1)]" 1 3 "[2 ^ 57 + 1]" 5 env0]
    cap_right_numbers
  by (auto simp: rights_world_def)

text \<open>Union, difference and inclusion of two objects, which may be the same one.\<close>

lemma rights_of_two_objects:
  assumes "right_sets R B b" and "uds w u = Some (rights_object s)" and "uds w v = Some (rights_object t)"
    and "stacks w L = Some [LUserdata u, LUserdata v]"
  shows "l_cap_rights_contains R E L w = (Inr 1, setst L [LUserdata u, LUserdata v, LBoolean (B t \<subseteq> B s)] w)"
    and "\<exists>c w'. l_cap_rights_merge R E L w = (Inr 1, w')
      \<and> stacks w' L = Some [LUserdata u, LUserdata v, LUserdata u]
      \<and> uds w' = (uds w)(u \<mapsto> rights_object c) \<and> B c = B s \<union> B t"
    and "\<exists>c w'. l_cap_rights_remove R E L w = (Inr 1, w')
      \<and> stacks w' L = Some [LUserdata u, LUserdata v, LUserdata u]
      \<and> uds w' = (uds w)(u \<mapsto> rights_object c) \<and> B c = B s - B t"
  using assms(2-4) right_sets.merge [OF assms(1)] right_sets.remove [OF assms(1)] right_sets.contains [OF assms(1)]
  by (simp_all add: l_cap_rights_contains_def l_cap_rights_merge_def l_cap_rights_remove_def lua_run blk_run lua_pushvalue_def)

text \<open>
  \<^verbatim>\<open>init\<close> returns its last argument: the object only when no rights are given.
\<close>

lemma rights_init_returns_last:
  assumes "stacks w L = Some (LUserdata u # map LInteger (rs @ [r]))" and "uds w u = Some (rights_object s)"
    and "\<And>x. x \<in> set (rs @ [r]) \<Longrightarrow> cap_right R (to_size_t x)"
  shows "\<exists>w'. l_cap_rights_init R E L w = (Inr 1, w') \<and> stacks w' L = Some (LUserdata u # map LInteger rs @ [LInteger r])"
proof -
  let ?w = "w\<lparr>uds := (uds w)(u \<mapsto> rights_object (cap_rights_init R))\<rparr>"
  have "at (LUserdata u # map LInteger (rs @ [r])) 1 = Some (LUserdata u)" by (simp add: at_def)
  moreover have "change_rights R f E L u [2..1 + int (length (rs @ [r]))] ?w = (Inr (),
      ?w\<lparr>uds := (uds ?w)(u \<mapsto> rights_object (foldl f (cap_rights_init R) (map to_size_t (rs @ [r]))))\<rparr>)" for f
    by (rule object_rights_run(1)) (use assms in auto)
  ultimately show ?thesis
    using assms(1,2) by (simp add: l_cap_rights_init_def lua_run blk_run)
qed

section \<open>Limits on descriptors\<close>


definition rights_env :: env where
  "rights_env = env0\<lparr>reply := (\<lambda>tr c. \<lparr>rc = 0,
     outi = (\<lambda>i. case tr of (_, [_, AInt x]) # _ \<Rightarrow> x | _ \<Rightarrow> int i), outs = [], outv = (\<lambda>_. [])\<rparr>)\<rparr>"


lemma check_cmds_run:
  assumes "stacks w L = Some st" and "\<And>i. i \<in> set is \<Longrightarrow> \<exists>r. at st i = Some (LInteger r)"
  shows "check_cmds E L is w = (Inr (map (\<lambda>i. right_of (at st i)) is), w)"
  using assms(2)
proof (induction "is")
  case (Cons i js)
  obtain r where "at st i = Some (LInteger r)" using Cons.prems [of i] by auto
  with Cons assms(1) show ?case by (simp add: luaL_checkinteger_def lua_run)
qed simp

text \<open>
  C39. The limit on ioctl(2) commands does not limit to the given ones: the kernel always gets 256 commands, the given
  ones first and behind them whatever the array on the C stack held before.
\<close>

theorem ioctls_limit_grants_garbage:
  assumes "stacks w L = Some (LInteger fd # map LInteger cmds)" and "length cmds \<le> 256"
  shows "\<exists>junk. trace (snd (l_cap_ioctls_limit E L w))
      = (''cap_ioctls_limit'', AInt (to_int fd) # map AInt (map to_size_t cmds @ junk)) # (''load'', [AStr ''cmds'']) # trace w
    \<and> length cmds + length junk = 256
    \<and> (\<forall>i < length junk. junk ! i = to_size_t (outi (reply E (trace w) (''load'', [AStr ''cmds''])) (length cmds + i)))"
proof -
  let ?st = "LInteger fd # map LInteger cmds" and ?m = "reply E (trace w) (''load'', [AStr ''cmds''])"
  let ?w = "w\<lparr>trace := (''load'', [AStr ''cmds'']) # trace w\<rparr>"
  let ?junk = "map (\<lambda>i. to_size_t (outi ?m i)) [length cmds..<CAP_IOCTLS_LIMIT_MAX]"
  have ints: "\<exists>r. at ?st i = Some (LInteger r)" if "i \<in> set [2..1 + int (length cmds)]" for i
    using that at_args(1) [of i "[LInteger fd]" cmds "[]"] by auto
  have "map (\<lambda>i. right_of (at ?st i)) [2..1 + int (length cmds)] = map to_size_t cmds"
    using rights_of_args [of "[LInteger fd]" cmds "[]"] by simp
  then have "check_cmds E L [2..1 + int (length cmds)] ?w = (Inr (map to_size_t cmds), ?w)"
    using check_cmds_run [of ?w L ?st "[2..1 + int (length cmds)]" E, OF _ ints] assms(1) by simp
  moreover have "at ?st 1 = Some (LInteger fd)" by (simp add: at_def)
  moreover have "quiet (fail E L e)" "quiet (success L)" for e by (simp_all add: leaves_rules)
  ultimately have "trace (snd (l_cap_ioctls_limit E L w))
      = (''cap_ioctls_limit'', AInt (to_int fd) # map AInt (map to_size_t cmds @ ?junk)) # (''load'', [AStr ''cmds'']) # trace w"
    using assms
    by (simp add: l_cap_ioctls_limit_def limit_ioctls_def report_def checkfd_def cmds_array_def lua_run quietD
        CAP_IOCTLS_LIMIT_MAX_def)
  then show ?thesis using assms(2) by (intro exI [of _ ?junk]) (simp add: CAP_IOCTLS_LIMIT_MAX_def)
qed

theorem ioctls_limit_grants_garbage_witness:
  "\<exists>junk. trace (snd (l_cap_ioctls_limit rights_env 1 (rights_world [LInteger 7, LInteger 21])))
      = (''cap_ioctls_limit'', AInt (to_int 7) # map AInt (map to_size_t [21] @ junk)) # (''load'', [AStr ''cmds'']) # []
    \<and> length [21 :: int] + length junk = 256 \<and> (\<forall>i < length junk. junk ! i = to_size_t (int (1 + i)))"
  using ioctls_limit_grants_garbage [of "rights_world [LInteger 7, LInteger 21]" 1 7 "[21]" rights_env]
  by (auto simp: rights_world_def rights_env_def)

end
