(* ===== verification/Loops.thy ===== *)
theory Loops
  imports Uio
begin

text \<open>
  Loops of C that go on until a call of the library is content. \<open>iterate turn s\<close> runs the body on a state, which
  goes on with another state or leaves the loop with a value; a loop without end is \<open>NoFuel\<close>. There is a
  rule for what holds when it ends, and one that it ends.
\<close>

partial_function (option) loop :: "('s \<Rightarrow> ('s + 'a) lua) \<Rightarrow> 's \<Rightarrow> world \<Rightarrow> ((exc + 'a) \<times> world) option" where
  "loop turn s w = (case turn s w of
       (Inl e, w') \<Rightarrow> Some (Inl e, w')
     | (Inr (Inr a), w') \<Rightarrow> Some (Inr a, w')
     | (Inr (Inl s'), w') \<Rightarrow> loop turn s' w')"

definition iterate :: "('s \<Rightarrow> ('s + 'a) lua) \<Rightarrow> 's \<Rightarrow> 'a lua" where
  "iterate turn s w = (case loop turn s w of None \<Rightarrow> (Inl NoFuel, w) | Some x \<Rightarrow> x)"

abbreviation again :: "'s \<Rightarrow> ('s + 'a) lua" where
  "again s \<equiv> ret (Inl s)"

abbreviation leave :: "'a \<Rightarrow> ('s + 'a) lua" where
  "leave a \<equiv> ret (Inr a)"

text \<open>What every round keeps or establishes on leaving holds at the end, if there is one.\<close>

lemma loop_partial:
  assumes "loop turn s w = Some (r, w')" and "I s w"
    and "\<And>s w. I s w \<Longrightarrow> (case turn s w of (Inl e, w') \<Rightarrow> Q (Inl e) w' | (Inr (Inr a), w') \<Rightarrow> Q (Inr a) w'
      | (Inr (Inl s'), w') \<Rightarrow> I s' w')"
  shows "Q r w'"
proof -
  define P where "P = (\<lambda>b s w x. b = turn \<longrightarrow> I s w \<longrightarrow> Q (fst x) (snd x))"
  have "P turn s w (r, w')"
  proof (rule loop.raw_induct [OF _ assms(1)])
    fix loop' b s w x
    assume IH: "\<And>b s w x. loop' b s w = Some x \<Longrightarrow> P b s w x"
      and run: "(case b s w of (Inl e, w') \<Rightarrow> Some (Inl e, w') | (Inr (Inl s'), w') \<Rightarrow> loop' b s' w'
        | (Inr (Inr a), w') \<Rightarrow> Some (Inr a, w')) = Some x"
    show "P b s w x"
      unfolding P_def
    proof (intro impI)
      assume "b = turn" "I s w"
      with run assms(3) [OF \<open>I s w\<close>] IH [of turn] show "Q (fst x) (snd x)"
        by (auto simp: P_def split: prod.splits sum.splits)
    qed
  qed
  with assms(2) show ?thesis by (simp add: P_def)
qed

lemma iterate_run:
  "turn s w = (Inr (Inr a), w') \<Longrightarrow> iterate turn s w = (Inr a, w')"
  "turn s w = (Inl e, w') \<Longrightarrow> iterate turn s w = (Inl e, w')"
  by (simp_all add: iterate_def loop.simps)

lemma iterate_again: "turn s w = (Inr (Inl s'), w') \<Longrightarrow> loop turn s' w' \<noteq> None \<Longrightarrow> iterate turn s w = iterate turn s' w'"
  by (auto simp: iterate_def loop.simps [of turn s])

text \<open>A loop ends when a measure gets smaller with every round.\<close>

lemma loop_ends:
  assumes "I s w" and "\<And>s w s' w'. I s w \<Longrightarrow> turn s w = (Inr (Inl s'), w') \<Longrightarrow> I s' w' \<and> m s' w' < (m s w :: nat)"
  shows "loop turn s w \<noteq> None"
  using assms(1)
proof (induction "m s w" arbitrary: s w rule: less_induct)
  case less
  show ?case
  proof (cases "\<exists>s' w'. turn s w = (Inr (Inl s'), w')")
    case True
    then obtain s' w' where run: "turn s w = (Inr (Inl s'), w')" by blast
    with assms(2) [OF less.prems run] less.hyps [of s' w'] show ?thesis by (simp add: loop.simps [of turn s])
  next
    case False
    then show ?thesis by (auto simp: loop.simps [of turn s] split: prod.splits sum.splits)
  qed
qed

section \<open>Memory\<close>

text \<open>
  \<open>S s\<close> are the blocks held in state \<open>s\<close> of a loop, of which there are none at first, and \<open>S' a\<close> those held when it
  is left with \<open>a\<close>.
\<close>

definition round_holds :: "env \<Rightarrow> (int \<Rightarrow> int) \<Rightarrow> int list \<Rightarrow> ('s \<Rightarrow> int list) \<Rightarrow> ('a \<Rightarrow> int list) \<Rightarrow> ('s + 'a) lua \<Rightarrow> bool" where
  "round_holds E b H S S' m \<longleftrightarrow> (\<forall>w. holds E b H (trace w) \<longrightarrow> (case m w of
       (Inl e, w') \<Rightarrow> e = Undef \<or> holds E b [] (trace w')
     | (Inr (Inl s), w') \<Rightarrow> holds E b (S s) (trace w')
     | (Inr (Inr a), w') \<Rightarrow> holds E b (S' a) (trace w')))"

lemma releases_iterate:
  assumes "\<And>s. round_holds E b (S s) S S' (turn s)" and "\<And>p. p \<noteq> 0 \<Longrightarrow> count_list (S s) p = 0"
    and "\<And>a. releases E b (S' a) (f a)"
  shows "releases E b [] (lbind (iterate turn s) f)"
proof (rule releases_lbind [where S' = S', OF _ assms(3)])
  fix w :: world assume h: "holds E b [] (trace w)"
  show "case iterate turn s w of (Inl e, w') \<Rightarrow> e = Undef \<or> holds E b [] (trace w')
      | (Inr a, w') \<Rightarrow> holds E b (S' a) (trace w')"
  proof (cases "loop turn s w")
    case None
    with h show ?thesis by (simp add: iterate_def)
  next
    case (Some x)
    obtain r w' where x: "x = (r, w')" by (cases x)
    have "holds E b (S s) (trace w)" using h assms(2) by (simp add: holds_def)
    then have "case r of Inl e \<Rightarrow> e = Undef \<or> holds E b [] (trace w') | Inr a \<Rightarrow> holds E b (S' a) (trace w')"
    proof (rule loop_partial [OF Some [unfolded x], where I = "\<lambda>s w. holds E b (S s) (trace w)"
            and Q = "\<lambda>r w'. case r of Inl e \<Rightarrow> e = Undef \<or> holds E b [] (trace w') | Inr a \<Rightarrow> holds E b (S' a) (trace w')"])
      fix s and w :: world assume "holds E b (S s) (trace w)"
      with assms(1) [of s] have "case turn s w of (Inl e, w') \<Rightarrow> e = Undef \<or> holds E b [] (trace w')
          | (Inr (Inl s), w') \<Rightarrow> holds E b (S s) (trace w') | (Inr (Inr a), w') \<Rightarrow> holds E b (S' a) (trace w')"
        by (simp add: round_holds_def)
      then show "case turn s w of
          (Inl e, w') \<Rightarrow> (case Inl e of Inl e \<Rightarrow> e = Undef \<or> holds E b [] (trace w') | Inr a \<Rightarrow> holds E b (S' a) (trace w'))
        | (Inr (Inr a), w') \<Rightarrow> (case Inr a of Inl e \<Rightarrow> e = Undef \<or> holds E b [] (trace w') | Inr a \<Rightarrow> holds E b (S' a) (trace w'))
        | (Inr (Inl s'), w') \<Rightarrow> holds E b (S s') (trace w')"
        by (simp split: prod.splits sum.splits)
    qed
    with Some x show ?thesis by (simp add: iterate_def split: sum.splits)
  qed
qed

text \<open>Rules for the rounds, as for \<open>releases\<close>.\<close>

named_theorems round_rules \<open>the blocks held after a round of a loop\<close>

lemma round_again [round_rules]:
  "(\<And>p. p \<noteq> 0 \<Longrightarrow> count_list H p = count_list (S s) p) \<Longrightarrow> round_holds E b H S S' (again s)"
  by (simp add: round_holds_def holds_def)

lemma round_leave [round_rules]:
  "(\<And>p. p \<noteq> 0 \<Longrightarrow> count_list H p = count_list (S' a) p) \<Longrightarrow> round_holds E b H S S' (leave a)"
  by (simp add: round_holds_def holds_def)

lemma round_error [round_rules]: "round_holds E b [] S S' (fatal E L g e)"
proof -
  have "case fatal E L g e w of (Inl x, w') \<Rightarrow> x = Undef \<or> holds E b [] (trace w')
      | (Inr (Inl s), w') \<Rightarrow> holds E b (S s) (trace w') | (Inr (Inr a), w') \<Rightarrow> holds E b (S' a) (trace w')"
    if "holds E b [] (trace w)" for w :: world
    using that by (auto simp: fatal_def luaL_error_def lua_gettop_def seq_def lbind_def askst_def split: option.split)
  then show ?thesis by (simp add: round_holds_def)
qed

lemma round_if [round_rules]:
  "(c \<Longrightarrow> round_holds E b H S S' m) \<Longrightarrow> (\<not> c \<Longrightarrow> round_holds E b H S S' k) \<Longrightarrow> round_holds E b H S S' (if c then m else k)"
  by simp

lemma round_bind:
  assumes "\<And>w. holds E b H (trace w) \<Longrightarrow> \<exists>a w'. m w = (Inr a, w') \<and> holds E b (H' a) (trace w')"
    and "\<And>a. round_holds E b (H' a) S S' (f a)"
  shows "round_holds E b H S S' (lbind m f)"
  using assms unfolding round_holds_def lbind_def by fastforce

lemma round_call [round_rules]:
  assumes "g \<noteq> ''malloc''" and "g \<noteq> ''calloc''" and "g \<noteq> ''strdup''" and "g \<noteq> ''free''"
    and "\<And>r. round_holds E b H S S' (f r)"
  shows "round_holds E b H S S' (lbind (ccall E g as) f)"
  by (rule round_bind [where H' = "\<lambda>_. H", OF _ assms(5)]) (use assms(1-4) in \<open>simp add: ccall_run holds_def\<close>)

lemma round_alloc [round_rules]:
  assumes "g = ''malloc'' \<or> g = ''calloc'' \<or> g = ''strdup''"
    and "round_holds E b H S S' (f 0)" and "\<And>p. p \<noteq> 0 \<Longrightarrow> round_holds E b (p # H) S S' (f p)"
  shows "round_holds E b H S S' (lbind (ccall_rc E g as) f)"
proof (rule round_bind [where H' = "\<lambda>p. if p = 0 then H else p # H"])
  show "round_holds E b (if p = 0 then H else p # H) S S' (f p)" for p using assms(2,3) by simp
qed (use assms(1) in \<open>auto simp: ccall_rc_run holds_def\<close>)

lemma round_free [round_rules]:
  assumes "p = 0 \<or> p \<in> set H" and "\<And>r. round_holds E b (remove1 p H) S S' (f r)"
  shows "round_holds E b H S S' (lbind (ccall E ''free'' [AInt p]) f)"
proof (rule round_bind [where H' = "\<lambda>_. remove1 p H"])
  have "int (count_list (remove1 p H) q) = int (count_list H q) - (if q = p \<and> p \<in> set H then 1 else 0)" for q
    by (induction H) auto
  then show "\<exists>a w'. ccall E ''free'' [AInt p] w = (Inr a, w') \<and> holds E b (remove1 p H) (trace w')"
    if "holds E b H (trace w)" for w
    using that assms(1) by (auto simp: ccall_run holds_def)
qed (rule assms(2))

text \<open>An allocation whose whole reply is used.\<close>

lemma releases_alloc_call:
  assumes "g = ''malloc'' \<or> g = ''calloc'' \<or> g = ''strdup''"
    and "\<And>r. rc r = 0 \<Longrightarrow> releases E b S (f r)" and "\<And>r. rc r \<noteq> 0 \<Longrightarrow> releases E b (rc r # S) (f r)"
  shows "releases E b S (lbind (ccall E g as) f)"
proof (rule releases_lbind [where S' = "\<lambda>r. if rc r = 0 then S else rc r # S"])
  show "releases E b (if rc r = 0 then S else rc r # S) (f r)" for r using assms(2,3) by simp
qed (use assms(1) in \<open>auto simp: ccall_run holds_def\<close>)

lemma releases_case_prod:
  "(\<And>x y. v = (x, y) \<Longrightarrow> releases E b S (f x y)) \<Longrightarrow> releases E b S (case v of (x, y) \<Rightarrow> f x y)"
  by (simp split: prod.split)

end
