(* ===== verification/Unistd.thy ===== *)
theory Unistd
  imports Loops Handle Mac Pthread_Copy
begin

text \<open>
  \<^verbatim>\<open>unistd/lua_unistd.c\<close>: the functions of \<^verbatim>\<open>unistd.h\<close>. Most check their arguments, make one call and report its
  result in one of the ways that come first here.
\<close>

definition SETMODE_METATABLE :: string where
  "SETMODE_METATABLE = ''setmode''"

section \<open>Ways to report a result\<close>

definition int_result :: "env \<Rightarrow> lstate \<Rightarrow> string \<Rightarrow> carg list \<Rightarrow> nat lua" where
  "int_result E L g as =
     lbind (ccall E g as) (\<lambda>r.
     if rc r = -1 then fail E L (errno r)
     else
       seq (lua_pushinteger L (rc r))
       (ret 1))"

definition string_result :: "env \<Rightarrow> lstate \<Rightarrow> string \<Rightarrow> carg list \<Rightarrow> nat lua" where
  "string_result E L g as =
     lbind (ccall E g as) (\<lambda>r.
     if rc r = -1 then fail E L (errno r)
     else
       seq (lua_pushstring L (outs r))
       (ret 1))"

text \<open>Several integers, stored through pointers.\<close>

fun push_outs :: "lstate \<Rightarrow> cres \<Rightarrow> nat list \<Rightarrow> unit lua" where
  "push_outs L r [] = ret ()"
| "push_outs L r (i # is) =
     seq (lua_pushinteger L (outi r i))
     (push_outs L r is)"

definition ints_result :: "env \<Rightarrow> lstate \<Rightarrow> string \<Rightarrow> carg list \<Rightarrow> nat \<Rightarrow> nat lua" where
  "ints_result E L g as n =
     lbind (ccall E g as) (\<lambda>r.
     if rc r = -1 then fail E L (errno r)
     else
       seq (push_outs L r [1..<Suc n])
       (ret n))"

text \<open>Functions that return an error number.\<close>

definition name_result :: "env \<Rightarrow> lstate \<Rightarrow> string \<Rightarrow> carg list \<Rightarrow> nat lua" where
  "name_result E L g as =
     lbind (ccall E g as) (\<lambda>r.
     if rc r \<noteq> 0 then fail E L (rc r)
     else
       seq (lua_pushstring L (outs r))
       (ret 1))"

text \<open>Limits of the system: -1 without an error number means that there is none.\<close>

definition limit_result :: "env \<Rightarrow> lstate \<Rightarrow> string \<Rightarrow> carg list \<Rightarrow> nat lua" where
  "limit_result E L g as =
     lbind (ccall E g as) (\<lambda>r.
     if rc r = -1 then
       if errno r = 0 then ret 0
       else fail E L (errno r)
     else
       seq (lua_pushinteger L (rc r))
       (ret 1))"

text \<open>Functions that do not fail.\<close>

definition int_of_call :: "env \<Rightarrow> lstate \<Rightarrow> string \<Rightarrow> carg list \<Rightarrow> nat lua" where
  "int_of_call E L g as =
     lbind (ccall E g as) (\<lambda>r.
     seq (lua_pushinteger L (rc r))
     (ret 1))"

definition bool_of_call :: "env \<Rightarrow> lstate \<Rightarrow> string \<Rightarrow> carg list \<Rightarrow> nat lua" where
  "bool_of_call E L g as =
     lbind (ccall E g as) (\<lambda>r.
     seq (lua_pushboolean L (rc r \<noteq> 0))
     (ret 1))"

definition void_call :: "env \<Rightarrow> lstate \<Rightarrow> string \<Rightarrow> carg list \<Rightarrow> nat lua" where
  "void_call E L g as = seq (ccall E g as) (ret 0)"

text \<open>\<^verbatim>\<open>lua_pushstring\<close> of a pointer, and the end of a string that was written into a \<^verbatim>\<open>luaL_Buffer\<close>.\<close>

definition push_text :: "lstate \<Rightarrow> cres \<Rightarrow> unit lua" where
  "push_text L r = lua_push L (if rc r = 0 then LNil else LString (outs r))"

definition pushresult :: "env \<Rightarrow> lstate \<Rightarrow> string \<Rightarrow> nat lua" where
  "pushresult E L str =
     seq (if bufslot E then lua_pop L 1 else ret ())
    (seq (lua_pushstring L str)
     (ret 1))"

section \<open>The functions\<close>

definition l_fork :: "env \<Rightarrow> lstate \<Rightarrow> nat lua" where
  "l_fork E L = int_result E L ''fork'' []"

definition l__Fork :: "env \<Rightarrow> lstate \<Rightarrow> nat lua" where
  "l__Fork E L = int_result E L ''_Fork'' []"

text \<open>The process ends here, and this thread with it.\<close>

definition l__exit :: "env \<Rightarrow> lstate \<Rightarrow> nat lua" where
  "l__exit E L =
     lbind (luaL_optinteger E L 1 0) (\<lambda>status.
     seq (ccall E ''_exit'' [AInt (to_int status)])
     (throw (ThreadExit L)))"

definition l_access :: "env \<Rightarrow> lstate \<Rightarrow> nat lua" where
  "l_access E L =
     lbind (luaL_checkstring E L 1) (\<lambda>path.
     lbind (luaL_checkinteger E L 2) (\<lambda>md.
     report E L ''access'' [AStr path, AInt (to_int md)]))"

definition l_eaccess :: "env \<Rightarrow> lstate \<Rightarrow> nat lua" where
  "l_eaccess E L =
     lbind (luaL_checkstring E L 1) (\<lambda>path.
     lbind (luaL_checkinteger E L 2) (\<lambda>md.
     report E L ''eaccess'' [AStr path, AInt (to_int md)]))"

definition l_faccessat :: "env \<Rightarrow> lstate \<Rightarrow> nat lua" where
  "l_faccessat E L =
     lbind (luaL_checkinteger E L 1) (\<lambda>dfd.
     lbind (luaL_checkstring E L 2) (\<lambda>path.
     lbind (luaL_checkinteger E L 3) (\<lambda>md.
     lbind (luaL_optinteger E L 4 0) (\<lambda>flag.
     report E L ''faccessat'' [AInt (to_int dfd), AStr path, AInt (to_int md), AInt (to_int flag)]))))"

definition l_acct :: "env \<Rightarrow> lstate \<Rightarrow> nat lua" where
  "l_acct E L =
     lbind (luaL_optstring E L 1) (\<lambda>path.
     report E L ''acct'' [ptr_or_null path])"

definition l_chdir :: "env \<Rightarrow> lstate \<Rightarrow> nat lua" where
  "l_chdir E L =
     lbind (luaL_checkstring E L 1) (\<lambda>path.
     report E L ''chdir'' [AStr path])"

definition l_fchdir :: "env \<Rightarrow> lstate \<Rightarrow> nat lua" where
  "l_fchdir E L =
     lbind (luaL_checkinteger E L 1) (\<lambda>fd.
     report E L ''fchdir'' [AInt (to_int fd)])"

definition l_check_utility_compat :: "env \<Rightarrow> lstate \<Rightarrow> nat lua" where
  "l_check_utility_compat E L =
     lbind (luaL_checkstring E L 1) (\<lambda>utils.
     lbind (ccall E ''check_utility_compat'' [AStr utils]) (\<lambda>r.
     seq (lua_pushboolean L (rc r = 0))
     (ret 1)))"

definition l_chown :: "env \<Rightarrow> lstate \<Rightarrow> nat lua" where
  "l_chown E L =
     lbind (luaL_checkstring E L 1) (\<lambda>path.
     lbind (luaL_checkinteger E L 2) (\<lambda>owner.
     lbind (luaL_checkinteger E L 3) (\<lambda>group.
     report E L ''chown'' [AStr path, AInt (to_uint owner), AInt (to_uint group)])))"

definition l_fchown :: "env \<Rightarrow> lstate \<Rightarrow> nat lua" where
  "l_fchown E L =
     lbind (checkfd E L 1) (\<lambda>fd.
     lbind (luaL_checkinteger E L 2) (\<lambda>owner.
     lbind (luaL_checkinteger E L 3) (\<lambda>group.
     report E L ''fchown'' [AInt fd, AInt (to_uint owner), AInt (to_uint group)])))"

definition l_lchown :: "env \<Rightarrow> lstate \<Rightarrow> nat lua" where
  "l_lchown E L =
     lbind (luaL_checkstring E L 1) (\<lambda>path.
     lbind (luaL_checkinteger E L 2) (\<lambda>owner.
     lbind (luaL_checkinteger E L 3) (\<lambda>group.
     report E L ''lchown'' [AStr path, AInt (to_uint owner), AInt (to_uint group)])))"

definition l_fchownat :: "env \<Rightarrow> lstate \<Rightarrow> nat lua" where
  "l_fchownat E L =
     lbind (luaL_checkinteger E L 1) (\<lambda>dfd.
     lbind (luaL_checkstring E L 2) (\<lambda>path.
     lbind (luaL_checkinteger E L 3) (\<lambda>owner.
     lbind (luaL_checkinteger E L 4) (\<lambda>group.
     lbind (luaL_optinteger E L 5 0) (\<lambda>flag.
     report E L ''fchownat'' [AInt (to_int dfd), AStr path, AInt (to_uint owner), AInt (to_uint group), AInt (to_int flag)])))))"

definition l_chroot :: "env \<Rightarrow> lstate \<Rightarrow> nat lua" where
  "l_chroot E L =
     lbind (luaL_checkstring E L 1) (\<lambda>dirname.
     report E L ''chroot'' [AStr dirname])"

definition l_fchroot :: "env \<Rightarrow> lstate \<Rightarrow> nat lua" where
  "l_fchroot E L =
     lbind (luaL_checkinteger E L 1) (\<lambda>dfd.
     report E L ''fchroot'' [AInt (to_int dfd)])"

definition l_close :: "env \<Rightarrow> lstate \<Rightarrow> nat lua" where
  "l_close E L =
     lbind (checkfd E L 1) (\<lambda>fd.
     report E L ''close'' [AInt fd])"

definition l_close_range :: "env \<Rightarrow> lstate \<Rightarrow> nat lua" where
  "l_close_range E L =
     lbind (checkfd E L 1) (\<lambda>lowfd.
     lbind (checkfd E L 2) (\<lambda>highfd.
     lbind (luaL_optinteger E L 3 0) (\<lambda>flags.
     report E L ''close_range'' [AInt (to_uint lowfd), AInt (to_uint highfd), AInt (to_int flags)])))"

definition l_closefrom :: "env \<Rightarrow> lstate \<Rightarrow> nat lua" where
  "l_closefrom E L =
     lbind (checkfd E L 1) (\<lambda>lowfd.
     void_call E L ''closefrom'' [AInt lowfd])"

text \<open>
  The buffer grows until it takes the value. The result counts the byte that ends the string too.
\<close>

definition confstr_turn :: "env \<Rightarrow> lstate \<Rightarrow> int \<Rightarrow> int \<times> int \<Rightarrow> (int \<times> int + int \<times> cres) lua" where
  "confstr_turn E L name = (\<lambda>(val, len).
     lbind (ccall E ''confstr'' [AInt (to_int name), AInt val, AInt len]) (\<lambda>r.
     if rc r \<le> len then leave (val, r)
     else
       seq (ccall E ''free'' [AInt val])
      (lbind (ccall_rc E ''malloc'' [AInt (to_size_t (rc r * 2))]) (\<lambda>val.
       if val = 0 then fatal E L ''malloc'' (const E ''ENOMEM'')
       else again (val, to_size_t (rc r * 2))))))"

definition l_confstr :: "env \<Rightarrow> lstate \<Rightarrow> nat lua" where
  "l_confstr E L =
     lbind (luaL_checkinteger E L 1) (\<lambda>name.
     lbind (iterate (confstr_turn E L name) (0, 0)) (\<lambda>(val, r).
     if rc r = 0 then
       seq (ccall E ''free'' [AInt val])
       (if errno r = 0 then ret 0 else fail E L (errno r))
     else
       lbind (ccall E ''load'' [AInt val, AInt (rc r)]) (\<lambda>m.
       seq (lua_pushstring L (outs m))
      (seq (ccall E ''free'' [AInt val])
       (ret 1)))))"

text \<open>An offset is \<^verbatim>\<open>NULL\<close> for nil, else a local variable that the system call updates.\<close>

definition opt_offset :: "env \<Rightarrow> lstate \<Rightarrow> int \<Rightarrow> int option lua" where
  "opt_offset E L i =
     lbind (lua_type L i) (\<lambda>t.
     if t = LUA_TNIL then ret None
     else lbind (luaL_checkinteger E L i) (\<lambda>off. ret (Some off)))"

definition offset_arg :: "int option \<Rightarrow> carg" where
  "offset_arg off = (case off of None \<Rightarrow> ANull | Some i \<Rightarrow> AInt i)"

definition push_offset :: "lstate \<Rightarrow> int option \<Rightarrow> int \<Rightarrow> unit lua" where
  "push_offset L off out = (case off of None \<Rightarrow> lua_pushnil L | Some _ \<Rightarrow> lua_pushinteger L out)"

definition l_copy_file_range :: "env \<Rightarrow> lstate \<Rightarrow> nat lua" where
  "l_copy_file_range E L =
     lbind (checkfd E L 1) (\<lambda>infd.
     lbind (opt_offset E L 2) (\<lambda>inoff.
     lbind (checkfd E L 3) (\<lambda>outfd.
     lbind (opt_offset E L 4) (\<lambda>outoff.
     lbind (luaL_checkinteger E L 5) (\<lambda>len.
     lbind (luaL_optinteger E L 6 0) (\<lambda>flags.
     lbind (ccall E ''copy_file_range'' [AInt infd, offset_arg inoff, AInt outfd, offset_arg outoff,
       AInt (to_size_t len), AInt (to_uint flags)]) (\<lambda>r.
     if rc r = -1 then fail E L (errno r)
     else
       seq (lua_pushinteger L (rc r))
      (seq (push_offset L inoff (outi r 1))
      (seq (push_offset L outoff (outi r 2))
       (ret 3))))))))))"

definition l_dup :: "env \<Rightarrow> lstate \<Rightarrow> nat lua" where
  "l_dup E L =
     lbind (checkfd E L 1) (\<lambda>oldd.
     int_result E L ''dup'' [AInt oldd])"

definition l_dup2 :: "env \<Rightarrow> lstate \<Rightarrow> nat lua" where
  "l_dup2 E L =
     lbind (checkfd E L 1) (\<lambda>oldd.
     lbind (checkfd E L 2) (\<lambda>newd.
     lbind (ccall E ''dup2'' [AInt oldd, AInt newd]) (\<lambda>r.
     if rc r = -1 then fail E L (errno r)
     else
       seq (lua_pushinteger L newd)
       (ret 1))))"

definition l_dup3 :: "env \<Rightarrow> lstate \<Rightarrow> nat lua" where
  "l_dup3 E L =
     lbind (checkfd E L 1) (\<lambda>oldd.
     lbind (checkfd E L 2) (\<lambda>newd.
     lbind (luaL_optinteger E L 3 0) (\<lambda>flags.
     lbind (ccall E ''dup3'' [AInt oldd, AInt newd, AInt (to_int flags)]) (\<lambda>r.
     if rc r = -1 then fail E L (errno r)
     else
       seq (lua_pushinteger L newd)
       (ret 1)))))"

definition l_getusershell :: "env \<Rightarrow> lstate \<Rightarrow> nat lua" where
  "l_getusershell E L =
     lbind (ccall E ''getusershell'' []) (\<lambda>r.
     seq (push_text L r)
     (ret 1))"

definition l_setusershell :: "env \<Rightarrow> lstate \<Rightarrow> nat lua" where
  "l_setusershell E L = void_call E L ''setusershell'' []"

definition l_endusershell :: "env \<Rightarrow> lstate \<Rightarrow> nat lua" where
  "l_endusershell E L = void_call E L ''endusershell'' []"

definition l_enter_restricted_mode :: "env \<Rightarrow> lstate \<Rightarrow> nat lua" where
  "l_enter_restricted_mode E L = void_call E L ''__FreeBSD_libc_enter_restricted_mode'' []"

definition l_fdatasync :: "env \<Rightarrow> lstate \<Rightarrow> nat lua" where
  "l_fdatasync E L =
     lbind (checkfd E L 1) (\<lambda>fd.
     report E L ''fdatasync'' [AInt fd])"

definition l_fsync :: "env \<Rightarrow> lstate \<Rightarrow> nat lua" where
  "l_fsync E L =
     lbind (checkfd E L 1) (\<lambda>fd.
     report E L ''fsync'' [AInt fd])"

definition l_sync :: "env \<Rightarrow> lstate \<Rightarrow> nat lua" where
  "l_sync E L = void_call E L ''sync'' []"

definition l_feature_present :: "env \<Rightarrow> lstate \<Rightarrow> nat lua" where
  "l_feature_present E L =
     lbind (luaL_checkstring E L 1) (\<lambda>feature.
     bool_of_call E L ''feature_present'' [AStr feature])"

definition l_fflagstostr :: "env \<Rightarrow> lstate \<Rightarrow> nat lua" where
  "l_fflagstostr E L =
     lbind (luaL_checkinteger E L 1) (\<lambda>flags.
     lbind (ccall E ''fflagstostr'' [AInt (to_size_t flags)]) (\<lambda>r.
     if rc r = 0 then fail E L (const E ''ENOMEM'')
     else
       seq (lua_pushstring L (outs r))
      (seq (ccall E ''free'' [AInt (rc r)])
       (ret 1))))"

text \<open>On failure the library makes \<^verbatim>\<open>str\<close> point to the flag in the string that it does not know: out-value 1.\<close>

definition l_strtofflags :: "env \<Rightarrow> lstate \<Rightarrow> nat lua" where
  "l_strtofflags E L =
     lbind (luaL_checkstring E L 1) (\<lambda>s.
     lbind (ccall_rc E ''strdup'' [AStr s]) (\<lambda>str.
     if str = 0 then fatal E L ''strdup'' (const E ''ENOMEM'')
     else
       lbind (ccall E ''strtofflags'' [AInt str]) (\<lambda>r.
       if rc r \<noteq> 0 then
         seq (luaL_pushfail L)
        (seq (lua_pushstring L (outs r))
        (seq (ccall E ''free'' [AInt (outi r 1)])
         (ret 2)))
       else
         seq (ccall E ''free'' [AInt str])
        (seq (lua_pushinteger L (to_lua_Integer (outi r 2)))
        (seq (lua_pushinteger L (to_lua_Integer (outi r 3)))
         (ret 2))))))"

definition l_pathconf :: "env \<Rightarrow> lstate \<Rightarrow> nat lua" where
  "l_pathconf E L =
     lbind (luaL_checkstring E L 1) (\<lambda>path.
     lbind (luaL_checkinteger E L 2) (\<lambda>nm.
     limit_result E L ''pathconf'' [AStr path, AInt (to_int nm)]))"

definition l_lpathconf :: "env \<Rightarrow> lstate \<Rightarrow> nat lua" where
  "l_lpathconf E L =
     lbind (luaL_checkstring E L 1) (\<lambda>path.
     lbind (luaL_checkinteger E L 2) (\<lambda>nm.
     limit_result E L ''lpathconf'' [AStr path, AInt (to_int nm)]))"

definition l_fpathconf :: "env \<Rightarrow> lstate \<Rightarrow> nat lua" where
  "l_fpathconf E L =
     lbind (checkfd E L 1) (\<lambda>fd.
     lbind (luaL_checkinteger E L 2) (\<lambda>nm.
     limit_result E L ''fpathconf'' [AInt fd, AInt (to_int nm)]))"

definition l_unlink :: "env \<Rightarrow> lstate \<Rightarrow> nat lua" where
  "l_unlink E L =
     lbind (luaL_checkstring E L 1) (\<lambda>path.
     report E L ''unlink'' [AStr path])"

definition l_unlinkat :: "env \<Rightarrow> lstate \<Rightarrow> nat lua" where
  "l_unlinkat E L =
     lbind (luaL_checkinteger E L 1) (\<lambda>dfd.
     lbind (luaL_checkstring E L 2) (\<lambda>path.
     lbind (luaL_optinteger E L 3 0) (\<lambda>flag.
     report E L ''unlinkat'' [AInt (to_int dfd), AStr path, AInt (to_int flag)])))"

definition l_funlinkat :: "env \<Rightarrow> lstate \<Rightarrow> nat lua" where
  "l_funlinkat E L =
     lbind (luaL_checkinteger E L 1) (\<lambda>dfd.
     lbind (luaL_checkstring E L 2) (\<lambda>path.
     lbind (checkfd E L 3) (\<lambda>fd.
     lbind (luaL_optinteger E L 4 0) (\<lambda>flag.
     report E L ''funlinkat'' [AInt (to_int dfd), AStr path, AInt fd, AInt (to_int flag)]))))"

definition l_getcwd :: "env \<Rightarrow> lstate \<Rightarrow> nat lua" where
  "l_getcwd E L =
     lbind (ccall E ''getcwd'' [ANull, AInt 0]) (\<lambda>r.
     if rc r = 0 then fail E L (errno r)
     else
       seq (lua_pushstring L (outs r))
      (seq (ccall E ''free'' [AInt (rc r)])
       (ret 1)))"

definition l_getdomainname :: "env \<Rightarrow> lstate \<Rightarrow> nat lua" where
  "l_getdomainname E L = string_result E L ''getdomainname'' []"

definition l_setdomainname :: "env \<Rightarrow> lstate \<Rightarrow> nat lua" where
  "l_setdomainname E L =
     lbind (luaL_checklstring E L 1) (\<lambda>nm.
     report E L ''setdomainname'' [AStr nm, AInt (int (length nm))])"

definition l_getdtablesize :: "env \<Rightarrow> lstate \<Rightarrow> nat lua" where
  "l_getdtablesize E L = int_of_call E L ''getdtablesize'' []"

definition l_getgid :: "env \<Rightarrow> lstate \<Rightarrow> nat lua" where
  "l_getgid E L = int_of_call E L ''getgid'' []"

definition l_getegid :: "env \<Rightarrow> lstate \<Rightarrow> nat lua" where
  "l_getegid E L = int_of_call E L ''getegid'' []"

definition l_getentropy :: "env \<Rightarrow> lstate \<Rightarrow> nat lua" where
  "l_getentropy E L =
     lbind (luaL_checkinteger E L 1) (\<lambda>buflen.
     seq (luaL_buffinit E L)
    (lbind (ccall E ''getentropy'' [AInt (to_size_t buflen)]) (\<lambda>r.
     if rc r = -1 then fail E L (errno r)
     else pushresult E L (outs r))))"

definition l_getuid :: "env \<Rightarrow> lstate \<Rightarrow> nat lua" where
  "l_getuid E L = int_of_call E L ''getuid'' []"

definition l_geteuid :: "env \<Rightarrow> lstate \<Rightarrow> nat lua" where
  "l_geteuid E L = int_of_call E L ''geteuid'' []"

text \<open>
  The list is asked for again with a larger array, until it fits: \<^verbatim>\<open>ngroups\<close> is its length then. The array is
  copied from its end.
\<close>

definition getgrouplist_turn :: "env \<Rightarrow> lstate \<Rightarrow> string \<Rightarrow> int \<Rightarrow> int \<times> int \<Rightarrow> (int \<times> int + int \<times> int) lua" where
  "getgrouplist_turn E L name basegid = (\<lambda>(groups, ngroups).
     lbind (ccall E ''getgrouplist'' [AStr name, AInt (to_uint basegid), AInt groups, AInt ngroups]) (\<lambda>r.
     if rc r \<noteq> -1 then leave (groups, outi r 1)
     else
       seq (ccall E ''free'' [AInt groups])
      (lbind (ccall_rc E ''malloc'' [AInt (to_size_t (outi r 1 * 4))]) (\<lambda>groups.
       if groups = 0 then fatal E L ''malloc'' (const E ''ENOMEM'')
       else again (groups, outi r 1)))))"

fun push_gids :: "lstate \<Rightarrow> cres \<Rightarrow> nat \<Rightarrow> unit lua" where
  "push_gids L m 0 = ret ()"
| "push_gids L m (Suc n) =
     seq (lua_pushinteger L (to_uint (outi m n)))
    (seq (lua_rawseti L (-2) (int n + 1))
     (push_gids L m n))"

definition push_groups :: "env \<Rightarrow> lstate \<Rightarrow> int \<Rightarrow> int \<Rightarrow> nat lua" where
  "push_groups E L groups ngroups =
     seq (lua_createtable L)
    (lbind (ccall E ''load'' [AInt groups, AInt (ngroups * 4)]) (\<lambda>m.
     seq (push_gids L m (nat ngroups))
    (seq (ccall E ''free'' [AInt groups])
     (ret 1))))"

definition l_getgrouplist :: "env \<Rightarrow> lstate \<Rightarrow> nat lua" where
  "l_getgrouplist E L =
     lbind (luaL_checkstring E L 1) (\<lambda>name.
     lbind (luaL_checkinteger E L 2) (\<lambda>basegid.
     lbind (iterate (getgrouplist_turn E L name basegid) (0, 0)) (\<lambda>(groups, ngroups).
     push_groups E L groups ngroups)))"

text \<open>
  The number of groups is asked for first. When the list grew in between everything is tried again; when it
  shrank, the table still gets the first number of elements.
\<close>

definition getgroups_turn :: "env \<Rightarrow> lstate \<Rightarrow> unit \<Rightarrow> (unit + cres + int \<times> int) lua" where
  "getgroups_turn E L _ =
     lbind (ccall E ''getgroups'' [AInt 0, ANull]) (\<lambda>r.
     if rc r = -1 then leave (Inl r)
     else if rc r = 0 then leave (Inr (0, 0))
     else
       lbind (ccall_rc E ''malloc'' [AInt (to_size_t (rc r * 4))]) (\<lambda>gidset.
       if gidset = 0 then fatal E L ''malloc'' (const E ''ENOMEM'')
       else
         lbind (ccall E ''getgroups'' [AInt (rc r), AInt gidset]) (\<lambda>result.
         if rc result = -1 then
           seq (ccall E ''free'' [AInt gidset])
           (if errno result = const E ''EINVAL'' then again () else leave (Inl result))
         else leave (Inr (gidset, rc r)))))"

definition l_getgroups :: "env \<Rightarrow> lstate \<Rightarrow> nat lua" where
  "l_getgroups E L =
     lbind (iterate (getgroups_turn E L) ()) (\<lambda>res. case res of
       Inl r \<Rightarrow> fail E L (errno r)
     | Inr (gidset, gidsetlen) \<Rightarrow> push_groups E L gidset gidsetlen)"

definition l_gethostname :: "env \<Rightarrow> lstate \<Rightarrow> nat lua" where
  "l_gethostname E L =
     lbind (ccall E ''sysconf'' [AInt (const E ''_SC_HOST_NAME_MAX'')]) (\<lambda>r.
     if rc r = -1 then fatal E L ''sysconf(_SC_HOST_NAME_MAX)'' (errno r)
     else
       lbind (ccall_rc E ''malloc'' [AInt (to_size_t (rc r + 1))]) (\<lambda>name.
       if name = 0 then fatal E L ''malloc'' (const E ''ENOMEM'')
       else
         lbind (ccall E ''gethostname'' [AInt name, AInt (to_size_t (rc r + 1))]) (\<lambda>r.
         if rc r = -1 then
           seq (ccall E ''free'' [AInt name])
           (fail E L (errno r))
         else
           seq (lua_pushstring L (outs r))
          (seq (ccall E ''free'' [AInt name])
           (ret 1)))))"

definition l_sethostname :: "env \<Rightarrow> lstate \<Rightarrow> nat lua" where
  "l_sethostname E L =
     lbind (luaL_checklstring E L 1) (\<lambda>nm.
     report E L ''sethostname'' [AStr nm, AInt (int (length nm))])"

definition l_getlogin :: "env \<Rightarrow> lstate \<Rightarrow> nat lua" where
  "l_getlogin E L = name_result E L ''getlogin_r'' []"

definition l_setlogin :: "env \<Rightarrow> lstate \<Rightarrow> nat lua" where
  "l_setlogin E L =
     lbind (luaL_checkstring E L 1) (\<lambda>nm.
     report E L ''setlogin'' [AStr nm])"

definition l_getloginclass :: "env \<Rightarrow> lstate \<Rightarrow> nat lua" where
  "l_getloginclass E L = string_result E L ''getloginclass'' []"

definition l_setloginclass :: "env \<Rightarrow> lstate \<Rightarrow> nat lua" where
  "l_setloginclass E L =
     lbind (luaL_checkstring E L 1) (\<lambda>nm.
     report E L ''setloginclass'' [AStr nm])"

definition l_getmode :: "env \<Rightarrow> lstate \<Rightarrow> nat lua" where
  "l_getmode E L =
     lbind (checkcookie L 1 SETMODE_METATABLE) (\<lambda>cset.
     lbind (luaL_optinteger E L 2 0) (\<lambda>md.
     int_of_call E L ''getmode'' [APtr cset, AInt (to_ushort md)]))"

definition l_setmode :: "env \<Rightarrow> lstate \<Rightarrow> nat lua" where
  "l_setmode E L =
     lbind (luaL_checkstring E L 1) (\<lambda>md.
     lbind (ccall E ''setmode'' [AStr md]) (\<lambda>r.
     if rc r = 0 then fail E L (errno r)
     else new L (nat (rc r)) SETMODE_METATABLE))"

definition l_setmode_gc :: "env \<Rightarrow> lstate \<Rightarrow> nat lua" where
  "l_setmode_gc E L =
     lbind (checkcookie L 1 SETMODE_METATABLE) (\<lambda>cset.
     void_call E L ''free'' [AInt (int cset)])"

definition l_getosreldate :: "env \<Rightarrow> lstate \<Rightarrow> nat lua" where
  "l_getosreldate E L = int_result E L ''getosreldate'' []"

definition l_getpagesize :: "env \<Rightarrow> lstate \<Rightarrow> nat lua" where
  "l_getpagesize E L = int_of_call E L ''getpagesize'' []"

definition l_getpass :: "env \<Rightarrow> lstate \<Rightarrow> nat lua" where
  "l_getpass E L =
     lbind (luaL_optstring E L 1) (\<lambda>prompt.
     lbind (ccall E ''getpass'' [AStr (case prompt of None \<Rightarrow> [] | Some str \<Rightarrow> str)]) (\<lambda>r.
     seq (push_text L r)
     (ret 1)))"

definition l_getpeereid :: "env \<Rightarrow> lstate \<Rightarrow> nat lua" where
  "l_getpeereid E L =
     lbind (checkfd E L 1) (\<lambda>s.
     ints_result E L ''getpeereid'' [AInt s] 2)"

definition l_getpgrp :: "env \<Rightarrow> lstate \<Rightarrow> nat lua" where
  "l_getpgrp E L = int_of_call E L ''getpgrp'' []"

definition l_getpgid :: "env \<Rightarrow> lstate \<Rightarrow> nat lua" where
  "l_getpgid E L =
     lbind (luaL_checkinteger E L 1) (\<lambda>pid.
     int_result E L ''getpgid'' [AInt (to_int pid)])"

definition l_getpid :: "env \<Rightarrow> lstate \<Rightarrow> nat lua" where
  "l_getpid E L = int_of_call E L ''getpid'' []"

definition l_getppid :: "env \<Rightarrow> lstate \<Rightarrow> nat lua" where
  "l_getppid E L = int_of_call E L ''getppid'' []"

definition l_getresgid :: "env \<Rightarrow> lstate \<Rightarrow> nat lua" where
  "l_getresgid E L = ints_result E L ''getresgid'' [] 3"

definition l_getresuid :: "env \<Rightarrow> lstate \<Rightarrow> nat lua" where
  "l_getresuid E L = ints_result E L ''getresuid'' [] 3"

definition l_setresgid :: "env \<Rightarrow> lstate \<Rightarrow> nat lua" where
  "l_setresgid E L =
     lbind (luaL_checkinteger E L 1) (\<lambda>rgid.
     lbind (luaL_checkinteger E L 2) (\<lambda>egid.
     lbind (luaL_checkinteger E L 3) (\<lambda>sgid.
     report E L ''setresgid'' [AInt (to_uint rgid), AInt (to_uint egid), AInt (to_uint sgid)])))"

definition l_setresuid :: "env \<Rightarrow> lstate \<Rightarrow> nat lua" where
  "l_setresuid E L =
     lbind (luaL_checkinteger E L 1) (\<lambda>ruid.
     lbind (luaL_checkinteger E L 2) (\<lambda>euid.
     lbind (luaL_checkinteger E L 3) (\<lambda>suid.
     report E L ''setresuid'' [AInt (to_uint ruid), AInt (to_uint euid), AInt (to_uint suid)])))"

definition l_getsid :: "env \<Rightarrow> lstate \<Rightarrow> nat lua" where
  "l_getsid E L =
     lbind (luaL_checkinteger E L 1) (\<lambda>pid.
     int_result E L ''getsid'' [AInt (to_int pid)])"

definition l_initgroups :: "env \<Rightarrow> lstate \<Rightarrow> nat lua" where
  "l_initgroups E L =
     lbind (luaL_checkstring E L 1) (\<lambda>nm.
     lbind (luaL_checkinteger E L 2) (\<lambda>basegid.
     report E L ''initgroups'' [AStr nm, AInt (to_uint basegid)]))"

definition l_ttyname :: "env \<Rightarrow> lstate \<Rightarrow> nat lua" where
  "l_ttyname E L =
     lbind (checkfd E L 1) (\<lambda>fd.
     name_result E L ''ttyname_r'' [AInt fd])"

definition l_isatty :: "env \<Rightarrow> lstate \<Rightarrow> nat lua" where
  "l_isatty E L =
     lbind (checkfd E L 1) (\<lambda>fd.
     lbind (ccall E ''isatty'' [AInt fd]) (\<lambda>r.
     seq (lua_pushboolean L (rc r \<noteq> 0))
     (if errno r \<noteq> 0 then
        seq (lua_pushstring L (strerror E (errno r)))
       (seq (lua_pushinteger L (errno r))
        (ret 3))
      else ret 1)))"

definition l_issetugid :: "env \<Rightarrow> lstate \<Rightarrow> nat lua" where
  "l_issetugid E L = bool_of_call E L ''issetugid'' []"

definition l_kcmp :: "env \<Rightarrow> lstate \<Rightarrow> nat lua" where
  "l_kcmp E L =
     lbind (luaL_checkinteger E L 1) (\<lambda>pid1.
     lbind (luaL_checkinteger E L 2) (\<lambda>pid2.
     lbind (luaL_checkinteger E L 3) (\<lambda>typ.
     lbind (luaL_optinteger E L 4 0) (\<lambda>idx1.
     lbind (luaL_optinteger E L 5 0) (\<lambda>idx2.
     int_result E L ''kcmp'' [AInt (to_int pid1), AInt (to_int pid2), AInt (to_int typ), AInt (to_size_t idx1), AInt (to_size_t idx2)])))))"

definition l_link :: "env \<Rightarrow> lstate \<Rightarrow> nat lua" where
  "l_link E L =
     lbind (luaL_checkstring E L 1) (\<lambda>name1.
     lbind (luaL_checkstring E L 2) (\<lambda>name2.
     report E L ''link'' [AStr name1, AStr name2]))"

definition l_linkat :: "env \<Rightarrow> lstate \<Rightarrow> nat lua" where
  "l_linkat E L =
     lbind (luaL_checkinteger E L 1) (\<lambda>dfd1.
     lbind (luaL_checkstring E L 2) (\<lambda>name1.
     lbind (luaL_checkinteger E L 3) (\<lambda>dfd2.
     lbind (luaL_checkstring E L 4) (\<lambda>name2.
     lbind (luaL_optinteger E L 5 0) (\<lambda>flag.
     report E L ''linkat'' [AInt (to_int dfd1), AStr name1, AInt (to_int dfd2), AStr name2, AInt (to_int flag)])))))"

definition l_lockf :: "env \<Rightarrow> lstate \<Rightarrow> nat lua" where
  "l_lockf E L =
     lbind (checkfd E L 1) (\<lambda>fd.
     lbind (luaL_checkinteger E L 2) (\<lambda>cmd.
     lbind (luaL_checkinteger E L 3) (\<lambda>siz.
     report E L ''lockf'' [AInt fd, AInt (to_int cmd), AInt siz])))"

definition l_lseek :: "env \<Rightarrow> lstate \<Rightarrow> nat lua" where
  "l_lseek E L =
     lbind (checkfd E L 1) (\<lambda>fd.
     lbind (luaL_checkinteger E L 2) (\<lambda>offset.
     lbind (luaL_checkinteger E L 3) (\<lambda>whence.
     int_result E L ''lseek'' [AInt fd, AInt offset, AInt (to_int whence)])))"

definition l_mktemp :: "env \<Rightarrow> lstate \<Rightarrow> nat lua" where
  "l_mktemp E L =
     lbind (luaL_checkstring E L 1) (\<lambda>template.
     lbind (ccall E ''strdup'' [AStr template]) (\<lambda>buf.
     if rc buf = 0 then fatal E L ''strdup'' (errno buf)
     else
       lbind (ccall E ''mktemp'' [AInt (rc buf)]) (\<lambda>r.
       if rc r = 0 then
         seq (ccall E ''free'' [AInt (rc buf)])
         (fail E L (errno r))
       else
         seq (lua_pushstring L (outs r))
        (seq (ccall E ''free'' [AInt (rc buf)])
         (ret 1)))))"

definition l_mkstemp :: "env \<Rightarrow> lstate \<Rightarrow> nat lua" where
  "l_mkstemp E L =
     lbind (luaL_checkstring E L 1) (\<lambda>template.
     lbind (ccall E ''strdup'' [AStr template]) (\<lambda>buf.
     if rc buf = 0 then fatal E L ''strdup'' (errno buf)
     else
       lbind (ccall E ''mkstemp'' [AInt (rc buf)]) (\<lambda>r.
       if rc r = -1 then
         seq (ccall E ''free'' [AInt (rc buf)])
         (fail E L (errno r))
       else
         seq (lua_pushinteger L (rc r))
        (seq (lua_pushstring L (outs r))
        (seq (ccall E ''free'' [AInt (rc buf)])
         (ret 2))))))"

definition l_mkdtemp :: "env \<Rightarrow> lstate \<Rightarrow> nat lua" where
  "l_mkdtemp E L =
     lbind (luaL_checkstring E L 1) (\<lambda>template.
     lbind (ccall E ''strdup'' [AStr template]) (\<lambda>buf.
     if rc buf = 0 then fatal E L ''strdup'' (errno buf)
     else
       lbind (ccall E ''mkdtemp'' [AInt (rc buf)]) (\<lambda>r.
       if rc r = 0 then
         seq (ccall E ''free'' [AInt (rc buf)])
         (fail E L (errno r))
       else
         seq (lua_pushstring L (outs r))
        (seq (ccall E ''free'' [AInt (rc buf)])
         (ret 1)))))"

definition l_mkstemps :: "env \<Rightarrow> lstate \<Rightarrow> nat lua" where
  "l_mkstemps E L =
     lbind (luaL_checkstring E L 1) (\<lambda>template.
     lbind (luaL_checkinteger E L 2) (\<lambda>suffixlen.
     lbind (ccall E ''strdup'' [AStr template]) (\<lambda>buf.
     if rc buf = 0 then fatal E L ''strdup'' (errno buf)
     else
       lbind (ccall E ''mkstemps'' [AInt (rc buf), AInt (to_int suffixlen)]) (\<lambda>r.
       if rc r = -1 then
         seq (ccall E ''free'' [AInt (rc buf)])
         (fail E L (errno r))
       else
         seq (lua_pushinteger L (rc r))
        (seq (lua_pushstring L (outs r))
        (seq (ccall E ''free'' [AInt (rc buf)])
         (ret 2)))))))"

definition l_mknod :: "env \<Rightarrow> lstate \<Rightarrow> nat lua" where
  "l_mknod E L =
     lbind (luaL_checkstring E L 1) (\<lambda>path.
     lbind (luaL_checkinteger E L 2) (\<lambda>md.
     lbind (luaL_checkinteger E L 3) (\<lambda>device.
     report E L ''mknod'' [AStr path, AInt (to_ushort md), AInt (to_size_t device)])))"

definition l_pipe2 :: "env \<Rightarrow> lstate \<Rightarrow> nat lua" where
  "l_pipe2 E L =
     lbind (luaL_optinteger E L 1 0) (\<lambda>flags.
     ints_result E L ''pipe2'' [AInt (to_int flags)] 2)"

definition l_read :: "env \<Rightarrow> lstate \<Rightarrow> nat lua" where
  "l_read E L =
     lbind (checkfd E L 1) (\<lambda>fd.
     lbind (luaL_checkinteger E L 2) (\<lambda>nbytes.
     seq (luaL_buffinit E L)
    (lbind (ccall E ''read'' [AInt fd, AInt (to_size_t nbytes)]) (\<lambda>r.
     if rc r = -1 then fail E L (errno r)
     else pushresult E L (outs r)))))"

definition l_pread :: "env \<Rightarrow> lstate \<Rightarrow> nat lua" where
  "l_pread E L =
     lbind (checkfd E L 1) (\<lambda>fd.
     lbind (luaL_checkinteger E L 2) (\<lambda>nbytes.
     lbind (luaL_checkinteger E L 3) (\<lambda>offset.
     seq (luaL_buffinit E L)
    (lbind (ccall E ''pread'' [AInt fd, AInt (to_size_t nbytes), AInt offset]) (\<lambda>r.
     if rc r = -1 then fail E L (errno r)
     else pushresult E L (outs r))))))"

definition l_profil :: "env \<Rightarrow> lstate \<Rightarrow> nat lua" where
  "l_profil E L =
     lbind (luaL_checkinteger E L 1) (\<lambda>siz.
     lbind (luaL_checkinteger E L 2) (\<lambda>offset.
     lbind (luaL_checkinteger E L 3) (\<lambda>scale.
     seq (luaL_buffinit E L)
    (lbind (ccall E ''profil'' [AInt (to_size_t siz), AInt (to_size_t offset), AInt (to_int scale)]) (\<lambda>r.
     if rc r = -1 then fail E L (errno r)
     else pushresult E L (outs r))))))"

definition l_write :: "env \<Rightarrow> lstate \<Rightarrow> nat lua" where
  "l_write E L =
     lbind (checkfd E L 1) (\<lambda>fd.
     lbind (luaL_checklstring E L 2) (\<lambda>buf.
     int_result E L ''write'' [AInt fd, AStr buf, AInt (int (length buf))]))"

definition l_pwrite :: "env \<Rightarrow> lstate \<Rightarrow> nat lua" where
  "l_pwrite E L =
     lbind (checkfd E L 1) (\<lambda>fd.
     lbind (luaL_checklstring E L 2) (\<lambda>buf.
     lbind (luaL_checkinteger E L 3) (\<lambda>offset.
     int_result E L ''pwrite'' [AInt fd, AStr buf, AInt (int (length buf)), AInt offset])))"

definition l_readlink :: "env \<Rightarrow> lstate \<Rightarrow> nat lua" where
  "l_readlink E L =
     lbind (luaL_checkstring E L 1) (\<lambda>path.
     string_result E L ''readlink'' [AStr path])"

definition l_readlinkat :: "env \<Rightarrow> lstate \<Rightarrow> nat lua" where
  "l_readlinkat E L =
     lbind (luaL_checkinteger E L 1) (\<lambda>dfd.
     lbind (luaL_checkstring E L 2) (\<lambda>path.
     string_result E L ''readlinkat'' [AInt (to_int dfd), AStr path]))"

definition l_reboot :: "env \<Rightarrow> lstate \<Rightarrow> nat lua" where
  "l_reboot E L =
     lbind (luaL_checkinteger E L 1) (\<lambda>howto.
     lbind (ccall E ''reboot'' [AInt (to_int howto)]) (\<lambda>r.
     fail E L (errno r)))"

definition l_revoke :: "env \<Rightarrow> lstate \<Rightarrow> nat lua" where
  "l_revoke E L =
     lbind (luaL_checkstring E L 1) (\<lambda>path.
     report E L ''revoke'' [AStr path])"

definition l_rfork :: "env \<Rightarrow> lstate \<Rightarrow> nat lua" where
  "l_rfork E L =
     lbind (luaL_checkinteger E L 1) (\<lambda>flags.
     int_result E L ''rfork'' [AInt (to_int flags)])"

definition l_rmdir :: "env \<Rightarrow> lstate \<Rightarrow> nat lua" where
  "l_rmdir E L =
     lbind (luaL_checkstring E L 1) (\<lambda>path.
     report E L ''rmdir'' [AStr path])"

definition l_setuid :: "env \<Rightarrow> lstate \<Rightarrow> nat lua" where
  "l_setuid E L =
     lbind (luaL_checkinteger E L 1) (\<lambda>uid.
     report E L ''setuid'' [AInt (to_uint uid)])"

definition l_seteuid :: "env \<Rightarrow> lstate \<Rightarrow> nat lua" where
  "l_seteuid E L =
     lbind (luaL_checkinteger E L 1) (\<lambda>euid.
     report E L ''seteuid'' [AInt (to_uint euid)])"

definition l_setgid :: "env \<Rightarrow> lstate \<Rightarrow> nat lua" where
  "l_setgid E L =
     lbind (luaL_checkinteger E L 1) (\<lambda>gid.
     report E L ''setgid'' [AInt (to_uint gid)])"

definition l_setegid :: "env \<Rightarrow> lstate \<Rightarrow> nat lua" where
  "l_setegid E L =
     lbind (luaL_checkinteger E L 1) (\<lambda>egid.
     report E L ''setegid'' [AInt (to_uint egid)])"

text \<open>The array has the length of the table, but is not written before it is handed to the kernel.\<close>

definition group_array :: "env \<Rightarrow> lstate \<Rightarrow> (int \<times> int) lua" where
  "group_array E L =
     lbind (lua_type L 1) (\<lambda>t.
     if t \<le> LUA_TNIL then ret (0, 0)
     else
       seq (luaL_checktype L 1 LUA_TTABLE)
      (lbind (luaL_len E L 1) (\<lambda>len.
       if to_int (int len) = 0 then ret (0, 0)
       else
         lbind (ccall_rc E ''malloc'' [AInt (to_size_t (to_int (int len) * 4))]) (\<lambda>gidset.
         if gidset = 0 then fatal E L ''malloc'' (const E ''ENOMEM'')
         else ret (gidset, to_int (int len))))))"

definition l_setgroups :: "env \<Rightarrow> lstate \<Rightarrow> nat lua" where
  "l_setgroups E L =
     lbind (group_array E L) (\<lambda>(gidset, ngroups).
     lbind (ccall E ''setgroups'' [AInt ngroups, AInt gidset]) (\<lambda>r.
     if rc r = -1 then
       seq (ccall E ''free'' [AInt gidset])
       (fail E L (errno r))
     else
       seq (ccall E ''free'' [AInt gidset])
       (success L)))"

definition l_setpgid :: "env \<Rightarrow> lstate \<Rightarrow> nat lua" where
  "l_setpgid E L =
     lbind (luaL_checkinteger E L 1) (\<lambda>pid.
     lbind (luaL_checkinteger E L 2) (\<lambda>pgid.
     report E L ''setpgid'' [AInt (to_int pid), AInt (to_int pgid)]))"

definition l_setproctitle :: "env \<Rightarrow> lstate \<Rightarrow> nat lua" where
  "l_setproctitle E L =
     lbind (lua_type L 1) (\<lambda>t.
     if t \<le> LUA_TNIL then void_call E L ''setproctitle'' [ANull]
     else
       lbind (luaL_checkstring E L 1) (\<lambda>title.
       lbind (lua_toboolean L 2) (\<lambda>b.
       void_call E L ''setproctitle'' [AStr (if b then ''-%s'' else ''%s''), AStr title])))"

definition l_setproctitle_fast :: "env \<Rightarrow> lstate \<Rightarrow> nat lua" where
  "l_setproctitle_fast E L =
     lbind (lua_type L 1) (\<lambda>t.
     if t \<le> LUA_TNIL then void_call E L ''setproctitle_fast'' [ANull]
     else
       lbind (luaL_checkstring E L 1) (\<lambda>title.
       lbind (lua_toboolean L 2) (\<lambda>b.
       void_call E L ''setproctitle_fast'' [AStr (if b then ''-%s'' else ''%s''), AStr title])))"

definition l_setregid :: "env \<Rightarrow> lstate \<Rightarrow> nat lua" where
  "l_setregid E L =
     lbind (luaL_checkinteger E L 1) (\<lambda>rgid.
     lbind (luaL_checkinteger E L 2) (\<lambda>egid.
     report E L ''setregid'' [AInt (to_uint rgid), AInt (to_uint egid)]))"

definition l_setreuid :: "env \<Rightarrow> lstate \<Rightarrow> nat lua" where
  "l_setreuid E L =
     lbind (luaL_checkinteger E L 1) (\<lambda>ruid.
     lbind (luaL_checkinteger E L 2) (\<lambda>euid.
     report E L ''setreuid'' [AInt (to_uint ruid), AInt (to_uint euid)]))"

definition l_setsid :: "env \<Rightarrow> lstate \<Rightarrow> nat lua" where
  "l_setsid E L = int_result E L ''setsid'' []"

definition l_sleep :: "env \<Rightarrow> lstate \<Rightarrow> nat lua" where
  "l_sleep E L =
     lbind (luaL_checkinteger E L 1) (\<lambda>seconds.
     lbind (ccall E ''sleep'' [AInt (to_uint seconds)]) (\<lambda>r.
     if rc r = 0 then ret 0
     else
       seq (lua_pushinteger L (rc r))
       (ret 1)))"

definition l_swab :: "env \<Rightarrow> lstate \<Rightarrow> nat lua" where
  "l_swab E L =
     lbind (luaL_checklstring E L 1) (\<lambda>src.
     seq (luaL_buffinit E L)
    (lbind (ccall E ''swab'' [AStr src, AInt (int (length src))]) (\<lambda>r.
     pushresult E L (outs r))))"

definition l_swapon :: "env \<Rightarrow> lstate \<Rightarrow> nat lua" where
  "l_swapon E L =
     lbind (luaL_checkstring E L 1) (\<lambda>special.
     report E L ''swapon'' [AStr special])"

definition l_swapoff :: "env \<Rightarrow> lstate \<Rightarrow> nat lua" where
  "l_swapoff E L =
     lbind (luaL_checkstring E L 1) (\<lambda>special.
     lbind (luaL_optinteger E L 2 0) (\<lambda>flags.
     report E L ''swapoff'' [AStr special, AInt (to_uint flags)]))"

definition l_symlink :: "env \<Rightarrow> lstate \<Rightarrow> nat lua" where
  "l_symlink E L =
     lbind (luaL_checkstring E L 1) (\<lambda>name1.
     lbind (luaL_checkstring E L 2) (\<lambda>name2.
     report E L ''symlink'' [AStr name1, AStr name2]))"

definition l_symlinkat :: "env \<Rightarrow> lstate \<Rightarrow> nat lua" where
  "l_symlinkat E L =
     lbind (luaL_checkstring E L 1) (\<lambda>name1.
     lbind (luaL_checkinteger E L 2) (\<lambda>dfd.
     lbind (luaL_checkstring E L 3) (\<lambda>name2.
     report E L ''symlinkat'' [AStr name1, AInt (to_int dfd), AStr name2])))"

definition l_sysconf :: "env \<Rightarrow> lstate \<Rightarrow> nat lua" where
  "l_sysconf E L =
     lbind (luaL_checkinteger E L 1) (\<lambda>nm.
     limit_result E L ''sysconf'' [AInt (to_int nm)])"

definition l_tcgetpgrp :: "env \<Rightarrow> lstate \<Rightarrow> nat lua" where
  "l_tcgetpgrp E L =
     lbind (checkfd E L 1) (\<lambda>fd.
     int_result E L ''tcgetpgrp'' [AInt fd])"

definition l_tcsetpgrp :: "env \<Rightarrow> lstate \<Rightarrow> nat lua" where
  "l_tcsetpgrp E L =
     lbind (checkfd E L 1) (\<lambda>fd.
     lbind (luaL_checkinteger E L 2) (\<lambda>pgrp.
     report E L ''tcsetpgrp'' [AInt fd, AInt (to_int pgrp)]))"

definition l_truncate :: "env \<Rightarrow> lstate \<Rightarrow> nat lua" where
  "l_truncate E L =
     lbind (luaL_checkstring E L 1) (\<lambda>path.
     lbind (luaL_checkinteger E L 2) (\<lambda>len.
     report E L ''truncate'' [AStr path, AInt len]))"

definition l_ftruncate :: "env \<Rightarrow> lstate \<Rightarrow> nat lua" where
  "l_ftruncate E L =
     lbind (checkfd E L 1) (\<lambda>fd.
     lbind (luaL_checkinteger E L 2) (\<lambda>len.
     report E L ''ftruncate'' [AInt fd, AInt len]))"

definition l_ualarm :: "env \<Rightarrow> lstate \<Rightarrow> nat lua" where
  "l_ualarm E L =
     lbind (luaL_checkinteger E L 1) (\<lambda>microseconds.
     lbind (luaL_optinteger E L 2 0) (\<lambda>interval.
     int_result E L ''ualarm'' [AInt (to_uint microseconds), AInt (to_uint interval)]))"

definition l_undelete :: "env \<Rightarrow> lstate \<Rightarrow> nat lua" where
  "l_undelete E L =
     lbind (luaL_checkstring E L 1) (\<lambda>path.
     report E L ''undelete'' [AStr path])"

definition l_usleep :: "env \<Rightarrow> lstate \<Rightarrow> nat lua" where
  "l_usleep E L =
     lbind (luaL_checkinteger E L 1) (\<lambda>microseconds.
     report E L ''usleep'' [AInt (to_uint microseconds)])"

section \<open>The module\<close>

text \<open>\<^verbatim>\<open>fchroot\<close> exists in newer versions of the system.\<close>

definition l_unistd_funcs :: "bool \<Rightarrow> (string \<times> cfunction) list" where
  "l_unistd_funcs newer =
     [(''_Fork'', l__Fork), (''_exit'', l__exit), (''access'', l_access), (''acct'', l_acct),
      (''chdir'', l_chdir), (''check_utility_compat'', l_check_utility_compat), (''chown'', l_chown),
      (''chroot'', l_chroot), (''close'', l_close), (''close_range'', l_close_range),
      (''closefrom'', l_closefrom), (''confstr'', l_confstr), (''copy_file_range'', l_copy_file_range),
      (''dup'', l_dup), (''dup2'', l_dup2), (''dup3'', l_dup3), (''eaccess'', l_eaccess),
      (''endusershell'', l_endusershell), (''enter_restricted_mode'', l_enter_restricted_mode),
      (''faccessat'', l_faccessat), (''fchdir'', l_fchdir), (''fchown'', l_fchown),
      (''fchownat'', l_fchownat)]
     @ (if newer then [(''fchroot'', l_fchroot)] else [])
     @ [(''fdatasync'', l_fdatasync), (''feature_present'', l_feature_present),
      (''fflagstostr'', l_fflagstostr), (''fork'', l_fork), (''fpathconf'', l_fpathconf),
      (''fsync'', l_fsync), (''ftruncate'', l_ftruncate), (''funlinkat'', l_funlinkat),
      (''getcwd'', l_getcwd), (''getdomainname'', l_getdomainname), (''getdtablesize'', l_getdtablesize),
      (''getegid'', l_getegid), (''getentropy'', l_getentropy), (''geteuid'', l_geteuid),
      (''getgid'', l_getgid), (''getgrouplist'', l_getgrouplist), (''getgroups'', l_getgroups),
      (''gethostname'', l_gethostname), (''getlogin'', l_getlogin), (''getloginclass'', l_getloginclass),
      (''getmode'', l_getmode), (''getosreldate'', l_getosreldate), (''getpagesize'', l_getpagesize),
      (''getpass'', l_getpass), (''getpeereid'', l_getpeereid), (''getpgid'', l_getpgid),
      (''getpgrp'', l_getpgrp), (''getpid'', l_getpid), (''getppid'', l_getppid),
      (''getresgid'', l_getresgid), (''getresuid'', l_getresuid), (''getsid'', l_getsid),
      (''getuid'', l_getuid), (''getusershell'', l_getusershell), (''initgroups'', l_initgroups),
      (''isatty'', l_isatty), (''issetugid'', l_issetugid), (''kcmp'', l_kcmp), (''lchown'', l_lchown),
      (''link'', l_link), (''linkat'', l_linkat), (''lockf'', l_lockf), (''lpathconf'', l_lpathconf),
      (''lseek'', l_lseek), (''mkdtemp'', l_mkdtemp), (''mknod'', l_mknod), (''mkstemp'', l_mkstemp),
      (''mkstemps'', l_mkstemps), (''mktemp'', l_mktemp), (''pathconf'', l_pathconf), (''pipe'', l_pipe2),
      (''pipe2'', l_pipe2), (''pread'', l_pread), (''profil'', l_profil), (''pwrite'', l_pwrite),
      (''read'', l_read), (''readlink'', l_readlink), (''readlinkat'', l_readlinkat),
      (''reboot'', l_reboot), (''revoke'', l_revoke), (''rfork'', l_rfork), (''rmdir'', l_rmdir),
      (''setdomainname'', l_setdomainname), (''setegid'', l_setegid), (''seteuid'', l_seteuid),
      (''setgid'', l_setgid), (''setgroups'', l_setgroups), (''sethostname'', l_sethostname),
      (''setlogin'', l_setlogin), (''setloginclass'', l_setloginclass), (''setmode'', l_setmode),
      (''setpgid'', l_setpgid), (''setproctitle'', l_setproctitle),
      (''setproctitle_fast'', l_setproctitle_fast), (''setregid'', l_setregid),
      (''setresgid'', l_setresgid), (''setresuid'', l_setresuid), (''setreuid'', l_setreuid),
      (''setsid'', l_setsid), (''setuid'', l_setuid), (''setusershell'', l_setusershell),
      (''sleep'', l_sleep), (''strtofflags'', l_strtofflags), (''swab'', l_swab), (''swapon'', l_swapon),
      (''swapoff'', l_swapoff), (''symlink'', l_symlink), (''symlinkat'', l_symlinkat), (''sync'', l_sync),
      (''sysconf'', l_sysconf), (''tcgetpgrp'', l_tcgetpgrp), (''tcsetpgrp'', l_tcsetpgrp),
      (''truncate'', l_truncate), (''ttyname'', l_ttyname), (''ualarm'', l_ualarm),
      (''undelete'', l_undelete), (''unlink'', l_unlink), (''unlinkat'', l_unlinkat),
      (''usleep'', l_usleep), (''write'', l_write)]"

definition l_setmode_meta :: "(string \<times> cfunction) list" where
  "l_setmode_meta = [(''__gc'', l_setmode_gc)]"

text \<open>The constants; \<open>H\<close> are the macros that the headers of the system define.\<close>

definition optional :: "string list \<Rightarrow> string \<Rightarrow> string list" where
  "optional H name = (if name \<in> set H then [name] else [])"

definition unistd_names :: "string list \<Rightarrow> string list" where
  "unistd_names H =
     [''_CS_PATH'', ''_CS_POSIX_V6_ILP32_OFF32_CFLAGS'', ''_CS_POSIX_V6_ILP32_OFF32_LDFLAGS'',
        ''_CS_POSIX_V6_ILP32_OFF32_LIBS'', ''_CS_POSIX_V6_ILP32_OFFBIG_CFLAGS'',
        ''_CS_POSIX_V6_ILP32_OFFBIG_LDFLAGS'', ''_CS_POSIX_V6_ILP32_OFFBIG_LIBS'',
        ''_CS_POSIX_V6_LP64_OFF64_CFLAGS'', ''_CS_POSIX_V6_LP64_OFF64_LDFLAGS'',
        ''_CS_POSIX_V6_LP64_OFF64_LIBS'', ''_CS_POSIX_V6_LPBIG_OFFBIG_CFLAGS'',
        ''_CS_POSIX_V6_LPBIG_OFFBIG_LDFLAGS'', ''_CS_POSIX_V6_LPBIG_OFFBIG_LIBS'',
        ''_CS_POSIX_V6_WIDTH_RESTRICTED_ENVS'']
     @ optional H ''COPY_FILE_RANGE_CLONE''
     @ optional H ''COPY_FILE_RANGE_USERFLAGS''
     @ [''_PC_LINK_MAX'', ''_PC_MAX_CANON'', ''_PC_MAX_INPUT'', ''_PC_NAME_MAX'', ''_PC_PATH_MAX'',
        ''_PC_PIPE_BUF'', ''_PC_CHOWN_RESTRICTED'', ''_PC_NO_TRUNC'', ''_PC_VDISABLE'', ''_PC_ASYNC_IO'',
        ''_PC_PRIO_IO'', ''_PC_SYNC_IO'', ''_PC_ALLOC_SIZE_MIN'', ''_PC_FILESIZEBITS'',
        ''_PC_REC_INCR_XFER_SIZE'', ''_PC_REC_MAX_XFER_SIZE'', ''_PC_REC_MIN_XFER_SIZE'',
        ''_PC_REC_XFER_ALIGN'', ''_PC_SYMLINK_MAX'', ''_PC_ACL_EXTENDED'', ''_PC_ACL_PATH_MAX'',
        ''_PC_CAP_PRESENT'', ''_PC_INF_PRESENT'', ''_PC_MAC_PRESENT'', ''_PC_ACL_NFS4'']
     @ optional H ''_PC_DEALLOC_PRESENT''
     @ optional H ''_PC_NAMEDATTR_ENABLED''
     @ optional H ''_PC_HAS_NAMEDATTR''
     @ optional H ''_PC_HAS_HIDDENSYSTEM''
     @ optional H ''_PC_CLONE_BLKSIZE''
     @ optional H ''_PC_CASE_INSENSITIVE''
     @ [''_PC_MIN_HOLE_SIZE'', ''_SC_ARG_MAX'', ''_SC_CHILD_MAX'', ''_SC_CLK_TCK'', ''_SC_NGROUPS_MAX'',
        ''_SC_OPEN_MAX'', ''_SC_JOB_CONTROL'', ''_SC_SAVED_IDS'', ''_SC_VERSION'', ''_SC_BC_BASE_MAX'',
        ''_SC_BC_DIM_MAX'', ''_SC_BC_SCALE_MAX'', ''_SC_BC_STRING_MAX'', ''_SC_COLL_WEIGHTS_MAX'',
        ''_SC_EXPR_NEST_MAX'', ''_SC_LINE_MAX'', ''_SC_RE_DUP_MAX'', ''_SC_2_VERSION'', ''_SC_2_C_BIND'',
        ''_SC_2_C_DEV'', ''_SC_2_CHAR_TERM'', ''_SC_2_FORT_DEV'', ''_SC_2_FORT_RUN'', ''_SC_2_LOCALEDEF'',
        ''_SC_2_SW_DEV'', ''_SC_2_UPE'', ''_SC_STREAM_MAX'', ''_SC_TZNAME_MAX'', ''_SC_ASYNCHRONOUS_IO'',
        ''_SC_MAPPED_FILES'', ''_SC_MEMLOCK'', ''_SC_MEMLOCK_RANGE'', ''_SC_MEMORY_PROTECTION'',
        ''_SC_MESSAGE_PASSING'', ''_SC_PRIORITIZED_IO'', ''_SC_PRIORITY_SCHEDULING'',
        ''_SC_REALTIME_SIGNALS'', ''_SC_SEMAPHORES'', ''_SC_FSYNC'', ''_SC_SHARED_MEMORY_OBJECTS'',
        ''_SC_SYNCHRONIZED_IO'', ''_SC_TIMERS'', ''_SC_AIO_LISTIO_MAX'', ''_SC_AIO_MAX'',
        ''_SC_AIO_PRIO_DELTA_MAX'', ''_SC_DELAYTIMER_MAX'', ''_SC_MQ_OPEN_MAX'', ''_SC_PAGESIZE'',
        ''_SC_RTSIG_MAX'', ''_SC_SEM_NSEMS_MAX'', ''_SC_SEM_VALUE_MAX'', ''_SC_SIGQUEUE_MAX'',
        ''_SC_TIMER_MAX'', ''_SC_2_PBS'', ''_SC_2_PBS_ACCOUNTING'', ''_SC_2_PBS_CHECKPOINT'',
        ''_SC_2_PBS_LOCATE'', ''_SC_2_PBS_MESSAGE'', ''_SC_2_PBS_TRACK'', ''_SC_ADVISORY_INFO'',
        ''_SC_BARRIERS'', ''_SC_CLOCK_SELECTION'', ''_SC_CPUTIME'', ''_SC_FILE_LOCKING'',
        ''_SC_GETGR_R_SIZE_MAX'', ''_SC_GETPW_R_SIZE_MAX'', ''_SC_HOST_NAME_MAX'', ''_SC_LOGIN_NAME_MAX'',
        ''_SC_MONOTONIC_CLOCK'', ''_SC_MQ_PRIO_MAX'', ''_SC_READER_WRITER_LOCKS'', ''_SC_REGEXP'',
        ''_SC_SHELL'', ''_SC_SPAWN'', ''_SC_SPIN_LOCKS'', ''_SC_SPORADIC_SERVER'',
        ''_SC_THREAD_ATTR_STACKADDR'', ''_SC_THREAD_ATTR_STACKSIZE'', ''_SC_THREAD_CPUTIME'',
        ''_SC_THREAD_DESTRUCTOR_ITERATIONS'', ''_SC_THREAD_KEYS_MAX'', ''_SC_THREAD_PRIO_INHERIT'',
        ''_SC_THREAD_PRIO_PROTECT'', ''_SC_THREAD_PRIORITY_SCHEDULING'', ''_SC_THREAD_PROCESS_SHARED'',
        ''_SC_THREAD_SAFE_FUNCTIONS'', ''_SC_THREAD_SPORADIC_SERVER'', ''_SC_THREAD_STACK_MIN'',
        ''_SC_THREAD_THREADS_MAX'', ''_SC_TIMEOUTS'', ''_SC_THREADS'', ''_SC_TRACE'',
        ''_SC_TRACE_EVENT_FILTER'', ''_SC_TRACE_INHERIT'', ''_SC_TRACE_LOG'', ''_SC_TTY_NAME_MAX'',
        ''_SC_TYPED_MEMORY_OBJECTS'', ''_SC_V6_ILP32_OFF32'', ''_SC_V6_ILP32_OFFBIG'',
        ''_SC_V6_LP64_OFF64'', ''_SC_V6_LPBIG_OFFBIG'', ''_SC_IPV6'', ''_SC_RAW_SOCKETS'',
        ''_SC_SYMLOOP_MAX'', ''_SC_ATEXIT_MAX'', ''_SC_IOV_MAX'', ''_SC_PAGE_SIZE'', ''_SC_XOPEN_CRYPT'',
        ''_SC_XOPEN_ENH_I18N'', ''_SC_XOPEN_LEGACY'', ''_SC_XOPEN_REALTIME'',
        ''_SC_XOPEN_REALTIME_THREADS'', ''_SC_XOPEN_SHM'', ''_SC_XOPEN_STREAMS'', ''_SC_XOPEN_UNIX'',
        ''_SC_XOPEN_VERSION'', ''_SC_XOPEN_XCU_VERSION'', ''_SC_NPROCESSORS_CONF'',
        ''_SC_NPROCESSORS_ONLN'', ''_SC_CPUSET_SIZE'']
     @ optional H ''_SC_UEXTERR_MAXLEN''
     @ optional H ''_SC_NSIG''
     @ [''_SC_PHYS_PAGES'', ''STDIN_FILENO'', ''STDOUT_FILENO'', ''STDERR_FILENO'', ''F_ULOCK'',
        ''F_LOCK'', ''F_TLOCK'', ''F_TEST'', ''CLOSE_RANGE_CLOEXEC'']
     @ optional H ''CLOSE_RANGE_CLOFORK''
     @ [''_POSIX_VERSION'', ''_POSIX_BARRIERS'', ''_POSIX_CPUTIME'', ''_POSIX_READER_WRITER_LOCKS'',
        ''_POSIX_REGEXP'', ''_POSIX_SHELL'', ''_POSIX_SPAWN'', ''_POSIX_SPIN_LOCKS'',
        ''_POSIX_THREAD_ATTR_STACKADDR'', ''_POSIX_THREAD_ATTR_STACKSIZE'', ''_POSIX_THREAD_CPUTIME'',
        ''_POSIX_THREAD_PRIO_INHERIT'', ''_POSIX_THREAD_PRIO_PROTECT'',
        ''_POSIX_THREAD_PRIORITY_SCHEDULING'', ''_POSIX_THREAD_PROCESS_SHARED'',
        ''_POSIX_THREAD_SAFE_FUNCTIONS'', ''_POSIX_THREAD_SPORADIC_SERVER'', ''_POSIX_THREADS'',
        ''_POSIX_TRACE'', ''_POSIX_TRACE_EVENT_FILTER'', ''_POSIX_TRACE_INHERIT'', ''_POSIX_TRACE_LOG'',
        ''_POSIX2_C_BIND'', ''_POSIX2_C_DEV'', ''_POSIX2_CHAR_TERM'', ''_POSIX2_FORT_DEV'',
        ''_POSIX2_FORT_RUN'', ''_POSIX2_LOCALEDEF'', ''_POSIX2_PBS'', ''_POSIX2_PBS_ACCOUNTING'',
        ''_POSIX2_PBS_CHECKPOINT'', ''_POSIX2_PBS_LOCATE'', ''_POSIX2_PBS_MESSAGE'',
        ''_POSIX2_PBS_TRACK'', ''_POSIX2_SW_DEV'', ''_POSIX2_UPE'', ''_V6_ILP32_OFF32'',
        ''_V6_ILP32_OFFBIG'', ''_V6_LP64_OFF64'', ''_V6_LPBIG_OFFBIG'', ''_XOPEN_CRYPT'',
        ''_XOPEN_ENH_I18N'', ''_XOPEN_LEGACY'', ''_XOPEN_REALTIME'', ''_XOPEN_REALTIME_THREADS'',
        ''_XOPEN_UNIX'', ''_POSIX2_VERSION'']"

definition luaopen_unistd ::
  "bool \<Rightarrow> string list \<Rightarrow> env \<Rightarrow> (string \<times> (string \<times> cfunction) list) \<times> (string \<times> field) list" where
  "luaopen_unistd newer H E =
     ((SETMODE_METATABLE, l_setmode_meta),
      luaL_newlib (l_unistd_funcs newer) @ DEFINE E [] (unistd_names H))"

end
