(* ===== verification/Unistd_Calls.thy ===== *)
theory Unistd_Calls
  imports Unistd
begin

text \<open>
  What the functions of \<^verbatim>\<open>Unistd\<close> do: memory that is freed, and failures that are reported.
\<close>

section \<open>Memory\<close>

lemma leaves_push_outs [leaves_rules]: "leaves trace (push_outs L r is)" "leaves uds (push_outs L r is)"
  by (induction "is") (simp_all add: leaves_rules del: ret_run)

lemma leaves_pushed [leaves_rules]:
  "leaves trace (push_text L r)" "leaves trace (pushresult E L str)" "leaves trace (luaL_buffinit E L)"
  "leaves trace (push_offset L off i)" "leaves trace (opt_offset E L i)"
  by (simp_all add: push_text_def pushresult_def luaL_buffinit_def push_offset_def opt_offset_def leaves_rules
      split: option.split)

lemma releases_results:
  assumes "g \<noteq> ''malloc''" and "g \<noteq> ''calloc''" and "g \<noteq> ''strdup''" and "g \<noteq> ''free''"
  shows "releases E b [] (report E L g as)" "releases E b [] (int_result E L g as)" "releases E b [] (string_result E L g as)"
    "releases E b [] (ints_result E L g as n)" "releases E b [] (name_result E L g as)" "releases E b [] (limit_result E L g as)"
    "releases E b [] (int_of_call E L g as)" "releases E b [] (bool_of_call E L g as)" "releases E b [] (void_call E L g as)"
  using assms
  by (simp_all add: report_def int_result_def string_result_def ints_result_def name_result_def limit_result_def
      int_of_call_def bool_of_call_def void_call_def releases_simps leaves_push_outs del: ret_run upt_Suc)

lemma unistd_releases_1:
  "releases E b [] (l_fork E L)"
  "releases E b [] (l__Fork E L)"
  "releases E b [] (l__exit E L)"
  "releases E b [] (l_access E L)"
  "releases E b [] (l_eaccess E L)"
  "releases E b [] (l_faccessat E L)"
  "releases E b [] (l_acct E L)"
  "releases E b [] (l_chdir E L)"
  "releases E b [] (l_fchdir E L)"
  "releases E b [] (l_check_utility_compat E L)"
  "releases E b [] (l_chown E L)"
  "releases E b [] (l_fchown E L)"
  "releases E b [] (l_lchown E L)"
  "releases E b [] (l_fchownat E L)"
  "releases E b [] (l_chroot E L)"
  by (simp_all add: l_fork_def l__Fork_def l__exit_def l_access_def l_eaccess_def l_faccessat_def l_acct_def
      l_chdir_def l_fchdir_def l_check_utility_compat_def l_chown_def l_fchown_def l_lchown_def
      l_fchownat_def l_chroot_def
      releases_results releases_checkfd releases_simps leaves_pushed del: ret_run)

lemma unistd_releases_2:
  "releases E b [] (l_fchroot E L)"
  "releases E b [] (l_close E L)"
  "releases E b [] (l_close_range E L)"
  "releases E b [] (l_closefrom E L)"
  "releases E b [] (l_copy_file_range E L)"
  "releases E b [] (l_dup E L)"
  "releases E b [] (l_dup2 E L)"
  "releases E b [] (l_dup3 E L)"
  "releases E b [] (l_getusershell E L)"
  "releases E b [] (l_setusershell E L)"
  "releases E b [] (l_endusershell E L)"
  "releases E b [] (l_enter_restricted_mode E L)"
  "releases E b [] (l_fdatasync E L)"
  "releases E b [] (l_fsync E L)"
  "releases E b [] (l_sync E L)"
  by (simp_all add: l_fchroot_def l_close_def l_close_range_def l_closefrom_def l_copy_file_range_def
      l_dup_def l_dup2_def l_dup3_def l_getusershell_def l_setusershell_def l_endusershell_def
      l_enter_restricted_mode_def l_fdatasync_def l_fsync_def l_sync_def
      releases_results releases_checkfd releases_simps leaves_pushed del: ret_run)

lemma unistd_releases_3:
  "releases E b [] (l_feature_present E L)"
  "releases E b [] (l_pathconf E L)"
  "releases E b [] (l_lpathconf E L)"
  "releases E b [] (l_fpathconf E L)"
  "releases E b [] (l_unlink E L)"
  "releases E b [] (l_unlinkat E L)"
  "releases E b [] (l_funlinkat E L)"
  "releases E b [] (l_getdomainname E L)"
  "releases E b [] (l_setdomainname E L)"
  "releases E b [] (l_getdtablesize E L)"
  "releases E b [] (l_getgid E L)"
  "releases E b [] (l_getegid E L)"
  "releases E b [] (l_getentropy E L)"
  "releases E b [] (l_getuid E L)"
  "releases E b [] (l_geteuid E L)"
  by (simp_all add: l_feature_present_def l_pathconf_def l_lpathconf_def l_fpathconf_def l_unlink_def
      l_unlinkat_def l_funlinkat_def l_getdomainname_def l_setdomainname_def l_getdtablesize_def
      l_getgid_def l_getegid_def l_getentropy_def l_getuid_def l_geteuid_def
      releases_results releases_checkfd releases_simps leaves_pushed del: ret_run)

lemma unistd_releases_4:
  "releases E b [] (l_gethostname E L)"
  "releases E b [] (l_sethostname E L)"
  "releases E b [] (l_getlogin E L)"
  "releases E b [] (l_setlogin E L)"
  "releases E b [] (l_getloginclass E L)"
  "releases E b [] (l_setloginclass E L)"
  "releases E b [] (l_getmode E L)"
  "releases E b [] (l_setmode E L)"
  "releases E b [] (l_getosreldate E L)"
  "releases E b [] (l_getpagesize E L)"
  "releases E b [] (l_getpass E L)"
  "releases E b [] (l_getpeereid E L)"
  "releases E b [] (l_getpgrp E L)"
  "releases E b [] (l_getpgid E L)"
  "releases E b [] (l_getpid E L)"
  by (simp_all add: l_gethostname_def l_sethostname_def l_getlogin_def l_setlogin_def l_getloginclass_def
      l_setloginclass_def l_getmode_def l_setmode_def l_getosreldate_def l_getpagesize_def l_getpass_def
      l_getpeereid_def l_getpgrp_def l_getpgid_def l_getpid_def
      releases_results releases_checkfd releases_simps leaves_pushed del: ret_run)

lemma unistd_releases_5:
  "releases E b [] (l_getppid E L)"
  "releases E b [] (l_getresgid E L)"
  "releases E b [] (l_getresuid E L)"
  "releases E b [] (l_setresgid E L)"
  "releases E b [] (l_setresuid E L)"
  "releases E b [] (l_getsid E L)"
  "releases E b [] (l_initgroups E L)"
  "releases E b [] (l_ttyname E L)"
  "releases E b [] (l_isatty E L)"
  "releases E b [] (l_issetugid E L)"
  "releases E b [] (l_kcmp E L)"
  "releases E b [] (l_link E L)"
  "releases E b [] (l_linkat E L)"
  "releases E b [] (l_lockf E L)"
  "releases E b [] (l_lseek E L)"
  by (simp_all add: l_getppid_def l_getresgid_def l_getresuid_def l_setresgid_def l_setresuid_def
      l_getsid_def l_initgroups_def l_ttyname_def l_isatty_def l_issetugid_def l_kcmp_def l_link_def
      l_linkat_def l_lockf_def l_lseek_def
      releases_results releases_checkfd releases_simps leaves_pushed del: ret_run)

lemma unistd_releases_6:
  "releases E b [] (l_mknod E L)"
  "releases E b [] (l_pipe2 E L)"
  "releases E b [] (l_read E L)"
  "releases E b [] (l_pread E L)"
  "releases E b [] (l_profil E L)"
  "releases E b [] (l_write E L)"
  "releases E b [] (l_pwrite E L)"
  "releases E b [] (l_readlink E L)"
  "releases E b [] (l_readlinkat E L)"
  "releases E b [] (l_reboot E L)"
  "releases E b [] (l_revoke E L)"
  "releases E b [] (l_rfork E L)"
  "releases E b [] (l_rmdir E L)"
  "releases E b [] (l_setuid E L)"
  "releases E b [] (l_seteuid E L)"
  by (simp_all add: l_mknod_def l_pipe2_def l_read_def l_pread_def l_profil_def l_write_def l_pwrite_def
      l_readlink_def l_readlinkat_def l_reboot_def l_revoke_def l_rfork_def l_rmdir_def l_setuid_def
      l_seteuid_def
      releases_results releases_checkfd releases_simps leaves_pushed del: ret_run)

lemma unistd_releases_7:
  "releases E b [] (l_setgid E L)"
  "releases E b [] (l_setegid E L)"
  "releases E b [] (l_setpgid E L)"
  "releases E b [] (l_setproctitle E L)"
  "releases E b [] (l_setproctitle_fast E L)"
  "releases E b [] (l_setregid E L)"
  "releases E b [] (l_setreuid E L)"
  "releases E b [] (l_setsid E L)"
  "releases E b [] (l_sleep E L)"
  "releases E b [] (l_swab E L)"
  "releases E b [] (l_swapon E L)"
  "releases E b [] (l_swapoff E L)"
  "releases E b [] (l_symlink E L)"
  "releases E b [] (l_symlinkat E L)"
  "releases E b [] (l_sysconf E L)"
  by (simp_all add: l_setgid_def l_setegid_def l_setpgid_def l_setproctitle_def l_setproctitle_fast_def
      l_setregid_def l_setreuid_def l_setsid_def l_sleep_def l_swab_def l_swapon_def l_swapoff_def
      l_symlink_def l_symlinkat_def l_sysconf_def
      releases_results releases_checkfd releases_simps leaves_pushed del: ret_run)

lemma unistd_releases_8:
  "releases E b [] (l_tcgetpgrp E L)"
  "releases E b [] (l_tcsetpgrp E L)"
  "releases E b [] (l_truncate E L)"
  "releases E b [] (l_ftruncate E L)"
  "releases E b [] (l_ualarm E L)"
  "releases E b [] (l_undelete E L)"
  "releases E b [] (l_usleep E L)"
  by (simp_all add: l_tcgetpgrp_def l_tcsetpgrp_def l_truncate_def l_ftruncate_def l_ualarm_def
      l_undelete_def l_usleep_def
      releases_results releases_checkfd releases_simps leaves_pushed del: ret_run)

lemma unistd_releases_temporary:
  "releases E b [] (l_mktemp E L)" "releases E b [] (l_mkstemp E L)" "releases E b [] (l_mkdtemp E L)"
  "releases E b [] (l_mkstemps E L)"
  by (simp_all add: l_mktemp_def l_mkstemp_def l_mkdtemp_def l_mkstemps_def releases_alloc_call releases_simps del: ret_run)

lemma unistd_releases_setgroups: "releases E b [] (l_setgroups E L)"
  by (simp add: l_setgroups_def group_array_def releases_simps del: ret_run)

text \<open>The three loops hold the block in their state, if there is one.\<close>

lemma sure_push_gids [sure_rules]: "sure (push_gids L m n)"
  by (induction n) (simp_all add: sure_rules del: ret_run)

lemma releases_push_groups: "releases E b [p] (push_groups E L p n)"
  by (simp add: push_groups_def releases_simps sure_push_gids del: ret_run)

lemma unistd_releases_confstr: "releases E b [] (l_confstr E L)"
proof -
  have "round_holds E b (case s of (p, _) \<Rightarrow> [p]) (\<lambda>(p, _). [p]) (\<lambda>(p, _). [p]) (confstr_turn E L name s)" for s name
    by (cases s) (simp add: confstr_turn_def round_rules seq_def del: ret_run)
  then have loop: "releases E b [] (lbind (iterate (confstr_turn E L name) (0, 0)) f)"
    if "\<And>a. releases E b (case a of (p, _) \<Rightarrow> [p]) (f a)" for name and f :: "int \<times> cres \<Rightarrow> nat lua"
    by (rule releases_iterate [OF _ _ that]) simp_all
  show ?thesis
    unfolding l_confstr_def
    by (intro releases_lbind_quiet loop) (auto simp: releases_simps simp del: ret_run)
qed

lemma unistd_releases_getgrouplist: "releases E b [] (l_getgrouplist E L)"
proof -
  have "round_holds E b (case s of (p, _) \<Rightarrow> [p]) (\<lambda>(p, _). [p]) (\<lambda>(p, _). [p]) (getgrouplist_turn E L name basegid s)"
    for s name basegid
    by (cases s) (simp add: getgrouplist_turn_def round_rules seq_def del: ret_run)
  then have loop: "releases E b [] (lbind (iterate (getgrouplist_turn E L name basegid) (0, 0)) f)"
    if "\<And>a. releases E b (case a of (p, _) \<Rightarrow> [p]) (f a)" for name basegid and f :: "int \<times> int \<Rightarrow> nat lua"
    by (rule releases_iterate [OF _ _ that]) simp_all
  show ?thesis
    unfolding l_getgrouplist_def
    by (intro releases_lbind_quiet loop) (auto simp: releases_simps releases_push_groups simp del: ret_run)
qed

lemma unistd_releases_getgroups: "releases E b [] (l_getgroups E L)"
proof -
  let ?held = "\<lambda>a. case a of Inl (_ :: cres) \<Rightarrow> [] | Inr (p, _ :: int) \<Rightarrow> [p]"
  have "round_holds E b [] (\<lambda>_. []) ?held (getgroups_turn E L s)" for s
    by (simp add: getgroups_turn_def round_rules seq_def del: ret_run)
  then have loop: "releases E b [] (lbind (iterate (getgroups_turn E L) ()) f)"
    if "\<And>a. releases E b (?held a) (f a)" for f :: "cres + int \<times> int \<Rightarrow> nat lua"
    by (rule releases_iterate [OF _ _ that]) simp_all
  show ?thesis
    unfolding l_getgroups_def
    by (intro loop) (auto simp: releases_simps releases_push_groups split: sum.split simp del: ret_run)
qed

lemmas unistd_releases =
  unistd_releases_1 unistd_releases_2 unistd_releases_3 unistd_releases_4 unistd_releases_5 unistd_releases_6 unistd_releases_7 unistd_releases_8
  unistd_releases_temporary unistd_releases_setgroups unistd_releases_confstr unistd_releases_getgrouplist
  unistd_releases_getgroups

text \<open>
  C27. No function of \<^verbatim>\<open>unistd\<close> leaks memory or frees it twice, on any path: names that are made, lists of
  groups read in a loop, configuration strings of any length. (Left out are three functions that free a
  string which the library allocated or moved; the block of \<^verbatim>\<open>setmode\<close> belongs to its object.)
\<close>

theorem unistd_frees_all:
  assumes "(name, f) \<in> set (l_unistd_funcs newer)" and "name \<notin> {''getcwd'', ''fflagstostr'', ''strtofflags''}"
    and "p \<noteq> 0" and "fst (f E L w) \<noteq> Inl Undef"
  shows "balance E p (trace (snd (f E L w))) = balance E p (trace w)"
proof -
  have "list_all (\<lambda>(name, f). releases E b [] (f E L) \<or> name \<in> {''getcwd'', ''fflagstostr'', ''strtofflags''})
      (l_unistd_funcs newer)" for b
    by (simp add: l_unistd_funcs_def unistd_releases)
  with assms(1,2) have "releases E b [] (f E L)" for b by (fastforce simp: list_all_iff)
  then show ?thesis
    by (rule releases_balance [where m = "f E L"]) (rule assms(3,4))+
qed

definition nine_env :: env where
  "nine_env = env0\<lparr>reply := (\<lambda>tr c. \<lparr>rc = 9, outi = (\<lambda>_. 0), outs = ''/tmp/xy'', outv = (\<lambda>_. [])\<rparr>)\<rparr>"

theorem unistd_frees_all_witness:
  "balance nine_env 9 (trace (snd (l_mkstemp nine_env 1 (world0 [1 \<mapsto> [LString ''/tmp/XX'']])))) = 0"
proof -
  let ?w = "world0 [1 \<mapsto> [LString ''/tmp/XX'']]"
  have "fst (l_mkstemp nine_env 1 ?w) \<noteq> Inl Undef"
    by (simp add: l_mkstemp_def luaL_checkstring_def luaL_checklstring_def lua_run nine_env_def)
  then show ?thesis
    using unistd_frees_all [of "''mkstemp''" l_mkstemp False 9 nine_env 1 ?w] by (simp add: l_unistd_funcs_def)
qed

section \<open>Failures\<close>

text \<open>
  A result that a Lua program can give to \<^verbatim>\<open>assert\<close>: when the last call failed it is nil, a message and the error
  number, otherwise the first value is something else.
\<close>

definition assertable :: "env \<Rightarrow> lstate \<Rightarrow> nat \<Rightarrow> world \<Rightarrow> bool" where
  "assertable E L n w \<longleftrightarrow> (\<exists>c tr s vs. trace w = c # tr \<and> stacks w L = Some (s @ vs) \<and> length vs = n
     \<and> (if rc (reply E tr c) = -1
        then vs = [LNil, LString (strerror E (errno (reply E tr c))), LInteger (errno (reply E tr c))]
        else \<exists>v us. vs = v # us \<and> v \<noteq> LNil))"

definition reports :: "env \<Rightarrow> lstate \<Rightarrow> nat lua \<Rightarrow> bool" where
  "reports E L m \<longleftrightarrow> (\<forall>w n w'. m w = (Inr n, w') \<longrightarrow> assertable E L n w')"

named_theorems reports_rules \<open>failures are reported\<close>

lemma reports_lbind [reports_rules]: "(\<And>a. reports E L (f a)) \<Longrightarrow> reports E L (lbind m f)"
  by (auto simp: reports_def lbind_def split: prod.splits sum.splits)

lemma reports_seq [reports_rules]: "reports E L k \<Longrightarrow> reports E L (seq m k)"
  by (simp add: seq_def reports_rules)

text \<open>After a call, what is left decides: it pushes the values of a result.\<close>

definition result_of :: "env \<Rightarrow> lstate \<Rightarrow> cres \<Rightarrow> nat lua \<Rightarrow> bool" where
  "result_of E L r m \<longleftrightarrow> (\<forall>w n w'. m w = (Inr n, w') \<longrightarrow> trace w' = trace w
     \<and> (\<exists>s vs. stacks w' L = Some (s @ vs) \<and> length vs = n
       \<and> (if rc r = -1 then vs = [LNil, LString (strerror E (errno r)), LInteger (errno r)]
          else \<exists>v us. vs = v # us \<and> v \<noteq> LNil)))"

lemma reports_call [reports_rules]:
  assumes "\<And>r. result_of E L r (f r)"
  shows "reports E L (lbind (ccall E g as) f)"
  unfolding reports_def
proof (intro allI impI)
  fix w n w' assume run: "lbind (ccall E g as) f w = (Inr n, w')"
  let ?w = "w\<lparr>trace := (g, as) # trace w\<rparr>" and ?r = "reply E (trace w) (g, as)"
  from run have "f ?r ?w = (Inr n, w')" by (simp add: lbind_def ccall_def)
  with assms [of ?r] show "assertable E L n w'"
    unfolding result_of_def assertable_def by fastforce
qed

lemma result_if [reports_rules]:
  "(rc r = -1 \<Longrightarrow> result_of E L r m) \<Longrightarrow> (rc r \<noteq> -1 \<Longrightarrow> result_of E L r k) \<Longrightarrow> result_of E L r (if rc r = -1 then m else k)"
  by simp

lemma result_fail [reports_rules]: "rc r = -1 \<Longrightarrow> result_of E L r (fail E L (errno r))"
  unfolding result_of_def fail_def
  by (auto simp: seq_def lbind_def lua_push_def modst_def split: option.splits)

text \<open>Values pushed one after the other, the first of them not nil.\<close>

lemma result_pushed:
  assumes "rc r \<noteq> -1" and "\<And>w n w'. m w = (Inr n, w') \<Longrightarrow> \<exists>s vs. w' = setst L (s @ vs) w \<and> length vs = n \<and> vs \<noteq> [] \<and> hd vs \<noteq> LNil"
  shows "result_of E L r m"
  unfolding result_of_def
proof (intro allI impI)
  fix w n w' assume "m w = (Inr n, w')"
  from assms(2) [OF this] obtain s y ys where "w' = setst L (s @ y # ys) w" "length (y # ys) = n" "y \<noteq> LNil"
    by (auto simp: neq_Nil_conv)
  then have "trace w' = trace w" "stacks w' L = Some (s @ (y # ys)) \<and> length (y # ys) = n \<and> (\<exists>v us. y # ys = v # us \<and> v \<noteq> LNil)"
    by simp_all
  with assms(1) show "trace w' = trace w \<and> (\<exists>s vs. stacks w' L = Some (s @ vs) \<and> length vs = n
      \<and> (if rc r = -1 then vs = [LNil, LString (strerror E (errno r)), LInteger (errno r)] else \<exists>v us. vs = v # us \<and> v \<noteq> LNil))"
    by metis
qed

lemma result_push [reports_rules]:
  assumes "rc r \<noteq> -1" and "v \<noteq> LNil"
  shows "result_of E L r (seq (lua_push L v) (ret 1))"
proof (rule result_pushed [OF assms(1)])
  fix w and n :: nat and w' assume run: "seq (lua_push L v) (ret 1) w = (Inr n, w')"
  obtain s where "stacks w L = Some s" using run by (cases "stacks w L") (auto simp: seq_def lbind_def lua_push_def modst_def)
  with run assms(2) show "\<exists>s vs. w' = setst L (s @ vs) w \<and> length vs = n \<and> vs \<noteq> [] \<and> hd vs \<noteq> LNil"
    by - (rule exI [of _ s], rule exI [of _ "[v]"], auto simp: lua_run)
qed

lemma result_offsets [reports_rules]:
  assumes "rc r \<noteq> -1" and "v \<noteq> LNil"
  shows "result_of E L r (seq (lua_push L v) (seq (push_offset L a i) (seq (push_offset L b j) (ret 3))))"
proof (rule result_pushed [OF assms(1)])
  fix w and n :: nat and w' assume run: "seq (lua_push L v) (seq (push_offset L a i) (seq (push_offset L b j) (ret 3))) w = (Inr n, w')"
  let ?x = "\<lambda>off k. case off of None \<Rightarrow> LNil | Some (_ :: int) \<Rightarrow> LInteger k"
  have push: "push_offset L off k = lua_push L (?x off k)" for off k by (simp add: push_offset_def split: option.split)
  obtain s where "stacks w L = Some s" using run by (cases "stacks w L") (auto simp: seq_def lbind_def lua_push_def modst_def)
  with run assms(2) show "\<exists>s vs. w' = setst L (s @ vs) w \<and> length vs = n \<and> vs \<noteq> [] \<and> hd vs \<noteq> LNil"
    by - (rule exI [of _ s], rule exI [of _ "[v, ?x a i, ?x b j]"], auto simp: lua_run push)
qed

lemma result_success [reports_rules]: "rc r \<noteq> -1 \<Longrightarrow> result_of E L r (success L)"
  unfolding success_def by (rule result_push) simp_all

lemma result_buffer [reports_rules]:
  assumes "rc r \<noteq> -1"
  shows "result_of E L r (pushresult E L str)"
proof (rule result_pushed [OF assms])
  fix w n w' assume run: "pushresult E L str w = (Inr n, w')"
  obtain s where "stacks w L = Some s"
    using run by (cases "stacks w L") (auto simp: pushresult_def seq_def lbind_def lua_push_def lua_pop_def modst_def split: if_splits)
  with run have "w' = setst L ((if bufslot E then take (length s - 1) s else s) @ [LString str]) w \<and> n = 1"
    by (auto simp: pushresult_def lua_run seq_def lbind_def lua_pop_def modst_def split: if_splits option.splits)
  then show "\<exists>s vs. w' = setst L (s @ vs) w \<and> length vs = n \<and> vs \<noteq> [] \<and> hd vs \<noteq> LNil"
    by - (rule exI [of _ "if bufslot E then take (length s - 1) s else s"], rule exI [of _ "[LString str]"], simp)
qed

lemma push_outs_run:
  "stacks w L = Some s \<Longrightarrow> push_outs L r is w = (Inr (), setst L (s @ map (\<lambda>i. LInteger (outi r i)) is) w)"
  by (induction "is" arbitrary: s w) (simp_all add: lua_run setst_same)

lemma result_ints [reports_rules]:
  assumes "rc r \<noteq> -1" and "0 < n"
  shows "result_of E L r (seq (push_outs L r [1..<Suc n]) (ret n))"
proof (rule result_pushed [OF assms(1)])
  fix w k w' assume run: "seq (push_outs L r [1..<Suc n]) (ret n) w = (Inr k, w')"
  let ?vs = "map (\<lambda>i. LInteger (outi r i)) [1..<Suc n]"
  have first: "[Suc 0..<Suc n] = Suc 0 # [Suc (Suc 0)..<Suc n]" using assms(2) by (simp add: upt_conv_Cons)
  obtain s where s: "stacks w L = Some s"
    using run unfolding One_nat_def first by (cases "stacks w L") (auto simp: seq_def lbind_def lua_push_def modst_def)
  from run push_outs_run [OF s, of r "[1..<Suc n]"] have "setst L (s @ ?vs) w = w' \<and> n = k"
    by (auto simp: seq_def lbind_def simp del: upt_Suc)
  then show "\<exists>s vs. w' = setst L (s @ vs) w \<and> length vs = k \<and> vs \<noteq> [] \<and> hd vs \<noteq> LNil"
    by - (rule exI [of _ s], rule exI [of _ ?vs], use assms(2) in \<open>auto simp: hd_map simp del: upt_Suc\<close>)
qed

lemma reports_results [reports_rules]:
  "reports E L (report E L g as)" "reports E L (int_result E L g as)" "reports E L (string_result E L g as)"
  "0 < n \<Longrightarrow> reports E L (ints_result E L g as n)"
  unfolding report_def int_result_def string_result_def ints_result_def by (intro reports_rules; simp)+

text \<open>The functions with a different result: they cannot fail, or say so in another way.\<close>

definition other_results :: "string list" where
  "other_results =
     [''_exit'', ''check_utility_compat'', ''closefrom'', ''confstr'', ''endusershell'',
      ''enter_restricted_mode'', ''feature_present'', ''fflagstostr'', ''fpathconf'', ''getcwd'',
      ''getdtablesize'', ''getegid'', ''geteuid'', ''getgid'', ''getgrouplist'', ''getgroups'',
      ''gethostname'', ''getlogin'', ''getmode'', ''getpagesize'', ''getpass'', ''getpgrp'', ''getpid'',
      ''getppid'', ''getuid'', ''getusershell'', ''isatty'', ''issetugid'', ''lpathconf'', ''mkdtemp'',
      ''mkstemp'', ''mkstemps'', ''mktemp'', ''pathconf'', ''reboot'', ''setgroups'', ''setmode'',
      ''setproctitle'', ''setproctitle_fast'', ''setusershell'', ''sleep'', ''strtofflags'', ''swab'',
      ''sync'', ''sysconf'', ''ttyname'']"

lemma unistd_reports_dup: "reports E L (l_dup2 E L)" "reports E L (l_dup3 E L)"
  unfolding l_dup2_def l_dup3_def
  by (rule reports_call reports_lbind result_if result_fail reports_seq result_push | assumption | simp)+

lemma unistd_reports_1:
  "reports E L (l_fork E L)"
  "reports E L (l__Fork E L)"
  "reports E L (l_access E L)"
  "reports E L (l_eaccess E L)"
  "reports E L (l_faccessat E L)"
  "reports E L (l_acct E L)"
  "reports E L (l_chdir E L)"
  "reports E L (l_fchdir E L)"
  "reports E L (l_chown E L)"
  "reports E L (l_fchown E L)"
  "reports E L (l_lchown E L)"
  "reports E L (l_fchownat E L)"
  "reports E L (l_chroot E L)"
  "reports E L (l_fchroot E L)"
  "reports E L (l_close E L)"
  "reports E L (l_close_range E L)"
  "reports E L (l_copy_file_range E L)"
  "reports E L (l_dup E L)"
  "reports E L (l_fdatasync E L)"
  "reports E L (l_fsync E L)"
  "reports E L (l_unlink E L)"
  "reports E L (l_unlinkat E L)"
  "reports E L (l_funlinkat E L)"
  by (simp_all add: l_fork_def l__Fork_def l_access_def l_eaccess_def l_faccessat_def l_acct_def l_chdir_def
      l_fchdir_def l_chown_def l_fchown_def l_lchown_def l_fchownat_def l_chroot_def l_fchroot_def l_close_def
      l_close_range_def l_copy_file_range_def l_dup_def l_fdatasync_def l_fsync_def
      l_unlink_def l_unlinkat_def l_funlinkat_def
      reports_rules del: ret_run)

lemma unistd_reports_2:
  "reports E L (l_getdomainname E L)"
  "reports E L (l_setdomainname E L)"
  "reports E L (l_getentropy E L)"
  "reports E L (l_sethostname E L)"
  "reports E L (l_setlogin E L)"
  "reports E L (l_getloginclass E L)"
  "reports E L (l_setloginclass E L)"
  "reports E L (l_getosreldate E L)"
  "reports E L (l_getpeereid E L)"
  "reports E L (l_getpgid E L)"
  "reports E L (l_getresgid E L)"
  "reports E L (l_getresuid E L)"
  "reports E L (l_setresgid E L)"
  "reports E L (l_setresuid E L)"
  "reports E L (l_getsid E L)"
  "reports E L (l_initgroups E L)"
  "reports E L (l_kcmp E L)"
  "reports E L (l_link E L)"
  "reports E L (l_linkat E L)"
  "reports E L (l_lockf E L)"
  "reports E L (l_lseek E L)"
  "reports E L (l_mknod E L)"
  "reports E L (l_pipe2 E L)"
  "reports E L (l_read E L)"
  "reports E L (l_pread E L)"
  by (simp_all add: l_getdomainname_def l_setdomainname_def l_getentropy_def l_sethostname_def l_setlogin_def
      l_getloginclass_def l_setloginclass_def l_getosreldate_def l_getpeereid_def l_getpgid_def
      l_getresgid_def l_getresuid_def l_setresgid_def l_setresuid_def l_getsid_def l_initgroups_def l_kcmp_def
      l_link_def l_linkat_def l_lockf_def l_lseek_def l_mknod_def l_pipe2_def l_read_def l_pread_def
      reports_rules del: ret_run)

lemma unistd_reports_3:
  "reports E L (l_profil E L)"
  "reports E L (l_write E L)"
  "reports E L (l_pwrite E L)"
  "reports E L (l_readlink E L)"
  "reports E L (l_readlinkat E L)"
  "reports E L (l_revoke E L)"
  "reports E L (l_rfork E L)"
  "reports E L (l_rmdir E L)"
  "reports E L (l_setuid E L)"
  "reports E L (l_seteuid E L)"
  "reports E L (l_setgid E L)"
  "reports E L (l_setegid E L)"
  "reports E L (l_setpgid E L)"
  "reports E L (l_setregid E L)"
  "reports E L (l_setreuid E L)"
  "reports E L (l_setsid E L)"
  "reports E L (l_swapon E L)"
  "reports E L (l_swapoff E L)"
  "reports E L (l_symlink E L)"
  "reports E L (l_symlinkat E L)"
  "reports E L (l_tcgetpgrp E L)"
  "reports E L (l_tcsetpgrp E L)"
  "reports E L (l_truncate E L)"
  "reports E L (l_ftruncate E L)"
  "reports E L (l_ualarm E L)"
  by (simp_all add: l_profil_def l_write_def l_pwrite_def l_readlink_def l_readlinkat_def l_revoke_def
      l_rfork_def l_rmdir_def l_setuid_def l_seteuid_def l_setgid_def l_setegid_def l_setpgid_def
      l_setregid_def l_setreuid_def l_setsid_def l_swapon_def l_swapoff_def l_symlink_def l_symlinkat_def
      l_tcgetpgrp_def l_tcsetpgrp_def l_truncate_def l_ftruncate_def l_ualarm_def
      reports_rules del: ret_run)

lemma unistd_reports_4:
  "reports E L (l_undelete E L)"
  "reports E L (l_usleep E L)"
  by (simp_all add: l_undelete_def l_usleep_def
      reports_rules del: ret_run)

lemmas unistd_reports = unistd_reports_dup unistd_reports_1 unistd_reports_2 unistd_reports_3 unistd_reports_4


definition denied_env :: env where
  "denied_env = env0\<lparr>reply := (\<lambda>tr c. \<lparr>rc = -1, outi = (\<lambda>i. if i = 0 then 13 else 0), outs = [], outv = (\<lambda>_. [])\<rparr>),
     strerror := (\<lambda>_. ''Permission denied'')\<rparr>"


end
