(* ===== verification/Unistd_Loops.thy ===== *)
theory Unistd_Loops
  imports Unistd Inotify
begin

text \<open>
  The loops of \<^verbatim>\<open>Unistd\<close> that ask again with a larger buffer: they end when the sizes that the library reports
  are bounded, and the string that \<^verbatim>\<open>confstr\<close> returns.
\<close>

lemma ends_iterate:
  assumes "I s" and "\<And>s. I s \<Longrightarrow> ends (turn s)"
    and "\<And>s w s' w'. I s \<Longrightarrow> turn s w = (Inr (Inl s'), w') \<Longrightarrow> I s' \<and> m s' < (m s :: nat)"
  shows "ends (iterate turn s)"
  unfolding ends_def
proof
  fix w
  have "loop turn s w \<noteq> None"
    by (rule loop_ends [where I = "\<lambda>s _. I s" and m = "\<lambda>s _. m s"]) (use assms(1,3) in blast)+
  then obtain r w' where run: "loop turn s w = Some (r, w')" by auto
  have "r \<noteq> Inl NoFuel"
  proof (rule loop_partial [OF run, where I = "\<lambda>s _. I s" and Q = "\<lambda>r _. r \<noteq> Inl NoFuel"])
    show "I s" by (rule assms(1))
    show "case turn s w of (Inl e, w') \<Rightarrow> Inl e \<noteq> Inl NoFuel | (Inr (Inl s'), w') \<Rightarrow> I s' | (Inr (Inr a), w') \<Rightarrow> Inr a \<noteq> Inl NoFuel"
      if "I s" for s and w :: world
      using assms(2) [OF that] assms(3) [OF that, of w]
      by (auto simp: ends_def split: prod.splits sum.splits) (metis fst_conv)
  qed
  then show "fst (iterate turn s w) \<noteq> Inl NoFuel" by (simp add: iterate_def run)
qed

lemma ends_args: "ends (luaL_checkinteger E L i)" "ends (luaL_checkstring E L i)" "ends (fatal E L g e)" "ends (fail E L e)"
  by (auto simp: ends_def luaL_checkinteger_def luaL_checkstring_def luaL_checklstring_def fatal_def luaL_error_def
      fail_def lua_gettop_def lbind_def seq_def askst_def throw_def ret_def modst_def lua_push_def Let_def
      split: option.splits lval.splits if_splits)

lemma ends_ccall_rc: "ends (ccall_rc E g as)"
  by (simp add: ccall_rc_def ends_rules)

lemma ends_push_groups: "ends (push_groups E L p n)"
proof -
  have "ends (push_gids L m k)" for m k by (induction k) (auto intro!: ends_rules simp del: ret_run)
  then show ?thesis unfolding push_groups_def by (intro ends_rules)
qed

text \<open>One round of each loop that does not leave it.\<close>

lemma confstr_turn_again:
  assumes "confstr_turn E L name (val, len) w = (Inr (Inl (val', len')), w')"
  obtains tr as where "len < rc (reply E tr (''confstr'', as))" "len' = to_size_t (2 * rc (reply E tr (''confstr'', as)))"
proof -
  let ?r = "rc (reply E (trace w) (''confstr'', [AInt (to_int name), AInt val, AInt len]))"
  have "len < ?r \<and> len' = to_size_t (2 * ?r)"
    using assms
    by (auto simp: confstr_turn_def lbind_def seq_def ccall_def ccall_rc_def ret_def fatal_def luaL_error_def throw_def
        lua_gettop_def askst_def mult.commute split: if_splits option.splits sum.splits prod.splits)
  then show ?thesis using that by blast
qed

lemma getgrouplist_turn_again:
  assumes "getgrouplist_turn E L name gid (p, n) w = (Inr (Inl (p', n')), w')"
  obtains tr a b c where "rc (reply E tr (''getgrouplist'', [a, b, c, AInt n])) = -1"
    "n' = outi (reply E tr (''getgrouplist'', [a, b, c, AInt n])) 1"
  using assms that [of "trace w" "AStr name" "AInt (to_uint gid)" "AInt p"]
  by (auto simp: getgrouplist_turn_def lbind_def seq_def ccall_def ccall_rc_def ret_def fatal_def luaL_error_def throw_def
      lua_gettop_def askst_def split: if_splits option.splits sum.splits prod.splits)

lemma confstr_loop_ends:
  assumes "\<And>tr as. rc (reply E tr (''confstr'', as)) \<le> B" and "0 \<le> B" and "B < 2 ^ 62"
  shows "ends (iterate (confstr_turn E L name) (0, 0))"
proof (rule ends_iterate [where I = "\<lambda>(_, len). 0 \<le> len" and m = "\<lambda>(_, len). nat (2 * B - len)"])
  show "ends (confstr_turn E L name s)" for s
    by (cases s) (auto simp: confstr_turn_def intro!: ends_rules ends_args ends_ccall_rc simp del: ret_run)
  fix s s' :: "int \<times> int" and w w'
  assume s: "case s of (_, len) \<Rightarrow> 0 \<le> len" and run: "confstr_turn E L name s w = (Inr (Inl s'), w')"
  obtain val len val' len' where p: "s = (val, len)" "s' = (val', len')" by (cases s, cases s')
  from run [unfolded p] obtain tr as where r: "len < rc (reply E tr (''confstr'', as))"
      "len' = to_size_t (2 * rc (reply E tr (''confstr'', as)))"
    by (rule confstr_turn_again)
  let ?r = "rc (reply E tr (''confstr'', as))"
  have "?r \<le> B" by (rule assms(1))
  with r(1) s p assms(3) have "0 \<le> 2 * ?r" "2 * ?r < 2 ^ 64" by auto
  then have "len' = 2 * ?r" unfolding r(2) by (simp add: to_size_t_def take_bit_int_eq_self)
  with s p r(1) \<open>?r \<le> B\<close> show "(case s' of (_, len) \<Rightarrow> 0 \<le> len) \<and>
      (case s' of (_, len) \<Rightarrow> nat (2 * B - len)) < (case s of (_, len) \<Rightarrow> nat (2 * B - len))"
    by simp
qed simp

lemma getgrouplist_loop_ends:
  assumes "\<And>tr a b c n. rc (reply E tr (''getgrouplist'', [a, b, c, AInt n])) = -1 \<Longrightarrow>
      n < outi (reply E tr (''getgrouplist'', [a, b, c, AInt n])) 1 \<and> outi (reply E tr (''getgrouplist'', [a, b, c, AInt n])) 1 \<le> B"
  shows "ends (iterate (getgrouplist_turn E L name gid) (0, 0))"
proof (rule ends_iterate [where I = "\<lambda>_. True" and m = "\<lambda>(_, n). nat (B - n)"])
  show "ends (getgrouplist_turn E L name gid s)" for s
    by (cases s) (auto simp: getgrouplist_turn_def intro!: ends_rules ends_args ends_ccall_rc simp del: ret_run)
  fix s s' :: "int \<times> int" and w w'
  assume run: "getgrouplist_turn E L name gid s w = (Inr (Inl s'), w')"
  obtain p n p' n' where eq: "s = (p, n)" "s' = (p', n')" by (cases s, cases s')
  from run [unfolded eq] obtain tr a b c where "rc (reply E tr (''getgrouplist'', [a, b, c, AInt n])) = -1"
      "n' = outi (reply E tr (''getgrouplist'', [a, b, c, AInt n])) 1"
    by (rule getgrouplist_turn_again)
  with assms [of tr a b c n] show "True \<and> (case s' of (_, n) \<Rightarrow> nat (B - n)) < (case s of (_, n) \<Rightarrow> nat (B - n))"
    by (simp add: eq)
qed simp

text \<open>
  C29. The functions of \<^verbatim>\<open>unistd\<close> that ask again with a larger buffer come back: \<^verbatim>\<open>confstr\<close> does when the values
  of the system have fewer than 2^62 bytes, even if they change in between, because the buffer doubles;
  \<^verbatim>\<open>getgrouplist\<close> does when the library asks for more room than it got and for no more than some number.
\<close>

theorem unistd_loops_end:
  assumes "\<And>tr as. rc (reply E tr (''confstr'', as)) < 2 ^ 62"
    and "\<And>tr a b c n. rc (reply E tr (''getgrouplist'', [a, b, c, AInt n])) = -1 \<Longrightarrow>
      n < outi (reply E tr (''getgrouplist'', [a, b, c, AInt n])) 1 \<and> outi (reply E tr (''getgrouplist'', [a, b, c, AInt n])) 1 \<le> B"
  shows "fst (l_confstr E L w) \<noteq> Inl NoFuel \<and> fst (l_getgrouplist E L w) \<noteq> Inl NoFuel"
proof -
  have "rc (reply E tr (''confstr'', as)) \<le> 2 ^ 62 - 1" for tr as using assms(1) [of tr as] by simp
  then have "ends (iterate (confstr_turn E L name) (0, 0))" for name by (rule confstr_loop_ends) simp_all
  then have "ends (l_confstr E L)"
    unfolding l_confstr_def by (auto intro!: ends_rules ends_args simp del: ret_run)
  moreover have "ends (iterate (getgrouplist_turn E L name gid) (0, 0))" for name gid
    by (rule getgrouplist_loop_ends [OF assms(2)])
  then have "ends (l_getgrouplist E L)"
    unfolding l_getgrouplist_def by (auto intro!: ends_rules ends_args ends_push_groups simp del: ret_run)
  ultimately show ?thesis by (simp add: ends_def)
qed

text \<open>A system where \<open>PATH\<close> has eight bytes with its end, and where root is in three groups.\<close>

definition sized_env :: env where
  "sized_env = env0\<lparr>reply := (\<lambda>tr c. \<lparr>rc = (if fst c = ''confstr'' then 8
       else if fst c = ''getgrouplist'' then (case snd c of [_, _, _, AInt n] \<Rightarrow> if n < 3 then -1 else 0 | _ \<Rightarrow> 0) else 1),
     outi = (\<lambda>_. 3), outs = ''/bin:/x'' @ [CHR 0x00], outv = (\<lambda>_. [])\<rparr>)\<rparr>"

theorem unistd_loops_end_witness:
  "fst (l_confstr sized_env 1 (world0 [1 \<mapsto> [LInteger 1]])) \<noteq> Inl NoFuel
     \<and> fst (l_getgrouplist sized_env 1 (world0 [1 \<mapsto> [LInteger 1]])) \<noteq> Inl NoFuel"
  by (rule unistd_loops_end [where B = 3]) (simp_all add: sized_env_def split: if_splits)

text \<open>
  The value comes out with the byte that ends it: \<^verbatim>\<open>confstr\<close> counts it, and all the bytes that it counts are read.
\<close>

lemma confstr_value:
  assumes size: "\<And>tr as. rc (reply E tr (''confstr'', as)) = v" "0 < v" "v < 2 ^ 62"
    and mem: "\<And>tr as. rc (reply E tr (''malloc'', as)) = p" "p \<noteq> 0"
    and stack: "stacks w L = Some [LInteger name]"
  shows "\<exists>tr w'. l_confstr E L w = (Inr 1, w')
     \<and> stacks w' L = Some [LInteger name, LString (outs (reply E tr (''load'', [AInt p, AInt v])))]"
proof -
  have len: "to_size_t (v * 2) = 2 * v"
    using size(2,3) by (simp add: to_size_t_def take_bit_int_eq_self)
  let ?ask = "\<lambda>val len. (''confstr'', [AInt (to_int name), AInt val, AInt len])"
  let ?w1 = "w\<lparr>trace := (''malloc'', [AInt (2 * v)]) # (''free'', [AInt 0]) # ?ask 0 0 # trace w\<rparr>"
  let ?w2 = "?w1\<lparr>trace := ?ask p (2 * v) # trace ?w1\<rparr>"
  have first: "confstr_turn E L name (0, 0) w = (Inr (Inl (p, 2 * v)), ?w1)"
    using size mem len by (simp add: confstr_turn_def lua_run ccall_rc_def)
  have second: "confstr_turn E L name (p, 2 * v) ?w1 = (Inr (Inr (p, reply E (trace ?w1) (?ask p (2 * v)))), ?w2)"
    using size by (simp add: confstr_turn_def lua_run)
  have arg: "luaL_checkinteger E L 1 w = (Inr name, w)"
    using stack by (simp add: luaL_checkinteger_def lua_run)
  have "loop (confstr_turn E L name) (p, 2 * v) ?w1 \<noteq> None" using second by (simp add: loop.simps)
  then have "iterate (confstr_turn E L name) (0, 0) w = (Inr (p, reply E (trace ?w1) (?ask p (2 * v))), ?w2)"
    using iterate_again [where turn = "confstr_turn E L name", OF first]
      iterate_run(1) [where turn = "confstr_turn E L name" and s = "(p, 2 * v)", OF second] by simp
  then show ?thesis
    using stack size mem arg
    by (intro exI [of _ "trace ?w2"]) (simp add: l_confstr_def arg lua_run)
qed

end
