(* ===== verification/Xor.thy ===== *)
theory Xor
  imports Utils
begin

unbundle bit_operations_syntax

text \<open>
  \<^verbatim>\<open>xor/lua_xor.c\<close>: a string is combined with a repeated key of four bytes by exclusive or.
\<close>

section \<open>Definitions\<close>

text \<open>
  \<^verbatim>\<open>key[i-1] = lua_tonumber(L, -1)\<close>: the conversion of a double to \<^verbatim>\<open>unsigned char\<close> drops the
  fraction; it is undefined where the rest is not in the range of the type.
\<close>

definition to_uchar :: "lval \<Rightarrow> nat lua" where
  "to_uchar v = (case number_trunc v of
      Some i \<Rightarrow> (if 0 \<le> i \<and> i \<le> 255 then ret (nat i) else throw Undef)
    | None \<Rightarrow> throw Undef)"

text \<open>The loop that reads the key: \<open>k\<close> rounds are left, the next one is for index \<open>i\<close>.\<close>

fun xor_key :: "lstate \<Rightarrow> nat \<Rightarrow> nat \<Rightarrow> nat list lua" where
  "xor_key L i 0 = ret []"
| "xor_key L i (Suc k) =
     lbind (lua_rawgeti L 2 (int i)) (\<lambda>t.
     if t \<noteq> LUA_TNUMBER then
       luaL_error L (CHR 0x60 # ''key['' @ show_nat i @ '']'' @ CHR 0x27 # '' is not a number'')
     else
       lbind (askst L last) (\<lambda>v.
       lbind (to_uchar v) (\<lambda>b.
       lbind (xor_key L (Suc i) k) (\<lambda>bs.
       ret (b # bs)))))"

text \<open>The loop that makes the output, from index \<open>i\<close> on. A \<^verbatim>\<open>char\<close> keeps the low eight bits.\<close>

fun xor_bytes :: "nat list \<Rightarrow> nat \<Rightarrow> string \<Rightarrow> string" where
  "xor_bytes key i [] = []"
| "xor_bytes key i (c # cs) = char_of (of_char c XOR key ! (i mod 4)) # xor_bytes key (Suc i) cs"

definition l_xor_apply :: "env \<Rightarrow> lstate \<Rightarrow> nat lua" where
  "l_xor_apply E L =
     lbind (luaL_checklstring E L 1) (\<lambda>input.
     seq (luaL_checktype L 2 LUA_TTABLE)
    (lbind (luaL_len E L 2) (\<lambda>n.
     seq (luaL_argcheck (n = 4) 2 (CHR 0x60 # ''key'' @ CHR 0x27 # '' with length 4 expected''))
    (lbind (xor_key L 1 4) (\<lambda>key.
     seq (lua_pop L 4)
    (lbind (ccall_rc E ''malloc'' [AInt (int (length input))]) (\<lambda>output.
     if output = 0 then fatal E L ''malloc'' (const E ''ENOMEM'')
     else
       seq (lua_pushstring L (xor_bytes key 0 input))
      (seq (ccall E ''free'' [AInt output])
       (ret 1)))))))))"

definition l_xor_funcs :: "(string \<times> cfunction) list" where
  "l_xor_funcs = [(''apply'', l_xor_apply)]"

definition luaopen_xor :: "(string \<times> field) list" where
  "luaopen_xor = luaL_newlib l_xor_funcs"

section \<open>Applying a key twice\<close>

lemma xor_bytes_length [simp]: "length (xor_bytes key i s) = length s"
  by (induction s arbitrary: i) simp_all

lemma xor_less_256:
  assumes "a < 256" and "b < (256 :: nat)"
  shows "a XOR b < 256"
proof -
  have "take_bit 8 (a XOR b) = take_bit 8 a XOR take_bit 8 b" by (rule take_bit_xor)
  also have "\<dots> = a XOR b" using assms by (simp add: take_bit_nat_eq_self)
  finally have "a XOR b = take_bit 8 (a XOR b)" by simp
  moreover have "take_bit 8 (a XOR b) < 2 ^ 8" by (rule take_bit_nat_less_exp)
  ultimately show ?thesis by simp
qed

lemma char_xor_twice:
  fixes k :: nat
  assumes "k < 256"
  shows "char_of (of_char (char_of (of_char c XOR k) :: char) XOR k) = (c :: char)"
proof -
  have "(of_char c :: nat) XOR k < 256"
    using assms by (intro xor_less_256) simp_all
  then have "of_char (char_of ((of_char c :: nat) XOR k) :: char) = (of_char c :: nat) XOR k"
    by simp
  then show ?thesis by (simp only: xor.assoc) simp
qed

lemma xor_bytes_twice:
  assumes "length key = 4" and "\<forall>k \<in> set key. k < 256"
  shows "xor_bytes key i (xor_bytes key i s) = s"
proof (induction s arbitrary: i)
  case (Cons c s)
  have "key ! (i mod 4) < 256" using assms by simp
  with Cons char_xor_twice [of "key ! (i mod 4)" c] show ?case by (simp del: of_char_of)
qed simp

lemma xor_key_run:
  assumes "stacks w L = Some (a # LTable t # s)" and "tabs w t = Some tb"
    and "length ks = k" and "\<And>j. j < k \<Longrightarrow> tget tb (int (i + j)) = LInteger (ks ! j)"
    and "\<forall>b \<in> set ks. 0 \<le> b \<and> b < 256"
  shows "xor_key L i k w = (Inr (map nat ks), setst L (a # LTable t # s @ map LInteger ks) w)"
  using assms
proof (induction k arbitrary: i ks s w)
  case 0
  then show ?case by (simp add: setst_same)
next
  case (Suc k)
  then obtain b bs where ks: "ks = b # bs" by (cases ks) auto
  have tg: "tget tb (int i) = LInteger b" using Suc.prems(4) [of 0] ks by simp
  have "xor_key L (Suc i) k (setst L (a # LTable t # s @ [LInteger b]) w) =
      (Inr (map nat bs), setst L (a # LTable t # (s @ [LInteger b]) @ map LInteger bs)
        (setst L (a # LTable t # s @ [LInteger b]) w))"
    by (rule Suc.IH) (use Suc.prems ks Suc.prems(4) [of "Suc _"] in \<open>auto\<close>)
  with Suc.prems tg ks show ?case
    by (simp add: lua_rawgeti_def tab_at_def to_uchar_def number_trunc_def lua_run)
qed

text \<open>The calls that allocate a buffer of \<open>n\<close> bytes and free it.\<close>

definition buffer_calls :: "env \<Rightarrow> int \<Rightarrow> ecall list \<Rightarrow> ecall list" where
  "buffer_calls E n tr = (''free'', [AInt (rc (reply E tr (''malloc'', [AInt n])))])
     # (''malloc'', [AInt n]) # tr"

lemma xor_apply_run:
  assumes "border_ok E" and "stacks w L = Some [LString input, LTable t]" and "tabs w t = Some tb"
    and "arr tb = map LInteger ks" and "length ks = 4" and "\<forall>b \<in> set ks. 0 \<le> b \<and> b < 256"
    and "rc (reply E (trace w) (''malloc'', [AInt (int (length input))])) \<noteq> 0"
  shows "l_xor_apply E L w = (Inr 1,
           setst L [LString input, LTable t, LString (xor_bytes (map nat ks) 0 input)]
             (w\<lparr>trace := buffer_calls E (int (length input)) (trace w)\<rparr>))"
proof -
  have rep: "represents tb (map LInteger ks)" by (rule represents_arr) (auto simp: assms(4))
  have "tget tb (int (1 + j)) = LInteger (ks ! j)" if "j < 4" for j
    using tget_represents [OF rep, of j] that assms(5) by (simp add: add.commute)
  then have "xor_key L 1 4 w = (Inr (map nat ks), setst L (LString input # LTable t # [] @ map LInteger ks) w)"
    by (intro xor_key_run [where tb = tb]) (use assms in auto)
  then show ?thesis
    using assms border_represents [OF assms(1) rep]
    by (simp add: l_xor_apply_def luaL_checklstring_def luaL_checktype_def luaL_len_def luaL_argcheck_def
        tab_at_def lua_run setst_same buffer_calls_def)
qed

text \<open>
  C40. Applying a key of four bytes to a string and then to the result gives the string back, for
  every string (NUL bytes and bytes above 127 included); the result has the length of the input.
\<close>

theorem xor_apply_involution:
  assumes "border_ok E" and "stacks w L = Some [LString input, LTable t]" and "tabs w t = Some tb"
    and "arr tb = map LInteger ks" and "length ks = 4" and "\<forall>b \<in> set ks. 0 \<le> b \<and> b < 256"
    and "\<And>tr n. rc (reply E tr (''malloc'', [AInt n])) \<noteq> 0"
  shows "\<exists>out w1 w2. l_xor_apply E L w = (Inr 1, w1)
       \<and> stacks w1 L = Some [LString input, LTable t, LString out] \<and> length out = length input
       \<and> l_xor_apply E L (setst L [LString out, LTable t] w1) = (Inr 1, w2)
       \<and> stacks w2 L = Some [LString out, LTable t, LString input]"
proof -
  let ?out = "xor_bytes (map nat ks) 0 input"
  let ?w1 = "setst L [LString input, LTable t, LString ?out]
      (w\<lparr>trace := buffer_calls E (int (length input)) (trace w)\<rparr>)"
  have twice: "xor_bytes (map nat ks) 0 ?out = input"
    using assms(5,6) by (intro xor_bytes_twice) auto
  have 1: "l_xor_apply E L w = (Inr 1, ?w1)"
    by (rule xor_apply_run) (use assms in auto)
  have 2: "l_xor_apply E L (setst L [LString ?out, LTable t] ?w1) =
      (Inr 1, setst L [LString ?out, LTable t, LString (xor_bytes (map nat ks) 0 ?out)]
        ((setst L [LString ?out, LTable t] ?w1)
          \<lparr>trace := buffer_calls E (int (length ?out)) (trace (setst L [LString ?out, LTable t] ?w1))\<rparr>))"
    by (rule xor_apply_run [where tb = tb]) (use assms in auto)
  from 1 2 show ?thesis by (auto simp: twice)
qed

definition xor_world :: world where
  "xor_world = (world0 [1 \<mapsto> [LString ''hi'', LTable 2]])
     \<lparr>tabs := [2 \<mapsto> empty_table\<lparr>arr := map LInteger [1, 200, 0, 255]\<rparr>]\<rparr>"

theorem xor_apply_involution_witness:
  "\<exists>out w1 w2. l_xor_apply env0 1 xor_world = (Inr 1, w1)
       \<and> stacks w1 1 = Some [LString ''hi'', LTable 2, LString out] \<and> length out = length ''hi''
       \<and> l_xor_apply env0 1 (setst 1 [LString out, LTable 2] w1) = (Inr 1, w2)
       \<and> stacks w2 1 = Some [LString out, LTable 2, LString ''hi'']"
  by (rule xor_apply_involution [OF border_ok_env0, where ks = "[1, 200, 0, 255]"
        and tb = "empty_table\<lparr>arr := map LInteger [1, 200, 0, 255]\<rparr>"])
    (simp_all add: xor_world_def)

text \<open>
  Key values outside 0 to 255 are not checked: with such an integer as the first element of a
  key of four numbers, the conversion to \<^verbatim>\<open>unsigned char\<close> is undefined behaviour of C.
\<close>

theorem xor_key_out_of_range:
  assumes "border_ok E" and "stacks w L = Some [LString input, LTable t]" and "tabs w t = Some tb"
    and "arr tb = map LInteger (k # ks)" and "length ks = 3" and "k < 0 \<or> 255 < k"
  shows "fst (l_xor_apply E L w) = Inl Undef"
proof -
  have rep: "represents tb (map LInteger (k # ks))" by (rule represents_arr) (auto simp: assms(4))
  have "tget tb 1 = LInteger k" using tget_represents [OF rep, of 0] by simp
  then have "xor_key L 1 4 w = (Inl Undef, setst L [LString input, LTable t, LInteger k] w)"
    using assms(2,3,6)
    by (auto simp: eval_nat_numeral lua_rawgeti_def tab_at_def to_uchar_def number_trunc_def lua_run)
  then show ?thesis
    using assms border_represents [OF assms(1) rep]
    by (simp add: l_xor_apply_def luaL_checklstring_def luaL_checktype_def luaL_len_def luaL_argcheck_def
        tab_at_def lua_run)
qed

definition xor_bad_world :: world where
  "xor_bad_world = (world0 [1 \<mapsto> [LString ''hi'', LTable 2]])
     \<lparr>tabs := [2 \<mapsto> empty_table\<lparr>arr := map LInteger [256, 0, 0, 0]\<rparr>]\<rparr>"

theorem xor_key_out_of_range_witness: "fst (l_xor_apply env0 1 xor_bad_world) = Inl Undef"
  by (rule xor_key_out_of_range [OF border_ok_env0, where k = 256 and ks = "[0, 0, 0]" and t = 2
        and tb = "empty_table\<lparr>arr := map LInteger [256, 0, 0, 0]\<rparr>"])
    (simp_all add: xor_bad_world_def)

end
