(* ===== verification/B64.thy ===== *)
theory B64
  imports Utils
begin

text \<open>
  \<^verbatim>\<open>b64/lua_b64.c\<close>: Base64 by the functions \<^verbatim>\<open>b64_ntop\<close> and \<^verbatim>\<open>b64_pton\<close> of libc. They are not part of the
  repository and are parameters here: \<open>ntop\<close> takes the data and the size of the target buffer and
  gives the text, \<open>pton\<close> takes the text (a C string) and the size and gives the data; \<open>None\<close> stands
  for the return value -1.
\<close>

section \<open>Definitions\<close>

record b64 =
  ntop :: "string \<Rightarrow> int \<Rightarrow> string option"
  pton :: "string \<Rightarrow> int \<Rightarrow> string option"

text \<open>\<^verbatim>\<open>size_t\<close> arithmetic wraps around.\<close>

definition encode_buflen :: "int \<Rightarrow> int" where
  "encode_buflen datalen = to_size_t (to_size_t (4 * (datalen + 2)) div 3 + 1)"

definition decode_buflen :: "int \<Rightarrow> int" where
  "decode_buflen enclen = to_size_t (3 * enclen) div 4"

text \<open>
  \<^verbatim>\<open>len = b64_ntop(\<dots>)\<close> and \<^verbatim>\<open>lua_pushlstring(L, buf, len)\<close> for the bytes \<open>out\<close> that libc left in the
  buffer: the length goes through an \<^verbatim>\<open>int\<close>, and a negative one is a size beyond any buffer.
\<close>

definition push_len :: "lstate \<Rightarrow> string \<Rightarrow> unit lua" where
  "push_len L out = (let len = to_int (int (length out)) in
     if len < 0 then throw Undef else lua_pushstring L (take (nat len) out))"

definition l_b64_encode :: "b64 \<Rightarrow> env \<Rightarrow> lstate \<Rightarrow> nat lua" where
  "l_b64_encode B E L =
     lbind (luaL_checklstring E L 1) (\<lambda>data.
     let buflen = encode_buflen (int (length data)) in
     lbind (ccall_rc E ''malloc'' [AInt buflen]) (\<lambda>buf.
     if buf = 0 then fatal E L ''malloc'' (const E ''ENOMEM'')
     else (case ntop B data buflen of
         None \<Rightarrow> throw AssertFailed
       | Some enc \<Rightarrow>
           seq (push_len L enc)
          (seq (ccall E ''free'' [AInt buf])
           (ret 1)))))"

definition l_b64_decode :: "b64 \<Rightarrow> env \<Rightarrow> lstate \<Rightarrow> nat lua" where
  "l_b64_decode B E L =
     lbind (luaL_checklstring E L 1) (\<lambda>encoded.
     let buflen = decode_buflen (int (length encoded)) in
     lbind (ccall_rc E ''malloc'' [AInt buflen]) (\<lambda>buf.
     if buf = 0 then fatal E L ''malloc'' (const E ''ENOMEM'')
     else (case pton B (cstr encoded) buflen of
         None \<Rightarrow>
           seq (ccall E ''free'' [AInt buf])
           (fail E L (const E ''EINVAL''))
       | Some data \<Rightarrow>
           seq (push_len L data)
          (seq (ccall E ''free'' [AInt buf])
           (ret 1)))))"

definition l_b64_funcs :: "b64 \<Rightarrow> (string \<times> cfunction) list" where
  "l_b64_funcs B =
     [(''encode'', l_b64_encode B),
      (''decode'', l_b64_decode B)]"

definition luaopen_b64 :: "b64 \<Rightarrow> (string \<times> field) list" where
  "luaopen_b64 B = luaL_newlib (l_b64_funcs B)"

section \<open>The contract of libc\<close>

text \<open>
  Every three bytes make four characters, the last group is filled up; the text and its
  terminating NUL must fit in the target. Decoding a text gives the data back if the target has
  room for three bytes for every four characters. No character is a NUL.
\<close>

definition b64_ok :: "b64 \<Rightarrow> bool" where
  "b64_ok B \<longleftrightarrow>
     (\<forall>data n. int (4 * ((length data + 2) div 3)) < n \<longrightarrow>
        (\<exists>enc. ntop B data n = Some enc \<and> length enc = 4 * ((length data + 2) div 3)
           \<and> CHR 0x00 \<notin> set enc
           \<and> (\<forall>n'. int (3 * (length enc div 4)) \<le> n' \<longrightarrow> pton B enc n' = Some data)))"

section \<open>Buffers are large enough\<close>

lemma encode_buflen_enough:
  assumes "n < 2 ^ 61"
  shows "int (4 * ((n + 2) div 3)) < encode_buflen (int n)"
proof -
  have 1: "to_size_t (4 * (int n + 2)) = 4 * (int n + 2)"
    by (rule to_size_t_id) (use assms in simp_all)
  have 2: "to_size_t (4 * (int n + 2) div 3 + 1) = 4 * (int n + 2) div 3 + 1"
    by (rule to_size_t_id) (use assms in simp_all)
  have "4 * ((int n + 2) div 3) < 4 * (int n + 2) div 3 + 1" by presburger
  moreover have "int (4 * ((n + 2) div 3)) = 4 * ((int n + 2) div 3)"
    by (simp add: of_nat_div)
  ultimately show ?thesis unfolding encode_buflen_def 1 2 by simp
qed

lemma decode_buflen_enough:
  assumes "n < 2 ^ 61" and "n mod 4 = 0"
  shows "int (3 * (n div 4)) \<le> decode_buflen (int n)"
proof -
  have "to_size_t (3 * int n) = 3 * int n"
    by (rule to_size_t_id) (use assms(1) in simp_all)
  then show ?thesis
    unfolding decode_buflen_def by (simp add: zdiv_int)
qed

lemma push_len_run [lua_run]:
  "stacks w L = Some s \<Longrightarrow> length out < 2 ^ 31 \<Longrightarrow>
   push_len L out w = (Inr (), setst L (s @ [LString out]) w)"
  by (simp add: push_len_def to_int_id lua_run)

lemma cstr_id: "CHR 0x00 \<notin> set s \<Longrightarrow> cstr s = s"
  by (auto simp: cstr_def)

text \<open>
  Encoding any string (of fewer than \<open>2 ^ 30\<close> bytes) never fails the assertion that the buffer
  is large enough, and decoding the result gives the string back.
\<close>

theorem b64_roundtrip:
  assumes "b64_ok B" and "stacks w L = Some [LString data]" and "length data < 2 ^ 30"
    and "\<And>tr n. rc (reply E tr (''malloc'', [AInt n])) \<noteq> 0"
  shows "\<exists>enc w1 w2. l_b64_encode B E L w = (Inr 1, w1) \<and> stacks w1 L = Some [LString data, LString enc]
       \<and> l_b64_decode B E L (setst L [LString enc] w1) = (Inr 1, w2)
       \<and> stacks w2 L = Some [LString enc, LString data]"
proof -
  let ?n = "4 * ((length data + 2) div 3)"
  from assms(1,3) encode_buflen_enough [of "length data"] obtain enc
    where enc: "ntop B data (encode_buflen (int (length data))) = Some enc" "length enc = ?n"
      "CHR 0x00 \<notin> set enc"
      and decoded: "\<And>n'. int (3 * (length enc div 4)) \<le> n' \<Longrightarrow> pton B enc n' = Some data"
    unfolding b64_ok_def by force
  have "pton B enc (decode_buflen (int (length enc))) = Some data"
    by (rule decoded) (rule decode_buflen_enough, use assms(3) enc(2) in auto)
  moreover have "length enc < 2 ^ 31" and "length data < 2 ^ 31" using enc(2) assms(3) by simp_all
  ultimately show ?thesis using assms(2,4) enc cstr_id [OF enc(3)]
    by (simp add: l_b64_encode_def l_b64_decode_def luaL_checklstring_def lua_run)
qed

text \<open>
  The contract can be met: groups of three bytes as four values below 64, 64 for the filling,
  shown as characters from \<^verbatim>\<open>0\<close> on.
\<close>

fun sextets :: "nat list \<Rightarrow> nat list" where
  "sextets [] = []"
| "sextets [a] = [a div 4, a mod 4 * 16, 64, 64]"
| "sextets [a, b] = [a div 4, a mod 4 * 16 + b div 16, b mod 16 * 4, 64]"
| "sextets (a # b # c # r) =
     [a div 4, a mod 4 * 16 + b div 16, b mod 16 * 4 + c div 64, c mod 64] @ sextets r"

fun octets :: "nat list \<Rightarrow> nat list" where
  "octets (p # q # r # s # t) =
     (if r = 64 then [p * 4 + q div 16]
      else if s = 64 then [p * 4 + q div 16, q mod 16 * 16 + r div 4]
      else [p * 4 + q div 16, q mod 16 * 16 + r div 4, r mod 4 * 64 + s] @ octets t)"
| "octets _ = []"

lemma octets_sextets: "\<forall>x \<in> set xs. x < 256 \<Longrightarrow> octets (sextets xs) = xs"
proof (induction xs rule: sextets.induct)
  case (2 a)
  then show ?case by simp
next
  case (3 a b)
  then have "b div 16 < 16" and "b mod 16 * 4 \<noteq> 64" by auto
  with 3 show ?case by simp
next
  case (4 a b c r)
  then have "b div 16 < 16" and "c div 64 < 4" by auto
  moreover have "b mod 16 < 16" by simp
  then have "b mod 16 * 4 + c div 64 \<noteq> 64" using \<open>c div 64 < 4\<close> by linarith
  moreover have "c mod 64 \<noteq> 64" using mod_less_divisor [of 64 c] by linarith
  ultimately show ?case using 4 by simp
qed simp

lemma sextets_length: "length (sextets xs) = 4 * ((length xs + 2) div 3)"
proof (induction xs rule: sextets.induct)
  case (4 a b c r)
  have "(length r + 5) div 3 = (length r + 2) div 3 + 1" by presburger
  with 4 show ?case by (simp add: add.commute)
qed simp_all

lemma sextets_bound: "\<forall>x \<in> set xs. x < 256 \<Longrightarrow> y \<in> set (sextets xs) \<Longrightarrow> y \<le> 64"
  by (induction xs rule: sextets.induct) auto

definition b64_demo :: b64 where
  "b64_demo = \<lparr>
     ntop = (\<lambda>data n. if int (4 * ((length data + 2) div 3)) < n
               then Some (map (\<lambda>x. char_of (x + 48)) (sextets (map of_char data))) else None),
     pton = (\<lambda>enc n. Some (map char_of (octets (map (\<lambda>c. of_char c - 48) enc))))\<rparr>"

lemma b64_ok_demo: "b64_ok b64_demo"
proof -
  have dec: "map char_of (octets (map (\<lambda>c. of_char c - 48)
      (map (\<lambda>x. char_of (x + 48) :: char) (sextets (map of_char data))))) = data" for data
  proof -
    have "map (\<lambda>c. of_char c - 48) (map (\<lambda>x. char_of (x + 48) :: char) (sextets (map of_char data)))
        = sextets (map of_char data)"
      using sextets_bound [of "map of_char data"] by (fastforce intro!: map_idI)
    then show ?thesis by (simp add: octets_sextets o_def)
  qed
  have nul: "CHR 0x00 \<notin> set (map (\<lambda>x. char_of (x + 48)) (sextets (map of_char data)))" for data
  proof
    assume "CHR 0x00 \<in> set (map (\<lambda>x. char_of (x + 48)) (sextets (map of_char data)))"
    then obtain x where x: "x \<in> set (sextets (map of_char data))" "char_of (x + 48) = CHR 0x00" by auto
    have "(of_char (char_of (x + 48) :: char) :: nat) = 0" using x(2) by simp
    moreover have "x \<le> 64" by (rule sextets_bound [OF _ x(1)]) auto
    ultimately show False by simp
  qed
  show ?thesis
    unfolding b64_ok_def b64_demo_def using dec nul by (auto simp: sextets_length)
qed

theorem b64_roundtrip_witness:
  "\<exists>enc w1 w2. l_b64_encode b64_demo env0 1 (world0 [1 \<mapsto> [LString ''Lua'']]) = (Inr 1, w1)
       \<and> stacks w1 1 = Some [LString ''Lua'', LString enc]
       \<and> l_b64_decode b64_demo env0 1 (setst 1 [LString enc] w1) = (Inr 1, w2)
       \<and> stacks w2 1 = Some [LString enc, LString ''Lua'']"
  by (rule b64_roundtrip [OF b64_ok_demo]) simp_all

end
