(* ===== verification/Spec2Isabelle.thy ===== *)
theory Spec2Isabelle
  imports Pthread_Methods Pthread_Cleanup Eventfd Procdesc Inotify Mqueue Nv_Walk Aio_Methods Event Dirent Extattr Sysctl Acl Mac Capsicum
    Unistd_Calls Unistd_Loops Xor B64
begin

text \<open>
  \<^bold>\<open>Verification of flualibs\<close>, Lua 5.4 modules that bind FreeBSD libraries and system calls.

  \<^bold>\<open>The program.\<close> Each module under \<^verbatim>\<open>src/\<close> is a set of C functions of type \<^verbatim>\<open>lua_CFunction\<close>: they take
  their arguments from the stack of a \<^verbatim>\<open>lua_State\<close>, call a C library, and push their results.
  Registration tables (\<^verbatim>\<open>luaL_Reg\<close>) say under which name a Lua program reaches them; \<^verbatim>\<open>utils.h\<close> holds what
  the modules share (result conventions, wrapper userdata with a cookie, packing of values). The
  largest program logic is in \<^verbatim>\<open>libpthread/lua_pthread.c\<close>: threads with a Lua state each, values copied
  between states, reference-counted objects that many states share, a rendezvous, a stack of
  cleanup handlers. Other modules own file descriptors, decode kernel structures or compute on sets.

  \<^bold>\<open>How C is modelled.\<close> A C function is a computation \<open>world \<Rightarrow> (exc + 'a) \<times> world\<close>
  (\<^verbatim>\<open>Flua_Prelude\<close>): it returns a value, or it does not return (a Lua error, a failed assertion,
  \<^verbatim>\<open>pthread_exit\<close>, undefined behaviour of C or of an API function, recursion without end), and it leaves
  a world in both cases. \<^verbatim>\<open>World\<close> is the state record: the stacks of the live Lua states, tables,
  userdata, closures, the C heap of reference-counted structs, the registry entry of the cleanup
  stack, and the trace of all external calls. Lua is the host language: \<^verbatim>\<open>Lua_Api\<close> gives the functions of
  its C API the meaning of chapters 4 and 5 of the Lua 5.4 manual, with \<open>Undef\<close> for calls outside
  their contract. What the manual leaves open and every library outside the repository is the
  parameter \<open>env\<close>: \<open>reply\<close> answers an external call from the history of calls, \<open>border\<close> picks the length
  of a table with holes, \<open>lcall\<close> is a call of a Lua function, \<open>block\<close> what other threads do while this
  one waits, \<open>bufslot\<close> whether a string buffer takes a stack slot, \<open>cdepth\<close> how deep the C stack is.
  Hypotheses about them state documented behaviour (\<open>border_ok\<close>, \<open>rely\<close>, \<open>sync_ok\<close>, \<open>create_ok\<close>, \<open>b64_ok\<close>,
  \<open>stores_number_arrays\<close>, \<open>mtables_ok\<close>, \<open>reads_at_most\<close>, \<open>keeps_value\<close>, \<open>next_names\<close>,
  the locales \<open>bitset\<close> and \<open>right_sets\<close>), and every property with a hypothesis has a witness that meets it.

  \<^bold>\<open>Which theory models what.\<close>
  \<^item> \<^verbatim>\<open>Utils\<close>: \<^verbatim>\<open>utils.h\<close>; \<^verbatim>\<open>Refcount\<close>: \<^verbatim>\<open>libpthread/refcount.h\<close> (64-bit words, wrapping).
  \<^item> \<^verbatim>\<open>Pthread_Copy\<close>: \<^verbatim>\<open>copyn\<close> of \<^verbatim>\<open>libpthread/lua_pthread.c\<close>; a \<^verbatim>\<open>copied\<close> relation is its specification.
  \<^item> \<^verbatim>\<open>Pthread_Thread\<close>, \<^verbatim>\<open>Pthread_Sync\<close>, \<^verbatim>\<open>Pthread_Rendezvous\<close>, \<^verbatim>\<open>Pthread_Lib\<close>: the rest of that file, one
    definition per C function under its own name: threads and attributes; once, mutex, cond, rwlock,
    key and barrier objects; the rendezvous; the registration tables and \<^verbatim>\<open>luaopen_pthread\<close>.
  \<^item> \<^verbatim>\<open>Pthread_Memory\<close>, \<^verbatim>\<open>Pthread_Refs\<close>, \<^verbatim>\<open>Pthread_Objects\<close>, \<^verbatim>\<open>Pthread_Sharing\<close>, \<^verbatim>\<open>Pthread_System\<close>: memory
    safety. The invariant \<open>rc_inv\<close> says that every wrapper holds a live, initialised object of its
    kind and that an object's count is the number of its wrappers. The locale \<open>refcounted\<close> is the
    interface \<^verbatim>\<open>cookie\<close>/\<^verbatim>\<open>retain\<close>/\<^verbatim>\<open>__gc\<close>, interpreted for all eight kinds; \<open>pthread_step\<close> is a program that
    calls registered functions in any order from any state, and its reachable worlds keep the
    invariant.
  \<^item> \<^verbatim>\<open>Pthread_Methods\<close>: every registered method checks its object first, reports library errors by
    the conventions, and (for the direct methods) has no undefined behaviour in a reachable world.
  \<^item> \<^verbatim>\<open>Pthread_Life\<close>, \<^verbatim>\<open>Pthread_Cleanup\<close>: creating, running and joining a thread end to end; the cleanup
    stack; once controls.
  \<^item> \<^verbatim>\<open>Fd_Object\<close>: the locale \<open>fd_owner\<close> of objects that own a descriptor, interpreted in \<^verbatim>\<open>Eventfd\<close>
    (\<^verbatim>\<open>sys/eventfd/lua_eventfd.c\<close>), \<^verbatim>\<open>Procdesc\<close> (\<^verbatim>\<open>sys/procdesc/lua_procdesc.c\<close>) and \<^verbatim>\<open>Inotify\<close>
    (\<^verbatim>\<open>sys/inotify/lua_inotify.c\<close>, whose \<^verbatim>\<open>read\<close> decodes a buffer of events of variable size).
  \<^item> \<^verbatim>\<open>Cpuset\<close>: \<^verbatim>\<open>sys/cpuset\<close>; the macros of bitset(9) are the locale \<open>bitset\<close>, interpreted on the bits
    of an integer; every method is the operation on sets of CPUs that its name says.
  \<^item> \<^verbatim>\<open>Signal\<close> (\<^verbatim>\<open>checksigevent\<close> of \<^verbatim>\<open>signal/lua_signal.h\<close>) and \<^verbatim>\<open>Mqueue\<close> (\<^verbatim>\<open>mqueue/lua_mqueue.c\<close>): message
    queues; the descriptor is in the block of the userdata.
  \<^item> \<^verbatim>\<open>Nv_Core\<close>, \<^verbatim>\<open>Nv_List\<close>, \<^verbatim>\<open>Nv_Const\<close>: \<^verbatim>\<open>libnv/lua_nv.h\<close> and \<^verbatim>\<open>libnv/lua_nv.c\<close>, name/value lists: what all
    wrappers share, the methods of owned lists, those of lists inside lists and of cookies with the
    tables. \<^verbatim>\<open>Nv_Guard\<close> proves over all registered functions that the library is never called where it
    would abort; \<^verbatim>\<open>Nv_Lists\<close>, \<^verbatim>\<open>Nv_Arrays\<close>, \<^verbatim>\<open>Nv_Walk\<close> are about ownership, arrays and walking.
  \<^item> \<^verbatim>\<open>Resources\<close>: what a computation leaves alone (the locales \<open>stack_frame\<close> and \<open>lua_frame\<close> of the parts of the
    world that functions on the stack, or all of the API of Lua, do not touch, interpreted for the trace, the userdata and
    the requests of \<^verbatim>\<open>aio\<close>), and the balance
    of allocations and frees. \<^verbatim>\<open>Uio\<close>: \<^verbatim>\<open>sys/uio/lua_uio.h\<close> and \<^verbatim>\<open>sys/uio/lua_uio.c\<close>, which leak nothing.
  \<^item> \<^verbatim>\<open>Aio\<close>: \<^verbatim>\<open>aio/lua_aio.c\<close>, asynchronous requests with a state that says who owns the buffer; \<^verbatim>\<open>Aio_State\<close>
    is the invariant of these states over all functions, \<^verbatim>\<open>Aio_Methods\<close> what each method does: submission,
    completion, the end of a pending request.
  \<^item> \<^verbatim>\<open>Handle\<close>: the locale \<open>handle_owner\<close> of userdata that own a handle with a function that closes it and a
    finalizer, interpreted in \<^verbatim>\<open>Event\<close> (\<^verbatim>\<open>sys/event/lua_event.c\<close>, kernel event queues) and \<^verbatim>\<open>Dirent\<close>
    (\<^verbatim>\<open>dirent/lua_dirent.c\<close>, directory streams).
  \<^item> \<^verbatim>\<open>Extattr\<close>: \<^verbatim>\<open>sys/extattr/lua_extattr.c\<close>, extended attributes: the loop over a growing buffer, the lists
    of names.
  \<^item> \<^verbatim>\<open>Sysctl\<close>: \<^verbatim>\<open>sys/sysctl/lua_sysctl.c\<close>: who owns the strings of a mib, values in the integer types of C, walks
    over the tree of names.
  \<^item> \<^verbatim>\<open>Typed\<close>: rules to show that a library gets pointers of the types it takes, from live wrappers, and that parts
    of an object keep it alive; used for \<^verbatim>\<open>Acl\<close>: \<^verbatim>\<open>sys/acl/lua_acl.c\<close>, access control lists, their entries, and the sets
    of flags and permissions in an entry; and for \<^verbatim>\<open>Mac\<close>: \<^verbatim>\<open>sys/mac/lua_mac.c\<close>, labels of mandatory access control.
  \<^item> \<^verbatim>\<open>Capsicum\<close>: \<^verbatim>\<open>sys/capsicum/lua_capsicum.c\<close> and \<^verbatim>\<open>capsicum_helpers/lua_capsicum_helpers.c\<close>; the functions of libc
    on rights are the locale \<open>right_sets\<close>, interpreted on the bits of two words; every method is the operation on
    sets that its name says.
  \<^item> \<^verbatim>\<open>Loops\<close>: loops that go on until a call is content, with rules for what they keep and that they end.
    \<^verbatim>\<open>Unistd\<close>: \<^verbatim>\<open>unistd/lua_unistd.c\<close>, 123 functions with a few ways to report a result. \<^verbatim>\<open>Unistd_Calls\<close>: they leak
    nothing and report failures in one way; \<^verbatim>\<open>Unistd_Loops\<close>: the loops over growing buffers end.
  \<^item> \<^verbatim>\<open>Xor\<close> and \<^verbatim>\<open>B64\<close>: \<^verbatim>\<open>xor/lua_xor.c\<close>, and \<^verbatim>\<open>b64/lua_b64.c\<close> over the functions of libc.

  \<^bold>\<open>What the theorems show.\<close> The correctness of the pthread objects (no use after free, exact counts,
  freed with the last wrapper), of copying, creating, joining and meeting; round trips; that closing
  happens once; that decoding gives what the kernel stored and ends on any input. Where the code
  does not do what it means to, the theorem states what it does: explicit \<^verbatim>\<open>__gc\<close>, failure paths of
  \<^verbatim>\<open>create\<close>, results of \<^verbatim>\<open>cleanup.pop\<close> and \<^verbatim>\<open>timedexchange\<close>, once controls, spurious wakeups, recursive
  functions in \<^verbatim>\<open>copyn\<close>, unchecked indices of CPUs, attributes and buffers of message queues,
  the trailing byte of \<^verbatim>\<open>confstr\<close>, nested lists, arrays of lists and cookies of name/value lists, an early \<^verbatim>\<open>_return\<close> and a double release
  of requests, \<^verbatim>\<open>listio\<close>.

  \<^bold>\<open>Bounds and fuel.\<close> \<^verbatim>\<open>copyn\<close> recurses at most \<open>cdepth\<close> deep, and \<open>NoFuel\<close> is the end of the C stack; the
  theorems on successful copies need depth 2 for plain values and functions with plain upvalues.
  The loop of \<^verbatim>\<open>inotify\<close> has as many rounds as bytes, which is shown to suffice for every reply. The
  loops of \<^verbatim>\<open>unistd\<close>, \<^verbatim>\<open>extattr\<close> and \<^verbatim>\<open>sysctl\<close> that may go on for ever have no bound in the model; they end under
  conditions on the replies. Other loops run over a number of values known in advance. Numbers of values that pass through a C
  \<^verbatim>\<open>int\<close> are below \<open>2 ^ 31\<close>; fewer than \<open>2 ^ 64\<close> wrappers exist at a time.

  \<^bold>\<open>Not modelled.\<close> Metamethods of arguments, the size limit of the Lua stack (\<^verbatim>\<open>lua_checkstack\<close>) and
  memory errors of Lua itself; memory orders of atomics; \<^verbatim>\<open>luaL_addlstring\<close> through \<^verbatim>\<open>buffer_writer\<close>
  with values above the buffer (section 5.1 of the manual asks for a balanced stack); the
  constructor and destructor of \<^verbatim>\<open>thread_state_key\<close>, run by the dynamic linker; \<^verbatim>\<open>l_aiocb_local\<close>,
  which is not registered. The remaining modules are thin wrappers of libraries (\<^verbatim>\<open>libzfs\<close>, \<^verbatim>\<open>libifconfig\<close>
  and so on), whose behaviour is that of code outside the repository.
\<close>

section \<open>Properties that span components\<close>

lemma cpuset_arg_run:
  "stacks w L = Some st \<Longrightarrow> at st i = Some (LUserdata u) \<Longrightarrow> uds w u = Some (cpuset_object s) \<Longrightarrow>
   cpuset_arg L i w = (Inr (AInt s), w)"
  by (simp add: cpuset_arg_def ud_at_def cpuset_object_def lua_run)

lemma cpuset_out_run:
  "uds w u = Some \<lparr>meta = Some CPUSET_METATABLE, uvs = [], blk = None\<rparr> \<Longrightarrow>
   cpuset_out u s w = (Inr (), w\<lparr>uds := (uds w)(u \<mapsto> cpuset_object s)\<rparr>)"
  by (simp add: cpuset_out_def cpuset_object_def)


definition affinity_world :: world where
  "affinity_world = (world0 [1 \<mapsto> [LUserdata 3, LUserdata 4]])
     \<lparr>uds := [3 \<mapsto> wrapper PTHREAD_METATABLE 5, 4 \<mapsto> cpuset_object 6],
      mem := [5 \<mapsto> \<lparr>body = Rcthread (Some 8), refs = Some 1\<rparr>]\<rparr>"

definition affinity_env :: env where
  "affinity_env = env0\<lparr>reply := (\<lambda>tr c. \<lparr>rc = 0,
     outi = (\<lambda>_. case tr of (_, [_, AInt x]) # _ \<Rightarrow> x | _ \<Rightarrow> 0), outs = [], outv = (\<lambda>_. [])\<rparr>)\<rparr>"


end
